(* ===== verification/Prelude.thy ===== *)
theory Prelude
  imports Main "HOL-Library.Sublist" "HOL-Library.List_Lexorder" "HOL-Library.Char_ord"
    "HOL-Library.Word" "HOL-Library.AList" "HOL-Library.Multiset"
begin

text \<open>
  Shared vocabulary of the development: Go strings (byte strings, HOL \<open>string\<close>) with the
  functions of the packages \<open>strings\<close>, \<open>path\<close>, \<open>strconv\<close> and
  \<open>encoding/hex\<close> the sources call; Go error values with wrapping
  (\<open>fmt.Errorf("...: %w", err)\<close>) and \<open>errors.Is\<close>; Go maps as association lists
  whose order is the (unspecified) iteration order of \<open>range\<close>; sorting by a key as
  \<open>sort.Slice\<close> does it. The facts the component proofs share are collected in
  \<open>go_string\<close>, \<open>go_map\<close> and \<open>go_err\<close>.
\<close>

named_theorems go_string \<open>facts about the string functions\<close>
named_theorems go_map \<open>facts about maps as association lists\<close>
named_theorems go_err \<open>facts about error values\<close>

section \<open>Error values\<close>

text \<open>
  The reasons of a Kubernetes API status error the code tests with \<open>apierrors.IsNotFound\<close>,
  \<open>IsAlreadyExists\<close> and \<open>IsConflict\<close>; every other failure is \<open>OtherReason\<close>.
\<close>

datatype api_reason = NotFound | AlreadyExists | Conflict | OtherReason string

text \<open>
  Sentinel errors (\<open>errors.New\<close> at package level), API errors, \<open>fmt.Errorf\<close> without a
  wrapped error (\<open>Errorf format args\<close>) and with one (\<open>Wrapf format args err\<close>). The
  rendered text is left unrendered: format and arguments stand for it.
\<close>

datatype go_error =
    ErrPrincipalNotFound
  | ErrPodIdentityAssociationNotFound
  | ErrAccessEntryNotFound
  | ErrClusterInfoNotFound
  | ErrSelectorlessService
  | ErrServicePortNotFound
  | ErrUnsupportedServiceType
  | ApiError api_reason
  | Errorf string "string list"
  | Wrapf string "string list" go_error

fun errors_is :: "go_error \<Rightarrow> go_error \<Rightarrow> bool" where
  "errors_is (Wrapf f as e) target = (Wrapf f as e = target \<or> errors_is e target)"
| "errors_is e target = (e = target)"

text \<open>The API reason of an error, through every wrapping layer (\<open>errors.As\<close>).\<close>

fun reason_for_error :: "go_error \<Rightarrow> api_reason option" where
  "reason_for_error (ApiError r) = Some r"
| "reason_for_error (Wrapf f as e) = reason_for_error e"
| "reason_for_error _ = None"

definition is_not_found :: "go_error \<Rightarrow> bool" where
  "is_not_found e \<longleftrightarrow> reason_for_error e = Some NotFound"

definition is_already_exists :: "go_error \<Rightarrow> bool" where
  "is_already_exists e \<longleftrightarrow> reason_for_error e = Some AlreadyExists"

definition is_conflict :: "go_error \<Rightarrow> bool" where
  "is_conflict e \<longleftrightarrow> reason_for_error e = Some Conflict"

lemmas is_reason_defs = is_not_found_def is_already_exists_def is_conflict_def

declare is_reason_defs [go_err]

lemma errors_is_refl [simp]: "errors_is e e"
  by (cases e) auto

lemma errors_is_wrap [simp]: "errors_is e t \<Longrightarrow> errors_is (Wrapf f as e) t"
  by simp

section \<open>Strings\<close>

text \<open>\<open>strings.CutPrefix\<close>: \<open>None\<close> is \<open>ok = false\<close>.\<close>

definition cut_prefix :: "string \<Rightarrow> string \<Rightarrow> string option" where
  "cut_prefix p s = (if prefix p s then Some (drop (length p) s) else None)"

text \<open>\<open>strings.Cut\<close> at a one-byte separator.\<close>

definition cut_at :: "char \<Rightarrow> string \<Rightarrow> (string \<times> string) option" where
  "cut_at c s =
     (case dropWhile (\<lambda>x. x \<noteq> c) s of
        [] \<Rightarrow> None
      | _ # rest \<Rightarrow> Some (takeWhile (\<lambda>x. x \<noteq> c) s, rest))"

text \<open>\<open>strings.SplitN(s, sep, n)\<close> with a one-byte separator.\<close>

fun split_n :: "char \<Rightarrow> nat \<Rightarrow> string \<Rightarrow> string list" where
  "split_n c 0 s = []"
| "split_n c (Suc 0) s = [s]"
| "split_n c (Suc (Suc n)) s =
     (case cut_at c s of None \<Rightarrow> [s] | Some (a, b) \<Rightarrow> a # split_n c (Suc n) b)"

text \<open>\<open>strings.Split\<close> and \<open>strings.Join\<close> with a one-byte separator.\<close>

fun split_all :: "char \<Rightarrow> string \<Rightarrow> string list" where
  "split_all sep [] = [[]]"
| "split_all sep (c # cs) =
     (if c = sep then [] # split_all sep cs
      else (case split_all sep cs of [] \<Rightarrow> [[c]] | x # xs \<Rightarrow> (c # x) # xs))"

fun join_with :: "char \<Rightarrow> string list \<Rightarrow> string" where
  "join_with sep [] = []"
| "join_with sep [x] = x"
| "join_with sep (x # xs) = x @ sep # join_with sep xs"

text \<open>\<open>strings.Index\<close>: the position of the first occurrence of \<open>pat\<close>.\<close>

fun index_of :: "string \<Rightarrow> string \<Rightarrow> nat option" where
  "index_of pat [] = (if pat = [] then Some 0 else None)"
| "index_of pat (x # xs) =
     (if prefix pat (x # xs) then Some 0 else map_option Suc (index_of pat xs))"

text \<open>\<open>strings.TrimSpace\<close> on ASCII white space.\<close>

definition is_space :: "char \<Rightarrow> bool" where
  "is_space c \<longleftrightarrow> of_char c \<in> {9, 10, 11, 12, 13, 32::nat}"

definition trim_space :: "string \<Rightarrow> string" where
  "trim_space s = rev (dropWhile is_space (rev (dropWhile is_space s)))"

text \<open>\<open>path.Base\<close>.\<close>

definition path_base :: "string \<Rightarrow> string" where
  "path_base p =
     (if p = [] then ''.''
      else (let q = dropWhile (\<lambda>c. c = CHR ''/'') (rev p);
                r = rev (takeWhile (\<lambda>c. c \<noteq> CHR ''/'') q)
            in if r = [] then ''/'' else r))"

text \<open>\<open>strings.ToUpper\<close> and ASCII case folding.\<close>

definition to_upper_char :: "char \<Rightarrow> char" where
  "to_upper_char c =
     (let n = of_char c :: nat in if 97 \<le> n \<and> n \<le> 122 then char_of (n - 32) else c)"

definition to_upper :: "string \<Rightarrow> string" where
  "to_upper s = map to_upper_char s"

text \<open>Decimal rendering (\<open>%d\<close>) of a natural number.\<close>

definition digit_char :: "nat \<Rightarrow> char" where
  "digit_char d = char_of (48 + d)"

fun string_of_nat :: "nat \<Rightarrow> string" where
  "string_of_nat n =
     (if n < 10 then [digit_char n] else string_of_nat (n div 10) @ [digit_char (n mod 10)])"

declare string_of_nat.simps [simp del]

definition string_of_int :: "int \<Rightarrow> string" where
  "string_of_int i = (if i < 0 then CHR ''-'' # string_of_nat (nat (- i)) else string_of_nat (nat i))"

text \<open>The wrap-around of a 64-bit int.\<close>

definition int64 :: "int \<Rightarrow> int" where
  "int64 i = (i + 2 ^ 63) mod 2 ^ 64 - 2 ^ 63"

lemma int64_id: "- (2 ^ 63) \<le> i \<Longrightarrow> i < 2 ^ 63 \<Longrightarrow> int64 i = i"
  by (simp add: int64_def)

text \<open>
  \<open>strconv.Atoi\<close>: an optional sign, at least one decimal digit, nothing else, and a value
  that fits a 64-bit int; \<open>None\<close> is its error.
\<close>

definition digit_value :: "char \<Rightarrow> nat option" where
  "digit_value c = (let n = of_char c :: nat in if 48 \<le> n \<and> n \<le> 57 then Some (n - 48) else None)"

fun digits_value :: "int \<Rightarrow> string \<Rightarrow> int option" where
  "digits_value acc [] = Some acc"
| "digits_value acc (c # cs) =
     (case digit_value c of None \<Rightarrow> None | Some d \<Rightarrow> digits_value (10 * acc + int d) cs)"

definition in_int64 :: "int \<Rightarrow> bool" where
  "in_int64 i \<longleftrightarrow> - (2 ^ 63) \<le> i \<and> i < 2 ^ 63"

definition atoi :: "string \<Rightarrow> int option" where
  "atoi s =
     (let neg = (s \<noteq> [] \<and> hd s = CHR ''-'');
          body = (if s \<noteq> [] \<and> hd s \<in> {CHR ''-'', CHR ''+''} then tl s else s)
      in if body = [] then None
         else (case digits_value 0 body of
                 None \<Rightarrow> None
               | Some v \<Rightarrow> let r = (if neg then - v else v) in if in_int64 r then Some r else None))"

text \<open>\<open>hex.EncodeToString\<close>.\<close>

type_synonym byte = "8 word"

definition hex_digit :: "nat \<Rightarrow> char" where
  "hex_digit d = ''0123456789abcdef'' ! (d mod 16)"

definition hex_encode :: "byte list \<Rightarrow> string" where
  "hex_encode bs = concat (map (\<lambda>b. [hex_digit (unat b div 16), hex_digit (unat b)]) bs)"

subsection \<open>Facts about strings\<close>

lemma cut_prefix_append [simp, go_string]: "cut_prefix p (p @ s) = Some s"
  by (simp add: cut_prefix_def)

lemma cut_prefix_Some_iff [go_string]: "cut_prefix p s = Some r \<longleftrightarrow> s = p @ r"
  by (auto simp: cut_prefix_def prefix_def)

lemma cut_prefix_None_iff [go_string]: "cut_prefix p s = None \<longleftrightarrow> \<not> prefix p s"
  by (simp add: cut_prefix_def)

lemma cut_at_append [simp, go_string]: "c \<notin> set a \<Longrightarrow> cut_at c (a @ c # b) = Some (a, b)"
proof -
  assume "c \<notin> set a"
  then have "takeWhile (\<lambda>x. x \<noteq> c) (a @ c # b) = a" and "dropWhile (\<lambda>x. x \<noteq> c) (a @ c # b) = c # b"
    by (auto simp: takeWhile_append dropWhile_append)
  then show ?thesis by (simp add: cut_at_def)
qed

lemma cut_at_None_iff [go_string]: "cut_at c s = None \<longleftrightarrow> c \<notin> set s"
proof -
  have "cut_at c s = None \<longleftrightarrow> dropWhile (\<lambda>x. x \<noteq> c) s = []"
    unfolding cut_at_def by (simp only: split: list.split) simp
  also have "\<dots> \<longleftrightarrow> c \<notin> set s"
    by (metis (mono_tags, lifting) dropWhile_eq_Nil_conv)
  finally show ?thesis .
qed

lemma cut_at_Some_iff [go_string]:
  "cut_at c s = Some (a, b) \<longleftrightarrow> s = a @ c # b \<and> c \<notin> set a"
proof
  assume h: "cut_at c s = Some (a, b)"
  then obtain x where d: "dropWhile (\<lambda>x. x \<noteq> c) s = x # b" and a: "a = takeWhile (\<lambda>x. x \<noteq> c) s"
    by (auto simp: cut_at_def split: list.splits)
  from d have "x = c" using hd_dropWhile [of "\<lambda>x. x \<noteq> c" s] by simp
  with a d have "s = a @ c # b" using takeWhile_dropWhile_id [of "\<lambda>x. x \<noteq> c" s] by simp
  moreover have "c \<notin> set a" using a by (auto dest: set_takeWhileD)
  ultimately show "s = a @ c # b \<and> c \<notin> set a" ..
qed auto

lemma cut_at_no_sep [simp]: "c \<notin> set s \<Longrightarrow> cut_at c s = None"
  by (simp add: cut_at_None_iff)

lemma split_all_plain: "c \<notin> set s \<Longrightarrow> split_all c s = [s]"
  by (induction s) auto

lemma split_all_append: "c \<notin> set a \<Longrightarrow> split_all c (a @ c # b) = a # split_all c b"
proof (induction a)
  case (Cons x a)
  then show ?case by (cases "split_all c b") auto
qed simp

lemma split_all_ne [simp]: "split_all c s \<noteq> []"
  by (induction s) (auto split: list.splits)

lemma split_all_join: "split_all c (xs @ c # ys) = split_all c xs @ split_all c ys"
proof (induction xs)
  case (Cons x xs)
  have "split_all c xs \<noteq> []" by simp
  with Cons show ?case by (cases "split_all c xs") auto
qed simp

lemma digits_value_append:
  "digits_value acc (xs @ ys) =
   (case digits_value acc xs of None \<Rightarrow> None | Some v \<Rightarrow> digits_value v ys)"
  by (induction acc xs rule: digits_value.induct) (auto split: option.splits)

lemma digit_char_value: "d < 10 \<Longrightarrow> digit_value (digit_char d) = Some d"
  by (simp add: digit_value_def digit_char_def Let_def)

lemma digits_value_string_of_nat: "digits_value 0 (string_of_nat n) = Some (int n)"
proof (induction n rule: less_induct)
  case (less n)
  show ?case
  proof (cases "n < 10")
    case True
    then show ?thesis by (subst string_of_nat.simps) (simp add: digit_char_value)
  next
    case False
    then have "digits_value 0 (string_of_nat (n div 10)) = Some (int (n div 10))"
      by (intro less) simp
    then have "digits_value 0 (string_of_nat n) = Some (10 * int (n div 10) + int (n mod 10))"
      using False by (subst string_of_nat.simps) (simp add: digits_value_append digit_char_value)
    moreover have "10 * int (n div 10) + int (n mod 10) = int n"
      by (metis of_nat_add of_nat_mult of_nat_numeral mult_div_mod_eq)
    ultimately show ?thesis by simp
  qed
qed

lemma join_with_Cons: "xs \<noteq> [] \<Longrightarrow> join_with sep (x # xs) = x @ sep # join_with sep xs"
  by (cases xs) simp_all

lemma split_all_join_with:
  "xs \<noteq> [] \<Longrightarrow> \<forall>x \<in> set xs. sep \<notin> set x \<Longrightarrow> split_all sep (join_with sep xs) = xs"
proof (induction xs)
  case (Cons x xs)
  then show ?case by (cases xs) (simp_all add: split_all_plain split_all_append)
qed simp

lemma join_with_append:
  "xs \<noteq> [] \<Longrightarrow> ys \<noteq> [] \<Longrightarrow> join_with sep (xs @ ys) = join_with sep xs @ sep # join_with sep ys"
proof (induction xs)
  case (Cons x xs)
  then show ?case by (cases xs) (simp_all add: join_with_Cons)
qed simp

lemma length_hex_encode [simp, go_string]: "length (hex_encode bs) = 2 * length bs"
  by (induction bs) (auto simp: hex_encode_def)

lemma hex_digit_in: "hex_digit d \<in> set ''0123456789abcdef''"
  unfolding hex_digit_def by (rule nth_mem) simp

lemma hex_encode_chars: "set (hex_encode bs) \<subseteq> set ''0123456789abcdef''"
proof
  fix c assume "c \<in> set (hex_encode bs)"
  then obtain d where "c = hex_digit d" by (auto simp: hex_encode_def)
  then show "c \<in> set ''0123456789abcdef''" by (simp only: hex_digit_in)
qed

lemma hex_digit_inj: "hex_digit a = hex_digit b \<longleftrightarrow> a mod 16 = b mod 16"
proof -
  have "distinct ''0123456789abcdef''" by simp
  then show ?thesis
    unfolding hex_digit_def by (subst nth_eq_iff_index_eq) auto
qed

lemma hex_byte_inj:
  fixes a b :: byte
  assumes "hex_digit (unat a div 16) = hex_digit (unat b div 16)"
    and "hex_digit (unat a) = hex_digit (unat b)"
  shows "a = b"
proof -
  have lt: "unat a < 256" "unat b < 256"
    using unsigned_less [of a, where 'a = nat] unsigned_less [of b, where 'a = nat] by simp_all
  then have "unat a div 16 < 16" "unat b div 16 < 16" by auto
  with assms have "unat a div 16 = unat b div 16" "unat a mod 16 = unat b mod 16"
    by (auto simp: hex_digit_inj)
  then have "unat a = unat b" by (metis div_mult_mod_eq)
  then show ?thesis by (simp add: word_unat_eq_iff)
qed

lemma hex_encode_inj: "hex_encode as = hex_encode bs \<longleftrightarrow> as = bs"
proof
  show "hex_encode as = hex_encode bs \<Longrightarrow> as = bs"
  proof (induction as arbitrary: bs)
    case Nil
    then show ?case by (cases bs) (auto simp: hex_encode_def)
  next
    case (Cons a as)
    then obtain b bs' where bs: "bs = b # bs'" by (cases bs) (auto simp: hex_encode_def)
    with Cons.prems have "hex_encode as = hex_encode bs'" and "a = b"
      by (auto simp: hex_encode_def intro: hex_byte_inj)
    with Cons.IH bs show ?case by simp
  qed
qed simp

section \<open>Maps\<close>

text \<open>
  A Go map is an association list with distinct keys; the list order stands for the order in
  which one \<open>range\<close> loop happens to visit the entries.
\<close>

type_synonym ('k, 'v) go_map = "('k \<times> 'v) list"

definition map_wf :: "('k, 'v) go_map \<Rightarrow> bool" where
  "map_wf m \<longleftrightarrow> distinct (map fst m)"

definition map_set :: "'k \<Rightarrow> 'v \<Rightarrow> ('k, 'v) go_map \<Rightarrow> ('k, 'v) go_map" where
  "map_set k v m = AList.update k v m"

definition map_delete :: "'k \<Rightarrow> ('k, 'v) go_map \<Rightarrow> ('k, 'v) go_map" where
  "map_delete k m = filter (\<lambda>(k', _). k' \<noteq> k) m"

lemma map_wf_Nil [simp, go_map]: "map_wf []"
  by (simp add: map_wf_def)

lemma map_wf_set [simp, go_map]: "map_wf m \<Longrightarrow> map_wf (map_set k v m)"
  by (simp add: map_wf_def map_set_def distinct_update)

lemma map_wf_filter [simp, go_map]: "map_wf m \<Longrightarrow> map_wf (filter P m)"
  by (simp add: map_wf_def distinct_map_filter)

lemma map_wf_delete [simp, go_map]: "map_wf m \<Longrightarrow> map_wf (map_delete k m)"
  by (simp add: map_delete_def)

lemma map_of_map_set [simp, go_map]: "map_of (map_set k v m) = (map_of m)(k \<mapsto> v)"
  by (simp add: map_set_def update_conv')

lemma map_of_filter_wf [go_map]:
  "map_wf m \<Longrightarrow>
   map_of (filter P m) k = (case map_of m k of None \<Rightarrow> None | Some v \<Rightarrow> if P (k, v) then Some v else None)"
proof (induction m)
  case (Cons kv m)
  obtain k' v' where kv: "kv = (k', v')" by (cases kv)
  from Cons.prems have wf: "map_wf m" and new: "k' \<notin> fst ` set m"
    by (auto simp: map_wf_def kv)
  from new have "map_of m k' = None" by (simp add: map_of_eq_None_iff)
  with Cons.IH [OF wf] show ?case by (auto simp: kv split: option.splits)
qed simp

lemma map_of_map_delete [simp, go_map]: "map_of (map_delete k m) = (map_of m)(k := None)"
  by (induction m) (auto simp: map_delete_def fun_eq_iff)

lemma map_wf_mem_iff [go_map]: "map_wf m \<Longrightarrow> (k, v) \<in> set m \<longleftrightarrow> map_of m k = Some v"
  by (simp add: map_wf_def)

section \<open>Sorting by a key\<close>

text \<open>
  \<open>sort.Slice\<close> with a comparison by key leaves the order of equal keys open; the model is
  \<open>sort_key\<close>. Where the keys are distinct the result is determined by the elements alone,
  so every correct sort gives it, whatever order the elements came in.
\<close>

lemma sort_key_determined:
  assumes "mset ys = mset xs" and "sorted (map f ys)" and "distinct (map f xs)"
  shows "sort_key f xs = ys"
proof (rule properties_for_sort_key)
  show "mset ys = mset xs" by fact
  show "sorted (map f ys)" by fact
next
  fix k assume "k \<in> set ys"
  have dist: "distinct (map f ys)" and "distinct (map f xs)"
    using assms(1,3) by (metis distinct_count_atmost_1 mset_map set_mset_mset)+
  have *: "filter (\<lambda>x. f k = f x) zs = [z]"
    if "distinct (map f zs)" "z \<in> set zs" "f z = f k" for z zs
    using that
  proof (induction zs)
    case (Cons a zs)
    show ?case
    proof (cases "a = z")
      case True
      with Cons.prems have "filter (\<lambda>x. f k = f x) zs = []"
        by (auto simp: filter_empty_conv image_iff)
      with True Cons.prems show ?thesis by simp
    next
      case False
      with Cons.prems have "z \<in> set zs" by simp
      with Cons.prems have "f a \<noteq> f k" by (auto simp: image_iff)
      with Cons False show ?thesis by auto
    qed
  qed simp
  have "k \<in> set xs" using \<open>k \<in> set ys\<close> assms(1) by (metis set_mset_mset)
  then show "filter (\<lambda>x. f k = f x) ys = filter (\<lambda>x. f k = f x) xs"
    using * [OF dist \<open>k \<in> set ys\<close>] * [OF \<open>distinct (map f xs)\<close>] by simp
qed

lemma sort_key_perm:
  "mset xs = mset ys \<Longrightarrow> distinct (map f xs) \<Longrightarrow> sort_key f xs = sort_key f ys"
  by (rule sort_key_determined) simp_all

end
