(* ===== verification/Go_Json.thy ===== *)
theory Go_Json
  imports Prelude
begin

text \<open>
  JSON as \<open>encoding/json\<close> reads and writes it, at the level of parsed documents: a stored or
  received byte sequence is a \<open>blob\<close>, either a document or malformed text. The struct
  decoders of the components follow \<open>json.Unmarshal\<close>: keys match field names up to ASCII
  case, unknown keys are skipped, a missing key or \<open>null\<close> leaves the zero value, a later
  duplicate wins, and a value of the wrong type is an error.
\<close>

datatype json =
    JNull
  | JBool bool
  | JNum int
  | JStr string
  | JArr "json list"
  | JObj "(string \<times> json) list"

datatype blob = Doc json | Malformed

definition key_matches :: "string \<Rightarrow> string \<Rightarrow> bool" where
  "key_matches k name \<longleftrightarrow> to_upper k = to_upper name"

text \<open>The members of the object a struct is decoded from; \<open>None\<close> is a type error.\<close>

fun struct_members :: "json \<Rightarrow> (string \<times> json) list option" where
  "struct_members (JObj kvs) = Some kvs"
| "struct_members JNull = Some []"
| "struct_members _ = None"

text \<open>A field of type \<open>string\<close>; \<open>null\<close> leaves what an earlier duplicate had set.\<close>

fun str_field_from :: "string \<Rightarrow> string \<Rightarrow> (string \<times> json) list \<Rightarrow> string option" where
  "str_field_from cur name [] = Some cur"
| "str_field_from cur name ((k, v) # kvs) =
     (if key_matches k name
      then (case v of
              JStr s \<Rightarrow> str_field_from s name kvs
            | JNull \<Rightarrow> str_field_from cur name kvs
            | _ \<Rightarrow> None)
      else str_field_from cur name kvs)"

definition str_field :: "string \<Rightarrow> (string \<times> json) list \<Rightarrow> string option" where
  "str_field = str_field_from []"

text \<open>A list of decoded elements: the first failing element is an error.\<close>

fun map_result :: "('a \<Rightarrow> 'b option) \<Rightarrow> 'a list \<Rightarrow> 'b list option" where
  "map_result f [] = Some []"
| "map_result f (x # xs) =
     (case f x of
        None \<Rightarrow> None
      | Some y \<Rightarrow> (case map_result f xs of None \<Rightarrow> None | Some ys \<Rightarrow> Some (y # ys)))"

text \<open>An element of a \<open>[]string\<close>: \<open>null\<close> is the zero value.\<close>

fun str_element :: "json \<Rightarrow> string option" where
  "str_element (JStr s) = Some s"
| "str_element JNull = Some []"
| "str_element _ = None"

text \<open>A field of slice type; \<open>null\<close> makes the slice nil.\<close>

fun list_field_from ::
  "'a list \<Rightarrow> (json \<Rightarrow> 'a option) \<Rightarrow> string \<Rightarrow> (string \<times> json) list \<Rightarrow> 'a list option" where
  "list_field_from cur f name [] = Some cur"
| "list_field_from cur f name ((k, v) # kvs) =
     (if key_matches k name
      then (case v of
              JArr vs \<Rightarrow>
                (case map_result f vs of
                   None \<Rightarrow> None
                 | Some xs \<Rightarrow> list_field_from xs f name kvs)
            | JNull \<Rightarrow> list_field_from [] f name kvs
            | _ \<Rightarrow> None)
      else list_field_from cur f name kvs)"

definition list_field :: "(json \<Rightarrow> 'a option) \<Rightarrow> string \<Rightarrow> (string \<times> json) list \<Rightarrow> 'a list option" where
  "list_field = list_field_from []"

text \<open>
  A field of struct type: the members of every object under the name, in order, since a later
  duplicate is decoded into the same struct value.
\<close>

fun nested_members :: "string \<Rightarrow> (string \<times> json) list \<Rightarrow> (string \<times> json) list option" where
  "nested_members name [] = Some []"
| "nested_members name ((k, v) # kvs) =
     (if key_matches k name
      then (case (struct_members v, nested_members name kvs) of
              (Some ms, Some rest) \<Rightarrow> Some (ms @ rest)
            | _ \<Rightarrow> None)
      else nested_members name kvs)"

text \<open>Members written by \<open>json.Marshal\<close>: always, or only when not empty (\<open>omitempty\<close>).\<close>

definition str_member :: "string \<Rightarrow> string \<Rightarrow> (string \<times> json) list" where
  "str_member name s = [(name, JStr s)]"

definition str_member_omitempty :: "string \<Rightarrow> string \<Rightarrow> (string \<times> json) list" where
  "str_member_omitempty name s = (if s = [] then [] else [(name, JStr s)])"

definition strs_json :: "string list \<Rightarrow> json" where
  "strs_json xs = JArr (map JStr xs)"

definition list_member_omitempty :: "string \<Rightarrow> ('a \<Rightarrow> json) \<Rightarrow> 'a list \<Rightarrow> (string \<times> json) list" where
  "list_member_omitempty name f xs = (if xs = [] then [] else [(name, JArr (map f xs))])"

section \<open>Decoding what was encoded\<close>

named_theorems json_codec \<open>rules that run a struct decoder on an encoded struct\<close>

lemma key_matches_refl [simp]: "key_matches k k"
  by (simp add: key_matches_def)

lemma str_field_from_append [json_codec]:
  "str_field_from cur name (xs @ ys) =
     (case str_field_from cur name xs of None \<Rightarrow> None | Some s \<Rightarrow> str_field_from s name ys)"
  by (induction cur name xs rule: str_field_from.induct) (auto split: json.splits)

lemma str_field_from_skip [json_codec]:
  "(\<And>k v. (k, v) \<in> set kvs \<Longrightarrow> \<not> key_matches k name) \<Longrightarrow> str_field_from cur name kvs = Some cur"
  by (induction cur name kvs rule: str_field_from.induct) auto

lemma list_field_from_append [json_codec]:
  "list_field_from cur f name (xs @ ys) =
     (case list_field_from cur f name xs of None \<Rightarrow> None | Some s \<Rightarrow> list_field_from s f name ys)"
  by (induction cur f name xs rule: list_field_from.induct) (auto split: json.splits option.splits)

lemma map_result_map [json_codec]:
  "(\<And>x. x \<in> set xs \<Longrightarrow> dec (enc x) = Some x) \<Longrightarrow> map_result dec (map enc xs) = Some xs"
  by (induction xs) auto

lemma map_result_strs [simp, json_codec]: "map_result str_element (map JStr xs) = Some xs"
  by (rule map_result_map) simp

lemmas json_members [json_codec] =
  str_member_def str_member_omitempty_def list_member_omitempty_def strs_json_def

lemmas json_keys [json_codec] = key_matches_def to_upper_def to_upper_char_def

declare str_field_def [json_codec] list_field_def [json_codec]

end
