(* ===== verification/Http.thy ===== *)
theory Http
  imports Go_Json
begin

text \<open>
  HTTP requests and responses as the handlers of \<open>internal/agent\<close> see them: path values,
  query and form values, headers and a body on the way in; a status, headers and one body on
  the way out. An error text that quotes \<open>err.Error()\<close> keeps the error value.
\<close>

type_synonym url_values = "(string \<times> string list) list"

text \<open>\<open>url.Values.Get\<close> and \<open>http.Header.Get\<close>: the first value, or the empty string.\<close>

definition values_get :: "url_values \<Rightarrow> string \<Rightarrow> string" where
  "values_get vs k =
     (case map_of vs k of None \<Rightarrow> [] | Some [] \<Rightarrow> [] | Some (v # _) \<Rightarrow> v)"

text \<open>\<open>req_form\<close> is \<open>None\<close> when \<open>ParseForm\<close> fails on the query or the body.\<close>

record http_request =
  req_path_values :: "(string \<times> string) list"
  req_query :: url_values
  req_form :: "url_values option"
  req_header :: url_values
  req_body :: blob

text \<open>\<open>r.PathValue\<close>: the empty string for an unknown name.\<close>

definition path_value :: "http_request \<Rightarrow> string \<Rightarrow> string" where
  "path_value r k = (case map_of (req_path_values r) k of None \<Rightarrow> [] | Some v \<Rightarrow> v)"

datatype message = Msg string | MsgFmt string "string list" | MsgErr string go_error

datatype xml = XText message | XElem string "xml list"

datatype http_body = NoBody | PlainText message | ErrorMessage message | JsonBody json | XmlBody xml

record http_response =
  resp_status :: nat
  resp_headers :: "(string \<times> string) list"
  resp_body :: http_body

text \<open>\<open>http.Error\<close>.\<close>

definition http_plain_error :: "message \<Rightarrow> nat \<Rightarrow> http_response" where
  "http_plain_error m status =
     \<lparr>resp_status = status, resp_headers = [(''Content-Type'', ''text/plain; charset=utf-8'')],
      resp_body = PlainText m\<rparr>"

text \<open>\<open>w.WriteHeader(status)\<close> with no body.\<close>

definition status_only :: "nat \<Rightarrow> http_response" where
  "status_only status = \<lparr>resp_status = status, resp_headers = [], resp_body = NoBody\<rparr>"

definition write_eks_auth_error :: "nat \<Rightarrow> string \<Rightarrow> message \<Rightarrow> http_response" where
  "write_eks_auth_error status code m =
     \<lparr>resp_status = status,
      resp_headers = [(''X-Amzn-ErrorType'', code), (''Content-Type'', ''application/json'')],
      resp_body = ErrorMessage m\<rparr>"

definition write_json_response :: "json \<Rightarrow> http_response" where
  "write_json_response v =
     \<lparr>resp_status = 200, resp_headers = [(''Content-Type'', ''application/json'')],
      resp_body = JsonBody v\<rparr>"

definition ok_response :: "http_response \<Rightarrow> bool" where
  "ok_response r \<longleftrightarrow> resp_status r = 200"

named_theorems http_simps \<open>unfolding the response writers\<close>

lemmas http_writers [http_simps] =
  http_plain_error_def status_only_def write_eks_auth_error_def write_json_response_def ok_response_def

end
