(* ===== verification/Kube_Api.thy ===== *)
theory Kube_Api
  imports Go_Json
begin

text \<open>
  The part of the Kubernetes API the registries rely on: Secrets and ConfigMaps of the
  kube-system namespace, read, created and updated under optimistic locking. The API server
  and client-go are not part of this repository, so the operations are a parameter: a
  \<open>data_client\<close> over an arbitrary world \<open>'w\<close>. What the code relies on is the locale
  \<open>data_api\<close> (documented API behaviour): reads see the current object, an update whose
  resourceVersion is stale is a Conflict, other clients (\<open>env\<close>) may act before each call and
  change an object only together with its resourceVersion, and \<open>RetryOnConflict\<close> repeats an
  attempt a bounded number of times while it ends in a Conflict. \<open>ref_client\<close> at the end
  is a concrete server with a script of foreign writes that satisfies the locale.

  On top of it stand the four operations all registries of the agent share
  (\<open>internal/agent/store.go\<close>, \<open>accessentry.go\<close>): fetch, create, fetch-or-create and
  update of the backing object.
\<close>

definition SystemNamespace :: string where
  "SystemNamespace = ''kube-system''"

text \<open>A Secret or ConfigMap; a nil \<open>Data\<close> map is \<open>None\<close>.\<close>

record data_object =
  do_namespace :: string
  do_name :: string
  do_rv :: nat
  do_data :: "(string, blob) go_map option"

definition data_entries :: "data_object \<Rightarrow> (string, blob) go_map" where
  "data_entries ob = (case do_data ob of None \<Rightarrow> [] | Some m \<Rightarrow> m)"

definition object_key :: "data_object \<Rightarrow> string \<times> string" where
  "object_key ob = (do_namespace ob, do_name ob)"

record 'w data_client =
  api_get :: "string \<Rightarrow> string \<Rightarrow> 'w \<Rightarrow> (go_error + data_object) \<times> 'w"
  api_create :: "data_object \<Rightarrow> 'w \<Rightarrow> (go_error + data_object) \<times> 'w"
  api_update :: "data_object \<Rightarrow> 'w \<Rightarrow> (go_error + data_object) \<times> 'w"
  retry_on_conflict :: "('w \<Rightarrow> (go_error + unit) \<times> 'w) \<Rightarrow> 'w \<Rightarrow> (go_error + unit) \<times> 'w"

section \<open>The shared registry operations\<close>

text \<open>\<open>kind\<close> is the word the error texts use: \<open>secret\<close> or \<open>configmap\<close>.\<close>

definition get_registry ::
  "'w data_client \<Rightarrow> string \<Rightarrow> string \<Rightarrow> go_error \<Rightarrow> 'w \<Rightarrow> (go_error + data_object) \<times> 'w" where
  "get_registry c nm kind notfound w =
     (case api_get c SystemNamespace nm w of
        (Inl e, w1) \<Rightarrow>
          if is_not_found e then (Inl notfound, w1)
          else (Inl (Wrapf (''get %q '' @ kind @ '': %w'') [nm] e), w1)
      | (Inr ob, w1) \<Rightarrow> (Inr ob, w1))"

definition create_registry ::
  "'w data_client \<Rightarrow> string \<Rightarrow> string \<Rightarrow> go_error \<Rightarrow> 'w \<Rightarrow> (go_error + data_object) \<times> 'w" where
  "create_registry c nm kind notfound w =
     (let ob = \<lparr>do_namespace = SystemNamespace, do_name = nm, do_rv = 0, do_data = Some []\<rparr> in
      case api_create c ob w of
        (Inl e, w1) \<Rightarrow>
          if is_already_exists e then get_registry c nm kind notfound w1
          else (Inl (Wrapf (''create %q '' @ kind @ '': %w'') [nm] e), w1)
      | (Inr created, w1) \<Rightarrow> (Inr created, w1))"

definition get_or_create_registry ::
  "'w data_client \<Rightarrow> string \<Rightarrow> string \<Rightarrow> go_error \<Rightarrow> 'w \<Rightarrow> (go_error + data_object) \<times> 'w" where
  "get_or_create_registry c nm kind notfound w =
     (let (r, w1) = get_registry c nm kind notfound w;
          (r', w2) = (case r of
                        Inl e \<Rightarrow> if errors_is e notfound
                                 then create_registry c nm kind notfound w1 else (r, w1)
                      | Inr ob \<Rightarrow> (r, w1))
      in case r' of
           Inl e \<Rightarrow> (Inl e, w2)
         | Inr ob \<Rightarrow>
             (Inr (if do_data ob = None then ob\<lparr>do_data := Some []\<rparr> else ob), w2))"

definition update_registry ::
  "'w data_client \<Rightarrow> string \<Rightarrow> string \<Rightarrow> data_object \<Rightarrow> 'w \<Rightarrow> (go_error + unit) \<times> 'w" where
  "update_registry c nm kind ob w =
     (case api_update c ob w of
        (Inl e, w1) \<Rightarrow> (Inl (Wrapf (''update %q '' @ kind @ '': %w'') [nm] e), w1)
      | (Inr _, w1) \<Rightarrow> (Inr (), w1))"

text \<open>
  One attempt of a \<open>Put\<close>: fetch or create the object, edit its data, update it. Writing to
  a nil map panics in Go; \<open>get_or_create_registry\<close> never returns one, which
  \<open>get_or_create_data\<close> below states.
\<close>

definition put_attempt ::
  "'w data_client \<Rightarrow> string \<Rightarrow> string \<Rightarrow> go_error
   \<Rightarrow> ((string, blob) go_map \<Rightarrow> (string, blob) go_map) \<Rightarrow> 'w \<Rightarrow> (go_error + unit) \<times> 'w" where
  "put_attempt c nm kind notfound edit w =
     (case get_or_create_registry c nm kind notfound w of
        (Inl e, w1) \<Rightarrow> (Inl e, w1)
      | (Inr ob, w1) \<Rightarrow>
          update_registry c nm kind (ob\<lparr>do_data := Some (edit (data_entries ob))\<rparr>) w1)"

text \<open>
  One attempt of a \<open>Delete\<close>: fetch the object, find the key to drop (or fail), update it.
\<close>

definition delete_attempt ::
  "'w data_client \<Rightarrow> string \<Rightarrow> string \<Rightarrow> go_error
   \<Rightarrow> ((string, blob) go_map \<Rightarrow> go_error + string) \<Rightarrow> 'w \<Rightarrow> (go_error + unit) \<times> 'w" where
  "delete_attempt c nm kind notfound find_key w =
     (case get_registry c nm kind notfound w of
        (Inl e, w1) \<Rightarrow> (Inl e, w1)
      | (Inr ob, w1) \<Rightarrow>
          (case find_key (data_entries ob) of
             Inl e \<Rightarrow> (Inl e, w1)
           | Inr key \<Rightarrow>
               update_registry c nm kind
                 (ob\<lparr>do_data := Some (map_delete key (data_entries ob))\<rparr>) w1))"

lemma get_or_create_data:
  "get_or_create_registry c nm kind nf w = (Inr ob, w') \<Longrightarrow> do_data ob \<noteq> None"
  by (auto simp: get_or_create_registry_def Let_def split: prod.splits sum.splits if_splits)

section \<open>The documented behaviour\<close>

text \<open>The specification of \<open>RetryOnConflict\<close>: \<open>n\<close> further attempts while the result is a Conflict.\<close>

fun retry_spec ::
  "nat \<Rightarrow> ('w \<Rightarrow> (go_error + 'a) \<times> 'w) \<Rightarrow> 'w \<Rightarrow> (go_error + 'a) \<times> 'w" where
  "retry_spec 0 f w = f w"
| "retry_spec (Suc n) f w =
     (case f w of
        (Inl e, w1) \<Rightarrow> if is_conflict e then retry_spec n f w1 else (Inl e, w1)
      | (Inr x, w1) \<Rightarrow> (Inr x, w1))"

text \<open>The data registered under a name: empty while the object does not exist.\<close>

definition registered ::
  "('w \<Rightarrow> string \<times> string \<Rightarrow> data_object option) \<Rightarrow> string \<Rightarrow> 'w \<Rightarrow> string \<Rightarrow> blob option" where
  "registered cur nm w =
     (case cur w (SystemNamespace, nm) of None \<Rightarrow> Map.empty | Some ob \<Rightarrow> map_of (data_entries ob))"

locale data_api =
  fixes c :: "'w data_client"
    and cur :: "'w \<Rightarrow> string \<times> string \<Rightarrow> data_object option"
    and env :: "'w \<Rightarrow> 'w"
    and commit :: "data_object \<Rightarrow> 'w \<Rightarrow> data_object \<times> 'w"
    and retries :: nat
  assumes get_law:
      "api_get c ns nm w =
         (case cur (env w) (ns, nm) of
            None \<Rightarrow> (Inl (ApiError NotFound), env w)
          | Some ob \<Rightarrow> (Inr ob, env w))"
    and create_law:
      "api_create c ob w =
         (case cur (env w) (object_key ob) of
            Some _ \<Rightarrow> (Inl (ApiError AlreadyExists), env w)
          | None \<Rightarrow> (let (ob', w') = commit ob (env w) in (Inr ob', w')))"
    and update_law:
      "api_update c ob w =
         (case cur (env w) (object_key ob) of
            None \<Rightarrow> (Inl (ApiError NotFound), env w)
          | Some old \<Rightarrow>
              if do_rv old = do_rv ob then (let (ob', w') = commit ob (env w) in (Inr ob', w'))
              else (Inl (ApiError Conflict), env w))"
    and commit_cur: "commit ob w = (ob', w') \<Longrightarrow> cur w' = (cur w)(object_key ob \<mapsto> ob')"
    and commit_data:
      "commit ob w = (ob', w') \<Longrightarrow> map_wf (data_entries ob) \<Longrightarrow>
       object_key ob' = object_key ob \<and> map_wf (data_entries ob') \<and>
       map_of (data_entries ob') = map_of (data_entries ob)"
    and cur_wf: "cur w k = Some ob \<Longrightarrow> object_key ob = k \<and> map_wf (data_entries ob)"
    and env_rv:
      "cur w k = Some a \<Longrightarrow> cur (env w) k = Some b \<Longrightarrow> do_rv b = do_rv a \<Longrightarrow> b = a"
    and retry_law: "retry_on_conflict c f w = retry_spec retries f w"
begin

lemma registered_Some:
  "cur w (SystemNamespace, nm) = Some ob \<Longrightarrow> registered cur nm w = map_of (data_entries ob)"
  by (simp add: registered_def)

lemma get_registry_cases:
  "get_registry c nm kind nf w =
     (case cur (env w) (SystemNamespace, nm) of
        None \<Rightarrow> (Inl nf, env w)
      | Some ob \<Rightarrow> (Inr ob, env w))"
  by (simp add: get_registry_def get_law is_not_found_def split: option.splits)

text \<open>
  Fetch-or-create returns the object that is current when it returns, with a non-nil map;
  it leaves the registered data as other clients left it.
\<close>

lemma get_or_create_current:
  assumes "get_or_create_registry c nm kind nf w = (Inr ob, w')"
  shows "\<exists>old. cur w' (SystemNamespace, nm) = Some old \<and> do_rv ob = do_rv old \<and>
    object_key ob = (SystemNamespace, nm) \<and> map_wf (data_entries ob) \<and>
    data_entries ob = data_entries old"
proof -
  have fill: "\<exists>old. cur v (SystemNamespace, nm) = Some old \<and> do_rv z = do_rv old \<and>
      object_key z = (SystemNamespace, nm) \<and> map_wf (data_entries z) \<and>
      data_entries z = data_entries old"
    if "cur v (SystemNamespace, nm) = Some x"
      and "z = (if do_data x = None then x\<lparr>do_data := Some []\<rparr> else x)" for v x z
    using that cur_wf [OF that(1)]
    by (auto simp: object_key_def data_entries_def split: if_splits option.splits)
  let ?new = "\<lparr>do_namespace = SystemNamespace, do_name = nm, do_rv = 0, do_data = Some []\<rparr>"
  show ?thesis
  proof (cases "cur (env w) (SystemNamespace, nm)")
    case (Some x)
    with assms have "w' = env w" "ob = (if do_data x = None then x\<lparr>do_data := Some []\<rparr> else x)"
      by (auto simp: get_or_create_registry_def get_registry_cases)
    with fill Some show ?thesis by blast
  next
    case None
    show ?thesis
    proof (cases "cur (env (env w)) (SystemNamespace, nm)")
      case (Some x)
      with None Some assms have "\<exists>y. cur w' (SystemNamespace, nm) = Some y \<and>
          ob = (if do_data y = None then y\<lparr>do_data := Some []\<rparr> else y)"
        by (auto simp: get_or_create_registry_def get_registry_cases create_registry_def create_law
            object_key_def is_already_exists_def split: option.splits)
      with fill show ?thesis by blast
    next
      case new: None
      obtain y v where com: "commit ?new (env (env w)) = (y, v)" by fastforce
      have "cur v (SystemNamespace, nm) = Some y"
        using commit_cur [OF com] by (simp add: object_key_def)
      moreover have "w' = v" "ob = (if do_data y = None then y\<lparr>do_data := Some []\<rparr> else y)"
        using assms None new com
        by (auto simp: get_or_create_registry_def get_registry_cases create_registry_def create_law
            object_key_def)
      ultimately show ?thesis using fill by blast
    qed
  qed
qed

text \<open>
  A successful attempt edits exactly the data that is current at the instant of the update:
  nothing another client wrote before it is lost, and no other object is touched.
\<close>

lemma put_attempt_success:
  assumes run: "put_attempt c nm kind nf edit w = (Inr (), w')"
    and wf: "\<And>m. map_wf m \<Longrightarrow> map_wf (edit m)"
  shows "\<exists>w0 ob m. w' = snd (commit ob w0) \<and> map_wf m \<and> registered cur nm w0 = map_of m \<and>
    registered cur nm w' = map_of (edit m) \<and>
    (\<forall>k. k \<noteq> (SystemNamespace, nm) \<longrightarrow> cur w' k = cur w0 k)"
proof -
  from run obtain ob w1 where got: "get_or_create_registry c nm kind nf w = (Inr ob, w1)"
    and upd: "update_registry c nm kind (ob\<lparr>do_data := Some (edit (data_entries ob))\<rparr>) w1 = (Inr (), w')"
    by (auto simp: put_attempt_def split: prod.splits sum.splits)
  from get_or_create_current [OF got] obtain old where
    old: "cur w1 (SystemNamespace, nm) = Some old" "do_rv ob = do_rv old"
    and key: "object_key ob = (SystemNamespace, nm)" and wfm: "map_wf (data_entries ob)"
    and same: "data_entries ob = data_entries old" by blast
  let ?ob = "ob\<lparr>do_data := Some (edit (data_entries ob))\<rparr>"
  have key': "object_key ?ob = (SystemNamespace, nm)" using key by (simp add: object_key_def)
  from upd key' obtain now ob' where now: "cur (env w1) (SystemNamespace, nm) = Some now"
      "do_rv now = do_rv ob" and com: "commit ?ob (env w1) = (ob', w')"
    by (auto simp: update_registry_def update_law split: option.splits if_splits prod.splits)
  from env_rv [OF old(1) now(1)] now(2) old(2) have "now = old" by simp
  then have reg0: "registered cur nm (env w1) = map_of (data_entries ob)"
    using now(1) same by (simp add: registered_def)
  have ents: "data_entries ?ob = edit (data_entries ob)" by (simp add: data_entries_def)
  have "registered cur nm w' = map_of (edit (data_entries ob))"
    using commit_cur [OF com] commit_data [OF com] key' ents wf [OF wfm]
    by (simp add: registered_def)
  moreover have "\<forall>k. k \<noteq> (SystemNamespace, nm) \<longrightarrow> cur w' k = cur (env w1) k"
    using commit_cur [OF com] key' by simp
  ultimately show ?thesis using com wfm reg0 by (metis snd_conv)
qed

lemma delete_attempt_success:
  assumes run: "delete_attempt c nm kind nf find_key w = (Inr (), w')"
  shows "\<exists>w0 ob m key. w' = snd (commit ob w0) \<and> map_wf m \<and> registered cur nm w0 = map_of m \<and>
    find_key m = Inr key \<and> registered cur nm w' = (map_of m)(key := None) \<and>
    (\<forall>k. k \<noteq> (SystemNamespace, nm) \<longrightarrow> cur w' k = cur w0 k)"
proof -
  from run obtain ob key where got: "cur (env w) (SystemNamespace, nm) = Some ob"
    and fk: "find_key (data_entries ob) = Inr key"
    and upd: "update_registry c nm kind
      (ob\<lparr>do_data := Some (map_delete key (data_entries ob))\<rparr>) (env w) = (Inr (), w')"
    by (auto simp: delete_attempt_def get_registry_cases split: prod.splits sum.splits option.splits)
  let ?ob = "ob\<lparr>do_data := Some (map_delete key (data_entries ob))\<rparr>"
  from cur_wf [OF got] have key': "object_key ?ob = (SystemNamespace, nm)"
    and wfm: "map_wf (data_entries ob)" by (simp_all add: object_key_def)
  from upd key' obtain now ob' where now: "cur (env (env w)) (SystemNamespace, nm) = Some now"
      "do_rv now = do_rv ob" and com: "commit ?ob (env (env w)) = (ob', w')"
    by (auto simp: update_registry_def update_law split: option.splits if_splits prod.splits)
  from env_rv [OF got now(1) now(2)] have "now = ob" .
  then have reg0: "registered cur nm (env (env w)) = map_of (data_entries ob)"
    using now(1) by (simp add: registered_def)
  have ents: "data_entries ?ob = map_delete key (data_entries ob)" by (simp add: data_entries_def)
  have "registered cur nm w' = (map_of (data_entries ob))(key := None)"
    using commit_cur [OF com] commit_data [OF com] key' ents wfm
    by (simp add: registered_def)
  moreover have "\<forall>k. k \<noteq> (SystemNamespace, nm) \<longrightarrow> cur w' k = cur (env (env w)) k"
    using commit_cur [OF com] key' by simp
  ultimately show ?thesis using com wfm reg0 fk by (metis snd_conv)
qed

end

text \<open>Retrying: a success is the success of one attempt, and so is the error given back at the end.\<close>

lemma retry_spec_result:
  "retry_spec n f w = (r, w') \<Longrightarrow> \<exists>v. f v = (r, w')"
proof (induction n arbitrary: w)
  case (Suc n)
  then show ?case by (cases "f w") (auto split: sum.splits if_splits)
qed auto

lemma retry_spec_no_conflict:
  "f w = (r, w') \<Longrightarrow> (\<And>e. r = Inl e \<Longrightarrow> \<not> is_conflict e) \<Longrightarrow> retry_spec n f w = (r, w')"
  by (cases n) (auto split: sum.splits)

text \<open>The worlds successive attempts start from.\<close>

fun attempt_world :: "('w \<Rightarrow> (go_error + 'a) \<times> 'w) \<Rightarrow> nat \<Rightarrow> 'w \<Rightarrow> 'w" where
  "attempt_world f 0 w = w"
| "attempt_world f (Suc n) w = attempt_world f n (snd (f w))"

text \<open>Up to \<open>n\<close> conflicting attempts are absorbed; one more makes the last Conflict the result.\<close>

lemma retry_spec_absorbs:
  assumes "k \<le> n" and "\<And>i. i < k \<Longrightarrow> \<exists>e. fst (f (attempt_world f i w)) = Inl e \<and> is_conflict e"
    and "f (attempt_world f k w) = (Inr x, w')"
  shows "retry_spec n f w = (Inr x, w')"
  using assms
proof (induction k arbitrary: n w)
  case 0
  then show ?case by (auto intro: retry_spec_no_conflict)
next
  case (Suc k)
  then obtain m where n: "n = Suc m" by (cases n) auto
  from Suc.prems(2) [of 0] obtain e w1 where f: "f w = (Inl e, w1)" and e: "is_conflict e"
    by (cases "f w") auto
  have "retry_spec m f w1 = (Inr x, w')"
  proof (rule Suc.IH)
    show "k \<le> m" using Suc.prems(1) n by simp
    show "\<exists>e. fst (f (attempt_world f i w1)) = Inl e \<and> is_conflict e" if "i < k" for i
      using Suc.prems(2) [of "Suc i"] that f by simp
    show "f (attempt_world f k w1) = (Inr x, w')" using Suc.prems(3) f by simp
  qed
  with f e n show ?case by simp
qed

lemma retry_spec_gives_up:
  assumes "\<And>i. i \<le> n \<Longrightarrow> \<exists>e. fst (f (attempt_world f i w)) = Inl e \<and> is_conflict e"
  shows "\<exists>e. fst (retry_spec n f w) = Inl e \<and> is_conflict e"
  using assms
proof (induction n arbitrary: w)
  case 0
  from 0 [of 0] show ?case by simp
next
  case (Suc n)
  from Suc.prems [of 0] obtain e w1 where f: "f w = (Inl e, w1)" and e: "is_conflict e"
    by (cases "f w") auto
  have "\<exists>e. fst (retry_spec n f w1) = Inl e \<and> is_conflict e"
  proof (rule Suc.IH)
    show "\<exists>e. fst (f (attempt_world f i w1)) = Inl e \<and> is_conflict e" if "i \<le> n" for i
      using Suc.prems [of "Suc i"] that f by simp
  qed
  with f e show ?case by simp
qed

text \<open>No other client acts: every operation runs on the world the last one left.\<close>

locale quiet_data_api = data_api +
  assumes quiet: "env w = w"
begin

text \<open>Fetch-or-create may create the empty object, which registers nothing.\<close>

lemma get_or_create_quiet:
  "\<exists>ob w1. get_or_create_registry c nm kind nf w = (Inr ob, w1) \<and>
     registered cur nm w1 = registered cur nm w \<and>
     (\<forall>k. k \<noteq> (SystemNamespace, nm) \<longrightarrow> cur w1 k = cur w k)"
proof (cases "cur w (SystemNamespace, nm)")
  case (Some x)
  then show ?thesis by (simp add: get_or_create_registry_def get_registry_cases quiet)
next
  case None
  let ?new = "\<lparr>do_namespace = SystemNamespace, do_name = nm, do_rv = 0, do_data = Some []\<rparr>"
  have key: "object_key ?new = (SystemNamespace, nm)" and ents: "data_entries ?new = []"
    by (simp_all add: object_key_def data_entries_def)
  obtain y v where com: "commit ?new w = (y, v)" by fastforce
  have "registered cur nm v = registered cur nm w"
    using None commit_cur [OF com] commit_data [OF com] key ents by (simp add: registered_def)
  moreover have "\<forall>k. k \<noteq> (SystemNamespace, nm) \<longrightarrow> cur v k = cur w k"
    using commit_cur [OF com] key by simp
  ultimately show ?thesis
    using None com key
    by (simp add: get_or_create_registry_def get_registry_cases create_registry_def create_law quiet)
qed

lemma put_attempt_quiet:
  assumes wf: "\<And>m. map_wf m \<Longrightarrow> map_wf (edit m)"
  shows "\<exists>w' m. put_attempt c nm kind nf edit w = (Inr (), w') \<and> map_wf m \<and>
    registered cur nm w = map_of m \<and> registered cur nm w' = map_of (edit m) \<and>
    (\<forall>k. k \<noteq> (SystemNamespace, nm) \<longrightarrow> cur w' k = cur w k)"
proof -
  from get_or_create_quiet [of nm kind nf w] obtain ob w1 where
    got: "get_or_create_registry c nm kind nf w = (Inr ob, w1)"
    and reg: "registered cur nm w1 = registered cur nm w"
    and oth: "\<forall>k. k \<noteq> (SystemNamespace, nm) \<longrightarrow> cur w1 k = cur w k" by blast
  from get_or_create_current [OF got] obtain old where
    old: "cur w1 (SystemNamespace, nm) = Some old" "do_rv ob = do_rv old"
    and key: "object_key ob = (SystemNamespace, nm)" and wfm: "map_wf (data_entries ob)"
    and same: "data_entries ob = data_entries old" by blast
  let ?ob = "ob\<lparr>do_data := Some (edit (data_entries ob))\<rparr>"
  have key': "object_key ?ob = (SystemNamespace, nm)" using key by (simp add: object_key_def)
  have ents: "data_entries ?ob = edit (data_entries ob)" by (simp add: data_entries_def)
  obtain ob' w' where com: "commit ?ob w1 = (ob', w')" by fastforce
  have "update_registry c nm kind ?ob w1 = (Inr (), w')"
    using old key' com by (simp add: update_registry_def update_law quiet)
  then have "put_attempt c nm kind nf edit w = (Inr (), w')"
    using got by (simp add: put_attempt_def)
  moreover have "registered cur nm w = map_of (data_entries ob)"
    using reg old same by (simp add: registered_def)
  moreover have "registered cur nm w' = map_of (edit (data_entries ob))"
    using commit_cur [OF com] commit_data [OF com] key' ents wf [OF wfm] by (simp add: registered_def)
  moreover have "\<forall>k. k \<noteq> (SystemNamespace, nm) \<longrightarrow> cur w' k = cur w k"
    using commit_cur [OF com] key' oth by simp
  ultimately show ?thesis using wfm by blast
qed

lemma put_quiet:
  assumes "\<And>m. map_wf m \<Longrightarrow> map_wf (edit m)"
  shows "\<exists>w' m. retry_on_conflict c (put_attempt c nm kind nf edit) w = (Inr (), w') \<and> map_wf m \<and>
    registered cur nm w = map_of m \<and> registered cur nm w' = map_of (edit m) \<and>
    (\<forall>k. k \<noteq> (SystemNamespace, nm) \<longrightarrow> cur w' k = cur w k)"
proof -
  from put_attempt_quiet [of edit nm kind nf w, OF assms] obtain w' m where
    run: "put_attempt c nm kind nf edit w = (Inr (), w')" and
    rest: "map_wf m" "registered cur nm w = map_of m" "registered cur nm w' = map_of (edit m)"
      "\<forall>k. k \<noteq> (SystemNamespace, nm) \<longrightarrow> cur w' k = cur w k" by blast
  have "retry_spec retries (put_attempt c nm kind nf edit) w = (Inr (), w')"
    using run by (rule retry_spec_no_conflict) simp
  with rest show ?thesis by (auto simp: retry_law)
qed

text \<open>
  A delete on a quiet server: nothing to delete is an error without effect, otherwise the
  entry under the key found goes.
\<close>

lemma delete_quiet:
  "retry_on_conflict c (delete_attempt c nm kind nf find_key) w = (r, w') \<Longrightarrow>
   \<not> is_conflict nf \<Longrightarrow> (\<And>m e. find_key m = Inl e \<Longrightarrow> \<not> is_conflict e) \<Longrightarrow>
   (case cur w (SystemNamespace, nm) of
      None \<Rightarrow> r = Inl nf \<and> w' = w
    | Some ob \<Rightarrow>
        (case find_key (data_entries ob) of
           Inl e \<Rightarrow> r = Inl e \<and> w' = w
         | Inr key \<Rightarrow> r = Inr () \<and>
             registered cur nm w' = (registered cur nm w)(key := None) \<and>
             (\<forall>k. k \<noteq> (SystemNamespace, nm) \<longrightarrow> cur w' k = cur w k)))"
proof -
  let ?f = "delete_attempt c nm kind nf find_key"
  assume run: "retry_on_conflict c ?f w = (r, w')" and nc: "\<not> is_conflict nf"
    and fc: "\<And>m e. find_key m = Inl e \<Longrightarrow> \<not> is_conflict e"
  have once: "?f w = (x, v) \<Longrightarrow> (\<And>e. x = Inl e \<Longrightarrow> \<not> is_conflict e) \<Longrightarrow> r = x \<and> w' = v" for x v
    using retry_spec_no_conflict [of ?f w x v retries] run by (simp add: retry_law)
  show ?thesis
  proof (cases "cur w (SystemNamespace, nm)")
    case None
    then have "?f w = (Inl nf, w)" by (simp add: delete_attempt_def get_registry_cases quiet)
    from once [OF this] nc None show ?thesis by simp
  next
    case (Some ob)
    show ?thesis
    proof (cases "find_key (data_entries ob)")
      case (Inl e)
      with Some have "?f w = (Inl e, w)" by (simp add: delete_attempt_def get_registry_cases quiet)
      from once [OF this] fc [OF Inl] Inl Some show ?thesis by simp
    next
      case (Inr key)
      let ?ob = "ob\<lparr>do_data := Some (map_delete key (data_entries ob))\<rparr>"
      from cur_wf [OF Some] have key: "object_key ?ob = (SystemNamespace, nm)"
        and wf: "map_wf (data_entries ob)" by (simp_all add: object_key_def)
      have ents: "data_entries ?ob = map_delete key (data_entries ob)" by (simp add: data_entries_def)
      obtain ob' v where com: "commit ?ob w = (ob', v)" by fastforce
      have "?f w = (Inr (), v)"
        using Some Inr key com
        by (simp add: delete_attempt_def get_registry_cases quiet update_registry_def update_law)
      from once [OF this] have "r = Inr ()" "w' = v" by simp_all
      moreover have "registered cur nm v = (registered cur nm w)(key := None)"
        using commit_cur [OF com] commit_data [OF com] key ents wf Some by (simp add: registered_def)
      moreover have "\<forall>k. k \<noteq> (SystemNamespace, nm) \<longrightarrow> cur v k = cur w k"
        using commit_cur [OF com] key by simp
      ultimately show ?thesis using Some Inr by simp
    qed
  qed
qed

end

section \<open>A reference server\<close>

text \<open>
  A concrete server: objects with a version that every write increments, and a script of
  writes other clients perform, one before each call (\<open>None\<close>: nobody acts); with the
  identity as \<open>env\<close> nobody else ever acts.
\<close>

record ref_world =
  rw_objects :: "string \<times> string \<Rightarrow> (nat \<times> (string, blob) go_map) option"
  rw_foreign :: "((string \<times> string) \<times> (string, blob) go_map) option list"

definition ref_object :: "string \<times> string \<Rightarrow> nat \<times> (string, blob) go_map \<Rightarrow> data_object" where
  "ref_object k v =
     \<lparr>do_namespace = fst k, do_name = snd k, do_rv = fst v,
      do_data = (let m = AList.clearjunk (snd v) in if m = [] then None else Some m)\<rparr>"

definition ref_cur :: "'a ref_world_scheme \<Rightarrow> string \<times> string \<Rightarrow> data_object option" where
  "ref_cur w k = map_option (ref_object k) (rw_objects w k)"

definition ref_write ::
  "string \<times> string \<Rightarrow> (string, blob) go_map \<Rightarrow> 'a ref_world_scheme \<Rightarrow> 'a ref_world_scheme" where
  "ref_write k d w =
     w\<lparr>rw_objects := (rw_objects w)
         (k \<mapsto> (case rw_objects w k of None \<Rightarrow> 1 | Some (v, _) \<Rightarrow> Suc v, d))\<rparr>"

definition ref_env :: "'a ref_world_scheme \<Rightarrow> 'a ref_world_scheme" where
  "ref_env w =
     (case rw_foreign w of
        [] \<Rightarrow> w
      | None # rest \<Rightarrow> w\<lparr>rw_foreign := rest\<rparr>
      | Some (k, d) # rest \<Rightarrow> ref_write k d (w\<lparr>rw_foreign := rest\<rparr>))"

definition ref_commit :: "data_object \<Rightarrow> 'a ref_world_scheme \<Rightarrow> data_object \<times> 'a ref_world_scheme" where
  "ref_commit ob w =
     (let w' = ref_write (object_key ob) (data_entries ob) w
      in (the (ref_cur w' (object_key ob)), w'))"

definition ref_get :: "('a ref_world_scheme \<Rightarrow> 'a ref_world_scheme) \<Rightarrow> string \<Rightarrow> string \<Rightarrow> 'a ref_world_scheme \<Rightarrow> (go_error + data_object) \<times> 'a ref_world_scheme" where
  "ref_get env ns nm w =
     (let w1 = env w in
      case ref_cur w1 (ns, nm) of
        None \<Rightarrow> (Inl (ApiError NotFound), w1)
      | Some ob \<Rightarrow> (Inr ob, w1))"

definition ref_create :: "('a ref_world_scheme \<Rightarrow> 'a ref_world_scheme) \<Rightarrow> data_object \<Rightarrow> 'a ref_world_scheme \<Rightarrow> (go_error + data_object) \<times> 'a ref_world_scheme" where
  "ref_create env ob w =
     (let w1 = env w in
      case ref_cur w1 (object_key ob) of
        Some _ \<Rightarrow> (Inl (ApiError AlreadyExists), w1)
      | None \<Rightarrow> (let (ob', w') = ref_commit ob w1 in (Inr ob', w')))"

definition ref_update :: "('a ref_world_scheme \<Rightarrow> 'a ref_world_scheme) \<Rightarrow> data_object \<Rightarrow> 'a ref_world_scheme \<Rightarrow> (go_error + data_object) \<times> 'a ref_world_scheme" where
  "ref_update env ob w =
     (let w1 = env w in
      case ref_cur w1 (object_key ob) of
        None \<Rightarrow> (Inl (ApiError NotFound), w1)
      | Some old \<Rightarrow>
          if do_rv old = do_rv ob then (let (ob', w') = ref_commit ob w1 in (Inr ob', w'))
          else (Inl (ApiError Conflict), w1))"

text \<open>Five attempts, the documented number of \<open>retry.DefaultRetry\<close>.\<close>

definition ref_client :: "('a ref_world_scheme \<Rightarrow> 'a ref_world_scheme) \<Rightarrow> 'a ref_world_scheme data_client" where
  "ref_client env =
     \<lparr>api_get = ref_get env, api_create = ref_create env, api_update = ref_update env,
      retry_on_conflict = retry_spec 4\<rparr>"

lemmas ref_client_defs = ref_client_def ref_get_def ref_create_def ref_update_def ref_commit_def
  ref_env_def ref_write_def ref_cur_def ref_object_def

lemma ref_cur_write:
  "ref_cur (ref_write k d w) = (ref_cur w)(k \<mapsto> the (ref_cur (ref_write k d w) k))"
  by (auto simp: ref_cur_def ref_write_def fun_eq_iff split: option.splits)

lemma data_entries_ref_object [simp]:
  "data_entries (ref_object k v) = AList.clearjunk (snd v)"
  by (simp add: data_entries_def ref_object_def Let_def)

lemma object_key_ref_object [simp]: "object_key (ref_object k v) = k"
  by (simp add: object_key_def ref_object_def)

lemma ref_client_laws:
  assumes rv: "\<And>w k a b. ref_cur w k = Some a \<Longrightarrow> ref_cur (env w) k = Some b \<Longrightarrow>
    do_rv b = do_rv a \<Longrightarrow> b = a"
  shows "data_api (ref_client env) ref_cur env ref_commit 4"
proof unfold_locales
  fix ob ob' :: data_object and w w' :: "'a ref_world_scheme"
  assume com: "ref_commit ob w = (ob', w')"
  then show "ref_cur w' = (ref_cur w)(object_key ob \<mapsto> ob')"
    using ref_cur_write [of "object_key ob" "data_entries ob" w]
    by (auto simp: ref_commit_def Let_def)
  from com have "ob' = ref_object (object_key ob)
      (case rw_objects w (object_key ob) of None \<Rightarrow> 1 | Some (v, _) \<Rightarrow> Suc v, data_entries ob)"
    by (auto simp: ref_commit_def Let_def ref_cur_def ref_write_def)
  then show "object_key ob' = object_key ob \<and> map_wf (data_entries ob') \<and>
      map_of (data_entries ob') = map_of (data_entries ob)"
    by (simp add: map_wf_def distinct_clearjunk map_of_clearjunk)
next
  fix w :: "'a ref_world_scheme" and k ob
  assume "ref_cur w k = Some ob"
  then show "object_key ob = k \<and> map_wf (data_entries ob)"
    by (auto simp: ref_cur_def map_wf_def distinct_clearjunk)
next
  fix w :: "'a ref_world_scheme" and k a b
  assume "ref_cur w k = Some a" "ref_cur (env w) k = Some b" "do_rv b = do_rv a"
  then show "b = a" by (rule rv)
qed (auto simp: ref_client_def ref_get_def ref_create_def ref_update_def Let_def)

interpretation ref: data_api "ref_client ref_env" ref_cur ref_env ref_commit 4
proof (rule ref_client_laws)
  fix w :: "'a ref_world_scheme" and k a b
  assume "ref_cur w k = Some a" "ref_cur (ref_env w) k = Some b" "do_rv b = do_rv a"
  then show "b = a"
    by (auto simp: ref_cur_def ref_env_def ref_write_def ref_object_def
        split: list.splits option.splits if_splits prod.splits)
qed

interpretation quiet_ref: quiet_data_api "ref_client (\<lambda>w. w)" ref_cur "\<lambda>w. w" ref_commit 4
  by (intro quiet_data_api.intro ref_client_laws quiet_data_api_axioms.intro) auto

end
