(* ===== verification/Keyed_Store.thy ===== *)
theory Keyed_Store
  imports Kube_Api
begin

text \<open>
  Registries that keep one record per key: the Pod Identity associations and the access
  entries. \<open>keyed_store\<close> is the contract of their store interfaces; \<open>kv_put\<close>, \<open>kv_get\<close>,
  \<open>kv_list\<close> and \<open>kv_delete\<close> are the shape the ConfigMap-backed implementations share (each
  record a JSON text under its key in one ConfigMap, written with conflict retries), and
  \<open>mem_kv_*\<close> the shape of the in-memory ones. The components instantiate them with their
  own keys, codecs and error texts.
\<close>

section \<open>The ConfigMap-backed operations\<close>

definition kv_put ::
  "'w data_client \<Rightarrow> string \<Rightarrow> go_error \<Rightarrow> (go_error \<Rightarrow> go_error) \<Rightarrow> string \<Rightarrow> blob \<Rightarrow> 'w
   \<Rightarrow> (go_error + unit) \<times> 'w" where
  "kv_put c nm nf wrap key raw w =
     (case retry_on_conflict c (put_attempt c nm ''configmap'' nf (map_set key raw)) w of
        (Inl e, w1) \<Rightarrow> (Inl (wrap e), w1)
      | (Inr _, w1) \<Rightarrow> (Inr (), w1))"

definition kv_get ::
  "'w data_client \<Rightarrow> string \<Rightarrow> go_error \<Rightarrow> (go_error \<Rightarrow> go_error) \<Rightarrow> (blob \<Rightarrow> go_error + 'v) \<Rightarrow> string
   \<Rightarrow> 'w \<Rightarrow> (go_error + 'v) \<times> 'w" where
  "kv_get c nm nf wrap dec key w =
     (case get_registry c nm ''configmap'' nf w of
        (Inl e, w1) \<Rightarrow> (Inl e, w1)
      | (Inr cm, w1) \<Rightarrow>
          (case map_of (data_entries cm) key of
             None \<Rightarrow> (Inl nf, w1)
           | Some raw \<Rightarrow>
               (case dec raw of Inl e \<Rightarrow> (Inl (wrap e), w1) | Inr v \<Rightarrow> (Inr v, w1))))"

fun kv_decode_all ::
  "(string \<Rightarrow> go_error \<Rightarrow> go_error) \<Rightarrow> (blob \<Rightarrow> go_error + 'v) \<Rightarrow> (string, blob) go_map
   \<Rightarrow> go_error + 'v list" where
  "kv_decode_all wrap dec [] = Inr []"
| "kv_decode_all wrap dec ((key, raw) # rest) =
     (case dec raw of
        Inl e \<Rightarrow> Inl (wrap key e)
      | Inr v \<Rightarrow> (case kv_decode_all wrap dec rest of Inl e \<Rightarrow> Inl e | Inr vs \<Rightarrow> Inr (v # vs)))"

definition kv_list_unsorted ::
  "'w data_client \<Rightarrow> string \<Rightarrow> go_error \<Rightarrow> (string \<Rightarrow> go_error \<Rightarrow> go_error)
   \<Rightarrow> (blob \<Rightarrow> go_error + 'v) \<Rightarrow> 'w \<Rightarrow> (go_error + 'v list) \<times> 'w" where
  "kv_list_unsorted c nm nf wrap dec w =
     (case get_registry c nm ''configmap'' nf w of
        (Inl e, w1) \<Rightarrow> if errors_is e nf then (Inr [], w1) else (Inl e, w1)
      | (Inr cm, w1) \<Rightarrow> (kv_decode_all wrap dec (data_entries cm), w1))"

definition kv_list ::
  "'w data_client \<Rightarrow> string \<Rightarrow> go_error \<Rightarrow> (string \<Rightarrow> go_error \<Rightarrow> go_error)
   \<Rightarrow> (blob \<Rightarrow> go_error + 'v) \<Rightarrow> ('v \<Rightarrow> 'o::linorder) \<Rightarrow> 'w \<Rightarrow> (go_error + 'v list) \<times> 'w" where
  "kv_list c nm nf wrap dec ord w =
     (case kv_list_unsorted c nm nf wrap dec w of
        (Inl e, w1) \<Rightarrow> (Inl e, w1)
      | (Inr vs, w1) \<Rightarrow> (Inr (sort_key ord vs), w1))"

definition kv_find_key :: "go_error \<Rightarrow> string \<Rightarrow> (string, blob) go_map \<Rightarrow> go_error + string" where
  "kv_find_key nf key m = (case map_of m key of None \<Rightarrow> Inl nf | Some _ \<Rightarrow> Inr key)"

definition kv_delete ::
  "'w data_client \<Rightarrow> string \<Rightarrow> go_error \<Rightarrow> (go_error \<Rightarrow> go_error) \<Rightarrow> string \<Rightarrow> 'w
   \<Rightarrow> (go_error + unit) \<times> 'w" where
  "kv_delete c nm nf wrap key w =
     (case retry_on_conflict c (delete_attempt c nm ''configmap'' nf (kv_find_key nf key)) w of
        (Inl e, w1) \<Rightarrow> (Inl (wrap e), w1)
      | (Inr _, w1) \<Rightarrow> (Inr (), w1))"

section \<open>The in-memory operations\<close>

definition mem_kv_put :: "'k \<Rightarrow> 'v \<Rightarrow> ('k, 'v) go_map \<Rightarrow> (go_error + unit) \<times> ('k, 'v) go_map" where
  "mem_kv_put key v m = (Inr (), map_set key v m)"

definition mem_kv_get :: "go_error \<Rightarrow> 'k \<Rightarrow> ('k, 'v) go_map \<Rightarrow> (go_error + 'v) \<times> ('k, 'v) go_map" where
  "mem_kv_get nf key m = (case map_of m key of None \<Rightarrow> (Inl nf, m) | Some v \<Rightarrow> (Inr v, m))"

definition mem_kv_list ::
  "('v \<Rightarrow> 'o::linorder) \<Rightarrow> ('k, 'v) go_map \<Rightarrow> (go_error + 'v list) \<times> ('k, 'v) go_map" where
  "mem_kv_list ord m = (Inr (sort_key ord (map snd m)), m)"

definition mem_kv_delete :: "go_error \<Rightarrow> 'k \<Rightarrow> ('k, 'v) go_map \<Rightarrow> (go_error + unit) \<times> ('k, 'v) go_map" where
  "mem_kv_delete nf key m =
     (case map_of m key of None \<Rightarrow> (Inl nf, m) | Some _ \<Rightarrow> (Inr (), map_delete key m))"

section \<open>The contract\<close>

text \<open>
  \<open>ident\<close> is what callers look a record up by, \<open>key\<close> the key it is stored under (two
  identities may share one, as with a truncated hash), \<open>ord\<close> the order of \<open>List\<close>.
\<close>

locale keyed_store =
  fixes put :: "'v \<Rightarrow> 's \<Rightarrow> (go_error + unit) \<times> 's"
    and get :: "'i \<Rightarrow> 's \<Rightarrow> (go_error + 'v) \<times> 's"
    and list_all_items :: "'s \<Rightarrow> (go_error + 'v list) \<times> 's"
    and delete :: "'i \<Rightarrow> 's \<Rightarrow> (go_error + unit) \<times> 's"
    and ident :: "'v \<Rightarrow> 'i"
    and key :: "'i \<Rightarrow> 'k"
    and ord :: "'v \<Rightarrow> 'o::linorder"
    and nf :: go_error
    and reg :: "'s \<Rightarrow> 'k \<Rightarrow> 'v option"
    and ok :: "'s \<Rightarrow> bool"
  assumes put_law:
      "ok s \<Longrightarrow> \<exists>s'. put v s = (Inr (), s') \<and> ok s' \<and> reg s' = (reg s)(key (ident v) \<mapsto> v)"
    and get_law: "ok s \<Longrightarrow> get i s = (case reg s (key i) of None \<Rightarrow> Inl nf | Some v \<Rightarrow> Inr v, s)"
    and list_law:
      "ok s \<Longrightarrow> \<exists>vs. list_all_items s = (Inr vs, s) \<and> set vs = ran (reg s) \<and> distinct vs \<and>
         sorted (map ord vs)"
    and delete_law:
      "ok s \<Longrightarrow>
         (case reg s (key i) of
            None \<Rightarrow> \<exists>e. delete i s = (Inl e, s) \<and> errors_is e nf
          | Some _ \<Rightarrow> \<exists>s'. delete i s = (Inr (), s') \<and> ok s' \<and> reg s' = (reg s)(key i := None))"
    and reg_key: "ok s \<Longrightarrow> reg s k = Some v \<Longrightarrow> key (ident v) = k"
begin

lemma put_reg:
  assumes "ok s" and "put v s = (r, s')"
  shows "r = Inr ()" and "ok s'" and "reg s' = (reg s)(key (ident v) \<mapsto> v)"
  using put_law [OF assms(1), of v] assms(2) by auto

lemma put_get: "ok s \<Longrightarrow> put v s = (r, s') \<Longrightarrow> get (ident v) s' = (Inr v, s')"
  using put_reg [of s v r s'] by (simp add: get_law)

lemma put_get_other:
  "ok s \<Longrightarrow> put v s = (r, s') \<Longrightarrow> key i \<noteq> key (ident v) \<Longrightarrow> fst (get i s') = fst (get i s)"
  using put_reg [of s v r s'] by (simp add: get_law)

lemma put_put:
  "ok s \<Longrightarrow> put v s = (r, s1) \<Longrightarrow> put v' s1 = (r', s2) \<Longrightarrow> key (ident v) = key (ident v') \<Longrightarrow>
   get (ident v) s2 = (Inr v', s2)"
  using put_reg [of s v r s1] put_reg [of s1 v' r' s2] by (simp add: get_law)

lemma delete_get:
  assumes "ok s" and "delete i s = (Inr (), s')"
  shows "get i s' = (Inl nf, s')" and "ok s'" and "reg s' = (reg s)(key i := None)"
  using delete_law [OF assms(1), of i] assms(2) by (auto simp: get_law split: option.splits)

lemma put_list:
  assumes "ok s" and "put v s = (r, s')"
  shows "\<exists>vs. list_all_items s' = (Inr vs, s') \<and> v \<in> set vs \<and> sorted (map ord vs) \<and>
    set vs = insert v {v' \<in> ran (reg s). key (ident v') \<noteq> key (ident v)}"
proof -
  note s' = put_reg [OF assms]
  from list_law [OF s'(2)] obtain vs where vs: "list_all_items s' = (Inr vs, s')"
    "set vs = ran (reg s')" "sorted (map ord vs)" by blast
  have "ran (reg s') = insert v {v' \<in> ran (reg s). key (ident v') \<noteq> key (ident v)}"
    using reg_key [OF assms(1)] by (auto simp: s'(3) ran_def)
  with vs show ?thesis by auto
qed

end

section \<open>The in-memory shape keeps the contract\<close>

definition mem_kv_ok :: "('v \<Rightarrow> 'k) \<Rightarrow> ('k, 'v) go_map \<Rightarrow> bool" where
  "mem_kv_ok key m \<longleftrightarrow> map_wf m \<and> (\<forall>(k, v) \<in> set m. key v = k)"

lemma mem_kv_ok_iff:
  "mem_kv_ok key m \<longleftrightarrow> map_wf m \<and> (\<forall>k v. map_of m k = Some v \<longrightarrow> key v = k)"
  unfolding mem_kv_ok_def by (auto simp flip: map_wf_mem_iff)

lemma map_wf_keyed_distinct:
  assumes "map_wf m" and "\<forall>(k, v) \<in> set m. key v = k"
  shows "distinct (map snd m)"
proof -
  have "map key (map snd m) = map fst m" using assms(2) by auto
  then have "distinct (map key (map snd m))" using assms(1) unfolding map_wf_def by (simp only:)
  then show ?thesis by (simp only: distinct_map)
qed

lemma mem_kv_store:
  "keyed_store (\<lambda>v. mem_kv_put (key (ident v)) v) (\<lambda>i. mem_kv_get nf (key i)) (mem_kv_list ord)
     (\<lambda>i. mem_kv_delete nf (key i)) ident key ord nf map_of (mem_kv_ok (\<lambda>v. key (ident v)))"
proof unfold_locales
  fix m v i k
  assume ok: "mem_kv_ok (\<lambda>v. key (ident v)) m"
  then have wf: "map_wf m" and keys: "\<forall>(k, v) \<in> set m. key (ident v) = k"
    by (simp_all add: mem_kv_ok_def)
  show "\<exists>m'. mem_kv_put (key (ident v)) v m = (Inr (), m') \<and> mem_kv_ok (\<lambda>v. key (ident v)) m' \<and>
      map_of m' = (map_of m)(key (ident v) \<mapsto> v)"
    using ok by (auto simp: mem_kv_put_def mem_kv_ok_iff)
  show "mem_kv_get nf (key i) m = (case map_of m (key i) of None \<Rightarrow> Inl nf | Some v \<Rightarrow> Inr v, m)"
    by (simp add: mem_kv_get_def split: option.splits)
  show "\<exists>vs. mem_kv_list ord m = (Inr vs, m) \<and> set vs = ran (map_of m) \<and> distinct vs \<and>
      sorted (map ord vs)"
    using map_wf_keyed_distinct [OF wf keys] wf
    by (simp add: mem_kv_list_def ran_distinct map_wf_def)
  show "case map_of m (key i) of
      None \<Rightarrow> \<exists>e. mem_kv_delete nf (key i) m = (Inl e, m) \<and> errors_is e nf
    | Some _ \<Rightarrow> \<exists>m'. mem_kv_delete nf (key i) m = (Inr (), m') \<and>
        mem_kv_ok (\<lambda>v. key (ident v)) m' \<and> map_of m' = (map_of m)(key i := None)"
    using ok by (auto simp: mem_kv_delete_def mem_kv_ok_iff split: option.splits)
  show "map_of m k = Some v \<Longrightarrow> key (ident v) = k"
    using keys by (auto dest: map_of_SomeD)
qed

section \<open>The ConfigMap shape keeps the contract\<close>

definition kv_reg :: "(blob \<Rightarrow> go_error + 'v) \<Rightarrow> (string \<Rightarrow> blob option) \<Rightarrow> string \<Rightarrow> 'v option" where
  "kv_reg dec d =
     (\<lambda>k. case d k of
            None \<Rightarrow> None
          | Some b \<Rightarrow> (case dec b of Inl _ \<Rightarrow> None | Inr v \<Rightarrow> Some v))"

text \<open>Every entry decodes to a record stored under its own key.\<close>

definition kv_ok :: "(blob \<Rightarrow> go_error + 'v) \<Rightarrow> ('v \<Rightarrow> string) \<Rightarrow> (string \<Rightarrow> blob option) \<Rightarrow> bool" where
  "kv_ok dec key d \<longleftrightarrow> (\<forall>k b. d k = Some b \<longrightarrow> (\<exists>v. dec b = Inr v \<and> key v = k))"

definition kv_decoded ::
  "(blob \<Rightarrow> go_error + 'v) \<Rightarrow> (string, blob) go_map \<Rightarrow> (string, 'v) go_map" where
  "kv_decoded dec m = map (\<lambda>(k, b). (k, projr (dec b))) m"

lemma kv_decoded_facts:
  assumes "map_wf m" and "kv_ok dec key (map_of m)"
  shows "map_wf (kv_decoded dec m)" and "map_of (kv_decoded dec m) = kv_reg dec (map_of m)"
    and "kv_decode_all wrap dec m = Inr (map snd (kv_decoded dec m))"
    and "\<forall>(k, v) \<in> set (kv_decoded dec m). key v = k"
proof -
  have dec: "\<exists>v. dec b = Inr v \<and> key v = k" if "(k, b) \<in> set m" for k b
    using assms that by (auto simp: kv_ok_def map_wf_mem_iff)
  show "map_wf (kv_decoded dec m)"
    using assms(1) by (simp add: map_wf_def kv_decoded_def comp_def case_prod_unfold)
  show "map_of (kv_decoded dec m) = kv_reg dec (map_of m)"
  proof
    fix k
    have "map_of (kv_decoded dec m) k = map_option (\<lambda>b. projr (dec b)) (map_of m k)"
      unfolding kv_decoded_def by (simp add: map_of_map)
    also have "\<dots> = kv_reg dec (map_of m) k"
      using dec by (fastforce simp: kv_reg_def split: option.splits sum.splits dest: map_of_SomeD)
    finally show "map_of (kv_decoded dec m) k = kv_reg dec (map_of m) k" .
  qed
  show "kv_decode_all wrap dec m = Inr (map snd (kv_decoded dec m))"
    using dec by (induction m) (force simp: kv_decoded_def split: prod.splits)+
  show "\<forall>(k, v) \<in> set (kv_decoded dec m). key v = k"
    using dec by (fastforce simp: kv_decoded_def)
qed

lemma kv_find_key_no_conflict:
  "\<not> is_conflict nf \<Longrightarrow> kv_find_key nf key m = Inl e \<Longrightarrow> \<not> is_conflict e"
  by (auto simp: kv_find_key_def split: option.splits)

context data_api
begin

text \<open>No lost update: a successful put edits the data current at the instant of the write.\<close>

lemma kv_put_success:
  assumes "kv_put c nm nf wrap key raw w = (Inr (), w')"
  shows "\<exists>w0 ob. w' = snd (commit ob w0) \<and>
    registered cur nm w' = (registered cur nm w0)(key \<mapsto> raw) \<and>
    (\<forall>k. k \<noteq> (SystemNamespace, nm) \<longrightarrow> cur w' k = cur w0 k)"
proof -
  let ?f = "put_attempt c nm ''configmap'' nf (map_set key raw)"
  from assms have "retry_on_conflict c ?f w = (Inr (), w')"
    by (auto simp: kv_put_def split: prod.splits sum.splits)
  then obtain v where "?f v = (Inr (), w')"
    using retry_spec_result [of retries ?f w] by (auto simp: retry_law)
  from put_attempt_success [OF this map_wf_set] show ?thesis by (auto simp: map_of_map_set)
qed

lemma kv_delete_success:
  assumes "kv_delete c nm nf wrap key w = (Inr (), w')"
  shows "\<exists>w0 ob. w' = snd (commit ob w0) \<and> registered cur nm w0 key \<noteq> None \<and>
    registered cur nm w' = (registered cur nm w0)(key := None) \<and>
    (\<forall>k. k \<noteq> (SystemNamespace, nm) \<longrightarrow> cur w' k = cur w0 k)"
proof -
  let ?f = "delete_attempt c nm ''configmap'' nf (kv_find_key nf key)"
  from assms have "retry_on_conflict c ?f w = (Inr (), w')"
    by (auto simp: kv_delete_def split: prod.splits sum.splits)
  then obtain v where "?f v = (Inr (), w')"
    using retry_spec_result [of retries ?f w] by (auto simp: retry_law)
  from delete_attempt_success [OF this] obtain w0 ob m key' where
    "w' = snd (commit ob w0)" "registered cur nm w0 = map_of m" "kv_find_key nf key m = Inr key'"
    "registered cur nm w' = (map_of m)(key' := None)"
    "\<forall>k. k \<noteq> (SystemNamespace, nm) \<longrightarrow> cur w' k = cur w0 k" by blast
  then have "w' = snd (commit ob w0) \<and> registered cur nm w0 key \<noteq> None \<and>
    registered cur nm w' = (registered cur nm w0)(key := None) \<and>
    (\<forall>k. k \<noteq> (SystemNamespace, nm) \<longrightarrow> cur w' k = cur w0 k)"
    by (auto simp: kv_find_key_def split: option.splits)
  then show ?thesis by blast
qed

end

context quiet_data_api
begin

lemma kv_get_registry:
  "get_registry c nm kind nf w =
     (case cur w (SystemNamespace, nm) of None \<Rightarrow> (Inl nf, w) | Some ob \<Rightarrow> (Inr ob, w))"
  unfolding get_registry_cases quiet by (simp split: option.splits)

lemma kv_store:
  assumes codec: "\<And>v. dec (enc v) = Inr v" and nf: "\<not> is_conflict nf"
    and wrap: "\<And>i e. errors_is (wrap_delete i e) e"
  shows "keyed_store (\<lambda>v. kv_put c nm nf (wrap_put v) (key (ident v)) (enc v))
    (\<lambda>i. kv_get c nm nf (wrap_get i) dec (key i)) (kv_list c nm nf wrap_list dec ord)
    (\<lambda>i. kv_delete c nm nf (wrap_delete i) (key i)) ident key ord nf
    (\<lambda>w. kv_reg dec (registered cur nm w)) (\<lambda>w. kv_ok dec (\<lambda>v. key (ident v)) (registered cur nm w))"
proof unfold_locales
  fix w v i k
  assume ok: "kv_ok dec (\<lambda>v. key (ident v)) (registered cur nm w)"
  from put_quiet [of "map_set (key (ident v)) (enc v)" nm "''configmap''" nf w, OF map_wf_set]
  obtain w' m where run: "retry_on_conflict c
      (put_attempt c nm ''configmap'' nf (map_set (key (ident v)) (enc v))) w = (Inr (), w')"
    and "map_wf m" "registered cur nm w = map_of m"
      "registered cur nm w' = map_of (map_set (key (ident v)) (enc v) m)" by blast
  then have "registered cur nm w' = (registered cur nm w)(key (ident v) \<mapsto> enc v)" by simp
  with run ok codec show "\<exists>w'. kv_put c nm nf (wrap_put v) (key (ident v)) (enc v) w = (Inr (), w') \<and>
      kv_ok dec (\<lambda>v. key (ident v)) (registered cur nm w') \<and>
      kv_reg dec (registered cur nm w') = (kv_reg dec (registered cur nm w))(key (ident v) \<mapsto> v)"
    by (auto simp: kv_put_def kv_ok_def kv_reg_def fun_eq_iff)
  show "kv_get c nm nf (wrap_get i) dec (key i) w =
      (case kv_reg dec (registered cur nm w) (key i) of None \<Rightarrow> Inl nf | Some v \<Rightarrow> Inr v, w)"
  proof (cases "registered cur nm w (key i)")
    case None
    then show ?thesis
      by (auto simp: kv_get_def kv_get_registry kv_reg_def registered_def split: option.splits)
  next
    case (Some b)
    with ok obtain x where "dec b = Inr x" by (auto simp: kv_ok_def)
    with Some show ?thesis
      by (auto simp: kv_get_def kv_get_registry kv_reg_def registered_def split: option.splits)
  qed
  show "\<exists>vs. kv_list c nm nf wrap_list dec ord w = (Inr vs, w) \<and>
      set vs = ran (kv_reg dec (registered cur nm w)) \<and> distinct vs \<and> sorted (map ord vs)"
  proof (cases "cur w (SystemNamespace, nm)")
    case None
    then show ?thesis
      by (simp add: kv_list_def kv_list_unsorted_def kv_get_registry registered_def kv_reg_def)
  next
    case (Some ob)
    from cur_wf [OF Some] have wf: "map_wf (data_entries ob)" by simp
    have reg: "registered cur nm w = map_of (data_entries ob)" using Some by (simp add: registered_def)
    note dec = kv_decoded_facts [OF wf ok [unfolded reg]]
    from map_wf_keyed_distinct [OF dec(1) dec(4)] dec(1) Some show ?thesis
      by (simp add: kv_list_def kv_list_unsorted_def kv_get_registry dec reg ran_distinct
          map_wf_def flip: dec(2))
  qed
  show "kv_reg dec (registered cur nm w) k = Some v \<Longrightarrow> key (ident v) = k"
    using ok by (fastforce simp: kv_reg_def kv_ok_def split: option.splits sum.splits)
  show "case kv_reg dec (registered cur nm w) (key i) of
      None \<Rightarrow> \<exists>e. kv_delete c nm nf (wrap_delete i) (key i) w = (Inl e, w) \<and> errors_is e nf
    | Some _ \<Rightarrow> \<exists>w'. kv_delete c nm nf (wrap_delete i) (key i) w = (Inr (), w') \<and>
        kv_ok dec (\<lambda>v. key (ident v)) (registered cur nm w') \<and>
        kv_reg dec (registered cur nm w') = (kv_reg dec (registered cur nm w))(key i := None)"
  proof -
    obtain r w' where run: "retry_on_conflict c
      (delete_attempt c nm ''configmap'' nf (kv_find_key nf (key i))) w = (r, w')" by fastforce
    note cases = delete_quiet [OF run nf kv_find_key_no_conflict [OF nf]]
    show ?thesis
    proof (cases "registered cur nm w (key i)")
      case None
      with cases run wrap show ?thesis
        by (auto simp: kv_delete_def kv_reg_def registered_def kv_find_key_def split: option.splits)
    next
      case (Some b)
      with cases have r: "r = Inr ()"
        and reg': "registered cur nm w' = (registered cur nm w)(key i := None)"
        by (auto simp: registered_def kv_find_key_def split: option.splits)
      obtain x where "dec b = Inr x" using Some ok by (auto simp: kv_ok_def)
      moreover have "kv_ok dec (\<lambda>v. key (ident v)) (registered cur nm w')"
        using ok by (auto simp: reg' kv_ok_def)
      moreover have "kv_reg dec (registered cur nm w') =
          (kv_reg dec (registered cur nm w))(key i := None)"
        by (auto simp: reg' kv_reg_def)
      ultimately show ?thesis using r run Some by (simp add: kv_delete_def kv_reg_def)
    qed
  qed
qed

end

end
