(* ===== verification/Random_Source.thy ===== *)
theory Random_Source
  imports Prelude
begin

text \<open>
  Randomness as the agent uses it: \<open>crypto/rand\<close> is a parameter, the hexadecimal identifiers
  (\<open>randomHexString\<close> of \<open>internal/agent/sts.go\<close>) are built on it.
\<close>

text \<open>
  A source of randomness: \<open>rand_int max\<close> draws a number below
  \<open>max\<close>, \<open>rand_read n\<close> draws \<open>n\<close> bytes; either may fail.
\<close>

record 'r rand_source =
  rand_int :: "nat \<Rightarrow> 'r \<Rightarrow> (go_error + nat) \<times> 'r"
  rand_read :: "nat \<Rightarrow> 'r \<Rightarrow> (go_error + byte list) \<times> 'r"

definition rand_ok :: "'r rand_source \<Rightarrow> bool" where
  "rand_ok rs \<longleftrightarrow>
     (\<forall>m r n r'. 0 < m \<longrightarrow> rand_int rs m r = (Inr n, r') \<longrightarrow> n < m) \<and>
     (\<forall>n r bs r'. rand_read rs n r = (Inr bs, r') \<longrightarrow> length bs = n)"

lemma rand_readD: "rand_ok rs \<Longrightarrow> rand_read rs n r = (Inr bs, r') \<Longrightarrow> length bs = n"
  unfolding rand_ok_def by blast

lemma rand_intD: "rand_ok rs \<Longrightarrow> 0 < m \<Longrightarrow> rand_int rs m r = (Inr n, r') \<Longrightarrow> n < m"
  unfolding rand_ok_def by blast

text \<open>Reading random bytes never fails, as on every supported operating system.\<close>

definition rand_total :: "'r rand_source \<Rightarrow> bool" where
  "rand_total rs \<longleftrightarrow> (\<forall>n r. \<exists>bs r'. rand_read rs n r = (Inr bs, r'))"

definition randomHexString :: "'r rand_source \<Rightarrow> nat \<Rightarrow> 'r \<Rightarrow> (go_error + string) \<times> 'r" where
  "randomHexString rs n r =
     (case rand_read rs n r of
        (Inl e, r1) \<Rightarrow> (Inl (Wrapf ''read random bytes: %w'' [] e), r1)
      | (Inr buf, r1) \<Rightarrow> (Inr (hex_encode buf), r1))"

lemma randomHexString_shape:
  assumes "rand_ok rs" and "randomHexString rs n r = (Inr s, r')"
  shows "length s = 2 * n \<and> set s \<subseteq> set ''0123456789abcdef''"
proof -
  from assms(2) obtain buf where "rand_read rs n r = (Inr buf, r')" "s = hex_encode buf"
    by (auto simp: randomHexString_def split: prod.splits sum.splits)
  with rand_readD [OF assms(1) this(1)] hex_encode_chars [of buf] show ?thesis by simp
qed

text \<open>A deterministic source of numbers and bytes, for evaluating examples.\<close>

definition counter_rand :: "nat rand_source" where
  "counter_rand =
     \<lparr>rand_int = (\<lambda>m r. (Inr (r mod m), Suc r)),
      rand_read = (\<lambda>n r. (Inr (map word_of_nat [r..<r + n]), r + n))\<rparr>"

lemma counter_rand_ok: "rand_ok counter_rand"
  by (auto simp: rand_ok_def counter_rand_def)

lemma counter_rand_total: "rand_total counter_rand"
  by (simp add: rand_total_def counter_rand_def)

lemma randomHexString_total:
  "rand_total rs \<Longrightarrow> \<exists>s r'. randomHexString rs n r = (Inr s, r')"
  unfolding rand_total_def randomHexString_def by (metis (no_types, lifting) case_prod_conv sum.case(2))

end
