(* ===== verification/Access_Entry.thy ===== *)
theory Access_Entry
  imports Keyed_Store Principal_Store
begin

text \<open>
  The EKS access entries (\<open>internal/agent/accessentry.go\<close>): the identity an IAM principal
  authenticates as, stored per principal ARN in the ConfigMap fjord-access-entries under a
  truncated SHA-256 of the ARN, or in memory under the ARN itself. \<open>entry_*\<close> are the methods
  of \<open>ConfigMapAccessEntryStore\<close>, \<open>mem_entry_*\<close> those of \<open>InMemoryAccessEntryStore\<close>. SHA-256
  is a parameter \<open>sha\<close> from bytes to bytes.
\<close>

definition AccessEntriesConfigMapName :: string where
  "AccessEntriesConfigMapName = ''fjord-access-entries''"

definition accessEntryGroupPrefix :: string where
  "accessEntryGroupPrefix = ''fjord:access-entry:''"

definition AccessEntryTypeStandard :: string where
  "AccessEntryTypeStandard = ''STANDARD''"

record associated_policy =
  ap_policy_arn :: string
  ap_access_scope_type :: string
  ap_namespaces :: "string list"

record access_entry =
  ae_principal_arn :: string
  ae_username :: string
  ae_groups :: "string list"
  ae_type :: string
  ae_policies :: "associated_policy list"

type_synonym sha256 = "byte list \<Rightarrow> byte list"

definition bytes_of_string :: "string \<Rightarrow> byte list" where
  "bytes_of_string s = map (\<lambda>c. word_of_nat (of_char c)) s"

definition principalHash :: "sha256 \<Rightarrow> string \<Rightarrow> string" where
  "principalHash sha arn = take 16 (hex_encode (sha (bytes_of_string arn)))"

definition principalGroup :: "sha256 \<Rightarrow> string \<Rightarrow> string" where
  "principalGroup sha arn = accessEntryGroupPrefix @ principalHash sha arn"

definition EffectiveUsername :: "access_entry \<Rightarrow> string" where
  "EffectiveUsername e = (if ae_username e \<noteq> [] then ae_username e else ae_principal_arn e)"

definition EffectiveGroups :: "sha256 \<Rightarrow> access_entry \<Rightarrow> string list" where
  "EffectiveGroups sha e =
     (if length (ae_policies e) = 0 then ae_groups e
      else ae_groups e @ [principalGroup sha (ae_principal_arn e)])"

section \<open>The JSON form\<close>

definition policy_json :: "associated_policy \<Rightarrow> json" where
  "policy_json p =
     JObj (str_member ''policyArn'' (ap_policy_arn p) @
           str_member ''accessScopeType'' (ap_access_scope_type p) @
           list_member_omitempty ''namespaces'' JStr (ap_namespaces p))"

definition policy_of_json :: "json \<Rightarrow> associated_policy option" where
  "policy_of_json j =
     (case struct_members j of
        None \<Rightarrow> None
      | Some kvs \<Rightarrow>
          (case (str_field ''policyArn'' kvs, str_field ''accessScopeType'' kvs,
                 list_field str_element ''namespaces'' kvs) of
             (Some arn, Some scope, Some nss) \<Rightarrow>
               Some \<lparr>ap_policy_arn = arn, ap_access_scope_type = scope, ap_namespaces = nss\<rparr>
           | _ \<Rightarrow> None))"

lemma policy_json_codec [simp]: "policy_of_json (policy_json p) = Some p"
  by (simp add: policy_of_json_def policy_json_def json_codec)

definition encode_entry :: "access_entry \<Rightarrow> blob" where
  "encode_entry e =
     Doc (JObj (str_member ''principalArn'' (ae_principal_arn e) @
                str_member ''username'' (ae_username e) @
                list_member_omitempty ''kubernetesGroups'' JStr (ae_groups e) @
                str_member ''type'' (ae_type e) @
                list_member_omitempty ''associatedPolicies'' policy_json (ae_policies e)))"

definition decode_entry :: "blob \<Rightarrow> go_error + access_entry" where
  "decode_entry b =
     (case b of
        Malformed \<Rightarrow> Inl (Errorf ''json: invalid input'' [])
      | Doc j \<Rightarrow>
          (case struct_members j of
             None \<Rightarrow> Inl (Errorf ''json: cannot unmarshal'' [])
           | Some kvs \<Rightarrow>
               (case (str_field ''principalArn'' kvs, str_field ''username'' kvs,
                      list_field str_element ''kubernetesGroups'' kvs, str_field ''type'' kvs,
                      list_field policy_of_json ''associatedPolicies'' kvs) of
                  (Some arn, Some user, Some groups, Some ty, Some ps) \<Rightarrow>
                    Inr \<lparr>ae_principal_arn = arn, ae_username = user, ae_groups = groups,
                         ae_type = ty, ae_policies = ps\<rparr>
                | _ \<Rightarrow> Inl (Errorf ''json: cannot unmarshal'' []))))"

lemma decode_encode_entry [simp]: "decode_entry (encode_entry e) = Inr e"
  by (simp add: decode_entry_def encode_entry_def json_codec)

section \<open>ConfigMapAccessEntryStore\<close>

definition entry_get_config_map :: "'w data_client \<Rightarrow> 'w \<Rightarrow> (go_error + data_object) \<times> 'w" where
  "entry_get_config_map c =
     get_registry c AccessEntriesConfigMapName ''configmap'' ErrAccessEntryNotFound"

definition entry_create_config_map :: "'w data_client \<Rightarrow> 'w \<Rightarrow> (go_error + data_object) \<times> 'w" where
  "entry_create_config_map c =
     create_registry c AccessEntriesConfigMapName ''configmap'' ErrAccessEntryNotFound"

definition entry_get_or_create_config_map :: "'w data_client \<Rightarrow> 'w \<Rightarrow> (go_error + data_object) \<times> 'w" where
  "entry_get_or_create_config_map c =
     get_or_create_registry c AccessEntriesConfigMapName ''configmap'' ErrAccessEntryNotFound"

definition entry_update_config_map ::
  "'w data_client \<Rightarrow> data_object \<Rightarrow> 'w \<Rightarrow> (go_error + unit) \<times> 'w" where
  "entry_update_config_map c = update_registry c AccessEntriesConfigMapName ''configmap''"

definition entry_put :: "'w data_client \<Rightarrow> sha256 \<Rightarrow> access_entry \<Rightarrow> 'w \<Rightarrow> (go_error + unit) \<times> 'w" where
  "entry_put c sha e =
     kv_put c AccessEntriesConfigMapName ErrAccessEntryNotFound
       (Wrapf ''put access entry %q: %w'' [ae_principal_arn e])
       (principalHash sha (ae_principal_arn e)) (encode_entry e)"

definition entry_get ::
  "'w data_client \<Rightarrow> sha256 \<Rightarrow> string \<Rightarrow> 'w \<Rightarrow> (go_error + access_entry) \<times> 'w" where
  "entry_get c sha principalARN =
     kv_get c AccessEntriesConfigMapName ErrAccessEntryNotFound
       (Wrapf ''unmarshal access entry %q: %w'' [principalARN]) decode_entry
       (principalHash sha principalARN)"

definition entry_list_unsorted :: "'w data_client \<Rightarrow> 'w \<Rightarrow> (go_error + access_entry list) \<times> 'w" where
  "entry_list_unsorted c =
     kv_list_unsorted c AccessEntriesConfigMapName ErrAccessEntryNotFound
       (\<lambda>key. Wrapf ''unmarshal access entry %q: %w'' [key]) decode_entry"

definition entry_list :: "'w data_client \<Rightarrow> 'w \<Rightarrow> (go_error + access_entry list) \<times> 'w" where
  "entry_list c =
     kv_list c AccessEntriesConfigMapName ErrAccessEntryNotFound
       (\<lambda>key. Wrapf ''unmarshal access entry %q: %w'' [key]) decode_entry ae_principal_arn"

definition entry_delete :: "'w data_client \<Rightarrow> sha256 \<Rightarrow> string \<Rightarrow> 'w \<Rightarrow> (go_error + unit) \<times> 'w" where
  "entry_delete c sha principalARN =
     kv_delete c AccessEntriesConfigMapName ErrAccessEntryNotFound
       (Wrapf ''delete access entry %q: %w'' [principalARN]) (principalHash sha principalARN)"

text \<open>How the methods are composed of the helpers.\<close>

lemma entry_attempts:
  "put_attempt c AccessEntriesConfigMapName ''configmap'' ErrAccessEntryNotFound edit w =
     (case entry_get_or_create_config_map c w of
        (Inl e, w1) \<Rightarrow> (Inl e, w1)
      | (Inr ob, w1) \<Rightarrow> entry_update_config_map c (ob\<lparr>do_data := Some (edit (data_entries ob))\<rparr>) w1)"
  "delete_attempt c AccessEntriesConfigMapName ''configmap'' ErrAccessEntryNotFound
      (kv_find_key ErrAccessEntryNotFound key) w =
     (case entry_get_config_map c w of
        (Inl e, w1) \<Rightarrow> (Inl e, w1)
      | (Inr ob, w1) \<Rightarrow>
          if map_of (data_entries ob) key = None then (Inl ErrAccessEntryNotFound, w1)
          else entry_update_config_map c
                 (ob\<lparr>do_data := Some (map_delete key (data_entries ob))\<rparr>) w1)"
  "entry_list c w = (case entry_list_unsorted c w of
     (Inl e, w1) \<Rightarrow> (Inl e, w1) | (Inr vs, w1) \<Rightarrow> (Inr (sort_key ae_principal_arn vs), w1))"
  by (auto simp: put_attempt_def delete_attempt_def entry_get_or_create_config_map_def
      entry_update_config_map_def entry_get_config_map_def kv_find_key_def entry_list_def kv_list_def
      entry_list_unsorted_def split: prod.splits sum.splits option.splits)

section \<open>InMemoryAccessEntryStore\<close>

type_synonym mem_entries = "(string, access_entry) go_map"

definition mem_entry_put :: "access_entry \<Rightarrow> mem_entries \<Rightarrow> (go_error + unit) \<times> mem_entries" where
  "mem_entry_put e = mem_kv_put (ae_principal_arn e) e"

definition mem_entry_get :: "string \<Rightarrow> mem_entries \<Rightarrow> (go_error + access_entry) \<times> mem_entries" where
  "mem_entry_get arn = mem_kv_get ErrAccessEntryNotFound arn"

definition mem_entry_list :: "mem_entries \<Rightarrow> (go_error + access_entry list) \<times> mem_entries" where
  "mem_entry_list = mem_kv_list ae_principal_arn"

definition mem_entry_delete :: "string \<Rightarrow> mem_entries \<Rightarrow> (go_error + unit) \<times> mem_entries" where
  "mem_entry_delete arn = mem_kv_delete ErrAccessEntryNotFound arn"

section \<open>Both keep the contract\<close>

definition entry_reg ::
  "('w \<Rightarrow> string \<times> string \<Rightarrow> data_object option) \<Rightarrow> 'w \<Rightarrow> string \<Rightarrow> access_entry option" where
  "entry_reg cur w = kv_reg decode_entry (registered cur AccessEntriesConfigMapName w)"

definition entry_ok ::
  "('w \<Rightarrow> string \<times> string \<Rightarrow> data_object option) \<Rightarrow> sha256 \<Rightarrow> 'w \<Rightarrow> bool" where
  "entry_ok cur sha w \<longleftrightarrow>
     kv_ok decode_entry (\<lambda>e. principalHash sha (ae_principal_arn e))
       (registered cur AccessEntriesConfigMapName w)"

definition mem_entry_ok :: "mem_entries \<Rightarrow> bool" where
  "mem_entry_ok = mem_kv_ok ae_principal_arn"

interpretation mem_entry: keyed_store mem_entry_put mem_entry_get mem_entry_list mem_entry_delete
  ae_principal_arn "\<lambda>arn. arn" ae_principal_arn ErrAccessEntryNotFound map_of mem_entry_ok
  unfolding mem_entry_put_def [abs_def] mem_entry_get_def [abs_def] mem_entry_list_def
    mem_entry_delete_def [abs_def] mem_entry_ok_def
  by (rule mem_kv_store)

sublocale quiet_data_api \<subseteq> entries: keyed_store "entry_put c sha" "entry_get c sha" "entry_list c"
  "entry_delete c sha" ae_principal_arn "principalHash sha" ae_principal_arn ErrAccessEntryNotFound
  "entry_reg cur" "entry_ok cur sha" for sha
  unfolding entry_put_def [abs_def] entry_get_def [abs_def] entry_list_def entry_delete_def [abs_def]
    entry_reg_def [abs_def] entry_ok_def [abs_def]
  by (rule kv_store) (simp_all add: is_conflict_def)

context quiet_data_api
begin

lemma entry_contract: "keyed_store (entry_put c sha) (entry_get c sha) (entry_list c)
    (entry_delete c sha) ae_principal_arn (principalHash sha) ae_principal_arn ErrAccessEntryNotFound
    (entry_reg cur) (entry_ok cur sha)"
  by (rule entries.keyed_store_axioms)

end

section \<open>Properties\<close>

text \<open>A stand-in for SHA-256 that evaluates: the input padded with zeros to 32 bytes.\<close>

definition pad_sha :: sha256 where
  "pad_sha bs = take 32 (rev bs @ replicate 32 0)"

definition demo_entry :: access_entry where
  "demo_entry =
     \<lparr>ae_principal_arn = RoleARN ''dev'', ae_username = ''dev'', ae_groups = [''viewers''],
      ae_type = AccessEntryTypeStandard,
      ae_policies = [\<lparr>ap_policy_arn = ''p'', ap_access_scope_type = ''namespace'',
                      ap_namespaces = [''prod'']\<rparr>]\<rparr>"

text \<open>
  Every access entry survives being written to and read back from its JSON text, with
  all groups, policies and scopes, empty ones included.
\<close>

theorem access_entry_json_roundtrip: "decode_entry (encode_entry e) = Inr e"
  by (rule decode_encode_entry)

text \<open>
  A \<open>Put\<close> of an access entry is what \<open>Get\<close> of its principal ARN returns, it replaces an
  earlier entry of the principal, and an ARN with another hash resolves as before; after a
  \<open>Delete\<close> the ARN is not found.
\<close>

theorem access_entry_put_get_delete:
  assumes "quiet_data_api c cur env commit retries" and "entry_ok cur sha w"
    and "entry_put c sha e w = (r, w1)" and "entry_delete c sha (ae_principal_arn e) w1 = (r', w2)"
  shows "r = Inr () \<and> entry_get c sha (ae_principal_arn e) w1 = (Inr e, w1) \<and>
    (\<forall>arn. principalHash sha arn \<noteq> principalHash sha (ae_principal_arn e) \<longrightarrow>
       fst (entry_get c sha arn w1) = fst (entry_get c sha arn w)) \<and>
    r' = Inr () \<and> entry_get c sha (ae_principal_arn e) w2 = (Inl ErrAccessEntryNotFound, w2)"
proof -
  note st = quiet_data_api.entry_contract [OF assms(1), of sha]
  note put = keyed_store.put_reg [OF st assms(2,3)]
  have "entry_reg cur w1 (principalHash sha (ae_principal_arn e)) = Some e" by (simp add: put)
  with keyed_store.delete_law [OF st put(2), of "ae_principal_arn e"] assms(4) have r': "r' = Inr ()"
    by auto
  show ?thesis
    using put(1) keyed_store.put_get [OF st assms(2,3)] keyed_store.put_get_other [OF st assms(2,3)]
      r' keyed_store.delete_get(1) [OF st put(2) assms(4) [unfolded r']] by auto
qed

theorem access_entry_put_get_delete_witness:
  "\<exists>w1. entry_put (ref_client (\<lambda>w. w)) pad_sha demo_entry empty_world = (Inr (), w1) \<and>
     entry_get (ref_client (\<lambda>w. w)) pad_sha (RoleARN ''dev'') w1 = (Inr demo_entry, w1)"
proof -
  obtain r w1 where run: "entry_put (ref_client (\<lambda>w. w)) pad_sha demo_entry empty_world = (r, w1)"
    by fastforce
  obtain r' w2 where del: "entry_delete (ref_client (\<lambda>w. w)) pad_sha (ae_principal_arn demo_entry) w1
      = (r', w2)" by fastforce
  have "entry_ok ref_cur pad_sha empty_world"
    by (simp add: entry_ok_def kv_ok_def registered_def ref_cur_def empty_world_def)
  from access_entry_put_get_delete [OF quiet_ref.quiet_data_api_axioms this run del] run show ?thesis
    by (simp add: demo_entry_def)
qed

text \<open>
  A successful \<open>Put\<close> of an access entry, whatever other clients write meanwhile and
  however often it conflicted, changes exactly the record of its own key in the registry
  as it was at the instant of the write.
\<close>

theorem access_entry_put_no_lost_update:
  assumes "data_api c cur env commit retries" and "entry_put c sha e w = (Inr (), w')"
  shows "\<exists>w0 ob. w' = snd (commit ob w0) \<and>
    registered cur AccessEntriesConfigMapName w' =
      (registered cur AccessEntriesConfigMapName w0)
        (principalHash sha (ae_principal_arn e) \<mapsto> encode_entry e) \<and>
    (\<forall>k. k \<noteq> (SystemNamespace, AccessEntriesConfigMapName) \<longrightarrow> cur w' k = cur w0 k)"
  using data_api.kv_put_success [OF assms(1) assms(2) [unfolded entry_put_def]] by blast

definition racing_entries :: ref_world where
  "racing_entries =
     \<lparr>rw_objects = Map.empty,
      rw_foreign =
        [None, None,
         Some ((SystemNamespace, AccessEntriesConfigMapName), [(''other'', encode_entry demo_entry)])]\<rparr>"

theorem access_entry_put_no_lost_update_witness:
  "\<exists>w' w0 ob. entry_put (ref_client ref_env) pad_sha demo_entry racing_entries = (Inr (), w') \<and>
     w' = snd (ref_commit ob w0)"
proof -
  have "fst (entry_put (ref_client ref_env) pad_sha demo_entry racing_entries) = Inr ()"
    by code_simp
  then obtain w' where
    run: "entry_put (ref_client ref_env) pad_sha demo_entry racing_entries = (Inr (), w')"
    by (cases "entry_put (ref_client ref_env) pad_sha demo_entry racing_entries") simp
  from access_entry_put_no_lost_update [OF ref.data_api_axioms run] run show ?thesis by blast
qed

end
