(* ===== verification/Pod_Identity_Store.thy ===== *)
theory Pod_Identity_Store
  imports Keyed_Store Random_Source Principal_Store
begin

text \<open>
  The EKS Pod Identity associations (\<open>internal/agent/store.go\<close>, second half): one JSON record
  per (namespace, ServiceAccount) pair in the ConfigMap fjord-pod-identity-associations.
  \<open>pia_*\<close> are the methods of \<open>ConfigMapPodIdentityStore\<close>, \<open>mem_pia_*\<close> those of
  \<open>InMemoryPodIdentityStore\<close>; both keep the contract \<open>keyed_store\<close>.
\<close>

definition PodIdentityAssociationsConfigMapName :: string where
  "PodIdentityAssociationsConfigMapName = ''fjord-pod-identity-associations''"

definition podIdentityAssociationIDPrefix :: string where
  "podIdentityAssociationIDPrefix = ''a-''"

definition podIdentityAssociationIDBytes :: nat where
  "podIdentityAssociationIDBytes = 8"

definition imdsRegion :: string where
  "imdsRegion = ''us-east-1''"

record association =
  as_namespace :: string
  as_service_account :: string
  as_role_arn :: string
  as_association_id :: string

definition PodIdentityAssociationARN :: "string \<Rightarrow> string \<Rightarrow> string" where
  "PodIdentityAssociationARN clusterName associationID =
     ''arn:aws:eks:'' @ imdsRegion @ '':'' @ AccountID @ '':podidentityassociation/'' @ clusterName @
     ''/'' @ associationID"

definition NewPodIdentityAssociationID :: "'r rand_source \<Rightarrow> 'r \<Rightarrow> (go_error + string) \<times> 'r" where
  "NewPodIdentityAssociationID rs r =
     (case randomHexString rs podIdentityAssociationIDBytes r of
        (Inl e, r1) \<Rightarrow> (Inl (Wrapf ''generate pod identity association id: %w'' [] e), r1)
      | (Inr suff, r1) \<Rightarrow> (Inr (podIdentityAssociationIDPrefix @ suff), r1))"

definition podIdentityKey :: "string \<Rightarrow> string \<Rightarrow> string" where
  "podIdentityKey namespace serviceAccount = namespace @ ''.'' @ serviceAccount"

definition encode_association :: "association \<Rightarrow> blob" where
  "encode_association a =
     Doc (JObj (str_member ''namespace'' (as_namespace a) @
                str_member ''serviceAccount'' (as_service_account a) @
                str_member ''roleArn'' (as_role_arn a) @
                str_member ''associationId'' (as_association_id a)))"

definition decode_association :: "blob \<Rightarrow> go_error + association" where
  "decode_association b =
     (case b of
        Malformed \<Rightarrow> Inl (Errorf ''json: invalid input'' [])
      | Doc j \<Rightarrow>
          (case struct_members j of
             None \<Rightarrow> Inl (Errorf ''json: cannot unmarshal'' [])
           | Some kvs \<Rightarrow>
               (case (str_field ''namespace'' kvs, str_field ''serviceAccount'' kvs,
                      str_field ''roleArn'' kvs, str_field ''associationId'' kvs) of
                  (Some ns, Some sa, Some role, Some i) \<Rightarrow>
                    Inr \<lparr>as_namespace = ns, as_service_account = sa, as_role_arn = role,
                         as_association_id = i\<rparr>
                | _ \<Rightarrow> Inl (Errorf ''json: cannot unmarshal'' []))))"

lemma decode_encode_association [simp]: "decode_association (encode_association a) = Inr a"
  by (simp add: decode_association_def encode_association_def json_codec)

section \<open>ConfigMapPodIdentityStore\<close>

definition as_ident :: "association \<Rightarrow> string \<times> string" where
  "as_ident a = (as_namespace a, as_service_account a)"

text \<open>The order of \<open>List\<close>: by namespace, then by ServiceAccount.\<close>

definition association_order :: "association \<Rightarrow> string list" where
  "association_order a = [as_namespace a, as_service_account a]"

definition pia_key :: "string \<times> string \<Rightarrow> string" where
  "pia_key i = podIdentityKey (fst i) (snd i)"

definition pia_get_config_map :: "'w data_client \<Rightarrow> 'w \<Rightarrow> (go_error + data_object) \<times> 'w" where
  "pia_get_config_map c =
     get_registry c PodIdentityAssociationsConfigMapName ''configmap'' ErrPodIdentityAssociationNotFound"

definition pia_create_config_map :: "'w data_client \<Rightarrow> 'w \<Rightarrow> (go_error + data_object) \<times> 'w" where
  "pia_create_config_map c =
     create_registry c PodIdentityAssociationsConfigMapName ''configmap'' ErrPodIdentityAssociationNotFound"

definition pia_get_or_create_config_map :: "'w data_client \<Rightarrow> 'w \<Rightarrow> (go_error + data_object) \<times> 'w" where
  "pia_get_or_create_config_map c =
     get_or_create_registry c PodIdentityAssociationsConfigMapName ''configmap''
       ErrPodIdentityAssociationNotFound"

definition pia_update_config_map ::
  "'w data_client \<Rightarrow> data_object \<Rightarrow> 'w \<Rightarrow> (go_error + unit) \<times> 'w" where
  "pia_update_config_map c = update_registry c PodIdentityAssociationsConfigMapName ''configmap''"

definition pia_put :: "'w data_client \<Rightarrow> association \<Rightarrow> 'w \<Rightarrow> (go_error + unit) \<times> 'w" where
  "pia_put c a =
     kv_put c PodIdentityAssociationsConfigMapName ErrPodIdentityAssociationNotFound
       (Wrapf ''put pod identity association %s/%s: %w'' [as_namespace a, as_service_account a])
       (pia_key (as_ident a)) (encode_association a)"

definition pia_get_by_sa ::
  "'w data_client \<Rightarrow> string \<times> string \<Rightarrow> 'w \<Rightarrow> (go_error + association) \<times> 'w" where
  "pia_get_by_sa c i =
     kv_get c PodIdentityAssociationsConfigMapName ErrPodIdentityAssociationNotFound
       (Wrapf ''unmarshal pod identity association %s/%s: %w'' [fst i, snd i])
       decode_association (pia_key i)"

definition pia_list_unsorted :: "'w data_client \<Rightarrow> 'w \<Rightarrow> (go_error + association list) \<times> 'w" where
  "pia_list_unsorted c =
     kv_list_unsorted c PodIdentityAssociationsConfigMapName ErrPodIdentityAssociationNotFound
       (\<lambda>key. Wrapf ''unmarshal pod identity association %q: %w'' [key]) decode_association"

definition pia_list :: "'w data_client \<Rightarrow> 'w \<Rightarrow> (go_error + association list) \<times> 'w" where
  "pia_list c =
     kv_list c PodIdentityAssociationsConfigMapName ErrPodIdentityAssociationNotFound
       (\<lambda>key. Wrapf ''unmarshal pod identity association %q: %w'' [key]) decode_association
       association_order"

definition pia_delete :: "'w data_client \<Rightarrow> string \<times> string \<Rightarrow> 'w \<Rightarrow> (go_error + unit) \<times> 'w" where
  "pia_delete c i =
     kv_delete c PodIdentityAssociationsConfigMapName ErrPodIdentityAssociationNotFound
       (Wrapf ''delete pod identity association %s/%s: %w'' [fst i, snd i]) (pia_key i)"

text \<open>How the methods are composed of the helpers.\<close>

lemma pia_attempts:
  "put_attempt c PodIdentityAssociationsConfigMapName ''configmap'' ErrPodIdentityAssociationNotFound edit w =
     (case pia_get_or_create_config_map c w of
        (Inl e, w1) \<Rightarrow> (Inl e, w1)
      | (Inr ob, w1) \<Rightarrow> pia_update_config_map c (ob\<lparr>do_data := Some (edit (data_entries ob))\<rparr>) w1)"
  "delete_attempt c PodIdentityAssociationsConfigMapName ''configmap'' ErrPodIdentityAssociationNotFound
      (kv_find_key ErrPodIdentityAssociationNotFound key) w =
     (case pia_get_config_map c w of
        (Inl e, w1) \<Rightarrow> (Inl e, w1)
      | (Inr ob, w1) \<Rightarrow>
          if map_of (data_entries ob) key = None then (Inl ErrPodIdentityAssociationNotFound, w1)
          else pia_update_config_map c
                 (ob\<lparr>do_data := Some (map_delete key (data_entries ob))\<rparr>) w1)"
  "pia_list c w = (case pia_list_unsorted c w of
     (Inl e, w1) \<Rightarrow> (Inl e, w1) | (Inr vs, w1) \<Rightarrow> (Inr (sort_key association_order vs), w1))"
  by (auto simp: put_attempt_def delete_attempt_def pia_get_or_create_config_map_def
      pia_update_config_map_def pia_get_config_map_def kv_find_key_def pia_list_def kv_list_def
      pia_list_unsorted_def split: prod.splits sum.splits option.splits)

section \<open>InMemoryPodIdentityStore\<close>

type_synonym mem_associations = "(string, association) go_map"

definition mem_pia_put :: "association \<Rightarrow> mem_associations \<Rightarrow> (go_error + unit) \<times> mem_associations" where
  "mem_pia_put a = mem_kv_put (pia_key (as_ident a)) a"

definition mem_pia_get_by_sa ::
  "string \<times> string \<Rightarrow> mem_associations \<Rightarrow> (go_error + association) \<times> mem_associations" where
  "mem_pia_get_by_sa i = mem_kv_get ErrPodIdentityAssociationNotFound (pia_key i)"

definition mem_pia_list :: "mem_associations \<Rightarrow> (go_error + association list) \<times> mem_associations" where
  "mem_pia_list = mem_kv_list association_order"

definition mem_pia_delete ::
  "string \<times> string \<Rightarrow> mem_associations \<Rightarrow> (go_error + unit) \<times> mem_associations" where
  "mem_pia_delete i = mem_kv_delete ErrPodIdentityAssociationNotFound (pia_key i)"

section \<open>Both keep the contract\<close>

definition pia_reg ::
  "('w \<Rightarrow> string \<times> string \<Rightarrow> data_object option) \<Rightarrow> 'w \<Rightarrow> string \<Rightarrow> association option" where
  "pia_reg cur w = kv_reg decode_association (registered cur PodIdentityAssociationsConfigMapName w)"

definition pia_ok :: "('w \<Rightarrow> string \<times> string \<Rightarrow> data_object option) \<Rightarrow> 'w \<Rightarrow> bool" where
  "pia_ok cur w \<longleftrightarrow>
     kv_ok decode_association (\<lambda>a. pia_key (as_ident a))
       (registered cur PodIdentityAssociationsConfigMapName w)"

interpretation mem_pia: keyed_store mem_pia_put mem_pia_get_by_sa mem_pia_list mem_pia_delete
  as_ident pia_key association_order ErrPodIdentityAssociationNotFound map_of
  "mem_kv_ok (\<lambda>a. pia_key (as_ident a))"
  unfolding mem_pia_put_def [abs_def] mem_pia_get_by_sa_def [abs_def] mem_pia_list_def
    mem_pia_delete_def [abs_def]
  by (rule mem_kv_store)

sublocale quiet_data_api \<subseteq> pia: keyed_store "pia_put c" "pia_get_by_sa c" "pia_list c" "pia_delete c"
  as_ident pia_key association_order ErrPodIdentityAssociationNotFound "pia_reg cur" "pia_ok cur"
  unfolding pia_put_def [abs_def] pia_get_by_sa_def [abs_def] pia_list_def pia_delete_def [abs_def]
    pia_reg_def [abs_def] pia_ok_def [abs_def]
  by (rule kv_store) (simp_all add: is_conflict_def)

context quiet_data_api
begin

lemma pia_contract: "keyed_store (pia_put c) (pia_get_by_sa c) (pia_list c) (pia_delete c)
    as_ident pia_key association_order ErrPodIdentityAssociationNotFound (pia_reg cur) (pia_ok cur)"
  by (rule pia.keyed_store_axioms)

end

section \<open>Properties\<close>

lemma podIdentityKey_inj:
  assumes "CHR ''.'' \<notin> set ns" and "CHR ''.'' \<notin> set ns'"
  shows "podIdentityKey ns sa = podIdentityKey ns' sa' \<longleftrightarrow> ns = ns' \<and> sa = sa'"
proof
  assume "podIdentityKey ns sa = podIdentityKey ns' sa'"
  then have "cut_at (CHR ''.'') (podIdentityKey ns sa) = cut_at (CHR ''.'') (podIdentityKey ns' sa')"
    by simp
  with assms show "ns = ns' \<and> sa = sa'" by (simp add: podIdentityKey_def)
qed simp

text \<open>
  The composite key is unambiguous for namespace names, which are DNS labels without
  a dot, even though ServiceAccount names may contain dots: two pairs get the same key
  only if they are the same pair.
\<close>

theorem pod_identity_key_unambiguous:
  assumes "CHR ''.'' \<notin> set ns" and "CHR ''.'' \<notin> set ns'"
  shows "podIdentityKey ns sa = podIdentityKey ns' sa' \<longleftrightarrow> ns = ns' \<and> sa = sa'"
  by (rule podIdentityKey_inj [OF assms])

theorem pod_identity_key_unambiguous_witness:
  "podIdentityKey ''prod'' ''app.v2'' \<noteq> podIdentityKey ''dev'' ''app.v2''"
  using pod_identity_key_unambiguous [of "''prod''" "''dev''" "''app.v2''" "''app.v2''"] by simp

text \<open>
  A \<open>Put\<close> of an association is found again by its namespace and ServiceAccount and is
  in the sorted \<open>List\<close>; every other pair of a namespace without a dot resolves as before.
\<close>

theorem pod_identity_put_get:
  assumes "quiet_data_api c cur env commit retries" and "pia_ok cur w"
    and "pia_put c a w = (r, w')"
  shows "r = Inr () \<and> pia_get_by_sa c (as_ident a) w' = (Inr a, w') \<and>
    (\<exists>as. pia_list c w' = (Inr as, w') \<and> a \<in> set as \<and> sorted (map association_order as)) \<and>
    (\<forall>ns sa. CHR ''.'' \<notin> set ns \<longrightarrow> CHR ''.'' \<notin> set (as_namespace a) \<longrightarrow> (ns, sa) \<noteq> as_ident a \<longrightarrow>
       fst (pia_get_by_sa c (ns, sa) w') = fst (pia_get_by_sa c (ns, sa) w))"
proof -
  note st = quiet_data_api.pia_contract [OF assms(1)]
  have other: "pia_key (ns, sa) \<noteq> pia_key (as_ident a)"
    if "CHR ''.'' \<notin> set ns" "CHR ''.'' \<notin> set (as_namespace a)" "(ns, sa) \<noteq> as_ident a" for ns sa
    using that podIdentityKey_inj [OF that(1,2)] by (simp add: pia_key_def as_ident_def)
  show ?thesis
  proof (intro conjI allI impI)
    show "r = Inr ()" by (rule keyed_store.put_reg(1) [OF st assms(2,3)])
    show "pia_get_by_sa c (as_ident a) w' = (Inr a, w')"
      by (rule keyed_store.put_get [OF st assms(2,3)])
    show "\<exists>as. pia_list c w' = (Inr as, w') \<and> a \<in> set as \<and> sorted (map association_order as)"
      using keyed_store.put_list [OF st assms(2,3)] by blast
  qed (rule keyed_store.put_get_other [OF st assms(2,3) other])
qed

definition demo_association :: association where
  "demo_association =
     \<lparr>as_namespace = ''prod'', as_service_account = ''app'', as_role_arn = RoleARN ''app'',
      as_association_id = ''a-1''\<rparr>"

theorem pod_identity_put_get_witness:
  "\<exists>w'. pia_put (ref_client (\<lambda>w. w)) demo_association empty_world = (Inr (), w') \<and>
     pia_get_by_sa (ref_client (\<lambda>w. w)) (''prod'', ''app'') w' = (Inr demo_association, w')"
proof -
  obtain r w' where run: "pia_put (ref_client (\<lambda>w. w)) demo_association empty_world = (r, w')"
    by fastforce
  have "pia_ok ref_cur empty_world"
    by (simp add: pia_ok_def kv_ok_def registered_def ref_cur_def empty_world_def)
  from pod_identity_put_get [OF quiet_ref.quiet_data_api_axioms this run] run show ?thesis
    by (simp add: demo_association_def as_ident_def)
qed

end
