(* ===== verification/Cluster_Info.thy ===== *)
theory Cluster_Info
  imports Kube_Api Principal_Store
begin

text \<open>
  The cluster record DescribeCluster serves (\<open>internal/agent/clusterinfo.go\<close>): one JSON text
  under the key info of the ConfigMap fjord-cluster-info, created or overwritten without a
  retry loop, and its in-memory counterpart.
\<close>

definition ClusterInfoConfigMapName :: string where
  "ClusterInfoConfigMapName = ''fjord-cluster-info''"

definition clusterInfoConfigMapKey :: string where
  "clusterInfoConfigMapKey = ''info''"

record cluster_info =
  ci_name :: string
  ci_endpoint :: string
  ci_ca_data :: string
  ci_version :: string
  ci_platform_version :: string

definition encode_info :: "cluster_info \<Rightarrow> blob" where
  "encode_info i =
     Doc (JObj (str_member_omitempty ''name'' (ci_name i) @
                str_member ''endpoint'' (ci_endpoint i) @
                str_member ''certificateAuthorityData'' (ci_ca_data i) @
                str_member_omitempty ''version'' (ci_version i) @
                str_member_omitempty ''platformVersion'' (ci_platform_version i)))"

definition decode_info :: "blob \<Rightarrow> go_error + cluster_info" where
  "decode_info b =
     (case b of
        Malformed \<Rightarrow> Inl (Errorf ''json: invalid input'' [])
      | Doc j \<Rightarrow>
          (case struct_members j of
             None \<Rightarrow> Inl (Errorf ''json: cannot unmarshal'' [])
           | Some kvs \<Rightarrow>
               (case (str_field ''name'' kvs, str_field ''endpoint'' kvs,
                      str_field ''certificateAuthorityData'' kvs, str_field ''version'' kvs,
                      str_field ''platformVersion'' kvs) of
                  (Some n, Some ep, Some ca, Some v, Some pv) \<Rightarrow>
                    Inr \<lparr>ci_name = n, ci_endpoint = ep, ci_ca_data = ca, ci_version = v,
                         ci_platform_version = pv\<rparr>
                | _ \<Rightarrow> Inl (Errorf ''json: cannot unmarshal'' []))))"

lemma decode_encode_info [simp]: "decode_info (encode_info i) = Inr i"
  by (simp add: decode_info_def encode_info_def json_codec)

section \<open>ConfigMapClusterInfoStore\<close>

definition info_put :: "'w data_client \<Rightarrow> cluster_info \<Rightarrow> 'w \<Rightarrow> (go_error + unit) \<times> 'w" where
  "info_put c info w =
     (let data = [(clusterInfoConfigMapKey, encode_info info)];
          configMap = \<lparr>do_namespace = SystemNamespace, do_name = ClusterInfoConfigMapName,
                       do_rv = 0, do_data = Some data\<rparr>
      in case api_create c configMap w of
           (Inr _, w1) \<Rightarrow> (Inr (), w1)
         | (Inl e, w1) \<Rightarrow>
             if \<not> is_already_exists e
             then (Inl (Wrapf ''create %q configmap: %w'' [ClusterInfoConfigMapName] e), w1)
             else
               (case api_get c SystemNamespace ClusterInfoConfigMapName w1 of
                  (Inl e, w2) \<Rightarrow>
                    (Inl (Wrapf ''get %q configmap: %w'' [ClusterInfoConfigMapName] e), w2)
                | (Inr existing, w2) \<Rightarrow>
                    (case api_update c (existing\<lparr>do_data := Some data\<rparr>) w2 of
                       (Inl e, w3) \<Rightarrow>
                         (Inl (Wrapf ''update %q configmap: %w'' [ClusterInfoConfigMapName] e), w3)
                     | (Inr _, w3) \<Rightarrow> (Inr (), w3))))"

definition info_get :: "'w data_client \<Rightarrow> 'w \<Rightarrow> (go_error + cluster_info) \<times> 'w" where
  "info_get c w =
     (case api_get c SystemNamespace ClusterInfoConfigMapName w of
        (Inl e, w1) \<Rightarrow>
          if is_not_found e then (Inl ErrClusterInfoNotFound, w1)
          else (Inl (Wrapf ''get %q configmap: %w'' [ClusterInfoConfigMapName] e), w1)
      | (Inr configMap, w1) \<Rightarrow>
          (case map_of (data_entries configMap) clusterInfoConfigMapKey of
             None \<Rightarrow> (Inl ErrClusterInfoNotFound, w1)
           | Some raw \<Rightarrow>
               (case decode_info raw of
                  Inl e \<Rightarrow> (Inl (Wrapf ''unmarshal cluster info: %w'' [] e), w1)
                | Inr info \<Rightarrow> (Inr info, w1))))"

section \<open>InMemoryClusterInfoStore\<close>

definition mem_info_put ::
  "cluster_info \<Rightarrow> cluster_info option \<Rightarrow> (go_error + unit) \<times> cluster_info option" where
  "mem_info_put info s = (Inr (), Some info)"

definition mem_info_get :: "cluster_info option \<Rightarrow> (go_error + cluster_info) \<times> cluster_info option" where
  "mem_info_get s = (case s of None \<Rightarrow> (Inl ErrClusterInfoNotFound, s) | Some info \<Rightarrow> (Inr info, s))"

section \<open>The contract\<close>

locale info_store =
  fixes put :: "cluster_info \<Rightarrow> 's \<Rightarrow> (go_error + unit) \<times> 's"
    and get :: "'s \<Rightarrow> (go_error + cluster_info) \<times> 's"
  assumes put_succeeds: "fst (put i s) = Inr ()"
    and get_after_put: "get (snd (put i s)) = (Inr i, snd (put i s))"
    and get_pure: "snd (get s) = s"
begin

lemma last_put_wins: "put i s = (r, s1) \<Longrightarrow> put j s1 = (r', s2) \<Longrightarrow> get s2 = (Inr j, s2)"
  using get_after_put [of j s1] by simp

end

interpretation mem_info: info_store mem_info_put mem_info_get
  by unfold_locales (auto simp: mem_info_put_def mem_info_get_def split: option.splits)

context data_api
begin

text \<open>
  A success leaves exactly the record put in the ConfigMap; without a retry loop a racing
  writer makes the call fail with a Conflict instead.
\<close>

lemma info_put_success:
  assumes "info_put c info w = (Inr (), w')"
  shows "registered cur ClusterInfoConfigMapName w' = [clusterInfoConfigMapKey \<mapsto> encode_info info]"
proof -
  let ?data = "[(clusterInfoConfigMapKey, encode_info info)]"
  let ?new = "\<lparr>do_namespace = SystemNamespace, do_name = ClusterInfoConfigMapName, do_rv = 0,
    do_data = Some ?data\<rparr>"
  have key: "object_key ?new = (SystemNamespace, ClusterInfoConfigMapName)"
    and wf: "map_wf ?data" by (simp_all add: object_key_def map_wf_def)
  have written: ?thesis
    if "commit ob v = (ob', w')" and "object_key ob = (SystemNamespace, ClusterInfoConfigMapName)"
      and "do_data ob = Some ?data" for ob v ob'
    using commit_cur [OF that(1)] commit_data [OF that(1)] that(2,3) wf
    by (auto simp: registered_def data_entries_def)
  show ?thesis
  proof (cases "cur (env w) (SystemNamespace, ClusterInfoConfigMapName)")
    case None
    with assms key obtain ob' where "commit ?new (env w) = (ob', w')"
      by (auto simp: info_put_def Let_def create_law split: prod.splits)
    from written [OF this] key show ?thesis by simp
  next
    case (Some x)
    with assms key obtain ob where ob: "cur (env (env w)) (SystemNamespace, ClusterInfoConfigMapName) = Some ob"
      by (auto simp: info_put_def Let_def create_law get_law is_already_exists_def split: option.splits)
    have key': "object_key (ob\<lparr>do_data := Some ?data\<rparr>) = (SystemNamespace, ClusterInfoConfigMapName)"
      using cur_wf [OF ob] by (simp add: object_key_def)
    from assms Some key ob key' obtain ob' v where "commit (ob\<lparr>do_data := Some ?data\<rparr>) v = (ob', w')"
      by (auto simp: info_put_def Let_def create_law get_law update_law is_already_exists_def
          split: option.splits prod.splits if_splits)
    from written [OF this key'] show ?thesis by simp
  qed
qed

end

context quiet_data_api
begin

lemma info_put_quiet: "\<exists>w'. info_put c info w = (Inr (), w')"
proof (cases "cur w (SystemNamespace, ClusterInfoConfigMapName)")
  case None
  then show ?thesis
    by (auto simp: info_put_def Let_def create_law quiet object_key_def split: prod.splits)
next
  case (Some ob)
  with cur_wf [OF Some] show ?thesis
    by (auto simp: info_put_def Let_def create_law get_law update_law quiet object_key_def
        is_already_exists_def split: prod.splits)
qed

lemma info_get_quiet:
  "info_get c w =
     (case registered cur ClusterInfoConfigMapName w clusterInfoConfigMapKey of
        None \<Rightarrow> Inl ErrClusterInfoNotFound
      | Some raw \<Rightarrow>
          (case decode_info raw of
             Inl e \<Rightarrow> Inl (Wrapf ''unmarshal cluster info: %w'' [] e)
           | Inr info \<Rightarrow> Inr info), w)"
  by (auto simp: info_get_def get_law quiet registered_def is_not_found_def
      split: option.splits sum.splits)

end

sublocale quiet_data_api \<subseteq> info: info_store "info_put c" "info_get c"
proof unfold_locales
  fix i w
  obtain w' where run: "info_put c i w = (Inr (), w')" using info_put_quiet by blast
  then show "fst (info_put c i w) = Inr ()" by simp
  from info_put_success [OF run] run
  show "info_get c (snd (info_put c i w)) = (Inr i, snd (info_put c i w))"
    by (simp add: info_get_quiet)
  show "snd (info_get c w) = w" by (simp add: info_get_quiet)
qed

context quiet_data_api
begin

lemma info_contract: "info_store (info_put c) (info_get c)"
  by (rule info.info_store_axioms)

end

section \<open>Properties\<close>

text \<open>
  Registering a cluster record succeeds and DescribeCluster's \<open>Get\<close> then returns it,
  whichever record, or none, was registered before.
\<close>

theorem cluster_info_last_put_wins:
  assumes "quiet_data_api c cur env commit retries" and "info_put c i w = (r, w1)"
    and "info_put c j w1 = (r', w2)"
  shows "r = Inr () \<and> r' = Inr () \<and> info_get c w2 = (Inr j, w2)"
proof -
  note st = quiet_data_api.info_contract [OF assms(1)]
  show ?thesis
    using info_store.put_succeeds [OF st, of i w] info_store.put_succeeds [OF st, of j w1]
      info_store.last_put_wins [OF st assms(2,3)] assms(2,3) by simp
qed

definition demo_info :: cluster_info where
  "demo_info =
     \<lparr>ci_name = ''fjord'', ci_endpoint = ''https://127.0.0.1:6443'', ci_ca_data = ''Q0E='',
      ci_version = ''1.33'', ci_platform_version = ''eks.1''\<rparr>"

theorem cluster_info_last_put_wins_witness:
  "\<exists>w2 :: ref_world. info_get (ref_client (\<lambda>w. w)) w2 = (Inr (demo_info\<lparr>ci_version := []\<rparr>), w2)"
proof -
  obtain r w1 where "info_put (ref_client (\<lambda>w. w)) demo_info empty_world = (r, w1)" by fastforce
  moreover obtain r' w2 where
    "info_put (ref_client (\<lambda>w. w)) (demo_info\<lparr>ci_version := []\<rparr>) w1 = (r', w2)" by fastforce
  ultimately show ?thesis
    using cluster_info_last_put_wins [OF quiet_ref.quiet_data_api_axioms] by blast
qed

end
