(* ===== verification/Facade.thy ===== *)
theory Facade
  imports Http Access_Entry Pod_Identity_Store Cluster_Info
begin

text \<open>
  The EKS API facade (\<open>internal/agent/facade.go\<close>, \<open>facade_addons.go\<close>): clusters and addons,
  Pod Identity associations, access entries, and the access policies that are materialized
  as Kubernetes RBAC bindings of a synthetic group. The stores are given by the methods a
  handler calls, the RBAC API by an \<open>rbac_client\<close>, over one world; the locale \<open>policy_world\<close>
  states what the handlers rely on. A ClusterRoleBinding is a binding without a namespace.
\<close>

section \<open>Constants\<close>

definition accessScopeTypeCluster :: string where
  "accessScopeTypeCluster = ''cluster''"

definition accessScopeTypeNamespace :: string where
  "accessScopeTypeNamespace = ''namespace''"

definition accessEntryBindingPrefix :: string where
  "accessEntryBindingPrefix = ''fjord-access-entry-''"

definition dummyAddonVersion :: string where
  "dummyAddonVersion = ''v1.0.0-eksbuild.1''"

definition managedAddons :: "string list" where
  "managedAddons = [''coredns'', ''kube-proxy'', ''eks-pod-identity-agent'']"

section \<open>Pod Identity associations\<close>

record association_request =
  ar_namespace :: string
  ar_service_account :: string
  ar_role_arn :: string

definition decode_association_request :: "blob \<Rightarrow> association_request option" where
  "decode_association_request b =
     (case b of
        Malformed \<Rightarrow> None
      | Doc j \<Rightarrow>
          (case struct_members j of
             None \<Rightarrow> None
           | Some kvs \<Rightarrow>
               (case (str_field ''namespace'' kvs, str_field ''serviceAccount'' kvs, str_field ''roleArn'' kvs) of
                  (Some ns, Some sa, Some role) \<Rightarrow>
                    Some \<lparr>ar_namespace = ns, ar_service_account = sa, ar_role_arn = role\<rparr>
                | _ \<Rightarrow> None)))"

definition association_json :: "string \<Rightarrow> association \<Rightarrow> json" where
  "association_json clusterName a =
     JObj
       [(''association'',
         JObj
           [(''associationArn'', JStr (PodIdentityAssociationARN clusterName (as_association_id a))),
            (''associationId'', JStr (as_association_id a)),
            (''clusterName'', JStr clusterName),
            (''namespace'', JStr (as_namespace a)),
            (''serviceAccount'', JStr (as_service_account a)),
            (''roleArn'', JStr (as_role_arn a))])]"

definition handleCreatePodIdentityAssociation ::
  "(association \<Rightarrow> 'w \<Rightarrow> (go_error + unit) \<times> 'w) \<Rightarrow> 'r rand_source \<Rightarrow> http_request \<Rightarrow> 'w \<times> 'r
   \<Rightarrow> http_response \<times> 'w \<times> 'r" where
  "handleCreatePodIdentityAssociation put rs r s =
     (case decode_association_request (req_body r) of
        None \<Rightarrow> (http_plain_error (Msg ''failed to parse request body'') 400, s)
      | Some req \<Rightarrow>
          if ar_namespace req = [] \<or> ar_service_account req = [] \<or> ar_role_arn req = [] then
            (http_plain_error (Msg ''namespace, serviceAccount, and roleArn are required'') 400, s)
          else
            (case NewPodIdentityAssociationID rs (snd s) of
               (Inl e, r1) \<Rightarrow>
                 (http_plain_error (Msg ''failed to generate association id'') 500, fst s, r1)
             | (Inr associationID, r1) \<Rightarrow>
                 (let a = \<lparr>as_namespace = ar_namespace req,
                           as_service_account = ar_service_account req,
                           as_role_arn = ar_role_arn req, as_association_id = associationID\<rparr>
                  in case put a (fst s) of
                       (Inl e, w1) \<Rightarrow>
                         (http_plain_error (MsgErr ''failed to create pod identity association: '' e) 500,
                          w1, r1)
                     | (Inr _, w1) \<Rightarrow>
                         (write_json_response (association_json (path_value r ''name'') a), w1, r1))))"

section \<open>Clusters and addons\<close>

definition clusterARN :: "string \<Rightarrow> string" where
  "clusterARN name = ''arn:aws:eks:'' @ imdsRegion @ '':'' @ AccountID @ '':cluster/'' @ name"

definition describeClusterDetailFor :: "string \<Rightarrow> cluster_info \<Rightarrow> json" where
  "describeClusterDetailFor clusterName info =
     (let platformVersion =
            (if ci_platform_version info = [] then ''eks.1'' else ci_platform_version info)
      in JObj
           [(''name'', JStr clusterName),
            (''arn'', JStr (clusterARN clusterName)),
            (''status'', JStr ''ACTIVE''),
            (''endpoint'', JStr (ci_endpoint info)),
            (''certificateAuthority'', JObj [(''data'', JStr (ci_ca_data info))]),
            (''version'', JStr (ci_version info)),
            (''platformVersion'', JStr platformVersion),
            (''roleArn'', JStr (''arn:aws:iam::'' @ AccountID @ '':role/'' @ ''fjord-cluster-role'')),
            (''createdAt'', JStr ''2024-01-01T00:00:00.000000+00:00''),
            (''identity'',
             JObj [(''oidc'',
               JObj [(''issuer'',
                 JStr (''https://oidc.eks.'' @ imdsRegion @ ''.amazonaws.com/id/FJORD'' @ clusterName))])]),
            (''resourcesVpcConfig'',
             JObj [(''endpointPublicAccess'', JBool True), (''endpointPrivateAccess'', JBool False)]),
            (''kubernetesNetworkConfig'',
             JObj [(''serviceIpv4Cidr'', JStr ''10.96.0.0/12''), (''ipFamily'', JStr ''ipv4'')]),
            (''tags'', JObj []),
            (''health'', JObj [(''issues'', JArr [])]),
            (''accessConfig'', JObj [(''authenticationMode'', JStr ''API'')])])"

definition handleDescribeCluster ::
  "('w \<Rightarrow> (go_error + cluster_info) \<times> 'w) \<Rightarrow> http_request \<Rightarrow> 'w \<Rightarrow> http_response \<times> 'w" where
  "handleDescribeCluster get_info r w =
     (case get_info w of
        (Inl e, w1) \<Rightarrow>
          if errors_is e ErrClusterInfoNotFound then
            (write_eks_auth_error 404 ''ResourceNotFoundException'' (Msg ''cluster info not registered''), w1)
          else (write_eks_auth_error 500 ''InternalServerException'' (MsgErr [] e), w1)
      | (Inr info, w1) \<Rightarrow>
          (write_json_response
             (JObj [(''cluster'', describeClusterDetailFor (path_value r ''name'') info)]), w1))"

definition handleListClusters ::
  "('w \<Rightarrow> (go_error + cluster_info) \<times> 'w) \<Rightarrow> http_request \<Rightarrow> 'w \<Rightarrow> http_response \<times> 'w" where
  "handleListClusters get_info r w =
     (case get_info w of
        (Inl e, w1) \<Rightarrow>
          if errors_is e ErrClusterInfoNotFound then
            (write_json_response (JObj [(''clusters'', JArr []), (''nextToken'', JNull)]), w1)
          else (write_eks_auth_error 500 ''InternalServerException'' (MsgErr [] e), w1)
      | (Inr info, w1) \<Rightarrow>
          (write_json_response
             (JObj [(''clusters'', strs_json [ci_name info]), (''nextToken'', JNull)]), w1))"

definition handleListAddons :: "http_request \<Rightarrow> http_response" where
  "handleListAddons r = write_json_response (JObj [(''addons'', strs_json managedAddons)])"

definition handleDescribeAddon :: "http_request \<Rightarrow> http_response" where
  "handleDescribeAddon r =
     (let addonName = path_value r ''addonName'' in
      if addonName \<notin> set managedAddons then
        write_eks_auth_error 404 ''ResourceNotFoundException'' (MsgFmt ''addon %q not found'' [addonName])
      else
        write_json_response
          (JObj
             [(''addon'',
               JObj
                 [(''addonName'', JStr addonName),
                  (''clusterName'', JStr (path_value r ''name'')),
                  (''status'', JStr ''ACTIVE''),
                  (''addonVersion'', JStr dummyAddonVersion),
                  (''health'', JObj [(''issues'', JArr [])])])]))"

section \<open>Access entries\<close>

record create_entry_request =
  cer_principal_arn :: string
  cer_username :: string
  cer_groups :: "string list"

definition decode_create_entry :: "blob \<Rightarrow> create_entry_request option" where
  "decode_create_entry b =
     (case b of
        Malformed \<Rightarrow> None
      | Doc j \<Rightarrow>
          (case struct_members j of
             None \<Rightarrow> None
           | Some kvs \<Rightarrow>
               (case (str_field ''principalArn'' kvs, str_field ''username'' kvs,
                      list_field str_element ''kubernetesGroups'' kvs) of
                  (Some arn, Some user, Some groups) \<Rightarrow>
                    Some \<lparr>cer_principal_arn = arn, cer_username = user, cer_groups = groups\<rparr>
                | _ \<Rightarrow> None)))"

definition toAccessEntryDetail :: "access_entry \<Rightarrow> json" where
  "toAccessEntryDetail e =
     JObj (str_member ''principalArn'' (ae_principal_arn e) @
           str_member ''username'' (EffectiveUsername e) @
           list_member_omitempty ''kubernetesGroups'' JStr (ae_groups e) @
           str_member ''type'' (ae_type e))"

definition handleCreateAccessEntry ::
  "(access_entry \<Rightarrow> 'w \<Rightarrow> (go_error + unit) \<times> 'w) \<Rightarrow> http_request \<Rightarrow> 'w \<Rightarrow> http_response \<times> 'w" where
  "handleCreateAccessEntry put r w =
     (case decode_create_entry (req_body r) of
        None \<Rightarrow>
          (write_eks_auth_error 400 ''InvalidRequestException'' (Msg ''failed to parse request body''), w)
      | Some req \<Rightarrow>
          if cer_principal_arn req = [] then
            (write_eks_auth_error 400 ''InvalidParameterException'' (Msg ''principalArn is required''), w)
          else
            (let entry = \<lparr>ae_principal_arn = cer_principal_arn req, ae_username = cer_username req,
                          ae_groups = cer_groups req, ae_type = AccessEntryTypeStandard,
                          ae_policies = []\<rparr>
             in case put entry w of
                  (Inl e, w1) \<Rightarrow> (write_eks_auth_error 500 ''InternalServerException'' (MsgErr [] e), w1)
                | (Inr _, w1) \<Rightarrow>
                    (write_json_response (JObj [(''accessEntry'', toAccessEntryDetail entry)]), w1)))"

definition handleListAccessEntries ::
  "('w \<Rightarrow> (go_error + access_entry list) \<times> 'w) \<Rightarrow> http_request \<Rightarrow> 'w \<Rightarrow> http_response \<times> 'w" where
  "handleListAccessEntries ls r w =
     (case ls w of
        (Inl e, w1) \<Rightarrow> (write_eks_auth_error 500 ''InternalServerException'' (MsgErr [] e), w1)
      | (Inr entries, w1) \<Rightarrow>
          (write_json_response (JObj [(''accessEntries'', strs_json (map ae_principal_arn entries))]), w1))"

definition handleDeleteAccessEntry ::
  "(string \<Rightarrow> 'w \<Rightarrow> (go_error + unit) \<times> 'w) \<Rightarrow> http_request \<Rightarrow> 'w \<Rightarrow> http_response \<times> 'w" where
  "handleDeleteAccessEntry del r w =
     (let principalARN = values_get (req_query r) ''principalArn'' in
      if principalARN = [] then
        (write_eks_auth_error 400 ''InvalidParameterException''
           (Msg ''principalArn query parameter is required''), w)
      else
        (case del principalARN w of
           (Inl e, w1) \<Rightarrow>
             if errors_is e ErrAccessEntryNotFound then
               (write_eks_auth_error 404 ''ResourceNotFoundException'' (Msg ''access entry not found''), w1)
             else (write_eks_auth_error 500 ''InternalServerException'' (MsgErr [] e), w1)
         | (Inr _, w1) \<Rightarrow> (status_only 200, w1)))"

section \<open>Access policies\<close>

definition clusterRoleForPolicy :: "string \<Rightarrow> string option" where
  "clusterRoleForPolicy policyARN =
     (let base = path_base policyARN in
      if base = ''AmazonEKSClusterAdminPolicy'' then Some ''cluster-admin''
      else if base = ''AmazonEKSAdminPolicy'' then Some ''admin''
      else if base = ''AmazonEKSEditPolicy'' then Some ''edit''
      else if base = ''AmazonEKSViewPolicy'' then Some ''view''
      else None)"

fun upsertAssociatedPolicy :: "associated_policy list \<Rightarrow> associated_policy \<Rightarrow> associated_policy list" where
  "upsertAssociatedPolicy [] policy = [policy]"
| "upsertAssociatedPolicy (p # ps) policy =
     (if ap_policy_arn p = ap_policy_arn policy then policy # ps
      else p # upsertAssociatedPolicy ps policy)"

definition findAssociatedPolicy :: "associated_policy list \<Rightarrow> string \<Rightarrow> associated_policy option" where
  "findAssociatedPolicy policies policyARN = find (\<lambda>p. ap_policy_arn p = policyARN) policies"

definition removeAssociatedPolicy :: "associated_policy list \<Rightarrow> string \<Rightarrow> associated_policy list" where
  "removeAssociatedPolicy policies policyARN = filter (\<lambda>p. ap_policy_arn p \<noteq> policyARN) policies"

definition accessEntryBindingName :: "sha256 \<Rightarrow> string \<Rightarrow> string \<Rightarrow> string" where
  "accessEntryBindingName sha principalARN clusterRoleName =
     accessEntryBindingPrefix @ principalHash sha principalARN @ ''-'' @ clusterRoleName"

text \<open>A binding of a group to a ClusterRole, cluster-wide or in one namespace.\<close>

record binding =
  bd_namespace :: "string option"
  bd_name :: string
  bd_role :: string
  bd_group :: string

type_synonym binding_key = "string option \<times> string"

definition binding_key :: "binding \<Rightarrow> binding_key" where
  "binding_key b = (bd_namespace b, bd_name b)"

record 'w rbac_client =
  rbac_create :: "binding \<Rightarrow> 'w \<Rightarrow> (go_error + unit) \<times> 'w"
  rbac_delete :: "binding_key \<Rightarrow> 'w \<Rightarrow> (go_error + unit) \<times> 'w"

definition ensureAccessEntryClusterRoleBinding ::
  "'w rbac_client \<Rightarrow> string \<Rightarrow> string \<Rightarrow> string \<Rightarrow> 'w \<Rightarrow> (go_error + unit) \<times> 'w" where
  "ensureAccessEntryClusterRoleBinding rc name clusterRoleName grp w =
     (case rbac_create rc \<lparr>bd_namespace = None, bd_name = name, bd_role = clusterRoleName,
                           bd_group = grp\<rparr> w of
        (Inr _, w1) \<Rightarrow> (Inr (), w1)
      | (Inl e, w1) \<Rightarrow>
          if is_already_exists e then (Inr (), w1)
          else (Inl (Wrapf ''create %q cluster role binding: %w'' [name] e), w1))"

definition deleteAccessEntryClusterRoleBinding ::
  "'w rbac_client \<Rightarrow> string \<Rightarrow> 'w \<Rightarrow> (go_error + unit) \<times> 'w" where
  "deleteAccessEntryClusterRoleBinding rc name w =
     (case rbac_delete rc (None, name) w of
        (Inr _, w1) \<Rightarrow> (Inr (), w1)
      | (Inl e, w1) \<Rightarrow>
          if is_not_found e then (Inr (), w1)
          else (Inl (Wrapf ''delete %q cluster role binding: %w'' [name] e), w1))"

definition ensureAccessEntryRoleBinding ::
  "'w rbac_client \<Rightarrow> string \<Rightarrow> string \<Rightarrow> string \<Rightarrow> string \<Rightarrow> 'w \<Rightarrow> (go_error + unit) \<times> 'w" where
  "ensureAccessEntryRoleBinding rc namespace name clusterRoleName grp w =
     (case rbac_create rc \<lparr>bd_namespace = Some namespace, bd_name = name, bd_role = clusterRoleName,
                           bd_group = grp\<rparr> w of
        (Inr _, w1) \<Rightarrow> (Inr (), w1)
      | (Inl e, w1) \<Rightarrow>
          if is_already_exists e then (Inr (), w1)
          else (Inl (Wrapf ''create %q role binding in %q: %w'' [name, namespace] e), w1))"

definition deleteAccessEntryRoleBinding ::
  "'w rbac_client \<Rightarrow> string \<Rightarrow> string \<Rightarrow> 'w \<Rightarrow> (go_error + unit) \<times> 'w" where
  "deleteAccessEntryRoleBinding rc namespace name w =
     (case rbac_delete rc (Some namespace, name) w of
        (Inr _, w1) \<Rightarrow> (Inr (), w1)
      | (Inl e, w1) \<Rightarrow>
          if is_not_found e then (Inr (), w1)
          else (Inl (Wrapf ''delete %q role binding in %q: %w'' [name, namespace] e), w1))"

text \<open>A loop over namespaces that stops at the first error.\<close>

fun for_namespaces ::
  "(string \<Rightarrow> 'w \<Rightarrow> (go_error + unit) \<times> 'w) \<Rightarrow> string list \<Rightarrow> 'w \<Rightarrow> (go_error + unit) \<times> 'w" where
  "for_namespaces f [] w = (Inr (), w)"
| "for_namespaces f (ns # nss) w =
     (case f ns w of
        (Inl e, w1) \<Rightarrow> (Inl e, w1)
      | (Inr _, w1) \<Rightarrow> for_namespaces f nss w1)"

definition materializeAccessPolicyRBAC ::
  "'w rbac_client \<Rightarrow> sha256 \<Rightarrow> string \<Rightarrow> string \<Rightarrow> string \<Rightarrow> string list \<Rightarrow> 'w \<Rightarrow> (go_error + unit) \<times> 'w" where
  "materializeAccessPolicyRBAC rc sha principalARN clusterRoleName scopeType namespaces w =
     (let grp = principalGroup sha principalARN;
          name = accessEntryBindingName sha principalARN clusterRoleName
      in if scopeType = accessScopeTypeCluster
         then ensureAccessEntryClusterRoleBinding rc name clusterRoleName grp w
         else for_namespaces
                (\<lambda>namespace. ensureAccessEntryRoleBinding rc namespace name clusterRoleName grp)
                namespaces w)"

definition removeAccessPolicyRBAC ::
  "'w rbac_client \<Rightarrow> sha256 \<Rightarrow> string \<Rightarrow> string \<Rightarrow> string \<Rightarrow> string list \<Rightarrow> 'w \<Rightarrow> (go_error + unit) \<times> 'w" where
  "removeAccessPolicyRBAC rc sha principalARN clusterRoleName scopeType namespaces w =
     (let name = accessEntryBindingName sha principalARN clusterRoleName in
      if scopeType = accessScopeTypeCluster then deleteAccessEntryClusterRoleBinding rc name w
      else for_namespaces (\<lambda>namespace. deleteAccessEntryRoleBinding rc namespace name) namespaces w)"

section \<open>Access policy handlers\<close>

record associate_request =
  apr_policy_arn :: string
  apr_scope_type :: string
  apr_namespaces :: "string list"

definition decode_associate :: "blob \<Rightarrow> associate_request option" where
  "decode_associate b =
     (case b of
        Malformed \<Rightarrow> None
      | Doc j \<Rightarrow>
          (case struct_members j of
             None \<Rightarrow> None
           | Some kvs \<Rightarrow>
               (case nested_members ''accessScope'' kvs of
                  None \<Rightarrow> None
                | Some scope \<Rightarrow>
                    (case (str_field ''policyArn'' kvs, str_field ''type'' scope,
                           list_field str_element ''namespaces'' scope) of
                       (Some arn, Some ty, Some nss) \<Rightarrow>
                         Some \<lparr>apr_policy_arn = arn, apr_scope_type = ty, apr_namespaces = nss\<rparr>
                     | _ \<Rightarrow> None))))"

text \<open>\<open>Inl\<close> is the error response that was written.\<close>

definition validateAssociateAccessPolicyRequest ::
  "associate_request \<Rightarrow> http_response + string \<times> string" where
  "validateAssociateAccessPolicyRequest req =
     (case clusterRoleForPolicy (apr_policy_arn req) of
        None \<Rightarrow>
          Inl (write_eks_auth_error 400 ''InvalidParameterException''
                 (MsgFmt ''unsupported policy arn %q'' [apr_policy_arn req]))
      | Some clusterRoleName \<Rightarrow>
          (let scopeType = (if apr_scope_type req = [] then accessScopeTypeCluster else apr_scope_type req) in
           if scopeType \<noteq> accessScopeTypeCluster \<and> scopeType \<noteq> accessScopeTypeNamespace then
             Inl (write_eks_auth_error 400 ''InvalidParameterException''
                    (MsgFmt ''unsupported accessScope.type %q'' [scopeType]))
           else if scopeType = accessScopeTypeNamespace \<and> length (apr_namespaces req) = 0 then
             Inl (write_eks_auth_error 400 ''InvalidParameterException''
                    (Msg ''accessScope.namespaces is required when accessScope.type is namespace''))
           else Inr (clusterRoleName, scopeType)))"

text \<open>The error responses the three handlers that look an entry up share.\<close>

definition entry_lookup_error :: "go_error \<Rightarrow> http_response" where
  "entry_lookup_error e =
     (if errors_is e ErrAccessEntryNotFound
      then write_eks_auth_error 404 ''ResourceNotFoundException'' (Msg ''access entry not found'')
      else write_eks_auth_error 500 ''InternalServerException'' (MsgErr [] e))"

definition handleAssociateAccessPolicy ::
  "'w rbac_client \<Rightarrow> sha256 \<Rightarrow> (string \<Rightarrow> 'w \<Rightarrow> (go_error + access_entry) \<times> 'w)
   \<Rightarrow> (access_entry \<Rightarrow> 'w \<Rightarrow> (go_error + unit) \<times> 'w) \<Rightarrow> http_request \<Rightarrow> 'w \<Rightarrow> http_response \<times> 'w" where
  "handleAssociateAccessPolicy rc sha get put r w =
     (let principalARN = values_get (req_query r) ''principalArn'' in
      if principalARN = [] then
        (write_eks_auth_error 400 ''InvalidParameterException''
           (Msg ''principalArn query parameter is required''), w)
      else
        (case decode_associate (req_body r) of
           None \<Rightarrow>
             (write_eks_auth_error 400 ''InvalidRequestException'' (Msg ''failed to parse request body''), w)
         | Some req \<Rightarrow>
             (case validateAssociateAccessPolicyRequest req of
                Inl resp \<Rightarrow> (resp, w)
              | Inr (clusterRoleName, scopeType) \<Rightarrow>
                  (case get principalARN w of
                     (Inl e, w1) \<Rightarrow> (entry_lookup_error e, w1)
                   | (Inr entry, w1) \<Rightarrow>
                       (case materializeAccessPolicyRBAC rc sha (ae_principal_arn entry) clusterRoleName
                               scopeType (apr_namespaces req) w1 of
                          (Inl e, w2) \<Rightarrow>
                            (write_eks_auth_error 500 ''InternalServerException'' (MsgErr [] e), w2)
                        | (Inr _, w2) \<Rightarrow>
                            (let entry' = entry\<lparr>ae_policies :=
                                   upsertAssociatedPolicy (ae_policies entry)
                                     \<lparr>ap_policy_arn = apr_policy_arn req,
                                      ap_access_scope_type = scopeType,
                                      ap_namespaces = apr_namespaces req\<rparr>\<rparr>
                             in case put entry' w2 of
                                  (Inl e, w3) \<Rightarrow>
                                    (write_eks_auth_error 500 ''InternalServerException'' (MsgErr [] e), w3)
                                | (Inr _, w3) \<Rightarrow> (status_only 200, w3)))))))"

text \<open>An entry read back without policies has a nil slice, which is written as null.\<close>

definition handleListAssociatedAccessPolicies ::
  "(string \<Rightarrow> 'w \<Rightarrow> (go_error + access_entry) \<times> 'w) \<Rightarrow> http_request \<Rightarrow> 'w \<Rightarrow> http_response \<times> 'w" where
  "handleListAssociatedAccessPolicies get r w =
     (let principalARN = values_get (req_query r) ''principalArn'' in
      if principalARN = [] then
        (write_eks_auth_error 400 ''InvalidParameterException''
           (Msg ''principalArn query parameter is required''), w)
      else
        (case get principalARN w of
           (Inl e, w1) \<Rightarrow> (entry_lookup_error e, w1)
         | (Inr entry, w1) \<Rightarrow>
             (write_json_response
                (JObj
                   [(''principalArn'', JStr (ae_principal_arn entry)),
                    (''associatedAccessPolicies'',
                     if ae_policies entry = [] then JNull
                     else JArr (map policy_json (ae_policies entry)))]), w1)))"

definition handleDisassociateAccessPolicy ::
  "'w rbac_client \<Rightarrow> sha256 \<Rightarrow> (string \<Rightarrow> 'w \<Rightarrow> (go_error + access_entry) \<times> 'w)
   \<Rightarrow> (access_entry \<Rightarrow> 'w \<Rightarrow> (go_error + unit) \<times> 'w) \<Rightarrow> http_request \<Rightarrow> 'w \<Rightarrow> http_response \<times> 'w" where
  "handleDisassociateAccessPolicy rc sha get put r w =
     (let principalARN = values_get (req_query r) ''principalArn'';
          policyARN = values_get (req_query r) ''policyArn''
      in if principalARN = [] \<or> policyARN = [] then
           (write_eks_auth_error 400 ''InvalidParameterException''
              (Msg ''principalArn and policyArn query parameters are required''), w)
         else
           (case get principalARN w of
              (Inl e, w1) \<Rightarrow> (entry_lookup_error e, w1)
            | (Inr entry, w1) \<Rightarrow>
                (case clusterRoleForPolicy policyARN of
                   None \<Rightarrow>
                     (write_eks_auth_error 400 ''InvalidParameterException''
                        (MsgFmt ''unsupported policy arn %q'' [policyARN]), w1)
                 | Some clusterRoleName \<Rightarrow>
                     (case findAssociatedPolicy (ae_policies entry) policyARN of
                        None \<Rightarrow>
                          (write_eks_auth_error 404 ''ResourceNotFoundException''
                             (Msg ''policy is not associated with this access entry''), w1)
                      | Some policy \<Rightarrow>
                          (case removeAccessPolicyRBAC rc sha (ae_principal_arn entry) clusterRoleName
                                  (ap_access_scope_type policy) (ap_namespaces policy) w1 of
                             (Inl e, w2) \<Rightarrow>
                               (write_eks_auth_error 500 ''InternalServerException'' (MsgErr [] e), w2)
                           | (Inr _, w2) \<Rightarrow>
                               (case put (entry\<lparr>ae_policies :=
                                       removeAssociatedPolicy (ae_policies entry) policyARN\<rparr>) w2 of
                                  (Inl e, w3) \<Rightarrow>
                                    (write_eks_auth_error 500 ''InternalServerException'' (MsgErr [] e), w3)
                                | (Inr _, w3) \<Rightarrow> (status_only 200, w3)))))))"

section \<open>Lists of associated policies\<close>

lemma find_upsert:
  "findAssociatedPolicy (upsertAssociatedPolicy ps p) a =
     (if a = ap_policy_arn p then Some p else findAssociatedPolicy ps a)"
  by (induction ps p rule: upsertAssociatedPolicy.induct) (auto simp: findAssociatedPolicy_def)

lemma find_remove:
  "findAssociatedPolicy (removeAssociatedPolicy ps b) a =
     (if a = b then None else findAssociatedPolicy ps a)"
  by (induction ps) (auto simp: findAssociatedPolicy_def removeAssociatedPolicy_def)

lemma upsert_arns:
  "ap_policy_arn ` set (upsertAssociatedPolicy ps p) = insert (ap_policy_arn p) (ap_policy_arn ` set ps)"
  by (induction ps p rule: upsertAssociatedPolicy.induct) auto

lemma upsert_distinct:
  "distinct (map ap_policy_arn ps) \<Longrightarrow> distinct (map ap_policy_arn (upsertAssociatedPolicy ps p))"
  by (induction ps p rule: upsertAssociatedPolicy.induct) (auto simp: upsert_arns)

lemma remove_distinct:
  "distinct (map ap_policy_arn ps) \<Longrightarrow> distinct (map ap_policy_arn (removeAssociatedPolicy ps b))"
  by (simp add: removeAssociatedPolicy_def distinct_map_filter)

lemma upsert_nonempty [simp]: "upsertAssociatedPolicy ps p \<noteq> []"
  by (cases ps) auto

section \<open>Names of bindings\<close>

lemma principalHash_length: "length (sha (bytes_of_string arn)) = 32 \<Longrightarrow> length (principalHash sha arn) = 16"
  by (simp add: principalHash_def)

lemma binding_name_inj:
  assumes "\<And>bs. length (sha bs) = 32"
    and "accessEntryBindingName sha a r = accessEntryBindingName sha a' r'"
  shows "principalHash sha a = principalHash sha a'" and "r = r'"
proof -
  have "principalHash sha a @ ''-'' @ r = principalHash sha a' @ ''-'' @ r'"
    using assms(2) by (simp add: accessEntryBindingName_def)
  moreover have "length (principalHash sha a) = length (principalHash sha a')"
    using principalHash_length [OF assms(1)] by simp
  ultimately show "principalHash sha a = principalHash sha a'" and "r = r'"
    by (simp_all add: append_eq_append_conv)
qed

section \<open>What the policy handlers rely on\<close>

definition policy_scopes :: "string \<Rightarrow> string list \<Rightarrow> string option set" where
  "policy_scopes scopeType nss = (if scopeType = accessScopeTypeCluster then {None} else Some ` set nss)"

text \<open>The binding a policy of a principal gives in a scope.\<close>

definition policy_binding :: "sha256 \<Rightarrow> string \<Rightarrow> string \<Rightarrow> string option \<Rightarrow> binding" where
  "policy_binding sha arn role scope =
     \<lparr>bd_namespace = scope, bd_name = accessEntryBindingName sha arn role, bd_role = role,
      bd_group = principalGroup sha arn\<rparr>"

text \<open>Every binding under a policy name is the binding of that policy.\<close>

definition rbac_inv :: "sha256 \<Rightarrow> (binding_key \<Rightarrow> binding option) \<Rightarrow> bool" where
  "rbac_inv sha m \<longleftrightarrow>
     (\<forall>scope a role b. m (scope, accessEntryBindingName sha a role) = Some b \<longrightarrow>
        b = policy_binding sha a role scope)"

locale policy_world =
  fixes rc :: "'w rbac_client"
    and sha :: sha256
    and get :: "string \<Rightarrow> 'w \<Rightarrow> (go_error + access_entry) \<times> 'w"
    and put :: "access_entry \<Rightarrow> 'w \<Rightarrow> (go_error + unit) \<times> 'w"
    and reg :: "'w \<Rightarrow> string \<Rightarrow> access_entry option"
    and ok :: "'w \<Rightarrow> bool"
    and bindings :: "'w \<Rightarrow> binding_key \<Rightarrow> binding option"
  assumes sha_length: "length (sha bs) = 32"
    and create_law:
      "(case bindings w (binding_key b) of
          Some _ \<Rightarrow> rbac_create rc b w = (Inl (ApiError AlreadyExists), w)
        | None \<Rightarrow> \<exists>w'. rbac_create rc b w = (Inr (), w') \<and>
            bindings w' = (bindings w)(binding_key b \<mapsto> b) \<and> reg w' = reg w \<and> ok w' = ok w)"
    and delete_law:
      "(case bindings w k of
          None \<Rightarrow> rbac_delete rc k w = (Inl (ApiError NotFound), w)
        | Some _ \<Rightarrow> \<exists>w'. rbac_delete rc k w = (Inr (), w') \<and>
            bindings w' = (bindings w)(k := None) \<and> reg w' = reg w \<and> ok w' = ok w)"
    and get_law:
      "ok w \<Longrightarrow> get a w = (case reg w (principalHash sha a) of
         None \<Rightarrow> Inl ErrAccessEntryNotFound | Some e \<Rightarrow> Inr e, w)"
    and put_law:
      "ok w \<Longrightarrow> \<exists>w'. put e w = (Inr (), w') \<and> ok w' \<and> bindings w' = bindings w \<and>
         reg w' = (reg w)(principalHash sha (ae_principal_arn e) \<mapsto> e)"
    and reg_key: "ok w \<Longrightarrow> reg w h = Some e \<Longrightarrow> principalHash sha (ae_principal_arn e) = h"
begin

lemma policy_binding_cong:
  "accessEntryBindingName sha a r = accessEntryBindingName sha a' r' \<Longrightarrow>
   policy_binding sha a r scope = policy_binding sha a' r' scope"
  using binding_name_inj [where sha = sha and a = a and r = r and a' = a' and r' = r', OF sha_length]
  by (simp add: policy_binding_def principalGroup_def)

definition ensured :: "string \<Rightarrow> string \<Rightarrow> string option set \<Rightarrow> 'w \<Rightarrow> 'w \<Rightarrow> bool" where
  "ensured a role scopes w w' \<longleftrightarrow>
     reg w' = reg w \<and> ok w' = ok w \<and> rbac_inv sha (bindings w') \<and>
     (\<forall>scope n. bindings w' (scope, n) =
        (if scope \<in> scopes \<and> n = accessEntryBindingName sha a role
         then Some (policy_binding sha a role scope) else bindings w (scope, n)))"

definition removed :: "string \<Rightarrow> string \<Rightarrow> string option set \<Rightarrow> 'w \<Rightarrow> 'w \<Rightarrow> bool" where
  "removed a role scopes w w' \<longleftrightarrow>
     reg w' = reg w \<and> ok w' = ok w \<and>
     (\<forall>scope n. bindings w' (scope, n) =
        (if scope \<in> scopes \<and> n = accessEntryBindingName sha a role then None
         else bindings w (scope, n)))"

lemma create_ensured:
  assumes "rbac_inv sha (bindings w)"
  shows "\<exists>r w'. rbac_create rc (policy_binding sha a role scope) w = (r, w') \<and>
    (case r of Inl e \<Rightarrow> is_already_exists e | Inr _ \<Rightarrow> True) \<and> ensured a role {scope} w w'"
proof -
  let ?b = "policy_binding sha a role scope"
  have key: "binding_key ?b = (scope, accessEntryBindingName sha a role)"
    by (simp add: binding_key_def policy_binding_def)
  show ?thesis
  proof (cases "bindings w (binding_key ?b)")
    case None
    with create_law [where w = w and b = ?b] obtain w' where w': "rbac_create rc ?b w = (Inr (), w')"
      "bindings w' = (bindings w)(binding_key ?b \<mapsto> ?b)" "reg w' = reg w" "ok w' = ok w" by auto
    have "rbac_inv sha (bindings w')"
      unfolding rbac_inv_def
    proof (intro allI impI)
      fix t a' r' b assume b: "bindings w' (t, accessEntryBindingName sha a' r') = Some b"
      show "b = policy_binding sha a' r' t"
      proof (cases "t = scope \<and> accessEntryBindingName sha a' r' = accessEntryBindingName sha a role")
        case True
        then have "b = policy_binding sha a role t" using b by (simp add: w'(2) key)
        with policy_binding_cong [OF conjunct2 [OF True], of t] show ?thesis by simp
      next
        case False
        then have "bindings w (t, accessEntryBindingName sha a' r') = Some b"
          using b by (auto simp: w'(2) key)
        with assms show ?thesis by (simp add: rbac_inv_def)
      qed
    qed
    moreover have "\<forall>t n. bindings w' (t, n) = (if t \<in> {scope} \<and> n = accessEntryBindingName sha a role
        then Some (policy_binding sha a role t) else bindings w (t, n))"
      by (simp add: w'(2) key)
    ultimately have "ensured a role {scope} w w'" using w'(3,4) by (simp add: ensured_def)
    with w'(1) show ?thesis by (metis sum.case(2))
  next
    case (Some b)
    with assms key have "b = ?b" by (simp add: rbac_inv_def)
    with Some key create_law [where w = w and b = ?b] assms show ?thesis
      by (auto simp: ensured_def is_already_exists_def)
  qed
qed

lemma ensured_trans:
  "ensured a role S w w1 \<Longrightarrow> ensured a role T w1 w2 \<Longrightarrow> ensured a role (S \<union> T) w w2"
  by (auto simp: ensured_def)

lemma materialize_law:
  assumes "rbac_inv sha (bindings w)"
  shows "\<exists>w'. materializeAccessPolicyRBAC rc sha a role ty nss w = (Inr (), w') \<and>
    ensured a role (policy_scopes ty nss) w w'"
proof (cases "ty = accessScopeTypeCluster")
  case True
  from create_ensured [OF assms, of a role None] obtain x w' where
    "rbac_create rc (policy_binding sha a role None) w = (x, w')"
    "case x of Inl e \<Rightarrow> is_already_exists e | Inr _ \<Rightarrow> True" "ensured a role {None} w w'" by blast
  with True show ?thesis
    by (cases x) (auto simp: materializeAccessPolicyRBAC_def ensureAccessEntryClusterRoleBinding_def
        policy_binding_def policy_scopes_def Let_def)
next
  case False
  let ?f = "\<lambda>ns. ensureAccessEntryRoleBinding rc ns (accessEntryBindingName sha a role) role (principalGroup sha a)"
  have "\<exists>w'. for_namespaces ?f nss w = (Inr (), w') \<and> ensured a role (Some ` set nss) w w'"
    using assms
  proof (induction nss arbitrary: w)
    case Nil
    then show ?case by (simp add: ensured_def)
  next
    case (Cons ns nss)
    from create_ensured [OF Cons.prems, of a role "Some ns"] obtain x w1 where
      "rbac_create rc (policy_binding sha a role (Some ns)) w = (x, w1)"
      "case x of Inl e \<Rightarrow> is_already_exists e | Inr _ \<Rightarrow> True" and ens: "ensured a role {Some ns} w w1"
      by blast
    then have "?f ns w = (Inr (), w1)"
      by (cases x) (auto simp: ensureAccessEntryRoleBinding_def policy_binding_def)
    with ens have one: "?f ns w = (Inr (), w1)" "ensured a role {Some ns} w w1" by simp_all
    from ens have "rbac_inv sha (bindings w1)" by (simp add: ensured_def)
    from Cons.IH [OF this] obtain w2 where "for_namespaces ?f nss w1 = (Inr (), w2)"
      "ensured a role (Some ` set nss) w1 w2" by blast
    with one ensured_trans [OF one(2), of "Some ` set nss" w2] show ?case by auto
  qed
  with False show ?thesis by (simp add: materializeAccessPolicyRBAC_def Let_def policy_scopes_def)
qed

lemma delete_removed:
  "\<exists>r w'. rbac_delete rc (scope, accessEntryBindingName sha a role) w = (r, w') \<and>
     (case r of Inl e \<Rightarrow> is_not_found e | Inr _ \<Rightarrow> True) \<and> removed a role {scope} w w'"
proof (cases "bindings w (scope, accessEntryBindingName sha a role)")
  case None
  with delete_law [where w = w and k = "(scope, accessEntryBindingName sha a role)"] show ?thesis
    by (auto simp: removed_def is_not_found_def)
next
  case (Some b)
  with delete_law [where w = w and k = "(scope, accessEntryBindingName sha a role)"] show ?thesis
    by (auto simp: removed_def)
qed

lemma removed_trans:
  "removed a role S w w1 \<Longrightarrow> removed a role T w1 w2 \<Longrightarrow> removed a role (S \<union> T) w w2"
  by (auto simp: removed_def)

lemma remove_law:
  "\<exists>w'. removeAccessPolicyRBAC rc sha a role ty nss w = (Inr (), w') \<and>
     removed a role (policy_scopes ty nss) w w'"
proof (cases "ty = accessScopeTypeCluster")
  case True
  from delete_removed [where scope = None and a = a and role = role and w = w] obtain x w' where
    "rbac_delete rc (None, accessEntryBindingName sha a role) w = (x, w')"
    "case x of Inl e \<Rightarrow> is_not_found e | Inr _ \<Rightarrow> True" "removed a role {None} w w'" by blast
  with True show ?thesis
    by (cases x) (auto simp: removeAccessPolicyRBAC_def deleteAccessEntryClusterRoleBinding_def
        policy_scopes_def)
next
  case False
  let ?f = "\<lambda>ns. deleteAccessEntryRoleBinding rc ns (accessEntryBindingName sha a role)"
  have "\<exists>w'. for_namespaces ?f nss w = (Inr (), w') \<and> removed a role (Some ` set nss) w w'"
  proof (induction nss arbitrary: w)
    case Nil
    then show ?case by (simp add: removed_def)
  next
    case (Cons ns nss)
    from delete_removed [where scope = "Some ns" and a = a and role = role and w = w] obtain x w1 where
      "rbac_delete rc (Some ns, accessEntryBindingName sha a role) w = (x, w1)"
      "case x of Inl e \<Rightarrow> is_not_found e | Inr _ \<Rightarrow> True" and rmd: "removed a role {Some ns} w w1"
      by blast
    then have "?f ns w = (Inr (), w1)" by (cases x) (auto simp: deleteAccessEntryRoleBinding_def)
    with rmd have one: "?f ns w = (Inr (), w1)" "removed a role {Some ns} w w1" by simp_all
    from Cons.IH [of w1] obtain w2 where "for_namespaces ?f nss w1 = (Inr (), w2)"
      "removed a role (Some ` set nss) w1 w2" by blast
    with one removed_trans [OF one(2), of "Some ` set nss" w2] show ?case by auto
  qed
  with False show ?thesis by (simp add: removeAccessPolicyRBAC_def policy_scopes_def)
qed

lemma removed_inv: "rbac_inv sha (bindings w) \<Longrightarrow> removed a role S w w' \<Longrightarrow> rbac_inv sha (bindings w')"
  by (auto simp: rbac_inv_def removed_def split: if_splits)

text \<open>The two handlers on a valid request for a known principal.\<close>

lemma associate_law:
  assumes "ok w" and "rbac_inv sha (bindings w)" and "reg w (principalHash sha arn) = Some e"
    and "values_get (req_query r) ''principalArn'' = arn" and "arn \<noteq> []"
    and "decode_associate (req_body r) = Some req"
    and "validateAssociateAccessPolicyRequest req = Inr (role, ty)"
  shows "\<exists>w1 w2. handleAssociateAccessPolicy rc sha get put r w = (status_only 200, w2) \<and>
    ensured (ae_principal_arn e) role (policy_scopes ty (apr_namespaces req)) w w1 \<and>
    ok w2 \<and> rbac_inv sha (bindings w2) \<and> bindings w2 = bindings w1 \<and>
    reg w2 = (reg w)(principalHash sha arn \<mapsto>
      e\<lparr>ae_policies := upsertAssociatedPolicy (ae_policies e)
        \<lparr>ap_policy_arn = apr_policy_arn req, ap_access_scope_type = ty,
         ap_namespaces = apr_namespaces req\<rparr>\<rparr>)"
proof -
  from materialize_law [OF assms(2)] obtain w1 where
    mat: "materializeAccessPolicyRBAC rc sha (ae_principal_arn e) role ty (apr_namespaces req) w = (Inr (), w1)"
    and ens: "ensured (ae_principal_arn e) role (policy_scopes ty (apr_namespaces req)) w w1" by blast
  let ?e = "e\<lparr>ae_policies := upsertAssociatedPolicy (ae_policies e)
    \<lparr>ap_policy_arn = apr_policy_arn req, ap_access_scope_type = ty, ap_namespaces = apr_namespaces req\<rparr>\<rparr>"
  from ens assms(1) have w1: "ok w1" "reg w1 = reg w" "rbac_inv sha (bindings w1)" by (simp_all add: ensured_def)
  from put_law [OF w1(1), of ?e] obtain w2 where put: "put ?e w1 = (Inr (), w2)" and w2: "ok w2"
    "bindings w2 = bindings w1" "reg w2 = (reg w1)(principalHash sha (ae_principal_arn ?e) \<mapsto> ?e)"
    by blast
  have "handleAssociateAccessPolicy rc sha get put r w = (status_only 200, w2)"
    using assms mat put get_law [OF assms(1), of arn]
    by (simp add: handleAssociateAccessPolicy_def Let_def)
  moreover have "principalHash sha (ae_principal_arn ?e) = principalHash sha arn"
    using reg_key [OF assms(1,3)] by simp
  moreover have "rbac_inv sha (bindings w2)" using w1(3) w2(2) by (simp add: rbac_inv_def)
  ultimately show ?thesis using ens w1 w2 by auto
qed

lemma disassociate_law:
  assumes "ok w" and "rbac_inv sha (bindings w)" and "reg w (principalHash sha arn) = Some e"
    and "values_get (req_query r) ''principalArn'' = arn" and "arn \<noteq> []"
    and "values_get (req_query r) ''policyArn'' = parn" and "parn \<noteq> []"
    and "clusterRoleForPolicy parn = Some role"
    and "findAssociatedPolicy (ae_policies e) parn = Some p"
  shows "\<exists>w1 w2. handleDisassociateAccessPolicy rc sha get put r w = (status_only 200, w2) \<and>
    removed (ae_principal_arn e) role (policy_scopes (ap_access_scope_type p) (ap_namespaces p)) w w1 \<and>
    ok w2 \<and> rbac_inv sha (bindings w2) \<and> bindings w2 = bindings w1 \<and>
    reg w2 = (reg w)(principalHash sha arn \<mapsto>
      e\<lparr>ae_policies := removeAssociatedPolicy (ae_policies e) parn\<rparr>)"
proof -
  from remove_law obtain w1 where
    rem: "removeAccessPolicyRBAC rc sha (ae_principal_arn e) role (ap_access_scope_type p)
      (ap_namespaces p) w = (Inr (), w1)"
    and rmd: "removed (ae_principal_arn e) role (policy_scopes (ap_access_scope_type p) (ap_namespaces p)) w w1"
    by blast
  let ?e = "e\<lparr>ae_policies := removeAssociatedPolicy (ae_policies e) parn\<rparr>"
  from rmd assms(1) have w1: "ok w1" "reg w1 = reg w" by (simp_all add: removed_def)
  from put_law [OF w1(1), of ?e] obtain w2 where put: "put ?e w1 = (Inr (), w2)" and w2: "ok w2"
    "bindings w2 = bindings w1" "reg w2 = (reg w1)(principalHash sha (ae_principal_arn ?e) \<mapsto> ?e)"
    by blast
  have "handleDisassociateAccessPolicy rc sha get put r w = (status_only 200, w2)"
    using assms rem put get_law [OF assms(1), of arn]
    by (simp add: handleDisassociateAccessPolicy_def Let_def)
  moreover have "principalHash sha (ae_principal_arn ?e) = principalHash sha arn"
    using reg_key [OF assms(1,3)] by simp
  moreover have "rbac_inv sha (bindings w2)"
    using removed_inv [OF assms(2) rmd] w2(2) by (simp add: rbac_inv_def)
  ultimately show ?thesis using rmd w1 w2 by auto
qed

end

section \<open>The code's stores make a policy world\<close>

text \<open>A world of API objects next to the RBAC bindings of a reference API server.\<close>

definition ref_rbac :: "('w \<times> (binding_key \<Rightarrow> binding option)) rbac_client" where
  "ref_rbac =
     \<lparr>rbac_create = (\<lambda>b (w, m).
        case m (binding_key b) of
          Some _ \<Rightarrow> (Inl (ApiError AlreadyExists), (w, m))
        | None \<Rightarrow> (Inr (), (w, m(binding_key b \<mapsto> b)))),
      rbac_delete = (\<lambda>k (w, m).
        case m k of
          None \<Rightarrow> (Inl (ApiError NotFound), (w, m))
        | Some _ \<Rightarrow> (Inr (), (w, m(k := None))))\<rparr>"

definition on_objects :: "('w \<Rightarrow> 'a \<times> 'w) \<Rightarrow> 'w \<times> 'm \<Rightarrow> 'a \<times> 'w \<times> 'm" where
  "on_objects f s = (let (r, w') = f (fst s) in (r, w', snd s))"

context quiet_data_api
begin

lemma policy_world:
  assumes "\<And>bs. length (sha bs) = 32"
  shows "policy_world ref_rbac sha (\<lambda>a. on_objects (entry_get c sha a))
    (\<lambda>e. on_objects (entry_put c sha e)) (\<lambda>s. entry_reg cur (fst s)) (\<lambda>s. entry_ok cur sha (fst s)) snd"
proof unfold_locales
  fix s :: "'a \<times> (binding_key \<Rightarrow> binding option)" and a e b k h
  show "case snd s (binding_key b) of
      None \<Rightarrow> \<exists>w'. rbac_create ref_rbac b s = (Inr (), w') \<and> snd w' = (snd s)(binding_key b \<mapsto> b) \<and>
        entry_reg cur (fst w') = entry_reg cur (fst s) \<and> entry_ok cur sha (fst w') = entry_ok cur sha (fst s)
    | Some _ \<Rightarrow> rbac_create ref_rbac b s = (Inl (ApiError AlreadyExists), s)"
    by (auto simp: ref_rbac_def split: option.splits prod.splits)
  show "case snd s k of
      None \<Rightarrow> rbac_delete ref_rbac k s = (Inl (ApiError NotFound), s)
    | Some _ \<Rightarrow> \<exists>w'. rbac_delete ref_rbac k s = (Inr (), w') \<and> snd w' = (snd s)(k := None) \<and>
        entry_reg cur (fst w') = entry_reg cur (fst s) \<and> entry_ok cur sha (fst w') = entry_ok cur sha (fst s)"
    by (auto simp: ref_rbac_def split: option.splits prod.splits)
  assume ok: "entry_ok cur sha (fst s)"
  show "on_objects (entry_get c sha a) s = (case entry_reg cur (fst s) (principalHash sha a) of
      None \<Rightarrow> Inl ErrAccessEntryNotFound | Some e \<Rightarrow> Inr e, s)"
    by (simp add: on_objects_def entries.get_law [OF ok])
  from entries.put_law [OF ok, of e] obtain w' where "entry_put c sha e (fst s) = (Inr (), w')"
    "entry_ok cur sha w'"
    "entry_reg cur w' = (entry_reg cur (fst s))(principalHash sha (ae_principal_arn e) \<mapsto> e)" by blast
  then show "\<exists>w'. on_objects (entry_put c sha e) s = (Inr (), w') \<and> entry_ok cur sha (fst w') \<and>
      snd w' = snd s \<and>
      entry_reg cur (fst w') = (entry_reg cur (fst s))(principalHash sha (ae_principal_arn e) \<mapsto> e)"
    by (simp add: on_objects_def)
  show "entry_reg cur (fst s) h = Some e \<Longrightarrow> principalHash sha (ae_principal_arn e) = h"
    by (rule entries.reg_key [OF ok])
qed (rule assms)

end

lemma pad_sha_length: "length (pad_sha bs) = 32"
  by (simp add: pad_sha_def)

interpretation ref_policy: policy_world ref_rbac pad_sha
  "\<lambda>a. on_objects (entry_get (ref_client (\<lambda>w. w)) pad_sha a)"
  "\<lambda>e. on_objects (entry_put (ref_client (\<lambda>w. w)) pad_sha e)"
  "\<lambda>s. entry_reg ref_cur (fst s)" "\<lambda>s. entry_ok ref_cur pad_sha (fst s)" snd
  by (rule quiet_ref.policy_world) (rule pad_sha_length)

section \<open>Properties\<close>

text \<open>
  The list of associated policies is a map from policy ARNs: associating one replaces or
  adds exactly that policy, removing one drops exactly that policy, and no ARN ever occurs
  twice.
\<close>

theorem associated_policies_are_a_map:
  assumes "distinct (map ap_policy_arn ps)"
  shows "findAssociatedPolicy (upsertAssociatedPolicy ps p) a =
      (if a = ap_policy_arn p then Some p else findAssociatedPolicy ps a) \<and>
    findAssociatedPolicy (removeAssociatedPolicy ps b) a =
      (if a = b then None else findAssociatedPolicy ps a) \<and>
    distinct (map ap_policy_arn (upsertAssociatedPolicy ps p)) \<and>
    distinct (map ap_policy_arn (removeAssociatedPolicy ps b))"
  using assms upsert_distinct [OF assms]
  by (simp add: find_upsert find_remove remove_distinct)

definition view_policy :: associated_policy where
  "view_policy =
     \<lparr>ap_policy_arn = ''arn:aws:eks::aws:cluster-access-policy/AmazonEKSViewPolicy'',
      ap_access_scope_type = ''namespace'', ap_namespaces = [''dev'']\<rparr>"

theorem associated_policies_are_a_map_witness:
  "findAssociatedPolicy (upsertAssociatedPolicy [view_policy] (view_policy\<lparr>ap_namespaces := [''prod'']\<rparr>))
     (ap_policy_arn view_policy) = Some (view_policy\<lparr>ap_namespaces := [''prod'']\<rparr>)"
  using associated_policies_are_a_map [of "[view_policy]" "view_policy\<lparr>ap_namespaces := [''prod'']\<rparr>"]
  by (simp add: view_policy_def)

text \<open>
  C1: associating an access policy with a registered principal succeeds and takes effect: in
  each requested scope there is a binding of the policy's ClusterRole to the principal's
  group, the entry read back lists the policy and puts its user into that group, and no other
  binding changes.
\<close>

theorem associate_policy_takes_effect:
  assumes "policy_world rc sha get put reg ok bindings" and "ok w" and "rbac_inv sha (bindings w)"
    and "reg w (principalHash sha arn) = Some e" and "ae_principal_arn e = arn"
    and "values_get (req_query r) ''principalArn'' = arn" and "arn \<noteq> []"
    and "decode_associate (req_body r) = Some req"
    and "validateAssociateAccessPolicyRequest req = Inr (role, ty)"
    and "handleAssociateAccessPolicy rc sha get put r w = (resp, w')"
  shows "resp_status resp = 200 \<and> ok w' \<and> rbac_inv sha (bindings w') \<and>
    (\<forall>scope n. bindings w' (scope, n) =
       (if scope \<in> policy_scopes ty (apr_namespaces req) \<and> n = accessEntryBindingName sha arn role
        then Some (policy_binding sha arn role scope) else bindings w (scope, n))) \<and>
    (\<exists>e'. get arn w' = (Inr e', w') \<and> principalGroup sha arn \<in> set (EffectiveGroups sha e') \<and>
       findAssociatedPolicy (ae_policies e') (apr_policy_arn req) =
         Some \<lparr>ap_policy_arn = apr_policy_arn req, ap_access_scope_type = ty,
               ap_namespaces = apr_namespaces req\<rparr>)"
proof -
  note pw = assms(1)
  from policy_world.associate_law [OF pw assms(2-4,6-9)] obtain w1 w2 where
    run: "handleAssociateAccessPolicy rc sha get put r w = (status_only 200, w2)"
    and ens: "policy_world.ensured sha reg ok bindings arn role
      (policy_scopes ty (apr_namespaces req)) w w1"
    and w2: "ok w2" "rbac_inv sha (bindings w2)" "bindings w2 = bindings w1"
    and reg2: "reg w2 = (reg w)(principalHash sha arn \<mapsto>
      e\<lparr>ae_policies := upsertAssociatedPolicy (ae_policies e)
        \<lparr>ap_policy_arn = apr_policy_arn req, ap_access_scope_type = ty,
         ap_namespaces = apr_namespaces req\<rparr>\<rparr>)"
    unfolding assms(5) by blast
  from run assms(10) have out: "resp = status_only 200" "w' = w2" by simp_all
  have b: "\<forall>scope n. bindings w1 (scope, n) =
       (if scope \<in> policy_scopes ty (apr_namespaces req) \<and> n = accessEntryBindingName sha arn role
        then Some (policy_binding sha arn role scope) else bindings w (scope, n))"
    using ens unfolding policy_world.ensured_def [OF pw] by blast
  have got: "get arn w2 = (Inr (e\<lparr>ae_policies := upsertAssociatedPolicy (ae_policies e)
        \<lparr>ap_policy_arn = apr_policy_arn req, ap_access_scope_type = ty,
         ap_namespaces = apr_namespaces req\<rparr>\<rparr>), w2)"
    using policy_world.get_law [OF pw w2(1), of arn] reg2 by simp
  show ?thesis
    using w2 b got assms(5) by (simp add: out status_only_def EffectiveGroups_def find_upsert)
qed

definition demo_arn :: string where
  "demo_arn = RoleARN ''dev''"

definition bare_entry :: access_entry where
  "bare_entry = demo_entry\<lparr>ae_policies := []\<rparr>"

definition scope_request :: "string list \<Rightarrow> http_request" where
  "scope_request nss =
     \<lparr>req_path_values = [(''name'', ''fjord'')],
      req_query = [(''principalArn'', [demo_arn]), (''policyArn'', [ap_policy_arn view_policy])],
      req_form = None, req_header = [],
      req_body =
        Doc (JObj [(''policyArn'', JStr (ap_policy_arn view_policy)),
                   (''accessScope'', JObj [(''type'', JStr ''namespace''), (''namespaces'', strs_json nss)])])\<rparr>"

definition demo_world :: "ref_world \<times> (binding_key \<Rightarrow> binding option)" where
  "demo_world =
     (\<lparr>rw_objects = [(SystemNamespace, AccessEntriesConfigMapName) \<mapsto>
         (1, [(principalHash pad_sha demo_arn, encode_entry bare_entry)])], rw_foreign = []\<rparr>,
      Map.empty)"

lemma demo_world_facts:
  "entry_ok ref_cur pad_sha (fst demo_world)"
  "rbac_inv pad_sha (snd demo_world)"
  "entry_reg ref_cur (fst demo_world) (principalHash pad_sha demo_arn) = Some bare_entry"
  "ae_principal_arn bare_entry = demo_arn" "demo_arn \<noteq> []"
  by (simp_all add: demo_world_def entry_ok_def entry_reg_def kv_ok_def kv_reg_def registered_def ref_cur_def
      rbac_inv_def bare_entry_def demo_entry_def demo_arn_def RoleARN_def)

lemma scope_request_facts:
  "values_get (req_query (scope_request nss)) ''principalArn'' = demo_arn"
  "values_get (req_query (scope_request nss)) ''policyArn'' = ap_policy_arn view_policy"
  "decode_associate (req_body (scope_request nss)) =
     Some \<lparr>apr_policy_arn = ap_policy_arn view_policy, apr_scope_type = ''namespace'', apr_namespaces = nss\<rparr>"
  by (simp_all add: scope_request_def values_get_def decode_associate_def json_codec)

lemma view_role: "clusterRoleForPolicy (ap_policy_arn view_policy) = Some ''view''"
  by code_simp

lemma scope_request_valid:
  "nss \<noteq> [] \<Longrightarrow> validateAssociateAccessPolicyRequest
     \<lparr>apr_policy_arn = ap_policy_arn view_policy, apr_scope_type = ''namespace'', apr_namespaces = nss\<rparr> =
   Inr (''view'', ''namespace'')"
  by (simp add: validateAssociateAccessPolicyRequest_def view_role accessScopeTypeCluster_def
      accessScopeTypeNamespace_def)

theorem associate_policy_takes_effect_witness:
  "\<exists>resp w'. handleAssociateAccessPolicy ref_rbac pad_sha
       (\<lambda>a. on_objects (entry_get (ref_client (\<lambda>w. w)) pad_sha a))
       (\<lambda>e. on_objects (entry_put (ref_client (\<lambda>w. w)) pad_sha e)) (scope_request [''dev'']) demo_world =
     (resp, w') \<and> resp_status resp = 200 \<and>
     snd w' (Some ''dev'', accessEntryBindingName pad_sha demo_arn ''view'') =
       Some (policy_binding pad_sha demo_arn ''view'' (Some ''dev''))"
proof -
  obtain resp w' where run: "handleAssociateAccessPolicy ref_rbac pad_sha
       (\<lambda>a. on_objects (entry_get (ref_client (\<lambda>w. w)) pad_sha a))
       (\<lambda>e. on_objects (entry_put (ref_client (\<lambda>w. w)) pad_sha e)) (scope_request [''dev'']) demo_world =
     (resp, w')" by (rule prod.exhaust)
  from associate_policy_takes_effect [OF ref_policy.policy_world_axioms demo_world_facts(1-4)
      scope_request_facts(1) demo_world_facts(5) scope_request_facts(3) scope_request_valid run] run
  show ?thesis by (simp add: policy_scopes_def accessScopeTypeCluster_def)
qed

text \<open>The principal's entry has these policies, and may view one namespace.\<close>

definition granting_world :: "associated_policy list \<Rightarrow> ref_world \<times> (binding_key \<Rightarrow> binding option)" where
  "granting_world ps =
     (\<lparr>rw_objects = [(SystemNamespace, AccessEntriesConfigMapName) \<mapsto>
         (1, [(principalHash pad_sha demo_arn, encode_entry (bare_entry\<lparr>ae_policies := ps\<rparr>))])],
       rw_foreign = []\<rparr>,
      [(Some ''dev'', accessEntryBindingName pad_sha demo_arn ''view'') \<mapsto>
         policy_binding pad_sha demo_arn ''view'' (Some ''dev'')])"

definition granted_world :: "ref_world \<times> (binding_key \<Rightarrow> binding option)" where
  "granted_world = granting_world [view_policy]"

lemma granting_world_facts:
  "entry_ok ref_cur pad_sha (fst (granting_world ps))"
  "rbac_inv pad_sha (snd (granting_world ps))"
  "entry_reg ref_cur (fst (granting_world ps)) (principalHash pad_sha demo_arn) =
     Some (bare_entry\<lparr>ae_policies := ps\<rparr>)"
proof -
  show "entry_ok ref_cur pad_sha (fst (granting_world ps))"
    by (simp add: granting_world_def entry_ok_def kv_ok_def registered_def ref_cur_def bare_entry_def
        demo_entry_def demo_arn_def)
  show "entry_reg ref_cur (fst (granting_world ps)) (principalHash pad_sha demo_arn) =
     Some (bare_entry\<lparr>ae_policies := ps\<rparr>)"
    by (simp add: granting_world_def entry_reg_def kv_reg_def registered_def ref_cur_def)
  show "rbac_inv pad_sha (snd (granting_world ps))"
    unfolding rbac_inv_def
  proof (intro allI impI)
    fix scope a role b
    assume "snd (granting_world ps) (scope, accessEntryBindingName pad_sha a role) = Some b"
    then have k: "scope = Some ''dev''"
      "accessEntryBindingName pad_sha a role = accessEntryBindingName pad_sha demo_arn ''view''"
      and b: "b = policy_binding pad_sha demo_arn ''view'' (Some ''dev'')"
      unfolding granting_world_def snd_conv fun_upd_apply by (auto split: if_split_asm)
    from ref_policy.policy_binding_cong [OF k(2)] b k(1)
    show "b = policy_binding pad_sha a role scope" by (simp only:)
  qed
qed

lemmas granted_world_facts = granting_world_facts [of "[view_policy]", folded granted_world_def]

lemma disassociate_effect:
  assumes "policy_world rc sha get put reg ok bindings" and "ok w" and "rbac_inv sha (bindings w)"
    and "reg w (principalHash sha arn) = Some e" and "ae_principal_arn e = arn"
    and "values_get (req_query r) ''principalArn'' = arn" and "arn \<noteq> []"
    and "values_get (req_query r) ''policyArn'' = parn" and "parn \<noteq> []"
    and "clusterRoleForPolicy parn = Some role"
    and "findAssociatedPolicy (ae_policies e) parn = Some p"
    and "handleDisassociateAccessPolicy rc sha get put r w = (resp, w')"
  shows "resp_status resp = 200 \<and> ok w' \<and> rbac_inv sha (bindings w') \<and>
    (\<forall>scope n. bindings w' (scope, n) =
       (if scope \<in> policy_scopes (ap_access_scope_type p) (ap_namespaces p) \<and>
           n = accessEntryBindingName sha arn role
        then None else bindings w (scope, n))) \<and>
    get arn w' = (Inr (e\<lparr>ae_policies := filter (\<lambda>q. ap_policy_arn q \<noteq> parn) (ae_policies e)\<rparr>), w') \<and>
    (\<forall>arn'. principalHash sha arn' \<noteq> principalHash sha arn \<longrightarrow> fst (get arn' w') = fst (get arn' w))"
proof -
  note pw = assms(1)
  from policy_world.disassociate_law [OF pw assms(2-4,6-11)] obtain w1 w2 where
    run: "handleDisassociateAccessPolicy rc sha get put r w = (status_only 200, w2)"
    and rmd: "policy_world.removed sha reg ok bindings arn role
      (policy_scopes (ap_access_scope_type p) (ap_namespaces p)) w w1"
    and w2: "ok w2" "rbac_inv sha (bindings w2)" "bindings w2 = bindings w1"
    and reg2: "reg w2 = (reg w)(principalHash sha arn \<mapsto>
      e\<lparr>ae_policies := removeAssociatedPolicy (ae_policies e) parn\<rparr>)"
    unfolding assms(5) by blast
  from run assms(12) have out: "resp = status_only 200" "w' = w2" by simp_all
  have b: "\<forall>scope n. bindings w1 (scope, n) =
       (if scope \<in> policy_scopes (ap_access_scope_type p) (ap_namespaces p) \<and>
           n = accessEntryBindingName sha arn role
        then None else bindings w (scope, n))"
    using rmd unfolding policy_world.removed_def [OF pw] by blast
  have got: "get arn w2 = (Inr (e\<lparr>ae_policies := removeAssociatedPolicy (ae_policies e) parn\<rparr>), w2)"
    using policy_world.get_law [OF pw w2(1), of arn] reg2 by simp
  have others: "fst (get arn' w2) = fst (get arn' w)" if "principalHash sha arn' \<noteq> principalHash sha arn" for arn'
    using that reg2 policy_world.get_law [OF pw w2(1), of arn'] policy_world.get_law [OF pw assms(2), of arn']
    by (simp split: option.splits)
  show ?thesis using w2 b got others by (simp add: out status_only_def removeAssociatedPolicy_def)
qed

lemma find_filtered: "findAssociatedPolicy (filter (\<lambda>q. ap_policy_arn q \<noteq> parn) ps) parn = None"
  using find_remove [of ps parn] by (simp add: removeAssociatedPolicy_def)

text \<open>
  C2: disassociating a policy that is associated succeeds and revokes exactly what its entry
  records: the bindings of the recorded scopes are gone and every other binding is untouched; of
  the entry, the policy of that ARN is gone, and the other policies, in their order, and all other
  fields are as before; every other principal's entry reads as before.
\<close>

theorem disassociate_policy_revokes:
  assumes "policy_world rc sha get put reg ok bindings" and "ok w" and "rbac_inv sha (bindings w)"
    and "reg w (principalHash sha arn) = Some e" and "ae_principal_arn e = arn"
    and "values_get (req_query r) ''principalArn'' = arn" and "arn \<noteq> []"
    and "values_get (req_query r) ''policyArn'' = parn" and "parn \<noteq> []"
    and "clusterRoleForPolicy parn = Some role"
    and "findAssociatedPolicy (ae_policies e) parn = Some p"
    and "handleDisassociateAccessPolicy rc sha get put r w = (resp, w')"
  shows "resp_status resp = 200 \<and> ok w' \<and> rbac_inv sha (bindings w') \<and>
    (\<forall>scope n. bindings w' (scope, n) =
       (if scope \<in> policy_scopes (ap_access_scope_type p) (ap_namespaces p) \<and>
           n = accessEntryBindingName sha arn role
        then None else bindings w (scope, n))) \<and>
    get arn w' = (Inr (e\<lparr>ae_policies := filter (\<lambda>q. ap_policy_arn q \<noteq> parn) (ae_policies e)\<rparr>), w') \<and>
    (\<forall>arn'. principalHash sha arn' \<noteq> principalHash sha arn \<longrightarrow> fst (get arn' w') = fst (get arn' w))"
  by (rule disassociate_effect [OF assms])

definition admin_policy :: associated_policy where
  "admin_policy =
     \<lparr>ap_policy_arn = ''arn:aws:eks::aws:cluster-access-policy/AmazonEKSAdminPolicy'',
      ap_access_scope_type = ''namespace'', ap_namespaces = [''ops'']\<rparr>"

theorem disassociate_policy_revokes_witness:
  "\<exists>resp w'. handleDisassociateAccessPolicy ref_rbac pad_sha
       (\<lambda>a. on_objects (entry_get (ref_client (\<lambda>w. w)) pad_sha a))
       (\<lambda>e. on_objects (entry_put (ref_client (\<lambda>w. w)) pad_sha e)) (scope_request [''dev''])
       (granting_world [admin_policy, view_policy]) = (resp, w') \<and>
     resp_status resp = 200 \<and>
     snd w' (Some ''dev'', accessEntryBindingName pad_sha demo_arn ''view'') = None \<and>
     on_objects (entry_get (ref_client (\<lambda>w. w)) pad_sha demo_arn) w' =
       (Inr (bare_entry\<lparr>ae_policies := [admin_policy]\<rparr>), w')"
proof -
  let ?w = "granting_world [admin_policy, view_policy]"
  obtain resp w' where run: "handleDisassociateAccessPolicy ref_rbac pad_sha
       (\<lambda>a. on_objects (entry_get (ref_client (\<lambda>w. w)) pad_sha a))
       (\<lambda>e. on_objects (entry_put (ref_client (\<lambda>w. w)) pad_sha e)) (scope_request [''dev'']) ?w =
     (resp, w')" by (rule prod.exhaust)
  have pol: "findAssociatedPolicy (ae_policies (bare_entry\<lparr>ae_policies := [admin_policy, view_policy]\<rparr>))
      (ap_policy_arn view_policy) = Some view_policy"
    and arn: "ae_principal_arn (bare_entry\<lparr>ae_policies := [admin_policy, view_policy]\<rparr>) = demo_arn"
    and ne: "ap_policy_arn view_policy \<noteq> []" "ap_policy_arn admin_policy \<noteq> ap_policy_arn view_policy"
    using demo_world_facts(4) by (simp_all add: findAssociatedPolicy_def view_policy_def admin_policy_def)
  from disassociate_policy_revokes [OF ref_policy.policy_world_axioms granting_world_facts arn
      scope_request_facts(1) demo_world_facts(5) scope_request_facts(2) ne(1) view_role pol run] run ne(2)
  show ?thesis by (simp add: policy_scopes_def accessScopeTypeCluster_def view_policy_def)
qed

text \<open>
  Moving a policy from one set of namespaces to another leaves the old bindings behind:
  the second association overwrites the recorded scope, so disassociating the policy removes
  only the bindings of the new namespaces, and the principal's group keeps its role in every
  namespace of the first association that is not in the second.
\<close>

theorem rescoped_policy_leaves_orphan:
  assumes "policy_world rc sha get put reg ok bindings" and "ok w" and "rbac_inv sha (bindings w)"
    and "reg w (principalHash sha arn) = Some e" and "ae_principal_arn e = arn" and "arn \<noteq> []"
    and "values_get (req_query r1) ''principalArn'' = arn" and "decode_associate (req_body r1) = Some q1"
    and "validateAssociateAccessPolicyRequest q1 = Inr (role, ''namespace'')"
    and "values_get (req_query r2) ''principalArn'' = arn" and "decode_associate (req_body r2) = Some q2"
    and "validateAssociateAccessPolicyRequest q2 = Inr (role, ''namespace'')"
    and "apr_policy_arn q2 = apr_policy_arn q1"
    and "values_get (req_query r3) ''principalArn'' = arn"
    and "values_get (req_query r3) ''policyArn'' = apr_policy_arn q1" and "apr_policy_arn q1 \<noteq> []"
    and "handleAssociateAccessPolicy rc sha get put r1 w = (resp1, w1)"
    and "handleAssociateAccessPolicy rc sha get put r2 w1 = (resp2, w2)"
    and "handleDisassociateAccessPolicy rc sha get put r3 w2 = (resp3, w3)"
    and "ns \<in> set (apr_namespaces q1)" and "ns \<notin> set (apr_namespaces q2)"
  shows "resp_status resp3 = 200 \<and>
    bindings w3 (Some ns, accessEntryBindingName sha arn role) =
      Some (policy_binding sha arn role (Some ns)) \<and>
    (\<exists>e'. get arn w3 = (Inr e', w3) \<and> findAssociatedPolicy (ae_policies e') (apr_policy_arn q1) = None)"
proof -
  note pw = assms(1)
  have sc: "policy_scopes ''namespace'' nss = Some ` set nss" for nss
    by (simp add: policy_scopes_def accessScopeTypeCluster_def)
  have role: "clusterRoleForPolicy (apr_policy_arn q1) = Some role"
    using assms(9) by (auto simp: validateAssociateAccessPolicyRequest_def Let_def split: option.splits if_splits)
  from policy_world.associate_law [OF pw assms(2-4,7,6,8,9)] assms(17) obtain e1 v1 where
    ens1: "policy_world.ensured sha reg ok bindings arn role (Some ` set (apr_namespaces q1)) w v1"
    and w1: "ok w1" "rbac_inv sha (bindings w1)" "bindings w1 = bindings v1"
    and reg1: "reg w1 = (reg w)(principalHash sha arn \<mapsto> e1)" "ae_principal_arn e1 = arn"
    unfolding assms(5) sc by (auto simp: assms(5))
  from reg1 have e1: "reg w1 (principalHash sha arn) = Some e1" by simp
  from policy_world.associate_law [OF pw w1(1,2) e1 assms(10,6,11,12)] assms(18) obtain v2 where
    ens2: "policy_world.ensured sha reg ok bindings arn role (Some ` set (apr_namespaces q2)) w1 v2"
    and w2: "ok w2" "rbac_inv sha (bindings w2)" "bindings w2 = bindings v2"
    and reg2: "reg w2 (principalHash sha arn) = Some (e1\<lparr>ae_policies :=
      upsertAssociatedPolicy (ae_policies e1) \<lparr>ap_policy_arn = apr_policy_arn q1,
        ap_access_scope_type = ''namespace'', ap_namespaces = apr_namespaces q2\<rparr>\<rparr>)" (is "_ = Some ?e2")
    unfolding reg1(2) sc assms(13) by auto
  have arn2: "ae_principal_arn ?e2 = arn" using reg1(2) by simp
  have pol: "findAssociatedPolicy (ae_policies ?e2) (apr_policy_arn q1) =
      Some \<lparr>ap_policy_arn = apr_policy_arn q1, ap_access_scope_type = ''namespace'',
            ap_namespaces = apr_namespaces q2\<rparr>"
    by (simp add: find_upsert)
  from disassociate_effect [OF pw w2(1,2) reg2 arn2 assms(14,6,15,16) role pol assms(19)]
  have "resp_status resp3 = 200"
    and b3: "bindings w3 (Some ns, accessEntryBindingName sha arn role) =
      bindings w2 (Some ns, accessEntryBindingName sha arn role)"
    and got: "get arn w3 = (Inr (?e2\<lparr>ae_policies :=
      filter (\<lambda>q. ap_policy_arn q \<noteq> apr_policy_arn q1) (ae_policies ?e2)\<rparr>), w3)"
    using assms(21) by (auto simp: sc)
  moreover from got have
    "\<exists>e'. get arn w3 = (Inr e', w3) \<and> findAssociatedPolicy (ae_policies e') (apr_policy_arn q1) = None"
    by (intro exI conjI, assumption) (simp add: find_filtered)
  moreover have "bindings w2 (Some ns, accessEntryBindingName sha arn role) =
      Some (policy_binding sha arn role (Some ns))"
    using ens1 ens2 w1(3) w2(3) assms(20,21) unfolding policy_world.ensured_def [OF pw] by auto
  ultimately show ?thesis by simp
qed

theorem rescoped_policy_leaves_orphan_witness:
  "\<exists>w3. snd w3 (Some ''dev'', accessEntryBindingName pad_sha demo_arn ''view'') =
     Some (policy_binding pad_sha demo_arn ''view'' (Some ''dev''))"
proof -
  let ?get = "\<lambda>a. on_objects (entry_get (ref_client (\<lambda>w. w)) pad_sha a)"
  let ?put = "\<lambda>e. on_objects (entry_put (ref_client (\<lambda>w. w)) pad_sha e)"
  obtain r1 w1 where 1: "handleAssociateAccessPolicy ref_rbac pad_sha ?get ?put (scope_request [''dev''])
      demo_world = (r1, w1)" by (rule prod.exhaust)
  obtain r2 w2 where 2: "handleAssociateAccessPolicy ref_rbac pad_sha ?get ?put (scope_request [''prod''])
      w1 = (r2, w2)" by (rule prod.exhaust)
  obtain r3 w3 where 3: "handleDisassociateAccessPolicy ref_rbac pad_sha ?get ?put (scope_request [''prod''])
      w2 = (r3, w3)" by (rule prod.exhaust)
  from rescoped_policy_leaves_orphan [OF ref_policy.policy_world_axioms demo_world_facts
      scope_request_facts(1,3) scope_request_valid scope_request_facts(1,3) scope_request_valid _
      scope_request_facts(1) _ _ 1 2 3, of "''dev''"]
  show ?thesis by (auto simp: scope_request_facts(2) view_policy_def)
qed

end
