(* ===== verification/Rfc3339.thy ===== *)
theory Rfc3339
  imports Prelude
begin

text \<open>
  Instants and their RFC 3339 text as Go's package \<open>time\<close> renders and reads it: an instant is
  a number of nanoseconds since the Unix epoch, \<open>Format(time.RFC3339)\<close> of a UTC time drops
  the fraction of a second, and \<open>time.Parse(time.RFC3339, _)\<close> reads that form back, checking
  every field. The credentials of the fake STS and of IMDS carry such texts and are checked
  for expiry by parsing them.
\<close>

type_synonym instant = nat

definition second :: nat where
  "second = 10 ^ 9"

section \<open>Civil dates\<close>

text \<open>
  Days since 1970-01-01 to year, month, day, by 400-, 100-, 4- and 1-year cycles of years
  that start in March.
\<close>

definition year_of_cycle :: "nat \<Rightarrow> nat \<times> nat" where
  "year_of_cycle doe =
     (let c = min (doe div 36524) 3;
          r = doe - 36524 * c;
          q = r div 1461;
          r2 = r mod 1461;
          a = min (r2 div 365) 3
      in (100 * c + 4 * q + a, r2 - 365 * a))"

definition civil_of_days :: "nat \<Rightarrow> nat \<times> nat \<times> nat" where
  "civil_of_days days =
     (let z = days + 719468;
          era = z div 146097;
          (yoe, doy) = year_of_cycle (z mod 146097);
          mp = (5 * doy + 2) div 153;
          d = doy - (153 * mp + 2) div 5 + 1;
          m = (if mp < 10 then mp + 3 else mp - 9)
      in (400 * era + yoe + (if m \<le> 2 then 1 else 0), m, d))"

definition leap_year :: "nat \<Rightarrow> bool" where
  "leap_year y \<longleftrightarrow> y mod 4 = 0 \<and> (y mod 100 \<noteq> 0 \<or> y mod 400 = 0)"

definition days_in :: "nat \<Rightarrow> nat \<Rightarrow> nat" where
  "days_in m y =
     (if m = 2 then (if leap_year y then 29 else 28)
      else if m \<in> {4, 6, 9, 11} then 30 else 31)"

text \<open>The number of days from 0000-03-01; the epoch is day 719468.\<close>

definition days_of_civil :: "nat \<Rightarrow> nat \<Rightarrow> nat \<Rightarrow> int" where
  "days_of_civil y m d =
     (let y' = int y - (if m \<le> 2 then 1 else 0);
          era = y' div 400;
          yoe = y' mod 400;
          mp = (if m \<le> 2 then int m + 9 else int m - 3);
          doy = (153 * mp + 2) div 5 + int d - 1
      in era * 146097 + yoe * 365 + yoe div 4 - yoe div 100 + doy - 719468)"

section \<open>Text\<close>

definition two_digits :: "nat \<Rightarrow> string" where
  "two_digits n = [digit_char (n div 10 mod 10), digit_char (n mod 10)]"

definition four_digits :: "nat \<Rightarrow> string" where
  "four_digits n = two_digits (n div 100) @ two_digits (n mod 100)"

definition format_seconds :: "nat \<Rightarrow> string" where
  "format_seconds s =
     (let (y, m, d) = civil_of_days (s div 86400); t = s mod 86400
      in four_digits y @ ''-'' @ two_digits m @ ''-'' @ two_digits d @ ''T'' @
         two_digits (t div 3600) @ '':'' @ two_digits (t div 60 mod 60) @ '':'' @
         two_digits (t mod 60) @ ''Z'')"

definition format_rfc3339 :: "instant \<Rightarrow> string" where
  "format_rfc3339 t = format_seconds (t div second)"

fun number :: "nat \<Rightarrow> string \<Rightarrow> nat option" where
  "number acc [] = Some acc"
| "number acc (c # cs) =
     (case digit_value c of None \<Rightarrow> None | Some d \<Rightarrow> number (10 * acc + d) cs)"

text \<open>
  The UTC form without a fraction; other forms are not produced by this program. The result
  is the instant, counted in nanoseconds from the epoch.
\<close>

definition parse_rfc3339 :: "string \<Rightarrow> int option" where
  "parse_rfc3339 s =
     (if length s = 20 \<and> s ! 4 = CHR ''-'' \<and> s ! 7 = CHR ''-'' \<and> s ! 10 = CHR ''T'' \<and>
         s ! 13 = CHR '':'' \<and> s ! 16 = CHR '':'' \<and> s ! 19 = CHR ''Z''
      then
        (case (number 0 (take 4 s), number 0 (take 2 (drop 5 s)), number 0 (take 2 (drop 8 s)),
               number 0 (take 2 (drop 11 s)), number 0 (take 2 (drop 14 s)),
               number 0 (take 2 (drop 17 s))) of
           (Some y, Some m, Some d, Some h, Some mi, Some sec) \<Rightarrow>
             if 1 \<le> m \<and> m \<le> 12 \<and> 1 \<le> d \<and> d \<le> days_in m y \<and> h \<le> 23 \<and> mi \<le> 59 \<and> sec \<le> 59
             then Some ((days_of_civil y m d * 86400 + int (h * 3600 + mi * 60 + sec)) * 10 ^ 9)
             else None
         | _ \<Rightarrow> None)
      else None)"

section \<open>Reading back what was written\<close>

lemma digit_value_digit_char [simp]: "n < 10 \<Longrightarrow> digit_value (digit_char n) = Some n"
  by (simp add: digit_value_def digit_char_def)

lemma number_two_digits [simp]: "n < 100 \<Longrightarrow> number 0 (two_digits n) = Some n"
  by (simp add: two_digits_def)

lemma number_four_digits [simp]: "n < 10000 \<Longrightarrow> number 0 (four_digits n) = Some n"
  by (simp add: four_digits_def two_digits_def)

lemma year_of_cycle_facts:
  assumes "doe < 146097" and "year_of_cycle doe = (yoe, doy)"
  shows "yoe < 400" and "doy \<le> 365" and "doe + yoe div 100 = 365 * yoe + yoe div 4 + doy"
    and "doy = 365 \<Longrightarrow> leap_year (yoe + 1)"
proof -
  define c where "c = min (doe div 36524) 3"
  define r where "r = doe - 36524 * c"
  define q where "q = r div 1461"
  define r2 where "r2 = r mod 1461"
  define a where "a = min (r2 div 365) 3"
  have yoe: "yoe = 100 * c + 4 * q + a" and doy: "doy = r2 - 365 * a"
    using assms(2) by (simp_all add: year_of_cycle_def Let_def c_def r_def q_def r2_def a_def)
  have c: "c \<le> 3" "36524 * c \<le> doe" by (auto simp: c_def)
  have r: "doe = 36524 * c + r" "r \<le> 36524" "r = 36524 \<Longrightarrow> c = 3"
    using assms(1) c by (auto simp: r_def c_def min_def)
  have q: "r = 1461 * q + r2" "r2 < 1461" by (simp_all add: q_def r2_def)
  have q24: "q \<le> 24" using q r(2) by linarith
  have a: "a \<le> 3" "365 * a \<le> r2" by (auto simp: a_def)
  have d: "r2 = 365 * a + doy" using a doy by simp
  have "doy < 365 \<or> a = 3 \<and> doy \<le> 365"
  proof (cases "r2 div 365 \<le> 3")
    case True
    then have "a = r2 div 365" by (simp add: a_def)
    then have "doy = r2 mod 365" using doy by (simp add: minus_mult_div_eq_mod)
    then show ?thesis by simp
  next
    case False
    then have "a = 3" by (simp add: a_def)
    then show ?thesis using d q(2) by linarith
  qed
  then have d365: "doy \<le> 365" "doy = 365 \<Longrightarrow> a = 3" by auto
  show "yoe < 400" using yoe c(1) q24 a(1) by linarith
  show "doy \<le> 365" by (rule d365)
  have "yoe div 4 = 25 * c + q" using yoe a(1) by simp
  moreover have "yoe div 100 = c"
  proof -
    have "4 * q + a < 100" using q24 a(1) by linarith
    then show ?thesis using yoe by simp
  qed
  ultimately show "doe + yoe div 100 = 365 * yoe + yoe div 4 + doy"
    using yoe r(1) q(1) d by simp
  show "leap_year (yoe + 1)" if "doy = 365"
  proof -
    have a3: "a = 3" using d365(2) that .
    then have y: "yoe + 1 = 100 * c + 4 * (q + 1)" using yoe by simp
    then have m4: "(yoe + 1) mod 4 = 0" by presburger
    show ?thesis
    proof (cases "q = 24")
      case True
      then have "r = 36524" using q(1) d a3 that by simp
      then have "c = 3" by (rule r(3))
      with y True show ?thesis by (simp add: leap_year_def)
    next
      case False
      with q24 have "0 < 4 * (q + 1)" "4 * (q + 1) < 100" by simp_all
      then have "(yoe + 1) mod 100 \<noteq> 0" using y by presburger
      with m4 show ?thesis by (simp add: leap_year_def)
    qed
  qed
qed

lemma month_of_day:
  assumes "doy \<le> (365::nat)" and "mp = (5 * doy + 2) div 153"
  shows "mp \<le> 11" and "(153 * mp + 2) div 5 \<le> doy"
    and "doy < (153 * (mp + 1) + 2) div 5"
proof -
  have lo: "153 * mp \<le> 5 * doy + 2" and hi: "5 * doy + 2 < 153 * mp + 153"
    using assms(2) by simp_all
  show "mp \<le> 11" using lo assms(1) by linarith
  have "153 * mp + 2 \<le> 5 * doy + 4" using lo by linarith
  then have "(153 * mp + 2) div 5 \<le> (5 * doy + 4) div 5" by (rule div_le_mono)
  then show "(153 * mp + 2) div 5 \<le> doy" by simp
  have "5 * doy + 5 \<le> 153 * (mp + 1) + 2" using hi by presburger
  then have "(5 * doy + 5) div 5 \<le> (153 * (mp + 1) + 2) div 5" by (rule div_le_mono)
  then show "doy < (153 * (mp + 1) + 2) div 5" by simp
qed

lemma month_lengths:
  assumes "mp \<le> (10::nat)"
  shows "(153 * (mp + 1) + 2) div 5 - (153 * mp + 2) div 5 =
    days_in (if mp < 10 then mp + 3 else mp - 9) y"
proof -
  from assms have "mp = 0 \<or> mp = 1 \<or> mp = 2 \<or> mp = 3 \<or> mp = 4 \<or> mp = 5 \<or> mp = 6 \<or> mp = 7 \<or>
    mp = 8 \<or> mp = 9 \<or> mp = 10" by presburger
  then show ?thesis by (elim disjE) (simp_all add: days_in_def)
qed

lemma leap_year_mod: "leap_year (400 * e + y) \<longleftrightarrow> leap_year y"
proof -
  have "400 * e + y = y + 100 * e * 4" "400 * e + y = y + 4 * e * 100" by simp_all
  then have "(400 * e + y) mod 4 = y mod 4" "(400 * e + y) mod 100 = y mod 100"
    by (metis mod_mult_self1)+
  then show ?thesis by (simp add: leap_year_def)
qed

lemma civil_of_days_valid:
  assumes "civil_of_days days = (y, m, d)"
  shows "1 \<le> m" and "m \<le> 12" and "1 \<le> d" and "d \<le> days_in m y"
    and "days_of_civil y m d = int days"
proof -
  define z where "z = days + 719468"
  define era where "era = z div 146097"
  obtain yoe doy where yd: "year_of_cycle (z mod 146097) = (yoe, doy)" by fastforce
  define mp where "mp = (5 * doy + 2) div 153"
  note f = year_of_cycle_facts [OF _ yd, simplified]
  note mo = month_of_day [OF f(2) mp_def]
  have m: "m = (if mp < 10 then mp + 3 else mp - 9)" and d: "d = doy - (153 * mp + 2) div 5 + 1"
    and y: "y = 400 * era + yoe + (if m \<le> 2 then 1 else 0)"
    using assms yd by (auto simp: civil_of_days_def Let_def z_def era_def mp_def)
  show "1 \<le> m" "m \<le> 12" "1 \<le> d" using m mo(1) d by auto
  show "d \<le> days_in m y"
  proof (cases "mp \<le> 10")
    case True
    from month_lengths [OF True, of y] m
    have "(153 * (mp + 1) + 2) div 5 - (153 * mp + 2) div 5 = days_in m y" by simp
    with mo(2,3) d show ?thesis by linarith
  next
    case False
    with mo(1) have mp11: "mp = 11" by simp
    then have "m = 2" "d = doy - 336" using m d mo(2) by auto
    moreover have "leap_year y" if "doy = 365"
      using f(4) [OF that] y \<open>m = 2\<close> leap_year_mod [of era "yoe + 1"] by simp
    ultimately show ?thesis using f(2) by (cases "doy = 365") (auto simp: days_in_def)
  qed
  have y': "int y - (if m \<le> 2 then 1 else 0) = 400 * int era + int yoe" using y by simp
  have mp': "(if m \<le> 2 then int m + 9 else int m - 3) = int mp" using m mo(1) by auto
  have doy: "(153 * int mp + 2) div 5 + int d - 1 = int doy" using d mo(2) by linarith
  have e: "(400 * int era + int yoe) div 400 = int era" "(400 * int era + int yoe) mod 400 = int yoe"
    using f(1) by auto
  have "days_of_civil y m d =
      int era * 146097 + int yoe * 365 + int yoe div 4 - int yoe div 100 + int doy - 719468"
    unfolding days_of_civil_def Let_def y' mp' doy e ..
  moreover have "int yoe * 365 + int yoe div 4 - int yoe div 100 + int doy = int (z mod 146097)"
    using arg_cong [OF f(3), of int] unfolding of_nat_add of_nat_mult of_nat_div of_nat_numeral
    by linarith
  ultimately have "days_of_civil y m d = int era * 146097 + int (z mod 146097) - 719468" by linarith
  also have "\<dots> = int days"
    using arg_cong [OF div_mult_mod_eq [of z 146097], of int]
    unfolding era_def z_def of_nat_add of_nat_mult of_nat_numeral by linarith
  finally show "days_of_civil y m d = int days" .
qed

text \<open>Years have four digits up to the end of 9999.\<close>

definition max_seconds :: nat where
  "max_seconds = 253402300800"

lemma cycle_days_lower:
  fixes y :: int
  shows "9999 \<le> y \<Longrightarrow> 3652059 \<le> y div 400 * 146097 + (y mod 400) * 365 + (y mod 400) div 4 -
      (y mod 400) div 100"
    and "10000 \<le> y \<Longrightarrow> 3652425 \<le> y div 400 * 146097 + (y mod 400) * 365 + (y mod 400) div 4 -
      (y mod 400) div 100"
proof -
  define e where "e = y div 400"
  define k where "k = y mod 400"
  have y: "y = 400 * e + k" and k: "0 \<le> k" "k < 400" by (simp_all add: e_def k_def)
  have nonneg: "0 \<le> k * 365 + k div 4 - k div 100" using k by linarith
  have big: "3652425 \<le> e * 146097 + k * 365 + k div 4 - k div 100" if "10000 \<le> y"
  proof -
    have "25 \<le> e" using that y k by linarith
    with nonneg show ?thesis by linarith
  qed
  have "3652059 \<le> e * 146097 + k * 365 + k div 4 - k div 100" if "9999 \<le> y"
  proof (cases "y = 9999")
    case True
    then have "e = 24" "k = 399" by (simp_all add: e_def k_def)
    then show ?thesis by simp
  next
    case False
    with that have "10000 \<le> y" by simp
    from big [OF this] show ?thesis by simp
  qed
  with big show "9999 \<le> y \<Longrightarrow> 3652059 \<le> y div 400 * 146097 + (y mod 400) * 365 + (y mod 400) div 4 -
      (y mod 400) div 100" and "10000 \<le> y \<Longrightarrow> 3652425 \<le> y div 400 * 146097 + (y mod 400) * 365 +
      (y mod 400) div 4 - (y mod 400) div 100"
    by (simp_all add: e_def k_def)
qed

lemma civil_year_bound:
  assumes "civil_of_days days = (y, m, d)" and "days < 2932897"
  shows "y < 10000"
proof -
  have "days_of_civil y m d < 2932897" using civil_of_days_valid [OF assms(1)] assms(2) by simp
  show ?thesis
  proof (rule ccontr)
    assume "\<not> y < 10000"
    define y' where "y' = int y - (if m \<le> 2 then 1 else 0)"
    have m: "1 \<le> m" "m \<le> 12" "1 \<le> d" using civil_of_days_valid [OF assms(1)] by simp_all
    define mp where "mp = (if m \<le> 2 then int m + 9 else int m - 3)"
    have mp: "0 \<le> mp" "m \<le> 2 \<Longrightarrow> 10 \<le> mp" using m by (auto simp: mp_def)
    have "days_of_civil y m d = y' div 400 * 146097 + (y' mod 400) * 365 + (y' mod 400) div 4 -
        (y' mod 400) div 100 + ((153 * mp + 2) div 5 + int d - 1) - 719468"
      by (simp add: days_of_civil_def Let_def y'_def mp_def)
    moreover have "306 \<le> (153 * mp + 2) div 5" if "m \<le> 2" using mp(2) [OF that] by linarith
    moreover have "0 \<le> (153 * mp + 2) div 5" using mp(1) by linarith
    moreover have "9999 \<le> y'" "m > 2 \<Longrightarrow> 10000 \<le> y'"
      using \<open>\<not> y < 10000\<close> by (auto simp: y'_def)
    moreover have "3652059 \<le> y' div 400 * 146097 + (y' mod 400) * 365 + (y' mod 400) div 4 -
        (y' mod 400) div 100" if "9999 \<le> y'" using that by (rule cycle_days_lower(1))
    moreover have "3652425 \<le> y' div 400 * 146097 + (y' mod 400) * 365 + (y' mod 400) div 4 -
        (y' mod 400) div 100" if "10000 \<le> y'" using that by (rule cycle_days_lower(2))
    ultimately show False
      using \<open>days_of_civil y m d < 2932897\<close> m(3) by (cases "m \<le> 2") linarith+
  qed
qed

lemma length_two_digits [simp]: "length (two_digits n) = 2"
  by (simp add: two_digits_def)

lemma length_four_digits [simp]: "length (four_digits n) = 4"
  by (simp add: four_digits_def)

lemma two_digits_days_in: "d \<le> days_in m y \<Longrightarrow> d < 100"
  by (auto simp: days_in_def split: if_splits)

lemma parse_format_seconds:
  assumes "s < max_seconds"
  shows "parse_rfc3339 (format_seconds s) = Some (int s * 10 ^ 9)"
proof -
  obtain y m d where ymd: "civil_of_days (s div 86400) = (y, m, d)" by (metis prod_cases3)
  note v = civil_of_days_valid [OF ymd]
  have y: "y < 10000" using civil_year_bound [OF ymd] assms by (simp add: max_seconds_def)
  have d: "d < 100" using two_digits_days_in [OF v(4)] .
  define t where "t = s mod 86400"
  have t: "t < 86400" by (simp add: t_def)
  have hms: "t div 3600 \<le> 23" "t div 60 mod 60 \<le> 59" "t mod 60 \<le> 59" using t by auto
  have "t div 3600 = t div 60 div 60" by (simp flip: div_mult2_eq)
  moreover have "t div 60 div 60 * 60 + t div 60 mod 60 = t div 60" "t div 60 * 60 + t mod 60 = t"
    by simp_all
  ultimately have sum: "t div 3600 * 3600 + t div 60 mod 60 * 60 + t mod 60 = t" by linarith
  let ?s = "four_digits y @ ''-'' @ two_digits m @ ''-'' @ two_digits d @ ''T'' @
         two_digits (t div 3600) @ '':'' @ two_digits (t div 60 mod 60) @ '':'' @
         two_digits (t mod 60) @ ''Z''"
  have format: "format_seconds s = ?s" by (simp add: format_seconds_def ymd t_def Let_def)
  have "parse_rfc3339 ?s =
      Some ((days_of_civil y m d * 86400 + int (t div 3600 * 3600 + t div 60 mod 60 * 60 + t mod 60))
        * 10 ^ 9)"
    using v y d hms by (simp add: parse_rfc3339_def nth_append)
  also have "days_of_civil y m d * 86400 + int (t div 3600 * 3600 + t div 60 mod 60 * 60 + t mod 60) = int s"
    using arg_cong [OF div_mult_mod_eq [of s 86400], of int]
    unfolding sum v(5) unfolding t_def of_nat_add of_nat_mult of_nat_numeral by linarith
  finally show ?thesis by (simp add: format)
qed

text \<open>Formatting truncates to the second, and parsing reads that second back.\<close>

lemma parse_format_rfc3339:
  "t div second < max_seconds \<Longrightarrow>
   parse_rfc3339 (format_rfc3339 t) = Some (int (t div second) * 10 ^ 9)"
  by (simp add: format_rfc3339_def parse_format_seconds)

text \<open>
  The RFC 3339 text of an instant up to the year 9999 parses, as Go's \<open>time\<close> package
  does it, to that instant truncated to the second.
\<close>

theorem rfc3339_roundtrip:
  assumes "t div second < max_seconds"
  shows "parse_rfc3339 (format_rfc3339 t) = Some (int (t div second) * 10 ^ 9)"
  by (rule parse_format_rfc3339 [OF assms])

theorem rfc3339_roundtrip_witness:
  "format_rfc3339 (1709251199 * second + 7) = ''2024-02-29T23:59:59Z'' \<and>
   parse_rfc3339 (format_rfc3339 (1709251199 * second + 7)) = Some (1709251199 * 10 ^ 9)"
proof
  show "format_rfc3339 (1709251199 * second + 7) = ''2024-02-29T23:59:59Z''"
  proof -
    have s: "(1709251199 * second + 7) div second = 1709251199" by (simp add: second_def)
    have c: "civil_of_days 19782 = (2024, 2, 29)"
      by (simp add: civil_of_days_def year_of_cycle_def)
    show ?thesis
      unfolding format_rfc3339_def s format_seconds_def
      by (simp add: c four_digits_def two_digits_def digit_char_def char_of_def bit_Suc_0_iff)
  qed
  show "parse_rfc3339 (format_rfc3339 (1709251199 * second + 7)) = Some (1709251199 * 10 ^ 9)"
    using rfc3339_roundtrip [of "1709251199 * second + 7"] by (simp add: max_seconds_def second_def)
qed

end
