(* ===== verification/Sts.thy ===== *)
theory Sts
  imports Http Principal_Store Rfc3339
begin

text \<open>
  The fake STS (\<open>internal/agent/sts.go\<close>, \<open>session.go\<close>): AssumeRoleWithWebIdentity issues
  temporary credentials and records the assumed-role identity behind them in an in-memory
  session table; GetCallerIdentity resolves an access key through that table, then through
  the principal store, and falls back to the account root. The handlers are functions of the
  server's state: the store's state, the session table and the source of randomness.
\<close>

section \<open>Constants and shapes\<close>

definition stsXMLNS :: string where
  "stsXMLNS = ''https://sts.amazonaws.com/doc/2011-06-15/''"

definition actionAssumeRoleWithWebIdentity :: string where
  "actionAssumeRoleWithWebIdentity = ''AssumeRoleWithWebIdentity''"

definition actionGetCallerIdentity :: string where
  "actionGetCallerIdentity = ''GetCallerIdentity''"

definition sessionCredentialsTTL :: nat where
  "sessionCredentialsTTL = 3600 * second"

definition sessionAccessKeyPrefix :: string where
  "sessionAccessKeyPrefix = ''ASIA''"

definition fallbackAssumedRoleName :: string where
  "fallbackAssumedRoleName = ''emulated-role''"

record sts_credentials =
  cr_access_key_id :: string
  cr_secret_access_key :: string
  cr_session_token :: string
  cr_expiration :: string

record caller_identity =
  cl_arn :: string
  cl_user_id :: string
  cl_account :: string

definition text_elem :: "string \<Rightarrow> string \<Rightarrow> xml" where
  "text_elem name s = XElem name [XText (Msg s)]"

section \<open>Sessions\<close>

type_synonym sessions = "(string, caller_identity) go_map"

definition sessions_put :: "string \<Rightarrow> caller_identity \<Rightarrow> sessions \<Rightarrow> sessions" where
  "sessions_put accessKeyID identity s = map_set accessKeyID identity s"

definition sessions_get :: "string \<Rightarrow> sessions \<Rightarrow> caller_identity option" where
  "sessions_get accessKeyID s = map_of s accessKeyID"

section \<open>Parsing\<close>

definition parseSTSRequest :: "http_request \<Rightarrow> go_error + url_values" where
  "parseSTSRequest r =
     (case req_form r of
        None \<Rightarrow> Inl (Wrapf ''parse form: %w'' [] (Errorf ''invalid form'' []))
      | Some form \<Rightarrow> Inr form)"

definition accessKeyIDFromCredentialScope :: "string \<Rightarrow> string option" where
  "accessKeyIDFromCredentialScope scope =
     (case cut_at (CHR ''/'') scope of
        None \<Rightarrow> None
      | Some (accessKeyID, _) \<Rightarrow> if accessKeyID = [] then None else Some accessKeyID)"

definition accessKeyIDFromAuthorizationHeader :: "string \<Rightarrow> string option" where
  "accessKeyIDFromAuthorizationHeader header =
     (let authFieldPrefix = ''Credential='' in
      case index_of authFieldPrefix header of
        None \<Rightarrow> None
      | Some idx \<Rightarrow>
          (let scope = drop (idx + length authFieldPrefix) header;
               scope' = (case cut_at (CHR '','') scope of None \<Rightarrow> scope | Some (a, _) \<Rightarrow> a)
           in accessKeyIDFromCredentialScope (trim_space scope')))"

definition resolveAccessKeyID :: "url_values \<Rightarrow> url_values \<Rightarrow> string option" where
  "resolveAccessKeyID form header =
     (let auth = values_get header ''Authorization'';
          from_auth = (if auth \<noteq> [] then accessKeyIDFromAuthorizationHeader auth else None);
          cred = values_get form ''X-Amz-Credential''
      in case from_auth of
           Some accessKeyID \<Rightarrow> Some accessKeyID
         | None \<Rightarrow> if cred \<noteq> [] then accessKeyIDFromCredentialScope cred else None)"

text \<open>Partition and role name of an IAM role ARN; what does not parse falls back.\<close>

definition roleARNParts :: "string \<Rightarrow> string \<times> string" where
  "roleARNParts roleARN =
     (let parts = split_n (CHR '':'') 6 roleARN in
      if length parts \<noteq> 6 \<or> parts ! 2 \<noteq> ''iam'' then (''aws'', fallbackAssumedRoleName)
      else
        (let part = (if parts ! 1 \<noteq> [] then parts ! 1 else ''aws'') in
         case cut_prefix ''role/'' (parts ! 5) of
           None \<Rightarrow> (part, fallbackAssumedRoleName)
         | Some resource \<Rightarrow>
             if resource = [] then (part, fallbackAssumedRoleName)
             else
               (let name = path_base resource in
                if name \<noteq> ''.'' \<and> name \<noteq> ''/'' then (part, name)
                else (part, fallbackAssumedRoleName))))"

definition assumedRoleARN :: "string \<Rightarrow> string \<Rightarrow> string" where
  "assumedRoleARN roleARN sessionName =
     (case roleARNParts roleARN of
        (part, roleName) \<Rightarrow>
          ''arn:'' @ part @ '':sts::'' @ AccountID @ '':assumed-role/'' @ roleName @ ''/'' @
          sessionName)"

section \<open>Fresh identifiers\<close>

definition newCredentials ::
  "'r rand_source \<Rightarrow> instant \<Rightarrow> 'r \<Rightarrow> (go_error + sts_credentials) \<times> 'r" where
  "newCredentials rs now r =
     (case randomHexString rs 8 r of
        (Inl e, r1) \<Rightarrow> (Inl (Wrapf ''generate session access key id: %w'' [] e), r1)
      | (Inr accessKeyID, r1) \<Rightarrow>
          (case randomHexString rs 20 r1 of
             (Inl e, r2) \<Rightarrow> (Inl (Wrapf ''generate session secret access key: %w'' [] e), r2)
           | (Inr secretAccessKey, r2) \<Rightarrow>
               (case randomHexString rs 40 r2 of
                  (Inl e, r3) \<Rightarrow> (Inl (Wrapf ''generate session token: %w'' [] e), r3)
                | (Inr sessionToken, r3) \<Rightarrow>
                    (Inr \<lparr>cr_access_key_id = sessionAccessKeyPrefix @ accessKeyID,
                          cr_secret_access_key = secretAccessKey,
                          cr_session_token = sessionToken,
                          cr_expiration = format_rfc3339 (now + sessionCredentialsTTL)\<rparr>, r3))))"

definition newRequestID :: "'r rand_source \<Rightarrow> 'r \<Rightarrow> (go_error + string) \<times> 'r" where
  "newRequestID rs r =
     (case randomHexString rs 16 r of
        (Inl e, r1) \<Rightarrow> (Inl (Wrapf ''generate request id: %w'' [] e), r1)
      | (Inr i, r1) \<Rightarrow> (Inr i, r1))"

definition newAssumedRoleID :: "'r rand_source \<Rightarrow> string \<Rightarrow> 'r \<Rightarrow> (go_error + string) \<times> 'r" where
  "newAssumedRoleID rs sessionName r =
     (case randomHexString rs 6 r of
        (Inl e, r1) \<Rightarrow> (Inl (Wrapf ''generate assumed role id: %w'' [] e), r1)
      | (Inr i, r1) \<Rightarrow> (Inr (''AROA'' @ to_upper i @ '':'' @ sessionName), r1))"

section \<open>Responses\<close>

definition errorType :: "nat \<Rightarrow> string" where
  "errorType status = (if status \<ge> 500 then ''Receiver'' else ''Sender'')"

definition writeSTSResponse :: "xml \<Rightarrow> http_response" where
  "writeSTSResponse v =
     \<lparr>resp_status = 200, resp_headers = [(''Content-Type'', ''text/xml; charset=utf-8'')],
      resp_body = XmlBody v\<rparr>"

text \<open>A request ID that cannot be generated is left empty.\<close>

definition writeSTSError ::
  "'r rand_source \<Rightarrow> nat \<Rightarrow> string \<Rightarrow> message \<Rightarrow> 'r \<Rightarrow> http_response \<times> 'r" where
  "writeSTSError rs status code m r =
     (let (rid, r1) = newRequestID rs r;
          requestID = (case rid of Inl _ \<Rightarrow> [] | Inr i \<Rightarrow> i)
      in (\<lparr>resp_status = status, resp_headers = [(''Content-Type'', ''text/xml; charset=utf-8'')],
           resp_body =
             XmlBody (XElem ''ErrorResponse''
               [XElem ''Error'' [text_elem ''Type'' (errorType status), text_elem ''Code'' code,
                                 XElem ''Message'' [XText m]],
                text_elem ''RequestId'' requestID])\<rparr>, r1))"

definition assumeRoleResponse :: "sts_credentials \<Rightarrow> string \<Rightarrow> string \<Rightarrow> string \<Rightarrow> xml" where
  "assumeRoleResponse creds arn assumedRoleID requestID =
     XElem ''AssumeRoleWithWebIdentityResponse''
       [text_elem ''xmlns'' stsXMLNS,
        XElem ''AssumeRoleWithWebIdentityResult''
          [XElem ''Credentials''
             [text_elem ''AccessKeyId'' (cr_access_key_id creds),
              text_elem ''SecretAccessKey'' (cr_secret_access_key creds),
              text_elem ''SessionToken'' (cr_session_token creds),
              text_elem ''Expiration'' (cr_expiration creds)],
           XElem ''AssumedRoleUser''
             [text_elem ''Arn'' arn, text_elem ''AssumedRoleId'' assumedRoleID]],
        XElem ''ResponseMetadata'' [text_elem ''RequestId'' requestID]]"

definition getCallerIdentityResponse :: "caller_identity \<Rightarrow> string \<Rightarrow> xml" where
  "getCallerIdentityResponse i requestID =
     XElem ''GetCallerIdentityResponse''
       [text_elem ''xmlns'' stsXMLNS,
        XElem ''GetCallerIdentityResult''
          [text_elem ''Arn'' (cl_arn i), text_elem ''UserId'' (cl_user_id i),
           text_elem ''Account'' (cl_account i)],
        XElem ''ResponseMetadata'' [text_elem ''RequestId'' requestID]]"

section \<open>The handlers\<close>

record ('s, 'r) sts_state =
  st_store :: 's
  st_sessions :: sessions
  st_rng :: 'r

definition defaultCallerIdentity :: caller_identity where
  "defaultCallerIdentity =
     \<lparr>cl_arn = ''arn:aws:iam::'' @ AccountID @ '':root'', cl_user_id = AccountID,
      cl_account = AccountID\<rparr>"

definition sts_fail ::
  "'r rand_source \<Rightarrow> nat \<Rightarrow> string \<Rightarrow> message \<Rightarrow> ('s, 'r) sts_state
   \<Rightarrow> http_response \<times> ('s, 'r) sts_state" where
  "sts_fail rs status code m s =
     (let (resp, r1) = writeSTSError rs status code m (st_rng s) in (resp, s\<lparr>st_rng := r1\<rparr>))"

definition handleAssumeRoleWithWebIdentity ::
  "'r rand_source \<Rightarrow> instant \<Rightarrow> url_values \<Rightarrow> ('s, 'r) sts_state
   \<Rightarrow> http_response \<times> ('s, 'r) sts_state" where
  "handleAssumeRoleWithWebIdentity rs now form s =
     (let roleARN = values_get form ''RoleArn'';
          sessionName = values_get form ''RoleSessionName''
      in if roleARN = [] then sts_fail rs 400 ''MissingParameter'' (Msg ''RoleArn is required'') s
         else if sessionName = []
         then sts_fail rs 400 ''MissingParameter'' (Msg ''RoleSessionName is required'') s
         else
           (case newCredentials rs now (st_rng s) of
              (Inl e, r1) \<Rightarrow> sts_fail rs 500 ''InternalFailure'' (MsgErr [] e) (s\<lparr>st_rng := r1\<rparr>)
            | (Inr credentials, r1) \<Rightarrow>
                (case newAssumedRoleID rs sessionName r1 of
                   (Inl e, r2) \<Rightarrow>
                     sts_fail rs 500 ''InternalFailure'' (MsgErr [] e) (s\<lparr>st_rng := r2\<rparr>)
                 | (Inr assumedRoleID, r2) \<Rightarrow>
                     (case newRequestID rs r2 of
                        (Inl e, r3) \<Rightarrow>
                          sts_fail rs 500 ''InternalFailure'' (MsgErr [] e) (s\<lparr>st_rng := r3\<rparr>)
                      | (Inr requestID, r3) \<Rightarrow>
                          (let roleUserARN = assumedRoleARN roleARN sessionName;
                               identity = \<lparr>cl_arn = roleUserARN, cl_user_id = assumedRoleID,
                                           cl_account = AccountID\<rparr>
                           in (writeSTSResponse
                                 (assumeRoleResponse credentials roleUserARN assumedRoleID requestID),
                               s\<lparr>st_rng := r3,
                                 st_sessions :=
                                   sessions_put (cr_access_key_id credentials) identity
                                     (st_sessions s)\<rparr>))))))"

definition callerIdentity ::
  "(string \<Rightarrow> 's \<Rightarrow> (go_error + principal) \<times> 's) \<Rightarrow> url_values \<Rightarrow> url_values \<Rightarrow> ('s, 'r) sts_state
   \<Rightarrow> (go_error + caller_identity) \<times> ('s, 'r) sts_state" where
  "callerIdentity get_key form header s =
     (case resolveAccessKeyID form header of
        None \<Rightarrow> (Inr defaultCallerIdentity, s)
      | Some accessKeyID \<Rightarrow>
          (case sessions_get accessKeyID (st_sessions s) of
             Some identity \<Rightarrow> (Inr identity, s)
           | None \<Rightarrow>
               (case get_key accessKeyID (st_store s) of
                  (Inl e, w) \<Rightarrow>
                    if errors_is e ErrPrincipalNotFound
                    then (Inr defaultCallerIdentity, s\<lparr>st_store := w\<rparr>)
                    else (Inl (Wrapf ''resolve principal for access key %q: %w'' [accessKeyID] e),
                          s\<lparr>st_store := w\<rparr>)
                | (Inr prin, w) \<Rightarrow>
                    (Inr \<lparr>cl_arn = p_arn prin,
                          cl_user_id = ''AIDA'' @ p_access_key_id prin,
                          cl_account = AccountID\<rparr>, s\<lparr>st_store := w\<rparr>))))"

definition handleGetCallerIdentity ::
  "(string \<Rightarrow> 's \<Rightarrow> (go_error + principal) \<times> 's) \<Rightarrow> 'r rand_source \<Rightarrow> http_request
   \<Rightarrow> ('s, 'r) sts_state \<Rightarrow> http_response \<times> ('s, 'r) sts_state" where
  "handleGetCallerIdentity get_key rs r s =
     (let form = (case req_form r of None \<Rightarrow> [] | Some f \<Rightarrow> f) in
      case callerIdentity get_key form (req_header r) s of
        (Inl e, s1) \<Rightarrow> sts_fail rs 500 ''InternalFailure'' (MsgErr [] e) s1
      | (Inr identity, s1) \<Rightarrow>
          (case newRequestID rs (st_rng s1) of
             (Inl e, r1) \<Rightarrow> sts_fail rs 500 ''InternalFailure'' (MsgErr [] e) (s1\<lparr>st_rng := r1\<rparr>)
           | (Inr requestID, r1) \<Rightarrow>
               (writeSTSResponse (getCallerIdentityResponse identity requestID),
                s1\<lparr>st_rng := r1\<rparr>)))"

definition dispatchSTS ::
  "(string \<Rightarrow> 's \<Rightarrow> (go_error + principal) \<times> 's) \<Rightarrow> 'r rand_source \<Rightarrow> instant \<Rightarrow> http_request
   \<Rightarrow> ('s, 'r) sts_state \<Rightarrow> http_response \<times> ('s, 'r) sts_state" where
  "dispatchSTS get_key rs now r s =
     (case parseSTSRequest r of
        Inl _ \<Rightarrow> sts_fail rs 400 ''InvalidParameterValue'' (Msg ''failed to parse request'') s
      | Inr form \<Rightarrow>
          (let action = values_get form ''Action'' in
           if action = actionAssumeRoleWithWebIdentity
           then handleAssumeRoleWithWebIdentity rs now form s
           else if action = actionGetCallerIdentity then handleGetCallerIdentity get_key rs r s
           else
             sts_fail rs 400 ''InvalidAction''
               (MsgFmt ''The action %q is not valid for this web service'' [action]) s))"

section \<open>Reading responses\<close>

text \<open>The text under a path of element names, as a client of the XML reads it.\<close>

fun xml_name :: "xml \<Rightarrow> string option" where
  "xml_name (XElem n _) = Some n"
| "xml_name (XText _) = None"

fun xml_text :: "string list \<Rightarrow> xml \<Rightarrow> string option" where
  "xml_text (n # ns) (XElem _ kids) =
     (case find (\<lambda>k. xml_name k = Some n) kids of None \<Rightarrow> None | Some k \<Rightarrow> xml_text ns k)"
| "xml_text [] (XElem _ [XText (Msg s)]) = Some s"
| "xml_text _ _ = None"

definition resp_text :: "string list \<Rightarrow> http_response \<Rightarrow> string option" where
  "resp_text path resp = (case resp_body resp of XmlBody x \<Rightarrow> xml_text path x | _ \<Rightarrow> None)"

definition assume_result :: "string list \<Rightarrow> string list" where
  "assume_result path = ''AssumeRoleWithWebIdentityResult'' # path"

lemma resp_text_simps [simp]:
  "resp_text [''AssumeRoleWithWebIdentityResult'', ''Credentials'', ''AccessKeyId'']
     (writeSTSResponse (assumeRoleResponse c arn rid q)) = Some (cr_access_key_id c)"
  "resp_text [''AssumeRoleWithWebIdentityResult'', ''Credentials'', ''Expiration'']
     (writeSTSResponse (assumeRoleResponse c arn rid q)) = Some (cr_expiration c)"
  "resp_text [''AssumeRoleWithWebIdentityResult'', ''AssumedRoleUser'', ''Arn'']
     (writeSTSResponse (assumeRoleResponse c arn rid q)) = Some arn"
  "resp_text [''GetCallerIdentityResult'', ''Arn'']
     (writeSTSResponse (getCallerIdentityResponse i q)) = Some (cl_arn i)"
  "resp_text [''GetCallerIdentityResult'', ''UserId'']
     (writeSTSResponse (getCallerIdentityResponse i q)) = Some (cl_user_id i)"
  by (simp_all add: resp_text_def writeSTSResponse_def assumeRoleResponse_def
      getCallerIdentityResponse_def text_elem_def)

lemma sts_fail_status [simp]:
  "sts_fail rs status code m s = (resp, s') \<Longrightarrow> resp_status resp = status"
  by (auto simp: sts_fail_def writeSTSError_def Let_def split: prod.splits)

lemma writeSTSResponse_ok [simp]: "resp_status (writeSTSResponse v) = 200"
  by (simp add: writeSTSResponse_def)

section \<open>Access keys from signed requests\<close>

lemma is_space_simps [simp]:
  "is_space (CHR '' '')" "\<not> is_space (CHR ''/'')" "\<not> is_space (CHR '','')"
  by (simp_all add: is_space_def)

lemma trim_space_id: "(\<And>c. c \<in> set s \<Longrightarrow> \<not> is_space c) \<Longrightarrow> trim_space s = s"
proof -
  assume a: "\<And>c. c \<in> set s \<Longrightarrow> \<not> is_space c"
  have d: "dropWhile is_space xs = xs" if "\<And>c. c \<in> set xs \<Longrightarrow> \<not> is_space c" for xs
    using that by (cases xs) auto
  show ?thesis using d [of s] d [of "rev s"] a by (simp add: trim_space_def)
qed

lemma credential_scope_key:
  "CHR ''/'' \<notin> set key \<Longrightarrow> key \<noteq> [] \<Longrightarrow> accessKeyIDFromCredentialScope (key @ CHR ''/'' # rest) = Some key"
  by (simp add: accessKeyIDFromCredentialScope_def)

lemma index_of_credential:
  "index_of ''Credential='' (''AWS4-HMAC-SHA256 Credential='' @ rest) = Some 17"
  by simp

lemma authorization_header_key:
  assumes key: "key \<noteq> []" "\<And>c. c \<in> set key \<Longrightarrow> c \<noteq> CHR ''/'' \<and> c \<noteq> CHR '','' \<and> \<not> is_space c"
    and scope: "\<And>c. c \<in> set scope \<Longrightarrow> c \<noteq> CHR '','' \<and> \<not> is_space c"
  shows "accessKeyIDFromAuthorizationHeader
    (''AWS4-HMAC-SHA256 Credential='' @ key @ ''/'' @ scope @ '','' @ rest) = Some key"
proof -
  have "CHR '','' \<notin> set (key @ ''/'' @ scope)" using key(2) scope by auto
  then have cut: "cut_at (CHR '','') (key @ ''/'' @ scope @ '','' @ rest) = Some (key @ ''/'' @ scope, rest)"
    using cut_at_append [of "CHR '',''" "key @ ''/'' @ scope" rest] by simp
  have "\<not> is_space c" if "c \<in> set (key @ ''/'' @ scope)" for c
    using that key(2) scope by auto
  then have "trim_space (key @ ''/'' @ scope) = key @ ''/'' @ scope" by (rule trim_space_id)
  moreover have "CHR ''/'' \<notin> set key" using key(2) by auto
  ultimately show ?thesis
    using key(1) cut index_of_credential [of "key @ ''/'' @ scope @ '','' @ rest"]
    by (simp add: accessKeyIDFromAuthorizationHeader_def credential_scope_key del: index_of.simps)
qed

section \<open>Assumed-role ARNs\<close>

lemma split_n_step:
  "CHR '':'' \<notin> set a \<Longrightarrow> split_n (CHR '':'') (Suc (Suc n)) (a @ CHR '':'' # s) = a # split_n (CHR '':'') (Suc n) s"
  by simp

lemma split_role_arn:
  assumes "CHR '':'' \<notin> set p" and "CHR '':'' \<notin> set acct"
  shows "split_n (CHR '':'') 6 (''arn:'' @ p @ '':iam::'' @ acct @ '':'' @ res) =
    [''arn'', p, ''iam'', [], acct, res]"
proof -
  have n: "6 = Suc (Suc (Suc (Suc (Suc (Suc 0)))))" by simp
  have s: "''arn:'' @ p @ '':iam::'' @ acct @ '':'' @ res =
      ''arn'' @ CHR '':'' # p @ CHR '':'' # ''iam'' @ CHR '':'' # [] @ CHR '':'' # acct @ CHR '':'' # res"
    by simp
  show ?thesis
    unfolding n s using assms by (subst split_n_step, simp)+ simp
qed

lemma path_base_last:
  assumes "name \<noteq> []" and "CHR ''/'' \<notin> set name" and "dir = [] \<or> last dir = CHR ''/''"
  shows "path_base (dir @ name) = name"
proof -
  obtain x xs where rn: "rev name = x # xs" using assms(1) by (cases "rev name") auto
  have x: "x \<noteq> CHR ''/''" using rn assms(2) by (metis in_set_conv_decomp_first list.set_intros(1) set_rev)
  have all: "\<And>c. c \<in> set (rev name) \<Longrightarrow> c \<noteq> CHR ''/''" using assms(2) by auto
  have "takeWhile (\<lambda>c. c \<noteq> CHR ''/'') (rev name @ rev dir) =
      rev name @ takeWhile (\<lambda>c. c \<noteq> CHR ''/'') (rev dir)"
    using all by (simp add: takeWhile_append)
  moreover have "takeWhile (\<lambda>c. c \<noteq> CHR ''/'') (rev dir) = []"
    using assms(3) by (cases "rev dir") (auto simp: last_rev hd_rev [symmetric] last_conv_nth)
  ultimately have "takeWhile (\<lambda>c. c \<noteq> CHR ''/'') (rev name @ rev dir) = rev name" by simp
  moreover have "dropWhile (\<lambda>c. c = CHR ''/'') (rev name @ rev dir) = rev name @ rev dir"
    using rn x by simp
  ultimately show ?thesis using assms(1) by (simp add: path_base_def Let_def)
qed

lemma role_arn_parts:
  assumes "p \<noteq> []" "CHR '':'' \<notin> set p" "CHR '':'' \<notin> set acct"
    and "name \<noteq> []" "CHR ''/'' \<notin> set name" "name \<noteq> ''.''" "dir = [] \<or> last dir = CHR ''/''"
  shows "roleARNParts (''arn:'' @ p @ '':iam::'' @ acct @ '':role/'' @ dir @ name) = (p, name)"
proof -
  have "name \<noteq> ''/''" using assms(5) by auto
  then show ?thesis
    using split_role_arn [OF assms(2,3), of "''role/'' @ dir @ name"]
      path_base_last [OF assms(4,5,7)] assms(1,4,6) cut_prefix_append [of "''role/''" "dir @ name"]
    by (simp add: roleARNParts_def del: cut_prefix_append)
qed

section \<open>What the handlers do\<close>

lemma newCredentials_total:
  assumes "rand_total rs"
  shows "\<exists>c r'. newCredentials rs now r = (Inr c, r')"
proof -
  obtain a r1 where 1: "randomHexString rs 8 r = (Inr a, r1)"
    using randomHexString_total [OF assms] by blast
  obtain b r2 where 2: "randomHexString rs 20 r1 = (Inr b, r2)"
    using randomHexString_total [OF assms] by blast
  obtain t r3 where 3: "randomHexString rs 40 r2 = (Inr t, r3)"
    using randomHexString_total [OF assms] by blast
  from 1 2 3 show ?thesis by (simp add: newCredentials_def)
qed

lemma newCredentials_fields:
  "newCredentials rs now r = (Inr c, r') \<Longrightarrow>
   cr_expiration c = format_rfc3339 (now + sessionCredentialsTTL) \<and> prefix ''ASIA'' (cr_access_key_id c)"
  by (auto simp: newCredentials_def sessionAccessKeyPrefix_def split: prod.splits sum.splits)

lemma newRequestID_total: "rand_total rs \<Longrightarrow> \<exists>q r'. newRequestID rs r = (Inr q, r')"
  using randomHexString_total [of rs 16 r] by (auto simp: newRequestID_def)

lemma newAssumedRoleID_total: "rand_total rs \<Longrightarrow> \<exists>q r'. newAssumedRoleID rs n r = (Inr q, r')"
  using randomHexString_total [of rs 6 r] by (auto simp: newAssumedRoleID_def)

lemma assume_role_success:
  assumes "rand_total rs" and "values_get form ''RoleArn'' \<noteq> []"
    and "values_get form ''RoleSessionName'' \<noteq> []"
  shows "\<exists>c rid q s1.
    handleAssumeRoleWithWebIdentity rs now form s =
      (writeSTSResponse (assumeRoleResponse c
         (assumedRoleARN (values_get form ''RoleArn'') (values_get form ''RoleSessionName'')) rid q), s1) \<and>
    st_store s1 = st_store s \<and>
    cr_expiration c = format_rfc3339 (now + sessionCredentialsTTL) \<and>
    st_sessions s1 = sessions_put (cr_access_key_id c)
      \<lparr>cl_arn = assumedRoleARN (values_get form ''RoleArn'') (values_get form ''RoleSessionName''),
       cl_user_id = rid, cl_account = AccountID\<rparr> (st_sessions s)"
proof -
  obtain c r1 where c: "newCredentials rs now (st_rng s) = (Inr c, r1)"
    using newCredentials_total [OF assms(1)] by blast
  obtain rid r2 where r: "newAssumedRoleID rs (values_get form ''RoleSessionName'') r1 = (Inr rid, r2)"
    using newAssumedRoleID_total [OF assms(1)] by blast
  obtain q r3 where q: "newRequestID rs r2 = (Inr q, r3)"
    using newRequestID_total [OF assms(1)] by blast
  from c r q assms(2,3) newCredentials_fields [OF c] show ?thesis
    by (simp add: handleAssumeRoleWithWebIdentity_def Let_def) blast
qed

lemma get_caller_success:
  assumes "rand_total rs" and "req_form r = Some form"
    and "callerIdentity gk form (req_header r) s = (Inr i, s1)"
  shows "\<exists>q s2. handleGetCallerIdentity gk rs r s = (writeSTSResponse (getCallerIdentityResponse i q), s2) \<and>
    st_store s2 = st_store s1 \<and> st_sessions s2 = st_sessions s1"
proof -
  obtain q r1 where "newRequestID rs (st_rng s1) = (Inr q, r1)"
    using newRequestID_total [OF assms(1)] by blast
  with assms(2,3) show ?thesis by (auto simp: handleGetCallerIdentity_def)
qed

lemma caller_of_session:
  "resolveAccessKeyID form header = Some key \<Longrightarrow> sessions_get key (st_sessions s) = Some i \<Longrightarrow>
   callerIdentity gk form header s = (Inr i, s)"
  by (simp add: callerIdentity_def)

lemma sessions_get_put [simp]:
  "sessions_get k (sessions_put k' i m) = (if k = k' then Some i else sessions_get k m)"
  by (simp add: sessions_get_def sessions_put_def)

text \<open>A request for the given action.\<close>

definition sts_request :: "string \<Rightarrow> http_request \<Rightarrow> url_values \<Rightarrow> bool" where
  "sts_request action r form \<longleftrightarrow> req_form r = Some form \<and> values_get form ''Action'' = action"

lemma dispatch_assume:
  "sts_request actionAssumeRoleWithWebIdentity r form \<Longrightarrow>
   dispatchSTS gk rs now r s = handleAssumeRoleWithWebIdentity rs now form s"
  by (simp add: dispatchSTS_def sts_request_def parseSTSRequest_def)

lemma dispatch_get_caller:
  "sts_request actionGetCallerIdentity r form \<Longrightarrow>
   dispatchSTS gk rs now r s = handleGetCallerIdentity gk rs r s"
  by (simp add: dispatchSTS_def sts_request_def parseSTSRequest_def actionGetCallerIdentity_def
      actionAssumeRoleWithWebIdentity_def)

lemma dispatch_identity:
  assumes "rand_total rs" and "sts_request actionGetCallerIdentity r form"
    and "callerIdentity gk form (req_header r) s = (Inr i, s1)"
    and "dispatchSTS gk rs now r s = (resp, s')"
  shows "\<exists>q. resp = writeSTSResponse (getCallerIdentityResponse i q)"
proof -
  have "req_form r = Some form" using assms(2) by (simp add: sts_request_def)
  from get_caller_success [OF assms(1) this assms(3)] obtain q s2 where
    "handleGetCallerIdentity gk rs r s = (writeSTSResponse (getCallerIdentityResponse i q), s2)" by blast
  with assms(4) dispatch_get_caller [OF assms(2), of gk rs now s] show ?thesis by auto
qed

section \<open>Properties\<close>

definition demo_state :: "(mem_principals, nat) sts_state" where
  "demo_state = \<lparr>st_store = [], st_sessions = [], st_rng = 0\<rparr>"

definition assume_form :: url_values where
  "assume_form =
     [(''Action'', [actionAssumeRoleWithWebIdentity]),
      (''RoleArn'', [''arn:aws-cn:iam::123456789012:role/team/dev'']), (''RoleSessionName'', [''me''])]"

definition assume_request :: http_request where
  "assume_request =
     \<lparr>req_path_values = [], req_query = [], req_form = Some assume_form, req_header = [],
      req_body = Malformed\<rparr>"

definition signed_request :: "string \<Rightarrow> http_request" where
  "signed_request key =
     \<lparr>req_path_values = [], req_query = [], req_form = Some [(''Action'', [actionGetCallerIdentity])],
      req_header = [(''Authorization'',
        [''AWS4-HMAC-SHA256 Credential='' @ key @ ''/20240101/us-east-1/sts/aws4_request, SignedHeaders=host''])],
      req_body = Malformed\<rparr>"

text \<open>
  The access key of a SigV4 Authorization header is the first component of its credential
  scope, whatever follows it.
\<close>

theorem signed_header_access_key:
  assumes "key \<noteq> []" and "\<And>c. c \<in> set key \<Longrightarrow> c \<noteq> CHR ''/'' \<and> c \<noteq> CHR '','' \<and> \<not> is_space c"
    and "\<And>c. c \<in> set scope \<Longrightarrow> c \<noteq> CHR '','' \<and> \<not> is_space c"
    and "values_get header ''Authorization'' =
      ''AWS4-HMAC-SHA256 Credential='' @ key @ ''/'' @ scope @ '','' @ rest"
  shows "resolveAccessKeyID form header = Some key"
proof -
  have "accessKeyIDFromAuthorizationHeader (values_get header ''Authorization'') = Some key"
    unfolding assms(4) using assms(1-3) by (rule authorization_header_key)
  moreover have "values_get header ''Authorization'' \<noteq> []" unfolding assms(4) by simp
  ultimately show ?thesis by (simp add: resolveAccessKeyID_def Let_def)
qed

theorem signed_header_access_key_witness:
  "resolveAccessKeyID []
     [(''Authorization'', [''AWS4-HMAC-SHA256 Credential=AKIA1/d/sts/aws4_request, Signature=x''])] =
   Some ''AKIA1''"
  by (rule signed_header_access_key [of "''AKIA1''" "''d/sts/aws4_request''" _ "'' Signature=x''"])
    (auto simp: is_space_def values_get_def)

text \<open>
  The assumed-role ARN keeps the partition and the last path component of any IAM role
  ARN, takes the emulated account, and appends the session name.
\<close>

theorem assumed_role_arn_of_role_arn:
  assumes "p \<noteq> []" and "CHR '':'' \<notin> set p" and "CHR '':'' \<notin> set acct"
    and "name \<noteq> []" and "CHR ''/'' \<notin> set name" and "name \<noteq> ''.''" and "dir = [] \<or> last dir = CHR ''/''"
  shows "assumedRoleARN (''arn:'' @ p @ '':iam::'' @ acct @ '':role/'' @ dir @ name) session =
    ''arn:'' @ p @ '':sts::000000000000:assumed-role/'' @ name @ ''/'' @ session"
  using role_arn_parts [OF assms] by (simp add: assumedRoleARN_def AccountID_def)

theorem assumed_role_arn_of_role_arn_witness:
  "assumedRoleARN ''arn:aws-cn:iam::123456789012:role/team/dev'' ''me'' =
   ''arn:aws-cn:sts::000000000000:assumed-role/dev/me''"
  using assumed_role_arn_of_role_arn [of "''aws-cn''" "''123456789012''" "''dev''" "''team/''" "''me''"]
  by simp

text \<open>
  C13: credentials issued by AssumeRoleWithWebIdentity identify their holder: a later
  GetCallerIdentity whose request carries the issued access key answers with the ARN of the
  assumed role the first call announced, whatever the principal store holds.
\<close>

theorem assume_role_then_identity:
  assumes "rand_total rs"
    and "sts_request actionAssumeRoleWithWebIdentity r1 form"
    and "values_get form ''RoleArn'' \<noteq> []" and "values_get form ''RoleSessionName'' \<noteq> []"
    and "dispatchSTS gk rs now r1 s = (resp1, s1)"
    and "sts_request actionGetCallerIdentity r2 form2"
    and "resp_text (assume_result [''Credentials'', ''AccessKeyId'']) resp1 =
      resolveAccessKeyID form2 (req_header r2)"
    and "dispatchSTS gk rs later r2 s1 = (resp2, s2)"
  shows "resp_status resp1 = 200 \<and> resp_status resp2 = 200 \<and>
    resp_text (assume_result [''AssumedRoleUser'', ''Arn'']) resp1 =
      Some (assumedRoleARN (values_get form ''RoleArn'') (values_get form ''RoleSessionName'')) \<and>
    resp_text [''GetCallerIdentityResult'', ''Arn''] resp2 =
      Some (assumedRoleARN (values_get form ''RoleArn'') (values_get form ''RoleSessionName''))"
proof -
  let ?arn = "assumedRoleARN (values_get form ''RoleArn'') (values_get form ''RoleSessionName'')"
  from assume_role_success [OF assms(1,3,4), of now s] obtain c rid q s1' where
    run: "handleAssumeRoleWithWebIdentity rs now form s =
      (writeSTSResponse (assumeRoleResponse c ?arn rid q), s1')"
    and "st_sessions s1' = sessions_put (cr_access_key_id c)
      \<lparr>cl_arn = ?arn, cl_user_id = rid, cl_account = AccountID\<rparr> (st_sessions s)" by blast
  with assms(5) dispatch_assume [OF assms(2), of gk rs now s]
  have resp1: "resp1 = writeSTSResponse (assumeRoleResponse c
      (assumedRoleARN (values_get form ''RoleArn'') (values_get form ''RoleSessionName'')) rid q)"
    and sess: "st_sessions s1 = sessions_put (cr_access_key_id c)
      \<lparr>cl_arn = assumedRoleARN (values_get form ''RoleArn'') (values_get form ''RoleSessionName''),
       cl_user_id = rid, cl_account = AccountID\<rparr> (st_sessions s)" by auto
  have "resolveAccessKeyID form2 (req_header r2) = Some (cr_access_key_id c)"
    using assms(7) resp1 by (simp add: assume_result_def)
  have "callerIdentity gk form2 (req_header r2) s1 =
      (Inr \<lparr>cl_arn = ?arn, cl_user_id = rid, cl_account = AccountID\<rparr>, s1)"
    by (rule caller_of_session [OF \<open>resolveAccessKeyID form2 _ = _\<close>]) (simp add: sess)
  from dispatch_identity [OF assms(1,6) this assms(8)] obtain q2 where
    "resp2 = writeSTSResponse (getCallerIdentityResponse
      \<lparr>cl_arn = ?arn, cl_user_id = rid, cl_account = AccountID\<rparr> q2)" by blast
  with resp1 show ?thesis by (simp add: assume_result_def)
qed

theorem assume_role_then_identity_witness:
  "resp_text [''GetCallerIdentityResult'', ''Arn'']
     (fst (dispatchSTS mem_get_by_access_key_id counter_rand 0 (signed_request ''ASIA0001020304050607'')
       (snd (dispatchSTS mem_get_by_access_key_id counter_rand 0 assume_request demo_state)))) =
   Some ''arn:aws-cn:sts::000000000000:assumed-role/dev/me''"
proof -
  let ?r2 = "signed_request ''ASIA0001020304050607''"
  obtain resp1 s1 where 1: "dispatchSTS mem_get_by_access_key_id counter_rand 0 assume_request demo_state
      = (resp1, s1)" by fastforce
  obtain resp2 s2 where 2: "dispatchSTS mem_get_by_access_key_id counter_rand 0 ?r2 s1 = (resp2, s2)"
    by fastforce
  have form: "sts_request actionAssumeRoleWithWebIdentity assume_request assume_form"
    "values_get assume_form ''RoleArn'' = ''arn:aws-cn:iam::123456789012:role/team/dev''"
    "values_get assume_form ''RoleSessionName'' = ''me''"
    by (simp_all add: sts_request_def assume_request_def assume_form_def values_get_def)
  have form2: "sts_request actionGetCallerIdentity ?r2 [(''Action'', [actionGetCallerIdentity])]"
    by (simp add: sts_request_def signed_request_def values_get_def)
  have "resp_text (assume_result [''Credentials'', ''AccessKeyId''])
      (fst (dispatchSTS mem_get_by_access_key_id counter_rand 0 assume_request demo_state)) =
    Some ''ASIA0001020304050607''"
  proof -
    obtain c r1 where c: "newCredentials counter_rand 0 0 = (Inr c, r1)"
      using newCredentials_total [OF counter_rand_total] by blast
    have "randomHexString counter_rand 8 0 = (Inr ''0001020304050607'', 8)" by code_simp
    with c have "cr_access_key_id c = ''ASIA0001020304050607''"
      by (auto simp: newCredentials_def sessionAccessKeyPrefix_def split: prod.splits sum.splits)
    moreover obtain rid r2 where "newAssumedRoleID counter_rand ''me'' r1 = (Inr rid, r2)"
      using newAssumedRoleID_total [OF counter_rand_total] by blast
    moreover obtain q r3 where "newRequestID counter_rand r2 = (Inr q, r3)"
      using newRequestID_total [OF counter_rand_total] by blast
    ultimately show ?thesis
      using c form
      by (simp add: dispatch_assume [OF form(1)] handleAssumeRoleWithWebIdentity_def demo_state_def Let_def
          assume_result_def)
  qed
  moreover have "resolveAccessKeyID [(''Action'', [actionGetCallerIdentity])] (req_header ?r2) =
      Some ''ASIA0001020304050607''"
    by code_simp
  ultimately have key: "resp_text (assume_result [''Credentials'', ''AccessKeyId'']) resp1 =
      resolveAccessKeyID [(''Action'', [actionGetCallerIdentity])] (req_header ?r2)"
    using 1 by simp
  have "assumedRoleARN ''arn:aws-cn:iam::123456789012:role/team/dev'' ''me'' =
      ''arn:aws-cn:sts::000000000000:assumed-role/dev/me''" by code_simp
  with assume_role_then_identity [OF counter_rand_total form(1) _ _ 1 form2 key 2] form(2,3) 1 2
  show ?thesis by simp
qed

text \<open>
  GetCallerIdentity never rejects a caller: without a recognizable access key, or with
  one that neither the sessions nor the store know, it answers with the account root, and
  only a failing store makes it an internal error.
\<close>

theorem caller_identity_cases:
  assumes "rand_total rs" and "sts_request actionGetCallerIdentity r form"
    and "dispatchSTS gk rs now r s = (resp, s')"
  shows "case resolveAccessKeyID form (req_header r) of
      None \<Rightarrow> resp_text [''GetCallerIdentityResult'', ''Arn''] resp = Some ''arn:aws:iam::000000000000:root''
    | Some key \<Rightarrow>
        (case map_of (st_sessions s) key of
           Some i \<Rightarrow> resp_text [''GetCallerIdentityResult'', ''Arn''] resp = Some (cl_arn i)
         | None \<Rightarrow>
             (case fst (gk key (st_store s)) of
                Inr p \<Rightarrow> resp_text [''GetCallerIdentityResult'', ''Arn''] resp = Some (p_arn p) \<and>
                  resp_text [''GetCallerIdentityResult'', ''UserId''] resp =
                    Some (''AIDA'' @ p_access_key_id p)
              | Inl e \<Rightarrow>
                  if errors_is e ErrPrincipalNotFound
                  then resp_text [''GetCallerIdentityResult'', ''Arn''] resp =
                    Some ''arn:aws:iam::000000000000:root''
                  else resp_status resp = 500))"
proof -
  have form: "req_form r = Some form" using assms(2) by (simp add: sts_request_def)
  obtain res s1 where ci: "callerIdentity gk form (req_header r) s = (res, s1)" by fastforce
  have ok: "\<exists>q. resp = writeSTSResponse (getCallerIdentityResponse i q)" if "res = Inr i" for i
    by (rule dispatch_identity [OF assms(1,2) ci [unfolded that] assms(3)])
  have bad: "resp_status resp = 500" if "res = Inl e" for e
    using assms(3) dispatch_get_caller [OF assms(2), of gk rs now s] ci form that
    by (auto simp: handleGetCallerIdentity_def dest: sts_fail_status)
  show ?thesis
  proof (cases "resolveAccessKeyID form (req_header r)")
    case None
    with ci have "res = Inr defaultCallerIdentity" by (simp add: callerIdentity_def)
    from ok [OF this] None show ?thesis by (auto simp: defaultCallerIdentity_def AccountID_def)
  next
    case key: (Some key)
    show ?thesis
    proof (cases "map_of (st_sessions s) key")
      case (Some i)
      with ci key have "res = Inr i" by (simp add: callerIdentity_def sessions_get_def)
      from ok [OF this] key Some show ?thesis by auto
    next
      case None
      obtain x w where gk: "gk key (st_store s) = (x, w)" by fastforce
      show ?thesis
      proof (cases x)
        case (Inl e)
        show ?thesis
        proof (cases "errors_is e ErrPrincipalNotFound")
          case True
          with ci key None gk Inl have "res = Inr defaultCallerIdentity"
            by (simp add: callerIdentity_def sessions_get_def)
          from ok [OF this] key None gk Inl True show ?thesis
            by (auto simp: defaultCallerIdentity_def AccountID_def)
        next
          case False
          with ci key None gk Inl have "\<exists>e'. res = Inl e'"
            by (auto simp: callerIdentity_def sessions_get_def)
          then show ?thesis using bad key None gk Inl False by auto
        qed
      next
        case (Inr p)
        with ci key None gk have "res = Inr \<lparr>cl_arn = p_arn p,
            cl_user_id = ''AIDA'' @ p_access_key_id p, cl_account = AccountID\<rparr>"
          by (simp add: callerIdentity_def sessions_get_def)
        from ok [OF this] key None gk Inr show ?thesis by auto
      qed
    qed
  qed
qed

theorem caller_identity_cases_witness:
  "resp_text [''GetCallerIdentityResult'', ''Arn'']
     (fst (dispatchSTS mem_get_by_access_key_id counter_rand 0 (signed_request ''AKIA1'')
       (demo_state\<lparr>st_store := [(''AKIA1'', alice)]\<rparr>))) = Some (PrincipalARN ''alice'')"
proof -
  let ?s = "demo_state\<lparr>st_store := [(''AKIA1'', alice)]\<rparr>"
  obtain resp s' where
    run: "dispatchSTS mem_get_by_access_key_id counter_rand 0 (signed_request ''AKIA1'') ?s = (resp, s')"
    by fastforce
  have req: "sts_request actionGetCallerIdentity (signed_request ''AKIA1'')
      [(''Action'', [actionGetCallerIdentity])]"
    by (simp add: sts_request_def signed_request_def values_get_def)
  have "resolveAccessKeyID [(''Action'', [actionGetCallerIdentity])]
      (req_header (signed_request ''AKIA1'')) = Some ''AKIA1''" by code_simp
  with caller_identity_cases [OF counter_rand_total req run] run show ?thesis
    by (simp add: demo_state_def mem_get_by_access_key_id_def alice_def)
qed

end
