(* ===== verification/Go_Url.thy ===== *)
theory Go_Url
  imports Http
begin

text \<open>
  The standard-library functions the token webhook decodes a bearer token with:
  \<open>base64.RawURLEncoding.DecodeString\<close>, \<open>url.Parse\<close> and \<open>URL.Query\<close>, on byte strings. A
  bracketed (IPv6) host is checked as an ordinary host between its brackets.
\<close>

section \<open>Raw URL base64\<close>

text \<open>The alphabet A-Z, a-z, 0-9, hyphen and underscore, by its position.\<close>

definition base64_digit :: "nat \<Rightarrow> char" where
  "base64_digit n =
     char_of (if n < 26 then n + 65 else if n < 52 then n + 71 else if n < 62 then n - 4
              else if n = 62 then 45 else 95)"

definition base64_value :: "char \<Rightarrow> nat option" where
  "base64_value c =
     (let n = of_char c :: nat in
      if 65 \<le> n \<and> n \<le> 90 then Some (n - 65)
      else if 97 \<le> n \<and> n \<le> 122 then Some (n - 71)
      else if 48 \<le> n \<and> n \<le> 57 then Some (n + 4)
      else if n = 45 then Some 62
      else if n = 95 then Some 63
      else None)"

fun base64_groups :: "nat list \<Rightarrow> string option" where
  "base64_groups (a # b # c # d # rest) =
     (case base64_groups rest of
        None \<Rightarrow> None
      | Some s \<Rightarrow>
          Some (char_of (a * 4 + b div 16) # char_of (b mod 16 * 16 + c div 4) #
                char_of (c mod 4 * 64 + d) # s))"
| "base64_groups [a, b, c] = Some [char_of (a * 4 + b div 16), char_of (b mod 16 * 16 + c div 4)]"
| "base64_groups [a, b] = Some [char_of (a * 4 + b div 16)]"
| "base64_groups [a] = None"
| "base64_groups [] = Some []"

text \<open>Line breaks are skipped, the unused low bits of the last digit are ignored.\<close>

definition base64_decode :: "string \<Rightarrow> string option" where
  "base64_decode s =
     (let s' = filter (\<lambda>c. of_char c \<noteq> (10::nat) \<and> of_char c \<noteq> (13::nat)) s in
      if \<forall>c \<in> set s'. base64_value c \<noteq> None
      then base64_groups (map (\<lambda>c. the (base64_value c)) s')
      else None)"

text \<open>What a client encodes with.\<close>

fun base64_sextets :: "nat list \<Rightarrow> nat list" where
  "base64_sextets (a # b # c # rest) =
     a div 4 # (a mod 4 * 16 + b div 16) # (b mod 16 * 4 + c div 64) # c mod 64 # base64_sextets rest"
| "base64_sextets [a, b] = [a div 4, a mod 4 * 16 + b div 16, b mod 16 * 4]"
| "base64_sextets [a] = [a div 4, a mod 4 * 16]"
| "base64_sextets [] = []"

definition base64_encode :: "string \<Rightarrow> string" where
  "base64_encode s = map base64_digit (base64_sextets (map of_char s))"

lemma base64_sextets_bound:
  "\<forall>x \<in> set ns. x < 256 \<Longrightarrow> \<forall>x \<in> set (base64_sextets ns). x < 64"
  by (induction ns rule: base64_sextets.induct) auto

lemma base64_groups_sextets:
  "\<forall>x \<in> set ns. x < 256 \<Longrightarrow> base64_groups (base64_sextets ns) = Some (map char_of ns)"
proof (induction ns rule: base64_sextets.induct)
  case (1 a b c rest)
  have "a div 4 * 4 + (a mod 4 * 16 + b div 16) div 16 = a"
    and "(a mod 4 * 16 + b div 16) mod 16 * 16 + (b mod 16 * 4 + c div 64) div 4 = b"
    and "(b mod 16 * 4 + c div 64) mod 4 * 64 + c mod 64 = c"
    using 1(2) by auto
  with 1 show ?case by simp
next
  case (2 a b)
  have "a div 4 * 4 + (a mod 4 * 16 + b div 16) div 16 = a"
    and "(a mod 4 * 16 + b div 16) mod 16 * 16 + (b mod 16 * 4) div 4 = b"
    using 2 by auto
  then show ?case by simp
next
  case (3 a)
  then show ?case by auto
qed simp

lemma base64_digit_value:
  assumes "n < 64"
  shows "base64_value (base64_digit n) = Some n"
    and "of_char (base64_digit n) \<noteq> (10::nat)" and "of_char (base64_digit n) \<noteq> (13::nat)"
  using assms by (auto simp: base64_value_def base64_digit_def Let_def)

lemma base64_roundtrip: "base64_decode (base64_encode s) = Some s"
proof -
  let ?ns = "map of_char s :: nat list"
  have b: "\<forall>x \<in> set ?ns. x < 256"
    by auto
  note six = base64_sextets_bound [OF b]
  have keep: "filter (\<lambda>c. of_char c \<noteq> (10::nat) \<and> of_char c \<noteq> (13::nat)) (base64_encode s) = base64_encode s"
    unfolding filter_id_conv base64_encode_def using six base64_digit_value(2,3) by auto
  have all: "\<forall>c \<in> set (base64_encode s). base64_value c \<noteq> None"
    using six base64_digit_value(1) by (auto simp: base64_encode_def)
  have vals: "map (\<lambda>c. the (base64_value c)) (base64_encode s) = base64_sextets ?ns"
    using six base64_digit_value(1) by (auto simp: base64_encode_def comp_def intro: map_idI)
  have "map char_of ?ns = s" by (simp add: comp_def)
  with base64_groups_sextets [OF b] all show ?thesis
    unfolding base64_decode_def keep Let_def vals by simp
qed

section \<open>Percent encoding\<close>

datatype url_mode = UPath | UQuery | UFragment | UHost | UUser

fun hex_value :: "char \<Rightarrow> nat option" where
  "hex_value c =
     (let n = of_char c :: nat in
      if 48 \<le> n \<and> n \<le> 57 then Some (n - 48)
      else if 97 \<le> n \<and> n \<le> 102 then Some (n - 87)
      else if 65 \<le> n \<and> n \<le> 70 then Some (n - 55)
      else None)"

declare hex_value.simps [simp del]

text \<open>Characters a host may hold unescaped (ASCII ones).\<close>

definition host_char :: "char \<Rightarrow> bool" where
  "host_char c \<longleftrightarrow>
     of_char c \<ge> (128::nat) \<or>
     c \<in> set ''abcdefghijklmnopqrstuvwxyzABCDEFGHIJKLMNOPQRSTUVWXYZ0123456789-_.~!$&()*+,;=:[]<>'' \<or>
     of_char c \<in> {34, 39::nat}"

fun unescape :: "url_mode \<Rightarrow> string \<Rightarrow> string option" where
  "unescape m [] = Some []"
| "unescape m (c # cs) =
     (if c = CHR ''%'' then
        (case cs of
           h # l # rest \<Rightarrow>
             (case (hex_value h, hex_value l) of
                (Some x, Some y) \<Rightarrow>
                  if m = UHost \<and> x < 8 \<and> (x, y) \<noteq> (2, 5) then None
                  else map_option ((#) (char_of (16 * x + y))) (unescape m rest)
              | _ \<Rightarrow> None)
         | _ \<Rightarrow> None)
      else if c = CHR ''+'' \<and> m = UQuery then map_option ((#) (CHR '' '')) (unescape m cs)
      else if m = UHost \<and> \<not> host_char c then None
      else map_option ((#) c) (unescape m cs))"

section \<open>Queries\<close>

text \<open>
  \<open>URL.Query\<close>: pairs separated by ampersands, a pair with a semicolon or a bad escape is
  dropped, the values of one key are kept in order.
\<close>

definition query_pair :: "string \<Rightarrow> (string \<times> string) option" where
  "query_pair kv =
     (if CHR '';'' \<in> set kv \<or> kv = [] then None
      else
        (let (k, v) = (case cut_at (CHR ''='') kv of None \<Rightarrow> (kv, []) | Some p \<Rightarrow> p) in
         case (unescape UQuery k, unescape UQuery v) of
           (Some k', Some v') \<Rightarrow> Some (k', v')
         | _ \<Rightarrow> None))"

definition query_pairs :: "string \<Rightarrow> (string \<times> string) list" where
  "query_pairs q = List.map_filter query_pair (split_all (CHR ''&'') q)"

definition query_get :: "string \<Rightarrow> string \<Rightarrow> string" where
  "query_get q key = (case map_of (query_pairs q) key of None \<Rightarrow> [] | Some v \<Rightarrow> v)"

section \<open>Parsing a URL\<close>

text \<open>The scheme: \<open>None\<close> is an error, \<open>Some ([], s)\<close> no scheme.\<close>

fun get_scheme :: "bool \<Rightarrow> string \<Rightarrow> string \<Rightarrow> (string \<times> string) option" where
  "get_scheme first acc [] = Some ([], rev acc)"
| "get_scheme first acc (c # cs) =
     (let n = of_char c :: nat in
      if 97 \<le> n \<and> n \<le> 122 \<or> 65 \<le> n \<and> n \<le> 90 then get_scheme False (c # acc) cs
      else if 48 \<le> n \<and> n \<le> 57 \<or> c \<in> {CHR ''+'', CHR ''-'', CHR ''.''} then
        (if first then Some ([], c # cs) else get_scheme False (c # acc) cs)
      else if c = CHR '':'' then (if first then None else Some (rev acc, cs))
      else Some ([], rev acc @ c # cs))"

definition valid_port :: "string \<Rightarrow> bool" where
  "valid_port p \<longleftrightarrow>
     (case p of
        [] \<Rightarrow> True
      | c # cs \<Rightarrow> c = CHR '':'' \<and> (\<forall>d \<in> set cs. 48 \<le> (of_char d::nat) \<and> (of_char d::nat) \<le> 57))"

definition last_cut :: "char \<Rightarrow> string \<Rightarrow> (string \<times> string) option" where
  "last_cut c s = map_option (\<lambda>(a, b). (rev b, rev a)) (cut_at c (rev s))"

definition valid_host :: "string \<Rightarrow> bool" where
  "valid_host h \<longleftrightarrow>
     (if h \<noteq> [] \<and> hd h = CHR ''['' then
        (case last_cut (CHR '']'') h of
           None \<Rightarrow> False
         | Some (inner, port) \<Rightarrow> valid_port port \<and> unescape UHost (tl inner) \<noteq> None)
      else
        (case last_cut (CHR '':'') h of
           None \<Rightarrow> True
         | Some (_, port) \<Rightarrow> valid_port (CHR '':'' # port)) \<and>
        unescape UHost h \<noteq> None)"

definition user_char :: "char \<Rightarrow> bool" where
  "user_char c \<longleftrightarrow>
     c \<in> set ''abcdefghijklmnopqrstuvwxyzABCDEFGHIJKLMNOPQRSTUVWXYZ0123456789-._:~!$&()*+,;=%@'' \<or>
     of_char c = (39::nat)"

definition valid_authority :: "string \<Rightarrow> bool" where
  "valid_authority a \<longleftrightarrow>
     (case last_cut (CHR ''@'') a of
        None \<Rightarrow> valid_host a
      | Some (user, host) \<Rightarrow>
          valid_host host \<and> (\<forall>c \<in> set user. user_char c) \<and> unescape UUser user \<noteq> None)"

definition is_control :: "char \<Rightarrow> bool" where
  "is_control c \<longleftrightarrow> of_char c < (32::nat) \<or> of_char c = (127::nat)"

text \<open>\<open>url.Parse\<close>, reduced to the raw query of the result.\<close>

definition url_parse :: "string \<Rightarrow> string option" where
  "url_parse raw =
     (let (u, frag) = (case cut_at (CHR ''#'') raw of None \<Rightarrow> (raw, []) | Some p \<Rightarrow> p) in
      if (\<exists>c \<in> set u. is_control c) \<or> unescape UFragment frag = None then None
      else if u = ''*'' then Some []
      else
        (case get_scheme True [] u of
           None \<Rightarrow> None
         | Some (scheme, rest) \<Rightarrow>
             (let (rest1, q) = (case cut_at (CHR ''?'') rest of None \<Rightarrow> (rest, []) | Some p \<Rightarrow> p) in
              if \<not> prefix ''/'' rest1 \<and> scheme \<noteq> [] then Some q
              else if \<not> prefix ''/'' rest1 \<and> CHR '':'' \<in> set (takeWhile (\<lambda>c. c \<noteq> CHR ''/'') rest1) then None
              else
                (let has_auth = prefix ''//'' rest1 \<and> (scheme \<noteq> [] \<or> \<not> prefix ''///'' rest1);
                     authority = (if has_auth then takeWhile (\<lambda>c. c \<noteq> CHR ''/'') (drop 2 rest1) else []);
                     path = (if has_auth then dropWhile (\<lambda>c. c \<noteq> CHR ''/'') (drop 2 rest1) else rest1)
                 in if (has_auth \<and> \<not> valid_authority authority) \<or> unescape UPath path = None then None
                    else Some q))))"

end
