(* ===== verification/Go_Path.thy ===== *)
theory Go_Path
  imports Prelude
begin

text \<open>
  What the sources use of Go's \<open>path/filepath\<close> on Unix: \<open>Clean\<close>, \<open>Join\<close> and \<open>Dir\<close>. A clean
  path is its list of components; the facts say when one path lies inside another.
\<close>

abbreviation slash :: char where
  "slash \<equiv> CHR ''/''"

definition dotdot :: string where
  "dotdot = ''..''"

text \<open>One component of \<open>Clean\<close>: the stack holds the components so far, the last one first.\<close>

definition clean_step :: "bool \<Rightarrow> string \<Rightarrow> string list \<Rightarrow> string list" where
  "clean_step rooted c stack =
     (if c = [] \<or> c = ''.'' then stack
      else if c \<noteq> dotdot then c # stack
      else
        (case stack of
           [] \<Rightarrow> if rooted then [] else [c]
         | t # rest \<Rightarrow> if t = dotdot then c # stack else rest))"

definition is_rooted :: "string \<Rightarrow> bool" where
  "is_rooted s \<longleftrightarrow> s \<noteq> [] \<and> hd s = slash"

definition components :: "string \<Rightarrow> string list" where
  "components s = rev (fold (clean_step (is_rooted s)) (split_all slash s) [])"

definition path_clean :: "string \<Rightarrow> string" where
  "path_clean s =
     (if is_rooted s then slash # join_with slash (components s)
      else if components s = [] then ''.'' else join_with slash (components s))"

definition path_join :: "string \<Rightarrow> string \<Rightarrow> string" where
  "path_join a b =
     (if a = [] \<and> b = [] then []
      else if a = [] then path_clean b
      else if b = [] then path_clean a
      else path_clean (a @ slash # b))"

text \<open>\<open>Dir\<close>: everything up to the last separator, cleaned.\<close>

definition path_dir :: "string \<Rightarrow> string" where
  "path_dir s = path_clean (rev (dropWhile (\<lambda>c. c \<noteq> slash) (rev s)))"

section \<open>Clean components\<close>

definition plain :: "string \<Rightarrow> bool" where
  "plain c \<longleftrightarrow> c \<noteq> [] \<and> c \<noteq> ''.'' \<and> c \<noteq> dotdot \<and> slash \<notin> set c"

lemma split_all_no_sep: "c \<in> set (split_all sep s) \<Longrightarrow> sep \<notin> set c"
proof (induction s arbitrary: c)
  case (Cons x s)
  then show ?case by (cases "split_all sep s") (auto split: if_splits)
qed auto

lemma clean_step_plain:
  "slash \<notin> set c \<Longrightarrow> \<forall>d \<in> set stack. plain d \<Longrightarrow> \<forall>d \<in> set (clean_step True c stack). plain d"
  by (cases stack) (simp_all add: clean_step_def plain_def)

lemma fold_clean_plain:
  "\<forall>c \<in> set cs. slash \<notin> set c \<Longrightarrow> \<forall>d \<in> set stack. plain d \<Longrightarrow>
   \<forall>d \<in> set (fold (clean_step True) cs stack). plain d"
proof (induction cs arbitrary: stack)
  case (Cons c cs)
  have "\<forall>d \<in> set (clean_step True c stack). plain d"
    by (rule clean_step_plain) (use Cons.prems in simp_all)
  moreover have "\<forall>c \<in> set cs. slash \<notin> set c" using Cons.prems(1) by simp
  ultimately show ?case using Cons.IH by simp
qed simp

text \<open>A rooted path has no dot-dot left.\<close>

lemma components_plain: "is_rooted s \<Longrightarrow> c \<in> set (components s) \<Longrightarrow> plain c"
  using fold_clean_plain [of "split_all slash s" "[]"] split_all_no_sep [of _ slash s]
  by (auto simp: components_def)

lemma plain_no_slash: "plain c \<Longrightarrow> slash \<notin> set c"
  by (simp add: plain_def)

lemma fold_clean_of_plain:
  "\<forall>c \<in> set cs. plain c \<Longrightarrow> fold (clean_step r) cs stack = rev cs @ stack"
  by (induction cs arbitrary: stack) (simp_all add: clean_step_def plain_def)

lemma components_append_slash:
  "is_rooted a \<Longrightarrow> components (a @ slash # b) = rev (fold (clean_step True) (split_all slash b) (rev (components a)))"
  by (simp add: components_def split_all_join is_rooted_def)

lemma components_of_clean:
  assumes "is_rooted s" shows "components (path_clean s) = components s"
proof (cases "components s = []")
  case True
  with assms show ?thesis by (simp add: path_clean_def components_def is_rooted_def clean_step_def)
next
  case False
  have "split_all slash (path_clean s) = [] # components s"
    using assms False components_plain [OF assms] split_all_join_with [of "components s" slash]
    by (auto simp: path_clean_def plain_def)
  moreover have "is_rooted (path_clean s)" using assms by (simp add: path_clean_def is_rooted_def)
  ultimately show ?thesis using fold_clean_of_plain [of "components s" True "[]"] components_plain [OF assms]
    by (simp add: components_def [of "path_clean s"] clean_step_def)
qed

lemma path_clean_rooted: "is_rooted s \<Longrightarrow> path_clean s = slash # join_with slash (components s)"
  by (simp add: path_clean_def)

lemma is_rooted_clean [simp]: "is_rooted s \<Longrightarrow> is_rooted (path_clean s)"
  by (simp add: path_clean_def is_rooted_def)

lemma path_clean_idem: "is_rooted s \<Longrightarrow> path_clean (path_clean s) = path_clean s"
  by (metis path_clean_rooted components_of_clean is_rooted_clean)

text \<open>Prefixes of clean paths are prefixes of their components.\<close>

lemma path_prefix_iff:
  assumes "\<forall>c \<in> set ds. slash \<notin> set c" and "\<forall>c \<in> set ts. slash \<notin> set c" and "ds \<noteq> []" and "ts \<noteq> []"
  shows "prefix (join_with slash ds @ [slash]) (join_with slash ts) \<longleftrightarrow> (\<exists>rs. rs \<noteq> [] \<and> ts = ds @ rs)"
proof
  assume "prefix (join_with slash ds @ [slash]) (join_with slash ts)"
  then obtain r where r: "join_with slash ts = join_with slash ds @ slash # r" by (auto simp: prefix_def)
  have "split_all slash (join_with slash ts) = ts" using assms(2,4) by (simp add: split_all_join_with)
  with assms(1,3) have "ts = ds @ split_all slash r"
    unfolding r split_all_join by (simp add: split_all_join_with)
  then show "\<exists>rs. rs \<noteq> [] \<and> ts = ds @ rs" by auto
next
  assume "\<exists>rs. rs \<noteq> [] \<and> ts = ds @ rs"
  with assms(3) show "prefix (join_with slash ds @ [slash]) (join_with slash ts)"
    by (auto simp: join_with_append)
qed

text \<open>A clean absolute directory other than the root.\<close>

definition clean_dir :: "string \<Rightarrow> bool" where
  "clean_dir d \<longleftrightarrow> is_rooted d \<and> path_clean d = d \<and> components d \<noteq> []"

lemma clean_dir_text: "clean_dir d \<Longrightarrow> d = slash # join_with slash (components d)"
  unfolding clean_dir_def path_clean_def by metis

lemma path_join_plain:
  assumes "clean_dir d" and "plain n"
  shows "path_join d n = d @ slash # n" and "components (d @ slash # n) = components d @ [n]"
proof -
  from assms(1) have r: "is_rooted d" and ne: "d \<noteq> []" by (auto simp: clean_dir_def is_rooted_def)
  show c: "components (d @ slash # n) = components d @ [n]"
    using assms(2) by (simp add: components_append_slash [OF r] split_all_plain plain_def clean_step_def)
  have "is_rooted (d @ slash # n)" using r by (simp add: is_rooted_def)
  then have "path_clean (d @ slash # n) = slash # join_with slash (components d) @ slash # n"
    using assms(1) by (simp add: path_clean_def c join_with_append clean_dir_def)
  then show "path_join d n = d @ slash # n"
    using clean_dir_text [OF assms(1)] ne assms(2) by (simp add: path_join_def plain_def)
qed

lemma path_dir_plain:
  assumes "clean_dir d" and "plain n" shows "path_dir (d @ slash # n) = d"
proof -
  have "dropWhile (\<lambda>c. c \<noteq> slash) (rev (d @ slash # n)) = slash # rev d"
    using assms(2) by (auto simp: plain_def dropWhile_append dropWhile_eq_self_iff)
  moreover have "components (d @ [slash]) = components d"
    using assms(1) components_append_slash [of d "[]"] by (simp add: clean_dir_def clean_step_def)
  moreover have "is_rooted (d @ [slash])" "is_rooted d" using assms(1) by (auto simp: clean_dir_def is_rooted_def)
  ultimately show ?thesis using assms(1) by (simp add: path_dir_def path_clean_def clean_dir_def)
qed

end
