(* ===== verification/Go_Escape.thy ===== *)
theory Go_Escape
  imports Go_Url Go_Path
begin

text \<open>
  The way out of a client: \<open>url.QueryEscape\<close>, and the URLs that are put together from a host, a
  path and a query, which are read back on the server's side as they were written.
\<close>

section \<open>url.QueryEscape\<close>

definition unreserved :: "char \<Rightarrow> bool" where
  "unreserved c \<longleftrightarrow>
     c \<in> set ''abcdefghijklmnopqrstuvwxyzABCDEFGHIJKLMNOPQRSTUVWXYZ0123456789-_.~''"

definition upper_hex :: "nat \<Rightarrow> char" where
  "upper_hex d = char_of (if d < 10 then d + 48 else d + 55)"

definition escape_char :: "char \<Rightarrow> string" where
  "escape_char c =
     (if unreserved c then [c] else if c = CHR '' '' then ''+''
      else [CHR ''%'', upper_hex (of_char c div 16), upper_hex (of_char c mod 16)])"

definition query_escape :: "string \<Rightarrow> string" where
  "query_escape s = concat (map escape_char s)"

lemma not_unreserved [simp]:
  "\<not> unreserved (CHR ''%'')" "\<not> unreserved (CHR ''+'')" "\<not> unreserved (CHR ''='')"
  "\<not> unreserved (CHR '';'')" "\<not> unreserved (CHR ''&'')" "\<not> unreserved (CHR ''#'')"
  "\<not> unreserved (CHR ''?'')" "\<not> unreserved slash" "\<not> unreserved (CHR '':'')" "\<not> unreserved (CHR '' '')"
  by (simp_all add: unreserved_def)

lemma unreserved_no_control: "unreserved c \<Longrightarrow> \<not> is_control c"
proof -
  have "\<forall>c \<in> set ''abcdefghijklmnopqrstuvwxyzABCDEFGHIJKLMNOPQRSTUVWXYZ0123456789-_.~''. \<not> is_control c"
    by code_simp
  then show "unreserved c \<Longrightarrow> \<not> is_control c" unfolding unreserved_def by blast
qed

lemma hex_value_upper: "d < 16 \<Longrightarrow> hex_value (upper_hex d) = Some d"
  by (auto simp: upper_hex_def hex_value.simps Let_def)

lemma nibbles: "n < 256 \<Longrightarrow> n div 16 < (16::nat)" "n mod 16 < (16::nat)"
  by simp_all

lemma char_nibbles: "of_char c div 16 < (16::nat)" "of_char c mod 16 < (16::nat)"
  by (rule nibbles, simp) (rule nibbles)

lemma unescape_escape_char: "unescape UQuery (escape_char c @ s) = map_option ((#) c) (unescape UQuery s)"
proof -
  have "16 * (of_char c div 16) + of_char c mod 16 = (of_char c :: nat)" by simp
  moreover have "unreserved c \<Longrightarrow> c \<noteq> CHR ''%'' \<and> c \<noteq> CHR ''+''" by auto
  ultimately show ?thesis
    using char_nibbles [of c] by (auto simp: escape_char_def hex_value_upper)
qed

lemma query_escape_roundtrip: "unescape UQuery (query_escape s) = Some s"
  by (induction s) (simp_all add: query_escape_def unescape_escape_char)

text \<open>The characters an escaped text is made of.\<close>

definition target_char :: "char \<Rightarrow> bool" where
  "target_char c \<longleftrightarrow> unreserved c \<or> c \<in> {CHR ''%'', CHR ''+'', CHR ''='', slash}"

lemma upper_hex_unreserved: "d < 16 \<Longrightarrow> unreserved (upper_hex d)"
proof -
  assume "d < 16"
  then have "d \<in> set [0..<16]" by simp
  moreover have "\<forall>d \<in> set [0..<16]. unreserved (upper_hex d)" by code_simp
  ultimately show ?thesis by blast
qed

lemma escape_char_chars: "x \<in> set (escape_char c) \<Longrightarrow> unreserved x \<or> x \<in> {CHR ''%'', CHR ''+''}"
proof -
  assume x: "x \<in> set (escape_char c)"
  have "unreserved (upper_hex (of_char c div 16))" "unreserved (upper_hex (of_char c mod 16))"
    by (rule upper_hex_unreserved, rule char_nibbles)+
  with x show ?thesis by (auto simp: escape_char_def split: if_splits)
qed

lemma query_escape_chars: "x \<in> set (query_escape s) \<Longrightarrow> unreserved x \<or> x \<in> {CHR ''%'', CHR ''+''}"
  using escape_char_chars by (auto simp: query_escape_def)

lemma query_escape_no:
  "CHR ''&'' \<notin> set (query_escape s)" "CHR '';'' \<notin> set (query_escape s)" "CHR ''='' \<notin> set (query_escape s)"
  using query_escape_chars [of "CHR ''&''" s] query_escape_chars [of "CHR '';''" s]
    query_escape_chars [of "CHR ''=''" s]
  by auto

section \<open>Queries\<close>

text \<open>\<open>url.Values\<close>: the values of one key together, in order.\<close>

definition parse_query :: "string \<Rightarrow> url_values" where
  "parse_query q =
     (let ps = query_pairs q in map (\<lambda>k. (k, map snd (filter (\<lambda>p. fst p = k) ps))) (remdups (map fst ps)))"

lemma unescape_unreserved: "CHR ''%'' \<notin> set s \<Longrightarrow> CHR ''+'' \<notin> set s \<Longrightarrow> m \<noteq> UHost \<Longrightarrow> unescape m s = Some s"
  by (induction s) auto

lemma parse_one:
  assumes "k \<noteq> []" and "\<forall>c \<in> set k. unreserved c"
  shows "parse_query (k @ ''='' @ query_escape v) = [(k, [v])]"
proof -
  have k: "CHR ''%'' \<notin> set k" "CHR ''+'' \<notin> set k" "CHR ''='' \<notin> set k" "CHR '';'' \<notin> set k" "CHR ''&'' \<notin> set k"
    using assms(2) not_unreserved by blast+
  have "split_all (CHR ''&'') (k @ ''='' @ query_escape v) = [k @ ''='' @ query_escape v]"
    by (rule split_all_plain) (use k query_escape_no in auto)
  moreover have "query_pair (k @ ''='' @ query_escape v) = Some (k, v)"
    using k query_escape_no by (simp add: query_pair_def unescape_unreserved query_escape_roundtrip)
  ultimately show ?thesis by (simp add: parse_query_def query_pairs_def map_filter_simps)
qed

section \<open>URLs of a host, a path and a query\<close>

definition url_text :: "string \<Rightarrow> string \<Rightarrow> string \<Rightarrow> string" where
  "url_text host path q = ''http://'' @ host @ path @ (if q = [] then [] else CHR ''?'' # q)"

text \<open>An address that can be listened at.\<close>

definition plain_address :: "string \<Rightarrow> bool" where
  "plain_address a \<longleftrightarrow> valid_authority a \<and> (\<forall>c \<in> set a. unreserved c \<or> c = CHR '':'')"

definition url_char :: "char \<Rightarrow> bool" where
  "url_char c \<longleftrightarrow> target_char c \<or> c = CHR '':'' \<or> c = CHR ''?''"

lemma url_char_facts: "url_char c \<Longrightarrow> \<not> is_control c" "\<not> url_char (CHR ''#'')"
  using unreserved_no_control [of c] by (auto simp: url_char_def target_char_def is_control_def)

lemma url_scheme_chars: "\<forall>c \<in> set ''http://''. url_char c"
  by (simp add: url_char_def target_char_def unreserved_def)

lemma url_parse_text:
  assumes "plain_address host" and "is_rooted path" and "\<forall>c \<in> set path. unreserved c \<or> c = slash"
    and "\<forall>c \<in> set q. target_char c"
  shows "url_parse (url_text host path q) = Some q"
proof -
  let ?u = "url_text host path q"
  have h: "\<forall>c \<in> set host. unreserved c \<or> c = CHR '':''" and auth: "valid_authority host"
    using assms(1) by (simp_all add: plain_address_def)
  have "\<forall>c \<in> set host. url_char c" "\<forall>c \<in> set path. url_char c"
      "\<forall>c \<in> set (if q = [] then [] else CHR ''?'' # q). url_char c"
    using h assms(3,4) by (auto simp: url_char_def target_char_def)
  then have chars: "\<forall>c \<in> set ?u. url_char c"
    using url_scheme_chars unfolding url_text_def set_append by blast
  then have hash: "CHR ''#'' \<notin> set ?u" using url_char_facts(2) by blast
  have ctrl: "\<not> (\<exists>c \<in> set ?u. is_control c)" using chars url_char_facts(1) by blast
  obtain p where p: "path = slash # p" using assms(2) by (cases path) (auto simp: is_rooted_def)
  have noq: "CHR ''?'' \<notin> set (''//'' @ host @ path)"
    using h assms(3) by auto
  have host_slash: "slash \<notin> set host" using h by auto
  have tw: "takeWhile (\<lambda>c. c \<noteq> slash) (host @ path) = host"
    and dw: "dropWhile (\<lambda>c. c \<noteq> slash) (host @ path) = path"
    using host_slash p by (auto simp: takeWhile_append dropWhile_append takeWhile_eq_all_conv)
  have scheme: "get_scheme True [] ?u = Some (''http'', ''//'' @ host @ path @ (if q = [] then [] else CHR ''?'' # q))"
    by (simp add: url_text_def)
  have cut: "(case cut_at (CHR ''?'') (''//'' @ host @ path @ (if q = [] then [] else CHR ''?'' # q)) of
      None \<Rightarrow> (''//'' @ host @ path @ (if q = [] then [] else CHR ''?'' # q), []) | Some x \<Rightarrow> x) = (''//'' @ host @ path, q)"
    using noq cut_at_append [OF noq, of q] by auto
  have pathok: "unescape UPath path = Some path"
    by (rule unescape_unreserved) (use assms(3) in auto)
  have ne: "?u \<noteq> ''*''" by (simp add: url_text_def)
  show ?thesis
    unfolding url_parse_def cut_at_no_sep [OF hash] Let_def option.case prod.case scheme cut
    using ctrl ne auth tw dw pathok by simp
qed

section \<open>Paths of plain components\<close>

lemma path_clean_plain:
  assumes "cs \<noteq> []" and "\<forall>c \<in> set cs. plain c"
  shows "path_clean (slash # join_with slash cs) = slash # join_with slash cs"
proof -
  have ns: "\<forall>c \<in> set cs. slash \<notin> set c" using assms(2) by (simp add: plain_def)
  have "split_all slash (slash # join_with slash cs) = [] # cs"
    using split_all_join_with [OF assms(1) ns] by simp
  then have "components (slash # join_with slash cs) = cs"
    using fold_clean_of_plain [OF assms(2), of True "[]"]
    by (simp add: components_def is_rooted_def clean_step_def)
  then show ?thesis by (simp add: path_clean_def is_rooted_def)
qed

text \<open>A name that needs no escaping: what a cluster may be called.\<close>

definition plain_name :: "string \<Rightarrow> bool" where
  "plain_name n \<longleftrightarrow> n \<noteq> [] \<and> n \<noteq> ''.'' \<and> n \<noteq> ''..'' \<and> (\<forall>c \<in> set n. unreserved c)"

lemma plain_name_plain: "plain_name n \<Longrightarrow> plain n"
  by (auto simp: plain_name_def plain_def dotdot_def)

end
