(* ===== verification/Authenticator.thy ===== *)
theory Authenticator
  imports Sts Access_Entry Go_Escape
begin

text \<open>
  The authentication token webhook (\<open>internal/agent/authenticator.go\<close>): a bearer token is the
  base64 text of a presigned GetCallerIdentity URL; its access key leads to a principal, the
  principal's ARN to an access entry, and the entry to the Kubernetes user. The two stores
  are given by their lookup methods over one world. Of a TokenReview the kind, API version
  and spec are kept; its object metadata is not.
\<close>

definition eksSchemePrefix :: string where
  "eksSchemePrefix = ''k8s-aws-v1.''"

definition accessKeyIDFromToken :: "string \<Rightarrow> go_error + string" where
  "accessKeyIDFromToken token =
     (case cut_prefix eksSchemePrefix token of
        None \<Rightarrow> Inl (Errorf ''token does not carry the %q prefix'' [eksSchemePrefix])
      | Some encoded \<Rightarrow>
          (case base64_decode encoded of
             None \<Rightarrow> Inl (Wrapf ''decode token: %w'' [] (Errorf ''illegal base64 data'' []))
           | Some rawURL \<Rightarrow>
               (case url_parse rawURL of
                  None \<Rightarrow> Inl (Wrapf ''parse presigned url: %w'' [] (Errorf ''parse'' []))
                | Some rawQuery \<Rightarrow>
                    (case accessKeyIDFromCredentialScope (query_get rawQuery ''X-Amz-Credential'') of
                       None \<Rightarrow> Inl (Errorf ''presigned url carries no X-Amz-Credential parameter'' [])
                     | Some accessKeyID \<Rightarrow> Inr accessKeyID))))"

record user_info =
  ui_username :: string
  ui_uid :: string
  ui_groups :: "string list"

record review_status =
  rs_authenticated :: bool
  rs_user :: user_info

definition zero_user :: user_info where
  "zero_user = \<lparr>ui_username = [], ui_uid = [], ui_groups = []\<rparr>"

record token_review =
  tr_kind :: string
  tr_api_version :: string
  tr_token :: string
  tr_audiences :: "string list"
  tr_status :: review_status

definition authenticate ::
  "(string \<Rightarrow> 'w \<Rightarrow> (go_error + principal) \<times> 'w) \<Rightarrow> (string \<Rightarrow> 'w \<Rightarrow> (go_error + access_entry) \<times> 'w)
   \<Rightarrow> sha256 \<Rightarrow> string \<Rightarrow> 'w \<Rightarrow> (go_error + review_status) \<times> 'w" where
  "authenticate get_key get_entry sha token w =
     (case accessKeyIDFromToken token of
        Inl e \<Rightarrow> (Inl e, w)
      | Inr accessKeyID \<Rightarrow>
          (case get_key accessKeyID w of
             (Inl e, w1) \<Rightarrow> (Inl (Wrapf ''resolve principal: %w'' [] e), w1)
           | (Inr p, w1) \<Rightarrow>
               (case get_entry (p_arn p) w1 of
                  (Inl e, w2) \<Rightarrow> (Inl (Wrapf ''resolve access entry: %w'' [] e), w2)
                | (Inr entry, w2) \<Rightarrow>
                    (Inr \<lparr>rs_authenticated = True,
                          rs_user = \<lparr>ui_username = EffectiveUsername entry,
                                     ui_uid = ae_principal_arn entry,
                                     ui_groups = EffectiveGroups sha entry\<rparr>\<rparr>, w2))))"

definition decode_review :: "blob \<Rightarrow> token_review option" where
  "decode_review b =
     (case b of
        Malformed \<Rightarrow> None
      | Doc j \<Rightarrow>
          (case struct_members j of
             None \<Rightarrow> None
           | Some kvs \<Rightarrow>
               (case nested_members ''spec'' kvs of
                  None \<Rightarrow> None
                | Some spec \<Rightarrow>
                    (case (str_field ''kind'' kvs, str_field ''apiVersion'' kvs,
                           str_field ''token'' spec, list_field str_element ''audiences'' spec) of
                       (Some kind, Some version, Some token, Some audiences) \<Rightarrow>
                         Some \<lparr>tr_kind = kind, tr_api_version = version, tr_token = token,
                               tr_audiences = audiences,
                               tr_status = \<lparr>rs_authenticated = False, rs_user = zero_user\<rparr>\<rparr>
                     | _ \<Rightarrow> None))))"

definition review_json :: "token_review \<Rightarrow> json" where
  "review_json rv =
     JObj
       (str_member_omitempty ''kind'' (tr_kind rv) @
        str_member_omitempty ''apiVersion'' (tr_api_version rv) @
        [(''spec'',
          JObj (str_member_omitempty ''token'' (tr_token rv) @
                list_member_omitempty ''audiences'' JStr (tr_audiences rv))),
         (''status'',
          JObj ((if rs_authenticated (tr_status rv) then [(''authenticated'', JBool True)] else []) @
                [(''user'',
                  JObj (str_member_omitempty ''username'' (ui_username (rs_user (tr_status rv))) @
                        str_member_omitempty ''uid'' (ui_uid (rs_user (tr_status rv))) @
                        list_member_omitempty ''groups'' JStr (ui_groups (rs_user (tr_status rv)))))]))])"

definition handleTokenReview ::
  "(string \<Rightarrow> 'w \<Rightarrow> (go_error + principal) \<times> 'w) \<Rightarrow> (string \<Rightarrow> 'w \<Rightarrow> (go_error + access_entry) \<times> 'w)
   \<Rightarrow> sha256 \<Rightarrow> http_request \<Rightarrow> 'w \<Rightarrow> http_response \<times> 'w" where
  "handleTokenReview get_key get_entry sha r w =
     (case decode_review (req_body r) of
        None \<Rightarrow> (http_plain_error (Msg ''failed to decode token review'') 400, w)
      | Some review \<Rightarrow>
          (let (st, w1) = authenticate get_key get_entry sha (tr_token review) w;
               status = (case st of
                           Inl _ \<Rightarrow> \<lparr>rs_authenticated = False, rs_user = zero_user\<rparr>
                         | Inr status \<Rightarrow> status)
           in (write_json_response (review_json (review\<lparr>tr_status := status\<rparr>)), w1)))"

section \<open>Tokens of presigned URLs\<close>

text \<open>
  The shape of the tokens the webhook is meant for: the scheme prefix, and in base64 without
  padding a URL of some endpoint with its parameters escaped in the query, in any order. Which
  URLs the AWS CLI makes is not decided here.
\<close>

definition bearer_token :: "string \<Rightarrow> string" where
  "bearer_token url = eksSchemePrefix @ base64_encode url"

definition query_text :: "(string \<times> string) list \<Rightarrow> string" where
  "query_text params = join_with (CHR ''&'') (map (\<lambda>(k, v). query_escape k @ ''='' @ query_escape v) params)"

definition presigned_url :: "string \<Rightarrow> (string \<times> string) list \<Rightarrow> string" where
  "presigned_url endpoint params = endpoint @ ''/?'' @ query_text params"

definition http_endpoint :: "string \<Rightarrow> bool" where
  "http_endpoint endpoint \<longleftrightarrow>
     (\<exists>host. (endpoint = ''http://'' @ host \<or> endpoint = ''https://'' @ host) \<and> plain_address host)"

lemma query_pair_text: "query_pair (query_escape k @ ''='' @ query_escape v) = Some (k, v)"
  using query_escape_no by (simp add: query_pair_def query_escape_roundtrip)

lemma query_pairs_text: "query_pairs (query_text params) = params"
proof (cases "params = []")
  case True
  then show ?thesis by (simp add: query_text_def query_pairs_def query_pair_def map_filter_simps)
next
  case False
  let ?kvs = "map (\<lambda>(k, v). query_escape k @ ''='' @ query_escape v) params"
  have "\<forall>kv \<in> set ?kvs. CHR ''&'' \<notin> set kv" using query_escape_no by auto
  with False have "split_all (CHR ''&'') (query_text params) = ?kvs"
    unfolding query_text_def by (intro split_all_join_with) simp_all
  moreover have "List.map_filter query_pair (map (\<lambda>(k, v). query_escape k @ ''='' @ query_escape v) ps) = ps" for ps
    by (induction ps) (auto simp: map_filter_simps query_pair_text [simplified])
  ultimately show ?thesis by (simp add: query_pairs_def)
qed

lemma query_text_chars:
  assumes "c \<in> set (query_text params)"
  shows "unreserved c \<or> c \<in> {CHR ''%'', CHR ''+'', CHR ''='', CHR ''&''}"
proof -
  have "c \<in> set (join_with (CHR ''&'') xs) \<Longrightarrow> c = CHR ''&'' \<or> (\<exists>x \<in> set xs. c \<in> set x)" for xs
    by (induction xs rule: induct_list012) auto
  with assms show ?thesis using query_escape_chars by (fastforce simp: query_text_def)
qed

lemma url_parse_endpoint:
  assumes "scheme \<in> {''http'', ''https''}" and "plain_address host"
    and "\<forall>c \<in> set q. c \<noteq> CHR ''#'' \<and> \<not> is_control c"
  shows "url_parse (scheme @ ''://'' @ host @ ''/?'' @ q) = Some q"
proof -
  let ?u = "scheme @ ''://'' @ host @ ''/?'' @ q"
  have h: "\<forall>c \<in> set host. unreserved c \<or> c = CHR '':''" and auth: "valid_authority host"
    using assms(2) by (simp_all add: plain_address_def)
  then have host: "CHR ''#'' \<notin> set host" "CHR ''?'' \<notin> set host" "slash \<notin> set host" by auto
  have "\<not> is_control (CHR '':'')" by (simp add: is_control_def)
  with h host(1) have hostc: "\<forall>c \<in> set host. c \<noteq> CHR ''#'' \<and> \<not> is_control c"
    using unreserved_no_control by metis
  have lits: "\<forall>c \<in> set ''://''. c \<noteq> CHR ''#'' \<and> \<not> is_control c" "\<forall>c \<in> set ''/?''. c \<noteq> CHR ''#'' \<and> \<not> is_control c"
    "\<forall>c \<in> set ''http''. c \<noteq> CHR ''#'' \<and> \<not> is_control c" "\<forall>c \<in> set ''https''. c \<noteq> CHR ''#'' \<and> \<not> is_control c"
    by code_simp+
  with assms(1) have schemec: "\<forall>c \<in> set scheme. c \<noteq> CHR ''#'' \<and> \<not> is_control c" by (elim insertE emptyE) (simp_all only:)
  have "\<forall>c \<in> set ?u. c \<noteq> CHR ''#'' \<and> \<not> is_control c"
    unfolding set_append ball_Un by (intro conjI schemec lits(1,2) hostc assms(3))
  then have ctrl: "\<not> (\<exists>c \<in> set ?u. is_control c)" and hash: "CHR ''#'' \<notin> set ?u" by blast+
  have scheme: "get_scheme True [] ?u = Some (scheme, ''//'' @ host @ ''/?'' @ q)" using assms(1) by auto
  have noq: "CHR ''?'' \<notin> set (''//'' @ host @ ''/'')" using host by auto
  have cut: "(case cut_at (CHR ''?'') (''//'' @ host @ ''/?'' @ q) of
      None \<Rightarrow> (''//'' @ host @ ''/?'' @ q, []) | Some x \<Rightarrow> x) = (''//'' @ host @ ''/'', q)"
    using cut_at_append [OF noq, of q] by simp
  have tw: "takeWhile (\<lambda>c. c \<noteq> slash) (host @ ''/'') = host"
    and dw: "dropWhile (\<lambda>c. c \<noteq> slash) (host @ ''/'') = ''/''"
    using host by (auto simp: takeWhile_append dropWhile_append takeWhile_eq_all_conv)
  have ne: "?u \<noteq> ''*''" "scheme \<noteq> []" using assms(1) by auto
  show ?thesis
    unfolding url_parse_def cut_at_no_sep [OF hash] Let_def option.case prod.case scheme cut
    using ctrl ne auth tw dw by simp
qed

lemma token_access_key:
  assumes "http_endpoint endpoint" and "map_of params ''X-Amz-Credential'' = Some (key @ slash # scope)"
    and "key \<noteq> []" and "slash \<notin> set key"
  shows "accessKeyIDFromToken (bearer_token (presigned_url endpoint params)) = Inr key"
proof -
  from assms(1) obtain scheme host where "endpoint = scheme @ ''://'' @ host" "scheme \<in> {''http'', ''https''}"
    "plain_address host" unfolding http_endpoint_def by (metis append.simps insertI1 insertI2)
  moreover have "\<forall>c \<in> set (query_text params). c \<noteq> CHR ''#'' \<and> \<not> is_control c"
    using query_text_chars unreserved_no_control not_unreserved by (fastforce simp: is_control_def)
  ultimately have "url_parse (presigned_url endpoint params) = Some (query_text params)"
    using url_parse_endpoint by (simp add: presigned_url_def)
  moreover have "query_get (query_text params) ''X-Amz-Credential'' = key @ slash # scope"
    using assms(2) by (simp add: query_get_def query_pairs_text)
  ultimately show ?thesis
    using credential_scope_key [OF assms(4,3), of scope]
    by (simp add: accessKeyIDFromToken_def bearer_token_def base64_roundtrip)
qed

text \<open>The parameters of a presigned \<open>GetCallerIdentity\<close> request.\<close>

definition demo_params :: "string \<Rightarrow> (string \<times> string) list" where
  "demo_params key =
     [(''Action'', ''GetCallerIdentity''), (''Version'', ''2011-06-15''), (''X-Amz-Algorithm'', ''AWS4-HMAC-SHA256''),
      (''X-Amz-Credential'', key @ ''/20260101/us-east-1/sts/aws4_request''),
      (''X-Amz-Date'', ''20260101T000000Z''), (''X-Amz-Expires'', ''60''), (''X-Amz-SignedHeaders'', ''host;x-k8s-aws-id''),
      (''X-Amz-Signature'', ''deadbeef'')]"

lemma demo_params_credential:
  "map_of (demo_params key) ''X-Amz-Credential'' = Some (key @ slash # ''20260101/us-east-1/sts/aws4_request'')"
  by (simp add: demo_params_def)

lemma demo_endpoint: "http_endpoint ''https://sts.amazonaws.com''"
proof -
  have "plain_address ''sts.amazonaws.com''" by code_simp
  then show ?thesis unfolding http_endpoint_def by (intro exI [of _ "''sts.amazonaws.com''"]) simp
qed

section \<open>Properties\<close>

text \<open>
  The access key survives the way into a bearer token and out again: the base64 text of a URL
  whose query has a credential scope that starts with the key resolves to that key, whatever the
  endpoint, the rest of the scope, the other parameters and their order are.
\<close>

theorem bearer_token_roundtrip:
  assumes "http_endpoint endpoint" and "map_of params ''X-Amz-Credential'' = Some (key @ slash # scope)"
    and "key \<noteq> []" and "slash \<notin> set key"
  shows "accessKeyIDFromToken (bearer_token (presigned_url endpoint params)) = Inr key"
  by (rule token_access_key [OF assms])

theorem bearer_token_roundtrip_witness:
  "accessKeyIDFromToken (bearer_token (presigned_url ''https://sts.amazonaws.com'' (demo_params ''AKIA1''))) =
   Inr ''AKIA1''"
  by (rule bearer_token_roundtrip [OF demo_endpoint demo_params_credential]) simp_all

text \<open>
  C14: a token authenticates exactly if its access key is a registered principal and that
  principal's ARN has an access entry, and then as the entry's user: a principal without an
  access entry, or any malformed token, is answered 200 with an unauthenticated status, so
  the API server goes on to its next authenticator.
\<close>

theorem token_review_authenticates:
  assumes "decode_review (req_body r) = Some rv"
    and "\<And>k. get_key k w = (gk k, w)" and "\<And>a. get_entry a w = (ge a, w)"
  shows "\<exists>st. handleTokenReview get_key get_entry sha r w =
      (write_json_response (review_json (rv\<lparr>tr_status := st\<rparr>)), w) \<and>
    (\<forall>u. st = \<lparr>rs_authenticated = True, rs_user = u\<rparr> \<longleftrightarrow>
       (\<exists>key p e. accessKeyIDFromToken (tr_token rv) = Inr key \<and> gk key = Inr p \<and>
          ge (p_arn p) = Inr e \<and>
          u = \<lparr>ui_username = EffectiveUsername e, ui_uid = ae_principal_arn e,
               ui_groups = EffectiveGroups sha e\<rparr>))"
proof -
  obtain x where x: "authenticate get_key get_entry sha (tr_token rv) w = (x, w)"
    and inr: "\<And>st. x = Inr st \<longleftrightarrow> (\<exists>key p e. accessKeyIDFromToken (tr_token rv) = Inr key \<and> gk key = Inr p \<and>
      ge (p_arn p) = Inr e \<and> st = \<lparr>rs_authenticated = True,
        rs_user = \<lparr>ui_username = EffectiveUsername e, ui_uid = ae_principal_arn e,
                   ui_groups = EffectiveGroups sha e\<rparr>\<rparr>)"
    using assms(2,3)
    by (cases "accessKeyIDFromToken (tr_token rv)"; cases "gk (projr (accessKeyIDFromToken (tr_token rv)))";
        cases "ge (p_arn (projr (gk (projr (accessKeyIDFromToken (tr_token rv))))))")
      (auto simp: authenticate_def)
  define st where "st = (case x of Inl _ \<Rightarrow> \<lparr>rs_authenticated = False, rs_user = zero_user\<rparr> | Inr s \<Rightarrow> s)"
  have "handleTokenReview get_key get_entry sha r w =
      (write_json_response (review_json (rv\<lparr>tr_status := st\<rparr>)), w)"
    by (simp add: handleTokenReview_def assms(1) x st_def)
  moreover have "st = \<lparr>rs_authenticated = True, rs_user = u\<rparr> \<longleftrightarrow> x = Inr \<lparr>rs_authenticated = True, rs_user = u\<rparr>" for u
    by (cases x) (auto simp: st_def)
  ultimately show ?thesis using inr by auto
qed

definition demo_review :: http_request where
  "demo_review =
     \<lparr>req_path_values = [], req_query = [], req_form = None, req_header = [],
      req_body = Doc (JObj [(''spec'', JObj [(''token'',
        JStr (bearer_token (presigned_url ''https://sts.amazonaws.com'' (demo_params ''AKIA1''))))])])\<rparr>"

theorem token_review_authenticates_witness:
  "\<exists>rv. decode_review (req_body demo_review) = Some rv \<and>
     fst (handleTokenReview (\<lambda>k w. (fst (mem_get_by_access_key_id k [(''AKIA1'', alice)]), w))
       (\<lambda>a w. (fst (mem_entry_get a [(PrincipalARN ''alice'', demo_entry)]), w)) pad_sha demo_review ()) =
     write_json_response (review_json (rv\<lparr>tr_status :=
       \<lparr>rs_authenticated = True,
        rs_user = \<lparr>ui_username = ''dev'', ui_uid = RoleARN ''dev'',
                   ui_groups = EffectiveGroups pad_sha demo_entry\<rparr>\<rparr>\<rparr>))"
proof -
  let ?gk = "\<lambda>k. fst (mem_get_by_access_key_id k [(''AKIA1'', alice)])"
  let ?ge = "\<lambda>a. fst (mem_entry_get a [(PrincipalARN ''alice'', demo_entry)])"
  obtain rv where rv: "decode_review (req_body demo_review) = Some rv"
    and tok: "tr_token rv = bearer_token (presigned_url ''https://sts.amazonaws.com'' (demo_params ''AKIA1''))"
    by (simp add: decode_review_def demo_review_def json_codec)
  have key: "accessKeyIDFromToken (tr_token rv) = Inr ''AKIA1''"
    unfolding tok by (rule token_access_key [OF demo_endpoint demo_params_credential]) simp_all
  have found: "?gk ''AKIA1'' = Inr alice" "?ge (p_arn alice) = Inr demo_entry"
    by (simp_all add: mem_get_by_access_key_id_def mem_entry_get_def mem_kv_get_def alice_def)
  from token_review_authenticates [where r = demo_review and w = "()" and gk = ?gk and ge = ?ge and
      get_key = "\<lambda>k w. (?gk k, w)" and get_entry = "\<lambda>a w. (?ge a, w)" and sha = pad_sha, OF rv]
  obtain st where st: "fst (handleTokenReview (\<lambda>k w. (?gk k, w)) (\<lambda>a w. (?ge a, w)) pad_sha demo_review ()) =
      write_json_response (review_json (rv\<lparr>tr_status := st\<rparr>))"
    and "\<And>u. st = \<lparr>rs_authenticated = True, rs_user = u\<rparr> \<longleftrightarrow>
      (\<exists>key p e. accessKeyIDFromToken (tr_token rv) = Inr key \<and> ?gk key = Inr p \<and> ?ge (p_arn p) = Inr e \<and>
        u = \<lparr>ui_username = EffectiveUsername e, ui_uid = ae_principal_arn e,
             ui_groups = EffectiveGroups pad_sha e\<rparr>)"
    by auto
  then have "st = \<lparr>rs_authenticated = True, rs_user = \<lparr>ui_username = EffectiveUsername demo_entry,
      ui_uid = ae_principal_arn demo_entry, ui_groups = EffectiveGroups pad_sha demo_entry\<rparr>\<rparr>"
    using key found by blast
  with st rv show ?thesis by (simp add: EffectiveUsername_def demo_entry_def)
qed

end
