(* ===== verification/Eks_Auth.thy ===== *)
theory Eks_Auth
  imports Sts Pod_Identity_Store
begin

text \<open>
  The EKS Auth endpoint (\<open>internal/agent/eksauth.go\<close>): a pod's ServiceAccount token is
  validated by a TokenReview, its (namespace, ServiceAccount) pair looked up among the Pod
  Identity associations, and temporary credentials for the association's role are issued and
  registered in the principal store, where the fake STS finds them. The API server's
  TokenReview and the two stores are parameters over one world; the associations and the
  principals are given by the store methods used.
\<close>

definition podIdentityAudience :: string where
  "podIdentityAudience = ''pods.eks.amazonaws.com''"

definition DefaultPodIdentityFullURI :: string where
  "DefaultPodIdentityFullURI = ''http://169.254.170.23/v1/credentials''"

definition serviceAccountUsernamePrefix :: string where
  "serviceAccountUsernamePrefix = ''system:serviceaccount:''"

definition podIdentitySessionNameBytes :: nat where
  "podIdentitySessionNameBytes = 8"

text \<open>What the code reads of the status of a TokenReview the API server returns.\<close>

record review_result =
  rr_authenticated :: bool
  rr_username :: string

record pod_credentials =
  pc_user_arn :: string
  pc_role_id :: string
  pc_audience :: string
  pc_access_key_id :: string
  pc_secret_access_key :: string
  pc_session_token :: string
  pc_expiration :: int
  pc_association_arn :: string
  pc_association_id :: string
  pc_namespace :: string
  pc_service_account :: string

definition pod_credentials_json :: "pod_credentials \<Rightarrow> json" where
  "pod_credentials_json c =
     JObj
       [(''assumedRoleUser'',
         JObj [(''arn'', JStr (pc_user_arn c)), (''assumeRoleId'', JStr (pc_role_id c))]),
        (''audience'', JStr (pc_audience c)),
        (''credentials'',
         JObj [(''accessKeyId'', JStr (pc_access_key_id c)),
               (''secretAccessKey'', JStr (pc_secret_access_key c)),
               (''sessionToken'', JStr (pc_session_token c)),
               (''expiration'', JNum (pc_expiration c))]),
        (''podIdentityAssociation'',
         JObj [(''associationArn'', JStr (pc_association_arn c)),
               (''associationId'', JStr (pc_association_id c))]),
        (''subject'',
         JObj [(''namespace'', JStr (pc_namespace c)),
               (''serviceAccount'', JStr (pc_service_account c))])]"

definition parseServiceAccountUsername :: "string \<Rightarrow> (string \<times> string) option" where
  "parseServiceAccountUsername username =
     (case cut_prefix serviceAccountUsernamePrefix username of
        None \<Rightarrow> None
      | Some rest \<Rightarrow>
          (case cut_at (CHR '':'') rest of
             None \<Rightarrow> None
           | Some (namespace, serviceAccount) \<Rightarrow>
               if namespace = [] \<or> serviceAccount = [] then None
               else Some (namespace, serviceAccount)))"

definition authenticatePodIdentityToken ::
  "(string \<Rightarrow> string list \<Rightarrow> 'w \<Rightarrow> (go_error + review_result) \<times> 'w) \<Rightarrow> string \<Rightarrow> 'w
   \<Rightarrow> (go_error + string \<times> string) \<times> 'w" where
  "authenticatePodIdentityToken review token w =
     (case review token [podIdentityAudience] w of
        (Inl e, w1) \<Rightarrow> (Inl (Wrapf ''create token review: %w'' [] e), w1)
      | (Inr result, w1) \<Rightarrow>
          if \<not> rr_authenticated result then (Inl (Errorf ''token is not authenticated'' []), w1)
          else
            (case parseServiceAccountUsername (rr_username result) of
               None \<Rightarrow>
                 (Inl (Errorf ''token does not belong to a service account: %q''
                    [rr_username result]), w1)
             | Some i \<Rightarrow> (Inr i, w1)))"

definition newPodIdentitySessionName :: "'r rand_source \<Rightarrow> string \<Rightarrow> 'r \<Rightarrow> (go_error + string) \<times> 'r" where
  "newPodIdentitySessionName rs serviceAccount r =
     (case randomHexString rs podIdentitySessionNameBytes r of
        (Inl e, r1) \<Rightarrow> (Inl (Wrapf ''generate pod identity session name: %w'' [] e), r1)
      | (Inr suff, r1) \<Rightarrow> (Inr (''eks-'' @ serviceAccount @ ''-'' @ suff), r1))"

definition issuePodIdentityCredentials ::
  "(principal \<Rightarrow> 'w \<Rightarrow> (go_error + unit) \<times> 'w) \<Rightarrow> 'r rand_source \<Rightarrow> instant \<Rightarrow> string \<Rightarrow> association
   \<Rightarrow> 'w \<times> 'r \<Rightarrow> (go_error + pod_credentials) \<times> 'w \<times> 'r" where
  "issuePodIdentityCredentials put rs now clusterName a s =
     (case newCredentials rs now (snd s) of
        (Inl e, r1) \<Rightarrow> (Inl (Wrapf ''generate pod identity credentials: %w'' [] e), fst s, r1)
      | (Inr credentials, r1) \<Rightarrow>
          (case newPodIdentitySessionName rs (as_service_account a) r1 of
             (Inl e, r2) \<Rightarrow> (Inl e, fst s, r2)
           | (Inr sessionName, r2) \<Rightarrow>
               (let roleUserARN = assumedRoleARN (as_role_arn a) sessionName in
                case newAssumedRoleID rs sessionName r2 of
                  (Inl e, r3) \<Rightarrow> (Inl e, fst s, r3)
                | (Inr assumedRoleID, r3) \<Rightarrow>
                    (case put \<lparr>p_access_key_id = cr_access_key_id credentials, p_arn = roleUserARN,
                               p_name = as_association_id a\<rparr> (fst s) of
                       (Inl e, w1) \<Rightarrow>
                         (Inl (Wrapf ''register pod identity credentials: %w'' [] e), w1, r3)
                     | (Inr _, w1) \<Rightarrow>
                         (case parse_rfc3339 (cr_expiration credentials) of
                            None \<Rightarrow>
                              (Inl (Wrapf ''parse credentials expiration: %w'' []
                                 (Errorf ''parsing time'' [])), w1, r3)
                          | Some expiration \<Rightarrow>
                              (Inr \<lparr>pc_user_arn = roleUserARN, pc_role_id = assumedRoleID,
                                    pc_audience = podIdentityAudience,
                                    pc_access_key_id = cr_access_key_id credentials,
                                    pc_secret_access_key = cr_secret_access_key credentials,
                                    pc_session_token = cr_session_token credentials,
                                    pc_expiration = expiration div 10 ^ 9,
                                    pc_association_arn =
                                      PodIdentityAssociationARN clusterName (as_association_id a),
                                    pc_association_id = as_association_id a,
                                    pc_namespace = as_namespace a,
                                    pc_service_account = as_service_account a\<rparr>, w1, r3))))))"

definition decode_token_body :: "blob \<Rightarrow> string option" where
  "decode_token_body b =
     (case b of
        Malformed \<Rightarrow> None
      | Doc j \<Rightarrow> (case struct_members j of None \<Rightarrow> None | Some kvs \<Rightarrow> str_field ''token'' kvs))"

definition handleAssumeRoleForPodIdentity ::
  "(string \<Rightarrow> string list \<Rightarrow> 'w \<Rightarrow> (go_error + review_result) \<times> 'w)
   \<Rightarrow> (string \<times> string \<Rightarrow> 'w \<Rightarrow> (go_error + association) \<times> 'w)
   \<Rightarrow> (principal \<Rightarrow> 'w \<Rightarrow> (go_error + unit) \<times> 'w) \<Rightarrow> 'r rand_source \<Rightarrow> instant \<Rightarrow> http_request
   \<Rightarrow> 'w \<times> 'r \<Rightarrow> http_response \<times> 'w \<times> 'r" where
  "handleAssumeRoleForPodIdentity review get_by_sa put rs now r s =
     (case decode_token_body (req_body r) of
        None \<Rightarrow>
          (write_eks_auth_error 400 ''InvalidRequestException'' (Msg ''failed to parse request body''), s)
      | Some token \<Rightarrow>
          if token = [] then
            (write_eks_auth_error 400 ''InvalidParameterException'' (Msg ''token is required''), s)
          else
            (case authenticatePodIdentityToken review token (fst s) of
               (Inl e, w1) \<Rightarrow>
                 (write_eks_auth_error 401 ''InvalidTokenException'' (MsgErr [] e), w1, snd s)
             | (Inr (ns, sa), w1) \<Rightarrow>
                 (case get_by_sa (ns, sa) w1 of
                    (Inl e, w2) \<Rightarrow>
                      if errors_is e ErrPodIdentityAssociationNotFound then
                        (write_eks_auth_error 404 ''ResourceNotFoundException''
                           (MsgFmt ''no pod identity association for %s/%s'' [ns, sa]), w2, snd s)
                      else
                        (write_eks_auth_error 500 ''InternalServerException'' (MsgErr [] e), w2, snd s)
                  | (Inr a, w2) \<Rightarrow>
                      (case issuePodIdentityCredentials put rs now (path_value r ''name'') a (w2, snd s) of
                         (Inl e, s3) \<Rightarrow>
                           (write_eks_auth_error 500 ''InternalServerException'' (MsgErr [] e), s3)
                       | (Inr response, s3) \<Rightarrow>
                           (write_json_response (pod_credentials_json response), s3)))))"

section \<open>Facts\<close>

lemma parse_username_Some_iff:
  "parseServiceAccountUsername u = Some (ns, sa) \<longleftrightarrow>
   u = ''system:serviceaccount:'' @ ns @ '':'' @ sa \<and> CHR '':'' \<notin> set ns \<and> ns \<noteq> [] \<and> sa \<noteq> []"
proof
  assume h: "parseServiceAccountUsername u = Some (ns, sa)"
  then obtain rest where "cut_prefix serviceAccountUsernamePrefix u = Some rest"
    and "cut_at (CHR '':'') rest = Some (ns, sa)" and "ns \<noteq> []" "sa \<noteq> []"
    by (auto simp: parseServiceAccountUsername_def split: option.splits if_splits)
  then show "u = ''system:serviceaccount:'' @ ns @ '':'' @ sa \<and> CHR '':'' \<notin> set ns \<and> ns \<noteq> [] \<and> sa \<noteq> []"
    unfolding cut_prefix_Some_iff cut_at_Some_iff serviceAccountUsernamePrefix_def by simp
next
  assume "u = ''system:serviceaccount:'' @ ns @ '':'' @ sa \<and> CHR '':'' \<notin> set ns \<and> ns \<noteq> [] \<and> sa \<noteq> []"
  then have u: "u = serviceAccountUsernamePrefix @ ns @ CHR '':'' # sa" and "CHR '':'' \<notin> set ns"
    "ns \<noteq> []" "sa \<noteq> []"
    by (simp_all add: serviceAccountUsernamePrefix_def)
  then show "parseServiceAccountUsername u = Some (ns, sa)"
    by (simp add: parseServiceAccountUsername_def)
qed

text \<open>Everything but the store succeeds; what is issued and what is registered match.\<close>

lemma issue_success:
  assumes "rand_total rs" and "(now + sessionCredentialsTTL) div second < max_seconds"
    and "\<And>p. \<exists>w'. put p w = (Inr (), w')"
  shows "\<exists>c sn r1 w1. issuePodIdentityCredentials put rs now cl a (w, r) = (Inr c, w1, r1) \<and>
    put \<lparr>p_access_key_id = pc_access_key_id c, p_arn = assumedRoleARN (as_role_arn a) sn,
         p_name = as_association_id a\<rparr> w = (Inr (), w1) \<and>
    prefix (''eks-'' @ as_service_account a @ ''-'') sn \<and>
    pc_user_arn c = assumedRoleARN (as_role_arn a) sn \<and>
    pc_expiration c = int ((now + sessionCredentialsTTL) div second) \<and>
    pc_association_id c = as_association_id a"
proof -
  obtain c r1 where c: "newCredentials rs now r = (Inr c, r1)"
    using newCredentials_total [OF assms(1)] by blast
  obtain h r2 where h: "randomHexString rs podIdentitySessionNameBytes r1 = (Inr h, r2)"
    using randomHexString_total [OF assms(1)] by blast
  let ?sn = "''eks-'' @ as_service_account a @ ''-'' @ h"
  have sn: "newPodIdentitySessionName rs (as_service_account a) r1 = (Inr ?sn, r2)"
    using h by (simp add: newPodIdentitySessionName_def)
  obtain rid r3 where rid: "newAssumedRoleID rs ?sn r2 = (Inr rid, r3)"
    using newAssumedRoleID_total [OF assms(1)] by blast
  let ?p = "\<lparr>p_access_key_id = cr_access_key_id c, p_arn = assumedRoleARN (as_role_arn a) ?sn,
    p_name = as_association_id a\<rparr>"
  obtain w1 where put: "put ?p w = (Inr (), w1)" using assms(3) by blast
  have exp: "parse_rfc3339 (cr_expiration c) = Some (int ((now + sessionCredentialsTTL) div second) * 10 ^ 9)"
    using newCredentials_fields [OF c] parse_format_rfc3339 [OF assms(2)] by simp
  have pre: "prefix (''eks-'' @ as_service_account a @ ''-'') ?sn" by simp
  have "issuePodIdentityCredentials put rs now cl a (w, r) =
    (Inr \<lparr>pc_user_arn = assumedRoleARN (as_role_arn a) ?sn, pc_role_id = rid,
          pc_audience = podIdentityAudience, pc_access_key_id = cr_access_key_id c,
          pc_secret_access_key = cr_secret_access_key c, pc_session_token = cr_session_token c,
          pc_expiration = int ((now + sessionCredentialsTTL) div second),
          pc_association_arn = PodIdentityAssociationARN cl (as_association_id a),
          pc_association_id = as_association_id a, pc_namespace = as_namespace a,
          pc_service_account = as_service_account a\<rparr>, w1, r3)"
    using c sn rid put exp by (simp add: issuePodIdentityCredentials_def Let_def)
  with put pre show ?thesis by (intro exI [of _ ?sn] exI conjI) (assumption | simp)+
qed

text \<open>How the fake STS sees a registered access key.\<close>

context principal_store
begin

lemma sts_identity_of_key:
  "ok w \<Longrightarrow> resolveAccessKeyID form header = Some k \<Longrightarrow> map_of ss k = None \<Longrightarrow>
   fst (callerIdentity get_key form header \<lparr>st_store = w, st_sessions = ss, st_rng = g\<rparr>) =
   (case reg w k of
      None \<Rightarrow> Inr defaultCallerIdentity
    | Some p \<Rightarrow> Inr \<lparr>cl_arn = p_arn p, cl_user_id = ''AIDA'' @ p_access_key_id p, cl_account = AccountID\<rparr>)"
  by (simp add: callerIdentity_def sessions_get_def key_law split: option.splits)

end

section \<open>Properties\<close>

text \<open>
  Exactly the usernames of ServiceAccounts parse, and they give back the namespace and
  the name they were built from.
\<close>

theorem service_account_username_roundtrip:
  "parseServiceAccountUsername u = Some (ns, sa) \<longleftrightarrow>
   u = ''system:serviceaccount:'' @ ns @ '':'' @ sa \<and> CHR '':'' \<notin> set ns \<and> ns \<noteq> [] \<and> sa \<noteq> []"
  by (rule parse_username_Some_iff)

text \<open>
  C3: the credentials a pod receives are registered so that the fake STS identifies their
  holder as a session of the association's role, named after the ServiceAccount, with
  whichever store keeps the contract; the response announces that identity and an expiry
  one hour after the issue.
\<close>

theorem pod_credentials_identify_role:
  assumes "principal_store put gk gn ls del reg ok" and "ok w" and "rand_total rs"
    and "(now + sessionCredentialsTTL) div second < max_seconds"
    and "issuePodIdentityCredentials put rs now cl a (w, r) = (x, w1, r1)"
    and "\<And>c. x = Inr c \<Longrightarrow> resolveAccessKeyID form header = Some (pc_access_key_id c)"
    and "\<And>k. resolveAccessKeyID form header = Some k \<Longrightarrow> map_of ss k = None"
  shows "\<exists>c sn. x = Inr c \<and> prefix (''eks-'' @ as_service_account a @ ''-'') sn \<and>
    pc_user_arn c = assumedRoleARN (as_role_arn a) sn \<and>
    pc_expiration c = int ((now + sessionCredentialsTTL) div second) \<and>
    fst (callerIdentity gk form header \<lparr>st_store = w1, st_sessions = ss, st_rng = g\<rparr>) =
      Inr \<lparr>cl_arn = pc_user_arn c, cl_user_id = ''AIDA'' @ pc_access_key_id c, cl_account = AccountID\<rparr>"
proof -
  have put: "\<exists>w'. put p w = (Inr (), w')" for p
    using principal_store.put_law [OF assms(1,2), of p] by blast
  from issue_success [where put = put and w = w, OF assms(3,4) put, of cl a r] obtain c sn r1' w1' where
    run: "issuePodIdentityCredentials put rs now cl a (w, r) = (Inr c, w1', r1')"
    and reg: "put \<lparr>p_access_key_id = pc_access_key_id c, p_arn = assumedRoleARN (as_role_arn a) sn,
      p_name = as_association_id a\<rparr> w = (Inr (), w1')" (is "put ?p w = _")
    and facts: "prefix (''eks-'' @ as_service_account a @ ''-'') sn"
      "pc_user_arn c = assumedRoleARN (as_role_arn a) sn"
      "pc_expiration c = int ((now + sessionCredentialsTTL) div second)" by blast
  from run assms(5) have x: "x = Inr c" "w1' = w1" by simp_all
  have "ok w1" "reg w1 = reg_put ?p (reg w)"
    using principal_store.put_law [OF assms(1,2), of ?p] reg x by auto
  moreover note key = assms(6) [OF x(1)]
  ultimately have "fst (callerIdentity gk form header \<lparr>st_store = w1, st_sessions = ss, st_rng = g\<rparr>) =
      Inr \<lparr>cl_arn = p_arn ?p, cl_user_id = ''AIDA'' @ p_access_key_id ?p, cl_account = AccountID\<rparr>"
    using principal_store.sts_identity_of_key [OF assms(1) _ key assms(7) [OF key], of w1 g]
    by (simp add: reg_put_def)
  with x facts show ?thesis by auto
qed

definition signed_header :: "string \<Rightarrow> url_values" where
  "signed_header key =
     [(''Authorization'', [''AWS4-HMAC-SHA256 Credential='' @ key @ ''/d/r/sts/aws4_request,x''])]"

lemma signed_header_key:
  "key \<noteq> [] \<Longrightarrow> (\<And>c. c \<in> set key \<Longrightarrow> c \<noteq> CHR ''/'' \<and> c \<noteq> CHR '','' \<and> \<not> is_space c) \<Longrightarrow>
   resolveAccessKeyID form (signed_header key) = Some key"
proof -
  assume key: "key \<noteq> []" "\<And>c. c \<in> set key \<Longrightarrow> c \<noteq> CHR ''/'' \<and> c \<noteq> CHR '','' \<and> \<not> is_space c"
  have "\<forall>c \<in> set ''d/r/sts/aws4_request''. c \<noteq> CHR '','' \<and> \<not> is_space c" by code_simp
  then have "accessKeyIDFromAuthorizationHeader (''AWS4-HMAC-SHA256 Credential='' @ key @ ''/'' @
      ''d/r/sts/aws4_request'' @ '','' @ ''x'') = Some key"
    by (intro authorization_header_key [OF key]) blast+
  then show "resolveAccessKeyID form (signed_header key) = Some key"
    by (simp add: resolveAccessKeyID_def signed_header_def values_get_def Let_def)
qed

lemma demo_issue_key:
  "randomHexString counter_rand 8 n = (Inr h, n + 8) \<Longrightarrow>
   issuePodIdentityCredentials put counter_rand now cl a (w, n) = (Inr c, w1, r1) \<Longrightarrow>
   pc_access_key_id c = ''ASIA'' @ h"
  by (auto simp: issuePodIdentityCredentials_def newCredentials_def sessionAccessKeyPrefix_def Let_def
      split: prod.splits sum.splits option.splits)

lemma short_now: "(0 + sessionCredentialsTTL) div second < max_seconds"
  by (simp add: sessionCredentialsTTL_def second_def max_seconds_def)

theorem pod_credentials_identify_role_witness:
  "\<exists>c sn w1 r1. issuePodIdentityCredentials mem_put counter_rand 0 ''fjord'' demo_association ([], 0) =
      (Inr c, w1, r1) \<and>
     fst (callerIdentity mem_get_by_access_key_id [] (signed_header ''ASIA0001020304050607'')
       \<lparr>st_store = w1, st_sessions = [], st_rng = ()\<rparr>) =
     Inr \<lparr>cl_arn = assumedRoleARN (RoleARN ''app'') sn, cl_user_id = ''AIDAASIA0001020304050607'',
          cl_account = AccountID\<rparr>"
proof -
  obtain x w1 r1 where run: "issuePodIdentityCredentials mem_put counter_rand 0 ''fjord'' demo_association
      ([], 0) = (x, w1, r1)" by (metis prod_cases3)
  have h: "randomHexString counter_rand 8 0 = (Inr ''0001020304050607'', 0 + 8)" by code_simp
  have key: "resolveAccessKeyID [] (signed_header ''ASIA0001020304050607'') =
      Some ''ASIA0001020304050607''"
    by (rule signed_header_key) (auto simp: is_space_def)
  have "resolveAccessKeyID [] (signed_header ''ASIA0001020304050607'') = Some (pc_access_key_id c)"
    if "x = Inr c" for c
    using demo_issue_key [OF h run [unfolded that]] key by simp
  from pod_credentials_identify_role [OF mem.principal_store_axioms _ counter_rand_total short_now run this,
      of "[]" "()"]
  obtain c sn where c: "x = Inr c" "pc_user_arn c = assumedRoleARN (as_role_arn demo_association) sn"
    "fst (callerIdentity mem_get_by_access_key_id [] (signed_header ''ASIA0001020304050607'')
       \<lparr>st_store = w1, st_sessions = [], st_rng = ()\<rparr>) =
     Inr \<lparr>cl_arn = pc_user_arn c, cl_user_id = ''AIDA'' @ pc_access_key_id c, cl_account = AccountID\<rparr>"
    by (auto simp: mem_ok_def)
  with demo_issue_key [OF h run [unfolded c(1)]] run show ?thesis
    by (auto simp: demo_association_def)
qed

text \<open>
  Credentials are registered under the association's ID as the principal name, and a
  store keeps one access key per name: when a second pod of the same association obtains
  credentials, the first pod's access key stops resolving, so the fake STS reports the first
  pod as the account root although its credentials are announced as valid for an hour.
\<close>

theorem reissued_pod_credentials_evict_previous:
  assumes "principal_store put gk gn ls del reg ok" and "ok w" and "rand_total rs"
    and "(now + sessionCredentialsTTL) div second < max_seconds"
    and "(later + sessionCredentialsTTL) div second < max_seconds"
    and "issuePodIdentityCredentials put rs now cl a (w, r) = (Inr c1, w1, r1)"
    and "issuePodIdentityCredentials put rs later cl a (w1, r1) = (Inr c2, w2, r2)"
    and "pc_access_key_id c1 \<noteq> pc_access_key_id c2"
    and "resolveAccessKeyID form header = Some (pc_access_key_id c1)"
    and "map_of ss (pc_access_key_id c1) = None"
  shows "fst (callerIdentity gk form header \<lparr>st_store = w2, st_sessions = ss, st_rng = g\<rparr>) =
    Inr defaultCallerIdentity"
proof -
  have put: "\<exists>w'. put p v = (Inr (), w')" if "ok v" for p v
    using principal_store.put_law [OF assms(1) that, of p] by blast
  from issue_success [where put = put and w = w, OF assms(3,4) put [OF assms(2)], of cl a r] assms(6) obtain sn1 where
    1: "put \<lparr>p_access_key_id = pc_access_key_id c1, p_arn = assumedRoleARN (as_role_arn a) sn1,
      p_name = as_association_id a\<rparr> w = (Inr (), w1)" by auto
  have ok1: "ok w1" and reg1: "reg w1 (pc_access_key_id c1) =
      Some \<lparr>p_access_key_id = pc_access_key_id c1, p_arn = assumedRoleARN (as_role_arn a) sn1,
        p_name = as_association_id a\<rparr>"
    using principal_store.put_law [OF assms(1,2), of "\<lparr>p_access_key_id = pc_access_key_id c1,
        p_arn = assumedRoleARN (as_role_arn a) sn1, p_name = as_association_id a\<rparr>"] 1
    by (auto simp: reg_put_def)
  from issue_success [where put = put and w = w1, OF assms(3,5) put [OF ok1], of cl a r1] assms(7) obtain sn2 where
    2: "put \<lparr>p_access_key_id = pc_access_key_id c2, p_arn = assumedRoleARN (as_role_arn a) sn2,
      p_name = as_association_id a\<rparr> w1 = (Inr (), w2)" by auto
  have "ok w2" and "reg w2 (pc_access_key_id c1) = None"
    using principal_store.put_law [OF assms(1) ok1, of "\<lparr>p_access_key_id = pc_access_key_id c2,
        p_arn = assumedRoleARN (as_role_arn a) sn2, p_name = as_association_id a\<rparr>"] 2 reg1 assms(8)
    by (auto simp: reg_put_def)
  with principal_store.sts_identity_of_key [OF assms(1) _ assms(9,10), of w2 g] show ?thesis by simp
qed

theorem reissued_pod_credentials_evict_previous_witness:
  "\<exists>w2. fst (callerIdentity mem_get_by_access_key_id [] (signed_header ''ASIA0001020304050607'')
     \<lparr>st_store = w2, st_sessions = [], st_rng = ()\<rparr>) = Inr defaultCallerIdentity"
proof -
  have put: "\<exists>w'. mem_put p v = (Inr (), w')" for p v by (simp add: mem_put_def)
  from issue_success [where put = mem_put and w = "[]", OF counter_rand_total short_now put,
      of "''fjord''" demo_association 0]
  obtain c1 r1 w1 where run1: "issuePodIdentityCredentials mem_put counter_rand 0 ''fjord''
      demo_association ([], 0) = (Inr c1, w1, r1)" by blast
  from issue_success [where put = mem_put and w = w1, OF counter_rand_total short_now put,
      of "''fjord''" demo_association r1]
  obtain c2 r2 w2 where run2: "issuePodIdentityCredentials mem_put counter_rand 0 ''fjord''
      demo_association (w1, r1) = (Inr c2, w2, r2)" by blast
  have h: "randomHexString counter_rand 8 0 = (Inr ''0001020304050607'', 0 + 8)" by code_simp
  note k1 = demo_issue_key [OF h run1]
  have r1: "r1 = 82"
    using run1 by (auto simp: issuePodIdentityCredentials_def newCredentials_def randomHexString_def
        newPodIdentitySessionName_def newAssumedRoleID_def counter_rand_def podIdentitySessionNameBytes_def
        Let_def mem_put_def split: option.splits)
  have "randomHexString counter_rand 8 82 = (Inr ''5253545556575859'', 82 + 8)" by code_simp
  from demo_issue_key [OF this run2 [unfolded r1]] k1
  have ne: "pc_access_key_id c1 \<noteq> pc_access_key_id c2" by simp
  have key: "resolveAccessKeyID [] (signed_header ''ASIA0001020304050607'') = Some (pc_access_key_id c1)"
    unfolding k1 by (simp, rule signed_header_key) (auto simp: is_space_def)
  from reissued_pod_credentials_evict_previous [OF mem.principal_store_axioms _ counter_rand_total
      short_now short_now run1 run2 ne key, of "[]" "()"]
  show ?thesis by (auto simp: mem_ok_def)
qed

text \<open>
  The endpoint answers 200 only to a token the API server authenticated, for the pod
  identity audience, as a ServiceAccount that has a registered association, and then with
  that association's subject.
\<close>

theorem pod_credentials_need_association:
  assumes "handleAssumeRoleForPodIdentity review get_by_sa put rs now r s = (resp, s')"
    and "resp_status resp = 200"
  shows "\<exists>token result w1 ns sa a w2 c.
    decode_token_body (req_body r) = Some token \<and> token \<noteq> [] \<and>
    review token [podIdentityAudience] (fst s) = (Inr result, w1) \<and> rr_authenticated result \<and>
    rr_username result = ''system:serviceaccount:'' @ ns @ '':'' @ sa \<and>
    get_by_sa (ns, sa) w1 = (Inr a, w2) \<and>
    resp = write_json_response (pod_credentials_json c) \<and>
    pc_namespace c = as_namespace a \<and> pc_service_account c = as_service_account a \<and>
    pc_association_id c = as_association_id a"
proof -
  from assms obtain token i w1 where token: "decode_token_body (req_body r) = Some token" "token \<noteq> []"
    and auth: "authenticatePodIdentityToken review token (fst s) = (Inr i, w1)"
    by (auto simp: handleAssumeRoleForPodIdentity_def write_eks_auth_error_def
        split: option.splits if_splits prod.splits sum.splits)
  obtain ns sa where i: "i = (ns, sa)" by (cases i)
  from auth obtain result where res: "review token [podIdentityAudience] (fst s) = (Inr result, w1)"
    "rr_authenticated result" "parseServiceAccountUsername (rr_username result) = Some (ns, sa)"
    by (auto simp: authenticatePodIdentityToken_def i split: prod.splits sum.splits if_splits option.splits)
  from assms token auth i obtain a w2 where a: "get_by_sa (ns, sa) w1 = (Inr a, w2)"
    by (auto simp: handleAssumeRoleForPodIdentity_def write_eks_auth_error_def
        split: prod.splits sum.splits if_splits)
  from assms token auth i a obtain c s3 where
    c: "issuePodIdentityCredentials put rs now (path_value r ''name'') a (w2, snd s) = (Inr c, s3)"
    and resp: "resp = write_json_response (pod_credentials_json c)"
    by (auto simp: handleAssumeRoleForPodIdentity_def write_eks_auth_error_def
        split: prod.splits sum.splits)
  have "pc_namespace c = as_namespace a" "pc_service_account c = as_service_account a"
    "pc_association_id c = as_association_id a"
    using c by (auto simp: issuePodIdentityCredentials_def Let_def split: prod.splits sum.splits option.splits)
  with token res a resp parse_username_Some_iff show ?thesis by blast
qed

definition pod_request :: http_request where
  "pod_request =
     \<lparr>req_path_values = [(''name'', ''fjord'')], req_query = [], req_form = None, req_header = [],
      req_body = Doc (JObj [(''token'', JStr ''t'')])\<rparr>"

definition accept_all :: "string \<Rightarrow> string list \<Rightarrow> 'w \<Rightarrow> (go_error + review_result) \<times> 'w" where
  "accept_all token audiences w =
     (Inr \<lparr>rr_authenticated = True, rr_username = ''system:serviceaccount:prod:app''\<rparr>, w)"

theorem pod_credentials_need_association_witness:
  "\<exists>ns sa a. ''prod:app'' = ns @ CHR '':'' # sa \<and>
     fst (mem_pia_get_by_sa (ns, sa) [(''prod.app'', demo_association)]) = Inr a"
proof -
  let ?sa = "\<lambda>i w. (fst (mem_pia_get_by_sa i [(''prod.app'', demo_association)]), w)"
  have get: "?sa (''prod'', ''app'') w = (Inr demo_association, w)" for w :: mem_principals
    by (simp add: mem_pia_get_by_sa_def mem_kv_get_def pia_key_def podIdentityKey_def)
  have put: "\<exists>w'. mem_put p v = (Inr (), w')" for p v by (simp add: mem_put_def)
  from issue_success [where put = mem_put and w = "[]", OF counter_rand_total short_now put,
      of "''fjord''" demo_association 0]
  obtain c r1 w1 where run: "issuePodIdentityCredentials mem_put counter_rand 0 ''fjord''
      demo_association ([], 0) = (Inr c, w1, r1)" by blast
  have "parseServiceAccountUsername ''system:serviceaccount:prod:app'' = Some (''prod'', ''app'')"
    by (simp add: parse_username_Some_iff)
  with run get have "handleAssumeRoleForPodIdentity accept_all ?sa mem_put counter_rand 0 pod_request ([], 0) =
      (write_json_response (pod_credentials_json c), w1, r1)"
    by (simp add: handleAssumeRoleForPodIdentity_def decode_token_body_def pod_request_def path_value_def
        authenticatePodIdentityToken_def accept_all_def json_codec)
  from pod_credentials_need_association [OF this] show ?thesis
    by (auto simp: write_json_response_def accept_all_def)
qed

end
