(* ===== verification/Imds.thy ===== *)
theory Imds
  imports Eks_Auth
begin

text \<open>
  The instance metadata service of a node (\<open>internal/agent/imds.go\<close>): the IMDSv2 token
  exchange, the node role's temporary credentials with their cache, the identity document and
  the routing. The state is the struct \<open>IMDS\<close> with the principal store and the randomness it
  uses; the clock readings of a request are arguments. \<open>handler\<close> functions are taken as
  atomic; the runs of the token table at the end are over the critical sections, so that they
  cover concurrent requests.
\<close>

definition DefaultNodeRoleName :: string where
  "DefaultNodeRoleName = ''fjord-node-role''"

definition imdsAvailabilityZone :: string where
  "imdsAvailabilityZone = ''us-east-1a''"

definition imdsInstanceType :: string where
  "imdsInstanceType = ''t3.medium''"

definition imdsImageID :: string where
  "imdsImageID = ''ami-0000000000000000''"

definition imdsSessionHeaderName :: string where
  "imdsSessionHeaderName = ''X-aws-ec2-metadata-token''"

definition imdsSessionTTLHeaderName :: string where
  "imdsSessionTTLHeaderName = ''X-aws-ec2-metadata-token-ttl-seconds''"

definition imdsTokenTTLMin :: int where
  "imdsTokenTTLMin = 1"

definition imdsTokenTTLMax :: int where
  "imdsTokenTTLMax = 21600"

definition imdsTokenBytes :: nat where
  "imdsTokenBytes = 20"

definition imdsInstanceIDBytes :: nat where
  "imdsInstanceIDBytes = 8"

record ('s, 'r) imds =
  im_store :: 's
  im_rng :: 'r
  im_role_name :: string
  im_instance_id :: string
  im_tokens :: "(string, instant) go_map"
  im_credentials :: "sts_credentials option"

definition newInstanceID :: "'r rand_source \<Rightarrow> 'r \<Rightarrow> (go_error + string) \<times> 'r" where
  "newInstanceID rs r =
     (case randomHexString rs imdsInstanceIDBytes r of
        (Inl e, r1) \<Rightarrow> (Inl (Wrapf ''generate instance id: %w'' [] e), r1)
      | (Inr suff, r1) \<Rightarrow> (Inr (''i-'' @ suff), r1))"

definition NewIMDS ::
  "'r rand_source \<Rightarrow> 's \<Rightarrow> string \<Rightarrow> 'r \<Rightarrow> (go_error + ('s, 'r) imds) \<times> 'r" where
  "NewIMDS rs store roleName r =
     (let name = (if roleName = [] then DefaultNodeRoleName else roleName) in
      case newInstanceID rs r of
        (Inl e, r1) \<Rightarrow> (Inl (Wrapf ''create imds: %w'' [] e), r1)
      | (Inr instanceID, r1) \<Rightarrow>
          (Inr \<lparr>im_store = store, im_rng = r1, im_role_name = name, im_instance_id = instanceID,
                im_tokens = [], im_credentials = None\<rparr>, r1))"

section \<open>Session tokens\<close>

text \<open>A duration is its number of nanoseconds.\<close>

definition parseTokenTTL :: "string \<Rightarrow> go_error + nat" where
  "parseTokenTTL header =
     (if header = [] then Inl (Errorf ''missing %s header'' [imdsSessionTTLHeaderName])
      else
        (case atoi header of
           None \<Rightarrow>
             Inl (Wrapf ''invalid %s header: %w'' [imdsSessionTTLHeaderName]
               (Errorf ''strconv.Atoi: parsing %q'' [header]))
         | Some seconds \<Rightarrow>
             if seconds < imdsTokenTTLMin \<or> imdsTokenTTLMax < seconds
             then Inl (Errorf ''%s must be between %d and %d''
                    [imdsSessionTTLHeaderName, string_of_nat (nat imdsTokenTTLMin),
                     string_of_nat (nat imdsTokenTTLMax)])
             else Inr (nat seconds * second)))"

definition issueToken ::
  "'r rand_source \<Rightarrow> instant \<Rightarrow> nat \<Rightarrow> ('s, 'r) imds \<Rightarrow> (go_error + string) \<times> ('s, 'r) imds" where
  "issueToken rs now ttl m =
     (case randomHexString rs imdsTokenBytes (im_rng m) of
        (Inl e, r1) \<Rightarrow> (Inl (Wrapf ''generate imds token: %w'' [] e), m\<lparr>im_rng := r1\<rparr>)
      | (Inr token, r1) \<Rightarrow>
          (let kept = filter (\<lambda>(_, expiry). \<not> expiry < now) (im_tokens m)
           in (Inr token, m\<lparr>im_rng := r1, im_tokens := map_set token (now + ttl) kept\<rparr>)))"

definition validToken :: "instant \<Rightarrow> string \<Rightarrow> ('s, 'r) imds \<Rightarrow> bool \<times> ('s, 'r) imds" where
  "validToken now token m =
     (if token = [] then (False, m)
      else
        (case map_of (im_tokens m) token of
           None \<Rightarrow> (False, m)
         | Some expiry \<Rightarrow>
             if expiry < now then (False, m\<lparr>im_tokens := map_delete token (im_tokens m)\<rparr>)
             else (True, m)))"

definition handleToken ::
  "'r rand_source \<Rightarrow> instant \<Rightarrow> http_request \<Rightarrow> ('s, 'r) imds \<Rightarrow> http_response \<times> ('s, 'r) imds" where
  "handleToken rs now r m =
     (case parseTokenTTL (values_get (req_header r) imdsSessionTTLHeaderName) of
        Inl e \<Rightarrow> (http_plain_error (MsgErr [] e) 400, m)
      | Inr ttl \<Rightarrow>
          (case issueToken rs now ttl m of
             (Inl _, m1) \<Rightarrow> (http_plain_error (Msg ''failed to generate token'') 500, m1)
           | (Inr token, m1) \<Rightarrow>
               (\<lparr>resp_status = 200, resp_headers = [(''Content-Type'', ''text/plain'')],
                 resp_body = PlainText (Msg token)\<rparr>, m1)))"

definition withToken ::
  "instant \<Rightarrow> (http_request \<Rightarrow> ('s, 'r) imds \<Rightarrow> http_response \<times> ('s, 'r) imds) \<Rightarrow> http_request
   \<Rightarrow> ('s, 'r) imds \<Rightarrow> http_response \<times> ('s, 'r) imds" where
  "withToken now handler r m =
     (case validToken now (values_get (req_header r) imdsSessionHeaderName) m of
        (False, m1) \<Rightarrow>
          (http_plain_error (Msg (''missing or invalid '' @ imdsSessionHeaderName @ '' header'')) 401, m1)
      | (True, m1) \<Rightarrow> handler r m1)"

section \<open>Role credentials\<close>

text \<open>An expiration that does not parse counts as expired.\<close>

definition credentialsExpired :: "sts_credentials \<Rightarrow> instant \<Rightarrow> bool" where
  "credentialsExpired creds now =
     (case parse_rfc3339 (cr_expiration creds) of
        None \<Rightarrow> True
      | Some expiration \<Rightarrow> \<not> int now < expiration)"

definition credentialsFor ::
  "(principal \<Rightarrow> 's \<Rightarrow> (go_error + unit) \<times> 's) \<Rightarrow> 'r rand_source \<Rightarrow> instant \<Rightarrow> ('s, 'r) imds
   \<Rightarrow> (go_error + sts_credentials) \<times> ('s, 'r) imds" where
  "credentialsFor put rs now m =
     (case (case im_credentials m of
              None \<Rightarrow> None
            | Some c \<Rightarrow> if credentialsExpired c now then None else Some c) of
        Some c \<Rightarrow> (Inr c, m)
      | None \<Rightarrow>
          (case newCredentials rs now (im_rng m) of
             (Inl e, r1) \<Rightarrow>
               (Inl (Wrapf ''generate node role credentials: %w'' [] e), m\<lparr>im_rng := r1\<rparr>)
           | (Inr creds, r1) \<Rightarrow>
               (case put \<lparr>p_access_key_id = cr_access_key_id creds,
                          p_arn = assumedRoleARN (RoleARN (im_role_name m)) (im_instance_id m),
                          p_name = im_role_name m\<rparr> (im_store m) of
                  (Inl e, w1) \<Rightarrow>
                    (Inl (Wrapf ''register node role credentials: %w'' [] e),
                     m\<lparr>im_rng := r1, im_store := w1\<rparr>)
                | (Inr _, w1) \<Rightarrow>
                    (Inr creds,
                     m\<lparr>im_rng := r1, im_store := w1, im_credentials := Some creds\<rparr>))))"

record imdsCredentialsDocument =
  cd_code :: string
  cd_last_updated :: string
  cd_type :: string
  cd_access_key_id :: string
  cd_secret_access_key :: string
  cd_token :: string
  cd_expiration :: string

definition credentialsDocument :: "sts_credentials \<Rightarrow> instant \<Rightarrow> imdsCredentialsDocument" where
  "credentialsDocument creds lastUpdated =
     \<lparr>cd_code = ''Success'', cd_last_updated = format_rfc3339 lastUpdated, cd_type = ''AWS-HMAC'',
      cd_access_key_id = cr_access_key_id creds,
      cd_secret_access_key = cr_secret_access_key creds, cd_token = cr_session_token creds,
      cd_expiration = cr_expiration creds\<rparr>"

text \<open>\<open>MarshalJSON\<close> goes through a Go map, whose keys are written in order.\<close>

definition MarshalJSON :: "imdsCredentialsDocument \<Rightarrow> json" where
  "MarshalJSON d =
     JObj
       [(''AccessKeyId'', JStr (cd_access_key_id d)), (''Code'', JStr (cd_code d)),
        (''Expiration'', JStr (cd_expiration d)), (''LastUpdated'', JStr (cd_last_updated d)),
        (''SecretAccessKey'', JStr (cd_secret_access_key d)), (''Token'', JStr (cd_token d)),
        (''Type'', JStr (cd_type d))]"

definition handleRoleCredentials ::
  "(principal \<Rightarrow> 's \<Rightarrow> (go_error + unit) \<times> 's) \<Rightarrow> 'r rand_source \<Rightarrow> instant \<Rightarrow> instant \<Rightarrow> http_request
   \<Rightarrow> ('s, 'r) imds \<Rightarrow> http_response \<times> ('s, 'r) imds" where
  "handleRoleCredentials put rs now later r m =
     (if path_value r ''role'' \<noteq> im_role_name m
      then (http_plain_error (Msg ''404 page not found'') 404, m)
      else
        (case credentialsFor put rs now m of
           (Inl _, m1) \<Rightarrow> (http_plain_error (Msg ''failed to generate credentials'') 500, m1)
         | (Inr creds, m1) \<Rightarrow>
             (write_json_response (MarshalJSON (credentialsDocument creds later)), m1)))"

section \<open>The other documents and the routes\<close>

definition writePlainText ::
  "string \<Rightarrow> http_request \<Rightarrow> ('s, 'r) imds \<Rightarrow> http_response \<times> ('s, 'r) imds" where
  "writePlainText body r m =
     (\<lparr>resp_status = 200, resp_headers = [(''Content-Type'', ''text/plain'')],
       resp_body = PlainText (Msg body)\<rparr>, m)"

definition handleRoleList ::
  "http_request \<Rightarrow> ('s, 'r) imds \<Rightarrow> http_response \<times> ('s, 'r) imds" where
  "handleRoleList r m =
     (\<lparr>resp_status = 200, resp_headers = [(''Content-Type'', ''text/plain'')],
       resp_body = PlainText (Msg (im_role_name m))\<rparr>, m)"

definition instanceIdentityDocument :: "string \<Rightarrow> json" where
  "instanceIdentityDocument instanceID =
     JObj
       [(''accountId'', JStr AccountID), (''availabilityZone'', JStr imdsAvailabilityZone),
        (''imageId'', JStr imdsImageID), (''instanceId'', JStr instanceID),
        (''instanceType'', JStr imdsInstanceType), (''region'', JStr imdsRegion)]"

definition handleInstanceIdentityDocument ::
  "http_request \<Rightarrow> ('s, 'r) imds \<Rightarrow> http_response \<times> ('s, 'r) imds" where
  "handleInstanceIdentityDocument r m =
     (write_json_response (instanceIdentityDocument (im_instance_id m)), m)"

definition isLatestVersionPath :: "string \<Rightarrow> bool" where
  "isLatestVersionPath path \<longleftrightarrow> path = ''/latest'' \<or> prefix ''/latest/'' path"

definition handleFallback :: "string \<Rightarrow> ('s, 'r) imds \<Rightarrow> http_response \<times> ('s, 'r) imds" where
  "handleFallback path m =
     (if \<not> isLatestVersionPath path
      then (http_plain_error (Msg ''unsupported metadata service version'') 403, m)
      else (http_plain_error (Msg ''404 page not found'') 404, m))"

text \<open>
  What \<open>http.ServeMux\<close> makes of the patterns on a clean path: a \<open>GET\<close> pattern also
  serves \<open>HEAD\<close>; the pattern ending in \<open>{role}\<close> matches one non-empty last segment and
  wins over the one ending in a slash, which serves everything else below it and redirects the
  path without that slash; every other request, a known path under another method included, is
  left to the pattern \<open>/\<close>. The page a redirect carries is left out.
\<close>

datatype imds_route =
    RouteToken
  | RouteRoleList
  | RouteRoleCredentials string
  | RouteRegion
  | RouteAvailabilityZone
  | RouteIdentityDocument
  | RouteRedirect string
  | RouteFallback

definition credentials_path :: string where
  "credentials_path = ''/latest/meta-data/iam/security-credentials''"

definition imds_route_of :: "string \<Rightarrow> string \<Rightarrow> imds_route" where
  "imds_route_of verb path =
     (if verb = ''PUT'' \<and> path = ''/latest/api/token'' then RouteToken
      else if verb \<notin> {''GET'', ''HEAD''} then RouteFallback
      else if path = ''/latest/meta-data/placement/region'' then RouteRegion
      else if path = ''/latest/meta-data/placement/availability-zone'' then RouteAvailabilityZone
      else if path = ''/latest/dynamic/instance-identity/document'' then RouteIdentityDocument
      else if path = credentials_path then RouteRedirect (path @ ''/'')
      else
        (case cut_prefix (credentials_path @ ''/'') path of
           None \<Rightarrow> RouteFallback
         | Some rest \<Rightarrow>
             if rest \<noteq> [] \<and> CHR ''/'' \<notin> set rest then RouteRoleCredentials rest
             else RouteRoleList))"

text \<open>
  \<open>Handler\<close>, with the instants at which a request reads the clock: in \<open>withToken\<close> or
  \<open>issueToken\<close>, in \<open>credentialsFor\<close> and for \<open>LastUpdated\<close>.
\<close>

record imds_clock =
  at_token :: instant
  at_credentials :: instant
  at_document :: instant

definition imdsHandler ::
  "(principal \<Rightarrow> 's \<Rightarrow> (go_error + unit) \<times> 's) \<Rightarrow> 'r rand_source \<Rightarrow> imds_clock \<Rightarrow> string \<Rightarrow> string
   \<Rightarrow> http_request \<Rightarrow> ('s, 'r) imds \<Rightarrow> http_response \<times> ('s, 'r) imds" where
  "imdsHandler put rs clk verb path r m =
     (case imds_route_of verb path of
        RouteToken \<Rightarrow> handleToken rs (at_token clk) r m
      | RouteRoleList \<Rightarrow> withToken (at_token clk) handleRoleList r m
      | RouteRoleCredentials role \<Rightarrow>
          withToken (at_token clk) (handleRoleCredentials put rs (at_credentials clk) (at_document clk))
            (r\<lparr>req_path_values := [(''role'', role)]\<rparr>) m
      | RouteRegion \<Rightarrow> withToken (at_token clk) (writePlainText imdsRegion) r m
      | RouteAvailabilityZone \<Rightarrow> withToken (at_token clk) (writePlainText imdsAvailabilityZone) r m
      | RouteIdentityDocument \<Rightarrow> withToken (at_token clk) handleInstanceIdentityDocument r m
      | RouteRedirect target \<Rightarrow>
          (\<lparr>resp_status = 301, resp_headers = [(''Location'', target)], resp_body = NoBody\<rparr>, m)
      | RouteFallback \<Rightarrow> handleFallback path m)"

section \<open>Facts\<close>

lemma validToken_iff:
  "fst (validToken now token m) \<longleftrightarrow>
   token \<noteq> [] \<and> (\<exists>expiry. map_of (im_tokens m) token = Some expiry \<and> now \<le> expiry)"
  by (auto simp: validToken_def split: option.splits)

lemma validToken_frame:
  "snd (validToken now token m) = m\<lparr>im_tokens := im_tokens (snd (validToken now token m))\<rparr>"
  by (auto simp: validToken_def split: option.splits)

lemma withToken_cases:
  "withToken now handler r m =
   (if fst (validToken now (values_get (req_header r) imdsSessionHeaderName) m)
    then handler r m
    else (http_plain_error (Msg (''missing or invalid '' @ imdsSessionHeaderName @ '' header'')) 401,
          snd (validToken now (values_get (req_header r) imdsSessionHeaderName) m)))"
  by (auto simp: withToken_def validToken_def split: option.splits)

lemma parseTokenTTL_Inr:
  "parseTokenTTL h = Inr ttl \<longleftrightarrow>
   (\<exists>s. atoi h = Some s \<and> 1 \<le> s \<and> s \<le> 21600 \<and> ttl = nat s * second)"
proof (cases "h = []")
  case True
  then show ?thesis by (simp add: parseTokenTTL_def atoi_def)
qed (auto simp: parseTokenTTL_def imdsTokenTTLMin_def imdsTokenTTLMax_def split: option.splits)

lemma issueToken_tokens:
  assumes "issueToken rs now ttl m = (Inr token, m')" and "map_wf (im_tokens m)"
  shows "map_wf (im_tokens m')" and
    "map_of (im_tokens m') k =
       (if k = token then Some (now + ttl)
        else (case map_of (im_tokens m) k of
                None \<Rightarrow> None
              | Some e \<Rightarrow> if e < now then None else Some e))"
  using assms
  by (auto simp: issueToken_def Let_def map_of_filter_wf split: prod.splits sum.splits option.splits)

lemma issueToken_error: "issueToken rs now ttl m = (Inl e, m') \<Longrightarrow> im_tokens m' = im_tokens m"
  by (auto simp: issueToken_def Let_def split: prod.splits sum.splits)

lemma issueToken_nonempty:
  "rand_ok rs \<Longrightarrow> issueToken rs now ttl m = (Inr token, m') \<Longrightarrow> length token = 40"
  using randomHexString_shape [of rs imdsTokenBytes "im_rng m" token]
  by (auto simp: issueToken_def Let_def imdsTokenBytes_def split: prod.splits sum.splits)

lemma credentialsFor_tokens:
  "im_tokens (snd (credentialsFor put rs now m)) = im_tokens m"
  by (auto simp: credentialsFor_def split: prod.splits sum.splits option.splits)

lemma credentialsExpired_fresh:
  assumes "cr_expiration c = format_rfc3339 t" and "t div second < max_seconds"
  shows "credentialsExpired c now \<longleftrightarrow> t div second * second \<le> now"
proof -
  have "int now < int (t div second) * 10 ^ 9 \<longleftrightarrow> now < t div second * second"
    by (simp add: second_def) linarith
  then show ?thesis
    using parse_format_rfc3339 [OF assms(2)] assms(1) by (simp add: credentialsExpired_def not_less)
qed

text \<open>A fresh set of credentials is registered and cached.\<close>

definition node_principal :: "('s, 'r) imds \<Rightarrow> sts_credentials \<Rightarrow> principal" where
  "node_principal m c =
     \<lparr>p_access_key_id = cr_access_key_id c,
      p_arn = assumedRoleARN (RoleARN (im_role_name m)) (im_instance_id m), p_name = im_role_name m\<rparr>"

lemma credentialsFor_cached:
  "im_credentials m = Some c \<Longrightarrow> \<not> credentialsExpired c now \<Longrightarrow> credentialsFor put rs now m = (Inr c, m)"
  by (simp add: credentialsFor_def)

lemma credentialsFor_fresh:
  assumes "rand_total rs" and "\<And>p. \<exists>w'. put p (im_store m) = (Inr (), w')"
    and "\<And>c. im_credentials m = Some c \<Longrightarrow> credentialsExpired c now"
  shows "\<exists>c r1 w1. credentialsFor put rs now m =
      (Inr c, m\<lparr>im_rng := r1, im_store := w1, im_credentials := Some c\<rparr>) \<and>
    put (node_principal m c) (im_store m) = (Inr (), w1) \<and>
    cr_expiration c = format_rfc3339 (now + sessionCredentialsTTL)"
proof -
  obtain c r1 where c: "newCredentials rs now (im_rng m) = (Inr c, r1)"
    using newCredentials_total [OF assms(1)] by blast
  obtain w1 where w1: "put (node_principal m c) (im_store m) = (Inr (), w1)" using assms(2) by blast
  have "(case im_credentials m of None \<Rightarrow> None
       | Some c \<Rightarrow> if credentialsExpired c now then None else Some c) = None"
    using assms(3) by (simp split: option.splits)
  with c w1 newCredentials_fields [OF c] show ?thesis
    by (simp add: credentialsFor_def node_principal_def) (rule exI, rule refl)
qed

section \<open>Runs of the token table\<close>

text \<open>
  What may happen to the service between two instants: the critical sections of concurrent
  requests in any order. \<open>validToken\<close> reads the clock under the lock, \<open>issueToken\<close>
  and \<open>credentialsFor\<close> have read it at some earlier instant. The token named is not drawn
  again.
\<close>

inductive imds_run ::
  "(principal \<Rightarrow> 's \<Rightarrow> (go_error + unit) \<times> 's) \<Rightarrow> 'r rand_source \<Rightarrow> string
   \<Rightarrow> instant \<times> ('s, 'r) imds \<Rightarrow> instant \<times> ('s, 'r) imds \<Rightarrow> bool"
  for put rs token where
  run_start: "imds_run put rs token s s"
| run_issue: "imds_run put rs token s (t, m) \<Longrightarrow> t \<le> t' \<Longrightarrow> now \<le> t' \<Longrightarrow>
    issueToken rs now ttl m = (res, m') \<Longrightarrow> res \<noteq> Inr token \<Longrightarrow> imds_run put rs token s (t', m')"
| run_check: "imds_run put rs token s (t, m) \<Longrightarrow> t \<le> t' \<Longrightarrow>
    validToken t' other m = (b, m') \<Longrightarrow> imds_run put rs token s (t', m')"
| run_credentials: "imds_run put rs token s (t, m) \<Longrightarrow> t \<le> t' \<Longrightarrow> now \<le> t' \<Longrightarrow>
    credentialsFor put rs now m = (c, m') \<Longrightarrow> imds_run put rs token s (t', m')"

definition token_state :: "string \<Rightarrow> instant \<Rightarrow> instant \<times> ('s, 'r) imds \<Rightarrow> bool" where
  "token_state token expiry s \<longleftrightarrow>
     map_wf (im_tokens (snd s)) \<and>
     (case map_of (im_tokens (snd s)) token of None \<Rightarrow> expiry < fst s | Some e \<Rightarrow> e = expiry)"

lemma token_state_run:
  assumes "imds_run put rs token s s'" and "token_state token expiry s"
  shows "token_state token expiry s'"
  using assms
proof induction
  case (run_issue s t m t' now ttl res m')
  then have wf: "map_wf (im_tokens m)"
    and old: "case map_of (im_tokens m) token of None \<Rightarrow> expiry < t | Some e \<Rightarrow> e = expiry"
    by (auto simp: token_state_def split: option.splits)
  show ?case
  proof (cases res)
    case (Inl e)
    with issueToken_error run_issue.hyps(4) have "im_tokens m' = im_tokens m" by blast
    with wf old run_issue.hyps(2) show ?thesis by (auto simp: token_state_def split: option.splits)
  next
    case (Inr new)
    with run_issue.hyps have "issueToken rs now ttl m = (Inr new, m')" and "new \<noteq> token" by auto
    from issueToken_tokens [OF this(1) wf] this(2) old run_issue.hyps(2,3)
    show ?thesis by (auto simp: token_state_def split: option.splits if_splits)
  qed
next
  case (run_check s t m t' other b m')
  then show ?case
    by (auto simp: token_state_def validToken_def split: option.splits if_splits)
next
  case (run_credentials s t m t' now c m')
  then have "im_tokens m' = im_tokens m" using credentialsFor_tokens [of put rs now m] by simp
  with run_credentials show ?case by (auto simp: token_state_def split: option.splits)
qed

section \<open>Properties\<close>

definition demo_imds :: "(mem_principals, nat) imds" where
  "demo_imds = \<lparr>im_store = [], im_rng = 0, im_role_name = ''fjord-node-role'', im_instance_id = ''i-1'',
     im_tokens = [], im_credentials = None\<rparr>"

definition demo_token :: string where
  "demo_token = ''000102030405060708090a0b0c0d0e0f10111213''"

definition ttl_request :: "string \<Rightarrow> http_request" where
  "ttl_request ttl =
     \<lparr>req_path_values = [], req_query = [], req_form = Some [],
      req_header = [(imdsSessionTTLHeaderName, [ttl])], req_body = Malformed\<rparr>"

lemma demo_issue:
  "issueToken counter_rand 0 ttl demo_imds =
   (Inr demo_token, demo_imds\<lparr>im_rng := 20, im_tokens := [(demo_token, ttl)]\<rparr>)"
proof -
  have "randomHexString counter_rand imdsTokenBytes 0 = (Inr demo_token, 20)" by code_simp
  then show ?thesis by (simp add: issueToken_def demo_imds_def map_set_def)
qed

lemma demo_imds_simps [simp]:
  "im_store demo_imds = []" "im_rng demo_imds = 0" "im_role_name demo_imds = ''fjord-node-role''"
  "im_instance_id demo_imds = ''i-1''" "im_tokens demo_imds = []" "im_credentials demo_imds = None"
  by (simp_all add: demo_imds_def)

lemma credentialsFor_key:
  assumes "randomHexString rs 8 (im_rng m) = (Inr h, r1)" and "im_credentials m = None"
    and "credentialsFor put rs now m = (Inr c, m1)"
  shows "cr_access_key_id c = ''ASIA'' @ h"
  using assms
  by (auto simp: credentialsFor_def newCredentials_def sessionAccessKeyPrefix_def split: prod.splits sum.splits)

text \<open>
  C16: a token is accepted exactly until its TTL has passed since it was issued, whatever
  concurrent requests issue, check, evict or renew in the meantime.
\<close>

theorem imds_token_valid_exactly_until_expiry:
  assumes "rand_ok rs" and "map_wf (im_tokens m)" and "issueToken rs now ttl m = (Inr token, m1)"
    and "now \<le> t" and "imds_run put rs token (t, m1) (u, m2)" and "u \<le> v"
  shows "fst (validToken v token m2) \<longleftrightarrow> v \<le> now + ttl"
proof -
  have ne: "token \<noteq> []" using issueToken_nonempty [OF assms(1,3)] by auto
  have "token_state token (now + ttl) (t, m1)"
    using issueToken_tokens [OF assms(3,2)] by (simp add: token_state_def)
  with assms(5) have "token_state token (now + ttl) (u, m2)" by (rule token_state_run)
  with ne assms(6) show ?thesis
    by (auto simp: validToken_iff token_state_def split: option.splits)
qed

theorem imds_token_valid_exactly_until_expiry_witness:
  "\<exists>m2. imds_run mem_put counter_rand demo_token
      (0, demo_imds\<lparr>im_rng := 20, im_tokens := [(demo_token, 5)]\<rparr>) (3, m2) \<and>
     fst (validToken 5 demo_token m2) \<and> \<not> fst (validToken 6 demo_token m2)"
proof -
  let ?m1 = "demo_imds\<lparr>im_rng := 20, im_tokens := [(demo_token, 5)]\<rparr>"
  have v: "validToken 3 ''other'' ?m1 = (False, ?m1)"
    by (simp add: validToken_def demo_token_def)
  have run: "imds_run mem_put counter_rand demo_token (0, ?m1) (3, ?m1)"
    by (rule run_check [OF run_start _ v]) simp
  have "fst (validToken v demo_token ?m1) \<longleftrightarrow> v \<le> 0 + 5" if "3 \<le> v" for v
    by (rule imds_token_valid_exactly_until_expiry [OF counter_rand_ok _ demo_issue _ run that]) simp_all
  from this [of 5] this [of 6] run show ?thesis by auto
qed

text \<open>
  The token request answers 200 exactly for a TTL of 1 to 21600 seconds, and the token it
  hands out is accepted for exactly that long.
\<close>

theorem imds_token_ttl:
  assumes "rand_ok rs" and "rand_total rs" and "map_wf (im_tokens m)"
    and "handleToken rs now r m = (resp, m')"
  shows "if \<exists>s. atoi (values_get (req_header r) imdsSessionTTLHeaderName) = Some s \<and> 1 \<le> s \<and> s \<le> 21600
    then \<exists>s token. atoi (values_get (req_header r) imdsSessionTTLHeaderName) = Some s \<and>
      resp_status resp = 200 \<and> resp_body resp = PlainText (Msg token) \<and>
      (\<forall>v. fst (validToken v token m') \<longleftrightarrow> v \<le> now + nat s * second)
    else resp_status resp = 400 \<and> m' = m"
proof (cases "\<exists>s. atoi (values_get (req_header r) imdsSessionTTLHeaderName) = Some s \<and> 1 \<le> s \<and> s \<le> 21600")
  case True
  then obtain s where s: "atoi (values_get (req_header r) imdsSessionTTLHeaderName) = Some s" "1 \<le> s" "s \<le> 21600"
    by blast
  then have ttl: "parseTokenTTL (values_get (req_header r) imdsSessionTTLHeaderName) = Inr (nat s * second)"
    by (simp add: parseTokenTTL_Inr)
  obtain token r1 where "randomHexString rs imdsTokenBytes (im_rng m) = (Inr token, r1)"
    using randomHexString_total [OF assms(2)] by blast
  then obtain m1 where i: "issueToken rs now (nat s * second) m = (Inr token, m1)"
    by (simp add: issueToken_def Let_def)
  from assms(4) ttl i have resp: "resp_status resp = 200" "resp_body resp = PlainText (Msg token)" "m' = m1"
    by (auto simp: handleToken_def)
  have "token \<noteq> []" using issueToken_nonempty [OF assms(1) i] by auto
  then have "\<forall>v. fst (validToken v token m') \<longleftrightarrow> v \<le> now + nat s * second"
    using issueToken_tokens [OF i assms(3)] resp by (simp add: validToken_iff)
  with True s resp show ?thesis by auto
next
  case False
  then have "\<not> (\<exists>ttl. parseTokenTTL (values_get (req_header r) imdsSessionTTLHeaderName) = Inr ttl)"
    by (auto simp: parseTokenTTL_Inr)
  then obtain e where "parseTokenTTL (values_get (req_header r) imdsSessionTTLHeaderName) = Inl e"
    by (cases "parseTokenTTL (values_get (req_header r) imdsSessionTTLHeaderName)") auto
  with assms(4) False show ?thesis by (auto simp: handleToken_def http_simps)
qed

theorem imds_token_ttl_witness:
  "resp_status (fst (handleToken counter_rand 0 (ttl_request ''60'') demo_imds)) = 200 \<and>
   resp_status (fst (handleToken counter_rand 0 (ttl_request ''21601'') demo_imds)) = 400"
proof -
  have a: "atoi ''60'' = Some 60" "atoi ''21601'' = Some 21601" by code_simp+
  have v: "values_get (req_header (ttl_request t)) imdsSessionTTLHeaderName = t" for t
    by (simp add: ttl_request_def values_get_def)
  note claim = imds_token_ttl [OF counter_rand_ok counter_rand_total _ prod.collapse [symmetric], unfolded v]
  have "resp_status (fst (handleToken counter_rand 0 (ttl_request ''60'') demo_imds)) = 200"
    using claim [where m = demo_imds and now = 0 and r = "ttl_request ''60''", unfolded v a] by force
  moreover have "resp_status (fst (handleToken counter_rand 0 (ttl_request ''21601'') demo_imds)) = 400"
    using claim [where m = demo_imds and now = 0 and r = "ttl_request ''21601''", unfolded v a] by simp
  ultimately show ?thesis ..
qed

text \<open>
  No metadata without a valid token: a request that answers 200 either is the token
  request or presents a token that was issued and has not expired; without one the store and
  the credentials stay untouched.
\<close>

theorem imds_requires_token:
  assumes "imdsHandler put rs clk verb path r m = (resp, m')"
    and "\<not> fst (validToken (at_token clk) (values_get (req_header r) imdsSessionHeaderName) m)"
  shows "im_store m' = im_store m \<and> im_credentials m' = im_credentials m \<and>
    (resp_status resp = 200 \<longrightarrow> verb = ''PUT'' \<and> path = ''/latest/api/token'')"
proof (intro conjI impI)
  note no = withToken_cases [where m = m and now = "at_token clk"]
  have frame: "im_store (snd (validToken t k m)) = im_store m"
    "im_credentials (snd (validToken t k m)) = im_credentials m" for t k
    by (auto simp: validToken_def split: option.splits)
  have token: "im_store (snd (handleToken rs t r m)) = im_store m"
    "im_credentials (snd (handleToken rs t r m)) = im_credentials m" for t
    by (auto simp: handleToken_def issueToken_def Let_def split: sum.splits prod.splits)
  have run: "resp = fst (imdsHandler put rs clk verb path r m)" "m' = snd (imdsHandler put rs clk verb path r m)"
    using assms(1) by simp_all
  show "im_store m' = im_store m" "im_credentials m' = im_credentials m"
    unfolding run imdsHandler_def using assms(2)
    by (auto simp: no frame token handleFallback_def split: imds_route.split)
  assume ok: "resp_status resp = 200"
  have "imds_route_of verb path = RouteToken"
    using ok assms(2) unfolding run imdsHandler_def
    by (auto simp: no handleFallback_def http_simps split: imds_route.split_asm if_splits)
  then show "verb = ''PUT''" "path = ''/latest/api/token''"
    by (auto simp: imds_route_of_def split: if_splits option.splits)
qed

theorem imds_requires_token_witness:
  "resp_status (fst (imdsHandler mem_put counter_rand \<lparr>at_token = 0, at_credentials = 0, at_document = 0\<rparr>
     ''GET'' ''/latest/meta-data/iam/security-credentials/fjord-node-role'' (ttl_request ''60'') demo_imds)) \<noteq> 200"
  using imds_requires_token [OF prod.collapse [symmetric], of "\<lparr>at_token = 0, at_credentials = 0, at_document = 0\<rparr>"
      "ttl_request ''60''" demo_imds mem_put counter_rand "''GET''"
      "''/latest/meta-data/iam/security-credentials/fjord-node-role''"]
  by (auto simp: validToken_iff)

text \<open>
  C17: fresh node credentials are registered so that the fake STS identifies their holder as
  the node role's session named after the instance; they are served unchanged until they
  expire an hour later (to the second) and replaced by fresh ones from then on.
\<close>

theorem imds_credentials_identify_node:
  assumes "principal_store put gk gn ls del reg ok" and "ok (im_store m)" and "rand_total rs"
    and "(now + sessionCredentialsTTL) div second < max_seconds"
    and "\<And>c. im_credentials m = Some c \<Longrightarrow> credentialsExpired c now"
    and "credentialsFor put rs now m = (x, m1)"
    and "\<And>c. x = Inr c \<Longrightarrow> resolveAccessKeyID form header = Some (cr_access_key_id c)"
    and "\<And>k. resolveAccessKeyID form header = Some k \<Longrightarrow> map_of ss k = None"
  shows "\<exists>c. x = Inr c \<and> ok (im_store m1) \<and>
    fst (callerIdentity gk form header \<lparr>st_store = im_store m1, st_sessions = ss, st_rng = g\<rparr>) =
      Inr \<lparr>cl_arn = assumedRoleARN (RoleARN (im_role_name m)) (im_instance_id m),
           cl_user_id = ''AIDA'' @ cr_access_key_id c, cl_account = AccountID\<rparr> \<and>
    (\<forall>later. later < (now + sessionCredentialsTTL) div second * second \<longrightarrow>
       credentialsFor put rs later m1 = (Inr c, m1)) \<and>
    (\<forall>later. (now + sessionCredentialsTTL) div second * second \<le> later \<longrightarrow>
       (\<exists>c' m2. credentialsFor put rs later m1 = (Inr c', m2) \<and>
          cr_expiration c' = format_rfc3339 (later + sessionCredentialsTTL)))"
proof -
  have put: "\<exists>w'. put p w = (Inr (), w')" if "ok w" for p w
    using principal_store.put_law [OF assms(1) that, of p] by blast
  from credentialsFor_fresh [where put = put and m = m, OF assms(3) put [OF assms(2)] assms(5)] assms(6)
  obtain c r1 w1 where x: "x = Inr c" and m1: "m1 = m\<lparr>im_rng := r1, im_store := w1, im_credentials := Some c\<rparr>"
    and reg: "put (node_principal m c) (im_store m) = (Inr (), w1)"
    and exp: "cr_expiration c = format_rfc3339 (now + sessionCredentialsTTL)" by auto
  have ok1: "ok w1" and r1: "reg w1 = reg_put (node_principal m c) (reg (im_store m))"
    using principal_store.put_law [OF assms(1,2), of "node_principal m c"] reg by auto
  note key = assms(7) [OF x]
  have id: "fst (callerIdentity gk form header \<lparr>st_store = w1, st_sessions = ss, st_rng = g\<rparr>) =
      Inr \<lparr>cl_arn = assumedRoleARN (RoleARN (im_role_name m)) (im_instance_id m),
           cl_user_id = ''AIDA'' @ cr_access_key_id c, cl_account = AccountID\<rparr>"
    using principal_store.sts_identity_of_key [OF assms(1) ok1 key assms(8) [OF key], of g] r1
    by (simp add: reg_put_def node_principal_def)
  have cached: "credentialsFor put rs later m1 = (Inr c, m1)"
    if "later < (now + sessionCredentialsTTL) div second * second" for later
    using credentialsFor_cached [of m1 c later put rs] credentialsExpired_fresh [OF exp assms(4), of later] m1 that
    by simp
  have renewed: "\<exists>c' m2. credentialsFor put rs later m1 = (Inr c', m2) \<and>
      cr_expiration c' = format_rfc3339 (later + sessionCredentialsTTL)"
    if "(now + sessionCredentialsTTL) div second * second \<le> later" for later
    using credentialsFor_fresh [where put = put and m = m1 and now = later, OF assms(3)] put [OF ok1] m1
      credentialsExpired_fresh [OF exp assms(4), of later] that by auto
  from x id cached renewed ok1 m1 show ?thesis by auto
qed

theorem imds_credentials_identify_node_witness:
  "\<exists>m1 c. credentialsFor mem_put counter_rand 0 demo_imds = (Inr c, m1) \<and>
     fst (callerIdentity mem_get_by_access_key_id [] (signed_header ''ASIA0001020304050607'')
       \<lparr>st_store = im_store m1, st_sessions = [], st_rng = ()\<rparr>) =
     Inr \<lparr>cl_arn = assumedRoleARN (RoleARN ''fjord-node-role'') ''i-1'',
          cl_user_id = ''AIDAASIA0001020304050607'', cl_account = AccountID\<rparr>"
proof -
  obtain x m1 where run: "credentialsFor mem_put counter_rand 0 demo_imds = (x, m1)" by fastforce
  have h: "randomHexString counter_rand 8 (im_rng demo_imds) = (Inr ''0001020304050607'', 8)" by code_simp
  have key: "resolveAccessKeyID [] (signed_header ''ASIA0001020304050607'') = Some ''ASIA0001020304050607''"
    by (rule signed_header_key) (auto simp: is_space_def)
  have k: "cr_access_key_id c = ''ASIA0001020304050607''" if "x = Inr c" for c
    using credentialsFor_key [OF h _ run [unfolded that]] by simp
  have rk: "resolveAccessKeyID [] (signed_header ''ASIA0001020304050607'') = Some (cr_access_key_id c)"
    if "x = Inr c" for c
    using k [OF that] key by simp
  from imds_credentials_identify_node [OF mem.principal_store_axioms _ counter_rand_total short_now _ run rk,
      of "[]" "()"]
  obtain c where "x = Inr c"
    "fst (callerIdentity mem_get_by_access_key_id [] (signed_header ''ASIA0001020304050607'')
       \<lparr>st_store = im_store m1, st_sessions = [], st_rng = ()\<rparr>) =
     Inr \<lparr>cl_arn = assumedRoleARN (RoleARN ''fjord-node-role'') ''i-1'',
          cl_user_id = ''AIDA'' @ cr_access_key_id c, cl_account = AccountID\<rparr>"
    by (auto simp: mem_ok_def)
  with k run show ?thesis by auto
qed

text \<open>
  Every node registers its credentials under the role name, and a principal store keeps
  one access key per name: once a second node has obtained credentials, the first node keeps
  serving its cached ones until they expire, but the fake STS no longer knows their holder and
  answers with the account root.
\<close>

theorem imds_nodes_evict_each_other:
  assumes "principal_store put gk gn ls del reg ok" and "ok (im_store m)" and "rand_total rs"
    and "(now + sessionCredentialsTTL) div second < max_seconds"
    and "im_credentials m = None" and "credentialsFor put rs now m = (Inr c1, m1)"
    and "im_store n = im_store m1" and "im_role_name n = im_role_name m" and "im_credentials n = None"
    and "credentialsFor put rs now' n = (Inr c2, n1)"
    and "cr_access_key_id c1 \<noteq> cr_access_key_id c2"
    and "later < (now + sessionCredentialsTTL) div second * second"
    and "resolveAccessKeyID form header = Some (cr_access_key_id c1)"
    and "map_of ss (cr_access_key_id c1) = None"
  shows "fst (credentialsFor put rs later (m1\<lparr>im_store := im_store n1\<rparr>)) = Inr c1 \<and>
    fst (callerIdentity gk form header \<lparr>st_store = im_store n1, st_sessions = ss, st_rng = g\<rparr>) =
      Inr defaultCallerIdentity"
proof -
  have put: "\<exists>w'. put p w = (Inr (), w')" if "ok w" for p w
    using principal_store.put_law [OF assms(1) that, of p] by blast
  from credentialsFor_fresh [where put = put and m = m and now = now, OF assms(3) put [OF assms(2)]] assms(5,6)
  obtain r1 w1 where m1: "m1 = m\<lparr>im_rng := r1, im_store := w1, im_credentials := Some c1\<rparr>"
    and reg1: "put (node_principal m c1) (im_store m) = (Inr (), w1)"
    and exp: "cr_expiration c1 = format_rfc3339 (now + sessionCredentialsTTL)" by auto
  have ok1: "ok w1" and r1: "reg w1 = reg_put (node_principal m c1) (reg (im_store m))"
    using principal_store.put_law [OF assms(1,2), of "node_principal m c1"] reg1 by auto
  have n: "im_store n = w1" using assms(7) m1 by simp
  from credentialsFor_fresh [where put = put and m = n and now = now', OF assms(3)] put [OF ok1] assms(9,10) n
  obtain w2 where n1: "im_store n1 = w2" and reg2: "put (node_principal n c2) w1 = (Inr (), w2)" by auto
  have ok2: "ok w2" and "reg w2 (cr_access_key_id c1) = None"
    using principal_store.put_law [OF assms(1) ok1, of "node_principal n c2"] reg2 r1 assms(8,11)
    by (auto simp: reg_put_def node_principal_def)
  with principal_store.sts_identity_of_key [OF assms(1) ok2 assms(13,14), of g] n1
  have "fst (callerIdentity gk form header \<lparr>st_store = im_store n1, st_sessions = ss, st_rng = g\<rparr>) =
      Inr defaultCallerIdentity" by simp
  moreover have "\<not> credentialsExpired c1 later"
    using credentialsExpired_fresh [OF exp assms(4), of later] assms(12) by simp
  ultimately show ?thesis
    using credentialsFor_cached [of "m1\<lparr>im_store := im_store n1\<rparr>" c1 later put rs] m1 by simp
qed

theorem imds_nodes_evict_each_other_witness:
  "\<exists>w2. fst (callerIdentity mem_get_by_access_key_id [] (signed_header ''ASIA0001020304050607'')
     \<lparr>st_store = w2, st_sessions = [], st_rng = ()\<rparr>) = Inr defaultCallerIdentity"
proof -
  have put: "\<exists>w'. mem_put p v = (Inr (), w')" for p v by (simp add: mem_put_def)
  obtain c1 m1 where run1: "credentialsFor mem_put counter_rand 0 demo_imds = (Inr c1, m1)"
    using credentialsFor_fresh [where put = mem_put and m = demo_imds, OF counter_rand_total put] by fastforce
  let ?n = "demo_imds\<lparr>im_store := im_store m1, im_rng := 82\<rparr>"
  obtain c2 n1 where run2: "credentialsFor mem_put counter_rand 0 ?n = (Inr c2, n1)"
    using credentialsFor_fresh [where put = mem_put and m = ?n, OF counter_rand_total put] by fastforce
  have h1: "randomHexString counter_rand 8 (im_rng demo_imds) = (Inr ''0001020304050607'', 8)" by code_simp
  have h2: "randomHexString counter_rand 8 (im_rng ?n) = (Inr ''5253545556575859'', 90)"
    by simp code_simp
  have k: "cr_access_key_id c1 = ''ASIA0001020304050607''" "cr_access_key_id c2 = ''ASIA5253545556575859''"
    using credentialsFor_key [OF h1 _ run1] credentialsFor_key [OF h2 _ run2] by simp_all
  have key: "resolveAccessKeyID [] (signed_header ''ASIA0001020304050607'') = Some (cr_access_key_id c1)"
    unfolding k by (rule signed_header_key) (auto simp: is_space_def)
  have "0 < (0 + sessionCredentialsTTL) div second * second"
    by (simp add: sessionCredentialsTTL_def second_def)
  from imds_nodes_evict_each_other [OF mem.principal_store_axioms _ counter_rand_total short_now _ run1
      _ _ _ run2 _ this key, of "[]" "()"] k
  show ?thesis by (auto simp: mem_ok_def)
qed

end
