(* ===== verification/Json_Patch.thy ===== *)
theory Json_Patch
  imports Go_Json Go_Url
begin

text \<open>
  The part of RFC 6902 (JSON Patch) an admission webhook relies on: the API server applies the
  patch it is sent. A patch is a list of operations; the only one the agent emits is
  \<open>add\<close>. The locale states what adding at a JSON Pointer does, up to the order of object
  members; \<open>rfc6902_add\<close> is an implementation of it.
\<close>

record patchOperation =
  po_op :: string
  po_path :: string
  po_value :: json

text \<open>The reference tokens of a JSON Pointer without escapes.\<close>

definition pointer_tokens :: "string \<Rightarrow> string list option" where
  "pointer_tokens path =
     (case split_all (CHR ''/'') path of
        [] # ts \<Rightarrow> Some ts
      | _ \<Rightarrow> None)"

locale json_patch =
  fixes add :: "string list \<Rightarrow> json \<Rightarrow> json \<Rightarrow> json option"
  assumes add_member:
      "map_wf kvs \<Longrightarrow>
       \<exists>kvs'. add [k] v (JObj kvs) = Some (JObj kvs') \<and> map_wf kvs' \<and> map_of kvs' = (map_of kvs)(k \<mapsto> v)"
    and add_append: "add [''-''] v (JArr js) = Some (JArr (js @ [v]))"
    and in_member:
      "map_wf kvs \<Longrightarrow> ks \<noteq> [] \<Longrightarrow> map_of kvs k = Some j \<Longrightarrow> add ks v j = Some j' \<Longrightarrow>
       \<exists>kvs'. add (k # ks) v (JObj kvs) = Some (JObj kvs') \<and> map_wf kvs' \<and>
         map_of kvs' = (map_of kvs)(k \<mapsto> j')"
    and in_element:
      "i < length js \<Longrightarrow> ks \<noteq> [] \<Longrightarrow> add ks v (js ! i) = Some j' \<Longrightarrow>
       add (string_of_nat i # ks) v (JArr js) = Some (JArr (js[i := j']))"

text \<open>Applying a patch: the operations in order, failing as a whole when one fails.\<close>

fun apply_tokens ::
  "(string list \<Rightarrow> json \<Rightarrow> json \<Rightarrow> json option) \<Rightarrow> (string list \<times> json) list \<Rightarrow> json \<Rightarrow> json option" where
  "apply_tokens add [] j = Some j"
| "apply_tokens add ((ts, v) # ops) j =
     (case add ts v j of None \<Rightarrow> None | Some j1 \<Rightarrow> apply_tokens add ops j1)"

fun apply_patch ::
  "(string list \<Rightarrow> json \<Rightarrow> json \<Rightarrow> json option) \<Rightarrow> patchOperation list \<Rightarrow> json \<Rightarrow> json option" where
  "apply_patch add [] j = Some j"
| "apply_patch add (po # ops) j =
     (if po_op po \<noteq> ''add'' then None
      else
        (case pointer_tokens (po_path po) of
           None \<Rightarrow> None
         | Some ts \<Rightarrow>
             (case add ts (po_value po) j of None \<Rightarrow> None | Some j1 \<Rightarrow> apply_patch add ops j1)))"

section \<open>An implementation\<close>

definition array_index :: "string \<Rightarrow> nat option" where
  "array_index k =
     (if k = [] \<or> (hd k = CHR ''0'' \<and> k \<noteq> ''0'') then None
      else map_option nat (digits_value 0 k))"

fun rfc6902_add :: "string list \<Rightarrow> json \<Rightarrow> json \<Rightarrow> json option" where
  "rfc6902_add [] v j = Some v"
| "rfc6902_add (k # ks) v (JObj kvs) =
     (if ks = [] then Some (JObj (map_set k v kvs))
      else
        (case map_of kvs k of
           None \<Rightarrow> None
         | Some j \<Rightarrow>
             (case rfc6902_add ks v j of None \<Rightarrow> None | Some j' \<Rightarrow> Some (JObj (map_set k j' kvs)))))"
| "rfc6902_add (k # ks) v (JArr js) =
     (if ks = []
      then if k = ''-'' then Some (JArr (js @ [v]))
           else (case array_index k of
                   None \<Rightarrow> None
                 | Some i \<Rightarrow> if i \<le> length js then Some (JArr (take i js @ v # drop i js)) else None)
      else
        (case array_index k of
           None \<Rightarrow> None
         | Some i \<Rightarrow>
             if i < length js
             then (case rfc6902_add ks v (js ! i) of
                     None \<Rightarrow> None
                   | Some j' \<Rightarrow> Some (JArr (js[i := j'])))
             else None))"
| "rfc6902_add (k # ks) v _ = None"

section \<open>Facts\<close>

lemma digit_char_inj: "a < 10 \<Longrightarrow> b < 10 \<Longrightarrow> digit_char a = digit_char b \<Longrightarrow> a = b"
  by (metis digit_char_value option.inject)

lemma string_of_nat_hd: "0 < n \<Longrightarrow> string_of_nat n \<noteq> [] \<and> hd (string_of_nat n) \<noteq> digit_char 0"
proof (induction n rule: less_induct)
  case (less n)
  show ?case
  proof (cases "n < 10")
    case True
    then show ?thesis using less.prems digit_char_inj [of n 0] by (subst (1 2) string_of_nat.simps) auto
  next
    case False
    then have "string_of_nat (n div 10) \<noteq> [] \<and> hd (string_of_nat (n div 10)) \<noteq> digit_char 0"
      by (intro less) simp_all
    with False show ?thesis by (subst (1 2) string_of_nat.simps) simp
  qed
qed

lemma string_of_nat_digits: "c \<in> set (string_of_nat n) \<Longrightarrow> \<exists>d<10. c = digit_char d"
proof (induction n rule: less_induct)
  case (less n)
  show ?case
  proof (cases "n < 10")
    case True
    with less.prems show ?thesis by (subst (asm) string_of_nat.simps) auto
  next
    case False
    with less.prems have "c \<in> set (string_of_nat (n div 10)) \<or> c = digit_char (n mod 10)"
      by (subst (asm) string_of_nat.simps) auto
    then show ?thesis
    proof
      assume "c \<in> set (string_of_nat (n div 10))"
      with less.IH [of "n div 10"] False show ?thesis by simp
    next
      assume "c = digit_char (n mod 10)"
      then show ?thesis by (intro exI [of _ "n mod 10"]) simp
    qed
  qed
qed

lemma string_of_nat_no_slash: "CHR ''/'' \<notin> set (string_of_nat n)"
proof
  assume "CHR ''/'' \<in> set (string_of_nat n)"
  then obtain d where "d < 10" "CHR ''/'' = digit_char d" using string_of_nat_digits by blast
  then have "digit_value (CHR ''/'') = Some d" by (simp add: digit_char_value)
  then show False by (simp add: digit_value_def)
qed

lemma array_index_string_of_nat: "array_index (string_of_nat n) = Some n"
proof (cases n)
  case 0
  have "string_of_nat 0 = ''0''" by code_simp
  moreover have "digits_value 0 ''0'' = Some 0" by code_simp
  ultimately show ?thesis using 0 by (simp add: array_index_def)
next
  case (Suc k)
  have "digit_char 0 = CHR ''0''" by code_simp
  with Suc string_of_nat_hd [of n] show ?thesis
    by (simp add: array_index_def digits_value_string_of_nat)
qed

interpretation rfc6902: json_patch rfc6902_add
proof
  fix kvs :: "(string \<times> json) list" and k v
  assume "map_wf kvs"
  then show "\<exists>kvs'. rfc6902_add [k] v (JObj kvs) = Some (JObj kvs') \<and> map_wf kvs' \<and>
      map_of kvs' = (map_of kvs)(k \<mapsto> v)" by simp
next
  fix kvs :: "(string \<times> json) list" and ks k j v j'
  assume "map_wf kvs" "ks \<noteq> []" "map_of kvs k = Some j" "rfc6902_add ks v j = Some j'"
  then show "\<exists>kvs'. rfc6902_add (k # ks) v (JObj kvs) = Some (JObj kvs') \<and> map_wf kvs' \<and>
      map_of kvs' = (map_of kvs)(k \<mapsto> j')" by simp
qed (simp_all add: array_index_string_of_nat)

text \<open>Appending elements to a list member that is absent when it is empty.\<close>

definition list_at :: "(string \<rightharpoonup> json) \<Rightarrow> string \<Rightarrow> json list \<Rightarrow> bool" where
  "list_at m n js \<longleftrightarrow> m n = (if js = [] then None else Some (JArr js))"

definition grow_ops :: "bool \<Rightarrow> string \<Rightarrow> json list \<Rightarrow> (string list \<times> json) list" where
  "grow_ops absent n xs =
     (if xs = [] then [] else if absent then [([n], JArr xs)] else map (\<lambda>x. ([n, ''-''], x)) xs)"

text \<open>Operations on every element of an array.\<close>

fun element_ops ::
  "nat \<Rightarrow> (string list \<times> json) list list \<Rightarrow> (string list \<times> json) list" where
  "element_ops i [] = []"
| "element_ops i (os # oss) = map (\<lambda>(ts, v). (string_of_nat i # ts, v)) os @ element_ops (Suc i) oss"

text \<open>Operations below one member or one element.\<close>

context json_patch
begin

lemma tokens_in_member:
  assumes "map_wf kvs" and "map_of kvs k = Some j" and "[] \<notin> fst ` set ops"
    and "apply_tokens add ops j = Some j'"
  shows "\<exists>kvs'. apply_tokens add (map (\<lambda>(ts, v). (k # ts, v)) ops) (JObj kvs) = Some (JObj kvs') \<and>
    map_wf kvs' \<and> map_of kvs' = (map_of kvs)(k \<mapsto> j')"
  using assms
proof (induction ops arbitrary: kvs j)
  case Nil
  then show ?case by (simp add: fun_upd_idem)
next
  case (Cons op ops)
  obtain ts v where op: "op = (ts, v)" by (cases op)
  from Cons.prems op obtain j1 where j1: "add ts v j = Some j1" and rest: "apply_tokens add ops j1 = Some j'"
    by (auto split: option.splits)
  have "ts \<noteq> []" using Cons.prems(3) op by force
  from in_member [OF Cons.prems(1) this Cons.prems(2) j1] obtain kvs1 where
    1: "add (k # ts) v (JObj kvs) = Some (JObj kvs1)" "map_wf kvs1" "map_of kvs1 = (map_of kvs)(k \<mapsto> j1)"
    by blast
  have "map_of kvs1 k = Some j1" and "[] \<notin> fst ` set ops" using 1(3) Cons.prems(3) by simp_all
  from Cons.IH [OF 1(2) this rest] obtain kvs' where
    "apply_tokens add (map (\<lambda>(ts, v). (k # ts, v)) ops) (JObj kvs1) = Some (JObj kvs')"
    "map_wf kvs'" "map_of kvs' = (map_of kvs1)(k \<mapsto> j')" by blast
  then have "map_wf kvs'" "map_of kvs' = (map_of kvs)(k \<mapsto> j')"
    and "apply_tokens add (map (\<lambda>(ts, v). (k # ts, v)) (op # ops)) (JObj kvs) = Some (JObj kvs')"
    using 1 op by (auto simp: fun_upd_upd)
  then show ?case by blast
qed

lemma tokens_in_element:
  assumes "i < length js" and "[] \<notin> fst ` set ops"
    and "apply_tokens add ops (js ! i) = Some j'"
  shows "apply_tokens add (map (\<lambda>(ts, v). (string_of_nat i # ts, v)) ops) (JArr js) = Some (JArr (js[i := j']))"
  using assms
proof (induction ops arbitrary: js)
  case Nil
  then show ?case by (auto simp: list_update_id)
next
  case (Cons op ops)
  obtain ts v where op: "op = (ts, v)" by (cases op)
  from Cons.prems op obtain j1 where j1: "add ts v (js ! i) = Some j1"
    and rest: "apply_tokens add ops j1 = Some j'" by (auto split: option.splits)
  have "ts \<noteq> []" using Cons.prems(2) op by force
  with in_element [OF Cons.prems(1) _ j1] have "add (string_of_nat i # ts) v (JArr js) = Some (JArr (js[i := j1]))" .
  with Cons.IH [of "js[i := j1]"] Cons.prems rest op show ?case by simp
qed

lemma tokens_append:
  "apply_tokens add (xs @ ys) j =
   (case apply_tokens add xs j of None \<Rightarrow> None | Some j1 \<Rightarrow> apply_tokens add ys j1)"
  by (induction xs arbitrary: j) (auto split: option.splits)

lemma append_elements:
  "apply_tokens add (map (\<lambda>x. ([''-''], x)) xs) (JArr js) = Some (JArr (js @ xs))"
  by (induction xs arbitrary: js) (simp_all add: add_append)

lemma grow_member:
  assumes "map_wf kvs" and "list_at (map_of kvs) n js"
  shows "\<exists>kvs'. apply_tokens add (grow_ops (js = []) n xs) (JObj kvs) = Some (JObj kvs') \<and>
    map_wf kvs' \<and> map_of kvs' = (map_of kvs)(n := if js @ xs = [] then None else Some (JArr (js @ xs)))"
proof -
  consider "xs = []" | "xs \<noteq> []" "js = []" | "xs \<noteq> []" "js \<noteq> []" by blast
  then show ?thesis
  proof cases
    case 1
    with assms show ?thesis by (auto simp: grow_ops_def list_at_def fun_upd_idem)
  next
    case 2
    with add_member [OF assms(1), of n "JArr xs"] show ?thesis by (auto simp: grow_ops_def)
  next
    case 3
    with assms(2) have at: "map_of kvs n = Some (JArr js)" by (simp add: list_at_def)
    have "[] \<notin> fst ` set (map (\<lambda>x. ([''-''], x)) xs)" by auto
    from tokens_in_member [OF assms(1) at this append_elements] obtain kvs' where
      "apply_tokens add (map (\<lambda>(ts, v). (n # ts, v)) (map (\<lambda>x. ([''-''], x)) xs)) (JObj kvs) = Some (JObj kvs')"
      "map_wf kvs'" "map_of kvs' = (map_of kvs)(n \<mapsto> JArr (js @ xs))" by blast
    with 3 show ?thesis by (intro exI [of _ kvs']) (simp add: grow_ops_def comp_def)
  qed
qed

lemma grow_elements:
  assumes "list_all2 (\<lambda>(os, j) j'. [] \<notin> fst ` set os \<and> apply_tokens add os j = Some j') (zip oss js) js'"
    and "length oss = length js"
  shows "apply_tokens add (element_ops (length done_js) oss) (JArr (done_js @ js)) = Some (JArr (done_js @ js'))"
  using assms
proof (induction oss arbitrary: js js' done_js)
  case (Cons os oss)
  from Cons.prems(2) obtain j js1 where js: "js = j # js1" by (cases js) auto
  with Cons.prems(1) obtain j' js1' where js': "js' = j' # js1'" and os: "[] \<notin> fst ` set os"
    and run: "apply_tokens add os j = Some j'"
    and rest: "list_all2 (\<lambda>(os, j) j'. [] \<notin> fst ` set os \<and> apply_tokens add os j = Some j') (zip oss js1) js1'"
    by (auto simp: list_all2_Cons1)
  have "apply_tokens add (map (\<lambda>(ts, v). (string_of_nat (length done_js) # ts, v)) os) (JArr (done_js @ j # js1)) =
      Some (JArr (done_js @ j' # js1))"
    using tokens_in_element [of "length done_js" "done_js @ j # js1" os j'] os run by simp
  moreover have "apply_tokens add (element_ops (length (done_js @ [j'])) oss) (JArr ((done_js @ [j']) @ js1)) =
      Some (JArr ((done_js @ [j']) @ js1'))"
    using Cons.prems(2) js by (intro Cons.IH [OF rest]) simp
  ultimately show ?case using js js' by (simp add: tokens_append)
qed simp

lemma grow_list_member:
  assumes "map_wf kvs" and "list_at (map_of kvs) n js" and "length oss = length js"
    and "list_all2 (\<lambda>(os, j) j'. [] \<notin> fst ` set os \<and> apply_tokens add os j = Some j') (zip oss js) js'"
  shows "\<exists>kvs'. apply_tokens add (map (\<lambda>(ts, v). (n # ts, v)) (element_ops 0 oss)) (JObj kvs) = Some (JObj kvs') \<and>
    map_wf kvs' \<and> map_of kvs' = (map_of kvs)(n := if js' = [] then None else Some (JArr js'))"
proof (cases "js = []")
  case True
  with assms show ?thesis by (auto simp: list_at_def fun_upd_idem)
next
  case False
  with assms(2) have at: "map_of kvs n = Some (JArr js)" by (simp add: list_at_def)
  have len: "length js' = length js" using assms(3,4) by (auto dest: list_all2_lengthD)
  have ne: "[] \<notin> fst ` set (element_ops i oss)" for i
    by (induction i oss rule: element_ops.induct) auto
  from tokens_in_member [OF assms(1) at ne grow_elements [OF assms(4,3), of "[]", simplified]] False len
  show ?thesis by auto
qed

end

text \<open>From the operations with their textual paths to token lists.\<close>

lemma apply_patch_tokens:
  assumes "list_all2 (\<lambda>po (ts, v). po_op po = ''add'' \<and> pointer_tokens (po_path po) = Some ts \<and> po_value po = v)
    ops tops"
  shows "apply_patch add ops j = apply_tokens add tops j"
  using assms
  by (induction ops tops arbitrary: j rule: list_all2_induct) (auto split: option.splits)

end
