(* ===== verification/Injector.thy ===== *)
theory Injector
  imports Json_Patch Http Eks_Auth
begin

text \<open>
  The mutating admission webhook (\<open>internal/agent/injector.go\<close>): which credential sources
  a pod's ServiceAccount selects, the JSON patch that injects them, and the webhook handler.
  The ServiceAccount lookup, the association store and the API server's patch application are
  parameters. Of the decoded Pod the model keeps what the code reads: the ServiceAccount name
  and the names of the volumes and of each container's variables and mounts.
\<close>

definition DefaultSTSEndpoint :: string where
  "DefaultSTSEndpoint = ''http://fjord-agent.kube-system.svc:8080''"

definition stsEndpointEnvName :: string where
  "stsEndpointEnvName = ''AWS_ENDPOINT_URL_STS''"

definition awsEndpointURLEnvName :: string where
  "awsEndpointURLEnvName = ''AWS_ENDPOINT_URL''"

definition smEndpointEnvName :: string where
  "smEndpointEnvName = ''AWS_SECRETSMANAGER_ENDPOINT''"

definition ssmEndpointEnvName :: string where
  "ssmEndpointEnvName = ''AWS_SSM_ENDPOINT''"

definition stsLegacyEndpointEnvName :: string where
  "stsLegacyEndpointEnvName = ''AWS_STS_ENDPOINT''"

definition roleARNAnnotation :: string where
  "roleARNAnnotation = ''eks.amazonaws.com/role-arn''"

definition defaultServiceAccountName :: string where
  "defaultServiceAccountName = ''default''"

definition admissionReviewAPIVersion :: string where
  "admissionReviewAPIVersion = ''admission.k8s.io/v1''"

definition admissionReviewKind :: string where
  "admissionReviewKind = ''AdmissionReview''"

definition podIdentityFullURIEnvName :: string where
  "podIdentityFullURIEnvName = ''AWS_CONTAINER_CREDENTIALS_FULL_URI''"

definition podIdentityAuthFileEnvName :: string where
  "podIdentityAuthFileEnvName = ''AWS_CONTAINER_AUTHORIZATION_TOKEN_FILE''"

definition podIdentityAuthFileEnvNameGo :: string where
  "podIdentityAuthFileEnvNameGo = ''AWS_CONTAINER_CREDENTIALS_TOKEN_FILE''"

definition podIdentityProjectedVolumeName :: string where
  "podIdentityProjectedVolumeName = ''eks-pod-identity-token''"

definition podIdentityProjectedMountPath :: string where
  "podIdentityProjectedMountPath = ''/var/run/secrets/pods.eks.amazonaws.com/serviceaccount''"

definition podIdentityProjectedFileName :: string where
  "podIdentityProjectedFileName = ''eks-pod-identity-token''"

definition podIdentityTokenExpirationSeconds :: int where
  "podIdentityTokenExpirationSeconds = 3600"

section \<open>What is decoded\<close>

record env_var =
  ev_name :: string
  ev_value :: string

record container =
  ct_env :: "string list"
  ct_volume_mounts :: "string list"

record pod =
  pod_service_account :: string
  pod_containers :: "container list"
  pod_init_containers :: "container list"
  pod_volumes :: "string list"

text \<open>\<open>req_object\<close> is \<open>None\<close> when the request carries no object.\<close>

record admission_request =
  ar_uid :: string
  ar_namespace :: string
  ar_object :: "json option"

text \<open>The name of a list element that is a struct.\<close>

definition named_element :: "json \<Rightarrow> string option" where
  "named_element j = (case struct_members j of None \<Rightarrow> None | Some kvs \<Rightarrow> str_field ''name'' kvs)"

definition container_element :: "json \<Rightarrow> container option" where
  "container_element j =
     (case struct_members j of
        None \<Rightarrow> None
      | Some kvs \<Rightarrow>
          (case (list_field named_element ''env'' kvs, list_field named_element ''volumeMounts'' kvs) of
             (Some env, Some mounts) \<Rightarrow> Some \<lparr>ct_env = env, ct_volume_mounts = mounts\<rparr>
           | _ \<Rightarrow> None))"

definition pod_of_json :: "json \<Rightarrow> pod option" where
  "pod_of_json j =
     (case struct_members j of
        None \<Rightarrow> None
      | Some kvs \<Rightarrow>
          (case nested_members ''spec'' kvs of
             None \<Rightarrow> None
           | Some spec \<Rightarrow>
               (case (str_field ''serviceAccountName'' spec, list_field container_element ''containers'' spec,
                      list_field container_element ''initContainers'' spec,
                      list_field named_element ''volumes'' spec) of
                  (Some sa, Some cs, Some ics, Some vs) \<Rightarrow>
                    Some \<lparr>pod_service_account = sa, pod_containers = cs, pod_init_containers = ics,
                          pod_volumes = vs\<rparr>
                | _ \<Rightarrow> None)))"

definition decodePod :: "admission_request \<Rightarrow> go_error + pod" where
  "decodePod req =
     (case ar_object req of
        None \<Rightarrow> Inl (Errorf ''admission request carries no object'' [])
      | Some j \<Rightarrow>
          (case pod_of_json j of
             None \<Rightarrow> Inl (Wrapf ''unmarshal pod: %w'' [] (Errorf ''json'' []))
           | Some p \<Rightarrow> Inr p))"

text \<open>
  A field of pointer type: \<open>null\<close> makes it nil, a later object is decoded into the struct an
  earlier one allocated. A raw field keeps the last document that is not \<open>null\<close>.
\<close>

fun pointer_members ::
  "(string \<times> json) list option \<Rightarrow> string \<Rightarrow> (string \<times> json) list \<Rightarrow> (string \<times> json) list option option" where
  "pointer_members cur name [] = Some cur"
| "pointer_members cur name ((k, v) # kvs) =
     (if key_matches k name
      then (case v of
              JNull \<Rightarrow> pointer_members None name kvs
            | JObj ms \<Rightarrow>
                pointer_members (Some ((case cur of None \<Rightarrow> [] | Some ms0 \<Rightarrow> ms0) @ ms)) name kvs
            | _ \<Rightarrow> None)
      else pointer_members cur name kvs)"

fun raw_field :: "json option \<Rightarrow> string \<Rightarrow> (string \<times> json) list \<Rightarrow> json option" where
  "raw_field cur name [] = cur"
| "raw_field cur name ((k, v) # kvs) =
     (if key_matches k name \<and> v \<noteq> JNull then raw_field (Some v) name kvs
      else raw_field cur name kvs)"

definition decodeAdmissionReview :: "http_request \<Rightarrow> go_error + admission_request" where
  "decodeAdmissionReview r =
     (case (case req_body r of
              Malformed \<Rightarrow> None
            | Doc j \<Rightarrow>
                (case struct_members j of
                   None \<Rightarrow> None
                 | Some kvs \<Rightarrow> pointer_members None ''request'' kvs)) of
        None \<Rightarrow> Inl (Wrapf ''decode admission review: %w'' [] (Errorf ''json'' []))
      | Some None \<Rightarrow> Inl (Errorf ''admission review carries no request'' [])
      | Some (Some kvs) \<Rightarrow>
          (case (str_field ''uid'' kvs, str_field ''namespace'' kvs) of
             (Some uid, Some ns) \<Rightarrow>
               Inr \<lparr>ar_uid = uid, ar_namespace = ns, ar_object = raw_field None ''object'' kvs\<rparr>
           | _ \<Rightarrow> Inl (Wrapf ''decode admission review: %w'' [] (Errorf ''json'' []))))"

section \<open>Which sources to inject\<close>

record injectionOptions =
  io_sts_endpoint :: string
  io_aws_endpoint_url :: string
  io_inject_pod_identity :: bool

text \<open>The configuration of an \<open>Injector\<close>; a nil association store is \<open>None\<close>.\<close>

record 'w injector =
  in_get_service_account :: "string \<Rightarrow> string \<Rightarrow> 'w \<Rightarrow> (go_error + (string, string) go_map) \<times> 'w"
  in_sts_endpoint :: string
  in_aws_endpoint_url :: string
  in_association_of :: "(string \<times> string \<Rightarrow> 'w \<Rightarrow> (go_error + association) \<times> 'w) option"

definition serviceAccountNeedsInjection :: "(string, string) go_map \<Rightarrow> bool" where
  "serviceAccountNeedsInjection annotations \<longleftrightarrow> map_of annotations roleARNAnnotation \<noteq> None"

definition serviceAccountName :: "pod \<Rightarrow> string" where
  "serviceAccountName p =
     (if pod_service_account p \<noteq> [] then pod_service_account p else defaultServiceAccountName)"

definition needsPodIdentityInjection ::
  "'w injector \<Rightarrow> string \<Rightarrow> string \<Rightarrow> 'w \<Rightarrow> (go_error + bool) \<times> 'w" where
  "needsPodIdentityInjection cfg ns sa w =
     (case in_association_of cfg of
        None \<Rightarrow> (Inr False, w)
      | Some get_by_sa \<Rightarrow>
          (case get_by_sa (ns, sa) w of
             (Inl e, w1) \<Rightarrow>
               if errors_is e ErrPodIdentityAssociationNotFound then (Inr False, w1)
               else (Inl (Wrapf ''look up pod identity association for %s/%s: %w'' [ns, sa] e), w1)
           | (Inr _, w1) \<Rightarrow> (Inr True, w1)))"

definition injectionOptionsFor ::
  "'w injector \<Rightarrow> admission_request \<Rightarrow> 'w \<Rightarrow> (go_error + injectionOptions) \<times> 'w" where
  "injectionOptionsFor cfg req w =
     (case decodePod req of
        Inl e \<Rightarrow> (Inl e, w)
      | Inr p \<Rightarrow>
          (let saName = serviceAccountName p;
               none = \<lparr>io_sts_endpoint = [], io_aws_endpoint_url = [], io_inject_pod_identity = False\<rparr>
           in case in_get_service_account cfg (ar_namespace req) saName w of
             (Inl e, w1) \<Rightarrow>
               if is_not_found e then (Inr none, w1)
               else (Inl (Wrapf ''get %s/%s service account: %w'' [ar_namespace req, saName] e), w1)
           | (Inr annotations, w1) \<Rightarrow>
               (let sts = (if serviceAccountNeedsInjection annotations then in_sts_endpoint cfg else [])
                in case needsPodIdentityInjection cfg (ar_namespace req) saName w1 of
                  (Inl e, w2) \<Rightarrow> (Inl e, w2)
                | (Inr inject, w2) \<Rightarrow>
                    (Inr \<lparr>io_sts_endpoint = sts,
                          io_aws_endpoint_url =
                            (if (sts \<noteq> [] \<or> inject) \<and> in_aws_endpoint_url cfg \<noteq> []
                             then in_aws_endpoint_url cfg else []),
                          io_inject_pod_identity = inject\<rparr>, w2))))"

section \<open>The patch\<close>

definition env_var_json :: "env_var \<Rightarrow> json" where
  "env_var_json e =
     JObj (str_member ''name'' (ev_name e) @ str_member_omitempty ''value'' (ev_value e))"

definition volume_mount_json :: json where
  "volume_mount_json =
     JObj [(''name'', JStr podIdentityProjectedVolumeName), (''readOnly'', JBool True),
           (''mountPath'', JStr podIdentityProjectedMountPath)]"

definition token_volume_json :: json where
  "token_volume_json =
     JObj
       [(''name'', JStr podIdentityProjectedVolumeName),
        (''projected'',
         JObj
           [(''sources'',
             JArr
               [JObj
                 [(''serviceAccountToken'',
                   JObj [(''audience'', JStr podIdentityAudience),
                         (''expirationSeconds'', JNum podIdentityTokenExpirationSeconds),
                         (''path'', JStr podIdentityProjectedFileName)])]])])]"

definition desiredEnvVars :: "injectionOptions \<Rightarrow> env_var list" where
  "desiredEnvVars opts =
     (let sts = io_sts_endpoint opts;
          aws = io_aws_endpoint_url opts;
          tokenFile = podIdentityProjectedMountPath @ ''/'' @ podIdentityProjectedFileName
      in (if sts \<noteq> []
          then [\<lparr>ev_name = stsEndpointEnvName, ev_value = sts\<rparr>,
                \<lparr>ev_name = stsLegacyEndpointEnvName, ev_value = sts\<rparr>]
          else []) @
         (if aws \<noteq> []
          then [\<lparr>ev_name = awsEndpointURLEnvName, ev_value = aws\<rparr>,
                \<lparr>ev_name = smEndpointEnvName, ev_value = aws\<rparr>,
                \<lparr>ev_name = ssmEndpointEnvName, ev_value = aws\<rparr>]
          else []) @
         (if io_inject_pod_identity opts
          then [\<lparr>ev_name = podIdentityFullURIEnvName, ev_value = DefaultPodIdentityFullURI\<rparr>,
                \<lparr>ev_name = podIdentityAuthFileEnvName, ev_value = tokenFile\<rparr>,
                \<lparr>ev_name = podIdentityAuthFileEnvNameGo, ev_value = tokenFile\<rparr>]
          else []))"

fun hasEnvVar :: "string list \<Rightarrow> string \<Rightarrow> bool" where
  "hasEnvVar [] name = False"
| "hasEnvVar (e # env) name = (e = name \<or> hasEnvVar env name)"

fun hasVolume :: "string list \<Rightarrow> string \<Rightarrow> bool" where
  "hasVolume [] name = False"
| "hasVolume (v # volumes) name = (v = name \<or> hasVolume volumes name)"

fun hasVolumeMount :: "string list \<Rightarrow> string \<Rightarrow> bool" where
  "hasVolumeMount [] name = False"
| "hasVolumeMount (m # mounts) name = (m = name \<or> hasVolumeMount mounts name)"

definition add_op :: "string \<Rightarrow> json \<Rightarrow> patchOperation" where
  "add_op path v = \<lparr>po_op = ''add'', po_path = path, po_value = v\<rparr>"

text \<open>The loops over the containers carry the index of the container.\<close>

fun containerEnvPatchOps_from ::
  "nat \<Rightarrow> string \<Rightarrow> container list \<Rightarrow> env_var list \<Rightarrow> patchOperation list" where
  "containerEnvPatchOps_from i basePath [] envVars = []"
| "containerEnvPatchOps_from i basePath (c # cs) envVars =
     (let toAdd = filter (\<lambda>e. \<not> hasEnvVar (ct_env c) (ev_name e)) envVars in
      (if toAdd = [] then []
       else if ct_env c = []
       then [add_op (basePath @ ''/'' @ string_of_nat i @ ''/env'') (JArr (map env_var_json toAdd))]
       else map (\<lambda>e. add_op (basePath @ ''/'' @ string_of_nat i @ ''/env/-'') (env_var_json e)) toAdd) @
      containerEnvPatchOps_from (Suc i) basePath cs envVars)"

definition containerEnvPatchOps ::
  "string \<Rightarrow> container list \<Rightarrow> env_var list \<Rightarrow> patchOperation list" where
  "containerEnvPatchOps = containerEnvPatchOps_from 0"

fun containerVolumeMountPatchOps_from :: "nat \<Rightarrow> string \<Rightarrow> container list \<Rightarrow> patchOperation list" where
  "containerVolumeMountPatchOps_from i basePath [] = []"
| "containerVolumeMountPatchOps_from i basePath (c # cs) =
     (if hasVolumeMount (ct_volume_mounts c) podIdentityProjectedVolumeName then []
      else if ct_volume_mounts c = []
      then [add_op (basePath @ ''/'' @ string_of_nat i @ ''/volumeMounts'') (JArr [volume_mount_json])]
      else [add_op (basePath @ ''/'' @ string_of_nat i @ ''/volumeMounts/-'') volume_mount_json]) @
     containerVolumeMountPatchOps_from (Suc i) basePath cs"

definition containerVolumeMountPatchOps :: "string \<Rightarrow> container list \<Rightarrow> patchOperation list" where
  "containerVolumeMountPatchOps = containerVolumeMountPatchOps_from 0"

definition addVolumeOp :: "string list \<Rightarrow> patchOperation" where
  "addVolumeOp volumes =
     (if volumes = [] then add_op ''/spec/volumes'' (JArr [token_volume_json])
      else add_op ''/spec/volumes/-'' token_volume_json)"

definition podIdentityVolumePatchOps :: "pod \<Rightarrow> patchOperation list" where
  "podIdentityVolumePatchOps p =
     (if hasVolume (pod_volumes p) podIdentityProjectedVolumeName then []
      else [addVolumeOp (pod_volumes p)]) @
     containerVolumeMountPatchOps ''/spec/containers'' (pod_containers p) @
     containerVolumeMountPatchOps ''/spec/initContainers'' (pod_init_containers p)"

text \<open>The empty list stands for the nil patch.\<close>

definition buildInjectionPatch ::
  "admission_request \<Rightarrow> injectionOptions \<Rightarrow> go_error + patchOperation list" where
  "buildInjectionPatch req opts =
     (if io_sts_endpoint opts = [] \<and> \<not> io_inject_pod_identity opts then Inr []
      else
        (case decodePod req of
           Inl e \<Rightarrow> Inl e
         | Inr p \<Rightarrow>
             (let envVars = desiredEnvVars opts
              in Inr (containerEnvPatchOps ''/spec/containers'' (pod_containers p) envVars @
                      containerEnvPatchOps ''/spec/initContainers'' (pod_init_containers p) envVars @
                      (if io_inject_pod_identity opts then podIdentityVolumePatchOps p else [])))))"

section \<open>The handler\<close>

definition patch_json :: "patchOperation list \<Rightarrow> json" where
  "patch_json ops =
     JArr (map (\<lambda>po. JObj [(''op'', JStr (po_op po)), (''path'', JStr (po_path po)),
                          (''value'', po_value po)]) ops)"

text \<open>\<open>bytes_text\<close> is the base64 text under which the marshaled patch is embedded.\<close>

definition writeAdmissionResponse ::
  "(json \<Rightarrow> string) \<Rightarrow> string \<Rightarrow> patchOperation list \<Rightarrow> http_response" where
  "writeAdmissionResponse bytes_text uid ops =
     write_json_response
       (JObj
         [(''kind'', JStr admissionReviewKind), (''apiVersion'', JStr admissionReviewAPIVersion),
          (''response'',
           JObj
             ([(''uid'', JStr uid), (''allowed'', JBool True)] @
              (if ops = [] then []
               else [(''patch'', JStr (bytes_text (patch_json ops))),
                     (''patchType'', JStr ''JSONPatch'')])))])"

definition handleInject ::
  "(json \<Rightarrow> string) \<Rightarrow> 'w injector \<Rightarrow> http_request \<Rightarrow> 'w \<Rightarrow> http_response \<times> 'w" where
  "handleInject bytes_text cfg r w =
     (case decodeAdmissionReview r of
        Inl e \<Rightarrow> (http_plain_error (MsgErr [] e) 400, w)
      | Inr req \<Rightarrow>
          (case injectionOptionsFor cfg req w of
             (Inl e, w1) \<Rightarrow> (http_plain_error (MsgErr [] e) 500, w1)
           | (Inr opts, w1) \<Rightarrow>
               (case buildInjectionPatch req opts of
                  Inl e \<Rightarrow> (http_plain_error (MsgErr [] e) 500, w1)
                | Inr ops \<Rightarrow> (writeAdmissionResponse bytes_text (ar_uid req) ops, w1))))"

section \<open>Pods as documents\<close>

text \<open>
  The documents the API server sends: member names are spelt as in the schema and are unique,
  an empty list is left out. A view of such a document keeps the elements of the lists the
  webhook extends and every other member.
\<close>

definition exact :: "string list \<Rightarrow> (string \<rightharpoonup> json) \<Rightarrow> bool" where
  "exact names m \<longleftrightarrow> (\<forall>k n. m k \<noteq> None \<longrightarrow> n \<in> set names \<longrightarrow> key_matches k n \<longrightarrow> k = n)"

definition elem_name :: "json \<Rightarrow> string" where
  "elem_name j = (case named_element j of None \<Rightarrow> [] | Some n \<Rightarrow> n)"

definition all_named :: "json list \<Rightarrow> bool" where
  "all_named js \<longleftrightarrow> (\<forall>j \<in> set js. named_element j \<noteq> None)"

record container_view =
  cv_env :: "json list"
  cv_mounts :: "json list"
  cv_rest :: "string \<rightharpoonup> json"

record pod_view =
  pv_service_account :: string
  pv_containers :: "container_view list"
  pv_init_containers :: "container_view list"
  pv_volumes :: "json list"
  pv_spec_rest :: "string \<rightharpoonup> json"
  pv_rest :: "string \<rightharpoonup> json"

definition container_names :: "string list" where
  "container_names = [''env'', ''volumeMounts'']"

definition spec_names :: "string list" where
  "spec_names = [''serviceAccountName'', ''containers'', ''initContainers'', ''volumes'']"

definition container_members :: "container_view \<Rightarrow> (string \<rightharpoonup> json) \<Rightarrow> bool" where
  "container_members cv m \<longleftrightarrow>
     exact container_names m \<and> list_at m ''env'' (cv_env cv) \<and> list_at m ''volumeMounts'' (cv_mounts cv) \<and>
     all_named (cv_env cv) \<and> all_named (cv_mounts cv) \<and>
     (\<forall>k. k \<notin> set container_names \<longrightarrow> m k = cv_rest cv k)"

definition container_doc :: "container_view \<Rightarrow> json \<Rightarrow> bool" where
  "container_doc cv j \<longleftrightarrow> (\<exists>kvs. j = JObj kvs \<and> map_wf kvs \<and> container_members cv (map_of kvs))"

definition spec_members :: "pod_view \<Rightarrow> (string \<rightharpoonup> json) \<Rightarrow> bool" where
  "spec_members pv m \<longleftrightarrow>
     exact spec_names m \<and>
     m ''serviceAccountName'' =
       (if pv_service_account pv = [] then None else Some (JStr (pv_service_account pv))) \<and>
     (\<exists>cs. list_at m ''containers'' cs \<and> list_all2 container_doc (pv_containers pv) cs) \<and>
     (\<exists>cs. list_at m ''initContainers'' cs \<and> list_all2 container_doc (pv_init_containers pv) cs) \<and>
     list_at m ''volumes'' (pv_volumes pv) \<and> all_named (pv_volumes pv) \<and>
     (\<forall>k. k \<notin> set spec_names \<longrightarrow> m k = pv_spec_rest pv k)"

definition pod_doc :: "pod_view \<Rightarrow> json \<Rightarrow> bool" where
  "pod_doc pv j \<longleftrightarrow>
     (\<exists>kvs spec. j = JObj kvs \<and> map_wf kvs \<and> exact [''spec''] (map_of kvs) \<and>
        map_of kvs ''spec'' = Some (JObj spec) \<and> map_wf spec \<and> spec_members pv (map_of spec) \<and>
        (\<forall>k. k \<noteq> ''spec'' \<longrightarrow> map_of kvs k = pv_rest pv k))"

text \<open>What the code sees of a view.\<close>

definition container_of :: "container_view \<Rightarrow> container" where
  "container_of cv = \<lparr>ct_env = map elem_name (cv_env cv), ct_volume_mounts = map elem_name (cv_mounts cv)\<rparr>"

definition pod_of :: "pod_view \<Rightarrow> pod" where
  "pod_of pv =
     \<lparr>pod_service_account = pv_service_account pv, pod_containers = map container_of (pv_containers pv),
      pod_init_containers = map container_of (pv_init_containers pv),
      pod_volumes = map elem_name (pv_volumes pv)\<rparr>"

text \<open>What the injection is to achieve.\<close>

definition missing_vars :: "env_var list \<Rightarrow> container_view \<Rightarrow> json list" where
  "missing_vars envs cv = map env_var_json (filter (\<lambda>e. ev_name e \<notin> elem_name ` set (cv_env cv)) envs)"

definition missing_named :: "json \<Rightarrow> json list \<Rightarrow> json list" where
  "missing_named x js = (if elem_name x \<in> elem_name ` set js then [] else [x])"

definition inject_env :: "env_var list \<Rightarrow> container_view \<Rightarrow> container_view" where
  "inject_env envs cv = cv\<lparr>cv_env := cv_env cv @ missing_vars envs cv\<rparr>"

definition inject_mount :: "container_view \<Rightarrow> container_view" where
  "inject_mount cv = cv\<lparr>cv_mounts := cv_mounts cv @ missing_named volume_mount_json (cv_mounts cv)\<rparr>"

definition injected_container :: "injectionOptions \<Rightarrow> container_view \<Rightarrow> container_view" where
  "injected_container opts cv =
     (let cv1 = inject_env (desiredEnvVars opts) cv
      in if io_inject_pod_identity opts then inject_mount cv1 else cv1)"

definition injected_pod :: "injectionOptions \<Rightarrow> pod_view \<Rightarrow> pod_view" where
  "injected_pod opts pv =
     pv\<lparr>pv_containers := map (injected_container opts) (pv_containers pv),
        pv_init_containers := map (injected_container opts) (pv_init_containers pv),
        pv_volumes := pv_volumes pv @
          (if io_inject_pod_identity opts then missing_named token_volume_json (pv_volumes pv) else [])\<rparr>"

section \<open>Facts\<close>

lemma hasEnvVar_iff [simp]: "hasEnvVar env n \<longleftrightarrow> n \<in> set env"
  by (induction env) auto

lemma hasVolume_iff [simp]: "hasVolume vs n \<longleftrightarrow> n \<in> set vs"
  by (induction vs) auto

lemma hasVolumeMount_iff [simp]: "hasVolumeMount ms n \<longleftrightarrow> n \<in> set ms"
  by (induction ms) auto

lemma named_elements [simp]:
  "named_element (env_var_json e) = Some (ev_name e)"
  "named_element volume_mount_json = Some podIdentityProjectedVolumeName"
  "named_element token_volume_json = Some podIdentityProjectedVolumeName"
  by (simp_all add: named_element_def env_var_json_def volume_mount_json_def token_volume_json_def json_codec)

lemma elem_names [simp]:
  "elem_name (env_var_json e) = ev_name e"
  "elem_name volume_mount_json = podIdentityProjectedVolumeName"
  "elem_name token_volume_json = podIdentityProjectedVolumeName"
  by (simp_all add: elem_name_def)

lemma all_named_append [simp]: "all_named (xs @ ys) \<longleftrightarrow> all_named xs \<and> all_named ys"
  by (auto simp: all_named_def)

lemma all_named_missing [simp]: "all_named (missing_vars envs cv)"
  "all_named (missing_named volume_mount_json js)" "all_named (missing_named token_volume_json js)"
  by (auto simp: all_named_def missing_vars_def missing_named_def)

lemma map_result_named: "all_named js \<Longrightarrow> map_result named_element js = Some (map elem_name js)"
  by (induction js) (auto simp: all_named_def elem_name_def)

subsection \<open>Decoding\<close>

lemma no_key_matches:
  assumes "exact names (map_of kvs)" and "n \<in> set names" and "map_wf kvs" and "map_of kvs n = None"
    and "(k, v) \<in> set kvs"
  shows "\<not> key_matches k n"
proof
  assume "key_matches k n"
  moreover have "map_of kvs k \<noteq> None" using assms(3,5) by (simp add: map_wf_mem_iff)
  ultimately have "k = n" using assms(1,2) by (auto simp: exact_def)
  with \<open>map_of kvs k \<noteq> None\<close> assms(4) show False by simp
qed

lemma split_at_key:
  assumes "exact names (map_of kvs)" and "n \<in> set names" and "map_wf kvs" and "map_of kvs n = Some v"
  shows "\<exists>xs ys. kvs = xs @ (n, v) # ys \<and> (\<forall>(k, v) \<in> set (xs @ ys). \<not> key_matches k n)"
proof -
  from assms(3,4) have "(n, v) \<in> set kvs" by (simp add: map_wf_mem_iff)
  then obtain xs ys where kvs: "kvs = xs @ (n, v) # ys" by (auto dest: split_list)
  have "\<not> key_matches k n" if "(k, u) \<in> set (xs @ ys)" for k u
  proof
    assume m: "key_matches k n"
    from that kvs have mem: "(k, u) \<in> set kvs" by auto
    with assms(3) have "map_of kvs k \<noteq> None" by (simp add: map_wf_mem_iff)
    with m assms(1,2) have "k = n" by (auto simp: exact_def)
    with that have "n \<in> fst ` set (xs @ ys)" by (metis fst_conv image_eqI)
    moreover from assms(3) kvs have "n \<notin> fst ` set (xs @ ys)" by (simp add: map_wf_def image_Un)
    ultimately show False by contradiction
  qed
  with kvs show ?thesis by blast
qed

lemma list_field_at:
  assumes "exact names (map_of kvs)" and "n \<in> set names" and "map_wf kvs"
    and "list_at (map_of kvs) n js" and "map_result f js = Some xs"
  shows "list_field f n kvs = Some xs"
proof (cases "js = []")
  case True
  with assms(4) have "map_of kvs n = None" by (simp add: list_at_def)
  then have "\<forall>(k, v) \<in> set kvs. \<not> key_matches k n" using no_key_matches [OF assms(1-3)] by blast
  then have "list_field_from cur f n kvs = Some cur" for cur
    by (induction kvs) auto
  with True assms(5) show ?thesis by (simp add: list_field_def)
next
  case False
  with assms(4) have "map_of kvs n = Some (JArr js)" by (simp add: list_at_def)
  from split_at_key [OF assms(1-3) this] obtain as bs where kvs: "kvs = as @ (n, JArr js) # bs"
    and no: "\<forall>(k, v) \<in> set (as @ bs). \<not> key_matches k n" by blast
  have skip: "list_field_from cur f n zs = Some cur" if "\<forall>(k, v) \<in> set zs. \<not> key_matches k n" for cur zs
    using that by (induction zs) auto
  from no show ?thesis by (simp add: list_field_def kvs list_field_from_append skip assms(5))
qed

lemma str_field_at:
  assumes "exact names (map_of kvs)" and "n \<in> set names" and "map_wf kvs"
    and "map_of kvs n = (if s = [] then None else Some (JStr s))"
  shows "str_field n kvs = Some s"
proof -
  have skip: "str_field_from cur n zs = Some cur" if "\<forall>(k, v) \<in> set zs. \<not> key_matches k n" for cur zs
    using that by (induction zs) auto
  show ?thesis
  proof (cases "s = []")
    case True
    with assms(4) no_key_matches [OF assms(1-3)] have "\<forall>(k, v) \<in> set kvs. \<not> key_matches k n" by auto
    with skip True show ?thesis by (simp add: str_field_def)
  next
    case False
    with assms(4) have "map_of kvs n = Some (JStr s)" by simp
    from split_at_key [OF assms(1-3) this] obtain as bs where kvs: "kvs = as @ (n, JStr s) # bs"
      and no: "\<forall>(k, v) \<in> set (as @ bs). \<not> key_matches k n" by blast
    from no show ?thesis by (simp add: str_field_def kvs str_field_from_append skip)
  qed
qed

lemma spec_at:
  assumes "exact [n] (map_of kvs)" and "map_wf kvs" and "map_of kvs n = Some (JObj ms)"
  shows "nested_members n kvs = Some ms"
proof -
  have skip: "nested_members n zs = Some []" if "\<forall>(k, v) \<in> set zs. \<not> key_matches k n" for zs
    using that by (induction zs) auto
  from split_at_key [OF assms(1) _ assms(2,3)] obtain as bs where kvs: "kvs = as @ (n, JObj ms) # bs"
    and no: "\<forall>(k, v) \<in> set (as @ bs). \<not> key_matches k n" by auto
  from no have "nested_members n (as @ (n, JObj ms) # bs) = Some ms"
    by (induction as) (auto simp: skip)
  with kvs show ?thesis by simp
qed

lemma names_mem:
  "''env'' \<in> set container_names" "''volumeMounts'' \<in> set container_names"
  "''serviceAccountName'' \<in> set spec_names" "''containers'' \<in> set spec_names"
  "''initContainers'' \<in> set spec_names" "''volumes'' \<in> set spec_names"
  by (simp_all add: container_names_def spec_names_def)

lemma container_element_doc:
  assumes "container_doc cv j"
  shows "container_element j = Some (container_of cv)"
proof -
  from assms obtain kvs where j: "j = JObj kvs" and wf: "map_wf kvs" and m: "container_members cv (map_of kvs)"
    unfolding container_doc_def by blast
  from m have ex: "exact container_names (map_of kvs)"
    and env: "list_at (map_of kvs) ''env'' (cv_env cv)" "all_named (cv_env cv)"
    and mounts: "list_at (map_of kvs) ''volumeMounts'' (cv_mounts cv)" "all_named (cv_mounts cv)"
    unfolding container_members_def by blast+
  have "list_field named_element ''env'' kvs = Some (map elem_name (cv_env cv))"
    by (rule list_field_at [OF ex names_mem(1) wf env(1) map_result_named [OF env(2)]])
  moreover have "list_field named_element ''volumeMounts'' kvs = Some (map elem_name (cv_mounts cv))"
    by (rule list_field_at [OF ex names_mem(2) wf mounts(1) map_result_named [OF mounts(2)]])
  ultimately show ?thesis using j by (simp add: container_element_def container_of_def)
qed

lemma container_elements: "list_all2 container_doc cvs js \<Longrightarrow> map_result container_element js = Some (map container_of cvs)"
  by (induction rule: list_all2_induct) (simp_all add: container_element_doc)

lemma pod_of_doc:
  assumes "pod_doc pv j"
  shows "pod_of_json j = Some (pod_of pv)"
proof -
  from assms obtain kvs spec where j: "j = JObj kvs" and wft: "map_wf kvs"
    and ext: "exact [''spec''] (map_of kvs)" and at: "map_of kvs ''spec'' = Some (JObj spec)"
    and wf: "map_wf spec" and m: "spec_members pv (map_of spec)"
    unfolding pod_doc_def by blast
  note top = spec_at [OF ext wft at]
  from m obtain cs ics where ex: "exact spec_names (map_of spec)"
    and sam: "map_of spec ''serviceAccountName'' =
       (if pv_service_account pv = [] then None else Some (JStr (pv_service_account pv)))"
    and cs: "list_at (map_of spec) ''containers'' cs" "list_all2 container_doc (pv_containers pv) cs"
    and ics: "list_at (map_of spec) ''initContainers'' ics" "list_all2 container_doc (pv_init_containers pv) ics"
    and vs: "list_at (map_of spec) ''volumes'' (pv_volumes pv)" "all_named (pv_volumes pv)"
    unfolding spec_members_def by blast
  note sa = str_field_at [OF ex names_mem(3) wf sam]
  have "list_field container_element ''containers'' spec = Some (map container_of (pv_containers pv))"
    by (rule list_field_at [OF ex names_mem(4) wf cs(1) container_elements [OF cs(2)]])
  moreover have "list_field container_element ''initContainers'' spec = Some (map container_of (pv_init_containers pv))"
    by (rule list_field_at [OF ex names_mem(5) wf ics(1) container_elements [OF ics(2)]])
  moreover have "list_field named_element ''volumes'' spec = Some (map elem_name (pv_volumes pv))"
    by (rule list_field_at [OF ex names_mem(6) wf vs(1) map_result_named [OF vs(2)]])
  ultimately show ?thesis using j top sa by (simp add: pod_of_json_def pod_of_def)
qed

subsection \<open>The operations as token lists\<close>

definition env_tokens :: "env_var list \<Rightarrow> container \<Rightarrow> (string list \<times> json) list" where
  "env_tokens envs c =
     grow_ops (ct_env c = []) ''env'' (map env_var_json (filter (\<lambda>e. ev_name e \<notin> set (ct_env c)) envs))"

definition mount_tokens :: "container \<Rightarrow> (string list \<times> json) list" where
  "mount_tokens c =
     grow_ops (ct_volume_mounts c = []) ''volumeMounts''
       (if podIdentityProjectedVolumeName \<in> set (ct_volume_mounts c) then [] else [volume_mount_json])"

definition rendered :: "patchOperation \<Rightarrow> string list \<times> json \<Rightarrow> bool" where
  "rendered po t \<longleftrightarrow> po_op po = ''add'' \<and> pointer_tokens (po_path po) = Some (fst t) \<and> po_value po = snd t"

lemma pointer_tokens_slash: "pointer_tokens (CHR ''/'' # s) = Some (split_all (CHR ''/'') s)"
  by (simp add: pointer_tokens_def)

lemma rendered_at:
  assumes "pointer_tokens base = Some bs" and "CHR ''/'' \<notin> set s"
  shows "pointer_tokens (base @ CHR ''/'' # s) = Some (bs @ [s])"
proof -
  from assms show ?thesis
    by (auto simp: pointer_tokens_def split_all_join split_all_plain split: list.splits)
qed

lemma env_ops_rendered:
  assumes "pointer_tokens base = Some bs"
  shows "list_all2 rendered (containerEnvPatchOps_from i base cs envs)
    (map (\<lambda>(ts, v). (bs @ ts, v)) (element_ops i (map (env_tokens envs) cs)))"
proof (induction cs arbitrary: i)
  case (Cons c cs)
  have p1: "pointer_tokens (base @ ''/'' @ string_of_nat i @ ''/env'') = Some (bs @ [string_of_nat i, ''env''])"
    using rendered_at [OF rendered_at [OF assms string_of_nat_no_slash], of "''env''" i] by simp
  have "pointer_tokens ((base @ ''/'' @ string_of_nat i @ ''/env'') @ CHR ''/'' # ''-'') =
      Some ((bs @ [string_of_nat i, ''env'']) @ [''-''])"
    by (rule rendered_at [OF p1]) simp
  then have p2: "pointer_tokens (base @ ''/'' @ string_of_nat i @ ''/env/-'') =
      Some (bs @ [string_of_nat i, ''env'', ''-''])" by simp
  have "list_all2 rendered
      (let toAdd = filter (\<lambda>e. \<not> hasEnvVar (ct_env c) (ev_name e)) envs in
       if toAdd = [] then []
       else if ct_env c = []
       then [add_op (base @ ''/'' @ string_of_nat i @ ''/env'') (JArr (map env_var_json toAdd))]
       else map (\<lambda>e. add_op (base @ ''/'' @ string_of_nat i @ ''/env/-'') (env_var_json e)) toAdd)
      (map (\<lambda>(ts, v). (bs @ ts, v)) (map (\<lambda>(ts, v). (string_of_nat i # ts, v)) (env_tokens envs c)))"
    using p1 p2
    by (auto simp: Let_def env_tokens_def grow_ops_def rendered_def add_op_def list_all2_map1 list_all2_map2
        list_all2_same filter_empty_conv)
  with Cons show ?case by (simp add: list_all2_appendI Let_def)
qed simp

lemma mount_ops_rendered:
  assumes "pointer_tokens base = Some bs"
  shows "list_all2 rendered (containerVolumeMountPatchOps_from i base cs)
    (map (\<lambda>(ts, v). (bs @ ts, v)) (element_ops i (map mount_tokens cs)))"
proof (induction cs arbitrary: i)
  case (Cons c cs)
  have p1: "pointer_tokens (base @ ''/'' @ string_of_nat i @ ''/volumeMounts'') =
      Some (bs @ [string_of_nat i, ''volumeMounts''])"
    using rendered_at [OF rendered_at [OF assms string_of_nat_no_slash], of "''volumeMounts''" i] by simp
  have "pointer_tokens ((base @ ''/'' @ string_of_nat i @ ''/volumeMounts'') @ CHR ''/'' # ''-'') =
      Some ((bs @ [string_of_nat i, ''volumeMounts'']) @ [''-''])"
    by (rule rendered_at [OF p1]) simp
  then have p2: "pointer_tokens (base @ ''/'' @ string_of_nat i @ ''/volumeMounts/-'') =
      Some (bs @ [string_of_nat i, ''volumeMounts'', ''-''])" by simp
  have "list_all2 rendered
      (if hasVolumeMount (ct_volume_mounts c) podIdentityProjectedVolumeName then []
       else if ct_volume_mounts c = []
       then [add_op (base @ ''/'' @ string_of_nat i @ ''/volumeMounts'') (JArr [volume_mount_json])]
       else [add_op (base @ ''/'' @ string_of_nat i @ ''/volumeMounts/-'') volume_mount_json])
      (map (\<lambda>(ts, v). (bs @ ts, v)) (map (\<lambda>(ts, v). (string_of_nat i # ts, v)) (mount_tokens c)))"
    using p1 p2 by (auto simp: mount_tokens_def grow_ops_def rendered_def add_op_def)
  with Cons show ?case by (simp add: list_all2_appendI)
qed simp

subsection \<open>Updating views\<close>

lemma exact_upd:
  assumes "exact names m" and "n \<in> set names" and "\<forall>a \<in> set names. \<forall>b \<in> set names. key_matches a b \<longrightarrow> a = b"
  shows "exact names (m(n := x))"
  unfolding exact_def
proof (intro allI impI)
  fix k b assume "(m(n := x)) k \<noteq> None" and b: "b \<in> set names" "key_matches k b"
  then consider "k = n" | "m k \<noteq> None" by (auto split: if_splits)
  then show "k = b"
  proof cases
    case 1
    with assms(2,3) b show ?thesis by blast
  next
    case 2
    with assms(1) b show ?thesis unfolding exact_def by blast
  qed
qed

lemma names_apart:
  "\<forall>a \<in> set container_names. \<forall>b \<in> set container_names. key_matches a b \<longrightarrow> a = b"
  "\<forall>a \<in> set spec_names. \<forall>b \<in> set spec_names. key_matches a b \<longrightarrow> a = b"
  "\<forall>a \<in> set [''spec'']. \<forall>b \<in> set [''spec'']. key_matches a b \<longrightarrow> a = b"
proof -
  have *: "\<forall>a \<in> set names. \<forall>b \<in> set names. key_matches a b \<longrightarrow> a = b" if "distinct (map to_upper names)" for names
    using that by (auto simp: key_matches_def distinct_map dest: inj_onD)
  have "distinct (map to_upper container_names)" and "distinct (map to_upper spec_names)" by code_simp+
  then show "\<forall>a \<in> set container_names. \<forall>b \<in> set container_names. key_matches a b \<longrightarrow> a = b"
    and "\<forall>a \<in> set spec_names. \<forall>b \<in> set spec_names. key_matches a b \<longrightarrow> a = b"
    using * by blast+
qed simp

lemma list_at_upd:
  "list_at (m(n := if js = [] then None else Some (JArr js))) n js"
  "n' \<noteq> n \<Longrightarrow> list_at (m(n := x)) n' js' \<longleftrightarrow> list_at m n' js'"
  by (simp_all add: list_at_def)

lemma names_ne [simp]:
  "''volumeMounts'' \<noteq> ''env''" "''initContainers'' \<noteq> ''containers''" "''volumes'' \<noteq> ''containers''"
  "''volumes'' \<noteq> ''initContainers''" "''serviceAccountName'' \<noteq> ''containers''"
  "''serviceAccountName'' \<noteq> ''initContainers''" "''serviceAccountName'' \<noteq> ''volumes''"
  by simp_all

lemma container_members_env:
  assumes "container_members cv m" and "all_named (cv_env cv @ js)"
  shows "container_members (cv\<lparr>cv_env := cv_env cv @ js\<rparr>)
    (m(''env'' := if cv_env cv @ js = [] then None else Some (JArr (cv_env cv @ js))))"
proof -
  note m = assms(1) [unfolded container_members_def]
  have "k \<notin> set container_names \<Longrightarrow> k \<noteq> ''env''" for k using names_mem by blast
  then show ?thesis
    unfolding container_members_def using m assms(2) exact_upd [OF conjunct1 [OF m] names_mem(1) names_apart(1)]
    by (simp only: list_at_upd names_ne container_view.simps container_view.update_convs fun_upd_other simp_thms)
      (simp add: list_at_def)
qed

lemma container_members_mounts:
  assumes "container_members cv m" and "all_named (cv_mounts cv @ js)"
  shows "container_members (cv\<lparr>cv_mounts := cv_mounts cv @ js\<rparr>)
    (m(''volumeMounts'' := if cv_mounts cv @ js = [] then None else Some (JArr (cv_mounts cv @ js))))"
proof -
  note m = assms(1) [unfolded container_members_def]
  have "k \<notin> set container_names \<Longrightarrow> k \<noteq> ''volumeMounts''" for k using names_mem by blast
  then show ?thesis
    unfolding container_members_def using m assms(2) exact_upd [OF conjunct1 [OF m] names_mem(2) names_apart(1)]
    by (simp only: list_at_upd names_ne [symmetric] container_view.simps container_view.update_convs fun_upd_other simp_thms)
      (simp add: list_at_def)
qed

lemma spec_members_containers:
  assumes "spec_members pv m" and "list_all2 container_doc cvs js"
  shows "spec_members (pv\<lparr>pv_containers := cvs\<rparr>) (m(''containers'' := if js = [] then None else Some (JArr js)))"
proof -
  note m = assms(1) [unfolded spec_members_def]
  have "k \<notin> set spec_names \<Longrightarrow> k \<noteq> ''containers''" for k using names_mem by blast
  then show ?thesis
    unfolding spec_members_def using m assms(2) exact_upd [OF conjunct1 [OF m] names_mem(4) names_apart(2)]
    by (auto simp: list_at_def)
qed

lemma spec_members_init:
  assumes "spec_members pv m" and "list_all2 container_doc cvs js"
  shows "spec_members (pv\<lparr>pv_init_containers := cvs\<rparr>)
    (m(''initContainers'' := if js = [] then None else Some (JArr js)))"
proof -
  note m = assms(1) [unfolded spec_members_def]
  have "k \<notin> set spec_names \<Longrightarrow> k \<noteq> ''initContainers''" for k using names_mem by blast
  then show ?thesis
    unfolding spec_members_def using m assms(2) exact_upd [OF conjunct1 [OF m] names_mem(5) names_apart(2)]
    by (auto simp: list_at_def)
qed

lemma spec_members_volumes:
  assumes "spec_members pv m" and "all_named js"
  shows "spec_members (pv\<lparr>pv_volumes := js\<rparr>) (m(''volumes'' := if js = [] then None else Some (JArr js)))"
proof -
  note m = assms(1) [unfolded spec_members_def]
  have "k \<notin> set spec_names \<Longrightarrow> k \<noteq> ''volumes''" for k using names_mem by blast
  then show ?thesis
    unfolding spec_members_def using m assms(2) exact_upd [OF conjunct1 [OF m] names_mem(6) names_apart(2)]
    by (auto simp: list_at_def)
qed

subsection \<open>Applying the operations\<close>

lemma grow_ops_ne: "[] \<notin> fst ` set (grow_ops b n xs)"
  by (auto simp: grow_ops_def)

lemma env_tokens_of:
  "env_tokens envs (container_of cv) = grow_ops (cv_env cv = []) ''env'' (missing_vars envs cv)"
  by (simp add: env_tokens_def container_of_def missing_vars_def)

lemma mount_tokens_of:
  "mount_tokens (container_of cv) =
   grow_ops (cv_mounts cv = []) ''volumeMounts'' (missing_named volume_mount_json (cv_mounts cv))"
  by (simp add: mount_tokens_def container_of_def missing_named_def)

context json_patch
begin

lemma env_container:
  assumes "container_doc cv j"
  shows "\<exists>j'. apply_tokens add (env_tokens envs (container_of cv)) j = Some j' \<and> container_doc (inject_env envs cv) j'"
proof -
  from assms obtain kvs where j: "j = JObj kvs" and wf: "map_wf kvs" and m: "container_members cv (map_of kvs)"
    unfolding container_doc_def by blast
  from m have "list_at (map_of kvs) ''env'' (cv_env cv)" and named: "all_named (cv_env cv)"
    unfolding container_members_def by blast+
  from grow_member [OF wf this(1), of "missing_vars envs cv"] obtain kvs' where
    "apply_tokens add (env_tokens envs (container_of cv)) j = Some (JObj kvs')" "map_wf kvs'"
    "map_of kvs' = (map_of kvs)(''env'' := if cv_env cv @ missing_vars envs cv = [] then None
        else Some (JArr (cv_env cv @ missing_vars envs cv)))"
    unfolding j env_tokens_of by blast
  moreover from container_members_env [OF m, of "missing_vars envs cv"] named this(3)
  have "container_members (inject_env envs cv) (map_of kvs')" by (simp add: inject_env_def)
  ultimately show ?thesis unfolding container_doc_def by blast
qed

lemma mount_container:
  assumes "container_doc cv j"
  shows "\<exists>j'. apply_tokens add (mount_tokens (container_of cv)) j = Some j' \<and> container_doc (inject_mount cv) j'"
proof -
  from assms obtain kvs where j: "j = JObj kvs" and wf: "map_wf kvs" and m: "container_members cv (map_of kvs)"
    unfolding container_doc_def by blast
  let ?x = "missing_named volume_mount_json (cv_mounts cv)"
  from m have "list_at (map_of kvs) ''volumeMounts'' (cv_mounts cv)" and named: "all_named (cv_mounts cv)"
    unfolding container_members_def by blast+
  from grow_member [OF wf this(1), of ?x] obtain kvs' where
    "apply_tokens add (mount_tokens (container_of cv)) j = Some (JObj kvs')" "map_wf kvs'"
    "map_of kvs' = (map_of kvs)(''volumeMounts'' := if cv_mounts cv @ ?x = [] then None
        else Some (JArr (cv_mounts cv @ ?x)))"
    unfolding j mount_tokens_of by blast
  moreover from container_members_mounts [OF m, of ?x] named this(3)
  have "container_members (inject_mount cv) (map_of kvs')" by (simp add: inject_mount_def)
  ultimately show ?thesis unfolding container_doc_def by blast
qed

lemma containers_step:
  assumes "map_wf kvs" and "list_at (map_of kvs) n js" and docs: "list_all2 container_doc cvs js"
    and step: "\<And>cv j. container_doc cv j \<Longrightarrow> \<exists>j'. apply_tokens add (tokens cv) j = Some j' \<and> container_doc (upd cv) j'"
    and ne: "\<And>cv. [] \<notin> fst ` set (tokens cv)"
  shows "\<exists>kvs' js'. apply_tokens add (map (\<lambda>(ts, v). (n # ts, v)) (element_ops 0 (map tokens cvs))) (JObj kvs) =
      Some (JObj kvs') \<and> map_wf kvs' \<and>
    map_of kvs' = (map_of kvs)(n := if js' = [] then None else Some (JArr js')) \<and>
    list_all2 container_doc (map upd cvs) js'"
proof -
  have "\<exists>js'. list_all2 (\<lambda>(os, j) j'. [] \<notin> fst ` set os \<and> apply_tokens add os j = Some j')
      (zip (map tokens cvs) js) js' \<and> list_all2 container_doc (map upd cvs) js'"
    using docs
  proof (induction rule: list_all2_induct)
    case (Cons cv cvs j js)
    from step [OF Cons.hyps(1)] obtain j' where "apply_tokens add (tokens cv) j = Some j'" "container_doc (upd cv) j'"
      by blast
    moreover from Cons.IH obtain js' where
      "list_all2 (\<lambda>(os, j) j'. [] \<notin> fst ` set os \<and> apply_tokens add os j = Some j') (zip (map tokens cvs) js) js'"
      "list_all2 container_doc (map upd cvs) js'" by blast
    ultimately show ?case using ne by (intro exI [of _ "j' # js'"]) simp
  qed simp
  then obtain js' where
    "list_all2 (\<lambda>(os, j) j'. [] \<notin> fst ` set os \<and> apply_tokens add os j = Some j') (zip (map tokens cvs) js) js'"
    "list_all2 container_doc (map upd cvs) js'" by blast
  moreover have "length (map tokens cvs) = length js" using docs by (auto dest: list_all2_lengthD)
  ultimately show ?thesis using grow_list_member [OF assms(1,2)] by blast
qed

text \<open>One container list of a pod.\<close>

lemma spec_containers_step:
  assumes "map_wf spec" and "spec_members pv (map_of spec)"
    and "\<And>cv j. container_doc cv j \<Longrightarrow> \<exists>j'. apply_tokens add (tokens cv) j = Some j' \<and> container_doc (upd cv) j'"
    and "\<And>cv. [] \<notin> fst ` set (tokens cv)"
  shows "\<exists>spec'. apply_tokens add (map (\<lambda>(ts, v). (''containers'' # ts, v))
      (element_ops 0 (map tokens (pv_containers pv)))) (JObj spec) = Some (JObj spec') \<and> map_wf spec' \<and>
    spec_members (pv\<lparr>pv_containers := map upd (pv_containers pv)\<rparr>) (map_of spec')"
proof -
  from assms(2) obtain js where "list_at (map_of spec) ''containers'' js" "list_all2 container_doc (pv_containers pv) js"
    unfolding spec_members_def by blast
  from containers_step [where tokens = tokens and upd = upd, OF assms(1) this assms(3,4)]
  obtain spec' js' where "apply_tokens add (map (\<lambda>(ts, v). (''containers'' # ts, v))
      (element_ops 0 (map tokens (pv_containers pv)))) (JObj spec) = Some (JObj spec')" "map_wf spec'"
    "map_of spec' = (map_of spec)(''containers'' := if js' = [] then None else Some (JArr js'))"
    "list_all2 container_doc (map upd (pv_containers pv)) js'" by blast
  with spec_members_containers [OF assms(2) this(4)] show ?thesis by auto
qed

lemma spec_init_step:
  assumes "map_wf spec" and "spec_members pv (map_of spec)"
    and "\<And>cv j. container_doc cv j \<Longrightarrow> \<exists>j'. apply_tokens add (tokens cv) j = Some j' \<and> container_doc (upd cv) j'"
    and "\<And>cv. [] \<notin> fst ` set (tokens cv)"
  shows "\<exists>spec'. apply_tokens add (map (\<lambda>(ts, v). (''initContainers'' # ts, v))
      (element_ops 0 (map tokens (pv_init_containers pv)))) (JObj spec) = Some (JObj spec') \<and> map_wf spec' \<and>
    spec_members (pv\<lparr>pv_init_containers := map upd (pv_init_containers pv)\<rparr>) (map_of spec')"
proof -
  from assms(2) obtain js where "list_at (map_of spec) ''initContainers'' js"
    "list_all2 container_doc (pv_init_containers pv) js"
    unfolding spec_members_def by blast
  from containers_step [where tokens = tokens and upd = upd, OF assms(1) this assms(3,4)]
  obtain spec' js' where "apply_tokens add (map (\<lambda>(ts, v). (''initContainers'' # ts, v))
      (element_ops 0 (map tokens (pv_init_containers pv)))) (JObj spec) = Some (JObj spec')" "map_wf spec'"
    "map_of spec' = (map_of spec)(''initContainers'' := if js' = [] then None else Some (JArr js'))"
    "list_all2 container_doc (map upd (pv_init_containers pv)) js'" by blast
  with spec_members_init [OF assms(2) this(4)] show ?thesis by auto
qed

lemma spec_volumes_step:
  assumes "map_wf spec" and "spec_members pv (map_of spec)" and "all_named xs"
  shows "\<exists>spec'. apply_tokens add (grow_ops (pv_volumes pv = []) ''volumes'' xs) (JObj spec) = Some (JObj spec') \<and>
    map_wf spec' \<and> spec_members (pv\<lparr>pv_volumes := pv_volumes pv @ xs\<rparr>) (map_of spec')"
proof -
  from assms(2) have "list_at (map_of spec) ''volumes'' (pv_volumes pv)" and "all_named (pv_volumes pv)"
    unfolding spec_members_def by blast+
  with grow_member [OF assms(1) this(1), of xs] spec_members_volumes [OF assms(2), of "pv_volumes pv @ xs"] assms(3)
  show ?thesis by auto
qed

text \<open>The whole patch, below the member \<open>spec\<close>.\<close>

lemma pod_step:
  assumes "pod_doc pv j" and "[] \<notin> fst ` set tops"
    and "\<And>spec. map_wf spec \<Longrightarrow> spec_members pv (map_of spec) \<Longrightarrow>
      \<exists>spec'. apply_tokens add tops (JObj spec) = Some (JObj spec') \<and> map_wf spec' \<and> spec_members pv' (map_of spec')"
    and "pv_rest pv' = pv_rest pv"
  shows "\<exists>j'. apply_tokens add (map (\<lambda>(ts, v). (''spec'' # ts, v)) tops) j = Some j' \<and> pod_doc pv' j'"
proof -
  from assms(1) obtain kvs spec where j: "j = JObj kvs" and wf: "map_wf kvs" and ex: "exact [''spec''] (map_of kvs)"
    and at: "map_of kvs ''spec'' = Some (JObj spec)" and spec: "map_wf spec" "spec_members pv (map_of spec)"
    and rest: "\<forall>k. k \<noteq> ''spec'' \<longrightarrow> map_of kvs k = pv_rest pv k"
    unfolding pod_doc_def by blast
  from assms(3) [OF spec] obtain spec' where run: "apply_tokens add tops (JObj spec) = Some (JObj spec')"
    and spec': "map_wf spec'" "spec_members pv' (map_of spec')" by blast
  from tokens_in_member [OF wf at assms(2) run] obtain kvs' where
    k: "apply_tokens add (map (\<lambda>(ts, v). (''spec'' # ts, v)) tops) (JObj kvs) = Some (JObj kvs')" "map_wf kvs'"
    "map_of kvs' = (map_of kvs)(''spec'' \<mapsto> JObj spec')" by blast
  have "exact [''spec''] (map_of kvs')"
    unfolding k(3) by (rule exact_upd [OF ex _ names_apart(3)]) simp
  with k spec' rest assms(4) j show ?thesis
    unfolding pod_doc_def by (intro exI conjI) (assumption | simp)+
qed

end

lemma injected_pod_rest [simp]: "pv_rest (injected_pod opts pv) = pv_rest pv"
  by (simp add: injected_pod_def)

text \<open>The token lists of the patch for the pod of a view.\<close>

definition patch_tokens :: "injectionOptions \<Rightarrow> pod \<Rightarrow> (string list \<times> json) list" where
  "patch_tokens opts p =
     map (\<lambda>(ts, v). (''containers'' # ts, v))
       (element_ops 0 (map (env_tokens (desiredEnvVars opts)) (pod_containers p))) @
     map (\<lambda>(ts, v). (''initContainers'' # ts, v))
       (element_ops 0 (map (env_tokens (desiredEnvVars opts)) (pod_init_containers p))) @
     (if io_inject_pod_identity opts
      then grow_ops (pod_volumes p = []) ''volumes''
             (if podIdentityProjectedVolumeName \<in> set (pod_volumes p) then [] else [token_volume_json]) @
           map (\<lambda>(ts, v). (''containers'' # ts, v)) (element_ops 0 (map mount_tokens (pod_containers p))) @
           map (\<lambda>(ts, v). (''initContainers'' # ts, v)) (element_ops 0 (map mount_tokens (pod_init_containers p)))
      else [])"

lemma pointer_bases:
  "pointer_tokens ''/spec/containers'' = Some [''spec'', ''containers'']"
  "pointer_tokens ''/spec/initContainers'' = Some [''spec'', ''initContainers'']"
  "pointer_tokens ''/spec/volumes'' = Some [''spec'', ''volumes'']"
  "pointer_tokens ''/spec/volumes/-'' = Some [''spec'', ''volumes'', ''-'']"
  by code_simp+

lemma patch_rendered:
  "list_all2 rendered
     (containerEnvPatchOps ''/spec/containers'' (pod_containers p) (desiredEnvVars opts) @
      containerEnvPatchOps ''/spec/initContainers'' (pod_init_containers p) (desiredEnvVars opts) @
      (if io_inject_pod_identity opts then podIdentityVolumePatchOps p else []))
     (map (\<lambda>(ts, v). (''spec'' # ts, v)) (patch_tokens opts p))"
proof -
  have volume: "list_all2 rendered
      (if hasVolume (pod_volumes p) podIdentityProjectedVolumeName then [] else [addVolumeOp (pod_volumes p)])
      (map (\<lambda>(ts, v). (''spec'' # ts, v)) (grow_ops (pod_volumes p = []) ''volumes''
         (if podIdentityProjectedVolumeName \<in> set (pod_volumes p) then [] else [token_volume_json])))"
    by (auto simp: addVolumeOp_def grow_ops_def rendered_def add_op_def pointer_bases)
  have shape: "map (\<lambda>(ts, v). ([''spec'', k] @ ts, v)) xs =
      map (\<lambda>(ts, v). (''spec'' # ts, v)) (map (\<lambda>(ts, v). (k # ts, v)) xs)"
    for k and xs :: "(string list \<times> json) list" by auto
  note env = env_ops_rendered [where i = 0, folded containerEnvPatchOps_def]
  note mount = mount_ops_rendered [where i = 0, folded containerVolumeMountPatchOps_def]
  note e1 = env [OF pointer_bases(1), of "pod_containers p" "desiredEnvVars opts", unfolded shape]
  note e2 = env [OF pointer_bases(2), of "pod_init_containers p" "desiredEnvVars opts", unfolded shape]
  note m1 = mount [OF pointer_bases(1), of "pod_containers p", unfolded shape]
  note m2 = mount [OF pointer_bases(2), of "pod_init_containers p", unfolded shape]
  show ?thesis
  proof (cases "io_inject_pod_identity opts")
    case True
    then show ?thesis
      unfolding patch_tokens_def podIdentityVolumePatchOps_def map_append if_P [OF True]
      by (intro list_all2_appendI e1 e2 volume m1 m2)
  next
    case False
    then show ?thesis
      unfolding patch_tokens_def map_append if_not_P [OF False] list.map append_Nil2
      by (intro list_all2_appendI e1 e2)
  qed
qed

lemma apply_patch_rendered:
  "list_all2 rendered ops tops \<Longrightarrow> apply_patch add ops j = apply_tokens add tops j"
  by (rule apply_patch_tokens, erule list_all2_mono) (simp add: rendered_def case_prod_beta)

lemma element_ops_ne: "[] \<notin> fst ` set (element_ops i oss)"
  by (induction i oss rule: element_ops.induct) auto

context json_patch
begin

lemma spec_patch:
  assumes "map_wf spec" and "spec_members pv (map_of spec)"
  shows "\<exists>spec'. apply_tokens add (patch_tokens opts (pod_of pv)) (JObj spec) = Some (JObj spec') \<and> map_wf spec' \<and>
    spec_members (injected_pod opts pv) (map_of spec')"
proof -
  let ?envs = "desiredEnvVars opts"
  let ?pv1 = "pv\<lparr>pv_containers := map (inject_env ?envs) (pv_containers pv)\<rparr>"
  let ?pv2 = "?pv1\<lparr>pv_init_containers := map (inject_env ?envs) (pv_init_containers pv)\<rparr>"
  let ?x = "missing_named token_volume_json (pv_volumes pv)"
  let ?pv3 = "?pv2\<lparr>pv_volumes := pv_volumes pv @ ?x\<rparr>"
  have env: "\<exists>j'. apply_tokens add (env_tokens ?envs (container_of cv)) j = Some j' \<and>
      container_doc (inject_env ?envs cv) j'" if "container_doc cv j" for cv j
    using env_container [OF that] .
  have mounts: "\<exists>j'. apply_tokens add (mount_tokens (container_of cv)) j = Some j' \<and>
      container_doc (inject_mount cv) j'" if "container_doc cv j" for cv j
    using mount_container [OF that] .
  have same: "mount_tokens (container_of (inject_env envs cv)) = mount_tokens (container_of cv)" for envs cv
    by (simp add: mount_tokens_of inject_env_def)
  have ne: "[] \<notin> fst ` set (env_tokens ?envs c)" "[] \<notin> fst ` set (mount_tokens c)" for c
    by (simp_all add: env_tokens_def mount_tokens_def grow_ops_ne)
  from spec_containers_step [where tokens = "\<lambda>cv. env_tokens ?envs (container_of cv)", OF assms env ne(1)]
  obtain s1 where s1: "apply_tokens add (map (\<lambda>(ts, v). (''containers'' # ts, v))
      (element_ops 0 (map (\<lambda>cv. env_tokens ?envs (container_of cv)) (pv_containers pv)))) (JObj spec) = Some (JObj s1)"
    "map_wf s1" "spec_members ?pv1 (map_of s1)" by blast
  from spec_init_step [where tokens = "\<lambda>cv. env_tokens ?envs (container_of cv)", OF s1(2,3) env ne(1)]
  obtain s2 where s2: "apply_tokens add (map (\<lambda>(ts, v). (''initContainers'' # ts, v))
      (element_ops 0 (map (\<lambda>cv. env_tokens ?envs (container_of cv)) (pv_init_containers pv)))) (JObj s1) =
      Some (JObj s2)" "map_wf s2" "spec_members ?pv2 (map_of s2)" by auto
  show ?thesis
  proof (cases "io_inject_pod_identity opts")
    case False
    then have "injected_container opts = inject_env ?envs" by (simp add: fun_eq_iff injected_container_def)
    with False s1 s2 show ?thesis
      by (simp add: patch_tokens_def pod_of_def comp_def tokens_append injected_pod_def)
  next
    case True
    have "injected_container opts = (\<lambda>cv. inject_mount (inject_env ?envs cv))"
      using True by (simp add: fun_eq_iff injected_container_def Let_def)
    then have all: "injected_pod opts pv =
        ?pv3\<lparr>pv_containers := map (\<lambda>cv. inject_mount (inject_env ?envs cv)) (pv_containers pv),
          pv_init_containers := map (\<lambda>cv. inject_mount (inject_env ?envs cv)) (pv_init_containers pv)\<rparr>"
      using True by (cases pv) (simp add: injected_pod_def)
    from spec_volumes_step [OF s2(2,3) all_named_missing(3), of "pv_volumes pv"] obtain s3 where
      s3: "apply_tokens add (grow_ops (pv_volumes pv = []) ''volumes'' ?x) (JObj s2) = Some (JObj s3)"
      "map_wf s3" "spec_members ?pv3 (map_of s3)" by auto
    from spec_containers_step [where tokens = "\<lambda>cv. mount_tokens (container_of cv)", OF s3(2,3) mounts ne(2)]
    obtain s4 where s4: "apply_tokens add (map (\<lambda>(ts, v). (''containers'' # ts, v))
        (element_ops 0 (map (\<lambda>cv. mount_tokens (container_of cv)) (pv_containers pv)))) (JObj s3) = Some (JObj s4)"
      "map_wf s4" "spec_members (?pv3\<lparr>pv_containers := map (\<lambda>cv. inject_mount (inject_env ?envs cv)) (pv_containers pv)\<rparr>)
         (map_of s4)"
      by (auto simp: comp_def same)
    from spec_init_step [where tokens = "\<lambda>cv. mount_tokens (container_of cv)", OF s4(2,3) mounts ne(2)]
    obtain s5 where s5: "apply_tokens add (map (\<lambda>(ts, v). (''initContainers'' # ts, v))
        (element_ops 0 (map (\<lambda>cv. mount_tokens (container_of cv)) (pv_init_containers pv)))) (JObj s4) = Some (JObj s5)"
      "map_wf s5" "spec_members (injected_pod opts pv) (map_of s5)"
      unfolding all by (auto simp: comp_def same)
    have x: "(if podIdentityProjectedVolumeName \<in> set (map elem_name (pv_volumes pv)) then [] else [token_volume_json]) = ?x"
      by (simp add: missing_named_def)
    have "apply_tokens add (patch_tokens opts (pod_of pv)) (JObj spec) = Some (JObj s5)"
      unfolding patch_tokens_def using True s1(1) s2(1) s3(1) s4(1) s5(1)
      by (simp add: pod_of_def comp_def tokens_append x [simplified])
    with s5 show ?thesis by blast
  qed
qed

lemma injection_patch_applies:
  assumes "pod_doc pv j" and "ar_object req = Some j" and "buildInjectionPatch req opts = Inr ops"
  shows "\<exists>j'. apply_patch add ops j = Some j' \<and>
    pod_doc (if io_sts_endpoint opts = [] \<and> \<not> io_inject_pod_identity opts then pv else injected_pod opts pv) j'"
proof (cases "io_sts_endpoint opts = [] \<and> \<not> io_inject_pod_identity opts")
  case True
  with assms show ?thesis by (simp add: buildInjectionPatch_def)
next
  case False
  have pod: "decodePod req = Inr (pod_of pv)" using assms(2) pod_of_doc [OF assms(1)] by (simp add: decodePod_def)
  with False assms(3) have "list_all2 rendered ops (map (\<lambda>(ts, v). (''spec'' # ts, v)) (patch_tokens opts (pod_of pv)))"
    using patch_rendered [of "pod_of pv" opts] by (auto simp: buildInjectionPatch_def Let_def)
  from apply_patch_rendered [OF this]
  have "apply_patch add ops j = apply_tokens add (map (\<lambda>(ts, v). (''spec'' # ts, v)) (patch_tokens opts (pod_of pv))) j" .
  moreover have "[] \<notin> fst ` set (patch_tokens opts (pod_of pv))"
    by (auto simp: patch_tokens_def grow_ops_def)
  ultimately show ?thesis
    using pod_step [where pv' = "injected_pod opts pv", OF assms(1) _ spec_patch [where opts = opts]]
    unfolding if_not_P [OF False] by simp
qed

end

text \<open>After the injection nothing is missing.\<close>

lemma filter_none: "\<forall>x \<in> set xs. \<not> P x \<Longrightarrow> filter P xs = []"
  by simp

lemma injected_env_complete:
  "e \<in> set envs \<Longrightarrow> ev_name e \<in> elem_name ` set (cv_env (inject_env envs cv))"
proof (cases "ev_name e \<in> elem_name ` set (cv_env cv)")
  case False
  assume "e \<in> set envs"
  with False have "env_var_json e \<in> set (cv_env (inject_env envs cv))"
    by (auto simp: inject_env_def missing_vars_def)
  then have "elem_name (env_var_json e) \<in> elem_name ` set (cv_env (inject_env envs cv))" by (rule imageI)
  then show ?thesis by simp
qed (auto simp: inject_env_def)

lemma containerEnvPatchOps_none:
  "\<forall>c \<in> set cs. \<forall>e \<in> set envs. ev_name e \<in> set (ct_env c) \<Longrightarrow> containerEnvPatchOps_from i base cs envs = []"
proof (induction cs arbitrary: i)
  case (Cons c cs)
  then have "filter (\<lambda>e. \<not> hasEnvVar (ct_env c) (ev_name e)) envs = []" by (intro filter_none) simp
  with Cons show ?case by (simp add: Let_def)
qed simp

lemma containerVolumeMountPatchOps_none:
  "\<forall>c \<in> set cs. podIdentityProjectedVolumeName \<in> set (ct_volume_mounts c) \<Longrightarrow>
   containerVolumeMountPatchOps_from i base cs = []"
  by (induction cs arbitrary: i) auto

lemma injected_container_complete:
  "e \<in> set (desiredEnvVars opts) \<Longrightarrow> ev_name e \<in> set (ct_env (container_of (injected_container opts cv)))"
  "io_inject_pod_identity opts \<Longrightarrow>
   podIdentityProjectedVolumeName \<in> set (ct_volume_mounts (container_of (injected_container opts cv)))"
  using injected_env_complete [of e "desiredEnvVars opts" cv]
  by (auto simp: injected_container_def container_of_def inject_mount_def missing_named_def Let_def)

lemma injected_pod_settled:
  "pod_doc (injected_pod opts pv) j \<Longrightarrow> ar_object req = Some j \<Longrightarrow> buildInjectionPatch req opts = Inr []"
proof -
  assume doc: "pod_doc (injected_pod opts pv) j" "ar_object req = Some j"
  then have pod: "decodePod req = Inr (pod_of (injected_pod opts pv))"
    using pod_of_doc by (simp add: decodePod_def)
  let ?p = "pod_of (injected_pod opts pv)"
  have containers: "pod_containers ?p = map (\<lambda>cv. container_of (injected_container opts cv)) (pv_containers pv)"
    "pod_init_containers ?p = map (\<lambda>cv. container_of (injected_container opts cv)) (pv_init_containers pv)"
    by (simp_all add: pod_of_def injected_pod_def)
  have env: "containerEnvPatchOps base (pod_containers ?p) (desiredEnvVars opts) = []"
    "containerEnvPatchOps base (pod_init_containers ?p) (desiredEnvVars opts) = []" for base
    unfolding containers containerEnvPatchOps_def
    by (rule containerEnvPatchOps_none, use injected_container_complete(1) in auto)+
  have "podIdentityVolumePatchOps ?p = []" if "io_inject_pod_identity opts"
  proof -
    have "containerVolumeMountPatchOps base (pod_containers ?p) = []"
      "containerVolumeMountPatchOps base (pod_init_containers ?p) = []" for base
      unfolding containers containerVolumeMountPatchOps_def
      by (rule containerVolumeMountPatchOps_none, use injected_container_complete(2) [OF that] in auto)+
    moreover have "podIdentityProjectedVolumeName \<in> set (pod_volumes ?p)"
      using that by (auto simp: pod_of_def injected_pod_def missing_named_def)
    ultimately show ?thesis by (simp add: podIdentityVolumePatchOps_def)
  qed
  with env pod show ?thesis by (simp add: buildInjectionPatch_def Let_def)
qed

section \<open>Properties\<close>

lemma exact_map_of:
  "\<forall>k \<in> fst ` set kvs. \<forall>n \<in> set names. to_upper k = to_upper n \<longrightarrow> k = n \<Longrightarrow> exact names (map_of kvs)"
proof -
  assume h: "\<forall>k \<in> fst ` set kvs. \<forall>n \<in> set names. to_upper k = to_upper n \<longrightarrow> k = n"
  have "k \<in> fst ` set kvs" if "map_of kvs k \<noteq> None" for k
    using that by (meson map_of_eq_None_iff)
  with h show ?thesis unfolding exact_def key_matches_def by blast
qed

definition demo_container :: json where
  "demo_container = JObj [(''name'', JStr ''c'')]"

definition demo_pod :: json where
  "demo_pod = JObj [(''spec'', JObj [(''serviceAccountName'', JStr ''app''), (''containers'', JArr [demo_container])])]"

definition demo_container_view :: container_view where
  "demo_container_view = \<lparr>cv_env = [], cv_mounts = [], cv_rest = [''name'' \<mapsto> JStr ''c'']\<rparr>"

definition demo_pod_view :: pod_view where
  "demo_pod_view = \<lparr>pv_service_account = ''app'', pv_containers = [demo_container_view],
     pv_init_containers = [], pv_volumes = [], pv_spec_rest = Map.empty, pv_rest = Map.empty\<rparr>"

lemma demo_pod_doc: "pod_doc demo_pod_view demo_pod"
proof -
  have "exact container_names (map_of [(''name'', JStr ''c'')])"
    by (rule exact_map_of) (simp add: container_names_def to_upper_def to_upper_char_def)
  then have c: "container_doc demo_container_view demo_container"
    by (simp add: container_doc_def container_members_def demo_container_view_def demo_container_def
        list_at_def all_named_def map_wf_def container_names_def)
  have "exact spec_names (map_of [(''serviceAccountName'', JStr ''app''), (''containers'', JArr [demo_container])])"
    by (rule exact_map_of) (simp add: spec_names_def to_upper_def to_upper_char_def)
  moreover have "map_wf [(''serviceAccountName'', JStr ''app''), (''containers'', JArr [demo_container])]"
    by (simp add: map_wf_def)
  moreover have "exact [''spec''] (map_of [(''spec'', v)])" for v :: json
    by (rule exact_map_of) simp
  ultimately show ?thesis
    using c by (simp add: pod_doc_def spec_members_def demo_pod_view_def demo_pod_def list_at_def all_named_def
        map_wf_def spec_names_def)
      (intro exI [of _ "[demo_container]"], simp)
qed

text \<open>
  C35: applied by an API server that implements JSON Patch, the patch gives every container and
  init container each selected variable it does not define and, for Pod Identity, the token
  mount and the token volume it lacks; what the pod already defines stays as it is, in place,
  and so does every other member.
\<close>

theorem injection_patch_adds_missing:
  assumes "json_patch add" and "pod_doc pv j" and "ar_object req = Some j"
    and "buildInjectionPatch req opts = Inr ops" and "io_sts_endpoint opts \<noteq> [] \<or> io_inject_pod_identity opts"
  shows "\<exists>j'. apply_patch add ops j = Some j' \<and> pod_doc (injected_pod opts pv) j' \<and>
    (\<forall>cv. prefix (cv_env cv) (cv_env (injected_container opts cv)) \<and>
       prefix (cv_mounts cv) (cv_mounts (injected_container opts cv)) \<and>
       cv_rest (injected_container opts cv) = cv_rest cv \<and>
       (\<forall>e \<in> set (desiredEnvVars opts).
          if ev_name e \<in> elem_name ` set (cv_env cv)
          then \<forall>x \<in> set (cv_env (injected_container opts cv)). elem_name x = ev_name e \<longrightarrow> x \<in> set (cv_env cv)
          else env_var_json e \<in> set (cv_env (injected_container opts cv))))"
proof -
  from json_patch.injection_patch_applies [OF assms(1-4)] assms(5) obtain j' where
    "apply_patch add ops j = Some j'" "pod_doc (injected_pod opts pv) j'" by auto
  moreover have "prefix (cv_env cv) (cv_env (injected_container opts cv)) \<and>
       prefix (cv_mounts cv) (cv_mounts (injected_container opts cv)) \<and>
       cv_rest (injected_container opts cv) = cv_rest cv" for cv
    by (simp add: injected_container_def inject_env_def inject_mount_def Let_def)
  moreover have "if ev_name e \<in> elem_name ` set (cv_env cv)
      then \<forall>x \<in> set (cv_env (injected_container opts cv)). elem_name x = ev_name e \<longrightarrow> x \<in> set (cv_env cv)
      else env_var_json e \<in> set (cv_env (injected_container opts cv))"
    if "e \<in> set (desiredEnvVars opts)" for e cv
    using that
    by (auto simp: injected_container_def inject_env_def inject_mount_def missing_vars_def Let_def)
  ultimately show ?thesis by blast
qed

definition demo_review :: "json \<Rightarrow> admission_request" where
  "demo_review j = \<lparr>ar_uid = ''u'', ar_namespace = ''ns'', ar_object = Some j\<rparr>"

definition demo_options :: injectionOptions where
  "demo_options = \<lparr>io_sts_endpoint = DefaultSTSEndpoint, io_aws_endpoint_url = [], io_inject_pod_identity = False\<rparr>"

lemma demo_patch: "\<exists>ops. buildInjectionPatch (demo_review demo_pod) demo_options = Inr ops"
  using pod_of_doc [OF demo_pod_doc]
  by (simp add: buildInjectionPatch_def demo_options_def demo_review_def decodePod_def Let_def DefaultSTSEndpoint_def)

theorem injection_patch_adds_missing_witness:
  "\<exists>ops j'. buildInjectionPatch (demo_review demo_pod) demo_options = Inr ops \<and>
     apply_patch rfc6902_add ops demo_pod = Some j' \<and> pod_doc (injected_pod demo_options demo_pod_view) j'"
proof -
  obtain ops where ops: "buildInjectionPatch (demo_review demo_pod) demo_options = Inr ops" using demo_patch by blast
  from injection_patch_adds_missing [OF rfc6902.json_patch_axioms demo_pod_doc _ ops] show ?thesis
    using ops by (auto simp: demo_review_def demo_options_def DefaultSTSEndpoint_def)
qed

text \<open>
  C36: the webhook settles: invoked again on the pod its own patch produced, it adds nothing.
\<close>

theorem injection_settles:
  assumes "json_patch add" and "pod_doc pv j" and "ar_object req = Some j"
    and "buildInjectionPatch req opts = Inr ops" and "apply_patch add ops j = Some j'"
    and "ar_object again = Some j'"
  shows "buildInjectionPatch again opts = Inr []"
proof (cases "io_sts_endpoint opts = [] \<and> \<not> io_inject_pod_identity opts")
  case True
  then show ?thesis by (simp add: buildInjectionPatch_def)
next
  case False
  then have "pod_doc (injected_pod opts pv) j'"
    using json_patch.injection_patch_applies [OF assms(1-4)] assms(5) by auto
  from injected_pod_settled [OF this assms(6)] show ?thesis .
qed

theorem injection_settles_witness:
  "\<exists>ops j'. apply_patch rfc6902_add ops demo_pod = Some j' \<and>
     buildInjectionPatch (demo_review j') demo_options = Inr []"
proof -
  obtain ops where ops: "buildInjectionPatch (demo_review demo_pod) demo_options = Inr ops" using demo_patch by blast
  have obj: "ar_object (demo_review j) = Some j" for j by (simp add: demo_review_def)
  from rfc6902.injection_patch_applies [OF demo_pod_doc obj ops] obtain j' where
    j': "apply_patch rfc6902_add ops demo_pod = Some j'" by blast
  from injection_settles [OF rfc6902.json_patch_axioms demo_pod_doc obj ops j' obj] j' show ?thesis by blast
qed

text \<open>
  A pod whose ServiceAccount does not exist, or carries no role annotation and has no Pod
  Identity association, is admitted with no patch at all, whatever endpoints are configured.
\<close>

theorem pods_without_identity_untouched:
  assumes "decodeAdmissionReview r = Inr req" and "decodePod req = Inr p"
    and "in_get_service_account cfg (ar_namespace req) (serviceAccountName p) w = (lookup, w1)"
    and "case lookup of
        Inl e \<Rightarrow> is_not_found e
      | Inr annotations \<Rightarrow> map_of annotations roleARNAnnotation = None \<and>
          (case in_association_of cfg of
             None \<Rightarrow> True
           | Some get_by_sa \<Rightarrow>
               \<exists>e. fst (get_by_sa (ar_namespace req, serviceAccountName p) w1) = Inl e \<and>
                 errors_is e ErrPodIdentityAssociationNotFound)"
  shows "fst (handleInject bytes_text cfg r w) = writeAdmissionResponse bytes_text (ar_uid req) []"
proof -
  have "\<exists>opts w2. injectionOptionsFor cfg req w = (Inr opts, w2) \<and> io_sts_endpoint opts = [] \<and>
      \<not> io_inject_pod_identity opts"
    using assms(2-4)
    by (cases lookup)
      (auto simp: injectionOptionsFor_def serviceAccountNeedsInjection_def needsPodIdentityInjection_def Let_def
        split: option.splits prod.splits sum.splits)
  then show ?thesis using assms(1) by (auto simp: handleInject_def buildInjectionPatch_def)
qed

definition demo_injector :: "unit injector" where
  "demo_injector =
     \<lparr>in_get_service_account = (\<lambda>ns name w. (Inl (ApiError NotFound), w)),
      in_sts_endpoint = DefaultSTSEndpoint, in_aws_endpoint_url = ''http://kumo:4566'',
      in_association_of = Some (\<lambda>k w. (Inl ErrPodIdentityAssociationNotFound, w))\<rparr>"

definition demo_review_request :: http_request where
  "demo_review_request =
     \<lparr>req_path_values = [], req_query = [], req_form = Some [], req_header = [],
      req_body = Doc (JObj [(''request'', JObj [(''uid'', JStr ''u''), (''object'', demo_pod)])])\<rparr>"

theorem pods_without_identity_untouched_witness:
  "fst (handleInject (\<lambda>_. []) demo_injector demo_review_request ()) = writeAdmissionResponse (\<lambda>_. []) ''u'' []"
proof -
  have dec: "decodeAdmissionReview demo_review_request =
      Inr \<lparr>ar_uid = ''u'', ar_namespace = [], ar_object = Some demo_pod\<rparr>" by code_simp
  have pod: "decodePod \<lparr>ar_uid = ''u'', ar_namespace = [], ar_object = Some demo_pod\<rparr> = Inr (pod_of demo_pod_view)"
    using pod_of_doc [OF demo_pod_doc] by (simp add: decodePod_def)
  have "in_get_service_account demo_injector (ar_namespace \<lparr>ar_uid = ''u'', ar_namespace = [], ar_object = Some demo_pod\<rparr>)
      (serviceAccountName (pod_of demo_pod_view)) () = (Inl (ApiError NotFound), ())"
    by (simp add: demo_injector_def)
  from pods_without_identity_untouched [OF dec pod this] show ?thesis by (simp add: is_not_found_def)
qed

end
