(* ===== verification/Cnp.thy ===== *)
theory Cnp
  imports Http
begin

text \<open>
  The translation of a \<open>ClusterNetworkPolicy\<close> into a standard \<open>NetworkPolicy\<close>
  (\<open>internal/agent/clusternetworkpolicy.go\<close>), and what the two kinds of policy mean for
  traffic. A port is a Go \<open>int32\<close>: an int with the wrap-around written out. How a label
  selector matches labels is the API machinery's: the locale \<open>label_selectors\<close>.
\<close>

section \<open>The data\<close>

record requirement =
  rq_key :: string
  rq_operator :: string
  rq_values :: "string list"

record label_selector =
  ls_labels :: "(string, string) go_map"
  ls_expressions :: "requirement list"

definition CNPActionAllow :: string where
  "CNPActionAllow = ''Allow''"

definition CNPActionDeny :: string where
  "CNPActionDeny = ''Deny''"

record CNPPeer =
  cp_namespaces :: "label_selector option"

record CNPPort =
  cpt_protocol :: string
  cpt_port :: int

record CNPRule =
  rule_name :: string
  rule_action :: string
  rule_from :: "CNPPeer list"
  rule_ports :: "CNPPort list"

record ClusterNetworkPolicy =
  cnp_name :: string
  cnp_namespaces :: "label_selector option"
  cnp_pods :: "label_selector option"
  cnp_ingress :: "CNPRule list"
  cnp_egress :: "CNPRule list"

record Unsupported =
  un_rule :: string
  un_reason :: message

text \<open>
  The parts of the networking API the code builds: a peer is its namespace selector, and an
  empty \<open>from\<close> or \<open>ports\<close> stands for nil.
\<close>

record network_policy_port =
  npp_protocol :: string
  npp_port :: int
  npp_end :: "int option"

record ingress_rule =
  ir_from :: "label_selector list"
  ir_ports :: "network_policy_port list"

record network_policy_spec =
  nps_pod_selector :: label_selector
  nps_policy_types :: "string list"
  nps_ingress :: "ingress_rule list"

record owner_reference =
  or_api_version :: string
  or_kind :: string
  or_name :: string
  or_uid :: string
  or_block_deletion :: bool

record network_policy =
  np_name :: string
  np_namespace :: string
  np_labels :: "(string, string) go_map"
  np_owners :: "owner_reference list"
  np_spec :: network_policy_spec

definition ManagedByLabelKey :: string where
  "ManagedByLabelKey = ''app.kubernetes.io/managed-by''"

definition ManagedByLabelValue :: string where
  "ManagedByLabelValue = ''fjord''"

definition minPort :: int where
  "minPort = 1"

definition maxPort :: int where
  "maxPort = 65535"

definition translatableProtocols :: "string list" where
  "translatableProtocols = [''TCP'', ''UDP'']"

definition int32 :: "int \<Rightarrow> int" where
  "int32 i = (i + 2 ^ 31) mod 2 ^ 32 - 2 ^ 31"

definition any_namespace :: label_selector where
  "any_namespace = \<lparr>ls_labels = [], ls_expressions = []\<rparr>"

definition NetworkPolicyName :: "string \<Rightarrow> string" where
  "NetworkPolicyName cnpName = ''fjord-cnp-'' @ cnpName"

section \<open>Allow rules\<close>

fun translatePeers_loop :: "CNPPeer list \<Rightarrow> string \<Rightarrow> label_selector list \<times> Unsupported list" where
  "translatePeers_loop [] ruleName = ([], [])"
| "translatePeers_loop (p # ps) ruleName =
     (let (out, us) = translatePeers_loop ps ruleName in
      case cp_namespaces p of
        None \<Rightarrow> (out, \<lparr>un_rule = ruleName, un_reason = Msg ''peer has no namespace selector''\<rparr> # us)
      | Some sel \<Rightarrow> (sel # out, us))"

definition translatePeers :: "CNPPeer list \<Rightarrow> string \<Rightarrow> label_selector list \<times> Unsupported list" where
  "translatePeers peers ruleName = (if peers = [] then ([], []) else translatePeers_loop peers ruleName)"

definition translatePorts :: "CNPPort list \<Rightarrow> network_policy_port list" where
  "translatePorts ports =
     (if ports = [] then []
      else map (\<lambda>p. \<lparr>npp_protocol = cpt_protocol p, npp_port = cpt_port p, npp_end = None\<rparr>) ports)"

definition translateAllowRule :: "CNPRule \<Rightarrow> ingress_rule \<times> Unsupported list" where
  "translateAllowRule rule =
     (let (peers, us) = translatePeers (rule_from rule) (rule_name rule)
      in (\<lparr>ir_from = peers, ir_ports = translatePorts (rule_ports rule)\<rparr>, us))"

section \<open>Deny rules\<close>

record restriction =
  rs_port :: int
  rs_allowed :: "label_selector option"

definition isTranslatableProtocol :: "string \<Rightarrow> bool" where
  "isTranslatableProtocol p \<longleftrightarrow> p \<in> set translatableProtocols"

text \<open>\<open>None\<close> is \<open>ok = false\<close>; \<open>Some None\<close> allows no exception.\<close>

definition denyAllowedPeer :: "CNPRule \<Rightarrow> label_selector option option \<times> Unsupported list" where
  "denyAllowedPeer rule =
     (let bad = (None, [\<lparr>un_rule = rule_name rule, un_reason =
                   Msg (''deny rule'' @ [CHR 0x27] @ ''s peer must be a single NotIn namespace match expression'')\<rparr>])
      in if rule_from rule = [] then (Some None, [])
         else if length (rule_from rule) \<noteq> 1
         then (None, [\<lparr>un_rule = rule_name rule, un_reason =
                 Msg ''deny rules with more than one from peer are not supported''\<rparr>])
         else
           (case cp_namespaces (hd (rule_from rule)) of
              None \<Rightarrow> bad
            | Some sel \<Rightarrow>
                if ls_labels sel \<noteq> [] \<or> length (ls_expressions sel) \<noteq> 1 then bad
                else
                  (let expr = hd (ls_expressions sel) in
                   if rq_operator expr \<noteq> ''NotIn'' \<or> rq_values expr = [] then bad
                   else
                     (Some (Some \<lparr>ls_labels = [], ls_expressions =
                        [\<lparr>rq_key = rq_key expr, rq_operator = ''In'', rq_values = rq_values expr\<rparr>]\<rparr>), []))))"

text \<open>\<open>byPort\<close>: the restrictions of every protocol and port, in the order they are met.\<close>

type_synonym by_port = "(string \<times> int, restriction list) go_map"

definition map_append :: "'k \<Rightarrow> 'v \<Rightarrow> ('k, 'v list) go_map \<Rightarrow> ('k, 'v list) go_map" where
  "map_append k v m = map_set k ((case map_of m k of None \<Rightarrow> [] | Some vs \<Rightarrow> vs) @ [v]) m"

fun restrict_ports ::
  "string \<Rightarrow> label_selector option \<Rightarrow> CNPPort list \<Rightarrow> by_port \<Rightarrow> by_port \<times> Unsupported list" where
  "restrict_ports name allowed [] m = (m, [])"
| "restrict_ports name allowed (p # ps) m =
     (if \<not> isTranslatableProtocol (cpt_protocol p)
      then
        (let (m1, us) = restrict_ports name allowed ps m
         in (m1, \<lparr>un_rule = name, un_reason = MsgFmt ''protocol %s is not supported'' [cpt_protocol p]\<rparr> # us))
      else
        restrict_ports name allowed ps
          (map_append (cpt_protocol p, cpt_port p) \<lparr>rs_port = cpt_port p, rs_allowed = allowed\<rparr> m))"

fun collect_restrictions :: "CNPRule list \<Rightarrow> by_port \<Rightarrow> by_port \<times> Unsupported list" where
  "collect_restrictions [] m = (m, [])"
| "collect_restrictions (rule # rules) m =
     (if rule_action rule \<noteq> CNPActionDeny then collect_restrictions rules m
      else
        (case denyAllowedPeer rule of
           (None, us) \<Rightarrow> (let (m1, us1) = collect_restrictions rules m in (m1, us @ us1))
         | (Some allowed, us) \<Rightarrow>
             (let (m1, us1) = restrict_ports (rule_name rule) allowed (rule_ports rule) m;
                  (m2, us2) = collect_restrictions rules m1
              in (m2, us @ us1 @ us2))))"

type_synonym restricted_map = "(string, restriction list) go_map"

definition format_port :: "int \<Rightarrow> string" where
  "format_port i = (if i < 0 then CHR ''-'' # string_of_nat (nat (- i)) else string_of_nat (nat i))"

fun keep_single :: "by_port \<Rightarrow> restricted_map \<Rightarrow> restricted_map \<times> Unsupported list" where
  "keep_single [] m = (m, [])"
| "keep_single ((k, rs) # rest) m =
     (if 1 < length rs
      then
        (let (m1, us) = keep_single rest m
         in (m1, \<lparr>un_rule = [],
                  un_reason = MsgFmt ''port %s/%d is restricted by more than one ingress rule''
                    [fst k, format_port (snd k)]\<rparr> # us))
      else keep_single rest (map_append (fst k) (hd rs) m))"

definition restrictedPorts :: "CNPRule list \<Rightarrow> restricted_map \<times> Unsupported list" where
  "restrictedPorts rules =
     (let (byPort, us) = collect_restrictions rules [];
          (restricted, us1) = keep_single byPort []
      in (map (\<lambda>(protocol, rs). (protocol, sort_key rs_port rs)) restricted, us @ us1))"

text \<open>Reading a Go map: a missing key gives the nil slice.\<close>

definition restrictions_of :: "restricted_map \<Rightarrow> string \<Rightarrow> restriction list" where
  "restrictions_of m protocol = (case map_of m protocol of None \<Rightarrow> [] | Some rs \<Rightarrow> rs)"

fun allow_rules_for :: "string \<Rightarrow> restriction list \<Rightarrow> ingress_rule list" where
  "allow_rules_for protocol [] = []"
| "allow_rules_for protocol (r # rs) =
     (case rs_allowed r of
        None \<Rightarrow> allow_rules_for protocol rs
      | Some peer \<Rightarrow>
          \<lparr>ir_from = [peer],
           ir_ports = [\<lparr>npp_protocol = protocol, npp_port = rs_port r, npp_end = None\<rparr>]\<rparr> #
          allow_rules_for protocol rs)"

definition restrictedAllowRules :: "restricted_map \<Rightarrow> ingress_rule list" where
  "restrictedAllowRules restricted =
     concat (map (\<lambda>protocol. allow_rules_for protocol (restrictions_of restricted protocol))
       translatableProtocols)"

definition openRule :: "string \<Rightarrow> int \<Rightarrow> int \<Rightarrow> ingress_rule" where
  "openRule protocol start stop =
     \<lparr>ir_from = [any_namespace],
      ir_ports = [\<lparr>npp_protocol = protocol, npp_port = start,
                   npp_end = (if stop \<noteq> start then Some stop else None)\<rparr>]\<rparr>"

fun complement_from :: "string \<Rightarrow> int \<Rightarrow> restriction list \<Rightarrow> ingress_rule list" where
  "complement_from protocol lo [] = (if lo \<le> maxPort then [openRule protocol lo maxPort] else [])"
| "complement_from protocol lo (r # rs) =
     (if lo < rs_port r then [openRule protocol lo (int32 (rs_port r - 1))] else []) @
     complement_from protocol (int32 (rs_port r + 1)) rs"

definition complementRulesForProtocol :: "string \<Rightarrow> restriction list \<Rightarrow> ingress_rule list" where
  "complementRulesForProtocol protocol rs = complement_from protocol minPort rs"

definition hasAnyRestriction :: "restricted_map \<Rightarrow> bool" where
  "hasAnyRestriction restricted \<longleftrightarrow> (\<exists>(protocol, rs) \<in> set restricted. rs \<noteq> [])"

definition complementRules :: "restricted_map \<Rightarrow> ingress_rule list" where
  "complementRules restricted =
     (if \<not> hasAnyRestriction restricted then []
      else concat (map (\<lambda>protocol. complementRulesForProtocol protocol (restrictions_of restricted protocol))
             translatableProtocols))"

section \<open>The translation\<close>

fun translate_allows :: "CNPRule list \<Rightarrow> ingress_rule list \<times> Unsupported list" where
  "translate_allows [] = ([], [])"
| "translate_allows (rule # rules) =
     (if rule_action rule \<noteq> CNPActionAllow then translate_allows rules
      else
        (let (ir, us) = translateAllowRule rule;
             (irs, us1) = translate_allows rules
         in (ir # irs, us @ us1)))"

definition TranslateClusterNetworkPolicy ::
  "ClusterNetworkPolicy \<Rightarrow> string \<Rightarrow> network_policy option \<times> Unsupported list" where
  "TranslateClusterNetworkPolicy cnp namespace =
     (let us1 = (if cnp_pods cnp \<noteq> None
                 then [\<lparr>un_rule = [], un_reason = Msg ''pod-level subject is not supported''\<rparr>] else []);
          us2 = map (\<lambda>rule. \<lparr>un_rule = rule_name rule, un_reason = Msg ''egress rules are not supported''\<rparr>)
                  (cnp_egress cnp);
          (allows, us3) = translate_allows (cnp_ingress cnp);
          (restricted, us4) = restrictedPorts (cnp_ingress cnp);
          rules = allows @ restrictedAllowRules restricted @ complementRules restricted;
          us = us1 @ us2 @ us3 @ us4
      in if rules = [] then (None, us)
         else
           (Some \<lparr>np_name = NetworkPolicyName (cnp_name cnp), np_namespace = namespace,
                  np_labels = [(ManagedByLabelKey, ManagedByLabelValue)], np_owners = [],
                  np_spec = \<lparr>nps_pod_selector = any_namespace, nps_policy_types = [''Ingress''],
                             nps_ingress = rules\<rparr>\<rparr>, us))"

section \<open>What the policies mean\<close>

text \<open>
  How selectors match the labels of a namespace, as far as the translation relies on it: the
  empty selector matches everything, and \<open>In\<close> is the complement of \<open>NotIn\<close>.
\<close>

locale label_selectors =
  fixes sel :: "label_selector \<Rightarrow> (string, string) go_map \<Rightarrow> bool"
  assumes matches_any: "sel any_namespace l"
    and in_not_in:
      "vs \<noteq> [] \<Longrightarrow>
       sel \<lparr>ls_labels = [], ls_expressions = [\<lparr>rq_key = k, rq_operator = ''In'', rq_values = vs\<rparr>]\<rparr> l \<longleftrightarrow>
       \<not> sel \<lparr>ls_labels = [], ls_expressions = [\<lparr>rq_key = k, rq_operator = ''NotIn'', rq_values = vs\<rparr>]\<rparr> l"

definition requirement_holds :: "requirement \<Rightarrow> (string, string) go_map \<Rightarrow> bool" where
  "requirement_holds r l =
     (case map_of l (rq_key r) of
        None \<Rightarrow> rq_operator r \<in> {''NotIn'', ''DoesNotExist''}
      | Some v \<Rightarrow>
          if rq_operator r = ''In'' then v \<in> set (rq_values r)
          else if rq_operator r = ''NotIn'' then v \<notin> set (rq_values r)
          else rq_operator r = ''Exists'')"

definition selector_matches :: "label_selector \<Rightarrow> (string, string) go_map \<Rightarrow> bool" where
  "selector_matches s l \<longleftrightarrow>
     (\<forall>(k, v) \<in> set (ls_labels s). map_of l k = Some v) \<and>
     (\<forall>r \<in> set (ls_expressions s). requirement_holds r l)"

interpretation k8s: label_selectors selector_matches
  by unfold_locales
    (auto simp: selector_matches_def requirement_holds_def any_namespace_def split: option.splits)

text \<open>
  Traffic comes from a pod in a namespace with labels \<open>Some l\<close>, or from outside the
  cluster (\<open>None\<close>), to a port of a protocol. A \<open>NetworkPolicy\<close> admits it if one of its
  ingress rules does.
\<close>

definition port_covers :: "network_policy_port \<Rightarrow> string \<Rightarrow> int \<Rightarrow> bool" where
  "port_covers p protocol port \<longleftrightarrow>
     npp_protocol p = protocol \<and>
     (case npp_end p of None \<Rightarrow> port = npp_port p | Some stop \<Rightarrow> npp_port p \<le> port \<and> port \<le> stop)"

definition rule_admits ::
  "(label_selector \<Rightarrow> (string, string) go_map \<Rightarrow> bool) \<Rightarrow> ingress_rule \<Rightarrow> (string, string) go_map option
   \<Rightarrow> string \<Rightarrow> int \<Rightarrow> bool" where
  "rule_admits sel r src protocol port \<longleftrightarrow>
     (ir_from r = [] \<or> (case src of None \<Rightarrow> False | Some l \<Rightarrow> \<exists>s \<in> set (ir_from r). sel s l)) \<and>
     (ir_ports r = [] \<or> (\<exists>p \<in> set (ir_ports r). port_covers p protocol port))"

definition policy_admits ::
  "(label_selector \<Rightarrow> (string, string) go_map \<Rightarrow> bool) \<Rightarrow> network_policy \<Rightarrow> (string, string) go_map option
   \<Rightarrow> string \<Rightarrow> int \<Rightarrow> bool" where
  "policy_admits sel np src protocol port \<longleftrightarrow>
     (\<exists>r \<in> set (nps_ingress (np_spec np)). rule_admits sel r src protocol port)"

text \<open>
  Which traffic a rule of a \<open>ClusterNetworkPolicy\<close> speaks about: omitted peers or ports
  stand for all of them.
\<close>

definition rule_concerns ::
  "(label_selector \<Rightarrow> (string, string) go_map \<Rightarrow> bool) \<Rightarrow> CNPRule \<Rightarrow> (string, string) go_map option
   \<Rightarrow> string \<Rightarrow> int \<Rightarrow> bool" where
  "rule_concerns sel rule src protocol port \<longleftrightarrow>
     (rule_from rule = [] \<or>
      (case src of
         None \<Rightarrow> False
       | Some l \<Rightarrow> \<exists>p \<in> set (rule_from rule). case cp_namespaces p of None \<Rightarrow> False | Some s \<Rightarrow> sel s l)) \<and>
     (rule_ports rule = [] \<or>
      (\<exists>p \<in> set (rule_ports rule). cpt_protocol p = protocol \<and> cpt_port p = port))"

text \<open>
  What a \<open>ClusterNetworkPolicy\<close> admits: what an Allow rule concerns, and what no Deny rule does.
\<close>

definition cnp_admits ::
  "(label_selector \<Rightarrow> (string, string) go_map \<Rightarrow> bool) \<Rightarrow> ClusterNetworkPolicy \<Rightarrow> (string, string) go_map option
   \<Rightarrow> string \<Rightarrow> int \<Rightarrow> bool" where
  "cnp_admits sel cnp src protocol port \<longleftrightarrow>
     (\<exists>a \<in> set (cnp_ingress cnp). rule_action a = CNPActionAllow \<and> rule_concerns sel a src protocol port) \<or>
     \<not> (\<exists>d \<in> set (cnp_ingress cnp). rule_action d = CNPActionDeny \<and> rule_concerns sel d src protocol port)"

section \<open>Facts\<close>

lemma translatePeers_supported:
  "translatePeers ps n = (ss, []) \<Longrightarrow> map cp_namespaces ps = map Some ss"
proof -
  have "translatePeers_loop ps n = (ss, []) \<Longrightarrow> map cp_namespaces ps = map Some ss" for ss
    by (induction ps arbitrary: ss) (auto split: option.splits prod.splits)
  then show "translatePeers ps n = (ss, []) \<Longrightarrow> map cp_namespaces ps = map Some ss"
    by (auto simp: translatePeers_def split: if_splits)
qed

lemma translateAllowRule_admits:
  assumes "translateAllowRule rule = (ir, [])"
  shows "rule_admits sel ir src protocol port \<longleftrightarrow> rule_concerns sel rule src protocol port"
proof -
  from assms obtain ss where ss: "translatePeers (rule_from rule) (rule_name rule) = (ss, [])"
    and ir: "ir = \<lparr>ir_from = ss, ir_ports = translatePorts (rule_ports rule)\<rparr>"
    by (auto simp: translateAllowRule_def split: prod.splits)
  note eq = translatePeers_supported [OF ss]
  have "(\<exists>p \<in> set (rule_from rule). case cp_namespaces p of None \<Rightarrow> False | Some s \<Rightarrow> P s) \<longleftrightarrow>
      (\<exists>o' \<in> set (map cp_namespaces (rule_from rule)). case o' of None \<Rightarrow> False | Some s \<Rightarrow> P s)" for P
    by auto
  then have peers: "(\<exists>p \<in> set (rule_from rule). case cp_namespaces p of None \<Rightarrow> False | Some s \<Rightarrow> P s) \<longleftrightarrow>
      (\<exists>s \<in> set ss. P s)" for P
    unfolding eq by auto
  have "ss = [] \<longleftrightarrow> rule_from rule = []" using arg_cong [OF eq, of length] by auto
  then show ?thesis
    by (cases src) (auto simp: rule_admits_def rule_concerns_def ir translatePorts_def port_covers_def peers)
qed

lemma translate_allows_admits:
  "translate_allows rules = (irs, []) \<Longrightarrow>
   (\<exists>r \<in> set irs. rule_admits sel r src protocol port) \<longleftrightarrow>
   (\<exists>a \<in> set rules. rule_action a = CNPActionAllow \<and> rule_concerns sel a src protocol port)"
proof (induction rules arbitrary: irs)
  case (Cons rule rules)
  show ?case
  proof (cases "rule_action rule = CNPActionAllow")
    case True
    with Cons.prems obtain ir irs1 where "translateAllowRule rule = (ir, [])" "translate_allows rules = (irs1, [])"
      "irs = ir # irs1" by (auto split: prod.splits)
    with Cons.IH [of irs1] translateAllowRule_admits [of rule ir sel src protocol port] True show ?thesis by auto
  next
    case False
    with Cons show ?thesis by auto
  qed
qed simp

subsection \<open>Collecting the restrictions\<close>

definition found :: "('k, 'v list) go_map \<Rightarrow> 'k \<Rightarrow> 'v list" where
  "found m k = (case map_of m k of None \<Rightarrow> [] | Some vs \<Rightarrow> vs)"

definition lists_wf :: "('k, 'v list) go_map \<Rightarrow> bool" where
  "lists_wf m \<longleftrightarrow> map_wf m \<and> (\<forall>(k, vs) \<in> set m. vs \<noteq> [])"

lemma found_append: "found (map_append k v m) k' = found m k' @ (if k = k' then [v] else [])"
  by (simp add: found_def map_append_def)

lemma lists_wf_append: "lists_wf m \<Longrightarrow> lists_wf (map_append k v m)"
proof -
  assume wf: "lists_wf m"
  then have wf': "map_wf (map_append k v m)" by (simp add: lists_wf_def map_append_def)
  have "vs \<noteq> []" if "(k', vs) \<in> set (map_append k v m)" for k' vs
  proof -
    from that wf' have "map_of (map_append k v m) k' = Some vs" by (simp add: map_wf_mem_iff)
    then show ?thesis using wf
      by (auto simp: map_append_def lists_wf_def map_wf_mem_iff split: if_splits option.splits)
  qed
  with wf' show ?thesis by (auto simp: lists_wf_def)
qed

definition port_restrictions :: "label_selector option \<Rightarrow> CNPPort list \<Rightarrow> ((string \<times> int) \<times> restriction) list" where
  "port_restrictions allowed ps =
     map (\<lambda>p. ((cpt_protocol p, cpt_port p), \<lparr>rs_port = cpt_port p, rs_allowed = allowed\<rparr>))
       (filter (\<lambda>p. isTranslatableProtocol (cpt_protocol p)) ps)"

definition rule_restrictions :: "CNPRule \<Rightarrow> ((string \<times> int) \<times> restriction) list" where
  "rule_restrictions rule =
     (if rule_action rule \<noteq> CNPActionDeny then []
      else (case fst (denyAllowedPeer rule) of None \<Rightarrow> [] | Some allowed \<Rightarrow> port_restrictions allowed (rule_ports rule)))"

definition at_key :: "'k \<Rightarrow> ('k \<times> 'v) list \<Rightarrow> 'v list" where
  "at_key k evs = map snd (filter (\<lambda>e. fst e = k) evs)"

lemma at_key_simps [simp]:
  "at_key k [] = []" "at_key k (e # es) = (if fst e = k then [snd e] else []) @ at_key k es"
  "at_key k (xs @ ys) = at_key k xs @ at_key k ys"
  by (simp_all add: at_key_def)

lemma restrict_ports_found:
  "restrict_ports n allowed ps m = (m', us) \<Longrightarrow> lists_wf m \<Longrightarrow>
   lists_wf m' \<and> found m' k = found m k @ at_key k (port_restrictions allowed ps)"
proof (induction ps arbitrary: m us)
  case (Cons p ps)
  then show ?case
    by (auto simp: port_restrictions_def found_append lists_wf_append split: if_splits prod.splits)
qed (simp add: port_restrictions_def)

lemma collect_restrictions_found:
  "collect_restrictions rules m = (m', us) \<Longrightarrow> lists_wf m \<Longrightarrow>
   lists_wf m' \<and> found m' k = found m k @ at_key k (concat (map rule_restrictions rules))"
proof (induction rules arbitrary: m us)
  case (Cons rule rules)
  show ?case
  proof (cases "rule_action rule = CNPActionDeny")
    case False
    with Cons show ?thesis by (simp add: rule_restrictions_def)
  next
    case True
    obtain a us0 where a: "denyAllowedPeer rule = (a, us0)" by fastforce
    show ?thesis
    proof (cases a)
      case None
      with Cons True a show ?thesis by (auto simp: rule_restrictions_def split: prod.splits)
    next
      case (Some allowed)
      obtain m1 us1 where m1: "restrict_ports (rule_name rule) allowed (rule_ports rule) m = (m1, us1)" by fastforce
      obtain m2 us2 where m2: "collect_restrictions rules m1 = (m2, us2)" by fastforce
      from m1 m2 True a Some Cons.prems(1) have "m2 = m'" by simp
      with restrict_ports_found [OF m1 Cons.prems(2), of k] Cons.IH [of m1 us2] m1 m2 True a Some Cons.prems(1)
      show ?thesis by (simp add: rule_restrictions_def)
    qed
  qed
qed simp

text \<open>What it takes for nothing to be reported.\<close>

lemma restrict_ports_supported:
  "restrict_ports n allowed ps m = (m', []) \<Longrightarrow> p \<in> set ps \<Longrightarrow> isTranslatableProtocol (cpt_protocol p)"
  by (induction ps arbitrary: m) (auto split: if_splits prod.splits)

lemma collect_restrictions_supported:
  assumes "collect_restrictions rules m = (m', [])" and "d \<in> set rules" and "rule_action d = CNPActionDeny"
  shows "(\<exists>a. denyAllowedPeer d = (Some a, [])) \<and> (\<forall>p \<in> set (rule_ports d). isTranslatableProtocol (cpt_protocol p))"
  using assms
proof (induction rules arbitrary: m)
  case (Cons rule rules)
  show ?case
  proof (cases "rule_action rule = CNPActionDeny")
    case False
    with Cons show ?thesis by auto
  next
    case True
    obtain a us0 where a: "denyAllowedPeer rule = (a, us0)" by fastforce
    have "a \<noteq> None"
    proof
      assume "a = None"
      with a have "us0 \<noteq> []" by (auto simp: denyAllowedPeer_def Let_def split: if_splits option.splits)
      with True a \<open>a = None\<close> Cons.prems(1) show False by (auto split: prod.splits)
    qed
    then obtain allowed where Some: "a = Some allowed" by blast
    obtain m1 us1 where m1: "restrict_ports (rule_name rule) allowed (rule_ports rule) m = (m1, us1)" by fastforce
    obtain m2 us2 where m2: "collect_restrictions rules m1 = (m2, us2)" by fastforce
    from m1 m2 True a Some Cons.prems(1) have "us0 = []" "us1 = []" "us2 = []" "m2 = m'" by simp_all
    with a Some m1 m2 Cons.IH [of m1] Cons.prems(2,3) restrict_ports_supported [of "rule_name rule" allowed _ m m1]
    show ?thesis by auto
  qed
qed simp

lemma keep_single_found:
  "keep_single byPort m = (m', us) \<Longrightarrow> lists_wf m \<Longrightarrow>
   lists_wf m' \<and> found m' protocol = found m protocol @ map hd (map snd (filter (\<lambda>(k, rs). fst k = protocol \<and> length rs \<le> 1) byPort))"
proof (induction byPort arbitrary: m us)
  case (Cons kr byPort)
  obtain k rs where kr: "kr = (k, rs)" by (cases kr)
  show ?case
  proof (cases "1 < length rs")
    case True
    with Cons kr show ?thesis by (auto split: prod.splits)
  next
    case False
    with Cons.prems kr have "keep_single byPort (map_append (fst k) (hd rs) m) = (m', us)" by simp
    from Cons.IH [OF this lists_wf_append [OF Cons.prems(2)]] False kr show ?thesis
      by (simp add: found_append)
  qed
qed simp

lemma keep_single_supported:
  "keep_single byPort m = (m', []) \<Longrightarrow> (k, rs) \<in> set byPort \<Longrightarrow> length rs \<le> 1"
  by (induction byPort arbitrary: m) (auto split: if_splits prod.splits)

text \<open>What \<open>restrictedPorts\<close> returns, when it reports nothing.\<close>

lemma rule_restrictions_port: "((p, q), r) \<in> set (concat (map rule_restrictions rules)) \<Longrightarrow> rs_port r = q"
  by (auto simp: rule_restrictions_def port_restrictions_def split: if_splits option.splits)

lemma in_at_key: "r \<in> set (at_key k evs) \<longleftrightarrow> (k, r) \<in> set evs"
  by (force simp: at_key_def)

lemma found_in: "lists_wf m \<Longrightarrow> (k, vs) \<in> set m \<longleftrightarrow> vs \<noteq> [] \<and> found m k = vs"
  by (auto simp: lists_wf_def map_wf_mem_iff found_def split: option.splits)

lemma restricted_lists:
  assumes "restrictedPorts rules = (restricted, [])"
  shows "set (restrictions_of restricted p) = {r. \<exists>q. ((p, q), r) \<in> set (concat (map rule_restrictions rules))}"
    and "distinct (map rs_port (restrictions_of restricted p))"
    and "sorted (map rs_port (restrictions_of restricted p))"
    and "hasAnyRestriction restricted \<longleftrightarrow> (\<exists>p. restrictions_of restricted p \<noteq> [])"
proof -
  let ?evs = "concat (map rule_restrictions rules)"
  obtain byPort us1 where byPort: "collect_restrictions rules [] = (byPort, us1)" by fastforce
  obtain m us2 where m: "keep_single byPort [] = (m, us2)" by fastforce
  from assms byPort m have restricted: "restricted = map (\<lambda>(p, rs). (p, sort_key rs_port rs)) m" and us: "us2 = []"
    by (auto simp: restrictedPorts_def)
  have "lists_wf []" by (simp add: lists_wf_def)
  then have wf: "lists_wf byPort" using collect_restrictions_found [OF byPort] by blast
  have evs: "found byPort k = at_key k ?evs" for k
    using collect_restrictions_found [OF byPort \<open>lists_wf []\<close>, of k] by (simp add: found_def)
  from keep_single_found [OF m \<open>lists_wf []\<close>] have wfm: "lists_wf m"
    and fm: "found m p = map hd (map snd (filter (\<lambda>(k, rs). fst k = p \<and> length rs \<le> 1) byPort))" for p
    by (auto simp: found_def)
  have single: "rs = [r] \<and> ((k, r) \<in> set ?evs)" if "(k, rs) \<in> set byPort" and "r = hd rs" for k rs r
  proof -
    from found_in [OF wf] that(1) have ne: "rs \<noteq> []" and f: "found byPort k = rs" by auto
    from keep_single_supported [OF m [unfolded us] that(1)] ne that(2) have "rs = [r]" by (cases rs) auto
    moreover from this f evs [of k] have "r \<in> set (at_key k ?evs)" by simp
    ultimately show ?thesis by (simp add: in_at_key)
  qed
  have eq: "restrictions_of restricted p = sort_key rs_port (found m p)" for p
  proof -
    have "map_of restricted p = map_option (sort_key rs_port) (map_of m p)"
      unfolding restricted by (simp add: map_of_map)
    then show ?thesis by (simp add: restrictions_of_def found_def split: option.splits)
  qed
  have mem: "r \<in> set (found m p) \<longleftrightarrow> (\<exists>q. ((p, q), r) \<in> set ?evs)" for r p
  proof
    assume "r \<in> set (found m p)"
    then obtain k rs where "(k, rs) \<in> set byPort" "fst k = p" "r = hd rs" unfolding fm by auto
    with single [of k rs r] show "\<exists>q. ((p, q), r) \<in> set ?evs" by (cases k) auto
  next
    assume "\<exists>q. ((p, q), r) \<in> set ?evs"
    then obtain q where q: "((p, q), r) \<in> set ?evs" ..
    then have "r \<in> set (found byPort (p, q))" by (simp add: evs in_at_key)
    then have at: "((p, q), found byPort (p, q)) \<in> set byPort" using found_in [OF wf] by fastforce
    have one: "found byPort (p, q) = [hd (found byPort (p, q))]" using single [OF at refl] by blast
    with \<open>r \<in> set (found byPort (p, q))\<close> have "hd (found byPort (p, q)) = r" by (metis set_ConsD empty_iff empty_set)
    with at one have "((p, q), [r]) \<in> set byPort" by simp
    then show "r \<in> set (found m p)" unfolding fm by force
  qed
  show "set (restrictions_of restricted p) = {r. \<exists>q. ((p, q), r) \<in> set ?evs}"
    unfolding eq set_sort using mem by blast
  show "sorted (map rs_port (restrictions_of restricted p))" by (simp add: eq)
  have "distinct (map rs_port (found m p))"
  proof -
    have port: "rs_port (hd rs) = snd k" if "(k, rs) \<in> set byPort" for k rs
      using single [OF that refl] rule_restrictions_port [of "fst k" "snd k" "hd rs" rules] by simp
    have "map rs_port (found m p) = map (\<lambda>e. rs_port (hd (snd e))) (filter (\<lambda>(k, rs). fst k = p \<and> length rs \<le> 1) byPort)"
      unfolding fm by (simp add: comp_def)
    also have "\<dots> = map (\<lambda>e. snd (fst e)) (filter (\<lambda>(k, rs). fst k = p \<and> length rs \<le> 1) byPort)"
      by (rule map_cong) (auto simp: port)
    finally have "map rs_port (found m p) = map (snd \<circ> fst) (filter (\<lambda>(k, rs). fst k = p \<and> length rs \<le> 1) byPort)"
      by (simp add: comp_def)
    moreover have "distinct (map fst byPort)" using wf by (simp add: lists_wf_def map_wf_def)
    then have "inj_on (snd \<circ> fst) (set (filter (\<lambda>(k, rs). fst k = p \<and> length rs \<le> 1) byPort))"
      by (auto simp: inj_on_def distinct_map prod_eq_iff)
    moreover have "distinct (filter (\<lambda>(k, rs). fst k = p \<and> length rs \<le> 1) byPort)"
      using \<open>distinct (map fst byPort)\<close> by (simp add: distinct_map)
    ultimately show ?thesis by (simp add: distinct_map)
  qed
  then show "distinct (map rs_port (restrictions_of restricted p))"
    unfolding eq using mset_eq_imp_distinct_iff [of "map rs_port (sort_key rs_port (found m p))" "map rs_port (found m p)"]
    by simp
  show "hasAnyRestriction restricted \<longleftrightarrow> (\<exists>p. restrictions_of restricted p \<noteq> [])"
  proof
    assume "hasAnyRestriction restricted"
    then obtain p rs where "(p, rs) \<in> set m" "rs \<noteq> []" unfolding restricted hasAnyRestriction_def by force
    with found_in [OF wfm] have "found m p \<noteq> []" by auto
    then show "\<exists>p. restrictions_of restricted p \<noteq> []" unfolding eq by (metis set_empty set_sort)
  next
    assume "\<exists>p. restrictions_of restricted p \<noteq> []"
    then obtain p where "found m p \<noteq> []" unfolding eq by fastforce
    with found_in [OF wfm, of p "found m p"] have "(p, found m p) \<in> set m" by simp
    then have "(p, sort_key rs_port (found m p)) \<in> set restricted" unfolding restricted by force
    with \<open>found m p \<noteq> []\<close> show "hasAnyRestriction restricted"
      unfolding hasAnyRestriction_def by (metis (mono_tags, lifting) case_prodI set_empty set_sort)
  qed
qed

subsection \<open>The rules built from the restrictions\<close>

lemma int32_id: "- (2 ^ 31) \<le> i \<Longrightarrow> i < 2 ^ 31 \<Longrightarrow> int32 i = i"
  by (simp add: int32_def)

context label_selectors
begin

lemma openRule_admits:
  "rule_admits sel (openRule p lo hi) (Some l) protocol port \<longleftrightarrow> protocol = p \<and> lo \<le> port \<and> port \<le> hi \<or>
   protocol = p \<and> port = lo \<and> lo = hi" if "lo \<le> hi"
  using that matches_any by (auto simp: rule_admits_def openRule_def port_covers_def)

lemma complement_admits:
  "1 \<le> lo \<Longrightarrow> sorted_wrt (<) (map rs_port rs) \<Longrightarrow>
   (\<And>r. r \<in> set rs \<Longrightarrow> lo \<le> rs_port r \<and> rs_port r \<le> maxPort) \<Longrightarrow>
   (\<exists>x \<in> set (complement_from p lo rs). rule_admits sel x (Some l) protocol port) \<longleftrightarrow>
   protocol = p \<and> lo \<le> port \<and> port \<le> maxPort \<and> port \<notin> rs_port ` set rs"
proof (induction rs arbitrary: lo)
  case Nil
  then show ?case by (auto simp: openRule_admits)
next
  case (Cons r rs)
  have r: "lo \<le> rs_port r" "rs_port r \<le> maxPort" using Cons.prems(3) by auto
  then have id: "int32 (rs_port r - 1) = rs_port r - 1" "int32 (rs_port r + 1) = rs_port r + 1"
    using Cons.prems(1) by (auto simp: int32_id maxPort_def)
  have "(\<exists>x \<in> set (complement_from p (rs_port r + 1) rs). rule_admits sel x (Some l) protocol port) \<longleftrightarrow>
      protocol = p \<and> rs_port r + 1 \<le> port \<and> port \<le> maxPort \<and> port \<notin> rs_port ` set rs"
    using Cons.prems r by (intro Cons.IH) force+
  moreover have "rs_port r < rs_port x" if "x \<in> set rs" for x using Cons.prems(2) that by simp
  ultimately show ?case
    using r Cons.prems(1) by (auto simp: id openRule_admits bex_Un) (force simp: image_iff)+
qed

lemma allow_rules_admits:
  "(\<exists>x \<in> set (allow_rules_for p rs). rule_admits sel x (Some l) protocol port) \<longleftrightarrow>
   protocol = p \<and> (\<exists>r \<in> set rs. rs_port r = port \<and> (case rs_allowed r of None \<Rightarrow> False | Some s \<Rightarrow> sel s l))"
  by (induction rs) (auto simp: rule_admits_def port_covers_def split: option.splits)

lemma denyAllowedPeer_concerns:
  assumes "denyAllowedPeer d = (Some a, us)"
  shows "(rule_from d = [] \<or> (\<exists>p \<in> set (rule_from d). case cp_namespaces p of None \<Rightarrow> False | Some s \<Rightarrow> sel s l)) \<longleftrightarrow>
    \<not> (case a of None \<Rightarrow> False | Some s \<Rightarrow> sel s l)"
proof (cases "rule_from d = []")
  case True
  with assms show ?thesis by (simp add: denyAllowedPeer_def)
next
  case False
  with assms obtain peer where from1: "rule_from d = [peer]"
    by (cases "rule_from d") (auto simp: denyAllowedPeer_def Let_def split: if_splits)
  with assms obtain s where s: "cp_namespaces peer = Some s"
    by (auto simp: denyAllowedPeer_def Let_def split: option.splits)
  with assms from1 have ls: "ls_labels s = []" "length (ls_expressions s) = 1"
    by (auto simp: denyAllowedPeer_def Let_def split: if_splits)
  then obtain r where r: "ls_expressions s = [r]" by (cases "ls_expressions s") auto
  with assms from1 s ls have op: "rq_operator r = ''NotIn''" "rq_values r \<noteq> []"
    and a: "a = Some \<lparr>ls_labels = [], ls_expressions =
      [\<lparr>rq_key = rq_key r, rq_operator = ''In'', rq_values = rq_values r\<rparr>]\<rparr>"
    by (auto simp: denyAllowedPeer_def Let_def split: if_splits)
  from ls r op have "s = \<lparr>ls_labels = [], ls_expressions =
      [\<lparr>rq_key = rq_key r, rq_operator = ''NotIn'', rq_values = rq_values r\<rparr>]\<rparr>"
    by (cases s; cases r) simp
  with in_not_in [OF op(2), of "rq_key r" l] a from1 s show ?thesis by simp
qed

lemma restricted_rules_admit:
  assumes "restrictedPorts rules = (restricted, [])"
    and "\<And>d p. d \<in> set rules \<Longrightarrow> p \<in> set (rule_ports d) \<Longrightarrow> rule_action d = CNPActionDeny \<Longrightarrow>
      minPort \<le> cpt_port p \<and> cpt_port p \<le> maxPort"
    and "protocol \<in> set translatableProtocols" and "minPort \<le> port" and "port \<le> maxPort"
    and "hasAnyRestriction restricted"
  shows "(\<exists>x \<in> set (restrictedAllowRules restricted @ complementRules restricted). rule_admits sel x (Some l) protocol port) \<longleftrightarrow>
    (\<forall>r \<in> set (restrictions_of restricted protocol). rs_port r = port \<longrightarrow>
       (case rs_allowed r of None \<Rightarrow> False | Some s \<Rightarrow> sel s l))"
proof -
  note rl = restricted_lists [OF assms(1)]
  have bounds: "minPort \<le> rs_port r \<and> rs_port r \<le> maxPort" if r: "r \<in> set (restrictions_of restricted p)" for r p
  proof -
    from r rl(1) obtain q d where d: "d \<in> set rules" "((p, q), r) \<in> set (rule_restrictions d)" by auto
    then have "rule_action d = CNPActionDeny" by (auto simp: rule_restrictions_def split: if_splits)
    moreover from d(2) obtain c where "c \<in> set (rule_ports d)" "rs_port r = cpt_port c"
      by (auto simp: rule_restrictions_def port_restrictions_def split: if_splits option.splits)
    ultimately show ?thesis using assms(2) d(1) by metis
  qed
  have strict: "sorted_wrt (<) (map rs_port (restrictions_of restricted p))" for p
    using rl(2,3) by (simp add: strict_sorted_iff)
  have allow: "(\<exists>x \<in> set (restrictedAllowRules restricted). rule_admits sel x (Some l) protocol port) \<longleftrightarrow>
      (\<exists>r \<in> set (restrictions_of restricted protocol). rs_port r = port \<and>
         (case rs_allowed r of None \<Rightarrow> False | Some s \<Rightarrow> sel s l))"
    using assms(3) by (auto simp: restrictedAllowRules_def translatableProtocols_def bex_Un allow_rules_admits)
  have "(\<exists>x \<in> set (complementRulesForProtocol p (restrictions_of restricted p)). rule_admits sel x (Some l) protocol port) \<longleftrightarrow>
      protocol = p \<and> minPort \<le> port \<and> port \<le> maxPort \<and> port \<notin> rs_port ` set (restrictions_of restricted p)" for p
    unfolding complementRulesForProtocol_def
    by (rule complement_admits [OF _ strict]) (use bounds in \<open>auto simp: minPort_def\<close>)
  then have comp: "(\<exists>x \<in> set (complementRules restricted). rule_admits sel x (Some l) protocol port) \<longleftrightarrow>
      port \<notin> rs_port ` set (restrictions_of restricted protocol)"
    using assms(3-6) by (auto simp: complementRules_def translatableProtocols_def bex_Un)
  have unique: "r = r'" if "r \<in> set (restrictions_of restricted protocol)" "r' \<in> set (restrictions_of restricted protocol)"
    "rs_port r = rs_port r'" for r r'
    using that rl(2) [of protocol] by (auto simp: distinct_map dest: inj_onD)
  show ?thesis
    unfolding set_append bex_Un allow comp using unique by blast
qed

end

lemma rule_restrictions_mem:
  "((protocol, port), r) \<in> set (rule_restrictions d) \<longleftrightarrow>
   rule_action d = CNPActionDeny \<and> isTranslatableProtocol protocol \<and> rs_port r = port \<and>
   fst (denyAllowedPeer d) = Some (rs_allowed r) \<and>
   (\<exists>p \<in> set (rule_ports d). cpt_protocol p = protocol \<and> cpt_port p = port)"
proof (cases r)
  case (fields q a)
  have "((protocol, port), r) \<in> set (port_restrictions allowed ps) \<longleftrightarrow>
      isTranslatableProtocol protocol \<and> q = port \<and> a = allowed \<and>
      (\<exists>p \<in> set ps. cpt_protocol p = protocol \<and> cpt_port p = port)" for allowed ps
    unfolding port_restrictions_def fields set_map set_filter image_iff by auto
  then show ?thesis
    by (auto simp: rule_restrictions_def fields split: option.splits)
qed

lemma translate_parts:
  assumes "TranslateClusterNetworkPolicy cnp ns = (Some np, [])"
  obtains irs restricted where "translate_allows (cnp_ingress cnp) = (irs, [])"
    and "restrictedPorts (cnp_ingress cnp) = (restricted, [])"
    and "nps_ingress (np_spec np) = irs @ restrictedAllowRules restricted @ complementRules restricted"
  using assms by (auto simp: TranslateClusterNetworkPolicy_def Let_def split: prod.splits if_splits)

lemma restrictedPorts_supported:
  assumes "restrictedPorts rules = (restricted, [])" and "d \<in> set rules" and "rule_action d = CNPActionDeny"
  shows "(\<exists>a. denyAllowedPeer d = (Some a, [])) \<and> (\<forall>p \<in> set (rule_ports d). isTranslatableProtocol (cpt_protocol p))"
  using assms collect_restrictions_supported [of rules "[]"]
  by (auto simp: restrictedPorts_def split: prod.splits)

section \<open>Properties\<close>

definition team_a_only :: CNPRule where
  "team_a_only =
     \<lparr>rule_name = ''web'', rule_action = CNPActionDeny,
      rule_from = [\<lparr>cp_namespaces = Some \<lparr>ls_labels = [],
        ls_expressions = [\<lparr>rq_key = ''team'', rq_operator = ''NotIn'', rq_values = [''a'']\<rparr>]\<rparr>\<rparr>],
      rule_ports = [\<lparr>cpt_protocol = ''TCP'', cpt_port = 8080\<rparr>]\<rparr>"

definition demo_cnp :: ClusterNetworkPolicy where
  "demo_cnp = \<lparr>cnp_name = ''p'', cnp_namespaces = Some any_namespace, cnp_pods = None,
     cnp_ingress = [team_a_only], cnp_egress = []\<rparr>"

definition demo_np :: network_policy where
  "demo_np = the (fst (TranslateClusterNetworkPolicy demo_cnp ''app''))"

lemma demo_translation: "TranslateClusterNetworkPolicy demo_cnp ''app'' = (Some demo_np, [])"
proof -
  have "snd (TranslateClusterNetworkPolicy demo_cnp ''app'') = []"
    and "fst (TranslateClusterNetworkPolicy demo_cnp ''app'') \<noteq> None" by code_simp+
  then show ?thesis by (simp add: demo_np_def prod_eq_iff)
qed

text \<open>The Deny rules that name a port are those the translation enforces.\<close>

definition port_denials :: "CNPRule list \<Rightarrow> CNPRule list" where
  "port_denials rules = filter (\<lambda>d. rule_action d = CNPActionDeny \<and> rule_ports d \<noteq> []) rules"

lemma port_denials_iff [simp]:
  "d \<in> set (port_denials rules) \<longleftrightarrow> d \<in> set rules \<and> rule_action d = CNPActionDeny \<and> rule_ports d \<noteq> []"
  by (auto simp: port_denials_def)

lemma restrictions_are_denials:
  assumes "restrictedPorts rules = (restricted, [])"
  shows "r \<in> set (restrictions_of restricted p) \<longleftrightarrow>
      (\<exists>d \<in> set (port_denials rules). isTranslatableProtocol p \<and> denyAllowedPeer d = (Some (rs_allowed r), []) \<and>
         (\<exists>c \<in> set (rule_ports d). cpt_protocol c = p \<and> cpt_port c = rs_port r))"
proof -
  note supported = restrictedPorts_supported [OF assms]
  have "r \<in> set (restrictions_of restricted p) \<longleftrightarrow> (\<exists>d \<in> set rules. \<exists>q. ((p, q), r) \<in> set (rule_restrictions d))"
    using restricted_lists(1) [OF assms, of p] by auto
  also have "\<dots> \<longleftrightarrow> (\<exists>d \<in> set rules. rule_action d = CNPActionDeny \<and> isTranslatableProtocol p \<and>
      fst (denyAllowedPeer d) = Some (rs_allowed r) \<and>
      (\<exists>c \<in> set (rule_ports d). cpt_protocol c = p \<and> cpt_port c = rs_port r))"
    by (simp add: rule_restrictions_mem)
  also have "\<dots> \<longleftrightarrow> (\<exists>d \<in> set (port_denials rules). isTranslatableProtocol p \<and> denyAllowedPeer d = (Some (rs_allowed r), []) \<and>
      (\<exists>c \<in> set (rule_ports d). cpt_protocol c = p \<and> cpt_port c = rs_port r))"
    using supported by (fastforce simp: prod_eq_iff)
  finally show ?thesis .
qed

lemma any_restriction_iff:
  assumes "restrictedPorts rules = (restricted, [])"
  shows "hasAnyRestriction restricted \<longleftrightarrow> port_denials rules \<noteq> []"
proof
  assume "hasAnyRestriction restricted"
  with restricted_lists(4) [OF assms] obtain p r where "r \<in> set (restrictions_of restricted p)"
    by (metis list.set_intros(1) neq_Nil_conv)
  with restrictions_are_denials [OF assms] show "port_denials rules \<noteq> []" by (metis empty_iff list.set(1))
next
  assume "port_denials rules \<noteq> []"
  then obtain d where d: "d \<in> set (port_denials rules)" by (metis list.set_intros(1) neq_Nil_conv)
  then obtain c where c: "c \<in> set (rule_ports d)" by (cases "rule_ports d") auto
  from restrictedPorts_supported [OF assms] d c obtain a where
    "denyAllowedPeer d = (Some a, [])" "isTranslatableProtocol (cpt_protocol c)" by auto
  with restrictions_are_denials [OF assms, of "\<lparr>rs_port = cpt_port c, rs_allowed = a\<rparr>" "cpt_protocol c"] d c
  have "restrictions_of restricted (cpt_protocol c) \<noteq> []" by (metis empty_iff list.set(1) restriction.select_convs(1,2))
  with restricted_lists(4) [OF assms] show "hasAnyRestriction restricted" by blast
qed

text \<open>Without a restriction, and on other protocols, the rules made from restrictions admit nothing.\<close>

lemma allow_rules_protocol:
  "x \<in> set (allow_rules_for p rs) \<Longrightarrow> rule_admits sel x src protocol port \<Longrightarrow> protocol = p"
  by (induction rs) (auto simp: rule_admits_def port_covers_def split: option.splits)

lemma complement_protocol:
  "x \<in> set (complement_from p lo rs) \<Longrightarrow> rule_admits sel x src protocol port \<Longrightarrow> protocol = p"
  by (induction rs arbitrary: lo) (auto simp: rule_admits_def openRule_def port_covers_def split: if_splits)

lemma restricted_rules_protocol:
  assumes "x \<in> set (restrictedAllowRules restricted @ complementRules restricted)"
    and "rule_admits sel x src protocol port"
  shows "protocol \<in> set translatableProtocols"
  using assms allow_rules_protocol complement_protocol
  by (fastforce simp: restrictedAllowRules_def complementRules_def complementRulesForProtocol_def split: if_splits)

lemma restricted_rules_none:
  assumes "restrictedPorts rules = (restricted, [])" and "\<not> hasAnyRestriction restricted"
  shows "restrictedAllowRules restricted @ complementRules restricted = []"
proof -
  have "restrictions_of restricted p = []" for p using restricted_lists(4) [OF assms(1)] assms(2) by blast
  then show ?thesis using assms(2) by (simp add: restrictedAllowRules_def complementRules_def)
qed

lemma denials_admit:
  assumes "label_selectors sel" and "restrictedPorts rules = (restricted, [])"
    and "\<And>d p. d \<in> set rules \<Longrightarrow> rule_action d = CNPActionDeny \<Longrightarrow> p \<in> set (rule_ports d) \<Longrightarrow>
      minPort \<le> cpt_port p \<and> cpt_port p \<le> maxPort"
    and "minPort \<le> port" and "port \<le> maxPort"
  shows "(\<exists>x \<in> set (restrictedAllowRules restricted @ complementRules restricted). rule_admits sel x (Some l) protocol port) \<longleftrightarrow>
    protocol \<in> {''TCP'', ''UDP''} \<and> port_denials rules \<noteq> [] \<and>
    \<not> (\<exists>d \<in> set (port_denials rules). rule_concerns sel d (Some l) protocol port)"
proof (cases "protocol \<in> set translatableProtocols \<and> hasAnyRestriction restricted")
  case False
  then show ?thesis
  proof (cases "hasAnyRestriction restricted")
    case True
    with False restricted_rules_protocol [of _ restricted sel "Some l" protocol port]
    show ?thesis by (auto simp: translatableProtocols_def)
  next
    case False
    with restricted_rules_none [OF assms(2)] any_restriction_iff [OF assms(2)] show ?thesis by simp
  qed
next
  case True
  then have proto: "isTranslatableProtocol protocol" "protocol \<in> {''TCP'', ''UDP''}"
    by (auto simp: isTranslatableProtocol_def translatableProtocols_def)
  have concerns: "rule_concerns sel d (Some l) protocol port \<longleftrightarrow>
      \<not> (case a of None \<Rightarrow> False | Some s \<Rightarrow> sel s l) \<and>
      (\<exists>p \<in> set (rule_ports d). cpt_protocol p = protocol \<and> cpt_port p = port)"
    if "d \<in> set (port_denials rules)" "denyAllowedPeer d = (Some a, [])" for d a
    using label_selectors.denyAllowedPeer_concerns [OF assms(1) that(2), of l] that(1)
    by (simp add: rule_concerns_def)
  have "(\<forall>r \<in> set (restrictions_of restricted protocol). rs_port r = port \<longrightarrow>
       (case rs_allowed r of None \<Rightarrow> False | Some s \<Rightarrow> sel s l)) \<longleftrightarrow>
    \<not> (\<exists>d \<in> set (port_denials rules). rule_concerns sel d (Some l) protocol port)" (is "?L \<longleftrightarrow> ?R")
  proof
    assume L: ?L
    show ?R
    proof
      assume "\<exists>d \<in> set (port_denials rules). rule_concerns sel d (Some l) protocol port"
      then obtain d where d: "d \<in> set (port_denials rules)" "rule_concerns sel d (Some l) protocol port" by blast
      from restrictedPorts_supported [OF assms(2)] d(1) obtain a where a: "denyAllowedPeer d = (Some a, [])" by auto
      from concerns [OF d(1) a] d proto a
        restrictions_are_denials [OF assms(2), of "\<lparr>rs_port = port, rs_allowed = a\<rparr>" protocol]
      have "\<lparr>rs_port = port, rs_allowed = a\<rparr> \<in> set (restrictions_of restricted protocol)"
        by (metis restriction.select_convs(1,2))
      with L concerns [OF d(1) a] d(2) show False by fastforce
    qed
  next
    assume R: ?R
    show ?L
    proof (intro ballI impI)
      fix r assume r: "r \<in> set (restrictions_of restricted protocol)" "rs_port r = port"
      with restrictions_are_denials [OF assms(2)] obtain d where d: "d \<in> set (port_denials rules)"
        "denyAllowedPeer d = (Some (rs_allowed r), [])"
        "\<exists>c \<in> set (rule_ports d). cpt_protocol c = protocol \<and> cpt_port c = port" by metis
      with concerns [OF d(1,2)] R show "case rs_allowed r of None \<Rightarrow> False | Some s \<Rightarrow> sel s l" by blast
    qed
  qed
  moreover from assms(3) have "minPort \<le> cpt_port p \<and> cpt_port p \<le> maxPort"
    if "d \<in> set rules" "p \<in> set (rule_ports d)" "rule_action d = CNPActionDeny" for d p
    using that by blast
  note label_selectors.restricted_rules_admit [OF assms(1,2) this _ assms(4,5), where protocol = protocol and l = l]
  ultimately show ?thesis using True proto any_restriction_iff [OF assms(2)] by simp
qed

text \<open>
  C10: what the NetworkPolicy made from a policy admits from pods, when nothing in the policy is
  reported as unsupported and its Deny rules name valid ports only. A pod's traffic is admitted
  if an Allow rule concerns it, or if it is TCP or UDP, some Deny rule names a port, and no Deny
  rule that names a port concerns it. So it is what the policy means, except in exactly three
  cases, none of which is reported: traffic no rule concerns is denied if no Deny rule names a
  port, as in a policy of Allow rules only; it is denied on protocols other than TCP and UDP;
  and what only Deny rules without ports concern, which stand for every port, is admitted as
  soon as another Deny rule names one.
\<close>

theorem translation_denies_exactly:
  assumes "label_selectors sel" and "TranslateClusterNetworkPolicy cnp ns = (Some np, [])"
    and "\<And>d p. d \<in> set (cnp_ingress cnp) \<Longrightarrow> rule_action d = CNPActionDeny \<Longrightarrow> p \<in> set (rule_ports d) \<Longrightarrow>
      minPort \<le> cpt_port p \<and> cpt_port p \<le> maxPort"
    and "1 \<le> port" and "port \<le> 65535"
  shows "(policy_admits sel np (Some l) protocol port \<longleftrightarrow>
      (\<exists>a \<in> set (cnp_ingress cnp). rule_action a = CNPActionAllow \<and> rule_concerns sel a (Some l) protocol port) \<or>
      protocol \<in> {''TCP'', ''UDP''} \<and>
      (\<exists>d \<in> set (cnp_ingress cnp). rule_action d = CNPActionDeny \<and> rule_ports d \<noteq> []) \<and>
      \<not> (\<exists>d \<in> set (cnp_ingress cnp). rule_action d = CNPActionDeny \<and> rule_ports d \<noteq> [] \<and>
          rule_concerns sel d (Some l) protocol port)) \<and>
    (policy_admits sel np (Some l) protocol port \<noteq> cnp_admits sel cnp (Some l) protocol port \<longleftrightarrow>
      \<not> (\<exists>a \<in> set (cnp_ingress cnp). rule_action a = CNPActionAllow \<and> rule_concerns sel a (Some l) protocol port) \<and>
      (if \<exists>d \<in> set (cnp_ingress cnp). rule_action d = CNPActionDeny \<and> rule_concerns sel d (Some l) protocol port
       then protocol \<in> {''TCP'', ''UDP''} \<and>
         (\<exists>d \<in> set (cnp_ingress cnp). rule_action d = CNPActionDeny \<and> rule_ports d \<noteq> []) \<and>
         (\<forall>d \<in> set (cnp_ingress cnp). rule_action d = CNPActionDeny \<longrightarrow>
            rule_concerns sel d (Some l) protocol port \<longrightarrow> rule_ports d = [])
       else protocol \<notin> {''TCP'', ''UDP''} \<or>
         (\<forall>d \<in> set (cnp_ingress cnp). rule_action d = CNPActionDeny \<longrightarrow> rule_ports d = [])))"
proof -
  from assms(2) obtain irs restricted where irs: "translate_allows (cnp_ingress cnp) = (irs, [])"
    and restricted: "restrictedPorts (cnp_ingress cnp) = (restricted, [])"
    and ing: "nps_ingress (np_spec np) = irs @ restrictedAllowRules restricted @ complementRules restricted"
    by (rule translate_parts)
  have ports: "minPort \<le> port" "port \<le> maxPort" using assms(4,5) by (simp_all add: minPort_def maxPort_def)
  have named: "port_denials rules \<noteq> [] \<longleftrightarrow> (\<exists>d \<in> set rules. rule_action d = CNPActionDeny \<and> rule_ports d \<noteq> [])" for rules
    by (auto simp: port_denials_def filter_empty_conv)
  have "policy_admits sel np (Some l) protocol port \<longleftrightarrow>
      (\<exists>a \<in> set (cnp_ingress cnp). rule_action a = CNPActionAllow \<and> rule_concerns sel a (Some l) protocol port) \<or>
      protocol \<in> {''TCP'', ''UDP''} \<and>
      (\<exists>d \<in> set (cnp_ingress cnp). rule_action d = CNPActionDeny \<and> rule_ports d \<noteq> []) \<and>
      \<not> (\<exists>d \<in> set (cnp_ingress cnp). rule_action d = CNPActionDeny \<and> rule_ports d \<noteq> [] \<and>
          rule_concerns sel d (Some l) protocol port)"
  proof -
    have eq: "policy_admits sel np (Some l) protocol port \<longleftrightarrow> (\<exists>r \<in> set irs. rule_admits sel r (Some l) protocol port) \<or>
        (\<exists>x \<in> set (restrictedAllowRules restricted @ complementRules restricted). rule_admits sel x (Some l) protocol port)"
      unfolding policy_admits_def ing set_append [of irs] bex_Un ..
    have D: "(\<exists>x \<in> set (restrictedAllowRules restricted @ complementRules restricted). rule_admits sel x (Some l) protocol port) \<longleftrightarrow>
        protocol \<in> {''TCP'', ''UDP''} \<and> port_denials (cnp_ingress cnp) \<noteq> [] \<and>
        \<not> (\<exists>d \<in> set (port_denials (cnp_ingress cnp)). rule_concerns sel d (Some l) protocol port)"
      by (rule denials_admit [OF assms(1) restricted _ ports]) (rule assms(3))
    show ?thesis unfolding eq translate_allows_admits [OF irs] D named by auto
  qed
  then show ?thesis unfolding cnp_admits_def by (cases "protocol \<in> {''TCP'', ''UDP''}") (auto 0 3)
qed

text \<open>A policy that shows agreement and each of the three differences.\<close>

definition mixed_cnp :: "CNPRule list \<Rightarrow> ClusterNetworkPolicy" where
  "mixed_cnp rules = \<lparr>cnp_name = ''p'', cnp_namespaces = Some any_namespace, cnp_pods = None,
     cnp_ingress = rules, cnp_egress = []\<rparr>"

definition quarantine :: CNPRule where
  "quarantine =
     \<lparr>rule_name = ''quarantine'', rule_action = CNPActionDeny,
      rule_from = [\<lparr>cp_namespaces = Some \<lparr>ls_labels = [],
        ls_expressions = [\<lparr>rq_key = ''safe'', rq_operator = ''NotIn'', rq_values = [''yes'']\<rparr>]\<rparr>\<rparr>],
      rule_ports = []\<rparr>"

definition allow_web :: CNPRule where
  "allow_web = \<lparr>rule_name = ''web'', rule_action = CNPActionAllow, rule_from = [],
     rule_ports = [\<lparr>cpt_protocol = ''TCP'', cpt_port = 80\<rparr>]\<rparr>"

definition translated :: "CNPRule list \<Rightarrow> network_policy" where
  "translated rules = the (fst (TranslateClusterNetworkPolicy (mixed_cnp rules) ''app''))"

lemma translatedI:
  assumes "snd (TranslateClusterNetworkPolicy (mixed_cnp rules) ''app'') = []"
    and "fst (TranslateClusterNetworkPolicy (mixed_cnp rules) ''app'') \<noteq> None"
  shows "TranslateClusterNetworkPolicy (mixed_cnp rules) ''app'' = (Some (translated rules), [])"
  using assms by (simp add: translated_def prod_eq_iff)

lemma mixed_translations:
  "TranslateClusterNetworkPolicy (mixed_cnp [team_a_only, quarantine]) ''app'' = (Some (translated [team_a_only, quarantine]), [])"
  "TranslateClusterNetworkPolicy (mixed_cnp [allow_web]) ''app'' = (Some (translated [allow_web]), [])"
  by (rule translatedI; code_simp)+

theorem translation_denies_exactly_witness:
  "policy_admits selector_matches (translated [team_a_only, quarantine]) (Some [(''team'', ''a'')]) ''TCP'' 8080 \<and>
   \<not> policy_admits selector_matches (translated [team_a_only, quarantine]) (Some [(''team'', ''b'')]) ''TCP'' 8080 \<and>
   policy_admits selector_matches (translated [team_a_only, quarantine]) (Some []) ''UDP'' 53 \<and>
   \<not> cnp_admits selector_matches (mixed_cnp [team_a_only, quarantine]) (Some []) ''UDP'' 53 \<and>
   \<not> policy_admits selector_matches (translated [team_a_only, quarantine]) (Some [(''safe'', ''yes'')]) ''SCTP'' 53 \<and>
   cnp_admits selector_matches (mixed_cnp [team_a_only, quarantine]) (Some [(''safe'', ''yes'')]) ''SCTP'' 53 \<and>
   \<not> policy_admits selector_matches (translated [allow_web]) (Some []) ''TCP'' 22 \<and>
   cnp_admits selector_matches (mixed_cnp [allow_web]) (Some []) ''TCP'' 22"
proof -
  note defs = mixed_cnp_def team_a_only_def quarantine_def allow_web_def CNPActionAllow_def CNPActionDeny_def
    minPort_def maxPort_def rule_concerns_def selector_matches_def requirement_holds_def cnp_admits_def
  note deny = conjunct1 [OF translation_denies_exactly [OF k8s.label_selectors_axioms mixed_translations(1)]]
  note allow = conjunct1 [OF translation_denies_exactly [OF k8s.label_selectors_axioms mixed_translations(2)]]
  have "policy_admits selector_matches (translated [team_a_only, quarantine]) (Some [(''team'', ''a'')]) ''TCP'' 8080"
    "\<not> policy_admits selector_matches (translated [team_a_only, quarantine]) (Some [(''team'', ''b'')]) ''TCP'' 8080"
    "policy_admits selector_matches (translated [team_a_only, quarantine]) (Some []) ''UDP'' 53"
    "\<not> policy_admits selector_matches (translated [team_a_only, quarantine]) (Some [(''safe'', ''yes'')]) ''SCTP'' 53"
    by (subst deny; auto simp: defs)+
  moreover have "\<not> policy_admits selector_matches (translated [allow_web]) (Some []) ''TCP'' 22"
    by (subst allow; auto simp: defs)
  ultimately show ?thesis by (simp add: defs)
qed

text \<open>
  Traffic from outside the cluster, on every port and protocol, is left to the Allow
  rules: the rules that reopen the ports a Deny rule does not mention select namespaces only.
\<close>

theorem outside_traffic_needs_allow_rule:
  assumes "TranslateClusterNetworkPolicy cnp ns = (Some np, [])"
  shows "policy_admits sel np None protocol port \<longleftrightarrow>
    (\<exists>a \<in> set (cnp_ingress cnp). rule_action a = CNPActionAllow \<and> rule_concerns sel a None protocol port)"
proof -
  from assms obtain irs restricted where irs: "translate_allows (cnp_ingress cnp) = (irs, [])"
    and ing: "nps_ingress (np_spec np) = irs @ restrictedAllowRules restricted @ complementRules restricted"
    by (rule translate_parts)
  have "\<not> rule_admits sel x None protocol port" if "x \<in> set (allow_rules_for p rs)" for x p rs
    using that by (induction rs) (auto simp: rule_admits_def split: option.splits)
  moreover have "\<not> rule_admits sel x None protocol port" if "x \<in> set (complement_from p lo rs)" for x p lo rs
    using that by (induction rs arbitrary: lo) (auto simp: rule_admits_def openRule_def split: if_splits)
  ultimately have "\<not> (\<exists>x \<in> set (restrictedAllowRules restricted @ complementRules restricted).
      rule_admits sel x None protocol port)"
    by (auto simp: restrictedAllowRules_def complementRules_def complementRulesForProtocol_def split: if_splits)
  with translate_allows_admits [OF irs, of sel None protocol port] show ?thesis
    unfolding policy_admits_def ing set_append bex_Un by blast
qed

theorem outside_traffic_needs_allow_rule_witness:
  "\<not> policy_admits selector_matches demo_np None ''TCP'' 443"
  using outside_traffic_needs_allow_rule [OF demo_translation, of selector_matches "''TCP''" 443]
  by (simp add: demo_cnp_def team_a_only_def CNPActionAllow_def CNPActionDeny_def)

text \<open>
  An Allow rule all of whose peers lack a namespace selector concerns nobody, but is
  translated to a rule that admits everyone, from inside and outside the cluster.
\<close>

theorem unsupported_peers_open_the_rule:
  assumes "rule_from rule \<noteq> []" and "\<And>p. p \<in> set (rule_from rule) \<Longrightarrow> cp_namespaces p = None"
    and "translateAllowRule rule = (ir, us)"
  shows "\<not> rule_concerns sel rule src protocol port \<and>
    (rule_admits sel ir src protocol port \<longleftrightarrow>
       rule_ports rule = [] \<or> (\<exists>p \<in> set (rule_ports rule). cpt_protocol p = protocol \<and> cpt_port p = port))"
proof -
  have "fst (translatePeers_loop ps n) = []" if "\<And>p. p \<in> set ps \<Longrightarrow> cp_namespaces p = None" for ps n
    using that by (induction ps) (auto split: prod.splits)
  with assms have "ir = \<lparr>ir_from = [], ir_ports = translatePorts (rule_ports rule)\<rparr>"
    by (auto simp: translateAllowRule_def translatePeers_def prod_eq_iff split: prod.splits)
  with assms(1,2) show ?thesis
    by (cases src) (auto simp: rule_admits_def rule_concerns_def translatePorts_def port_covers_def)
qed

theorem unsupported_peers_open_the_rule_witness:
  "rule_admits selector_matches
     (fst (translateAllowRule \<lparr>rule_name = ''r'', rule_action = CNPActionAllow, rule_from = [\<lparr>cp_namespaces = None\<rparr>],
        rule_ports = []\<rparr>)) None ''TCP'' 22"
  using unsupported_peers_open_the_rule [of "\<lparr>rule_name = ''r'', rule_action = CNPActionAllow,
      rule_from = [\<lparr>cp_namespaces = None\<rparr>], rule_ports = []\<rparr>", OF _ _ prod.collapse [symmetric]]
  by simp

end
