(* ===== verification/Reconcile_Queue.thy ===== *)
theory Reconcile_Queue
  imports Prelude
begin

text \<open>
  The queue of the two controllers that coalesce informer events into single reconcile passes
  (\<open>enqueue\<close> and \<open>Run\<close> of \<open>CNPController\<close> in \<open>internal/agent/cnpcontroller.go\<close>;
  \<open>LoadBalancerController\<close> has the same): a channel of capacity one, event handlers that
  run after the informer has updated its cache, and a loop that takes a token and reconciles
  from the two caches, read one after the other.
\<close>

section \<open>Informer stores\<close>

text \<open>An item of an informer store: of the expected type, or of another one.\<close>

datatype 'i cache_item = Expected 'i | Unexpected string

text \<open>The loop that asserts the type of every item, with the message of its error.\<close>

fun typed_items :: "string \<Rightarrow> 'i cache_item list \<Rightarrow> go_error + 'i list" where
  "typed_items message [] = Inr []"
| "typed_items message (Unexpected t # items) = Inl (Errorf message [t])"
| "typed_items message (Expected i # items) =
     (case typed_items message items of Inl e \<Rightarrow> Inl e | Inr out \<Rightarrow> Inr (i # out))"

lemma typed_items_Expected [simp]: "typed_items message (List.map Expected is) = Inr is"
  by (induction "is") simp_all

section \<open>The queue\<close>

text \<open>\<open>Reading\<close>: in a reconcile, before the first cache is read; \<open>Between\<close>: before the second.\<close>

datatype phase = Idle | Reading | Between

record ('a, 'b) controller =
  ct_queue :: bool
  ct_first :: 'a
  ct_second :: 'b
  ct_events :: nat
  ct_phase :: phase
  ct_seen_first :: "'a option"
  ct_seen_second :: "'b option"

text \<open>\<open>enqueue\<close>: the send that would block is dropped.\<close>

definition enqueue :: "('a, 'b) controller \<Rightarrow> ('a, 'b) controller" where
  "enqueue c = c\<lparr>ct_queue := True\<rparr>"

text \<open>\<open>Run\<close> up to its loop: the caches have synced, one pass is requested.\<close>

definition run_start :: "'a \<Rightarrow> 'b \<Rightarrow> ('a, 'b) controller" where
  "run_start a b =
     enqueue \<lparr>ct_queue = False, ct_first = a, ct_second = b, ct_events = 0, ct_phase = Idle,
              ct_seen_first = None, ct_seen_second = None\<rparr>"

text \<open>
  Steps: an informer changes its cache and owes the event handler a call; an owed handler call
  happens; the loop receives from the queue; a pass reads the first and then the second cache,
  after which it writes to the cluster from what it has read and the loop is idle again.
\<close>

inductive controller_step :: "('a, 'b) controller \<Rightarrow> ('a, 'b) controller \<Rightarrow> bool" where
  first_changes: "controller_step c (c\<lparr>ct_first := a, ct_events := Suc (ct_events c)\<rparr>)"
| second_changes: "controller_step c (c\<lparr>ct_second := b, ct_events := Suc (ct_events c)\<rparr>)"
| handler: "0 < ct_events c \<Longrightarrow> controller_step c (enqueue (c\<lparr>ct_events := ct_events c - 1\<rparr>))"
| receive: "ct_phase c = Idle \<Longrightarrow> ct_queue c \<Longrightarrow> controller_step c (c\<lparr>ct_queue := False, ct_phase := Reading\<rparr>)"
| read_first: "ct_phase c = Reading \<Longrightarrow>
    controller_step c (c\<lparr>ct_seen_first := Some (ct_first c), ct_phase := Between\<rparr>)"
| read_second: "ct_phase c = Between \<Longrightarrow>
    controller_step c (c\<lparr>ct_seen_second := Some (ct_second c), ct_phase := Idle\<rparr>)"

inductive controller_reach :: "('a, 'b) controller \<Rightarrow> ('a, 'b) controller \<Rightarrow> bool" for c0 where
  reach_start: "controller_reach c0 c0"
| reach_step: "controller_reach c0 c \<Longrightarrow> controller_step c c' \<Longrightarrow> controller_reach c0 c'"

inductive_cases controller_stepE: "controller_step c c'"

text \<open>Nothing is asked for: no token, no handler call owed.\<close>

definition calm :: "('a, 'b) controller \<Rightarrow> bool" where
  "calm c \<longleftrightarrow> \<not> ct_queue c \<and> ct_events c = 0"

definition controller_inv :: "('a, 'b) controller \<Rightarrow> bool" where
  "controller_inv c \<longleftrightarrow>
     (calm c \<longrightarrow>
        (ct_phase c = Between \<longrightarrow> ct_seen_first c = Some (ct_first c)) \<and>
        (ct_phase c = Idle \<longrightarrow>
           ct_seen_first c = Some (ct_first c) \<and> ct_seen_second c = Some (ct_second c)))"

lemma controller_inv_start: "controller_inv (run_start a b)"
  by (simp add: controller_inv_def run_start_def enqueue_def calm_def)

lemma controller_inv_step: "controller_step c c' \<Longrightarrow> controller_inv c \<Longrightarrow> controller_inv c'"
  by (erule controller_stepE) (auto simp: controller_inv_def calm_def enqueue_def)

lemma controller_inv_reach: "controller_reach c0 c \<Longrightarrow> controller_inv c0 \<Longrightarrow> controller_inv c"
  by (induction rule: controller_reach.induct) (auto intro: controller_inv_step)

text \<open>
  The controller's own steps, with no further events, use up a bounded amount of work; a state
  with none left is idle and calm.
\<close>

definition work_left :: "('a, 'b) controller \<Rightarrow> nat" where
  "work_left c =
     5 * ct_events c + (if ct_queue c then 4 else 0) +
     (case ct_phase c of Idle \<Rightarrow> 0 | Reading \<Rightarrow> 2 | Between \<Rightarrow> 1)"

lemma work_left_0: "work_left c = 0 \<longleftrightarrow> ct_phase c = Idle \<and> calm c"
  by (auto simp: work_left_def calm_def split: phase.splits)

lemma own_step:
  assumes "0 < work_left c"
  shows "\<exists>c'. controller_step c c' \<and> work_left c' < work_left c \<and> ct_first c' = ct_first c \<and> ct_second c' = ct_second c"
proof -
  consider "0 < ct_events c" | "ct_phase c = Reading" | "ct_phase c = Between" | "ct_phase c = Idle" "ct_queue c"
    using assms by (cases "ct_phase c") (auto simp: work_left_def split: if_splits)
  then show ?thesis
  proof cases
    case 1
    show ?thesis by (rule exI, rule conjI, rule handler [OF 1]) (use 1 in \<open>auto simp: enqueue_def work_left_def\<close>)
  next
    case 2
    show ?thesis by (rule exI, rule conjI, rule read_first [OF 2]) (simp add: work_left_def 2)
  next
    case 3
    show ?thesis by (rule exI, rule conjI, rule read_second [OF 3]) (simp add: work_left_def 3)
  next
    case 4
    show ?thesis by (rule exI, rule conjI, rule receive [OF 4]) (simp add: work_left_def 4)
  qed
qed

lemma reach_trans: "controller_reach c1 c2 \<Longrightarrow> controller_reach c0 c1 \<Longrightarrow> controller_reach c0 c2"
  by (induction rule: controller_reach.induct) (auto intro: reach_step)

lemma settles:
  "\<exists>c'. controller_reach c c' \<and> work_left c' = 0 \<and> ct_first c' = ct_first c \<and> ct_second c' = ct_second c"
proof (induction "work_left c" arbitrary: c rule: less_induct)
  case less
  show ?case
  proof (cases "work_left c = 0")
    case True
    then show ?thesis by (auto intro: reach_start)
  next
    case False
    then obtain c1 where c1: "controller_step c c1" "work_left c1 < work_left c"
      "ct_first c1 = ct_first c" "ct_second c1 = ct_second c" using own_step [of c] by auto
    from less [OF c1(2)] obtain c' where "controller_reach c1 c'" "work_left c' = 0"
      "ct_first c' = ct_first c1" "ct_second c' = ct_second c1" by blast
    with c1 reach_trans [OF this(1) reach_step [OF reach_start c1(1)]] show ?thesis by auto
  qed
qed

section \<open>Properties\<close>

text \<open>
  C40: no event is lost although the queue holds one token: whenever the controller is idle
  with an empty queue and no handler call outstanding, its last pass has seen both caches as
  they are now, whatever arrived while earlier passes were running; and from every state it
  gets there by its own steps once the caches stop changing.
\<close>

theorem idle_controller_is_current:
  assumes "controller_reach (run_start a b) c"
  shows "(ct_phase c = Idle \<and> \<not> ct_queue c \<and> ct_events c = 0 \<longrightarrow>
      ct_seen_first c = Some (ct_first c) \<and> ct_seen_second c = Some (ct_second c)) \<and>
    (\<exists>c'. controller_reach c c' \<and> ct_phase c' = Idle \<and> \<not> ct_queue c' \<and> ct_events c' = 0 \<and>
       ct_seen_first c' = Some (ct_first c) \<and> ct_seen_second c' = Some (ct_second c))"
proof -
  have inv: "ct_seen_first c = Some (ct_first c) \<and> ct_seen_second c = Some (ct_second c)"
    if "controller_reach (run_start a b) c" "ct_phase c = Idle" "calm c" for c
    using controller_inv_reach [OF that(1) controller_inv_start] that(2,3) by (simp add: controller_inv_def)
  obtain c' where c': "controller_reach c c'" "work_left c' = 0" "ct_first c' = ct_first c" "ct_second c' = ct_second c"
    using settles [of c] by blast
  with inv [OF reach_trans [OF c'(1) assms]] inv [OF assms] show ?thesis by (auto simp: work_left_0 calm_def)
qed

theorem idle_controller_is_current_witness:
  "\<exists>c :: (nat, nat) controller. controller_reach (run_start 0 0) c \<and> ct_phase c = Idle \<and> \<not> ct_queue c \<and> ct_events c = 0 \<and>
     ct_seen_first c = Some 0 \<and> ct_seen_second c = Some 0"
proof -
  let ?c0 = "run_start 0 0 :: (nat, nat) controller"
  let ?c1 = "?c0\<lparr>ct_queue := False, ct_phase := Reading\<rparr>"
  let ?c2 = "?c1\<lparr>ct_seen_first := Some (ct_first ?c1), ct_phase := Between\<rparr>"
  let ?c3 = "?c2\<lparr>ct_seen_second := Some (ct_second ?c2), ct_phase := Idle\<rparr>"
  have "controller_step ?c0 ?c1" by (rule receive) (simp_all add: run_start_def enqueue_def)
  moreover have "controller_step ?c1 ?c2" by (rule read_first) simp
  moreover have "controller_step ?c2 ?c3" by (rule read_second) simp
  ultimately have r: "controller_reach ?c0 ?c3" by (blast intro: reach_start reach_step)
  from idle_controller_is_current [OF r] r show ?thesis
    by (intro exI [of _ ?c3]) (simp add: run_start_def enqueue_def)
qed

end
