(* ===== verification/Cnp_Controller.thy ===== *)
theory Cnp_Controller
  imports Cnp Reconcile_Queue
begin

text \<open>
  The controller of \<open>internal/agent/cnpcontroller.go\<close>: decoding the custom resources of the
  informer cache, the \<open>NetworkPolicy\<close> objects they call for, and the pass that creates,
  updates and deletes managed policies until the cluster has exactly those. Parameters: the
  API machinery's conversion of an unstructured object, the parsing of label selectors, and the
  client of the networking API. Log lines are collected.
\<close>

definition ClusterNetworkPolicyGroup :: string where
  "ClusterNetworkPolicyGroup = ''networking.k8s.aws''"

definition ClusterNetworkPolicyVersion :: string where
  "ClusterNetworkPolicyVersion = ''v1alpha1''"

definition ClusterNetworkPolicyKind :: string where
  "ClusterNetworkPolicyKind = ''ClusterNetworkPolicy''"

section \<open>Decoding the informer caches\<close>

record cnpPeerManifest =
  pm_namespaces :: "label_selector option"

record cnpPortNumberManifest =
  pn_protocol :: string
  pn_port :: int

record cnpPortManifest =
  pt_port_number :: cnpPortNumberManifest

record cnpRuleManifest =
  rm_name :: string
  rm_action :: string
  rm_from :: "cnpPeerManifest list"
  rm_ports :: "cnpPortManifest list"

record cnpManifest =
  cm_subject_namespaces :: "label_selector option"
  cm_subject_pods :: "label_selector option"
  cm_ingress :: "cnpRuleManifest list"
  cm_egress :: "cnpRuleManifest list"

record 'o unstructured =
  us_name :: string
  us_uid :: string
  us_object :: 'o

record namespace_object =
  ns_name :: string
  ns_labels :: "(string, string) go_map"

record decodedCNP =
  dc_cnp :: ClusterNetworkPolicy
  dc_uid :: string

definition decodeRuleManifests :: "cnpRuleManifest list \<Rightarrow> CNPRule list" where
  "decodeRuleManifests rules =
     map (\<lambda>r. \<lparr>rule_name = rm_name r, rule_action = rm_action r,
               rule_from = map (\<lambda>p. \<lparr>cp_namespaces = pm_namespaces p\<rparr>) (rm_from r),
               rule_ports = map (\<lambda>p. \<lparr>cpt_protocol = pn_protocol (pt_port_number p),
                                      cpt_port = pn_port (pt_port_number p)\<rparr>) (rm_ports r)\<rparr>) rules"

definition decodeClusterNetworkPolicy ::
  "('o \<Rightarrow> go_error + cnpManifest) \<Rightarrow> 'o unstructured \<Rightarrow> go_error + ClusterNetworkPolicy" where
  "decodeClusterNetworkPolicy convert obj =
     (case convert (us_object obj) of
        Inl e \<Rightarrow> Inl (Wrapf ''decode cluster network policy %q: %w'' [us_name obj] e)
      | Inr manifest \<Rightarrow>
          Inr \<lparr>cnp_name = us_name obj, cnp_namespaces = cm_subject_namespaces manifest,
               cnp_pods = cm_subject_pods manifest,
               cnp_ingress = decodeRuleManifests (cm_ingress manifest),
               cnp_egress = decodeRuleManifests (cm_egress manifest)\<rparr>)"

fun listClusterNetworkPolicies ::
  "('o \<Rightarrow> go_error + cnpManifest) \<Rightarrow> 'o unstructured cache_item list \<Rightarrow> go_error + decodedCNP list" where
  "listClusterNetworkPolicies convert [] = Inr []"
| "listClusterNetworkPolicies convert (Unexpected t # items) =
     Inl (Errorf ''unexpected cluster network policy informer item type %T'' [t])"
| "listClusterNetworkPolicies convert (Expected u # items) =
     (case decodeClusterNetworkPolicy convert u of
        Inl e \<Rightarrow> Inl e
      | Inr cnp \<Rightarrow>
          (case listClusterNetworkPolicies convert items of
             Inl e \<Rightarrow> Inl e
           | Inr out \<Rightarrow> Inr (\<lparr>dc_cnp = cnp, dc_uid = us_uid u\<rparr> # out)))"

definition listNamespaces :: "namespace_object cache_item list \<Rightarrow> go_error + namespace_object list" where
  "listNamespaces items = typed_items ''unexpected namespace informer item type %T'' items"

section \<open>The desired policies\<close>

type_synonym parse_selector = "label_selector \<Rightarrow> go_error + ((string, string) go_map \<Rightarrow> bool)"

definition namespaceMatches :: "parse_selector \<Rightarrow> label_selector option \<Rightarrow> namespace_object \<Rightarrow> go_error + bool" where
  "namespaceMatches parse selector ns =
     (case selector of
        None \<Rightarrow> Inr False
      | Some s \<Rightarrow>
          (case parse s of
             Inl e \<Rightarrow> Inl (Wrapf ''parse namespace selector: %w'' [] e)
           | Inr matches \<Rightarrow> Inr (matches (ns_labels ns))))"

type_synonym desiredKey = "string \<times> string"

definition cnpOwnerReference :: "decodedCNP \<Rightarrow> owner_reference" where
  "cnpOwnerReference dc =
     \<lparr>or_api_version = ClusterNetworkPolicyGroup @ ''/'' @ ClusterNetworkPolicyVersion,
      or_kind = ClusterNetworkPolicyKind, or_name = cnp_name (dc_cnp dc), or_uid = dc_uid dc,
      or_block_deletion = True\<rparr>"

definition unsupported_line :: "string \<Rightarrow> Unsupported \<Rightarrow> string \<times> string \<times> message" where
  "unsupported_line name u = (name, un_rule u, un_reason u)"

type_synonym desired_map = "(desiredKey, network_policy) go_map"

fun desired_for ::
  "parse_selector \<Rightarrow> decodedCNP \<Rightarrow> namespace_object list \<Rightarrow> desired_map \<Rightarrow> (string \<times> string \<times> message) list
   \<Rightarrow> (go_error + desired_map) \<times> (string \<times> string \<times> message) list" where
  "desired_for parse dc [] desired log = (Inr desired, log)"
| "desired_for parse dc (ns # nss) desired log =
     (case namespaceMatches parse (cnp_namespaces (dc_cnp dc)) ns of
        Inl e \<Rightarrow> (Inl (Wrapf ''cluster network policy %q: %w'' [cnp_name (dc_cnp dc)] e), log)
      | Inr matches \<Rightarrow>
          if \<not> matches then desired_for parse dc nss desired log
          else
            (case TranslateClusterNetworkPolicy (dc_cnp dc) (ns_name ns) of
               (np, us) \<Rightarrow>
                 (let log1 = log @ map (unsupported_line (cnp_name (dc_cnp dc))) us in
                  case np of
                    None \<Rightarrow> desired_for parse dc nss desired log1
                  | Some p \<Rightarrow>
                      desired_for parse dc nss
                        (map_set (ns_name ns, np_name p) (p\<lparr>np_owners := [cnpOwnerReference dc]\<rparr>) desired)
                        log1)))"

fun desired_loop ::
  "parse_selector \<Rightarrow> decodedCNP list \<Rightarrow> namespace_object list \<Rightarrow> desired_map \<Rightarrow> (string \<times> string \<times> message) list
   \<Rightarrow> (go_error + desired_map) \<times> (string \<times> string \<times> message) list" where
  "desired_loop parse [] nss desired log = (Inr desired, log)"
| "desired_loop parse (dc # dcs) nss desired log =
     (case desired_for parse dc nss desired log of
        (Inl e, log1) \<Rightarrow> (Inl e, log1)
      | (Inr desired1, log1) \<Rightarrow> desired_loop parse dcs nss desired1 log1)"

definition desiredNetworkPolicies ::
  "parse_selector \<Rightarrow> decodedCNP list \<Rightarrow> namespace_object list
   \<Rightarrow> (go_error + desired_map) \<times> (string \<times> string \<times> message) list" where
  "desiredNetworkPolicies parse cnps nss = desired_loop parse cnps nss [] []"

section \<open>Reconciling\<close>

record 'w np_client =
  npc_list :: "'w \<Rightarrow> (go_error + network_policy list) \<times> 'w"
  npc_create :: "network_policy \<Rightarrow> 'w \<Rightarrow> (go_error + unit) \<times> 'w"
  npc_update :: "network_policy \<Rightarrow> 'w \<Rightarrow> (go_error + unit) \<times> 'w"
  npc_delete :: "string \<Rightarrow> string \<Rightarrow> 'w \<Rightarrow> (go_error + unit) \<times> 'w"

definition create_policy :: "'w np_client \<Rightarrow> network_policy \<Rightarrow> 'w \<Rightarrow> (go_error + unit) \<times> 'w" where
  "create_policy c np w =
     (case npc_create c np w of
        (Inl e, w1) \<Rightarrow>
          if is_already_exists e then (Inr (), w1)
          else (Inl (Wrapf ''create network policy %s/%s: %w'' [np_namespace np, np_name np] e), w1)
      | (Inr _, w1) \<Rightarrow> (Inr (), w1))"

definition update_policy ::
  "'w np_client \<Rightarrow> network_policy \<Rightarrow> network_policy \<Rightarrow> 'w \<Rightarrow> (go_error + unit) \<times> 'w" where
  "update_policy c current desired w =
     (if np_spec current = np_spec desired \<and> np_owners current = np_owners desired \<and>
         np_labels current = np_labels desired
      then (Inr (), w)
      else
        (let updated = current\<lparr>np_spec := np_spec desired, np_owners := np_owners desired,
                               np_labels := np_labels desired\<rparr>
         in case npc_update c updated w of
              (Inl e, w1) \<Rightarrow>
                (Inl (Wrapf ''update network policy %s/%s: %w'' [np_namespace updated, np_name updated] e), w1)
            | (Inr _, w1) \<Rightarrow> (Inr (), w1)))"

definition delete_policy :: "'w np_client \<Rightarrow> network_policy \<Rightarrow> 'w \<Rightarrow> (go_error + unit) \<times> 'w" where
  "delete_policy c np w =
     (case npc_delete c (np_namespace np) (np_name np) w of
        (Inl e, w1) \<Rightarrow>
          if is_not_found e then (Inr (), w1)
          else (Inl (Wrapf ''delete network policy %s/%s: %w'' [np_namespace np, np_name np] e), w1)
      | (Inr _, w1) \<Rightarrow> (Inr (), w1))"

fun apply_desired ::
  "'w np_client \<Rightarrow> desired_map \<Rightarrow> desired_map \<Rightarrow> 'w \<Rightarrow> (go_error + unit) \<times> 'w" where
  "apply_desired c existingByKey [] w = (Inr (), w)"
| "apply_desired c existingByKey ((key, np) # desired) w =
     (case (case map_of existingByKey key of
              None \<Rightarrow> create_policy c np w
            | Some current \<Rightarrow> update_policy c current np w) of
        (Inl e, w1) \<Rightarrow> (Inl e, w1)
      | (Inr _, w1) \<Rightarrow> apply_desired c existingByKey desired w1)"

fun delete_orphans ::
  "'w np_client \<Rightarrow> desired_map \<Rightarrow> desired_map \<Rightarrow> 'w \<Rightarrow> (go_error + unit) \<times> 'w" where
  "delete_orphans c desired [] w = (Inr (), w)"
| "delete_orphans c desired ((key, np) # existing) w =
     (if map_of desired key \<noteq> None then delete_orphans c desired existing w
      else
        (case delete_policy c np w of
           (Inl e, w1) \<Rightarrow> (Inl e, w1)
         | (Inr _, w1) \<Rightarrow> delete_orphans c desired existing w1))"

definition policy_key :: "network_policy \<Rightarrow> desiredKey" where
  "policy_key np = (np_namespace np, np_name np)"

definition apply_policies ::
  "'w np_client \<Rightarrow> desired_map \<Rightarrow> network_policy list \<Rightarrow> 'w \<Rightarrow> (go_error + unit) \<times> 'w" where
  "apply_policies c desired existing w =
     (let existingByKey = fold (\<lambda>np m. map_set (policy_key np) np m) existing []
      in case apply_desired c existingByKey desired w of
           (Inl e, w1) \<Rightarrow> (Inl e, w1)
         | (Inr _, w1) \<Rightarrow> delete_orphans c desired existingByKey w1)"

definition reconcile_policies ::
  "('o \<Rightarrow> go_error + cnpManifest) \<Rightarrow> parse_selector \<Rightarrow> 'w np_client \<Rightarrow> 'o unstructured cache_item list
   \<Rightarrow> namespace_object cache_item list \<Rightarrow> 'w
   \<Rightarrow> ((go_error + unit) \<times> (string \<times> string \<times> message) list) \<times> 'w" where
  "reconcile_policies convert parse c cnp_items ns_items w =
     (case listClusterNetworkPolicies convert cnp_items of
        Inl e \<Rightarrow> ((Inl (Wrapf ''list cluster network policies: %w'' [] e), []), w)
      | Inr cnps \<Rightarrow>
          (case listNamespaces ns_items of
             Inl e \<Rightarrow> ((Inl (Wrapf ''list namespaces: %w'' [] e), []), w)
           | Inr namespaces \<Rightarrow>
               (case desiredNetworkPolicies parse cnps namespaces of
                  (Inl e, log) \<Rightarrow> ((Inl e, log), w)
                | (Inr desired, log) \<Rightarrow>
                    (case npc_list c w of
                       (Inl e, w1) \<Rightarrow> ((Inl (Wrapf ''list managed network policies: %w'' [] e), log), w1)
                     | (Inr existing, w1) \<Rightarrow>
                         (case apply_policies c desired existing w1 of
                            (res, w2) \<Rightarrow> ((res, log), w2))))))"

section \<open>What a pass achieves\<close>

definition managed :: "network_policy \<Rightarrow> bool" where
  "managed np \<longleftrightarrow> map_of (np_labels np) ManagedByLabelKey = Some ManagedByLabelValue"

text \<open>The networking API while nobody else writes policies.\<close>

locale np_api =
  fixes c :: "'w np_client"
    and policies :: "'w \<Rightarrow> desiredKey \<rightharpoonup> network_policy"
    and ok :: "'w \<Rightarrow> bool"
  assumes keyed: "ok w \<Longrightarrow> policies w k = Some np \<Longrightarrow> policy_key np = k"
    and list_law:
      "ok w \<Longrightarrow> \<exists>ps. npc_list c w = (Inr ps, w) \<and>
         set ps = {np. policies w (policy_key np) = Some np \<and> managed np}"
    and create_law:
      "ok w \<Longrightarrow> policies w (policy_key np) = None \<Longrightarrow>
       \<exists>w'. npc_create c np w = (Inr (), w') \<and> ok w' \<and> policies w' = (policies w)(policy_key np \<mapsto> np)"
    and update_law:
      "ok w \<Longrightarrow> policies w (policy_key np) \<noteq> None \<Longrightarrow>
       \<exists>w'. npc_update c np w = (Inr (), w') \<and> ok w' \<and> policies w' = (policies w)(policy_key np \<mapsto> np)"
    and delete_law:
      "ok w \<Longrightarrow> policies w k \<noteq> None \<Longrightarrow>
       \<exists>w'. npc_delete c (fst k) (snd k) w = (Inr (), w') \<and> ok w' \<and> policies w' = (policies w)(k := None)"

text \<open>A reference networking API.\<close>

type_synonym np_world = "(desiredKey, network_policy) go_map"

definition np_store :: "np_world np_client" where
  "np_store =
     \<lparr>npc_list = (\<lambda>w. (Inr (filter managed (map snd w)), w)),
      npc_create = (\<lambda>np w.
        if map_of w (policy_key np) \<noteq> None then (Inl (ApiError AlreadyExists), w)
        else (Inr (), map_set (policy_key np) np w)),
      npc_update = (\<lambda>np w.
        if map_of w (policy_key np) = None then (Inl (ApiError NotFound), w)
        else (Inr (), map_set (policy_key np) np w)),
      npc_delete = (\<lambda>ns n w.
        if map_of w (ns, n) = None then (Inl (ApiError NotFound), w) else (Inr (), map_delete (ns, n) w))\<rparr>"

definition np_world_ok :: "np_world \<Rightarrow> bool" where
  "np_world_ok w \<longleftrightarrow> map_wf w \<and> (\<forall>k np. map_of w k = Some np \<longrightarrow> policy_key np = k)"

interpretation np_ref: np_api np_store map_of np_world_ok
proof
  fix w assume w: "np_world_ok w"
  have "np \<in> snd ` set w \<longleftrightarrow> map_of w (policy_key np) = Some np" for np
  proof
    assume "np \<in> snd ` set w"
    then obtain k where "(k, np) \<in> set w" by force
    with w have "map_of w k = Some np" by (simp add: np_world_ok_def map_wf_mem_iff)
    with w show "map_of w (policy_key np) = Some np" unfolding np_world_ok_def by blast
  next
    assume "map_of w (policy_key np) = Some np"
    from map_of_SomeD [OF this] show "np \<in> snd ` set w" by force
  qed
  then show "\<exists>ps. npc_list np_store w = (Inr ps, w) \<and>
      set ps = {np. map_of w (policy_key np) = Some np \<and> managed np}"
    by (auto simp: np_store_def)
qed (auto simp: np_store_def np_world_ok_def split: if_splits)

abbreviation index_by_key :: "network_policy list \<Rightarrow> desired_map \<Rightarrow> desired_map" where
  "index_by_key ps m \<equiv> fold (\<lambda>np m. map_set (policy_key np) np m) ps m"

lemma by_key_wf: "map_wf m \<Longrightarrow> map_wf (index_by_key ps m)"
  by (induction ps arbitrary: m) simp_all

lemma by_key_other: "k \<notin> policy_key ` set ps \<Longrightarrow> map_of (index_by_key ps m) k = map_of m k"
  by (induction ps arbitrary: m) simp_all

lemma by_key_at:
  "inj_on policy_key (set ps) \<Longrightarrow> np \<in> set ps \<Longrightarrow> map_of (index_by_key ps m) (policy_key np) = Some np"
proof (induction ps arbitrary: m)
  case (Cons p ps)
  show ?case
  proof (cases "np \<in> set ps")
    case True
    with Cons show ?thesis by simp
  next
    case False
    with Cons.prems(2) have np: "np = p" by simp
    have "policy_key p \<notin> policy_key ` set ps"
      using Cons.prems(1) False unfolding np by (auto simp: inj_on_def)
    then show ?thesis by (simp add: np by_key_other)
  qed
qed simp

lemma translation_keyed:
  "TranslateClusterNetworkPolicy cnp ns = (Some p, us) \<Longrightarrow> np_namespace p = ns \<and> managed p"
  by (auto simp: TranslateClusterNetworkPolicy_def managed_def Let_def split: prod.splits if_splits)

definition desired_ok :: "desired_map \<Rightarrow> bool" where
  "desired_ok m \<longleftrightarrow> map_wf m \<and> (\<forall>(k, np) \<in> set m. policy_key np = k \<and> managed np)"

lemma desired_ok_set: "desired_ok m \<Longrightarrow> policy_key np = k \<Longrightarrow> managed np \<Longrightarrow> desired_ok (map_set k np m)"
proof -
  assume h: "desired_ok m" "policy_key np = k" "managed np"
  then have wf: "map_wf (map_set k np m)" by (simp add: desired_ok_def)
  have "policy_key np' = k' \<and> managed np'" if "(k', np') \<in> set (map_set k np m)" for k' np'
  proof (cases "k' = k")
    case True
    with that h wf show ?thesis by (simp add: map_wf_mem_iff)
  next
    case False
    with that have "map_of m k' = Some np'" by (simp add: map_wf_mem_iff [OF wf])
    then have "(k', np') \<in> set m" by (rule map_of_SomeD)
    with h(1) show ?thesis by (auto simp: desired_ok_def)
  qed
  with wf show ?thesis by (auto simp: desired_ok_def)
qed

lemma desired_for_ok:
  "desired_for parse dc nss m log = (Inr m', log') \<Longrightarrow> desired_ok m \<Longrightarrow> desired_ok m'"
proof (induction nss arbitrary: m log)
  case (Cons ns nss)
  obtain np us where t: "TranslateClusterNetworkPolicy (dc_cnp dc) (ns_name ns) = (np, us)" by fastforce
  have "desired_ok (map_set (ns_name ns, np_name p) (p\<lparr>np_owners := [cnpOwnerReference dc]\<rparr>) m)" if "np = Some p" for p
    using translation_keyed [OF t [unfolded that]] Cons.prems(2)
    by (intro desired_ok_set) (auto simp: policy_key_def managed_def)
  with t Cons show ?case by (auto simp: Let_def split: sum.splits if_splits option.splits)
qed simp

lemma desired_policies_ok:
  assumes "desiredNetworkPolicies parse cnps nss = (Inr desired, log)"
  shows "desired_ok desired"
proof -
  have "desired_loop parse cnps nss m log0 = (Inr m', log') \<Longrightarrow> desired_ok m \<Longrightarrow> desired_ok m'" for m m' log0 log'
    by (induction cnps arbitrary: m log0) (auto split: prod.splits sum.splits dest: desired_for_ok)
  with assms show ?thesis by (auto simp: desiredNetworkPolicies_def desired_ok_def)
qed

text \<open>Overwriting a map with another.\<close>

definition over :: "('k \<rightharpoonup> 'v) \<Rightarrow> ('k, 'v) go_map \<Rightarrow> ('k \<rightharpoonup> 'v)" where
  "over m d = (\<lambda>k. case map_of d k of None \<Rightarrow> m k | Some v \<Rightarrow> Some v)"

text \<open>Where the policies end up: the desired ones, and those nobody manages.\<close>

definition settled :: "(desiredKey \<rightharpoonup> network_policy) \<Rightarrow> desired_map \<Rightarrow> (desiredKey \<rightharpoonup> network_policy)" where
  "settled m desired =
     (\<lambda>k. case map_of desired k of
            Some np \<Rightarrow> Some np
          | None \<Rightarrow> (case m k of None \<Rightarrow> None | Some np \<Rightarrow> if managed np then None else Some np))"

context np_api
begin

lemma update_to:
  assumes "ok w" and "policies w (policy_key np) = Some current"
  shows "\<exists>w'. update_policy c current np w = (Inr (), w') \<and> ok w' \<and> policies w' = (policies w)(policy_key np \<mapsto> np)"
    and "current = np \<Longrightarrow> update_policy c current np w = (Inr (), w)"
proof -
  have key: "policy_key current = policy_key np" using keyed [OF assms] .
  let ?u = "current\<lparr>np_spec := np_spec np, np_owners := np_owners np, np_labels := np_labels np\<rparr>"
  have u: "?u = np" using key by (cases current; cases np) (simp add: policy_key_def)
  show "\<exists>w'. update_policy c current np w = (Inr (), w') \<and> ok w' \<and> policies w' = (policies w)(policy_key np \<mapsto> np)"
  proof (cases "np_spec current = np_spec np \<and> np_owners current = np_owners np \<and> np_labels current = np_labels np")
    case True
    then have "current = np" using u by (cases current) simp
    with True assms show ?thesis by (simp add: update_policy_def fun_upd_idem)
  next
    case False
    from update_law [OF assms(1), of np] assms(2) obtain w' where
      "npc_update c np w = (Inr (), w')" "ok w'" "policies w' = (policies w)(policy_key np \<mapsto> np)" by auto
    with False u show ?thesis by (auto simp: update_policy_def Let_def)
  qed
qed (simp add: update_policy_def)

lemma apply_desired_result:
  assumes "ok w" and "map_wf desired"
    and "\<And>k np. (k, np) \<in> set desired \<Longrightarrow> policy_key np = k \<and> map_of E k = policies w k"
  shows "\<exists>w'. apply_desired c E desired w = (Inr (), w') \<and> ok w' \<and> policies w' = over (policies w) desired"
  using assms
proof (induction desired arbitrary: w)
  case (Cons e desired)
  obtain k np where e: "e = (k, np)" by (cases e)
  have k: "policy_key np = k" "map_of E k = policies w k" using Cons.prems(3) [of k np] e by simp_all
  have "\<exists>w1. (case map_of E k of None \<Rightarrow> create_policy c np w | Some cur \<Rightarrow> update_policy c cur np w) = (Inr (), w1) \<and>
      ok w1 \<and> policies w1 = (policies w)(k \<mapsto> np)"
  proof (cases "policies w k")
    case None
    with create_law [OF Cons.prems(1), of np] k show ?thesis by (auto simp: create_policy_def)
  next
    case (Some cur)
    with update_to(1) [OF Cons.prems(1), of np cur] k show ?thesis by auto
  qed
  then obtain w1 where w1: "(case map_of E k of None \<Rightarrow> create_policy c np w | Some cur \<Rightarrow> update_policy c cur np w) =
      (Inr (), w1)" "ok w1" "policies w1 = (policies w)(k \<mapsto> np)" by blast
  have wf: "map_wf desired" and new: "k \<notin> fst ` set desired" using Cons.prems(2) e by (auto simp: map_wf_def)
  have "policy_key np' = k' \<and> map_of E k' = policies w1 k'" if "(k', np') \<in> set desired" for k' np'
  proof -
    from that new have "k' \<noteq> k" by force
    with that Cons.prems(3) [of k' np'] w1(3) show ?thesis by simp
  qed
  from Cons.IH [OF w1(2) wf this] obtain w' where
    w': "apply_desired c E desired w1 = (Inr (), w')" "ok w'" "policies w' = over (policies w1) desired" by blast
  have "over (policies w1) desired = over (policies w) (e # desired)"
  proof
    fix k'
    have "map_of desired k = None" using new by (simp add: map_of_eq_None_iff)
    then show "over (policies w1) desired k' = over (policies w) (e # desired) k'"
      by (cases "k' = k") (auto simp: over_def e w1(3) split: option.splits)
  qed
  with w' w1(1) e show ?case by simp
qed (simp add: over_def)

lemma delete_orphans_result:
  assumes "ok w" and "map_wf E"
    and "\<And>k np. (k, np) \<in> set E \<Longrightarrow> policy_key np = k \<and> (map_of desired k = None \<longrightarrow> policies w k \<noteq> None)"
  shows "\<exists>w'. delete_orphans c desired E w = (Inr (), w') \<and> ok w' \<and>
    policies w' = (\<lambda>k. if map_of E k \<noteq> None \<and> map_of desired k = None then None else policies w k)"
  using assms
proof (induction E arbitrary: w)
  case (Cons e E)
  obtain k np where e: "e = (k, np)" by (cases e)
  have wf: "map_wf E" and new: "k \<notin> fst ` set E" using Cons.prems(2) e by (auto simp: map_wf_def)
  show ?case
  proof (cases "map_of desired k = None")
    case False
    have rest: "policy_key np' = k' \<and> (map_of desired k' = None \<longrightarrow> policies w k' \<noteq> None)"
      if "(k', np') \<in> set E" for k' np' using Cons.prems(3) [of k' np'] that by simp
    from Cons.IH [OF Cons.prems(1) wf rest] obtain w' where
      "delete_orphans c desired E w = (Inr (), w')" "ok w'"
      "policies w' = (\<lambda>k. if map_of E k \<noteq> None \<and> map_of desired k = None then None else policies w k)" by blast
    with False e show ?thesis by (auto simp: fun_eq_iff)
  next
    case True
    have k: "policy_key np = k" "policies w k \<noteq> None" using Cons.prems(3) [of k np] e True by simp_all
    from delete_law [OF Cons.prems(1) k(2)] k(1) obtain w1 where
      w1: "delete_policy c np w = (Inr (), w1)" "ok w1" "policies w1 = (policies w)(k := None)"
      by (auto simp: delete_policy_def policy_key_def)
    have rest: "policy_key np' = k' \<and> (map_of desired k' = None \<longrightarrow> policies w1 k' \<noteq> None)"
      if "(k', np') \<in> set E" for k' np'
    proof -
      from that new have "k' \<noteq> k" by force
      with that Cons.prems(3) [of k' np'] w1(3) show ?thesis by simp
    qed
    from Cons.IH [OF w1(2) wf rest] obtain w' where
      "delete_orphans c desired E w1 = (Inr (), w')" "ok w'"
      "policies w' = (\<lambda>k. if map_of E k \<noteq> None \<and> map_of desired k = None then None else policies w1 k)" by blast
    with True e w1 show ?thesis by (auto simp: fun_eq_iff)
  qed
qed simp

lemma listed:
  assumes "ok w" and "npc_list c w = (Inr ps, w1)"
  shows "w1 = w" and "map_wf (index_by_key ps [])"
    and "map_of (index_by_key ps []) k =
      (case policies w k of None \<Rightarrow> None | Some np \<Rightarrow> if managed np then Some np else None)"
proof -
  from list_law [OF assms(1)] assms(2) have w1: "w1 = w"
    and ps: "set ps = {np. policies w (policy_key np) = Some np \<and> managed np}" by auto
  then show "w1 = w" by simp
  show "map_wf (index_by_key ps [])" by (rule by_key_wf) simp
  have inj: "inj_on policy_key (set ps)" unfolding ps by (rule inj_onI) simp
  show "map_of (index_by_key ps []) k =
      (case policies w k of None \<Rightarrow> None | Some np \<Rightarrow> if managed np then Some np else None)"
  proof (cases "k \<in> policy_key ` set ps")
    case True
    then obtain np where np: "np \<in> set ps" "k = policy_key np" by blast
    with ps by_key_at [OF inj np(1), of "[]"] show ?thesis by auto
  next
    case False
    then have "\<not> (\<exists>np. policies w k = Some np \<and> managed np)"
      unfolding ps using keyed [OF assms(1)] by (metis (mono_tags, lifting) image_eqI mem_Collect_eq)
    with by_key_other [OF False, of "[]"] show ?thesis by (auto split: option.splits)
  qed
qed

text \<open>One pass of \<open>apply\<close> after a \<open>List\<close>.\<close>

lemma apply_settles:
  assumes "ok w" and "npc_list c w = (Inr ps, w1)" and "desired_ok desired"
    and "\<forall>k np. map_of desired k \<noteq> None \<longrightarrow> policies w k = Some np \<longrightarrow> managed np"
  shows "\<exists>w'. apply_policies c desired ps w1 = (Inr (), w') \<and> ok w' \<and> policies w' = settled (policies w) desired"
proof -
  note l = listed [OF assms(1,2)]
  let ?E = "index_by_key ps []"
  have wf: "map_wf desired" and keys: "\<And>k np. (k, np) \<in> set desired \<Longrightarrow> policy_key np = k"
    using assms(3) by (auto simp: desired_ok_def)
  have "policy_key np = k \<and> map_of ?E k = policies w k" if "(k, np) \<in> set desired" for k np
  proof -
    from that wf have "map_of desired k \<noteq> None" by (simp add: map_wf_mem_iff)
    with assms(4) have "managed p" if "policies w k = Some p" for p using that by blast
    with keys [OF that] l(3) [of k] show ?thesis by (cases "policies w k") auto
  qed
  from apply_desired_result [OF assms(1) wf this] obtain w2 where
    w2: "apply_desired c ?E desired w = (Inr (), w2)" "ok w2" "policies w2 = over (policies w) desired" by blast
  have "policy_key np = k \<and> (map_of desired k = None \<longrightarrow> policies w2 k \<noteq> None)" if "(k, np) \<in> set ?E" for k np
  proof -
    from that l(2) have "map_of ?E k = Some np" by (simp add: map_wf_mem_iff)
    with l(3) have "policies w k = Some np" by (auto split: option.splits if_splits)
    with keyed [OF assms(1)] w2(3) show ?thesis by (auto simp: over_def split: option.splits)
  qed
  from delete_orphans_result [OF w2(2) l(2) this] obtain w' where
    w': "delete_orphans c desired ?E w2 = (Inr (), w')" "ok w'"
    "policies w' = (\<lambda>k. if map_of ?E k \<noteq> None \<and> map_of desired k = None then None else policies w2 k)" by blast
  have "policies w' = settled (policies w) desired"
    unfolding w'(3) w2(3) settled_def over_def l(3) by (rule ext) (simp split: option.splits)
  with w' w2 l(1) show ?thesis by (auto simp: apply_policies_def Let_def)
qed

text \<open>On a settled world a pass writes nothing.\<close>

lemma apply_desired_idle:
  "\<forall>(k, np) \<in> set desired. map_of E k = Some np \<Longrightarrow> apply_desired c E desired w = (Inr (), w)"
proof (induction desired)
  case (Cons e desired)
  then show ?case by (cases e) (simp add: update_policy_def)
qed simp

lemma delete_orphans_idle:
  "\<forall>(k, np) \<in> set E. map_of desired k \<noteq> None \<Longrightarrow> delete_orphans c desired E w = (Inr (), w)"
proof (induction E)
  case (Cons e E)
  then show ?case by (cases e) auto
qed simp

lemma apply_idle:
  assumes "ok w" and "npc_list c w = (Inr ps, w1)" and "desired_ok desired"
    and "policies w = settled m desired"
  shows "apply_policies c desired ps w1 = (Inr (), w)"
proof -
  note l = listed [OF assms(1,2)]
  let ?E = "index_by_key ps []"
  have E: "map_of ?E k = map_of desired k" for k
  proof -
    have "managed np" if "map_of desired k = Some np" for np
      using that assms(3) map_of_SomeD [OF that] by (auto simp: desired_ok_def)
    then show ?thesis unfolding l(3) assms(4) settled_def by (auto split: option.splits)
  qed
  have "apply_desired c ?E desired w = (Inr (), w)"
    using assms(3) by (intro apply_desired_idle) (auto simp: E desired_ok_def map_wf_mem_iff)
  moreover have "delete_orphans c desired ?E w = (Inr (), w)"
    using l(2) by (intro delete_orphans_idle) (auto simp: map_wf_mem_iff E)
  ultimately show ?thesis using l(1) by (simp add: apply_policies_def Let_def)
qed

end

section \<open>Properties\<close>

text \<open>
  C11: a pass makes the managed policies of the cluster exactly the ones the cluster network
  policies call for, whatever managed policies there were, and leaves every policy it does not
  manage alone; a second pass from the same caches succeeds without changing anything. This is
  while nobody else writes, and if no unmanaged policy has the name of a desired one.
\<close>

theorem reconcile_converges:
  assumes "np_api c policies ok" and "ok w"
    and "listClusterNetworkPolicies convert cnp_items = Inr cnps" and "listNamespaces ns_items = Inr nss"
    and "desiredNetworkPolicies parse cnps nss = (Inr desired, log)"
    and "\<And>k np. map_of desired k \<noteq> None \<Longrightarrow> policies w k = Some np \<Longrightarrow> managed np"
  shows "\<exists>w'. reconcile_policies convert parse c cnp_items ns_items w = ((Inr (), log), w') \<and>
    policies w' = (\<lambda>k. case map_of desired k of
        Some np \<Rightarrow> Some np
      | None \<Rightarrow> (case policies w k of None \<Rightarrow> None | Some np \<Rightarrow> if managed np then None else Some np)) \<and>
    reconcile_policies convert parse c cnp_items ns_items w' = ((Inr (), log), w')"
proof -
  note desired = desired_policies_ok [OF assms(5)]
  obtain ps where ps: "npc_list c w = (Inr ps, w)" using np_api.list_law [OF assms(1,2)] by blast
  have "\<forall>k np. map_of desired k \<noteq> None \<longrightarrow> policies w k = Some np \<longrightarrow> managed np" using assms(6) by blast
  from np_api.apply_settles [OF assms(1,2) ps desired this] obtain w' where
    w': "apply_policies c desired ps w = (Inr (), w')" "ok w'" "policies w' = settled (policies w) desired" by blast
  obtain qs where qs: "npc_list c w' = (Inr qs, w')" using np_api.list_law [OF assms(1) w'(2)] by blast
  from np_api.apply_idle [OF assms(1) w'(2) qs desired w'(3)] ps qs w' assms(3-5) show ?thesis
    by (auto simp: reconcile_policies_def settled_def)
qed

definition demo_item :: "cnpManifest unstructured" where
  "demo_item =
     \<lparr>us_name = ''p'', us_uid = ''u'',
      us_object = \<lparr>cm_subject_namespaces = Some any_namespace, cm_subject_pods = None,
        cm_ingress = [\<lparr>rm_name = ''web'', rm_action = CNPActionDeny, rm_from = [],
          rm_ports = [\<lparr>pt_port_number = \<lparr>pn_protocol = ''TCP'', pn_port = 22\<rparr>\<rparr>]\<rparr>],
        cm_egress = []\<rparr>\<rparr>"

definition demo_namespace :: namespace_object where
  "demo_namespace = \<lparr>ns_name = ''app'', ns_labels = []\<rparr>"

definition demo_parse :: parse_selector where
  "demo_parse s = Inr (selector_matches s)"

theorem reconcile_converges_witness:
  "\<exists>w' np log. reconcile_policies Inr demo_parse np_store [Expected demo_item] [Expected demo_namespace] [] =
      ((Inr (), log), w') \<and> map_of w' (''app'', ''fjord-cnp-p'') = Some np \<and>
     reconcile_policies Inr demo_parse np_store [Expected demo_item] [Expected demo_namespace] w' = ((Inr (), log), w')"
proof -
  obtain cnps where cnps: "listClusterNetworkPolicies Inr [Expected demo_item] = Inr cnps"
    by (simp add: decodeClusterNetworkPolicy_def)
  have nss: "listNamespaces [Expected demo_namespace] = Inr [demo_namespace]" by (simp add: listNamespaces_def)
  obtain res log where d: "desiredNetworkPolicies demo_parse cnps [demo_namespace] = (res, log)" by fastforce
  have cnps': "cnps = [\<lparr>dc_cnp = \<lparr>cnp_name = ''p'', cnp_namespaces = Some any_namespace, cnp_pods = None,
      cnp_ingress = decodeRuleManifests (cm_ingress (us_object demo_item)), cnp_egress = []\<rparr>, dc_uid = ''u''\<rparr>]"
    using cnps by (simp add: decodeClusterNetworkPolicy_def demo_item_def decodeRuleManifests_def)
  have "case fst (desiredNetworkPolicies demo_parse [\<lparr>dc_cnp = \<lparr>cnp_name = ''p'', cnp_namespaces = Some any_namespace,
      cnp_pods = None, cnp_ingress = decodeRuleManifests (cm_ingress (us_object demo_item)), cnp_egress = []\<rparr>,
      dc_uid = ''u''\<rparr>] [demo_namespace]) of Inl e \<Rightarrow> False
    | Inr m \<Rightarrow> map_of m (''app'', ''fjord-cnp-p'') \<noteq> None" by code_simp
  with d cnps' obtain desired where desired: "res = Inr desired" "map_of desired (''app'', ''fjord-cnp-p'') \<noteq> None"
    by (auto split: sum.splits)
  from reconcile_converges [OF np_ref.np_api_axioms _ cnps nss d [unfolded desired(1)], of "[]"] desired(2)
  show ?thesis by (auto simp: np_world_ok_def)
qed

end
