(* ===== verification/Load_Balancer.thy ===== *)
theory Load_Balancer
  imports Http Reconcile_Queue
begin

text \<open>
  The controller of \<open>internal/agent/loadbalancercontroller.go\<close>, which publishes the node
  addresses as the ingress of every \<open>LoadBalancer\<close> Service nobody else serves. Nodes and
  Services come from informer caches, which may lag behind the API server; the one write is
  \<open>UpdateStatus\<close>, a parameter (\<open>service_api\<close>). The queue in front of it is
  \<open>Reconcile_Queue\<close>, with the nodes as the first and the Services as the second cache.
\<close>

section \<open>Nodes and Services\<close>

definition NodeInternalIP :: string where
  "NodeInternalIP = ''InternalIP''"

definition NodeExternalIP :: string where
  "NodeExternalIP = ''ExternalIP''"

definition ServiceTypeLoadBalancer :: string where
  "ServiceTypeLoadBalancer = ''LoadBalancer''"

definition ServiceTypeNodePort :: string where
  "ServiceTypeNodePort = ''NodePort''"

record node_address =
  na_type :: string
  na_address :: string

record node =
  nd_name :: string
  nd_addresses :: "node_address list"

record ingress =
  in_ip :: string
  in_hostname :: string

record service_port =
  sp_name :: string
  sp_port :: int
  sp_node_port :: int

text \<open>The owner references a Service carries, as far as the agent reads them.\<close>

record service_owner =
  so_api_version :: string
  so_kind :: string

record service =
  svc_namespace :: string
  svc_name :: string
  svc_rv :: nat
  svc_labels :: "(string, string) go_map"
  svc_owners :: "service_owner list"
  svc_type :: string
  svc_class :: "string option"
  svc_selector :: "(string, string) go_map"
  svc_ports :: "service_port list"
  svc_ingress :: "ingress list"

definition svc_key :: "service \<Rightarrow> string \<times> string" where
  "svc_key s = (svc_namespace s, svc_name s)"

section \<open>The addresses of the nodes\<close>

fun node_address_from :: "string \<Rightarrow> node_address list \<Rightarrow> string" where
  "node_address_from externalIP [] = externalIP"
| "node_address_from externalIP (addr # addrs) =
     (if na_type addr = NodeInternalIP then na_address addr
      else if na_type addr = NodeExternalIP \<and> externalIP = [] then node_address_from (na_address addr) addrs
      else node_address_from externalIP addrs)"

definition nodeAddress :: "node \<Rightarrow> string" where
  "nodeAddress node = node_address_from [] (nd_addresses node)"

text \<open>The loop over the nodes that skips empty addresses and those in \<open>seen\<close>.\<close>

fun distinct_addresses :: "string list \<Rightarrow> node list \<Rightarrow> string list" where
  "distinct_addresses seen [] = []"
| "distinct_addresses seen (node # nodes) =
     (let addr = nodeAddress node
      in if addr = [] then distinct_addresses seen nodes
         else if addr \<in> set seen then distinct_addresses seen nodes
         else addr # distinct_addresses (addr # seen) nodes)"

definition desiredIngress :: "node list \<Rightarrow> ingress list" where
  "desiredIngress nodes =
     map (\<lambda>addr. \<lparr>in_ip = addr, in_hostname = []\<rparr>) (sort (distinct_addresses [] nodes))"

lemma distinct_addresses_set:
  "set (distinct_addresses seen nodes) = nodeAddress ` set nodes - {[]} - set seen"
  by (induction nodes arbitrary: seen) (auto simp: Let_def)

lemma distinct_addresses_distinct [simp]: "distinct (distinct_addresses seen nodes)"
  by (induction nodes arbitrary: seen) (auto simp: Let_def distinct_addresses_set)

text \<open>The addresses depend on the set of the nodes alone, not on the order of the cache.\<close>

lemma sort_distinct_addresses:
  "sort (distinct_addresses [] nodes) = sorted_list_of_set (nodeAddress ` set nodes - {[]})"
proof (rule sorted_distinct_set_unique)
  show "set (sort (distinct_addresses [] nodes)) = set (sorted_list_of_set (nodeAddress ` set nodes - {[]}))"
    by (simp add: distinct_addresses_set)
qed simp_all

lemma desiredIngress_nodes:
  "desiredIngress nodes =
     map (\<lambda>a. \<lparr>in_ip = a, in_hostname = []\<rparr>) (sorted_list_of_set (nodeAddress ` set nodes - {[]}))"
  by (simp add: desiredIngress_def sort_distinct_addresses)

text \<open>What the loop of \<open>nodeAddress\<close> looks for.\<close>

lemma node_address_internal:
  "find (\<lambda>a. na_type a = NodeInternalIP) addrs = Some a \<Longrightarrow> node_address_from ext addrs = na_address a"
  by (induction addrs arbitrary: ext) (auto split: if_splits)

lemma node_address_external_kept:
  "\<forall>a \<in> set addrs. na_type a \<noteq> NodeInternalIP \<Longrightarrow> ext \<noteq> [] \<Longrightarrow> node_address_from ext addrs = ext"
  by (induction addrs) auto

lemma node_address_external:
  assumes "\<forall>a \<in> set addrs. na_type a \<noteq> NodeInternalIP"
  shows "node_address_from [] addrs =
    (case find (\<lambda>a. na_type a = NodeExternalIP \<and> na_address a \<noteq> []) addrs of
       None \<Rightarrow> [] | Some a \<Rightarrow> na_address a)"
  using assms
proof (induction addrs)
  case (Cons a addrs)
  then show ?case by (cases "na_address a = []") (auto simp: node_address_external_kept)
qed simp

section \<open>Claiming Services\<close>

type_synonym 'w update_status = "service \<Rightarrow> 'w \<Rightarrow> (go_error + unit) \<times> 'w"
type_synonym claim_log = "(string \<times> string \<times> ingress list) list"

definition listNodes :: "node cache_item list \<Rightarrow> go_error + node list" where
  "listNodes items = typed_items ''unexpected node informer item type %T'' items"

definition listServices :: "service cache_item list \<Rightarrow> go_error + service list" where
  "listServices items = typed_items ''unexpected service informer item type %T'' items"

definition reconcileService ::
  "'w update_status \<Rightarrow> service \<Rightarrow> ingress list \<Rightarrow> 'w \<Rightarrow> ((go_error + unit) \<times> claim_log) \<times> 'w" where
  "reconcileService update_status svc desired w =
     (if svc_type svc \<noteq> ServiceTypeLoadBalancer then ((Inr (), []), w)
      else if svc_class svc \<noteq> None then ((Inr (), []), w)
      else if length (svc_ingress svc) \<noteq> 0 then ((Inr (), []), w)
      else if length desired = 0 then ((Inr (), []), w)
      else
        (let updated = svc\<lparr>svc_ingress := desired\<rparr>
         in case update_status updated w of
              (Inl e, w1) \<Rightarrow>
                ((Inl (Wrapf ''update load balancer status %s/%s: %w'' [svc_namespace svc, svc_name svc] e), []), w1)
            | (Inr _, w1) \<Rightarrow> ((Inr (), [(svc_namespace svc, svc_name svc, desired)]), w1)))"

fun reconcile_services ::
  "'w update_status \<Rightarrow> service list \<Rightarrow> ingress list \<Rightarrow> 'w \<Rightarrow> ((go_error + unit) \<times> claim_log) \<times> 'w" where
  "reconcile_services us [] desired w = ((Inr (), []), w)"
| "reconcile_services us (svc # svcs) desired w =
     (case reconcileService us svc desired w of
        ((Inl e, log), w1) \<Rightarrow> ((Inl e, log), w1)
      | ((Inr _, log), w1) \<Rightarrow>
          (case reconcile_services us svcs desired w1 of
             ((res, log'), w2) \<Rightarrow> ((res, log @ log'), w2)))"

definition lb_reconcile ::
  "'w update_status \<Rightarrow> node cache_item list \<Rightarrow> service cache_item list \<Rightarrow> 'w
   \<Rightarrow> ((go_error + unit) \<times> claim_log) \<times> 'w" where
  "lb_reconcile us node_items svc_items w =
     (case listNodes node_items of
        Inl e \<Rightarrow> ((Inl (Wrapf ''list nodes: %w'' [] e), []), w)
      | Inr nodes \<Rightarrow>
          (let desired = desiredIngress nodes
           in case listServices svc_items of
                Inl e \<Rightarrow> ((Inl (Wrapf ''list services: %w'' [] e), []), w)
              | Inr services \<Rightarrow> reconcile_services us services desired w))"

section \<open>What a pass does to the cluster\<close>

text \<open>A Service this controller may claim.\<close>

definition claimable :: "service \<Rightarrow> bool" where
  "claimable s \<longleftrightarrow> svc_type s = ServiceTypeLoadBalancer \<and> svc_class s = None \<and> svc_ingress s = []"

text \<open>The stored object after a write of its status.\<close>

definition with_ingress :: "ingress list \<Rightarrow> nat \<Rightarrow> service \<Rightarrow> service" where
  "with_ingress d rv s = s\<lparr>svc_ingress := d, svc_rv := rv\<rparr>"

lemma with_ingress_simps [simp]:
  "svc_ingress (with_ingress d rv s) = d" "svc_rv (with_ingress d rv s) = rv" "svc_key (with_ingress d rv s) = svc_key s"
  by (simp_all add: with_ingress_def svc_key_def)

lemma with_ingress_not_claimable [simp]: "d \<noteq> [] \<Longrightarrow> \<not> claimable (with_ingress d rv s)"
  by (simp add: claimable_def)

text \<open>
  \<open>UpdateStatus\<close> as the API server documents it: it replaces the status of the stored object
  and nothing else, under optimistic locking, and a failed call changes nothing.
\<close>

locale service_api =
  fixes us :: "'w update_status"
    and services :: "'w \<Rightarrow> string \<times> string \<rightharpoonup> service"
    and ok :: "'w \<Rightarrow> bool"
  assumes update_law:
    "ok w \<Longrightarrow> us s w = (res, w') \<Longrightarrow> ok w' \<and>
     (case res of
        Inl e \<Rightarrow> services w' = services w
      | Inr _ \<Rightarrow> \<exists>t rv. services w (svc_key s) = Some t \<and> svc_rv t = svc_rv s \<and> rv \<noteq> svc_rv t \<and>
          services w' = (services w)(svc_key s \<mapsto> with_ingress (svc_ingress s) rv t))"

text \<open>A server that is up accepts every update of the current version.\<close>

locale live_service_api = service_api +
  assumes accepts:
    "ok w \<Longrightarrow> services w (svc_key s) = Some t \<Longrightarrow> svc_rv t = svc_rv s \<Longrightarrow> fst (us s w) = Inr ()"

text \<open>A reference server: a map of Services with a global version counter.\<close>

type_synonym service_world = "nat \<times> (string \<times> string, service) go_map"

definition ref_update_status :: "service_world update_status" where
  "ref_update_status s w =
     (case map_of (snd w) (svc_key s) of
        None \<Rightarrow> (Inl (ApiError NotFound), w)
      | Some t \<Rightarrow>
          if svc_rv t \<noteq> svc_rv s then (Inl (ApiError Conflict), w)
          else (Inr (), (Suc (fst w),
                 map_set (svc_key s) (with_ingress (svc_ingress s) (Suc (fst w)) t) (snd w))))"

definition service_world_ok :: "service_world \<Rightarrow> bool" where
  "service_world_ok w \<longleftrightarrow> (\<forall>k s. map_of (snd w) k = Some s \<longrightarrow> svc_rv s \<le> fst w)"

interpretation svc_ref: live_service_api ref_update_status "\<lambda>w. map_of (snd w)" service_world_ok
proof
  fix w s res w'
  assume ok: "service_world_ok w" and u: "ref_update_status s w = (res, w')"
  show "service_world_ok w' \<and>
     (case res of
        Inl e \<Rightarrow> map_of (snd w') = map_of (snd w)
      | Inr _ \<Rightarrow> \<exists>t rv. map_of (snd w) (svc_key s) = Some t \<and> svc_rv t = svc_rv s \<and> rv \<noteq> svc_rv t \<and>
          map_of (snd w') = (map_of (snd w))(svc_key s \<mapsto> with_ingress (svc_ingress s) rv t))"
  proof (cases "map_of (snd w) (svc_key s)")
    case None
    with u ok show ?thesis by (auto simp: ref_update_status_def)
  next
    case (Some t)
    with ok have "svc_rv t \<le> fst w" unfolding service_world_ok_def by blast
    with Some u ok show ?thesis
      by (auto simp: ref_update_status_def service_world_ok_def le_Suc_eq split: if_splits
          intro!: exI [of _ "Suc (fst w)"])
  qed
qed (auto simp: ref_update_status_def)

lemma reconcileService_untouched:
  "\<not> claimable s \<or> desired = [] \<Longrightarrow> reconcileService us s desired w = ((Inr (), []), w)"
  by (auto simp: reconcileService_def claimable_def)

lemma reconcileService_claims:
  "claimable s \<Longrightarrow> desired \<noteq> [] \<Longrightarrow>
   reconcileService us s desired w =
     (case us (s\<lparr>svc_ingress := desired\<rparr>) w of
        (Inl e, w1) \<Rightarrow>
          ((Inl (Wrapf ''update load balancer status %s/%s: %w'' [svc_namespace s, svc_name s] e), []), w1)
      | (Inr _, w1) \<Rightarrow> ((Inr (), [(svc_namespace s, svc_name s, desired)]), w1))"
  by (simp add: reconcileService_def claimable_def)

text \<open>
  The stored Service after an attempt to claim it: as before, or, if it was claimable, with the
  desired addresses and a new version.
\<close>

definition maybe_claimed :: "ingress list \<Rightarrow> service option \<Rightarrow> service option \<Rightarrow> bool" where
  "maybe_claimed desired before after \<longleftrightarrow>
     after = before \<or>
     (\<exists>s rv. before = Some s \<and> claimable s \<and> desired \<noteq> [] \<and> rv \<noteq> svc_rv s \<and>
        after = Some (with_ingress desired rv s))"

lemma maybe_claimed_refl [simp]: "maybe_claimed d b b"
  by (simp add: maybe_claimed_def)

lemma maybe_claimedI:
  "claimable s \<Longrightarrow> d \<noteq> [] \<Longrightarrow> rv \<noteq> svc_rv s \<Longrightarrow> maybe_claimed d (Some s) (Some (with_ingress d rv s))"
  by (auto simp: maybe_claimed_def)

lemma maybe_claimed_trans:
  "maybe_claimed d a b \<Longrightarrow> maybe_claimed d b c \<Longrightarrow> maybe_claimed d a c"
  by (auto simp: maybe_claimed_def claimable_def)

context service_api
begin

text \<open>The caches hold versions the server has had: an object with the current version is current.\<close>

lemma reconcileService_step:
  assumes "ok w" and "reconcileService us s desired w = ((res, log), w')"
    and "\<forall>t. services w (svc_key s) = Some t \<longrightarrow> svc_rv t = svc_rv s \<longrightarrow> t = s"
  shows "ok w'" and "maybe_claimed desired (services w k) (services w' k)"
    and "k \<noteq> svc_key s \<Longrightarrow> services w' k = services w k"
proof -
  have "ok w' \<and> maybe_claimed desired (services w k) (services w' k) \<and> (k \<noteq> svc_key s \<longrightarrow> services w' k = services w k)"
  proof (cases "claimable s \<and> desired \<noteq> []")
    case False
    with assms show ?thesis by (auto simp: reconcileService_untouched maybe_claimed_def)
  next
    case True
    obtain r w1 where u: "us (s\<lparr>svc_ingress := desired\<rparr>) w = (r, w1)" by fastforce
    have key: "svc_key (s\<lparr>svc_ingress := desired\<rparr>) = svc_key s" by (simp add: svc_key_def)
    from True u assms(2) have w': "w' = w1" by (auto simp: reconcileService_claims split: sum.splits)
    from update_law [OF assms(1) u] assms(3) True show ?thesis
      unfolding key w' by (cases r) (auto intro: maybe_claimedI)
  qed
  then show "ok w'" and "maybe_claimed desired (services w k) (services w' k)"
    and "k \<noteq> svc_key s \<Longrightarrow> services w' k = services w k" by blast+
qed

lemma reconcile_services_step:
  assumes "ok w" and "reconcile_services us svcs desired w = ((res, log), w')"
    and "\<forall>s \<in> set svcs. \<forall>t. services w (svc_key s) = Some t \<longrightarrow> svc_rv t = svc_rv s \<longrightarrow> t = s"
    and "distinct (map svc_key svcs)"
  shows "ok w' \<and> maybe_claimed desired (services w k) (services w' k)"
  using assms
proof (induction svcs arbitrary: w res log w')
  case (Cons s svcs)
  obtain r l w1 where s: "reconcileService us s desired w = ((r, l), w1)" by (metis prod_cases3 prod.collapse)
  have ver: "\<forall>t. services w (svc_key s) = Some t \<longrightarrow> svc_rv t = svc_rv s \<longrightarrow> t = s" using Cons.prems(3) by simp
  note step = reconcileService_step [OF Cons.prems(1) s ver]
  show ?case
  proof (cases r)
    case (Inl e)
    with Cons.prems(2) s step(1) step(2) [of k] show ?thesis by auto
  next
    case (Inr u)
    obtain r2 l2 w2 where rest: "reconcile_services us svcs desired w1 = ((r2, l2), w2)" by (metis prod_cases3 prod.collapse)
    have "\<forall>s' \<in> set svcs. svc_key s' \<noteq> svc_key s" using Cons.prems(4) by (auto simp: image_iff)
    with step(3) Cons.prems(3)
    have "\<forall>s' \<in> set svcs. \<forall>t. services w1 (svc_key s') = Some t \<longrightarrow> svc_rv t = svc_rv s' \<longrightarrow> t = s'" by simp
    from Cons.IH [OF step(1) rest this] Cons.prems(4) step(2) [of k] Cons.prems(2) s Inr rest
    show ?thesis by (auto intro: maybe_claimed_trans)
  qed
qed (simp add: maybe_claimed_def)

end

context live_service_api
begin

lemma reconcileService_live:
  assumes "ok w" and "services w (svc_key s) = Some s"
  shows "\<exists>log w'. reconcileService us s desired w = ((Inr (), log), w') \<and> ok w' \<and>
    (\<exists>s'. services w' = (services w)(svc_key s \<mapsto> s') \<and>
       (if claimable s \<and> desired \<noteq> [] then \<exists>rv. s' = with_ingress desired rv s else s' = s))"
proof (cases "claimable s \<and> desired \<noteq> []")
  case False
  with assms have "services w = (services w)(svc_key s \<mapsto> s)" by (auto simp: fun_eq_iff)
  with False assms show ?thesis by (auto simp: reconcileService_untouched)
next
  case True
  let ?u = "s\<lparr>svc_ingress := desired\<rparr>"
  have key: "svc_key ?u = svc_key s" by (simp add: svc_key_def)
  have up: "fst (us ?u w) = Inr ()" using accepts [OF assms(1), of ?u s] assms(2) unfolding key by simp
  then obtain w1 where u: "us ?u w = (Inr (), w1)" by (cases "us ?u w") auto
  from update_law [OF assms(1) u] assms(2) obtain rv where
    "ok w1" "services w1 = (services w)(svc_key s \<mapsto> with_ingress desired rv s)" unfolding key by auto
  with True u show ?thesis by (auto simp: reconcileService_claims)
qed

lemma reconcile_services_live:
  assumes "ok w" and "\<forall>s \<in> set svcs. services w (svc_key s) = Some s" and "distinct (map svc_key svcs)"
  shows "\<exists>log w'. reconcile_services us svcs desired w = ((Inr (), log), w') \<and> ok w' \<and>
    (\<forall>s \<in> set svcs. if claimable s \<and> desired \<noteq> []
       then \<exists>rv. services w' (svc_key s) = Some (with_ingress desired rv s) else services w' (svc_key s) = Some s) \<and>
    (\<forall>k. k \<notin> svc_key ` set svcs \<longrightarrow> services w' k = services w k)"
  using assms
proof (induction svcs arbitrary: w)
  case (Cons s svcs)
  from reconcileService_live [OF Cons.prems(1), of s desired] Cons.prems(2) obtain log w1 s' where
    s: "reconcileService us s desired w = ((Inr (), log), w1)" "ok w1" "services w1 = (services w)(svc_key s \<mapsto> s')"
    "if claimable s \<and> desired \<noteq> [] then \<exists>rv. s' = with_ingress desired rv s else s' = s" by auto
  have new: "svc_key s \<notin> svc_key ` set svcs" using Cons.prems(3) by simp
  then have others: "\<forall>t \<in> set svcs. svc_key t \<noteq> svc_key s" by (metis imageI)
  with Cons.prems(2) s(3) have "\<forall>t \<in> set svcs. services w1 (svc_key t) = Some t" by simp
  from Cons.IH [OF s(2) this] Cons.prems(3) obtain log' w' where
    r: "reconcile_services us svcs desired w1 = ((Inr (), log'), w')" "ok w'"
    "\<forall>t \<in> set svcs. if claimable t \<and> desired \<noteq> []
       then \<exists>rv. services w' (svc_key t) = Some (with_ingress desired rv t) else services w' (svc_key t) = Some t"
    "\<forall>k. k \<notin> svc_key ` set svcs \<longrightarrow> services w' k = services w1 k" by auto
  have "services w' (svc_key s) = Some s'" using spec [OF r(4), of "svc_key s"] new s(3) by simp
  with r s show ?case by (auto split: if_splits)
qed simp

end

lemma reconcile_services_idle:
  "\<forall>s \<in> set svcs. \<not> claimable s \<Longrightarrow> reconcile_services us svcs desired w = ((Inr (), []), w)"
  by (induction svcs) (simp_all add: reconcileService_untouched)

section \<open>Properties\<close>

text \<open>
  C21: whatever the caches have missed, a pass changes nothing of the cluster but the ingress
  of class-less \<open>LoadBalancer\<close> Services that have none at the time of the write, and those get
  the sorted distinct node addresses: Services of another class or type, and those another
  implementation has served in the meantime, are left alone, also when a call fails midway.
\<close>

theorem load_balancer_claims_only_free_services:
  assumes "service_api us services ok" and "ok w"
    and "listNodes node_items = Inr nodes" and "listServices svc_items = Inr svcs"
    and "\<forall>s \<in> set svcs. \<forall>t. services w (svc_key s) = Some t \<longrightarrow> svc_rv t = svc_rv s \<longrightarrow> t = s"
    and "distinct (map svc_key svcs)"
  shows "case services w k of
      None \<Rightarrow> services (snd (lb_reconcile us node_items svc_items w)) k = None
    | Some s \<Rightarrow>
        services (snd (lb_reconcile us node_items svc_items w)) k = Some s \<or>
        (svc_type s = ServiceTypeLoadBalancer \<and> svc_class s = None \<and> svc_ingress s = [] \<and>
         (\<exists>rv. services (snd (lb_reconcile us node_items svc_items w)) k =
            Some (s\<lparr>svc_ingress := map (\<lambda>a. \<lparr>in_ip = a, in_hostname = []\<rparr>)
                       (sorted_list_of_set (nodeAddress ` set nodes - {[]})), svc_rv := rv\<rparr>)))"
proof -
  obtain res log w' where r: "reconcile_services us svcs (desiredIngress nodes) w = ((res, log), w')"
    by (metis prod.collapse)
  from service_api.reconcile_services_step [OF assms(1,2) r assms(5,6), of k] assms(3,4) r show ?thesis
    by (auto simp: lb_reconcile_def maybe_claimed_def claimable_def with_ingress_def desiredIngress_nodes
        split: option.splits)
qed

text \<open>
  C22: while the caches are current and the server is up, a pass gives every claimable Service
  the node addresses and succeeds; a pass from Service caches that have seen this writes
  nothing, in whatever order the cache lists its items, and also if it sees other nodes: an
  address published once is never corrected.
\<close>

theorem load_balancer_converges:
  assumes "live_service_api us services ok" and "ok w"
    and "listNodes node_items = Inr nodes" and "listServices svc_items = Inr svcs"
    and "\<forall>s \<in> set svcs. services w (svc_key s) = Some s" and "distinct (map svc_key svcs)"
    and "desiredIngress nodes \<noteq> []"
    and "listNodes node_items' = Inr nodes'" and "listServices svc_items' = Inr svcs'" and "svc_key ` set svcs' = svc_key ` set svcs"
    and "\<forall>s \<in> set svcs'. services (snd (lb_reconcile us node_items svc_items w)) (svc_key s) = Some s"
  shows "fst (fst (lb_reconcile us node_items svc_items w)) = Inr () \<and>
    (\<forall>s \<in> set svcs'. svc_type s = ServiceTypeLoadBalancer \<longrightarrow> svc_class s = None \<longrightarrow> svc_ingress s \<noteq> []) \<and>
    lb_reconcile us node_items' svc_items' (snd (lb_reconcile us node_items svc_items w)) =
      ((Inr (), []), snd (lb_reconcile us node_items svc_items w))"
proof -
  from live_service_api.reconcile_services_live [OF assms(1,2,5,6), of "desiredIngress nodes"] obtain log w' where
    r: "reconcile_services us svcs (desiredIngress nodes) w = ((Inr (), log), w')"
    "\<forall>s \<in> set svcs. if claimable s \<and> desiredIngress nodes \<noteq> []
       then \<exists>rv. services w' (svc_key s) = Some (with_ingress (desiredIngress nodes) rv s)
       else services w' (svc_key s) = Some s" by blast
  have w': "lb_reconcile us node_items svc_items w = ((Inr (), log), w')"
    using assms(3,4) r(1) by (simp add: lb_reconcile_def)
  have idle: "\<not> claimable t" if t: "t \<in> set svcs'" for t
  proof -
    from t assms(10) obtain s where s: "s \<in> set svcs" "svc_key t = svc_key s" by (metis imageE imageI)
    have "services w' (svc_key s) = Some t" using bspec [OF assms(11) t] by (simp add: w' s(2))
    with bspec [OF r(2) s(1)] assms(7) show ?thesis by (cases "claimable s") auto
  qed
  then have none: "\<forall>s \<in> set svcs'. \<not> claimable s" by blast
  then have "lb_reconcile us node_items' svc_items' w' = ((Inr (), []), w')"
    by (simp add: lb_reconcile_def assms(8,9) reconcile_services_idle)
  with none w' show ?thesis by (auto simp: claimable_def)
qed

definition lb_node :: "string \<Rightarrow> string \<Rightarrow> node" where
  "lb_node name ip = \<lparr>nd_name = name, nd_addresses = [\<lparr>na_type = NodeInternalIP, na_address = ip\<rparr>]\<rparr>"

definition lb_service :: "string \<Rightarrow> string option \<Rightarrow> service" where
  "lb_service name class =
     \<lparr>svc_namespace = ''app'', svc_name = name, svc_rv = 1, svc_labels = [], svc_owners = [],
      svc_type = ServiceTypeLoadBalancer, svc_class = class, svc_selector = [], svc_ports = [], svc_ingress = []\<rparr>"

definition lb_world :: service_world where
  "lb_world = (1, [((''app'', ''web''), lb_service ''web'' None),
                   ((''app'', ''nlb''), lb_service ''nlb'' (Some ''eks.amazonaws.com/nlb''))])"

abbreviation lb_caches :: "service cache_item list" where
  "lb_caches \<equiv> [Expected (lb_service ''web'' None), Expected (lb_service ''nlb'' (Some ''eks.amazonaws.com/nlb''))]"

lemma lb_world_ok: "service_world_ok lb_world"
  by (simp add: service_world_ok_def lb_world_def lb_service_def)

lemma lb_caches_list: "listServices lb_caches = Inr [lb_service ''web'' None, lb_service ''nlb'' (Some ''eks.amazonaws.com/nlb'')]"
  by (simp add: listServices_def)

lemma lb_world_current:
  "\<forall>s \<in> set [lb_service ''web'' None, lb_service ''nlb'' (Some ''eks.amazonaws.com/nlb'')].
     map_of (snd lb_world) (svc_key s) = Some s"
  by (simp add: lb_world_def lb_service_def svc_key_def)

lemma lb_keys_distinct:
  "distinct (map svc_key [lb_service ''web'' None, lb_service ''nlb'' (Some ''eks.amazonaws.com/nlb'')])"
  by (simp add: lb_service_def svc_key_def)

theorem load_balancer_claims_only_free_services_witness:
  "map_of (snd (snd (lb_reconcile ref_update_status [Expected (lb_node ''n'' ''10.0.0.1'')] lb_caches lb_world)))
     (''app'', ''nlb'') = Some (lb_service ''nlb'' (Some ''eks.amazonaws.com/nlb''))"
proof -
  have "\<forall>s \<in> set [lb_service ''web'' None, lb_service ''nlb'' (Some ''eks.amazonaws.com/nlb'')].
      \<forall>t. map_of (snd lb_world) (svc_key s) = Some t \<longrightarrow> svc_rv t = svc_rv s \<longrightarrow> t = s"
    using lb_world_current by simp
  from load_balancer_claims_only_free_services [OF svc_ref.service_api_axioms lb_world_ok _ lb_caches_list this
      lb_keys_distinct, of "[Expected (lb_node ''n'' ''10.0.0.1'')]" "[lb_node ''n'' ''10.0.0.1'']" "(''app'', ''nlb'')"]
  show ?thesis by (simp add: listNodes_def lb_world_def lb_service_def)
qed

definition lb_after :: service_world where
  "lb_after = snd (lb_reconcile ref_update_status [Expected (lb_node ''n'' ''10.0.0.1'')] lb_caches lb_world)"

definition lb_after_caches :: "service list" where
  "lb_after_caches = map snd (snd lb_after)"

theorem load_balancer_converges_witness:
  "lb_reconcile ref_update_status [Expected (lb_node ''n'' ''10.0.0.2'')] (map Expected lb_after_caches) lb_after =
     ((Inr (), []), lb_after) \<and>
   map (\<lambda>s. map in_ip (svc_ingress s)) lb_after_caches = [[''10.0.0.1''], []]"
proof -
  have ips: "map (\<lambda>s. map in_ip (svc_ingress s)) lb_after_caches = [[''10.0.0.1''], []]" by code_simp
  have nodes: "listNodes [Expected (lb_node ''n'' ''10.0.0.1'')] = Inr [lb_node ''n'' ''10.0.0.1'']" by (simp add: listNodes_def)
  have nodes': "listNodes [Expected (lb_node ''n'' ''10.0.0.2'')] = Inr [lb_node ''n'' ''10.0.0.2'']" by (simp add: listNodes_def)
  have "desiredIngress [lb_node ''n'' ''10.0.0.1''] \<noteq> []" by code_simp
  moreover have "map svc_key lb_after_caches = [(''app'', ''web''), (''app'', ''nlb'')]" by code_simp
  then have "set (map svc_key lb_after_caches) = {(''app'', ''web''), (''app'', ''nlb'')}" by simp
  then have "svc_key ` set lb_after_caches =
      svc_key ` set [lb_service ''web'' None, lb_service ''nlb'' (Some ''eks.amazonaws.com/nlb'')]"
    by (simp add: lb_service_def svc_key_def)
  moreover have "list_all (\<lambda>s. map_of (snd lb_after) (svc_key s) = Some s) lb_after_caches" by code_simp
  then have "\<forall>s \<in> set lb_after_caches. map_of (snd lb_after) (svc_key s) = Some s" by (simp add: list_all_iff)
  ultimately show ?thesis
    using load_balancer_converges [OF svc_ref.live_service_api_axioms lb_world_ok nodes lb_caches_list
      lb_world_current lb_keys_distinct _ nodes', of "map Expected lb_after_caches" lb_after_caches] ips
    by (simp add: listServices_def flip: lb_after_def)
qed

end
