(* ===== verification/Target_Group_Binding.thy ===== *)
theory Target_Group_Binding
  imports Load_Balancer "HOL-Library.Multiset"
begin

text \<open>
  The target resolution of \<open>internal/agent/targetgroupbinding.go\<close>: the backends a load balancer
  would register for a \<open>TargetGroupBinding\<close>, pod addresses from the endpoint slices of its
  Service or node addresses with the node port, in one canonical order.
\<close>

definition TargetGroupBindingGroup :: string where
  "TargetGroupBindingGroup = ''elbv2.k8s.aws''"

definition TargetGroupBindingVersion :: string where
  "TargetGroupBindingVersion = ''v1beta1''"

definition TargetGroupBindingKind :: string where
  "TargetGroupBindingKind = ''TargetGroupBinding''"

definition legacyMirrorServiceSuffix :: string where
  "legacyMirrorServiceSuffix = ''-fjord-tgb''"

definition managedByLabelKey :: string where
  "managedByLabelKey = ''app.kubernetes.io/managed-by''"

definition managedByLabelValue :: string where
  "managedByLabelValue = ''fjord''"

definition targetTypeIP :: string where
  "targetTypeIP = ''ip''"

definition targetTypeInstance :: string where
  "targetTypeInstance = ''instance''"

section \<open>The custom resource\<close>

datatype int_or_string = IntVal int | StrVal string

fun int_or_string_text :: "int_or_string \<Rightarrow> string" where
  "int_or_string_text (StrVal s) = s"
| "int_or_string_text (IntVal i) = string_of_int i"

record serviceReference =
  sr_name :: string
  sr_port :: int_or_string

record targetGroupBindingSpec =
  ts_service_ref :: serviceReference
  ts_target_type :: string
  ts_target_group_arn :: string

record targetGroupBinding =
  tgb_namespace :: string
  tgb_name :: string
  tgb_generation :: int
  tgb_spec :: targetGroupBindingSpec

text \<open>A target, ordered as \<open>sortTargets\<close> compares: by address, then by port.\<close>

datatype target = Target (t_address: string) (t_port: int)

instantiation target :: linorder
begin

definition less_target :: "target \<Rightarrow> target \<Rightarrow> bool" where
  "less_target a b \<longleftrightarrow>
     (if t_address a \<noteq> t_address b then t_address a < t_address b else t_port a < t_port b)"

definition less_eq_target :: "target \<Rightarrow> target \<Rightarrow> bool" where
  "less_eq_target a b \<longleftrightarrow> a < b \<or> a = b"

instance
  by standard (auto simp: less_eq_target_def less_target_def intro: target.expand split: if_splits)

end

record targetGroupBindingStatus =
  st_observed_generation :: int
  st_targets :: "target list option"
  st_target_type :: string

section \<open>Endpoint slices\<close>

record slice_port =
  slp_name :: "string option"
  slp_port :: "int option"

record endpoint =
  ep_addresses :: "string list"
  ep_ready :: "bool option"

record endpoint_slice =
  es_namespace :: string
  es_name :: string
  es_labels :: "(string, string) go_map"
  es_ports :: "slice_port list"
  es_endpoints :: "endpoint list"

section \<open>Resolution\<close>

text \<open>The loop over the ports; \<open>None\<close> is its end without a match.\<close>

fun find_service_port :: "service_port list \<Rightarrow> int_or_string \<Rightarrow> service_port option" where
  "find_service_port [] ref = None"
| "find_service_port (p # ps) ref =
     (if (case ref of StrVal s \<Rightarrow> sp_name p = s | IntVal _ \<Rightarrow> False) then Some p
      else if (case ref of IntVal i \<Rightarrow> sp_port p = i | StrVal _ \<Rightarrow> False) then Some p
      else find_service_port ps ref)"

definition resolveServicePort :: "service \<Rightarrow> int_or_string \<Rightarrow> go_error + service_port" where
  "resolveServicePort svc ref =
     (case find_service_port (svc_ports svc) ref of
        Some p \<Rightarrow> Inr p
      | None \<Rightarrow> Inl (Wrapf ''service %s/%s has no port %q: %w''
                  [svc_namespace svc, svc_name svc, int_or_string_text ref] ErrServicePortNotFound))"

definition effectiveTargetType :: "targetGroupBinding \<Rightarrow> string" where
  "effectiveTargetType tgb =
     (if ts_target_type (tgb_spec tgb) = [] then targetTypeIP else ts_target_type (tgb_spec tgb))"

fun slice_port_from :: "slice_port list \<Rightarrow> string \<Rightarrow> int option" where
  "slice_port_from [] portName = None"
| "slice_port_from (p # ps) portName =
     (if (case slp_name p of None \<Rightarrow> [] | Some n \<Rightarrow> n) \<noteq> portName then slice_port_from ps portName
      else slp_port p)"

definition endpointSlicePort :: "endpoint_slice \<Rightarrow> string \<Rightarrow> int option" where
  "endpointSlicePort sl portName = slice_port_from (es_ports sl) portName"

definition endpointReady :: "endpoint \<Rightarrow> bool" where
  "endpointReady ep \<longleftrightarrow> ep_ready ep = None \<or> the (ep_ready ep)"

fun endpoint_targets :: "int \<Rightarrow> endpoint list \<Rightarrow> target list" where
  "endpoint_targets port [] = []"
| "endpoint_targets port (ep # eps) =
     (if \<not> endpointReady ep then endpoint_targets port eps
      else map (\<lambda>addr. Target addr port) (ep_addresses ep) @ endpoint_targets port eps)"

fun slice_targets :: "string \<Rightarrow> endpoint_slice list \<Rightarrow> target list" where
  "slice_targets portName [] = []"
| "slice_targets portName (sl # slices) =
     (case endpointSlicePort sl portName of
        None \<Rightarrow> slice_targets portName slices
      | Some containerPort \<Rightarrow>
          endpoint_targets containerPort (es_endpoints sl) @ slice_targets portName slices)"

definition resolveIPTargets ::
  "service \<Rightarrow> int_or_string \<Rightarrow> endpoint_slice list \<Rightarrow> go_error + target list" where
  "resolveIPTargets svc portRef slices =
     (if length (svc_selector svc) = 0
      then Inl (Wrapf ''service %s/%s: %w'' [svc_namespace svc, svc_name svc] ErrSelectorlessService)
      else
        (case resolveServicePort svc portRef of
           Inl e \<Rightarrow> Inl e
         | Inr port \<Rightarrow> Inr (slice_targets (sp_name port) slices)))"

definition resolveInstanceTargets ::
  "service \<Rightarrow> int_or_string \<Rightarrow> node list \<Rightarrow> go_error + target list" where
  "resolveInstanceTargets svc portRef nodes =
     (if svc_type svc \<noteq> ServiceTypeNodePort \<and> svc_type svc \<noteq> ServiceTypeLoadBalancer
      then Inl (Wrapf ''service %s/%s: %w'' [svc_namespace svc, svc_name svc] ErrUnsupportedServiceType)
      else
        (case resolveServicePort svc portRef of
           Inl e \<Rightarrow> Inl e
         | Inr port \<Rightarrow>
             if sp_node_port port = 0 then Inr []
             else Inr (map (\<lambda>addr. Target addr (sp_node_port port)) (distinct_addresses [] nodes))))"

definition sortTargets :: "target list \<Rightarrow> target list" where
  "sortTargets targets = sort targets"

text \<open>The targets or the error, and the effective target type.\<close>

definition resolveTargets ::
  "targetGroupBinding \<Rightarrow> service \<Rightarrow> endpoint_slice list \<Rightarrow> node list \<Rightarrow> (go_error + target list) \<times> string" where
  "resolveTargets tgb svc slices nodes =
     (let targetType = effectiveTargetType tgb;
          portRef = sr_port (ts_service_ref (tgb_spec tgb))
      in case (if targetType = targetTypeInstance then resolveInstanceTargets svc portRef nodes
               else resolveIPTargets svc portRef slices) of
           Inl e \<Rightarrow> (Inl e, targetType)
         | Inr targets \<Rightarrow> (Inr (sortTargets targets), targetType))"

section \<open>The reference\<close>

text \<open>
  The backends as multisets, with no order of the caches: every address of every endpoint not
  reported unready, with the port its slice gives the Service port's name; the distinct
  addresses of the nodes.
\<close>

definition slice_backends :: "string \<Rightarrow> endpoint_slice \<Rightarrow> target multiset" where
  "slice_backends portName sl =
     (case endpointSlicePort sl portName of
        None \<Rightarrow> {#}
      | Some port \<Rightarrow>
          \<Sum>\<^sub># {# {# Target a port. a \<in># mset (ep_addresses ep) #}.
               ep \<in># filter_mset (\<lambda>ep. ep_ready ep \<noteq> Some False) (mset (es_endpoints sl)) #})"

definition pod_backends :: "string \<Rightarrow> endpoint_slice multiset \<Rightarrow> target multiset" where
  "pod_backends portName slices = \<Sum>\<^sub># (image_mset (slice_backends portName) slices)"

definition node_backends :: "int \<Rightarrow> node set \<Rightarrow> target set" where
  "node_backends port nodes = (if port = 0 then {} else (\<lambda>a. Target a port) ` (nodeAddress ` nodes - {[]}))"

definition reference_targets ::
  "targetGroupBinding \<Rightarrow> service \<Rightarrow> endpoint_slice multiset \<Rightarrow> node set \<Rightarrow> go_error + target list" where
  "reference_targets tgb svc slices nodes =
     (let portRef = sr_port (ts_service_ref (tgb_spec tgb));
          fails = (\<lambda>e. Inl (Wrapf ''service %s/%s: %w'' [svc_namespace svc, svc_name svc] e))
      in if effectiveTargetType tgb = targetTypeInstance
         then (if svc_type svc \<notin> {ServiceTypeNodePort, ServiceTypeLoadBalancer} then fails ErrUnsupportedServiceType
               else case resolveServicePort svc portRef of
                 Inl e \<Rightarrow> Inl e
               | Inr port \<Rightarrow> Inr (sorted_list_of_set (node_backends (sp_node_port port) nodes)))
         else (if svc_selector svc = [] then fails ErrSelectorlessService
               else case resolveServicePort svc portRef of
                 Inl e \<Rightarrow> Inl e
               | Inr port \<Rightarrow> Inr (sorted_list_of_multiset (pod_backends (sp_name port) slices))))"

lemma ready_iff: "endpointReady ep \<longleftrightarrow> ep_ready ep \<noteq> Some False"
  by (cases "ep_ready ep") (auto simp: endpointReady_def)

lemma endpoint_targets_mset:
  "mset (endpoint_targets port eps) =
     \<Sum>\<^sub># {# {# Target a port. a \<in># mset (ep_addresses ep) #}.
        ep \<in># filter_mset (\<lambda>ep. ep_ready ep \<noteq> Some False) (mset eps) #}"
  by (induction eps) (auto simp: ready_iff)

lemma slice_targets_mset: "mset (slice_targets portName slices) = pod_backends portName (mset slices)"
  by (induction slices) (auto simp: pod_backends_def slice_backends_def endpoint_targets_mset split: option.splits)

lemma sort_slice_targets:
  "sort (slice_targets portName slices) = sorted_list_of_multiset (pod_backends portName (mset slices))"
  by (simp flip: slice_targets_mset)

lemma sort_node_targets:
  "port \<noteq> 0 \<Longrightarrow> sort (map (\<lambda>a. Target a port) (distinct_addresses [] nodes)) =
     sorted_list_of_set (node_backends port (set nodes))"
  by (rule sorted_distinct_set_unique)
    (auto simp: distinct_map inj_on_def node_backends_def distinct_addresses_set)

lemma resolved_targets_equal:
  "resolveTargets tgb svc slices nodes =
     (reference_targets tgb svc (mset slices) (set nodes), effectiveTargetType tgb)"
proof (cases "effectiveTargetType tgb = targetTypeInstance")
  case True
  then show ?thesis
    by (auto simp: resolveTargets_def reference_targets_def resolveInstanceTargets_def Let_def sortTargets_def
        sort_node_targets node_backends_def [of 0] split: sum.splits)
next
  case False
  then show ?thesis
    by (auto simp: resolveTargets_def reference_targets_def resolveIPTargets_def Let_def sortTargets_def
        sort_slice_targets split: sum.splits)
qed

section \<open>Properties\<close>

text \<open>
  C19: the resolved targets are exactly the backends of the binding, in the one order that sorts
  them by address and port: they depend on which slices and nodes there are, never on the order
  in which a cache lists them, so that a status written twice is the same bytes. A Service
  without a selector, of an unsuitable type or without the port gives the documented error.
\<close>

theorem resolved_targets_are_backends:
  "resolveTargets tgb svc slices nodes =
     (reference_targets tgb svc (mset slices) (set nodes), effectiveTargetType tgb)"
  by (rule resolved_targets_equal)

end
