(* ===== verification/Tgb_Controller.thy ===== *)
theory Tgb_Controller
  imports Target_Group_Binding
begin

text \<open>
  The controller of \<open>internal/agent/targetgroupbindingcontroller.go\<close>: which bindings an
  informer event puts into the work queue, the reconcile of one binding, the status it writes,
  and the removal of the Services an earlier version left behind. Parameters: the conversion of
  unstructured objects, the keys and listers of client-go's caches, and the API clients.
\<close>

section \<open>Objects and events\<close>

definition LabelServiceName :: string where
  "LabelServiceName = ''kubernetes.io/service-name''"

text \<open>An unstructured object: the metadata the code asks for and the fields of its document.\<close>

record 'v binding_object =
  bo_namespace :: string
  bo_name :: string
  bo_object :: "(string, 'v) go_map"

definition bo_key :: "'v binding_object \<Rightarrow> string \<times> string" where
  "bo_key u = (bo_namespace u, bo_name u)"

text \<open>
  The converter of the API machinery: the typed view of the document, the nested string
  \<open>spec.targetGroupARN\<close>, a nested map, and both directions for the status.
\<close>

record 'v converter =
  cv_binding :: "(string, 'v) go_map \<Rightarrow> go_error + targetGroupBinding"
  cv_arn :: "(string, 'v) go_map \<Rightarrow> go_error + string option"
  cv_nested_map :: "(string, 'v) go_map \<Rightarrow> string \<Rightarrow> go_error + 'v option"
  cv_status :: "'v \<Rightarrow> go_error + targetGroupBindingStatus"
  cv_to_unstructured :: "targetGroupBindingStatus \<Rightarrow> go_error + 'v"

text \<open>The argument of an event handler: an object, a tombstone, or something else.\<close>

datatype 'a event_object = Live 'a | Tombstone "'a cache_item" | Foreign

definition coerceService :: "service event_object \<Rightarrow> service option" where
  "coerceService obj =
     (case obj of
        Live svc \<Rightarrow> Some svc
      | Tombstone (Expected svc) \<Rightarrow> Some svc
      | Tombstone (Unexpected _) \<Rightarrow> None
      | Foreign \<Rightarrow> None)"

definition coerceEndpointSlice :: "endpoint_slice event_object \<Rightarrow> endpoint_slice option" where
  "coerceEndpointSlice obj =
     (case obj of
        Live sl \<Rightarrow> Some sl
      | Tombstone (Expected sl) \<Rightarrow> Some sl
      | Tombstone (Unexpected _) \<Rightarrow> None
      | Foreign \<Rightarrow> None)"

datatype tgb_log =
    IgnoredARN string string
  | CannotDecode string go_error
  | CannotResolve string string go_error
  | ReconcileFailed string go_error

definition decodeTargetGroupBinding :: "'v converter \<Rightarrow> 'v binding_object \<Rightarrow> go_error + targetGroupBinding" where
  "decodeTargetGroupBinding cv u =
     (case cv_binding cv (bo_object u) of
        Inl e \<Rightarrow> Inl (Wrapf ''convert unstructured target group binding: %w'' [] e)
      | Inr tgb \<Rightarrow>
          (case cv_arn cv (bo_object u) of
             Inl _ \<Rightarrow> Inr tgb
           | Inr None \<Rightarrow> Inr tgb
           | Inr (Some arn) \<Rightarrow> Inr (tgb\<lparr>tgb_spec := (tgb_spec tgb)\<lparr>ts_target_group_arn := arn\<rparr>\<rparr>)))"

definition zero_status :: targetGroupBindingStatus where
  "zero_status = \<lparr>st_observed_generation = 0, st_targets = None, st_target_type = []\<rparr>"

definition decodeTargetGroupBindingStatus ::
  "'v converter \<Rightarrow> 'v binding_object \<Rightarrow> go_error + targetGroupBindingStatus" where
  "decodeTargetGroupBindingStatus cv u =
     (case cv_nested_map cv (bo_object u) ''status'' of
        Inl e \<Rightarrow> Inl (Wrapf ''read status: %w'' [] e)
      | Inr None \<Rightarrow> Inr zero_status
      | Inr (Some statusMap) \<Rightarrow>
          (case cv_status cv statusMap of
             Inl e \<Rightarrow> Inl (Wrapf ''convert unstructured status: %w'' [] e)
           | Inr status \<Rightarrow> Inr status))"

section \<open>The work queue\<close>

text \<open>The handlers return the keys they add to the queue, in order, and their log lines.\<close>

definition enqueueKey :: "('o \<Rightarrow> go_error + string) \<Rightarrow> 'o \<Rightarrow> string list" where
  "enqueueKey key_func obj = (case key_func obj of Inl _ \<Rightarrow> [] | Inr key \<Rightarrow> [key])"

fun enqueueTargetGroupBindingsForServiceName ::
  "'v converter \<Rightarrow> ('v binding_object \<Rightarrow> go_error + string) \<Rightarrow> 'v binding_object cache_item list
   \<Rightarrow> string \<Rightarrow> string \<Rightarrow> string list \<times> tgb_log list" where
  "enqueueTargetGroupBindingsForServiceName cv key_func [] namespace serviceName = ([], [])"
| "enqueueTargetGroupBindingsForServiceName cv key_func (item # items) namespace serviceName =
     (case enqueueTargetGroupBindingsForServiceName cv key_func items namespace serviceName of
        (keys, log) \<Rightarrow>
          (case item of
             Unexpected _ \<Rightarrow> (keys, log)
           | Expected u \<Rightarrow>
               if bo_namespace u \<noteq> namespace then (keys, log)
               else
                 (case decodeTargetGroupBinding cv u of
                    Inl e \<Rightarrow> (keys, CannotDecode (bo_namespace u @ ''/'' @ bo_name u) e # log)
                  | Inr tgb \<Rightarrow>
                      if sr_name (ts_service_ref (tgb_spec tgb)) \<noteq> serviceName then (keys, log)
                      else (enqueueKey key_func u @ keys, log))))"

definition enqueueTargetGroupBindingsForService ::
  "'v converter \<Rightarrow> ('v binding_object \<Rightarrow> go_error + string) \<Rightarrow> 'v binding_object cache_item list
   \<Rightarrow> service event_object \<Rightarrow> string list \<times> tgb_log list" where
  "enqueueTargetGroupBindingsForService cv key_func items obj =
     (case coerceService obj of
        None \<Rightarrow> ([], [])
      | Some svc \<Rightarrow>
          enqueueTargetGroupBindingsForServiceName cv key_func items (svc_namespace svc) (svc_name svc))"

definition enqueueTargetGroupBindingsForEndpointSlice ::
  "'v converter \<Rightarrow> ('v binding_object \<Rightarrow> go_error + string) \<Rightarrow> 'v binding_object cache_item list
   \<Rightarrow> endpoint_slice event_object \<Rightarrow> string list \<times> tgb_log list" where
  "enqueueTargetGroupBindingsForEndpointSlice cv key_func items obj =
     (case coerceEndpointSlice obj of
        None \<Rightarrow> ([], [])
      | Some sl \<Rightarrow>
          (let serviceName = (case map_of (es_labels sl) LabelServiceName of None \<Rightarrow> [] | Some n \<Rightarrow> n)
           in if serviceName = [] then ([], [])
              else enqueueTargetGroupBindingsForServiceName cv key_func items (es_namespace sl) serviceName))"

fun enqueueAllTargetGroupBindings ::
  "('v binding_object \<Rightarrow> go_error + string) \<Rightarrow> 'v binding_object cache_item list \<Rightarrow> string list" where
  "enqueueAllTargetGroupBindings key_func [] = []"
| "enqueueAllTargetGroupBindings key_func (Unexpected _ # items) = enqueueAllTargetGroupBindings key_func items"
| "enqueueAllTargetGroupBindings key_func (Expected u # items) =
     enqueueKey key_func u @ enqueueAllTargetGroupBindings key_func items"

text \<open>
  \<open>addEventHandlers\<close>: what each informer's event adds to the queue; additions, updates (with
  the new object) and deletions are treated alike.
\<close>

datatype 'v tgb_event =
    BindingEvent "'v binding_object event_object"
  | ServiceEvent "service event_object"
  | EndpointSliceEvent "endpoint_slice event_object"
  | NodeEvent

definition on_event ::
  "'v converter \<Rightarrow> ('v binding_object event_object \<Rightarrow> go_error + string) \<Rightarrow> ('v binding_object \<Rightarrow> go_error + string)
   \<Rightarrow> 'v binding_object cache_item list \<Rightarrow> 'v tgb_event \<Rightarrow> string list \<times> tgb_log list" where
  "on_event cv deletion_key_func key_func items ev =
     (case ev of
        BindingEvent obj \<Rightarrow> (enqueueKey deletion_key_func obj, [])
      | ServiceEvent obj \<Rightarrow> enqueueTargetGroupBindingsForService cv key_func items obj
      | EndpointSliceEvent obj \<Rightarrow> enqueueTargetGroupBindingsForEndpointSlice cv key_func items obj
      | NodeEvent \<Rightarrow> (enqueueAllTargetGroupBindings key_func items, []))"

section \<open>Reconciling a binding\<close>

text \<open>
  The reads of the caches: the binding of a key, a Service, the endpoint slices of a namespace
  with the given labels, and all nodes.
\<close>

record 'v listers =
  ls_split_key :: "string \<Rightarrow> go_error + (string \<times> string)"
  ls_binding :: "string \<Rightarrow> go_error + 'v binding_object cache_item option"
  ls_service :: "string \<Rightarrow> string \<Rightarrow> go_error + service"
  ls_slices :: "string \<Rightarrow> (string \<times> string) list \<Rightarrow> go_error + endpoint_slice list"
  ls_nodes :: "go_error + node list"

type_synonym ('v, 'w) binding_update = "'v binding_object \<Rightarrow> 'w \<Rightarrow> (go_error + unit) \<times> 'w"

definition updateStatus ::
  "'v converter \<Rightarrow> ('v, 'w) binding_update \<Rightarrow> 'v binding_object \<Rightarrow> int \<Rightarrow> target list \<Rightarrow> string \<Rightarrow> 'w
   \<Rightarrow> (go_error + unit) \<times> 'w" where
  "updateStatus cv update u observedGeneration targets targetType w =
     (let desired = \<lparr>st_observed_generation = observedGeneration, st_targets = Some targets,
                     st_target_type = targetType\<rparr>
      in case decodeTargetGroupBindingStatus cv u of
           Inl e \<Rightarrow> (Inl (Wrapf ''decode current status: %w'' [] e), w)
         | Inr current \<Rightarrow>
             if current = desired then (Inr (), w)
             else
               (case cv_to_unstructured cv desired of
                  Inl e \<Rightarrow> (Inl (Wrapf ''convert status to unstructured: %w'' [] e), w)
                | Inr statusMap \<Rightarrow>
                    (let updated = u\<lparr>bo_object := map_set ''status'' statusMap (bo_object u)\<rparr>
                     in case update updated w of
                          (Inl e, w1) \<Rightarrow>
                            (Inl (Wrapf ''update status %s/%s: %w'' [bo_namespace updated, bo_name updated] e), w1)
                        | (Inr _, w1) \<Rightarrow> (Inr (), w1))))"

definition reconcile_found ::
  "'v converter \<Rightarrow> 'v listers \<Rightarrow> ('v, 'w) binding_update \<Rightarrow> string \<Rightarrow> string \<Rightarrow> 'v binding_object
   \<Rightarrow> targetGroupBinding \<Rightarrow> 'w \<Rightarrow> ((go_error + unit) \<times> tgb_log list) \<times> 'w" where
  "reconcile_found cv ls update key namespace u tgb w =
     (let name = sr_name (ts_service_ref (tgb_spec tgb)) in
      case ls_service ls namespace name of
        Inl e \<Rightarrow>
          if is_not_found e
          then ((Inl (Wrapf ''referenced service %s/%s not found: %w'' [namespace, name] e), []), w)
          else ((Inl (Wrapf ''get service %s/%s: %w'' [namespace, name] e), []), w)
      | Inr svc \<Rightarrow>
          (case ls_slices ls namespace [(LabelServiceName, svc_name svc)] of
             Inl e \<Rightarrow>
               ((Inl (Wrapf ''list endpoint slices for service %s/%s: %w'' [namespace, svc_name svc] e), []), w)
           | Inr slices \<Rightarrow>
               (case ls_nodes ls of
                  Inl e \<Rightarrow> ((Inl (Wrapf ''list nodes: %w'' [] e), []), w)
                | Inr nodes \<Rightarrow>
                    (case resolveTargets tgb svc slices nodes of
                       (Inl e, _) \<Rightarrow> ((Inr (), [CannotResolve key (svc_name svc) e]), w)
                     | (Inr targets, targetType) \<Rightarrow>
                         (case updateStatus cv update u (tgb_generation tgb) targets targetType w of
                            (Inl e, w1) \<Rightarrow>
                              ((Inl (Wrapf ''update target group binding status %q: %w'' [key] e), []), w1)
                          | (Inr _, w1) \<Rightarrow> ((Inr (), []), w1))))))"

definition tgb_reconcile ::
  "'v converter \<Rightarrow> 'v listers \<Rightarrow> ('v, 'w) binding_update \<Rightarrow> string \<Rightarrow> 'w
   \<Rightarrow> ((go_error + unit) \<times> tgb_log list) \<times> 'w" where
  "tgb_reconcile cv ls update key w =
     (case ls_split_key ls key of
        Inl e \<Rightarrow> ((Inl (Wrapf ''split key %q: %w'' [key] e), []), w)
      | Inr (namespace, _) \<Rightarrow>
          (case ls_binding ls key of
             Inl e \<Rightarrow> ((Inl (Wrapf ''get %q from target group binding indexer: %w'' [key] e), []), w)
           | Inr None \<Rightarrow> ((Inr (), []), w)
           | Inr (Some (Unexpected t)) \<Rightarrow>
               ((Inl (Errorf ''unexpected target group binding indexer item type %T for %q'' [t, key]), []), w)
           | Inr (Some (Expected u)) \<Rightarrow>
               (case decodeTargetGroupBinding cv u of
                  Inl e \<Rightarrow> ((Inl (Wrapf ''decode target group binding %q: %w'' [key] e), []), w)
                | Inr tgb \<Rightarrow>
                    (let arn = ts_target_group_arn (tgb_spec tgb);
                         log0 = (if arn \<noteq> [] then [IgnoredARN key arn] else [])
                     in case reconcile_found cv ls update key namespace u tgb w of
                          ((res, log), w1) \<Rightarrow> ((res, log0 @ log), w1)))))"

text \<open>One round of \<open>runWorker\<close>: the calls that tell the queue how the key went.\<close>

datatype queue_call = AddRateLimited string | Forget string | Done string

definition worker_round ::
  "'v converter \<Rightarrow> 'v listers \<Rightarrow> ('v, 'w) binding_update \<Rightarrow> string \<Rightarrow> 'w
   \<Rightarrow> (queue_call list \<times> tgb_log list) \<times> 'w" where
  "worker_round cv ls update key w =
     (case tgb_reconcile cv ls update key w of
        ((Inl e, log), w1) \<Rightarrow> (([AddRateLimited key, Done key], log @ [ReconcileFailed key e]), w1)
      | ((Inr _, log), w1) \<Rightarrow> (([Forget key, Done key], log), w1))"

section \<open>Services of an earlier version\<close>

record 'w service_client =
  sc_list :: "string \<Rightarrow> 'w \<Rightarrow> (go_error + service list) \<times> 'w"
  sc_delete :: "string \<Rightarrow> string \<Rightarrow> 'w \<Rightarrow> (go_error + unit) \<times> 'w"

fun owned_by_binding :: "service_owner list \<Rightarrow> bool" where
  "owned_by_binding [] = False"
| "owned_by_binding (ref # refs) =
     (if so_kind ref = TargetGroupBindingKind \<and>
         so_api_version ref = TargetGroupBindingGroup @ ''/'' @ TargetGroupBindingVersion
      then True else owned_by_binding refs)"

definition isLegacyMirrorService :: "service \<Rightarrow> bool" where
  "isLegacyMirrorService svc =
     (if \<not> suffix legacyMirrorServiceSuffix (svc_name svc) then False else owned_by_binding (svc_owners svc))"

fun delete_legacy ::
  "'w service_client \<Rightarrow> service list \<Rightarrow> 'w \<Rightarrow> ((go_error + unit) \<times> string list) \<times> 'w" where
  "delete_legacy c [] w = ((Inr (), []), w)"
| "delete_legacy c (svc # svcs) w =
     (if \<not> isLegacyMirrorService svc then delete_legacy c svcs w
      else
        (case sc_delete c (svc_namespace svc) (svc_name svc) w of
           (Inl e, w1) \<Rightarrow>
             if \<not> is_not_found e
             then ((Inl (Wrapf ''delete legacy mirror service %s/%s: %w'' [svc_namespace svc, svc_name svc] e), []), w1)
             else (case delete_legacy c svcs w1 of
                     ((res, log), w2) \<Rightarrow> ((res, (svc_namespace svc @ ''/'' @ svc_name svc) # log), w2))
         | (Inr _, w1) \<Rightarrow>
             (case delete_legacy c svcs w1 of
                ((res, log), w2) \<Rightarrow> ((res, (svc_namespace svc @ ''/'' @ svc_name svc) # log), w2))))"

definition garbageCollectLegacyMirrorServices ::
  "'w service_client \<Rightarrow> 'w \<Rightarrow> ((go_error + unit) \<times> string list) \<times> 'w" where
  "garbageCollectLegacyMirrorServices c w =
     (case sc_list c (managedByLabelKey @ ''='' @ managedByLabelValue) w of
        (Inl e, w1) \<Rightarrow> ((Inl (Wrapf ''list fjord-managed services: %w'' [] e), []), w1)
      | (Inr services, w1) \<Rightarrow> delete_legacy c services w1)"

section \<open>Which bindings an event concerns\<close>

lemma enqueueKey_mem [simp]: "k \<in> set (enqueueKey key_func u) \<longleftrightarrow> key_func u = Inr k"
  by (auto simp: enqueueKey_def split: sum.splits)

lemma enqueued_for_service_iff:
  "k \<in> set (fst (enqueueTargetGroupBindingsForServiceName cv key_func items ns n)) \<longleftrightarrow>
   (\<exists>u tgb. Expected u \<in> set items \<and> bo_namespace u = ns \<and> decodeTargetGroupBinding cv u = Inr tgb \<and>
      sr_name (ts_service_ref (tgb_spec tgb)) = n \<and> key_func u = Inr k)"
proof (induction items)
  case (Cons i items)
  then show ?case by (cases i) (auto split: prod.splits sum.splits)
qed simp

lemma enqueued_all_iff:
  "k \<in> set (enqueueAllTargetGroupBindings key_func items) \<longleftrightarrow>
   (\<exists>u. Expected u \<in> set items \<and> key_func u = Inr k)"
proof (induction items)
  case (Cons i items)
  then show ?case by (cases i) auto
qed simp

text \<open>
  What an event tells about the caches before and after it: everything else reads the same. For
  an endpoint slice this is as long as the change has kept its Service label.
\<close>

definition caches_change ::
  "('v binding_object event_object \<Rightarrow> go_error + string) \<Rightarrow> 'v listers \<Rightarrow> 'v tgb_event \<Rightarrow> 'v listers \<Rightarrow> bool" where
  "caches_change deletion_key_func ls ev ls' \<longleftrightarrow>
     (case ev of
        BindingEvent obj \<Rightarrow>
          \<exists>k b. deletion_key_func obj = Inr k \<and> ls' = ls\<lparr>ls_binding := (ls_binding ls)(k := b)\<rparr>
      | ServiceEvent obj \<Rightarrow>
          \<exists>svc f. coerceService obj = Some svc \<and> ls' = ls\<lparr>ls_service := f\<rparr> \<and>
            (\<forall>ns n. (ns, n) \<noteq> (svc_namespace svc, svc_name svc) \<longrightarrow> f ns n = ls_service ls ns n)
      | EndpointSliceEvent obj \<Rightarrow>
          \<exists>sl n f. coerceEndpointSlice obj = Some sl \<and> map_of (es_labels sl) LabelServiceName = Some n \<and> n \<noteq> [] \<and>
            ls' = ls\<lparr>ls_slices := f\<rparr> \<and>
            (\<forall>ns l. (ns, l) \<noteq> (es_namespace sl, [(LabelServiceName, n)]) \<longrightarrow> f ns l = ls_slices ls ns l)
      | NodeEvent \<Rightarrow> \<exists>nodes. ls' = ls\<lparr>ls_nodes := nodes\<rparr>)"

lemma reconcile_found_agree:
  assumes "ls_service ls ns (sr_name (ts_service_ref (tgb_spec tgb))) =
      ls_service ls' ns (sr_name (ts_service_ref (tgb_spec tgb)))"
    and "\<forall>svc. ls_service ls ns (sr_name (ts_service_ref (tgb_spec tgb))) = Inr svc \<longrightarrow>
      ls_slices ls ns [(LabelServiceName, svc_name svc)] = ls_slices ls' ns [(LabelServiceName, svc_name svc)]"
    and "ls_nodes ls = ls_nodes ls'"
  shows "reconcile_found cv ls update key ns u tgb w = reconcile_found cv ls' update key ns u tgb w"
  using assms by (auto simp: reconcile_found_def Let_def split: sum.splits)

lemma tgb_reconcile_agree:
  assumes "ls_split_key ls = ls_split_key ls'" and "ls_binding ls key = ls_binding ls' key"
    and "\<forall>ns n u tgb. ls_split_key ls key = Inr (ns, n) \<longrightarrow> ls_binding ls key = Inr (Some (Expected u)) \<longrightarrow>
      decodeTargetGroupBinding cv u = Inr tgb \<longrightarrow>
      reconcile_found cv ls update key ns u tgb w = reconcile_found cv ls' update key ns u tgb w"
  shows "tgb_reconcile cv ls update key w = tgb_reconcile cv ls' update key w"
  using assms by (auto simp: tgb_reconcile_def Let_def split: sum.splits option.splits cache_item.splits)

text \<open>A reconcile that a change to what is known of one Service affects is of a binding to it.\<close>

lemma changed_binding_refers:
  assumes "tgb_reconcile cv ls' update key w \<noteq> tgb_reconcile cv ls update key w"
    and "ls_split_key ls' = ls_split_key ls" and "ls_binding ls' = ls_binding ls" and "ls_nodes ls' = ls_nodes ls"
    and "\<forall>u. ls_binding ls key = Inr (Some (Expected u)) \<longrightarrow> (\<exists>n. ls_split_key ls key = Inr (bo_namespace u, n))"
    and "\<forall>ns n. (ns, n) \<noteq> (ns0, n0) \<longrightarrow> ls_service ls' ns n = ls_service ls ns n \<and>
      (\<forall>svc. ls_service ls ns n = Inr svc \<longrightarrow>
         ls_slices ls' ns [(LabelServiceName, svc_name svc)] = ls_slices ls ns [(LabelServiceName, svc_name svc)])"
  shows "\<exists>u tgb. ls_binding ls key = Inr (Some (Expected u)) \<and> bo_namespace u = ns0 \<and>
    decodeTargetGroupBinding cv u = Inr tgb \<and> sr_name (ts_service_ref (tgb_spec tgb)) = n0"
proof (rule ccontr)
  assume not: "\<not> ?thesis"
  have "tgb_reconcile cv ls' update key w = tgb_reconcile cv ls update key w"
  proof (rule tgb_reconcile_agree; (intro allI impI)?)
    fix ns n u tgb
    assume h: "ls_split_key ls' key = Inr (ns, n)" "ls_binding ls' key = Inr (Some (Expected u))"
      "decodeTargetGroupBinding cv u = Inr tgb"
    with assms(2,3,5) have "ns = bo_namespace u" by auto
    with h not assms(3) have "(ns, sr_name (ts_service_ref (tgb_spec tgb))) \<noteq> (ns0, n0)" by auto
    with assms(6) show "reconcile_found cv ls' update key ns u tgb w = reconcile_found cv ls update key ns u tgb w"
      by (intro reconcile_found_agree) (auto simp: assms(4))
  qed (simp_all add: assms(2,3))
  with assms(1) show False ..
qed

text \<open>A changed Service label: the handler sees the new label only.\<close>

lemma relabelled_slice_unnoticed:
  assumes "map_of (es_labels sl) LabelServiceName = Some n" and "sr_name (ts_service_ref (tgb_spec tgb)) \<noteq> n"
    and "decodeTargetGroupBinding cv u = Inr tgb" and "Expected u \<in> set items" and "key_func u = Inr key"
    and "\<forall>u'. Expected u' \<in> set items \<longrightarrow> key_func u' = Inr key \<longrightarrow> u' = u"
  shows "key \<notin> set (fst (on_event cv deletion_key_func key_func items (EndpointSliceEvent (Live sl))))"
proof -
  have "key \<notin> set (fst (enqueueTargetGroupBindingsForServiceName cv key_func items (es_namespace sl) n))"
    unfolding enqueued_for_service_iff using assms(2,3,6) by (metis sum.inject(2))
  with assms(1) show ?thesis
    by (simp add: on_event_def enqueueTargetGroupBindingsForEndpointSlice_def coerceEndpointSlice_def)
qed

section \<open>The status\<close>

text \<open>
  The converter gives back the status it converted, and \<open>UpdateStatus\<close> of a current object
  stores that status without touching what the binding asks for.
\<close>

locale binding_api =
  fixes cv :: "'v converter"
    and update :: "('v, 'w) binding_update"
    and bindings :: "'w \<Rightarrow> string \<times> string \<rightharpoonup> 'v binding_object"
    and ok :: "'w \<Rightarrow> bool"
  assumes converts: "\<exists>v. cv_to_unstructured cv st = Inr v"
    and status_law:
      "cv_to_unstructured cv st = Inr v \<Longrightarrow>
       cv_nested_map cv (map_set ''status'' v m) ''status'' = Inr (Some v) \<and> cv_status cv v = Inr st"
    and update_law:
      "ok w \<Longrightarrow> bindings w (bo_key t) = Some t \<Longrightarrow> u = t\<lparr>bo_object := map_set ''status'' v (bo_object t)\<rparr> \<Longrightarrow>
       \<exists>w' t'. update u w = (Inr (), w') \<and> ok w' \<and> bindings w' = (bindings w)(bo_key t \<mapsto> t') \<and>
         bo_key t' = bo_key t \<and>
         cv_nested_map cv (bo_object t') ''status'' = cv_nested_map cv (bo_object u) ''status'' \<and>
         decodeTargetGroupBinding cv t' = decodeTargetGroupBinding cv t"
begin

lemma updateStatus_publishes:
  assumes "ok w" and "bindings w (bo_key u) = Some u" and "decodeTargetGroupBindingStatus cv u = Inr old"
  shows "\<exists>w' u'. updateStatus cv update u g ts ty w = (Inr (), w') \<and> ok w' \<and>
    bindings w' = (bindings w)(bo_key u \<mapsto> u') \<and> bo_key u' = bo_key u \<and>
    decodeTargetGroupBindingStatus cv u' =
      Inr \<lparr>st_observed_generation = g, st_targets = Some ts, st_target_type = ty\<rparr> \<and>
    decodeTargetGroupBinding cv u' = decodeTargetGroupBinding cv u"
proof (cases "old = \<lparr>st_observed_generation = g, st_targets = Some ts, st_target_type = ty\<rparr>")
  case True
  from assms(2) have "bindings w = (bindings w)(bo_key u \<mapsto> u)" by (auto simp: fun_eq_iff)
  with True assms show ?thesis by (auto simp: updateStatus_def)
next
  case False
  let ?d = "\<lparr>st_observed_generation = g, st_targets = Some ts, st_target_type = ty\<rparr>"
  obtain v where v: "cv_to_unstructured cv ?d = Inr v" using converts by blast
  let ?u = "u\<lparr>bo_object := map_set ''status'' v (bo_object u)\<rparr>"
  from update_law [OF assms(1,2) refl] obtain w' u' where
    w': "update ?u w = (Inr (), w')" "ok w'" "bindings w' = (bindings w)(bo_key u \<mapsto> u')" "bo_key u' = bo_key u"
    "cv_nested_map cv (bo_object u') ''status'' = cv_nested_map cv (bo_object ?u) ''status''"
    "decodeTargetGroupBinding cv u' = decodeTargetGroupBinding cv u" by metis
  have "decodeTargetGroupBindingStatus cv u' = Inr ?d"
    using w'(5) status_law [OF v, of "bo_object u"] by (simp add: decodeTargetGroupBindingStatus_def)
  with False assms(3) v w' show ?thesis by (auto simp: updateStatus_def Let_def)
qed

end

lemma updateStatus_idle:
  "decodeTargetGroupBindingStatus cv u =
     Inr \<lparr>st_observed_generation = g, st_targets = Some ts, st_target_type = ty\<rparr> \<Longrightarrow>
   updateStatus cv update u g ts ty w = (Inr (), w)"
  by (simp add: updateStatus_def)

text \<open>A reference: documents of two fields, and a server that stores them.\<close>

datatype binding_doc = DocBinding targetGroupBinding | DocStatus targetGroupBindingStatus

definition ref_converter :: "binding_doc converter" where
  "ref_converter =
     \<lparr>cv_binding = (\<lambda>m. case map_of m ''spec'' of
        Some (DocBinding b) \<Rightarrow> Inr b | _ \<Rightarrow> Inl (Errorf ''no binding'' [])),
      cv_arn = (\<lambda>m. case map_of m ''spec'' of
        Some (DocBinding b) \<Rightarrow> Inr (Some (ts_target_group_arn (tgb_spec b))) | _ \<Rightarrow> Inr None),
      cv_nested_map = (\<lambda>m k. Inr (map_of m k)),
      cv_status = (\<lambda>v. case v of DocStatus st \<Rightarrow> Inr st | DocBinding _ \<Rightarrow> Inl (Errorf ''no status'' [])),
      cv_to_unstructured = (\<lambda>st. Inr (DocStatus st))\<rparr>"

lemma ref_converter_status:
  "cv_binding ref_converter (map_set ''status'' v m) = cv_binding ref_converter m"
  "cv_arn ref_converter (map_set ''status'' v m) = cv_arn ref_converter m"
  by (simp_all add: ref_converter_def)

type_synonym binding_world = "(string \<times> string, binding_doc binding_object) go_map"

definition ref_binding_update :: "(binding_doc, binding_world) binding_update" where
  "ref_binding_update u w =
     (case map_of w (bo_key u) of
        None \<Rightarrow> (Inl (ApiError NotFound), w)
      | Some t \<Rightarrow>
          (case map_of (bo_object u) ''status'' of
             None \<Rightarrow> (Inr (), w)
           | Some st \<Rightarrow> (Inr (), map_set (bo_key u) (t\<lparr>bo_object := map_set ''status'' st (bo_object t)\<rparr>) w)))"

interpretation tgb_ref: binding_api ref_converter ref_binding_update map_of "\<lambda>_. True"
proof
  fix w :: binding_world and t u :: "binding_doc binding_object" and v
  assume t: "map_of w (bo_key t) = Some t" and u: "u = t\<lparr>bo_object := map_set ''status'' v (bo_object t)\<rparr>"
  have "bo_key u = bo_key t" by (simp add: u bo_key_def)
  with t u have "ref_binding_update u w = (Inr (), map_set (bo_key t) u w)"
    by (simp add: ref_binding_update_def)
  moreover have "bo_object u = map_set ''status'' v (bo_object t)" by (simp add: u)
  then have "decodeTargetGroupBinding ref_converter u = decodeTargetGroupBinding ref_converter t"
    by (simp only: decodeTargetGroupBinding_def ref_converter_status)
  ultimately show "\<exists>w' t'. ref_binding_update u w = (Inr (), w') \<and> True \<and>
      map_of w' = (map_of w)(bo_key t \<mapsto> t') \<and> bo_key t' = bo_key t \<and>
      cv_nested_map ref_converter (bo_object t') ''status'' = cv_nested_map ref_converter (bo_object u) ''status'' \<and>
      decodeTargetGroupBinding ref_converter t' = decodeTargetGroupBinding ref_converter t"
    using \<open>bo_key u = bo_key t\<close> by (intro exI [of _ "map_set (bo_key t) u w"] exI [of _ u]) simp
qed (simp_all add: ref_converter_def)

section \<open>The Services of an earlier version\<close>

text \<open>
  The API as the collection of leftovers uses it: a list of the labelled Services, and deletions
  of which one may come second (\<open>NotFound\<close>).
\<close>

lemma isLegacyMirrorService_iff:
  "isLegacyMirrorService s \<longleftrightarrow> suffix legacyMirrorServiceSuffix (svc_name s) \<and>
     (\<exists>r \<in> set (svc_owners s). so_kind r = TargetGroupBindingKind \<and>
        so_api_version r = TargetGroupBindingGroup @ ''/'' @ TargetGroupBindingVersion)"
proof -
  have "owned_by_binding refs \<longleftrightarrow> (\<exists>r \<in> set refs. so_kind r = TargetGroupBindingKind \<and>
      so_api_version r = TargetGroupBindingGroup @ ''/'' @ TargetGroupBindingVersion)" for refs
    by (induction refs) auto
  then show ?thesis by (simp add: isLegacyMirrorService_def)
qed

locale leftovers_api =
  fixes c :: "'w service_client"
    and services :: "'w \<Rightarrow> string \<times> string \<rightharpoonup> service"
    and ok :: "'w \<Rightarrow> bool"
  assumes list_law:
      "ok w \<Longrightarrow> \<exists>l. sc_list c (managedByLabelKey @ ''='' @ managedByLabelValue) w = (Inr l, w) \<and>
         set l = {s. services w (svc_key s) = Some s \<and> map_of (svc_labels s) managedByLabelKey = Some managedByLabelValue}"
    and keyed: "ok w \<Longrightarrow> services w k = Some s \<Longrightarrow> svc_key s = k"
    and delete_law:
      "ok w \<Longrightarrow> sc_delete c (fst k) (snd k) w = (res, w') \<Longrightarrow>
       ok w' \<and> (res = Inr () \<or> res = Inl (ApiError NotFound)) \<and> services w' = (services w)(k := None)"
begin

lemma delete_legacy_result:
  assumes "ok w"
  shows "\<exists>log w'. delete_legacy c svcs w = ((Inr (), log), w') \<and> ok w' \<and>
    services w' = (\<lambda>k. if k \<in> svc_key ` set (filter isLegacyMirrorService svcs) then None else services w k)"
  using assms
proof (induction svcs arbitrary: w)
  case (Cons s svcs)
  show ?case
  proof (cases "isLegacyMirrorService s")
    case False
    with Cons show ?thesis by simp
  next
    case True
    obtain res w1 where d: "sc_delete c (svc_namespace s) (svc_name s) w = (res, w1)" by fastforce
    with delete_law [OF Cons.prems, of "svc_key s"] have
      w1: "ok w1" "res = Inr () \<or> res = Inl (ApiError NotFound)" "services w1 = (services w)(svc_key s := None)"
      by (auto simp: svc_key_def)
    from Cons.IH [OF w1(1)] obtain log w' where
      w': "delete_legacy c svcs w1 = ((Inr (), log), w')" "ok w'"
      "services w' = (\<lambda>k. if k \<in> svc_key ` set (filter isLegacyMirrorService svcs) then None else services w1 k)"
      by blast
    have "services w' = (\<lambda>k. if k \<in> svc_key ` set (filter isLegacyMirrorService (s # svcs)) then None else services w k)"
      by (rule ext) (simp add: w'(3) w1(3) True)
    with True d w1(2) w'(1,2) show ?thesis by (auto simp: go_err)
  qed
qed simp

end

definition ref_service_client :: "(string \<times> string, service) go_map service_client" where
  "ref_service_client =
     \<lparr>sc_list = (\<lambda>sel w. (Inr (case cut_at (CHR ''='') sel of
          None \<Rightarrow> filter (\<lambda>s. map_of (svc_labels s) sel \<noteq> None) (map snd w)
        | Some (k, v) \<Rightarrow> filter (\<lambda>s. map_of (svc_labels s) k = Some v) (map snd w)), w)),
      sc_delete = (\<lambda>ns n w. if map_of w (ns, n) = None then (Inl (ApiError NotFound), w)
        else (Inr (), map_delete (ns, n) w))\<rparr>"

lemma set_map_delete: "set (map_delete k m) = {kv \<in> set m. fst kv \<noteq> k}"
  by (auto simp: map_delete_def)

definition service_map_ok :: "(string \<times> string, service) go_map \<Rightarrow> bool" where
  "service_map_ok w \<longleftrightarrow> map_wf w \<and> (\<forall>(k, s) \<in> set w. svc_key s = k)"

lemma service_map_listed:
  "service_map_ok w \<Longrightarrow> s \<in> snd ` set w \<longleftrightarrow> map_of w (svc_key s) = Some s"
  by (force simp: service_map_ok_def map_wf_mem_iff [symmetric])

interpretation gc_ref: leftovers_api ref_service_client map_of service_map_ok
proof
  fix w assume w: "service_map_ok w"
  have "cut_at (CHR ''='') (managedByLabelKey @ ''='' @ managedByLabelValue) = Some (managedByLabelKey, managedByLabelValue)"
    by (simp add: managedByLabelKey_def managedByLabelValue_def cut_at_def)
  with service_map_listed [OF w] show "\<exists>l. sc_list ref_service_client (managedByLabelKey @ ''='' @ managedByLabelValue) w =
      (Inr l, w) \<and> set l = {s. map_of w (svc_key s) = Some s \<and>
        map_of (svc_labels s) managedByLabelKey = Some managedByLabelValue}"
    by (auto simp: ref_service_client_def)
next
  fix w k s assume "service_map_ok w" "map_of w k = Some s"
  with map_of_SomeD [OF this(2)] show "svc_key s = k" by (auto simp: service_map_ok_def)
next
  fix w w' :: "(string \<times> string, service) go_map" and k res
  assume "service_map_ok w" "sc_delete ref_service_client (fst k) (snd k) w = (res, w')"
  then show "service_map_ok w' \<and> (res = Inr () \<or> res = Inl (ApiError NotFound)) \<and>
      map_of w' = (map_of w)(k := None)"
    by (auto simp: ref_service_client_def service_map_ok_def set_map_delete split: if_splits)
qed

section \<open>An example cluster\<close>

definition demo_binding :: targetGroupBinding where
  "demo_binding =
     \<lparr>tgb_namespace = ''app'', tgb_name = ''web'', tgb_generation = 3,
      tgb_spec = \<lparr>ts_service_ref = \<lparr>sr_name = ''web'', sr_port = StrVal ''http''\<rparr>, ts_target_type = [],
        ts_target_group_arn = []\<rparr>\<rparr>"

definition demo_object :: "binding_doc binding_object" where
  "demo_object = \<lparr>bo_namespace = ''app'', bo_name = ''web'', bo_object = [(''spec'', DocBinding demo_binding)]\<rparr>"

definition demo_web :: service where
  "demo_web =
     \<lparr>svc_namespace = ''app'', svc_name = ''web'', svc_rv = 1, svc_labels = [], svc_owners = [],
      svc_type = ''ClusterIP'', svc_class = None, svc_selector = [(''app'', ''web'')],
      svc_ports = [\<lparr>sp_name = ''http'', sp_port = 80, sp_node_port = 0\<rparr>], svc_ingress = []\<rparr>"

definition demo_slice :: "string list \<Rightarrow> endpoint_slice" where
  "demo_slice ips =
     \<lparr>es_namespace = ''app'', es_name = ''web-1'', es_labels = [(LabelServiceName, ''web'')],
      es_ports = [\<lparr>slp_name = Some ''http'', slp_port = Some 8080\<rparr>],
      es_endpoints = [\<lparr>ep_addresses = ips, ep_ready = None\<rparr>,
        \<lparr>ep_addresses = [''10.0.0.9''], ep_ready = Some False\<rparr>]\<rparr>"

definition demo_listers :: "string list \<Rightarrow> binding_doc listers" where
  "demo_listers ips =
     \<lparr>ls_split_key = (\<lambda>k. Inr (''app'', ''web'')),
      ls_binding = (\<lambda>k. Inr (if k = ''app/web'' then Some (Expected demo_object) else None)),
      ls_service = (\<lambda>ns n. if ns = ''app'' \<and> n = ''web'' then Inr demo_web else Inl (ApiError NotFound)),
      ls_slices = (\<lambda>ns l. Inr (if ns = ''app'' \<and> l = [(LabelServiceName, ''web'')] then [demo_slice ips] else [])),
      ls_nodes = Inr []\<rparr>"

lemma demo_decodes: "decodeTargetGroupBinding ref_converter demo_object = Inr demo_binding"
  "decodeTargetGroupBindingStatus ref_converter demo_object = Inr zero_status"
  by (simp_all add: decodeTargetGroupBinding_def decodeTargetGroupBindingStatus_def ref_converter_def demo_object_def demo_binding_def)

lemma demo_reads: "ls_split_key (demo_listers ips) k = Inr (''app'', ''web'')"
  "ls_binding (demo_listers ips) ''app/web'' = Inr (Some (Expected demo_object))"
  "ls_service (demo_listers ips) ''app'' (sr_name (ts_service_ref (tgb_spec demo_binding))) = Inr demo_web"
  "ls_slices (demo_listers ips) ''app'' [(LabelServiceName, svc_name demo_web)] = Inr [demo_slice ips]"
  "ls_nodes (demo_listers ips) = Inr []"
  by (simp_all add: demo_listers_def demo_binding_def demo_web_def)

lemma demo_targets:
  "reference_targets demo_binding demo_web (mset [demo_slice [''10.0.0.2'', ''10.0.0.1'']]) (set []) =
     Inr [Target ''10.0.0.1'' 8080, Target ''10.0.0.2'' 8080]"
proof -
  have "resolveTargets demo_binding demo_web [demo_slice [''10.0.0.2'', ''10.0.0.1'']] [] =
      (Inr [Target ''10.0.0.1'' 8080, Target ''10.0.0.2'' 8080], ''ip'')" by code_simp
  then show ?thesis by (simp add: resolved_targets_equal)
qed

section \<open>Properties\<close>

text \<open>
  C18: reconciling a binding that the cache shows as it is succeeds and leaves its status saying
  exactly the observed generation, the backends and the target type, without touching what the
  binding asks for; and once the cache shows that status, reconciling again succeeds without a
  write for as long as the slices and nodes are the same in any order: the controller does not
  wake itself up for ever.
\<close>

theorem binding_status_settles:
  assumes "binding_api cv update bindings ok" and "ok w" and "bindings w (bo_key u) = Some u"
    and "ls_split_key ls key = Inr (ns, n)" and "ls_binding ls key = Inr (Some (Expected u))"
    and "decodeTargetGroupBinding cv u = Inr tgb" and "decodeTargetGroupBindingStatus cv u = Inr old"
    and "ls_service ls ns (sr_name (ts_service_ref (tgb_spec tgb))) = Inr svc"
    and "ls_slices ls ns [(LabelServiceName, svc_name svc)] = Inr slices" and "ls_nodes ls = Inr nodes"
    and "reference_targets tgb svc (mset slices) (set nodes) = Inr targets"
  shows "\<exists>log w' u'. tgb_reconcile cv ls update key w = ((Inr (), log), w') \<and>
    bindings w' = (bindings w)(bo_key u \<mapsto> u') \<and>
    decodeTargetGroupBinding cv u' = Inr tgb \<and>
    decodeTargetGroupBindingStatus cv u' =
      Inr \<lparr>st_observed_generation = tgb_generation tgb, st_targets = Some targets,
           st_target_type = effectiveTargetType tgb\<rparr> \<and>
    (\<forall>slices' nodes' w''. mset slices' = mset slices \<longrightarrow> set nodes' = set nodes \<longrightarrow>
       tgb_reconcile cv (ls\<lparr>ls_binding := (ls_binding ls)(key := Inr (Some (Expected u'))),
           ls_slices := (ls_slices ls)(ns := (ls_slices ls ns)([(LabelServiceName, svc_name svc)] := Inr slices')),
           ls_nodes := Inr nodes'\<rparr>) update key w'' = ((Inr (), log), w''))"
proof -
  from binding_api.updateStatus_publishes [OF assms(1,2,3,7)] obtain w' u' where
    w': "updateStatus cv update u (tgb_generation tgb) targets (effectiveTargetType tgb) w = (Inr (), w')"
    "bindings w' = (bindings w)(bo_key u \<mapsto> u')" "bo_key u' = bo_key u"
    "decodeTargetGroupBindingStatus cv u' =
      Inr \<lparr>st_observed_generation = tgb_generation tgb, st_targets = Some targets, st_target_type = effectiveTargetType tgb\<rparr>"
    "decodeTargetGroupBinding cv u' = decodeTargetGroupBinding cv u" by blast
  have found: "reconcile_found cv ls update key ns u tgb w = ((Inr (), []), w')"
    using w'(1) assms(8-11) by (simp add: reconcile_found_def resolved_targets_equal)
  let ?log = "if ts_target_group_arn (tgb_spec tgb) \<noteq> [] then [IgnoredARN key (ts_target_group_arn (tgb_spec tgb))] else []"
  have "tgb_reconcile cv ls update key w = ((Inr (), ?log), w')"
    using found assms(4-6) by (simp add: tgb_reconcile_def Let_def)
  moreover have "tgb_reconcile cv (ls\<lparr>ls_binding := (ls_binding ls)(key := Inr (Some (Expected u'))),
           ls_slices := (ls_slices ls)(ns := (ls_slices ls ns)([(LabelServiceName, svc_name svc)] := Inr slices')),
           ls_nodes := Inr nodes'\<rparr>) update key w'' = ((Inr (), ?log), w'')"
    if "mset slices' = mset slices" "set nodes' = set nodes" for slices' nodes' w''
    using assms(4,6,8,11) w'(4,5) that
    by (simp add: tgb_reconcile_def Let_def reconcile_found_def resolved_targets_equal updateStatus_idle)
  ultimately show ?thesis using w'(2,4,5) assms(6) by (intro exI [of _ ?log] exI [of _ w'] exI [of _ u']) simp
qed

theorem binding_status_settles_witness:
  "\<exists>log w' u'. tgb_reconcile ref_converter (demo_listers [''10.0.0.2'', ''10.0.0.1'']) ref_binding_update ''app/web''
      [((''app'', ''web''), demo_object)] = ((Inr (), log), w') \<and>
     map_of w' (''app'', ''web'') = Some u' \<and>
     decodeTargetGroupBindingStatus ref_converter u' =
       Inr \<lparr>st_observed_generation = 3, st_targets = Some [Target ''10.0.0.1'' 8080, Target ''10.0.0.2'' 8080],
            st_target_type = ''ip''\<rparr>"
proof -
  have key: "bo_key demo_object = (''app'', ''web'')" by (simp add: bo_key_def demo_object_def)
  have cur: "map_of [((''app'', ''web''), demo_object)] (bo_key demo_object) = Some demo_object" by (simp add: key)
  have ty: "effectiveTargetType demo_binding = ''ip''" "tgb_generation demo_binding = 3"
    by (simp_all add: effectiveTargetType_def demo_binding_def targetTypeIP_def)
  from binding_status_settles [OF tgb_ref.binding_api_axioms, OF TrueI cur demo_reads(1,2) demo_decodes demo_reads(3-5) demo_targets]
  show ?thesis unfolding key ty by (auto simp: fun_upd_same)
qed

text \<open>
  C20: no change a binding depends on is missed: whenever an event has changed what reconciling
  a key does, the event's handler puts that key into the queue (a change of the Service label
  of an endpoint slice excepted, see \<open>relabelled_slice_unnoticed\<close>).
\<close>

theorem relevant_changes_are_enqueued:
  assumes "caches_change deletion_key_func ls ev ls'"
    and "tgb_reconcile cv ls' update key w \<noteq> tgb_reconcile cv ls update key w"
    and "\<forall>u. ls_binding ls key = Inr (Some (Expected u)) \<longrightarrow>
      Expected u \<in> set items \<and> key_func u = Inr key \<and> (\<exists>n. ls_split_key ls key = Inr (bo_namespace u, n))"
    and "\<forall>ns n svc. ls_service ls ns n = Inr svc \<longrightarrow> svc_name svc = n"
  shows "key \<in> set (fst (on_event cv deletion_key_func key_func items ev))"
proof (cases ev)
  case (BindingEvent obj)
  with assms(1) obtain k b where k: "deletion_key_func obj = Inr k" "ls' = ls\<lparr>ls_binding := (ls_binding ls)(k := b)\<rparr>"
    by (auto simp: caches_change_def)
  have "k = key"
  proof (rule ccontr)
    assume "k \<noteq> key"
    with k(2) have "tgb_reconcile cv ls' update key w = tgb_reconcile cv ls update key w"
      by (intro tgb_reconcile_agree) (auto intro!: reconcile_found_agree)
    with assms(2) show False ..
  qed
  with BindingEvent k(1) show ?thesis by (simp add: on_event_def)
next
  case (ServiceEvent obj)
  with assms(1) obtain svc f where svc: "coerceService obj = Some svc" "ls' = ls\<lparr>ls_service := f\<rparr>"
    "\<forall>ns n. (ns, n) \<noteq> (svc_namespace svc, svc_name svc) \<longrightarrow> f ns n = ls_service ls ns n"
    by (auto simp: caches_change_def)
  have "\<exists>u tgb. ls_binding ls key = Inr (Some (Expected u)) \<and> bo_namespace u = svc_namespace svc \<and>
      decodeTargetGroupBinding cv u = Inr tgb \<and> sr_name (ts_service_ref (tgb_spec tgb)) = svc_name svc"
    by (rule changed_binding_refers [OF assms(2)]) (use assms(3) svc(3) in \<open>auto simp: svc(2)\<close>)
  with assms(3) ServiceEvent svc(1) show ?thesis
    by (auto simp: on_event_def enqueueTargetGroupBindingsForService_def enqueued_for_service_iff)
next
  case (EndpointSliceEvent obj)
  with assms(1) obtain sl m f where sl: "coerceEndpointSlice obj = Some sl" "map_of (es_labels sl) LabelServiceName = Some m"
    "m \<noteq> []" "ls' = ls\<lparr>ls_slices := f\<rparr>"
    "\<forall>ns l. (ns, l) \<noteq> (es_namespace sl, [(LabelServiceName, m)]) \<longrightarrow> f ns l = ls_slices ls ns l"
    by (auto simp: caches_change_def)
  have "\<exists>u tgb. ls_binding ls key = Inr (Some (Expected u)) \<and> bo_namespace u = es_namespace sl \<and>
      decodeTargetGroupBinding cv u = Inr tgb \<and> sr_name (ts_service_ref (tgb_spec tgb)) = m"
    by (rule changed_binding_refers [OF assms(2)]) (use assms(3,4) sl(5) in \<open>auto simp: sl(4)\<close>)
  with assms(3) EndpointSliceEvent sl(1-3) show ?thesis
    by (auto simp: on_event_def enqueueTargetGroupBindingsForEndpointSlice_def enqueued_for_service_iff)
next
  case NodeEvent
  with assms(1) obtain nodes where nodes: "ls' = ls\<lparr>ls_nodes := nodes\<rparr>" by (auto simp: caches_change_def)
  have "\<exists>u. ls_binding ls key = Inr (Some (Expected u))"
  proof (rule ccontr)
    assume "\<not> ?thesis"
    with nodes have "tgb_reconcile cv ls' update key w = tgb_reconcile cv ls update key w"
      by (intro tgb_reconcile_agree) auto
    with assms(2) show False ..
  qed
  with assms(3) NodeEvent show ?thesis by (auto simp: on_event_def enqueued_all_iff)
qed

theorem relevant_changes_are_enqueued_witness:
  "''app/web'' \<in> set (fst (on_event ref_converter (\<lambda>_. Inl (Errorf [] [])) (\<lambda>u. Inr (bo_namespace u @ ''/'' @ bo_name u))
     [Expected demo_object] (EndpointSliceEvent (Live (demo_slice [''10.0.0.1''])))))"
proof -
  let ?w = "[((''app'', ''web''), demo_object)]"
  have "caches_change (\<lambda>_. Inl (Errorf [] [])) (demo_listers []) (EndpointSliceEvent (Live (demo_slice [''10.0.0.1''])))
      (demo_listers [''10.0.0.1''])"
    by (auto simp: caches_change_def coerceEndpointSlice_def demo_slice_def demo_listers_def)
  moreover have "map_of (snd (tgb_reconcile ref_converter (demo_listers [''10.0.0.1'']) ref_binding_update ''app/web'' ?w)) (''app'', ''web'') \<noteq>
      map_of (snd (tgb_reconcile ref_converter (demo_listers []) ref_binding_update ''app/web'' ?w)) (''app'', ''web'')"
    by code_simp
  then have "tgb_reconcile ref_converter (demo_listers [''10.0.0.1'']) ref_binding_update ''app/web'' ?w \<noteq>
      tgb_reconcile ref_converter (demo_listers []) ref_binding_update ''app/web'' ?w" by metis
  ultimately show ?thesis
    by (rule relevant_changes_are_enqueued) (auto simp: demo_listers_def demo_object_def demo_web_def split: if_splits)
qed

text \<open>
  The collection at startup deletes exactly the Services that carry fjord's label, the name
  suffix and an owner reference to a \<open>TargetGroupBinding\<close>, whoever else deletes some of them
  meanwhile; every other Service stays as it is, and a second collection finds nothing.
\<close>

theorem only_leftovers_are_collected:
  assumes "leftovers_api c services ok" and "ok w"
  shows "\<exists>log w'. garbageCollectLegacyMirrorServices c w = ((Inr (), log), w') \<and>
    services w' = (\<lambda>k. case services w k of
        None \<Rightarrow> None
      | Some s \<Rightarrow>
          if map_of (svc_labels s) managedByLabelKey = Some managedByLabelValue \<and>
             suffix legacyMirrorServiceSuffix (svc_name s) \<and>
             (\<exists>r \<in> set (svc_owners s). so_kind r = TargetGroupBindingKind \<and>
                so_api_version r = TargetGroupBindingGroup @ ''/'' @ TargetGroupBindingVersion)
          then None else Some s) \<and>
    garbageCollectLegacyMirrorServices c w' = ((Inr (), []), w')"
proof -
  let ?sel = "managedByLabelKey @ ''='' @ managedByLabelValue"
  obtain l where l: "sc_list c ?sel w = (Inr l, w)" "set l = {s. services w (svc_key s) = Some s \<and>
      map_of (svc_labels s) managedByLabelKey = Some managedByLabelValue}"
    using leftovers_api.list_law [OF assms] by blast
  from leftovers_api.delete_legacy_result [OF assms] obtain log w' where w': "delete_legacy c l w = ((Inr (), log), w')"
    "ok w'" "services w' = (\<lambda>k. if k \<in> svc_key ` set (filter isLegacyMirrorService l) then None else services w k)"
    by blast
  let ?left = "\<lambda>s. map_of (svc_labels s) managedByLabelKey = Some managedByLabelValue \<and> isLegacyMirrorService s"
  have left: "services w' k = (case services w k of None \<Rightarrow> None | Some s \<Rightarrow> if ?left s then None else Some s)" for k
  proof (cases "services w k")
    case (Some s)
    then have k: "svc_key s = k" by (rule leftovers_api.keyed [OF assms])
    have "k \<in> svc_key ` set (filter isLegacyMirrorService l) \<longleftrightarrow> ?left s"
    proof
      assume "k \<in> svc_key ` set (filter isLegacyMirrorService l)"
      then obtain t where "k = svc_key t" "t \<in> set l" "isLegacyMirrorService t" by auto
      with l(2) Some show "?left s" by simp
    next
      assume "?left s"
      with l(2) Some k have "s \<in> set (filter isLegacyMirrorService l)" by simp
      with k show "k \<in> svc_key ` set (filter isLegacyMirrorService l)" by blast
    qed
    with Some show ?thesis by (simp add: w'(3))
  qed (simp add: w'(3))
  obtain l' where l': "sc_list c ?sel w' = (Inr l', w')" "set l' = {s. services w' (svc_key s) = Some s \<and>
      map_of (svc_labels s) managedByLabelKey = Some managedByLabelValue}"
    using leftovers_api.list_law [OF assms(1) w'(2)] by blast
  have "\<forall>s \<in> set l'. \<not> isLegacyMirrorService s"
  proof
    fix s assume "s \<in> set l'"
    with l'(2) have s: "services w' (svc_key s) = Some s" "map_of (svc_labels s) managedByLabelKey = Some managedByLabelValue"
      by simp_all
    from s(1) have "\<not> ?left s" unfolding left by (auto split: option.splits if_splits)
    with s(2) show "\<not> isLegacyMirrorService s" by simp
  qed
  then have "delete_legacy c l' w' = ((Inr (), []), w')" by (induction l') simp_all
  with l'(1) have again: "garbageCollectLegacyMirrorServices c w' = ((Inr (), []), w')"
    by (simp add: garbageCollectLegacyMirrorServices_def)
  have once: "garbageCollectLegacyMirrorServices c w = ((Inr (), log), w')"
    using l(1) w'(1) by (simp add: garbageCollectLegacyMirrorServices_def)
  show ?thesis unfolding isLegacyMirrorService_iff [symmetric]
    by (rule exI [of _ log], rule exI [of _ w'], intro conjI) (rule once, rule ext, rule left, rule again)
qed

definition leftover :: "string \<Rightarrow> service" where
  "leftover name = demo_web\<lparr>svc_name := name, svc_labels := [(managedByLabelKey, managedByLabelValue)],
     svc_owners := [\<lparr>so_api_version = ''elbv2.k8s.aws/v1beta1'', so_kind = ''TargetGroupBinding''\<rparr>]\<rparr>"

theorem only_leftovers_are_collected_witness:
  "\<exists>log w'. garbageCollectLegacyMirrorServices ref_service_client
      [((''app'', ''web-fjord-tgb''), leftover ''web-fjord-tgb''), ((''app'', ''web''), demo_web)] = ((Inr (), log), w') \<and>
     map_of w' (''app'', ''web-fjord-tgb'') = None \<and> map_of w' (''app'', ''web'') = Some demo_web"
proof -
  have "service_map_ok [((''app'', ''web-fjord-tgb''), leftover ''web-fjord-tgb''), ((''app'', ''web''), demo_web)]"
    by (simp add: service_map_ok_def map_wf_def svc_key_def leftover_def demo_web_def)
  from only_leftovers_are_collected [OF gc_ref.leftovers_api_axioms, OF this]
  show ?thesis
    by (auto simp: leftover_def demo_web_def legacyMirrorServiceSuffix_def TargetGroupBindingKind_def
        TargetGroupBindingGroup_def TargetGroupBindingVersion_def suffix_def)
qed

end
