(* ===== verification/File_System.thy ===== *)
theory File_System
  imports Go_Path
begin

text \<open>
  The file operations of Go's \<open>os\<close> and \<open>io\<close> packages that the caches use, as a record over
  an arbitrary world, with what is documented of them as a locale: any call may fail, a rename
  either happens or does not, a temporary name is fresh. The files of a world are a map from
  paths; a directory is the paths below it.
\<close>

record fs_file =
  fl_mode :: nat
  fl_data :: "byte list"

type_synonym file_map = "string \<rightharpoonup> fs_file"

text \<open>A path and everything below it.\<close>

definition under :: "string \<Rightarrow> string \<Rightarrow> bool" where
  "under p q \<longleftrightarrow> q = p \<or> prefix (p @ [slash]) q"

definition same_outside :: "string \<Rightarrow> file_map \<Rightarrow> file_map \<Rightarrow> bool" where
  "same_outside p m m' \<longleftrightarrow> (\<forall>q. \<not> under p q \<longrightarrow> m' q = m q)"

text \<open>Moving a path with everything below it.\<close>

definition moved :: "string \<Rightarrow> string \<Rightarrow> file_map \<Rightarrow> file_map" where
  "moved p q m = (\<lambda>x. if under q x then m (p @ drop (length q) x) else if under p x then None else m x)"

text \<open>A reader: the bytes it delivers, and the error it ends with, if not with \<open>io.EOF\<close>.\<close>

record stream =
  sm_data :: "byte list"
  sm_error :: "go_error option"

definition io_EOF :: go_error where
  "io_EOF = Errorf ''EOF'' []"

record 'w fs_ops =
  fs_mkdir_all :: "string \<Rightarrow> 'w \<Rightarrow> (go_error + unit) \<times> 'w"
  fs_mkdir_temp :: "string \<Rightarrow> string \<Rightarrow> 'w \<Rightarrow> (go_error + string) \<times> 'w"
  fs_create_temp :: "string \<Rightarrow> string \<Rightarrow> 'w \<Rightarrow> (go_error + string) \<times> 'w"
  fs_open_trunc :: "string \<Rightarrow> nat \<Rightarrow> 'w \<Rightarrow> (go_error + unit) \<times> 'w"
  fs_write :: "string \<Rightarrow> byte list \<Rightarrow> 'w \<Rightarrow> (go_error + unit) \<times> 'w"
  fs_close :: "string \<Rightarrow> 'w \<Rightarrow> (go_error + unit) \<times> 'w"
  fs_rename :: "string \<Rightarrow> string \<Rightarrow> 'w \<Rightarrow> (go_error + unit) \<times> 'w"
  fs_remove :: "string \<Rightarrow> 'w \<Rightarrow> (go_error + unit) \<times> 'w"
  fs_remove_all :: "string \<Rightarrow> 'w \<Rightarrow> (go_error + unit) \<times> 'w"
  fs_read :: "string \<Rightarrow> 'w \<Rightarrow> (go_error + byte list) \<times> 'w"
  fs_is_regular :: "string \<Rightarrow> 'w \<Rightarrow> (go_error + bool) \<times> 'w"

text \<open>\<open>io.Copy\<close> and \<open>io.CopyN\<close> into an open file.\<close>

definition io_copy :: "'w fs_ops \<Rightarrow> string \<Rightarrow> stream \<Rightarrow> 'w \<Rightarrow> (go_error + unit) \<times> 'w" where
  "io_copy fs p src w =
     (case fs_write fs p (sm_data src) w of
        (Inl e, w1) \<Rightarrow> (Inl e, w1)
      | (Inr _, w1) \<Rightarrow> (case sm_error src of Some e \<Rightarrow> (Inl e, w1) | None \<Rightarrow> (Inr (), w1)))"

definition io_copy_n :: "'w fs_ops \<Rightarrow> string \<Rightarrow> stream \<Rightarrow> nat \<Rightarrow> 'w \<Rightarrow> (go_error + unit) \<times> 'w" where
  "io_copy_n fs p src n w =
     (case fs_write fs p (take n (sm_data src)) w of
        (Inl e, w1) \<Rightarrow> (Inl e, w1)
      | (Inr _, w1) \<Rightarrow>
          if n \<le> length (sm_data src) then (Inr (), w1)
          else (case sm_error src of Some e \<Rightarrow> (Inl e, w1) | None \<Rightarrow> (Inl io_EOF, w1)))"

text \<open>A fresh path of \<open>MkdirTemp\<close> and \<open>CreateTemp\<close>: the star of the pattern is replaced.\<close>

definition temp_path :: "string \<Rightarrow> string \<Rightarrow> file_map \<Rightarrow> string \<Rightarrow> bool" where
  "temp_path dir pattern m p \<longleftrightarrow>
     (\<exists>s. p = dir @ slash # pattern @ s \<and> slash \<notin> set s) \<and> (\<forall>q. under p q \<longrightarrow> m q = None)"

locale file_system =
  fixes fs :: "'w fs_ops"
    and files :: "'w \<Rightarrow> file_map"
  assumes mkdir_all_law: "fs_mkdir_all fs p w = (r, w') \<Longrightarrow> files w' = files w"
    and mkdir_temp_law:
      "fs_mkdir_temp fs dir pat w = (rp, w') \<Longrightarrow>
       files w' = files w \<and> (\<forall>p. rp = Inr p \<longrightarrow> temp_path dir pat (files w) p)"
    and create_temp_law:
      "fs_create_temp fs dir pat w = (rp, w') \<Longrightarrow>
       (case rp of Inl e \<Rightarrow> files w' = files w
        | Inr p \<Rightarrow> temp_path dir pat (files w) p \<and>
            (\<exists>md. files w' = (files w)(p \<mapsto> \<lparr>fl_mode = md, fl_data = []\<rparr>)))"
    and open_law:
      "fs_open_trunc fs p md w = (r, w') \<Longrightarrow>
       files w' = (case r of Inl e \<Rightarrow> files w | Inr _ \<Rightarrow> (files w)(p \<mapsto> \<lparr>fl_mode = md, fl_data = []\<rparr>))"
    and write_law:
      "fs_write fs p bs w = (r, w') \<Longrightarrow> files w p = Some f \<Longrightarrow>
       (\<exists>f'. files w' = (files w)(p \<mapsto> f') \<and> (r = Inr () \<longrightarrow> f' = f\<lparr>fl_data := fl_data f @ bs\<rparr>)) \<and>
       (\<forall>e. r = Inl e \<longrightarrow> \<not> errors_is e io_EOF)"
    and close_law: "fs_close fs p w = (r, w') \<Longrightarrow> files w' = files w"
    and rename_law:
      "fs_rename fs p q w = (r, w') \<Longrightarrow> \<not> under p q \<Longrightarrow> \<not> under q p \<Longrightarrow>
       files w' = (case r of Inl e \<Rightarrow> files w | Inr _ \<Rightarrow> moved p q (files w))"
    and remove_law:
      "fs_remove fs p w = (r, w') \<Longrightarrow>
       files w' = (case r of Inl e \<Rightarrow> files w | Inr _ \<Rightarrow> (files w)(p := None))"
    and remove_all_law:
      "fs_remove_all fs p w = (r, w') \<Longrightarrow>
       same_outside p (files w) (files w') \<and> (\<forall>q. files w' q = files w q \<or> files w' q = None) \<and>
       (r = Inr () \<longrightarrow> (\<forall>q. under p q \<longrightarrow> files w' q = None))"
    and read_law:
      "fs_read fs p w = (rb, w') \<Longrightarrow>
       files w' = files w \<and> (\<forall>bs. rb = Inr bs \<longrightarrow> (\<exists>f. files w p = Some f \<and> fl_data f = bs))"
    and is_regular_law:
      "fs_is_regular fs p w = (rr, w') \<Longrightarrow> files w' = files w \<and> (rr = Inr True \<longrightarrow> files w p \<noteq> None)"

section \<open>Facts about paths\<close>

lemma under_refl [simp]: "under p p"
  by (simp add: under_def)

lemma under_child [simp]: "under p (p @ slash # x)"
  by (simp add: under_def prefix_def)

lemma under_parts: "under p x \<Longrightarrow> p @ drop (length p) x = x"
  by (auto simp: under_def prefix_def)

text \<open>Distinct entries of one directory do not lie inside each other.\<close>

lemma siblings_apart:
  assumes "slash \<notin> set a" and "slash \<notin> set b" and "a \<noteq> b"
  shows "\<not> under (d @ slash # a) (d @ slash # b)"
proof
  assume "under (d @ slash # a) (d @ slash # b)"
  with assms(3) obtain r where "b = a @ slash # r" by (auto simp: under_def prefix_def)
  with assms(2) show False by simp
qed

lemma under_prefix_cases:
  "under (d @ slash # a) (d @ slash # b) \<longleftrightarrow> b = a \<or> prefix (a @ [slash]) b"
  by (auto simp: under_def prefix_def)

lemma not_under_parent: "\<not> under (d @ slash # a) d"
  by (auto simp: under_def prefix_def dest: arg_cong [where f = length])

lemma under_iff: "under p q \<longleftrightarrow> (\<exists>r. q = p @ r \<and> (r = [] \<or> hd r = slash))"
proof
  assume "\<exists>r. q = p @ r \<and> (r = [] \<or> hd r = slash)"
  then obtain r where "q = p @ r" "r = [] \<or> hd r = slash" by blast
  then show "under p q" by (cases r) (auto simp: under_def prefix_def)
qed (auto simp: under_def prefix_def)

text \<open>Of two paths above the same one, one is above the other.\<close>

lemma under_comparable:
  assumes "under p q" and "under p' q" shows "under p p' \<or> under p' p"
proof -
  have below: "under a b" if "under a q" "under b q" "prefix a b" for a b
  proof -
    from that(1) obtain r where r: "q = a @ r" "r = [] \<or> hd r = slash" unfolding under_iff by blast
    from that(3) obtain t where t: "b = a @ t" by (auto simp: prefix_def)
    from that(2) obtain r' where "q = b @ r'" unfolding under_iff by blast
    with r t have "r = t @ r'" by simp
    with r(2) have "t = [] \<or> hd t = slash" by (cases t) auto
    with t show ?thesis unfolding under_iff by blast
  qed
  have pre: "prefix a q" if "under a q" for a using that unfolding under_iff prefix_def by blast
  have "prefix p p' \<or> prefix p' p" using prefix_same_cases [OF pre [OF assms(1)] pre [OF assms(2)]] by blast
  with below assms show ?thesis by blast
qed

lemma same_outside_refl [simp]: "same_outside p m m"
  by (simp add: same_outside_def)

lemma same_outside_trans: "same_outside p m1 m2 \<Longrightarrow> same_outside p m2 m3 \<Longrightarrow> same_outside p m1 m3"
  by (simp add: same_outside_def)

lemma same_outside_upd: "under p q \<Longrightarrow> same_outside p m (m(q := f))"
  by (auto simp: same_outside_def)

lemma under_trans: "under p q \<Longrightarrow> under q r \<Longrightarrow> under p r"
  by (auto simp: under_def prefix_def)

section \<open>A reference file system\<close>

text \<open>
  Files as an association list, and a schedule of faults: every call uses up one entry and
  fails, changing nothing, if it is true.
\<close>

type_synonym disk = "bool list \<times> (string \<times> fs_file) list"

definition disk_fault :: go_error where
  "disk_fault = Errorf ''i/o error'' []"

definition faulty :: "((string \<times> fs_file) list \<Rightarrow> (go_error + 'a) \<times> (string \<times> fs_file) list) \<Rightarrow> disk \<Rightarrow> (go_error + 'a) \<times> disk" where
  "faulty op w =
     (if fst w \<noteq> [] \<and> hd (fst w) then (Inl disk_fault, (tl (fst w), snd w))
      else (case op (snd w) of (r, m) \<Rightarrow> (r, (tl (fst w), m))))"

definition fresh_path :: "string \<Rightarrow> string \<Rightarrow> (string \<times> fs_file) list \<Rightarrow> string" where
  "fresh_path dir pat m = dir @ slash # pat @ replicate (sum_list (map (length \<circ> fst) m)) (CHR ''0'')"

definition ref_fs :: "disk fs_ops" where
  "ref_fs =
     \<lparr>fs_mkdir_all = (\<lambda>p. faulty (\<lambda>m. (Inr (), m))),
      fs_mkdir_temp = (\<lambda>dir pat. faulty (\<lambda>m. (Inr (fresh_path dir pat m), m))),
      fs_create_temp = (\<lambda>dir pat. faulty (\<lambda>m.
        (Inr (fresh_path dir pat m), map_set (fresh_path dir pat m) \<lparr>fl_mode = 384, fl_data = []\<rparr> m))),
      fs_open_trunc = (\<lambda>p md. faulty (\<lambda>m. (Inr (), map_set p \<lparr>fl_mode = md, fl_data = []\<rparr> m))),
      fs_write = (\<lambda>p bs. faulty (\<lambda>m. case map_of m p of
          None \<Rightarrow> (Inl disk_fault, m) | Some f \<Rightarrow> (Inr (), map_set p (f\<lparr>fl_data := fl_data f @ bs\<rparr>) m))),
      fs_close = (\<lambda>p. faulty (\<lambda>m. (Inr (), m))),
      fs_rename = (\<lambda>p q. faulty (\<lambda>m.
        (Inr (), map (\<lambda>(x, f). (q @ drop (length p) x, f)) (filter (\<lambda>(x, f). under p x) m) @
                 filter (\<lambda>(x, f). \<not> under p x \<and> \<not> under q x) m))),
      fs_remove = (\<lambda>p. faulty (\<lambda>m. (Inr (), map_delete p m))),
      fs_remove_all = (\<lambda>p. faulty (\<lambda>m. (Inr (), filter (\<lambda>(x, f). \<not> under p x) m))),
      fs_read = (\<lambda>p. faulty (\<lambda>m. (case map_of m p of None \<Rightarrow> Inl disk_fault | Some f \<Rightarrow> Inr (fl_data f), m))),
      fs_is_regular = (\<lambda>p. faulty (\<lambda>m. (case map_of m p of None \<Rightarrow> Inl disk_fault | Some f \<Rightarrow> Inr True, m)))\<rparr>"

lemma map_of_filter_keys: "map_of (filter (\<lambda>(x, f). P x) m) k = (if P k then map_of m k else None)"
  by (induction m) auto

lemma map_of_renamed:
  "map_of (map (\<lambda>(x, f). (q @ drop (length p) x, f)) (filter (\<lambda>(x, f). under p x) m)) k =
     (if under q k then map_of m (p @ drop (length q) k) else None)"
proof (induction m)
  case (Cons e m)
  obtain x f where e: "e = (x, f)" by (cases e)
  have "q @ drop (length p) x = k \<longleftrightarrow> under q k \<and> x = p @ drop (length q) k" if "under p x"
    using that by (auto simp: under_def prefix_def)
  moreover have "under p (p @ drop (length q) k)" if "under q k"
    using that by (auto simp: under_def prefix_def)
  ultimately show ?case using Cons.IH e by auto
qed simp

lemma faulty_Inr:
  "faulty op w = (Inr v, w') \<Longrightarrow> \<exists>m. op (snd w) = (Inr v, m) \<and> snd w' = m"
  by (auto simp: faulty_def split: if_splits prod.splits)

lemma faulty_Inl:
  "faulty op w = (Inl e, w') \<Longrightarrow> snd w' = snd w \<or> (\<exists>m. op (snd w) = (Inl e, m) \<and> snd w' = m)"
  by (auto simp: faulty_def split: if_splits prod.splits)

lemma fresh_path_free: "under (fresh_path dir pat m) q \<Longrightarrow> map_of m q = None"
proof (rule ccontr)
  assume u: "under (fresh_path dir pat m) q" and "map_of m q \<noteq> None"
  then obtain f where "(q, f) \<in> set m" by (auto dest: map_of_SomeD)
  then have "length q \<le> sum_list (map (length \<circ> fst) m)"
    by (intro member_le_sum_list) (force, simp)
  moreover have "sum_list (map (length \<circ> fst) m) < length (fresh_path dir pat m)" by (simp add: fresh_path_def)
  moreover have "length (fresh_path dir pat m) \<le> length q"
    using u by (auto simp: under_def prefix_def)
  ultimately show False by simp
qed

lemma fresh_path_temp: "temp_path dir pat (map_of m) (fresh_path dir pat m)"
  unfolding temp_path_def
proof
  show "\<exists>s. fresh_path dir pat m = dir @ slash # pat @ s \<and> slash \<notin> set s"
    unfolding fresh_path_def by (rule exI, rule conjI, rule refl) simp
qed (simp add: fresh_path_free)

interpretation disk: file_system ref_fs "\<lambda>w. map_of (snd w)"
proof
  fix p q :: string and w w' :: disk and r :: "go_error + unit" and f md bs
  show "fs_mkdir_all ref_fs p w = (r, w') \<Longrightarrow> map_of (snd w') = map_of (snd w)"
    by (auto simp: ref_fs_def faulty_def split: if_splits)
  show "fs_open_trunc ref_fs p md w = (r, w') \<Longrightarrow>
      map_of (snd w') = (case r of Inl e \<Rightarrow> map_of (snd w) | Inr _ \<Rightarrow> (map_of (snd w))(p \<mapsto> \<lparr>fl_mode = md, fl_data = []\<rparr>))"
    by (auto simp: ref_fs_def faulty_def split: if_splits)
  show "fs_write ref_fs p bs w = (r, w') \<Longrightarrow> map_of (snd w) p = Some f \<Longrightarrow>
      (\<exists>f'. map_of (snd w') = (map_of (snd w))(p \<mapsto> f') \<and> (r = Inr () \<longrightarrow> f' = f\<lparr>fl_data := fl_data f @ bs\<rparr>)) \<and>
      (\<forall>e. r = Inl e \<longrightarrow> \<not> errors_is e io_EOF)"
    by (auto simp: ref_fs_def faulty_def map_upd_triv disk_fault_def io_EOF_def split: if_splits intro: exI [of _ f])
  show "fs_close ref_fs p w = (r, w') \<Longrightarrow> map_of (snd w') = map_of (snd w)"
    by (auto simp: ref_fs_def faulty_def split: if_splits)
  show "fs_rename ref_fs p q w = (r, w') \<Longrightarrow>
      map_of (snd w') = (case r of Inl e \<Rightarrow> map_of (snd w) | Inr _ \<Rightarrow> moved p q (map_of (snd w)))"
    if "\<not> under p q"
  proof (cases r)
    case (Inr u)
    assume "fs_rename ref_fs p q w = (r, w')"
    then have w': "snd w' = map (\<lambda>(x, f). (q @ drop (length p) x, f)) (filter (\<lambda>(x, f). under p x) (snd w)) @
        filter (\<lambda>(x, f). \<not> under p x \<and> \<not> under q x) (snd w)"
      using Inr by (auto simp: ref_fs_def faulty_def split: if_splits)
    show ?thesis
    proof (simp add: Inr, rule ext)
      fix k
      show "map_of (snd w') k = moved p q (map_of (snd w)) k"
        unfolding w' map_of_append map_add_def map_of_filter_keys map_of_renamed
        by (auto simp: moved_def split: option.splits)
    qed
  qed (auto simp: ref_fs_def faulty_def split: if_splits)
  show "fs_remove ref_fs p w = (r, w') \<Longrightarrow>
      map_of (snd w') = (case r of Inl e \<Rightarrow> map_of (snd w) | Inr _ \<Rightarrow> (map_of (snd w))(p := None))"
    by (auto simp: ref_fs_def faulty_def split: if_splits)
  show "fs_remove_all ref_fs p w = (r, w') \<Longrightarrow>
      same_outside p (map_of (snd w)) (map_of (snd w')) \<and>
      (\<forall>q. map_of (snd w') q = map_of (snd w) q \<or> map_of (snd w') q = None) \<and>
      (r = Inr () \<longrightarrow> (\<forall>q. under p q \<longrightarrow> map_of (snd w') q = None))"
    by (auto simp: ref_fs_def faulty_def same_outside_def map_of_filter_keys split: if_splits)
next
  fix dir pat and w w' :: disk and rp
  show "fs_mkdir_temp ref_fs dir pat w = (rp, w') \<Longrightarrow>
      map_of (snd w') = map_of (snd w) \<and> (\<forall>p. rp = Inr p \<longrightarrow> temp_path dir pat (map_of (snd w)) p)"
    by (auto simp: ref_fs_def faulty_def fresh_path_temp split: if_splits)
  show "fs_create_temp ref_fs dir pat w = (rp, w') \<Longrightarrow>
      (case rp of Inl e \<Rightarrow> map_of (snd w') = map_of (snd w)
       | Inr p \<Rightarrow> temp_path dir pat (map_of (snd w)) p \<and>
          (\<exists>md. map_of (snd w') = (map_of (snd w))(p \<mapsto> \<lparr>fl_mode = md, fl_data = []\<rparr>)))"
    by (auto simp: ref_fs_def faulty_def fresh_path_temp split: if_splits)
next
  fix p and w w' :: disk and rb
  show "fs_read ref_fs p w = (rb, w') \<Longrightarrow> map_of (snd w') = map_of (snd w) \<and>
      (\<forall>bs. rb = Inr bs \<longrightarrow> (\<exists>f. map_of (snd w) p = Some f \<and> fl_data f = bs))"
    by (auto simp: ref_fs_def faulty_def split: if_splits option.splits)
next
  fix p and w w' :: disk and rr
  show "fs_is_regular ref_fs p w = (rr, w') \<Longrightarrow> map_of (snd w') = map_of (snd w) \<and>
      (rr = Inr True \<longrightarrow> map_of (snd w) p \<noteq> None)"
    by (auto simp: ref_fs_def faulty_def split: if_splits option.splits)
qed

end
