(* ===== verification/Eksd_Release.thy ===== *)
theory Eksd_Release
  imports Prelude "HOL-Library.Signed_Division"
begin

text \<open>
  The releases of EKS Distro (\<open>internal/eksd/fetch.go\<close>, \<open>types.go\<close>): the manifest of one
  release, what is read from it, and the search for the latest release of a channel, which
  probes manifest URLs. The HTTP client and the YAML parser are parameters; Go's \<open>int\<close> is
  modelled with its wrap-around at 64 bits.
\<close>

section \<open>Manifests and releases\<close>

record archive =
  ar_uri :: string
  ar_sha256 :: string

record image =
  im_uri :: string

record asset =
  as_name :: string
  as_archive :: "archive option"
  as_image :: "image option"

record component =
  co_name :: string
  co_git_tag :: string
  co_assets :: "asset list"

record manifest =
  mf_number :: int
  mf_components :: "component list"

record Asset =
  a_uri :: string
  a_sha256 :: string

record Release =
  r_eks_version :: string
  r_channel :: string
  r_number :: int
  r_kube_version :: string
  r_server_tarball :: "(string, Asset) go_map"
  r_coredns_image :: string
  r_kube_proxy_image :: string

definition tarball_prefix :: string where
  "tarball_prefix = ''kubernetes-server-linux-''"

definition tarball_suffix :: string where
  "tarball_suffix = ''.tar.gz''"

text \<open>\<open>TrimSuffix\<close> after \<open>TrimPrefix\<close>: the rest loses its suffix only if it has it.\<close>

definition trim_suffix :: "string \<Rightarrow> string \<Rightarrow> string" where
  "trim_suffix suf s = (if suffix suf s then take (length s - length suf) s else s)"

definition serverTarballArch :: "string \<Rightarrow> string option" where
  "serverTarballArch name =
     (if \<not> prefix tarball_prefix name \<or> \<not> suffix tarball_suffix name then None
      else Some (trim_suffix tarball_suffix (drop (length tarball_prefix) name)))"

fun firstImageURI :: "asset list \<Rightarrow> string option" where
  "firstImageURI [] = None"
| "firstImageURI (a # as) = (case as_image a of Some i \<Rightarrow> Some (im_uri i) | None \<Rightarrow> firstImageURI as)"

fun add_tarballs :: "asset list \<Rightarrow> (string, Asset) go_map \<Rightarrow> (string, Asset) go_map" where
  "add_tarballs [] m = m"
| "add_tarballs (a # as) m =
     (case serverTarballArch (as_name a) of
        None \<Rightarrow> add_tarballs as m
      | Some arch \<Rightarrow>
          (case as_archive a of
             None \<Rightarrow> add_tarballs as m
           | Some ar \<Rightarrow>
               add_tarballs as (map_set arch \<lparr>a_uri = ar_uri ar, a_sha256 = ar_sha256 ar\<rparr> m)))"

definition read_component :: "component \<Rightarrow> Release \<Rightarrow> Release" where
  "read_component c r =
     (if co_name c = ''kubernetes''
      then r\<lparr>r_kube_version := co_git_tag c, r_server_tarball := add_tarballs (co_assets c) (r_server_tarball r)\<rparr>
      else if co_name c = ''coredns''
      then (case firstImageURI (co_assets c) of Some uri \<Rightarrow> r\<lparr>r_coredns_image := uri\<rparr> | None \<Rightarrow> r)
      else if co_name c = ''kube-proxy''
      then (case firstImageURI (co_assets c) of Some uri \<Rightarrow> r\<lparr>r_kube_proxy_image := uri\<rparr> | None \<Rightarrow> r)
      else r)"

definition validate :: "Release \<Rightarrow> go_error + unit" where
  "validate r =
     (if r_kube_version r = [] then Inl (Errorf ''kubernetes component not found'' [])
      else if length (r_server_tarball r) = 0 then Inl (Errorf ''kubernetes-server tarball assets not found'' [])
      else if r_coredns_image r = [] then Inl (Errorf ''coredns image not found'' [])
      else if r_kube_proxy_image r = [] then Inl (Errorf ''kube-proxy image not found'' [])
      else Inr ())"

definition extractRelease :: "manifest \<Rightarrow> string \<Rightarrow> go_error + Release" where
  "extractRelease m channel =
     (let r0 = \<lparr>r_eks_version = map (\<lambda>c. if c = CHR ''-'' then CHR ''.'' else c) channel,
                r_channel = channel, r_number = mf_number m, r_kube_version = [], r_server_tarball = [],
                r_coredns_image = [], r_kube_proxy_image = []\<rparr>;
          release = fold read_component (mf_components m) r0
      in case validate release of
           Inl e \<Rightarrow>
             Inl (Wrapf ''extracting release for channel %s number %d: %w''
               [channel, string_of_int (mf_number m)] e)
         | Inr _ \<Rightarrow> Inr release)"

definition manifestURL :: "string \<Rightarrow> string \<Rightarrow> int \<Rightarrow> string" where
  "manifestURL baseURL channel number =
     baseURL @ ''/kubernetes-'' @ channel @ ''/kubernetes-'' @ channel @ ''-eks-'' @ string_of_int number @ ''.yaml''"

section \<open>The HTTP client\<close>

text \<open>
  Building a request may fail (a malformed URL); performing it fails or gives a status and a
  body; \<open>Fetch\<close> reads the whole body, which may fail.
\<close>

record ('r, 'w) http_client =
  hc_build :: "string \<Rightarrow> string \<Rightarrow> go_error + unit"
  hc_do :: "string \<Rightarrow> string \<Rightarrow> 'w \<Rightarrow> (go_error + (nat \<times> 'r)) \<times> 'w"

definition Fetch ::
  "(go_error + 'b, 'w) http_client \<Rightarrow> ('b \<Rightarrow> go_error + manifest) \<Rightarrow> string \<Rightarrow> string \<Rightarrow> int \<Rightarrow> 'w
   \<Rightarrow> (go_error + Release) \<times> 'w" where
  "Fetch hc parse baseURL channel number w =
     (let url = manifestURL baseURL channel number in
      case hc_build hc ''GET'' url of
        Inl e \<Rightarrow> (Inl (Wrapf ''building request for %s: %w'' [url] e), w)
      | Inr _ \<Rightarrow>
          (case hc_do hc ''GET'' url w of
             (Inl e, w1) \<Rightarrow> (Inl (Wrapf ''fetching manifest %s: %w'' [url] e), w1)
           | (Inr (status, body), w1) \<Rightarrow>
               if status \<noteq> 200
               then (Inl (Errorf ''unexpected status %d fetching manifest %s'' [string_of_nat status, url]), w1)
               else
                 (case body of
                    Inl e \<Rightarrow> (Inl (Wrapf ''reading manifest body %s: %w'' [url] e), w1)
                  | Inr b \<Rightarrow>
                      (case parse b of
                         Inl e \<Rightarrow> (Inl (Wrapf ''parsing manifest %s: %w'' [url] e), w1)
                       | Inr m \<Rightarrow> (extractRelease m channel, w1)))))"

definition manifestExists ::
  "('r, 'w) http_client \<Rightarrow> string \<Rightarrow> string \<Rightarrow> int \<Rightarrow> 'w \<Rightarrow> (go_error + bool) \<times> 'w" where
  "manifestExists hc baseURL channel number w =
     (let url = manifestURL baseURL channel number in
      case hc_build hc ''HEAD'' url of
        Inl e \<Rightarrow> (Inl (Wrapf ''building request for %s: %w'' [url] e), w)
      | Inr _ \<Rightarrow>
          (case hc_do hc ''HEAD'' url w of
             (Inl e, w1) \<Rightarrow> (Inl (Wrapf ''probing manifest %s: %w'' [url] e), w1)
           | (Inr (status, _), w1) \<Rightarrow> (Inr (status = 200), w1)))"

section \<open>The search for the latest release\<close>

text \<open>The doubling loop and the bisection, as far as they return (\<open>None\<close>: they do not).\<close>

partial_function (option) double_until_missing ::
  "(int \<Rightarrow> 'w \<Rightarrow> (go_error + bool) \<times> 'w) \<Rightarrow> int \<Rightarrow> int \<Rightarrow> 'w \<Rightarrow> ((go_error + (int \<times> int)) \<times> 'w) option" where
  "double_until_missing exists low high w =
     (case exists high w of
        (Inl e, w1) \<Rightarrow> Some (Inl e, w1)
      | (Inr found, w1) \<Rightarrow>
          if \<not> found then Some (Inr (low, high), w1)
          else double_until_missing exists high (int64 (high * 2)) w1)"

partial_function (option) bisect ::
  "(int \<Rightarrow> 'w \<Rightarrow> (go_error + bool) \<times> 'w) \<Rightarrow> int \<Rightarrow> int \<Rightarrow> 'w \<Rightarrow> ((go_error + int) \<times> 'w) option" where
  "bisect exists low high w =
     (if \<not> int64 (low + 1) < high then Some (Inr low, w)
      else
        (let mid = int64 (low + high) sdiv 2
         in case exists mid w of
              (Inl e, w1) \<Rightarrow> Some (Inl e, w1)
            | (Inr found, w1) \<Rightarrow>
                if found then bisect exists mid high w1 else bisect exists low mid w1))"

definition LatestNumber ::
  "('r, 'w) http_client \<Rightarrow> string \<Rightarrow> string \<Rightarrow> 'w \<Rightarrow> ((go_error + int) \<times> 'w) option" where
  "LatestNumber hc baseURL channel w =
     (case manifestExists hc baseURL channel 1 w of
        (Inl e, w1) \<Rightarrow> Some (Inl e, w1)
      | (Inr found, w1) \<Rightarrow>
          if \<not> found then Some (Inl (Errorf ''no eks-d release found for channel %s'' [channel]), w1)
          else
            (case double_until_missing (manifestExists hc baseURL channel) 1 2 w1 of
               None \<Rightarrow> None
             | Some (Inl e, w2) \<Rightarrow> Some (Inl e, w2)
             | Some (Inr (low, high), w2) \<Rightarrow> bisect (manifestExists hc baseURL channel) low high w2))"

section \<open>A server of manifests\<close>

text \<open>
  The bucket while it does not change: every probe is answered, with a status that depends on
  the URL alone; \<open>reqs\<close> counts the probes.
\<close>

locale manifest_server =
  fixes hc :: "('r, 'w) http_client"
    and status :: "string \<Rightarrow> nat"
    and reqs :: "'w \<Rightarrow> nat"
  assumes build_law: "hc_build hc ''HEAD'' url = Inr ()"
    and head_law: "\<exists>body w'. hc_do hc ''HEAD'' url w = (Inr (status url, body), w') \<and> reqs w' = Suc (reqs w)"
begin

lemma probe:
  "\<exists>w'. manifestExists hc base channel k w = (Inr (status (manifestURL base channel k) = 200), w') \<and>
     reqs w' = Suc (reqs w)"
proof -
  obtain body w' where "hc_do hc ''HEAD'' (manifestURL base channel k) w =
      (Inr (status (manifestURL base channel k), body), w')" "reqs w' = Suc (reqs w)"
    using head_law by blast
  then show ?thesis by (simp add: manifestExists_def build_law)
qed

lemma int_powers: "(2::int) ^ 61 = 2305843009213693952" "(2::int) ^ 62 = 4611686018427387904"
  "(2::int) ^ 63 = 9223372036854775808"
  by simp_all

lemma double_sdiv: "0 \<le> (y::int) \<Longrightarrow> (2 * y) sdiv 2 = y"
  by (cases "y = 0") (simp_all add: signed_divide_int_def)

lemma half_range:
  assumes "(1::int) \<le> l" and "1 \<le> x" and "l + 2 * x \<le> 2 ^ 62"
  shows "int64 (l + 1) = l + 1" and "int64 (l + (l + 2 * x)) = 2 * (l + x)"
proof -
  have "l + (l + 2 * x) = 2 * (l + x)" by simp
  then show "int64 (l + (l + 2 * x)) = 2 * (l + x)" using assms by (subst int64_id) simp_all
  show "int64 (l + 1) = l + 1" using assms by (intro int64_id) simp_all
qed

text \<open>Doubling from \<open>2 ^ j\<close> stops at the first power of two that is missing.\<close>

lemma doubling_stops:
  fixes base channel
  defines "P \<equiv> \<lambda>k. status (manifestURL base channel k) = 200"
  assumes "P (2 ^ j)" and "\<not> P (2 ^ k)" and "j < k" and "k \<le> 62"
  shows "\<exists>i w'. double_until_missing (manifestExists hc base channel) (2 ^ j) (2 ^ Suc j) w =
      Some (Inr (2 ^ i, 2 ^ Suc i), w') \<and> i < k \<and> P (2 ^ i) \<and> \<not> P (2 ^ Suc i) \<and>
      reqs w' + j = reqs w + Suc i"
  using assms(2-4)
proof (induction "k - j" arbitrary: j w)
  case (Suc d)
  obtain w1 where w1: "manifestExists hc base channel (2 ^ Suc j) w = (Inr (P (2 ^ Suc j)), w1)"
    "reqs w1 = Suc (reqs w)" unfolding P_def using probe by blast
  show ?case
  proof (cases "P (2 ^ Suc j)")
    case False
    then show ?thesis
      using w1 Suc.prems
      by (subst double_until_missing.simps, intro exI [of _ j] exI [of _ w1]) (simp del: power_Suc)
  next
    case True
    with Suc.prems have "Suc j < k" using Suc_lessI by blast
    with Suc.hyps(1) [of "Suc j" w1] Suc.hyps(2) True Suc.prems(2) obtain i w' where
      i: "double_until_missing (manifestExists hc base channel) (2 ^ Suc j) (2 ^ Suc (Suc j)) w1 =
        Some (Inr (2 ^ i, 2 ^ Suc i), w')" "i < k" "P (2 ^ i)" "\<not> P (2 ^ Suc i)"
      "reqs w' + Suc j = reqs w1 + Suc i" by fastforce
    have "(2::int) ^ Suc j \<le> 2 ^ 61" using \<open>Suc j < k\<close> assms(5) by (intro power_increasing) auto
    moreover have "(0::int) \<le> 2 ^ Suc j" by (rule zero_le_power) simp
    ultimately have "int64 (2 ^ Suc j * 2) = 2 ^ Suc j * 2" by (intro int64_id) (unfold int_powers, linarith+)
    then have "int64 (2 ^ Suc j * 2) = 2 ^ Suc (Suc j)" by simp
    with i w1 True show ?thesis
      by (subst double_until_missing.simps, intro exI [of _ i] exI [of _ w']) (simp del: power_Suc)
  qed
qed simp

text \<open>Bisecting an interval of length \<open>2 ^ d\<close> takes \<open>d\<close> probes.\<close>

lemma bisect_finds:
  fixes base channel
  defines "P \<equiv> \<lambda>k. status (manifestURL base channel k) = 200"
  assumes "1 \<le> l" and "P l" and "\<not> P (l + 2 ^ d)" and "l + 2 ^ d \<le> 2 ^ 62"
  shows "\<exists>r w'. bisect (manifestExists hc base channel) l (l + 2 ^ d) w = Some (Inr r, w') \<and>
      l \<le> r \<and> r < l + 2 ^ d \<and> P r \<and> \<not> P (r + 1) \<and> reqs w' = reqs w + d"
  using assms(2-5)
proof (induction d arbitrary: l w)
  case 0
  then have "int64 (l + 1) = l + 1" by (intro int64_id) auto
  with 0 show ?case by (subst bisect.simps) simp
next
  case (Suc d)
  have pos: "(1::int) \<le> 2 ^ d" by simp
  have "l + 2 * 2 ^ d \<le> 2 ^ 62" using Suc.prems(4) by simp
  note id = half_range [OF Suc.prems(1) pos this, folded power_Suc]
  have mid: "int64 (l + (l + 2 ^ Suc d)) sdiv 2 = l + 2 ^ d"
    unfolding id(2) using Suc.prems(1) pos by (intro double_sdiv) linarith
  obtain w1 where w1: "manifestExists hc base channel (l + 2 ^ d) w = (Inr (P (l + 2 ^ d)), w1)"
    "reqs w1 = Suc (reqs w)" unfolding P_def using probe by blast
  have go: "l + 1 < l + 2 ^ Suc d" unfolding power_Suc using pos by linarith
  show ?case
  proof (cases "P (l + 2 ^ d)")
    case True
    have "l + 2 ^ d + 2 ^ d = l + 2 ^ Suc d" by simp
    with Suc.IH [of "l + 2 ^ d" w1] True Suc.prems pos obtain r w' where
      "bisect (manifestExists hc base channel) (l + 2 ^ d) (l + 2 ^ Suc d) w1 = Some (Inr r, w')"
      "l + 2 ^ d \<le> r" "r < l + 2 ^ Suc d" "P r" "\<not> P (r + 1)" "reqs w' = reqs w1 + d" by auto
    with True w1 mid id(1) go pos show ?thesis by (subst bisect.simps) simp
  next
    case False
    have "l + 2 ^ d \<le> 2 ^ 62" using Suc.prems(4) pos unfolding power_Suc by linarith
    from Suc.IH [OF Suc.prems(1,2) False this, of w1] obtain r w' where
      "bisect (manifestExists hc base channel) l (l + 2 ^ d) w1 = Some (Inr r, w')"
      "l \<le> r" "r < l + 2 ^ d" "P r" "\<not> P (r + 1)" "reqs w' = reqs w1 + d" by auto
    moreover from this have "r < l + 2 ^ Suc d" unfolding power_Suc using pos by linarith
    ultimately show ?thesis using False w1 mid id(1) go by (subst bisect.simps) simp
  qed
qed

end

text \<open>A reference bucket that publishes the given URLs; its world counts the probes.\<close>

definition ref_bucket :: "string list \<Rightarrow> (unit, nat) http_client" where
  "ref_bucket urls =
     \<lparr>hc_build = (\<lambda>m url. Inr ()),
      hc_do = (\<lambda>m url w. (Inr (if url \<in> set urls then 200 else 404, ()), Suc w))\<rparr>"

interpretation bucket: manifest_server "ref_bucket urls" "\<lambda>url. if url \<in> set urls then 200 else 404" "\<lambda>w. w"
  for urls
  by unfold_locales (simp_all add: ref_bucket_def)

section \<open>What a release is read from\<close>

lemma serverTarballArch_iff:
  "serverTarballArch name = Some arch \<longleftrightarrow> name = tarball_prefix @ arch @ tarball_suffix"
proof
  assume "name = tarball_prefix @ arch @ tarball_suffix"
  then show "serverTarballArch name = Some arch"
    by (simp add: serverTarballArch_def trim_suffix_def suffix_appendI)
next
  assume h: "serverTarballArch name = Some arch"
  then obtain rest where name: "name = tarball_prefix @ rest"
    by (auto simp: serverTarballArch_def prefix_def split: if_splits)
  have "suffix tarball_suffix rest"
  proof (rule ccontr)
    assume "\<not> suffix tarball_suffix rest"
    moreover have "suffix tarball_suffix (tarball_prefix @ rest)"
      using h name by (auto simp: serverTarballArch_def split: if_splits)
    ultimately obtain s where s: "tarball_suffix = s @ rest" "suffix s tarball_prefix"
      by (auto simp: suffix_append)
    moreover from s \<open>\<not> suffix tarball_suffix rest\<close> have "s \<noteq> []" by auto
    ultimately have "hd tarball_suffix \<in> set tarball_prefix" by (metis hd_append2 hd_in_set set_mono_suffix subsetD)
    then show False by (simp add: tarball_suffix_def tarball_prefix_def)
  qed
  with h name show "name = tarball_prefix @ arch @ tarball_suffix"
    by (auto simp: serverTarballArch_def trim_suffix_def suffix_def split: if_splits)
qed

text \<open>An asset of the components that is the tarball of an architecture.\<close>

definition published_tarball :: "component list \<Rightarrow> string \<Rightarrow> Asset \<Rightarrow> bool" where
  "published_tarball cs arch t \<longleftrightarrow>
     (\<exists>c \<in> set cs. co_name c = ''kubernetes'' \<and>
        (\<exists>a \<in> set (co_assets c). as_name a = tarball_prefix @ arch @ tarball_suffix \<and>
           as_archive a = Some \<lparr>ar_uri = a_uri t, ar_sha256 = a_sha256 t\<rparr>))"

lemma add_tarballs_from:
  "map_of (add_tarballs as m) arch = Some t \<Longrightarrow>
   map_of m arch = Some t \<or>
   (\<exists>a \<in> set as. as_name a = tarball_prefix @ arch @ tarball_suffix \<and>
      as_archive a = Some \<lparr>ar_uri = a_uri t, ar_sha256 = a_sha256 t\<rparr>)"
proof (induction "as" arbitrary: m)
  case (Cons a "as")
  show ?case
  proof (cases "serverTarballArch (as_name a)")
    case None
    with Cons show ?thesis by auto
  next
    case (Some ar)
    then have name: "as_name a = tarball_prefix @ ar @ tarball_suffix" by (simp add: serverTarballArch_iff)
    with Some Cons.prems Cons.IH show ?thesis
      by (cases "as_archive a") (fastforce split: if_splits)+
  qed
qed simp

lemma add_tarballs_wf: "map_wf m \<Longrightarrow> map_wf (add_tarballs as m)"
  by (induction "as" arbitrary: m) (auto split: option.splits)

definition release_from :: "component list \<Rightarrow> Release \<Rightarrow> bool" where
  "release_from cs r \<longleftrightarrow>
     map_wf (r_server_tarball r) \<and>
     (\<forall>arch t. map_of (r_server_tarball r) arch = Some t \<longrightarrow> published_tarball cs arch t) \<and>
     (r_kube_version r \<noteq> [] \<longrightarrow> (\<exists>c \<in> set cs. co_name c = ''kubernetes'' \<and> r_kube_version r = co_git_tag c)) \<and>
     (r_coredns_image r \<noteq> [] \<longrightarrow>
        (\<exists>c \<in> set cs. co_name c = ''coredns'' \<and> firstImageURI (co_assets c) = Some (r_coredns_image r))) \<and>
     (r_kube_proxy_image r \<noteq> [] \<longrightarrow>
        (\<exists>c \<in> set cs. co_name c = ''kube-proxy'' \<and> firstImageURI (co_assets c) = Some (r_kube_proxy_image r)))"

lemma release_from_read:
  assumes "release_from cs r" and "c \<in> set cs"
  shows "release_from cs (read_component c r)"
proof -
  have "published_tarball cs arch t"
    if "co_name c = ''kubernetes''" "map_of (add_tarballs (co_assets c) (r_server_tarball r)) arch = Some t" for arch t
    using add_tarballs_from [OF that(2)] assms that(1) by (auto simp: release_from_def published_tarball_def)
  with assms show ?thesis
    by (auto simp: release_from_def read_component_def add_tarballs_wf split: option.splits)
qed

lemma release_from_fold:
  "release_from cs r \<Longrightarrow> set ds \<subseteq> set cs \<Longrightarrow> release_from cs (fold read_component ds r)"
  by (induction ds arbitrary: r) (auto intro: release_from_read)

lemma read_component_keeps [simp]:
  "r_channel (fold read_component cs r) = r_channel r" "r_number (fold read_component cs r) = r_number r"
  by (induction cs arbitrary: r) (auto simp: read_component_def split: option.splits)

section \<open>Properties\<close>

text \<open>
  C29: the search returns, however the published numbers are distributed, as soon as number 1
  is published and some power of two up to \<open>2 ^ 62\<close> is not: its result is a published number
  whose successor is not, so the latest one where the numbers have no gap; it stays within Go's
  ints and sends at most two requests per doubling.
\<close>

theorem latest_number_found:
  assumes "manifest_server hc status reqs"
    and "status (manifestURL base channel 1) = 200"
    and "status (manifestURL base channel (2 ^ k)) \<noteq> 200" and "k \<le> 62"
  shows "\<exists>r w'. LatestNumber hc base channel w = Some (Inr r, w') \<and>
    1 \<le> r \<and> r < 2 ^ k \<and>
    status (manifestURL base channel r) = 200 \<and> status (manifestURL base channel (r + 1)) \<noteq> 200 \<and>
    ((\<forall>m n. 1 \<le> m \<longrightarrow> m \<le> n \<longrightarrow> status (manifestURL base channel n) = 200 \<longrightarrow>
        status (manifestURL base channel m) = 200) \<longrightarrow>
     (\<forall>n. status (manifestURL base channel n) = 200 \<longrightarrow> n \<le> r)) \<and>
    reqs w' \<le> reqs w + 2 * k"
proof -
  let ?P = "\<lambda>n. status (manifestURL base channel n) = 200"
  have "k \<noteq> 0" using assms(2,3) by (cases "k = 0") auto
  then have k: "0 < k" by simp
  obtain w1 where w1: "manifestExists hc base channel 1 w = (Inr True, w1)" "reqs w1 = Suc (reqs w)"
    using manifest_server.probe [OF assms(1), of base channel 1 w] assms(2) by auto
  from manifest_server.doubling_stops [OF assms(1) _ assms(3) k assms(4), of w1] assms(2) obtain i w2 where
    i: "double_until_missing (manifestExists hc base channel) 1 2 w1 = Some (Inr (2 ^ i, 2 ^ Suc i), w2)"
    "i < k" "?P (2 ^ i)" "\<not> ?P (2 ^ Suc i)" "reqs w2 = reqs w1 + Suc i" by fastforce
  have high: "(2::int) ^ i + 2 ^ i = 2 ^ Suc i" by simp
  have le: "(2::int) ^ Suc i \<le> 2 ^ k" and top: "(2::int) ^ k \<le> 2 ^ 62"
    using i(2) assms(4) by (intro power_increasing; simp)+
  from manifest_server.bisect_finds [OF assms(1) _ i(3), of i w2] i(4) le top obtain r w' where
    r: "bisect (manifestExists hc base channel) (2 ^ i) (2 ^ Suc i) w2 = Some (Inr r, w')"
    "2 ^ i \<le> r" "r < 2 ^ Suc i" "?P r" "\<not> ?P (r + 1)" "reqs w' = reqs w2 + i"
    unfolding high by auto
  have one: "1 \<le> r" using r(2) one_le_power [of "2::int" i] by linarith
  have "LatestNumber hc base channel w = Some (Inr r, w')"
    using w1(1) i(1) r(1) by (simp add: LatestNumber_def)
  moreover have "n \<le> r" if "\<forall>m n. 1 \<le> m \<longrightarrow> m \<le> n \<longrightarrow> ?P n \<longrightarrow> ?P m" "?P n" for n
  proof (rule ccontr)
    assume "\<not> n \<le> r"
    then have "1 \<le> r + 1" "r + 1 \<le> n" using one by linarith+
    with that have "?P (r + 1)" by blast
    with r(5) show False ..
  qed
  ultimately show ?thesis using one r le i(2,5) w1(2) by auto
qed

definition demo_urls :: "string list" where
  "demo_urls = map (manifestURL ''base'' ''1-33'') [1, 2, 3, 4, 5]"

theorem latest_number_found_witness:
  "\<exists>w'. LatestNumber (ref_bucket demo_urls) ''base'' ''1-33'' 0 = Some (Inr 5, w') \<and> w' \<le> 6"
proof -
  have "manifestURL ''base'' ''1-33'' 1 \<in> set demo_urls" "manifestURL ''base'' ''1-33'' 8 \<notin> set demo_urls"
    by code_simp+
  then obtain r w' where r: "LatestNumber (ref_bucket demo_urls) ''base'' ''1-33'' 0 = Some (Inr r, w')" "1 \<le> r" "r < 8"
    "manifestURL ''base'' ''1-33'' r \<in> set demo_urls" "manifestURL ''base'' ''1-33'' (r + 1) \<notin> set demo_urls" "w' \<le> 6"
    using latest_number_found [OF bucket.manifest_server_axioms, where k = 3 and urls1 = demo_urls
        and base = "''base''" and channel = "''1-33''" and w = 0]
    by (auto split: if_splits)
  have "list_all (\<lambda>r. manifestURL ''base'' ''1-33'' r \<in> set demo_urls \<longrightarrow>
      manifestURL ''base'' ''1-33'' (r + 1) \<notin> set demo_urls \<longrightarrow> r = 5) [1, 2, 3, 4, 5, 6, 7]" by code_simp
  moreover have "r \<in> {1, 2, 3, 4, 5, 6, 7}" using r(2,3) by auto
  ultimately have "r = 5" using r(4,5) by (auto simp: list_all_iff)
  with r show ?thesis by auto
qed

text \<open>
  A release that is accepted is complete, and everything in it was published: its
  Kubernetes version, its two images, and for every architecture the URI together with the
  checksum of one asset named after that architecture.
\<close>

theorem accepted_release_was_published:
  assumes "extractRelease m channel = Inr r"
  shows "r_channel r = channel \<and> r_number r = mf_number m \<and> r_server_tarball r \<noteq> [] \<and>
    (\<exists>c \<in> set (mf_components m). co_name c = ''kubernetes'' \<and> r_kube_version r = co_git_tag c \<and> co_git_tag c \<noteq> []) \<and>
    (\<exists>c \<in> set (mf_components m). co_name c = ''coredns'' \<and> firstImageURI (co_assets c) = Some (r_coredns_image r)) \<and>
    (\<exists>c \<in> set (mf_components m). co_name c = ''kube-proxy'' \<and> firstImageURI (co_assets c) = Some (r_kube_proxy_image r)) \<and>
    (\<forall>(arch, t) \<in> set (r_server_tarball r).
       \<exists>c \<in> set (mf_components m). co_name c = ''kubernetes'' \<and>
         (\<exists>a \<in> set (co_assets c). as_name a = ''kubernetes-server-linux-'' @ arch @ ''.tar.gz'' \<and>
            as_archive a = Some \<lparr>ar_uri = a_uri t, ar_sha256 = a_sha256 t\<rparr>))"
proof -
  let ?r0 = "\<lparr>r_eks_version = map (\<lambda>c. if c = CHR ''-'' then CHR ''.'' else c) channel,
                r_channel = channel, r_number = mf_number m, r_kube_version = [], r_server_tarball = [],
                r_coredns_image = [], r_kube_proxy_image = []\<rparr>"
  have r: "r = fold read_component (mf_components m) ?r0" and v: "validate r = Inr ()"
    using assms by (auto simp: extractRelease_def Let_def split: sum.splits)
  have "release_from (mf_components m) ?r0" by (simp add: release_from_def)
  from release_from_fold [OF this] have from_m: "release_from (mf_components m) r" unfolding r by blast
  have full: "r_kube_version r \<noteq> []" "r_server_tarball r \<noteq> []" "r_coredns_image r \<noteq> []" "r_kube_proxy_image r \<noteq> []"
    using v by (auto simp: validate_def split: if_splits)
  have keep: "r_channel r = channel" "r_number r = mf_number m" unfolding r by simp_all
  have "published_tarball (mf_components m) arch t" if "(arch, t) \<in> set (r_server_tarball r)" for arch t
    using that from_m by (auto simp: release_from_def map_wf_mem_iff)
  with full keep from_m show ?thesis
    unfolding release_from_def published_tarball_def tarball_prefix_def tarball_suffix_def by fastforce
qed

definition demo_manifest :: manifest where
  "demo_manifest =
     \<lparr>mf_number = 20, mf_components =
       [\<lparr>co_name = ''kubernetes'', co_git_tag = ''v1.33.5'', co_assets =
          [\<lparr>as_name = ''kubernetes-server-linux-arm64.tar.gz'',
            as_archive = Some \<lparr>ar_uri = ''u'', ar_sha256 = ''s''\<rparr>, as_image = None\<rparr>]\<rparr>,
        \<lparr>co_name = ''coredns'', co_git_tag = ''v1'', co_assets =
          [\<lparr>as_name = ''coredns-image'', as_archive = None, as_image = Some \<lparr>im_uri = ''dns''\<rparr>\<rparr>]\<rparr>,
        \<lparr>co_name = ''kube-proxy'', co_git_tag = ''v1'', co_assets =
          [\<lparr>as_name = ''kube-proxy-image'', as_archive = None, as_image = Some \<lparr>im_uri = ''proxy''\<rparr>\<rparr>]\<rparr>]\<rparr>"

theorem accepted_release_was_published_witness:
  "\<exists>r. extractRelease demo_manifest ''1-33'' = Inr r \<and> r_number r = 20 \<and> r_channel r = ''1-33''"
proof -
  have "case extractRelease demo_manifest ''1-33'' of Inr r \<Rightarrow> True | Inl _ \<Rightarrow> False" by code_simp
  then obtain r where r: "extractRelease demo_manifest ''1-33'' = Inr r" by (cases "extractRelease demo_manifest ''1-33''") auto
  from accepted_release_was_published [OF r] r show ?thesis by (auto simp: demo_manifest_def)
qed

end
