(* ===== verification/Eksd_Cache.thy ===== *)
theory Eksd_Cache
  imports File_System Eksd_Release
begin

text \<open>
  The download cache of \<open>internal/eksdcache/cache.go\<close>: a tarball is kept under the name of its
  checksum, downloaded through a temporary file that is renamed into place, and verified before
  its path is handed out. The file system, the HTTP client, SHA-256 and the user's cache
  directory are parameters.
\<close>

definition DefaultCacheDir :: "go_error + string \<Rightarrow> go_error + string" where
  "DefaultCacheDir user_cache_dir =
     (case user_cache_dir of
        Inl e \<Rightarrow> Inl (Wrapf ''resolving user cache dir: %w'' [] e)
      | Inr base \<Rightarrow> Inr (path_join (path_join base ''fjord'') ''eksd''))"

text \<open>The hexadecimal checksum of the content; any failure to read counts as a mismatch.\<close>

definition fileMatchesSHA256 ::
  "'w fs_ops \<Rightarrow> (byte list \<Rightarrow> string) \<Rightarrow> string \<Rightarrow> string \<Rightarrow> 'w \<Rightarrow> bool \<times> 'w" where
  "fileMatchesSHA256 fs sha256_hex path want w =
     (case fs_read fs (path_clean path) w of
        (Inl _, w1) \<Rightarrow> (False, w1)
      | (Inr bs, w1) \<Rightarrow> (sha256_hex bs = want, w1))"

definition writeAndRename ::
  "'w fs_ops \<Rightarrow> string \<Rightarrow> stream \<Rightarrow> string \<Rightarrow> 'w \<Rightarrow> (go_error + unit) \<times> 'w" where
  "writeAndRename fs tmpPath src dest w =
     (case io_copy fs tmpPath src w of
        (Inl e, w1) \<Rightarrow>
          (case fs_close fs tmpPath w1 of (_, w2) \<Rightarrow>
             (case fs_remove fs tmpPath w2 of (_, w3) \<Rightarrow> (Inl (Wrapf ''writing %s: %w'' [dest] e), w3)))
      | (Inr _, w1) \<Rightarrow>
          (case fs_close fs tmpPath w1 of
             (Inl e, w2) \<Rightarrow>
               (case fs_remove fs tmpPath w2 of (_, w3) \<Rightarrow> (Inl (Wrapf ''closing %s: %w'' [dest] e), w3))
           | (Inr _, w2) \<Rightarrow>
               (case fs_rename fs tmpPath dest w2 of
                  (Inl e, w3) \<Rightarrow>
                    (case fs_remove fs tmpPath w3 of
                       (_, w4) \<Rightarrow> (Inl (Wrapf ''renaming %s to %s: %w'' [tmpPath, dest] e), w4))
                | (Inr _, w3) \<Rightarrow> (Inr (), w3))))"

definition downloadFile ::
  "'w fs_ops \<Rightarrow> (stream, 'w) http_client \<Rightarrow> string \<Rightarrow> string \<Rightarrow> 'w \<Rightarrow> (go_error + unit) \<times> 'w" where
  "downloadFile fs hc url dest w =
     (case hc_build hc ''GET'' url of
        Inl e \<Rightarrow> (Inl (Wrapf ''building request for %s: %w'' [url] e), w)
      | Inr _ \<Rightarrow>
          (case hc_do hc ''GET'' url w of
             (Inl e, w1) \<Rightarrow> (Inl (Wrapf ''downloading %s: %w'' [url] e), w1)
           | (Inr (status, body), w1) \<Rightarrow>
               if status \<noteq> 200
               then (Inl (Errorf ''unexpected status %d downloading %s'' [string_of_nat status, url]), w1)
               else
                 (case fs_create_temp fs (path_dir dest) ''.download-'' w1 of
                    (Inl e, w2) \<Rightarrow> (Inl (Wrapf ''creating temp file for %s: %w'' [dest] e), w2)
                  | (Inr tmp, w2) \<Rightarrow> writeAndRename fs tmp body dest w2)))"

definition DownloadServerTarball ::
  "'w fs_ops \<Rightarrow> (byte list \<Rightarrow> string) \<Rightarrow> (stream, 'w) http_client \<Rightarrow> Asset \<Rightarrow> string \<Rightarrow> 'w
   \<Rightarrow> (go_error + string) \<times> 'w" where
  "DownloadServerTarball fs sha256_hex hc asset cacheDir w =
     (case fs_mkdir_all fs cacheDir w of
        (Inl e, w1) \<Rightarrow> (Inl (Wrapf ''creating cache dir %s: %w'' [cacheDir] e), w1)
      | (Inr _, w1) \<Rightarrow>
          (let path = path_join cacheDir (a_sha256 asset @ ''.tar.gz'')
           in case fileMatchesSHA256 fs sha256_hex path (a_sha256 asset) w1 of
                (matches, w2) \<Rightarrow>
                  if matches then (Inr path, w2)
                  else
                    (case downloadFile fs hc (a_uri asset) path w2 of
                       (Inl e, w3) \<Rightarrow> (Inl e, w3)
                     | (Inr _, w3) \<Rightarrow>
                         (case fileMatchesSHA256 fs sha256_hex path (a_sha256 asset) w3 of
                            (matches1, w4) \<Rightarrow>
                              if \<not> matches1
                              then (case fs_remove fs path w4 of
                                      (_, w5) \<Rightarrow>
                                        (Inl (Errorf ''downloaded tarball %s: sha256 mismatch, want %s''
                                          [a_uri asset, a_sha256 asset]), w5))
                              else (Inr path, w4)))))"

section \<open>What a download leaves behind\<close>

text \<open>The HTTP client does not touch the files.\<close>

locale download_world = file_system fs files
  for fs :: "'w fs_ops" and files :: "'w \<Rightarrow> file_map" +
  fixes hc :: "(stream, 'w) http_client"
  assumes http_law: "hc_do hc method url w = (answer, w') \<Longrightarrow> files w' = files w"

text \<open>The file holds a whole body the server has sent with status 200.\<close>

definition whole_body :: "(stream, 'w) http_client \<Rightarrow> fs_file \<Rightarrow> bool" where
  "whole_body hc f \<longleftrightarrow> (\<exists>url w0 body w1. hc_do hc ''GET'' url w0 = (Inr (200, body), w1) \<and>
     sm_error body = None \<and> fl_data f = sm_data body)"

lemma whole_bodyI:
  "hc_do hc ''GET'' url w0 = (Inr (200, body), w1) \<Longrightarrow> sm_error body = None \<Longrightarrow> fl_data f = sm_data body \<Longrightarrow>
   whole_body hc f"
  unfolding whole_body_def by blast

text \<open>Below a temporary name in the directory.\<close>

definition temp_of :: "string \<Rightarrow> string \<Rightarrow> string \<Rightarrow> bool" where
  "temp_of dir pattern q \<longleftrightarrow> (\<exists>s. slash \<notin> set s \<and> under (dir @ slash # pattern @ s) q)"

context file_system
begin

lemma writeAndRename_result:
  assumes "writeAndRename fs tmp src dest w = (res, w')" and "files w tmp = Some f" and "fl_data f = []"
    and "\<not> under tmp dest" and "\<not> under dest tmp"
  shows "case res of
      Inl e \<Rightarrow> \<forall>q. \<not> under tmp q \<longrightarrow> files w' q = files w q
    | Inr _ \<Rightarrow> sm_error src = None \<and> (\<exists>g. files w' dest = Some g \<and> fl_data g = sm_data src) \<and>
        (\<forall>q. \<not> under tmp q \<longrightarrow> \<not> under dest q \<longrightarrow> files w' q = files w q)"
proof -
  obtain r1 w1 where c: "fs_write fs tmp (sm_data src) w = (r1, w1)" by fastforce
  from write_law [OF c assms(2)] obtain f' where
    f': "files w1 = (files w)(tmp \<mapsto> f')" "r1 = Inr () \<longrightarrow> f' = f\<lparr>fl_data := fl_data f @ sm_data src\<rparr>" by blast
  have out1: "files w1 q = files w q" if "\<not> under tmp q" for q using that f'(1) by auto
  obtain r2 w2 where cl: "fs_close fs tmp w1 = (r2, w2)" by fastforce
  note fcl = close_law [OF cl]
  obtain rr w3 where rn: "fs_rename fs tmp dest w2 = (rr, w3)" by fastforce
  note frn = rename_law [OF rn assms(4,5)]
  have rm: "files wb q = files wa q" if "fs_remove fs tmp wa = (x, wb)" "\<not> under tmp q" for wa wb x q
    using remove_law [OF that(1)] that(2) by (auto split: sum.splits)
  show ?thesis
  proof (cases "r1 = Inr () \<and> sm_error src = None \<and> r2 = Inr () \<and> rr = Inr ()")
    case False
    then have "\<exists>e. res = Inl e" and "\<forall>q. \<not> under tmp q \<longrightarrow> files w' q = files w q"
      using assms(1) c cl rn out1 fcl frn rm
      by (auto simp: writeAndRename_def io_copy_def split: sum.splits option.splits prod.splits)
    then show ?thesis by auto
  next
    case True
    then have w': "w' = w3" "res = Inr ()" using assms(1) c cl rn by (auto simp: writeAndRename_def io_copy_def)
    have "files w3 = moved tmp dest (files w1)" using frn True fcl by simp
    with w' True f' assms(3) out1 show ?thesis by (auto simp: moved_def)
  qed
qed

lemma fileMatches_result:
  assumes "fileMatchesSHA256 fs hash path want w = (b, w')" and "path_clean path = path"
  shows "files w' = files w \<and> (b \<longrightarrow> (\<exists>f. files w path = Some f \<and> hash (fl_data f) = want))"
proof -
  obtain r w1 where r: "fs_read fs path w = (r, w1)" by fastforce
  from read_law [OF r] assms r show ?thesis
    by (auto simp: fileMatchesSHA256_def split: sum.splits)
qed

end

context download_world
begin

lemma downloadFile_result:
  assumes "downloadFile fs hc url dest w = (res, w')"
    and "dest = dir @ slash # name" and "path_dir dest = dir" and "slash \<notin> set name" and "hd name \<noteq> CHR ''.''"
  shows "(\<forall>q. \<not> under dest q \<longrightarrow> \<not> temp_of dir ''.download-'' q \<longrightarrow> files w' q = files w q) \<and>
    (case res of
       Inl e \<Rightarrow> files w' dest = files w dest
     | Inr _ \<Rightarrow> \<exists>g. files w' dest = Some g \<and> whole_body hc g)"
proof (cases "\<exists>st body w1 tmp w2. hc_do hc ''GET'' url w = (Inr (st, body), w1) \<and> st = 200 \<and>
    hc_build hc ''GET'' url = Inr () \<and> fs_create_temp fs (path_dir dest) ''.download-'' w1 = (Inr tmp, w2)")
  case False
  then have "(\<exists>e. res = Inl e) \<and> files w' = files w"
    using assms(1) http_law create_temp_law
    by (fastforce simp: downloadFile_def split: sum.splits prod.splits if_splits)
  then show ?thesis by auto
next
  case True
  then obtain body w1 tmp w2 where h: "hc_do hc ''GET'' url w = (Inr (200, body), w1)" "hc_build hc ''GET'' url = Inr ()"
    "fs_create_temp fs (path_dir dest) ''.download-'' w1 = (Inr tmp, w2)" by blast
  have w1: "files w1 = files w" by (rule http_law [OF h(1)])
  from create_temp_law [OF h(3)] obtain s md where t: "tmp = dir @ slash # ''.download-'' @ s" "slash \<notin> set s"
    "\<forall>q. under tmp q \<longrightarrow> files w1 q = None" "files w2 = (files w1)(tmp \<mapsto> \<lparr>fl_mode = md, fl_data = []\<rparr>)"
    by (auto simp: temp_path_def assms(3))
  have ne: "name \<noteq> ''.download-'' @ s" using assms(5) by auto
  have apart: "\<not> under tmp dest" "\<not> under dest tmp"
    unfolding t(1) assms(2) by (rule siblings_apart; use t(2) assms(4) ne in auto)+
  have res: "writeAndRename fs tmp body dest w2 = (res, w')" using assms(1) h by (simp add: downloadFile_def)
  have tmp: "temp_of dir ''.download-'' q" if "under tmp q" for q
    using that t(1,2) by (auto simp: temp_of_def)
  have w2: "files w2 q = files w q" if "\<not> under tmp q" for q using that by (auto simp: t(4) w1)
  from writeAndRename_result [OF res, of "\<lparr>fl_mode = md, fl_data = []\<rparr>"] apart t(4)
  have "case res of
      Inl e \<Rightarrow> \<forall>q. \<not> under tmp q \<longrightarrow> files w' q = files w2 q
    | Inr _ \<Rightarrow> sm_error body = None \<and> (\<exists>g. files w' dest = Some g \<and> fl_data g = sm_data body) \<and>
        (\<forall>q. \<not> under tmp q \<longrightarrow> \<not> under dest q \<longrightarrow> files w' q = files w2 q)" by simp
  with tmp w2 apart(1) show ?thesis by (auto intro: whole_bodyI [OF h(1)] split: sum.splits)
qed

lemma tarball_result:
  assumes "DownloadServerTarball fs hash hc asset cacheDir w = (res, w')"
    and "clean_dir cacheDir" and "plain (a_sha256 asset @ ''.tar.gz'')" and "hd (a_sha256 asset @ ''.tar.gz'') \<noteq> CHR ''.''"
  defines "path \<equiv> cacheDir @ slash # a_sha256 asset @ ''.tar.gz''"
  shows "(\<forall>q. \<not> under path q \<longrightarrow> \<not> temp_of cacheDir ''.download-'' q \<longrightarrow> files w' q = files w q) \<and>
    (case files w' path of
       None \<Rightarrow> True
     | Some f \<Rightarrow> files w path = Some f \<or> whole_body hc f) \<and>
    (\<forall>p. res = Inr p \<longrightarrow> p = path \<and> (\<exists>f. files w' path = Some f \<and> hash (fl_data f) = a_sha256 asset))"
proof -
  have join: "path_join cacheDir (a_sha256 asset @ ''.tar.gz'') = path" and dir: "path_dir path = cacheDir"
    unfolding path_def by (rule path_join_plain(1) path_dir_plain, fact, fact)+
  have clean: "path_clean path = path" using path_join_plain [OF assms(2,3)] assms(2)
    by (simp add: path_def path_join_def clean_dir_def is_rooted_def plain_def)
  obtain r1 w1 where m: "fs_mkdir_all fs cacheDir w = (r1, w1)" by fastforce
  obtain b w2 where c1: "fileMatchesSHA256 fs hash path (a_sha256 asset) w1 = (b, w2)" by fastforce
  note w1 = mkdir_all_law [OF m] and w2 = fileMatches_result [OF c1 clean]
  show ?thesis
  proof (cases "r1 = Inr () \<and> \<not> b")
    case False
    with assms(1) m c1 w1 w2 show ?thesis
      by (auto simp: DownloadServerTarball_def join Let_def split: sum.splits option.splits)
  next
    case True
    obtain r3 w3 where d: "downloadFile fs hc (a_uri asset) path w2 = (r3, w3)" by fastforce
    note d' = downloadFile_result [OF d path_def [THEN meta_eq_to_obj_eq] dir]
    have outer: "slash \<notin> set (a_sha256 asset @ ''.tar.gz'')" using assms(3) by (simp add: plain_def)
    note d'' = d' [OF outer assms(4)]
    obtain b4 w4 where c4: "fileMatchesSHA256 fs hash path (a_sha256 asset) w3 = (b4, w4)" by fastforce
    obtain r5 w5 where rm: "fs_remove fs path w4 = (r5, w5)" by fastforce
    note w4 = fileMatches_result [OF c4 clean] and w5 = remove_law [OF rm]
    have result: "(res, w') = (case r3 of Inl e \<Rightarrow> (Inl e, w3) | Inr _ \<Rightarrow>
        if \<not> b4 then (Inl (Errorf ''downloaded tarball %s: sha256 mismatch, want %s''
          [a_uri asset, a_sha256 asset]), w5) else (Inr path, w4))"
      using assms(1) m c1 d c4 rm True by (auto simp: DownloadServerTarball_def join Let_def split: sum.splits if_splits)
    show ?thesis
    proof (cases r3)
      case (Inl e)
      with result d'' w1 w2 show ?thesis by (auto split: option.splits)
    next
      case (Inr u)
      with d'' w1 w2 obtain g where g: "files w3 path = Some g" "whole_body hc g"
        "\<forall>q. \<not> under path q \<longrightarrow> \<not> temp_of cacheDir ''.download-'' q \<longrightarrow> files w3 q = files w q" by auto
      have "files w5 q = files w3 q" if "\<not> under path q" for q
        using w5 w4 that by (auto split: sum.splits)
      moreover have "files w5 path = None \<or> files w5 path = Some g" using w5 w4 g(1) by (auto split: sum.splits)
      ultimately show ?thesis using result Inr g w4 by (cases b4) auto
    qed
  qed
qed

end

text \<open>A reference server: the same body for every request.\<close>

definition ref_tarballs :: "byte list \<Rightarrow> (stream, disk) http_client" where
  "ref_tarballs bs =
     \<lparr>hc_build = (\<lambda>method url. Inr ()),
      hc_do = (\<lambda>method url w. (Inr (200, \<lparr>sm_data = bs, sm_error = None\<rparr>), w))\<rparr>"

interpretation ref_cache: download_world ref_fs "\<lambda>w. map_of (snd w)" "ref_tarballs bs" for bs
  by unfold_locales (simp add: ref_tarballs_def)

section \<open>Properties\<close>

text \<open>
  C30: whatever the server answers and whichever file operations fail, a path that is handed out
  holds content with the requested checksum; the cached file is at every outcome the old one,
  gone, or a whole body the server sent, never a part of one; and nothing else but temporary
  download files is touched.
\<close>

theorem cached_tarball_verified:
  assumes "download_world fs files hc"
    and "DownloadServerTarball fs sha256_hex hc asset cacheDir w = (res, w')"
    and "clean_dir cacheDir" and "plain (a_sha256 asset @ ''.tar.gz'')" and "hd (a_sha256 asset @ ''.tar.gz'') \<noteq> CHR ''.''"
    and "path = cacheDir @ ''/'' @ a_sha256 asset @ ''.tar.gz''"
  shows "(\<forall>p. res = Inr p \<longrightarrow>
      p = path \<and> (\<exists>f. files w' path = Some f \<and> sha256_hex (fl_data f) = a_sha256 asset)) \<and>
    (\<forall>f. files w' path = Some f \<longrightarrow> files w path = Some f \<or>
      (\<exists>url w0 body w1. hc_do hc ''GET'' url w0 = (Inr (200, body), w1) \<and> sm_error body = None \<and>
         fl_data f = sm_data body)) \<and>
    (\<forall>q. \<not> under path q \<longrightarrow> \<not> temp_of cacheDir ''.download-'' q \<longrightarrow> files w' q = files w q)"
  using download_world.tarball_result [OF assms(1,2,3,4,5)] unfolding assms(6) whole_body_def
  by (auto split: option.splits)

definition demo_hash :: "byte list \<Rightarrow> string" where
  "demo_hash bs = (if bs = [1, 2, 3] then ''abc'' else ''other'')"

definition demo_asset :: Asset where
  "demo_asset = \<lparr>a_uri = ''https://distro/t.tar.gz'', a_sha256 = ''abc''\<rparr>"

lemma demo_cache_dir: "clean_dir ''/cache''"
proof -
  have "is_rooted ''/cache'' \<and> path_clean ''/cache'' = ''/cache'' \<and> components ''/cache'' \<noteq> []" by code_simp
  then show ?thesis by (simp add: clean_dir_def)
qed

theorem cached_tarball_verified_witness:
  "\<exists>w' f. DownloadServerTarball ref_fs demo_hash (ref_tarballs [1, 2, 3]) demo_asset ''/cache'' ([], []) =
      (Inr ''/cache/abc.tar.gz'', w') \<and>
     map_of (snd w') ''/cache/abc.tar.gz'' = Some f \<and> demo_hash (fl_data f) = ''abc''"
proof -
  obtain res w' where r: "DownloadServerTarball ref_fs demo_hash (ref_tarballs [1, 2, 3]) demo_asset ''/cache'' ([], []) = (res, w')"
    by (metis surj_pair)
  have "fst (DownloadServerTarball ref_fs demo_hash (ref_tarballs [1, 2, 3]) demo_asset ''/cache'' ([], [])) =
      Inr ''/cache/abc.tar.gz''" by code_simp
  with r have res: "res = Inr ''/cache/abc.tar.gz''" by simp
  have "plain (a_sha256 demo_asset @ ''.tar.gz'')" "hd (a_sha256 demo_asset @ ''.tar.gz'') \<noteq> CHR ''.''"
    by (simp_all add: demo_asset_def plain_def dotdot_def)
  from cached_tarball_verified [OF ref_cache.download_world_axioms, OF r demo_cache_dir this refl] r res
  show ?thesis by (auto simp: demo_asset_def)
qed

end
