(* ===== verification/Component_Dir.thy ===== *)
theory Component_Dir
  imports Eksd_Cache
begin

text \<open>
  The component directory of \<open>internal/componentdir\<close> (\<open>extract.go\<close>, \<open>materialize.go\<close>): the
  binaries of a release, extracted from its tarball into a temporary directory that is renamed
  into place when all of them have been found. Reading the gzipped tar is a parameter, from the
  bytes of the file to the entries of the archive.
\<close>

definition binaries :: "string list" where
  "binaries =
     [''kube-apiserver'', ''kube-controller-manager'', ''kube-scheduler'', ''kubelet'', ''kube-proxy'', ''kubectl'']"

definition serverBinDir :: string where
  "serverBinDir = ''kubernetes/server/bin/''"

section \<open>Extraction\<close>

record tar_header =
  th_name :: string
  th_typeflag :: nat
  th_mode :: nat
  th_size :: nat

record tar_entry =
  te_header :: tar_header
  te_body :: stream

text \<open>The entries up to the end of the archive, or up to the error that ends it.\<close>

record archive_stream =
  ax_entries :: "tar_entry list"
  ax_error :: "go_error option"

definition TypeReg :: nat where
  "TypeReg = 48"

definition safeJoin :: "string \<Rightarrow> string \<Rightarrow> go_error + string" where
  "safeJoin destDir name =
     (let target = path_join destDir name; cleanDestDir = path_clean destDir
      in if target \<noteq> cleanDestDir \<and> \<not> prefix (cleanDestDir @ ''/'') target
         then Inl (Errorf ''tar entry %q escapes destination directory'' [name])
         else Inr target)"

definition extractBinary ::
  "'w fs_ops \<Rightarrow> stream \<Rightarrow> tar_header \<Rightarrow> string \<Rightarrow> 'w \<Rightarrow> (go_error + unit) \<times> 'w" where
  "extractBinary fs body header target0 w =
     (let target = path_clean target0 in
      case fs_open_trunc fs target (th_mode header) w of
        (Inl e, w1) \<Rightarrow> (Inl (Wrapf ''creating %s: %w'' [target] e), w1)
      | (Inr _, w1) \<Rightarrow>
          (case io_copy_n fs target body (th_size header) w1 of
             (Inl e, w2) \<Rightarrow>
               (case fs_close fs target w2 of
                  (_, w3) \<Rightarrow>
                    if \<not> errors_is e io_EOF then (Inl (Wrapf ''writing %s: %w'' [target] e), w3) else (Inr (), w3))
           | (Inr _, w2) \<Rightarrow> (case fs_close fs target w2 of (_, w3) \<Rightarrow> (Inr (), w3))))"

definition requireAllFound :: "string \<Rightarrow> string list \<Rightarrow> go_error + unit" where
  "requireAllFound tarballPath found =
     (if length found = length binaries then Inr ()
      else Inl (Errorf ''%s: missing binaries in kubernetes/server/bin: %s''
             (tarballPath # filter (\<lambda>name. name \<notin> set found) binaries)))"

text \<open>The loop over the archive; \<open>found\<close> lists the keys of the map of that name.\<close>

fun extract_entries ::
  "'w fs_ops \<Rightarrow> string \<Rightarrow> string \<Rightarrow> string list \<Rightarrow> tar_entry list \<Rightarrow> go_error option \<Rightarrow> 'w
   \<Rightarrow> (go_error + string list) \<times> 'w" where
  "extract_entries fs tarballPath destDir found [] err w =
     (case err of
        None \<Rightarrow> (Inr found, w)
      | Some e \<Rightarrow> (Inl (Wrapf ''reading tar header from %s: %w'' [tarballPath] e), w))"
| "extract_entries fs tarballPath destDir found (entry # entries) err w =
     (let header = te_header entry in
      case safeJoin destDir (th_name header) of
        Inl e \<Rightarrow> (Inl e, w)
      | Inr _ \<Rightarrow>
          (case cut_prefix serverBinDir (th_name header) of
             None \<Rightarrow> extract_entries fs tarballPath destDir found entries err w
           | Some name \<Rightarrow>
               if name \<notin> set binaries then extract_entries fs tarballPath destDir found entries err w
               else if th_typeflag header \<noteq> TypeReg
               then (Inl (Errorf ''%s: expected a regular file, got type %d''
                       [th_name header, string_of_nat (th_typeflag header)]), w)
               else
                 (case extractBinary fs (te_body entry) header (path_join destDir name) w of
                    (Inl e, w1) \<Rightarrow> (Inl e, w1)
                  | (Inr _, w1) \<Rightarrow>
                      extract_entries fs tarballPath destDir (List.insert name found) entries err w1)))"

type_synonym untar = "byte list \<Rightarrow> go_error + archive_stream"

definition extractBinaries ::
  "'w fs_ops \<Rightarrow> untar \<Rightarrow> string \<Rightarrow> string \<Rightarrow> 'w \<Rightarrow> (go_error + unit) \<times> 'w" where
  "extractBinaries fs gunzip tarballPath0 destDir w =
     (let tarballPath = path_clean tarballPath0 in
      case fs_read fs tarballPath w of
        (Inl e, w1) \<Rightarrow> (Inl (Wrapf ''opening %s: %w'' [tarballPath] e), w1)
      | (Inr bs, w1) \<Rightarrow>
          (case gunzip bs of
             Inl e \<Rightarrow> (Inl (Wrapf ''opening gzip reader for %s: %w'' [tarballPath] e), w1)
           | Inr ax \<Rightarrow>
               (case extract_entries fs tarballPath destDir [] (ax_entries ax) (ax_error ax) w1 of
                  (Inl e, w2) \<Rightarrow> (Inl e, w2)
                | (Inr found, w2) \<Rightarrow> (requireAllFound tarballPath found, w2))))"

definition extractComponentDir ::
  "'w fs_ops \<Rightarrow> untar \<Rightarrow> string \<Rightarrow> string \<Rightarrow> 'w \<Rightarrow> (go_error + unit) \<times> 'w" where
  "extractComponentDir fs gunzip tarballPath finalDir w =
     (case fs_mkdir_temp fs (path_dir finalDir) ''.componentdir-'' w of
        (Inl e, w1) \<Rightarrow> (Inl (Wrapf ''creating temp extraction dir: %w'' [] e), w1)
      | (Inr tmpDir, w1) \<Rightarrow>
          (case extractBinaries fs gunzip tarballPath tmpDir w1 of
             (Inl e, w2) \<Rightarrow> (case fs_remove_all fs tmpDir w2 of (_, w3) \<Rightarrow> (Inl e, w3))
           | (Inr _, w2) \<Rightarrow>
               (case fs_rename fs tmpDir finalDir w2 of
                  (Inl e, w3) \<Rightarrow>
                    (case fs_remove_all fs tmpDir w3 of
                       (_, w4) \<Rightarrow> (Inl (Wrapf ''renaming %s to %s: %w'' [tmpDir, finalDir] e), w4))
                | (Inr _, w3) \<Rightarrow> (Inr (), w3))))"

section \<open>Materializing a release\<close>

fun has_all_binaries_from :: "'w fs_ops \<Rightarrow> string \<Rightarrow> string list \<Rightarrow> 'w \<Rightarrow> bool \<times> 'w" where
  "has_all_binaries_from fs dir [] w = (True, w)"
| "has_all_binaries_from fs dir (name # names) w =
     (case fs_is_regular fs (path_join dir name) w of
        (Inl _, w1) \<Rightarrow> (False, w1)
      | (Inr regular, w1) \<Rightarrow> if \<not> regular then (False, w1) else has_all_binaries_from fs dir names w1)"

definition hasAllBinaries :: "'w fs_ops \<Rightarrow> string \<Rightarrow> 'w \<Rightarrow> bool \<times> 'w" where
  "hasAllBinaries fs dir w = has_all_binaries_from fs dir binaries w"

definition materialize ::
  "'w fs_ops \<Rightarrow> (byte list \<Rightarrow> string) \<Rightarrow> untar \<Rightarrow> Release \<Rightarrow> string \<Rightarrow> (stream, 'w) http_client \<Rightarrow> string \<Rightarrow> 'w
   \<Rightarrow> (go_error + string) \<times> 'w" where
  "materialize fs sha256_hex gunzip release arch hc cacheDir w =
     (case map_of (r_server_tarball release) arch of
        None \<Rightarrow> (Inl (Errorf ''eks version %q has no server tarball for arch %q'' [r_eks_version release, arch]), w)
      | Some asset \<Rightarrow>
          (case DownloadServerTarball fs sha256_hex hc asset cacheDir w of
             (Inl e, w1) \<Rightarrow> (Inl (Wrapf ''downloading server tarball: %w'' [] e), w1)
           | (Inr tarballPath, w1) \<Rightarrow>
               (let componentDir = path_join cacheDir (a_sha256 asset)
                in case hasAllBinaries fs componentDir w1 of
                     (complete, w2) \<Rightarrow>
                       if complete then (Inr componentDir, w2)
                       else
                         (case fs_remove_all fs componentDir w2 of
                            (Inl e, w3) \<Rightarrow>
                              (Inl (Wrapf ''removing stale component dir %s: %w'' [componentDir] e), w3)
                          | (Inr _, w3) \<Rightarrow>
                              (case extractComponentDir fs gunzip tarballPath componentDir w3 of
                                 (Inl e, w4) \<Rightarrow> (Inl e, w4)
                               | (Inr _, w4) \<Rightarrow> (Inr componentDir, w4))))))"

definition Materialize ::
  "'w fs_ops \<Rightarrow> (byte list \<Rightarrow> string) \<Rightarrow> untar \<Rightarrow> go_error + string \<Rightarrow> Release \<Rightarrow> string
   \<Rightarrow> (stream, 'w) http_client \<Rightarrow> 'w \<Rightarrow> (go_error + string) \<times> 'w" where
  "Materialize fs sha256_hex gunzip user_cache_dir release arch hc w =
     (case DefaultCacheDir user_cache_dir of
        Inl e \<Rightarrow> (Inl (Wrapf ''resolving cache dir: %w'' [] e), w)
      | Inr cacheDir \<Rightarrow> materialize fs sha256_hex gunzip release arch hc cacheDir w)"

section \<open>The guard against escaping names\<close>

lemma components_join:
  assumes "is_rooted d"
  shows "components (path_join d n) = rev (fold (clean_step True) (split_all slash n) (rev (components d)))"
    and "is_rooted (path_join d n)" and "path_clean (path_join d n) = path_join d n"
proof -
  from assms have ne: "d \<noteq> []" by (auto simp: is_rooted_def)
  have r: "is_rooted (d @ slash # n)" using assms by (simp add: is_rooted_def)
  have j: "path_join d n = path_clean (if n = [] then d else d @ slash # n)" using ne by (simp add: path_join_def)
  have r': "is_rooted (if n = [] then d else d @ slash # n)" using assms r by simp
  show "components (path_join d n) = rev (fold (clean_step True) (split_all slash n) (rev (components d)))"
    unfolding j components_of_clean [OF r'] by (auto simp: components_append_slash [OF assms] clean_step_def)
  show "is_rooted (path_join d n)" unfolding j using r' by simp
  show "path_clean (path_join d n) = path_join d n" unfolding j by (rule path_clean_idem [OF r'])
qed

lemma safeJoin_inside:
  assumes "is_rooted d" and "components d \<noteq> []"
  shows "(\<exists>t. safeJoin d n = Inr t) \<longleftrightarrow> (\<exists>rs. components (path_join d n) = components d @ rs)"
proof -
  note j = components_join [OF assms(1), of n]
  obtain D where D: "components d = D" "path_clean d = slash # join_with slash D"
    using path_clean_rooted [OF assms(1)] by blast
  obtain T where T: "components (path_join d n) = T" "path_join d n = slash # join_with slash T"
    using path_clean_rooted [OF j(2)] j(3) by metis
  have no_slash: "\<forall>c \<in> set D. slash \<notin> set c" "\<forall>c \<in> set T. slash \<notin> set c"
    using components_plain [OF assms(1)] components_plain [OF j(2)] plain_no_slash D(1) T(1) by blast+
  have eq: "path_join d n = path_clean d \<longleftrightarrow> T = D"
  proof
    assume "path_join d n = path_clean d"
    then show "T = D" using components_of_clean [OF assms(1)] D(1) T(1) by simp
  qed (simp add: D(2) T(2))
  have "prefix (path_clean d @ ''/'') (path_join d n) \<longleftrightarrow> (\<exists>rs. rs \<noteq> [] \<and> T = D @ rs)"
  proof (cases "T = []")
    case True
    with assms(2) D(1) show ?thesis by (simp add: D(2) T(2) prefix_def)
  next
    case False
    have "D \<noteq> []" using assms(2) D(1) by simp
    from path_prefix_iff [OF no_slash this False] show ?thesis by (simp add: D(2) T(2))
  qed
  with eq show ?thesis unfolding D(1) T(1) by (auto simp: safeJoin_def Let_def)
qed

section \<open>What an extraction leaves behind\<close>

text \<open>A file that is the binary of that name in one of the entries.\<close>

definition from_entry :: "tar_entry list \<Rightarrow> string \<Rightarrow> fs_file \<Rightarrow> bool" where
  "from_entry entries name f \<longleftrightarrow>
     (\<exists>e \<in> set entries. th_name (te_header e) = serverBinDir @ name \<and> th_typeflag (te_header e) = TypeReg \<and>
        fl_mode f = th_mode (te_header e) \<and> fl_data f = take (th_size (te_header e)) (sm_data (te_body e)))"

lemma binaries_plain: "name \<in> set binaries \<Longrightarrow> plain name"
proof -
  have "list_all plain binaries" by code_simp
  then show "name \<in> set binaries \<Longrightarrow> plain name" by (simp add: list_all_iff)
qed

lemma clean_dir_child: "clean_dir d \<Longrightarrow> plain n \<Longrightarrow> clean_dir (d @ slash # n)"
  using path_join_plain [of d n] by (auto simp: clean_dir_def is_rooted_def path_join_def plain_def)

lemma binary_target:
  assumes "clean_dir d" and "name \<in> set binaries"
  shows "path_join d name = d @ slash # name" and "path_clean (d @ slash # name) = d @ slash # name"
  using path_join_plain(1) [OF assms(1) binaries_plain [OF assms(2)]]
    clean_dir_child [OF assms(1) binaries_plain [OF assms(2)]] by (simp_all add: clean_dir_def)

context file_system
begin

lemma extractBinary_result:
  assumes "extractBinary fs body h p w = (r, w')" and "path_clean p = p"
  shows "(\<forall>q. q \<noteq> p \<longrightarrow> files w' q = files w q) \<and>
    (r = Inr () \<longrightarrow>
       files w' p = Some \<lparr>fl_mode = th_mode h, fl_data = take (th_size h) (sm_data body)\<rparr>)"
proof -
  obtain r1 w1 where o: "fs_open_trunc fs p (th_mode h) w = (r1, w1)" by fastforce
  note fo = open_law [OF o]
  show ?thesis
  proof (cases r1)
    case (Inl e)
    with assms o fo show ?thesis by (auto simp: extractBinary_def)
  next
    case (Inr u)
    let ?f = "\<lparr>fl_mode = th_mode h, fl_data = []\<rparr>"
    obtain r2 w2 where c: "fs_write fs p (take (th_size h) (sm_data body)) w1 = (r2, w2)" by fastforce
    from write_law [OF c, of ?f] fo Inr obtain f' where f': "files w2 = (files w1)(p \<mapsto> f')"
      "r2 = Inr () \<longrightarrow> f' = \<lparr>fl_mode = th_mode h, fl_data = take (th_size h) (sm_data body)\<rparr>"
      "\<forall>e. r2 = Inl e \<longrightarrow> \<not> errors_is e io_EOF" by auto
    obtain r3 w3 where cl: "fs_close fs p w2 = (r3, w3)" by fastforce
    have w': "w' = w3" using assms o c cl Inr
      by (auto simp: extractBinary_def io_copy_n_def split: sum.splits option.splits if_splits)
    have ok: "r2 = Inr ()" if "r = Inr ()"
    proof (cases r2)
      case (Inl e)
      with f'(3) have "\<not> errors_is e io_EOF" by simp
      with Inl assms o c cl Inr that show ?thesis by (auto simp: extractBinary_def io_copy_n_def)
    qed simp
    show ?thesis using close_law [OF cl] w' f' fo Inr ok by auto
  qed
qed

lemma extract_entries_result:
  assumes "extract_entries fs tp d found es err w = (res, w')" and "clean_dir d" and "set es \<subseteq> set all"
    and "distinct found" and "set found \<subseteq> set binaries"
    and "\<forall>n \<in> set found. \<exists>f. files w (d @ slash # n) = Some f \<and> from_entry all n f"
  shows "(\<forall>q. q \<notin> (\<lambda>n. d @ slash # n) ` set binaries \<longrightarrow> files w' q = files w q) \<and>
    (\<forall>found'. res = Inr found' \<longrightarrow> distinct found' \<and> set found' \<subseteq> set binaries \<and>
       (\<forall>n \<in> set found'. \<exists>f. files w' (d @ slash # n) = Some f \<and> from_entry all n f))"
  using assms
proof (induction es arbitrary: found w)
  case Nil
  then show ?case by (auto split: option.splits)
next
  case (Cons e es)
  let ?h = "te_header e"
  have rest: "set es \<subseteq> set all" "e \<in> set all" using Cons.prems(3) by auto
  show ?case
  proof (cases "\<exists>t n. safeJoin d (th_name ?h) = Inr t \<and> cut_prefix serverBinDir (th_name ?h) = Some n \<and> n \<in> set binaries \<and>
      th_typeflag ?h = TypeReg")
    case False
    then consider "res = Inl (Errorf ''tar entry %q escapes destination directory'' [th_name ?h])" "w' = w"
      | x where "res = Inl x" "w' = w" | "extract_entries fs tp d found es err w = (res, w')"
      using Cons.prems(1) by (auto simp: Let_def split: sum.splits option.splits if_splits)
    then show ?thesis using Cons.IH [OF _ Cons.prems(2) rest(1) Cons.prems(4-6)] by cases auto
  next
    case True
    then obtain t n where n: "safeJoin d (th_name ?h) = Inr t" "cut_prefix serverBinDir (th_name ?h) = Some n"
      "n \<in> set binaries" "th_typeflag ?h = TypeReg" by blast
    note tgt = binary_target [OF Cons.prems(2) n(3)]
    obtain r1 w1 where x: "extractBinary fs (te_body e) ?h (d @ slash # n) w = (r1, w1)" by fastforce
    note ex = extractBinary_result [OF x tgt(2)]
    show ?thesis
    proof (cases r1)
      case (Inl er)
      with Cons.prems(1) n x tgt(1) have "res = Inl er" "w' = w1" by auto
      with ex n(3) show ?thesis by auto
    next
      case (Inr u)
      have go: "extract_entries fs tp d (List.insert n found) es err w1 = (res, w')"
        using Cons.prems(1) n x Inr tgt(1) by simp
      let ?f = "\<lparr>fl_mode = th_mode ?h, fl_data = take (th_size ?h) (sm_data (te_body e))\<rparr>"
      have "th_name ?h = serverBinDir @ n" using n(2) by (simp add: cut_prefix_Some_iff)
      with rest(2) n(4) have new: "from_entry all n ?f" by (auto simp: from_entry_def)
      have found': "\<forall>m \<in> set (List.insert n found). \<exists>f. files w1 (d @ slash # m) = Some f \<and> from_entry all m f"
      proof
        fix m assume "m \<in> set (List.insert n found)"
        then show "\<exists>f. files w1 (d @ slash # m) = Some f \<and> from_entry all m f"
          using new ex Inr Cons.prems(6) by (cases "m = n") auto
      qed
      have "distinct (List.insert n found)" "set (List.insert n found) \<subseteq> set binaries"
        using Cons.prems(4,5) n(3) by auto
      from Cons.IH [OF go Cons.prems(2) rest(1) this found'] ex n(3) show ?thesis by auto
    qed
  qed
qed

lemma extractBinaries_result:
  assumes "extractBinaries fs gunzip tp d w = (res, w')" and "clean_dir d"
  shows "(\<forall>q. q \<notin> (\<lambda>n. d @ slash # n) ` set binaries \<longrightarrow> files w' q = files w q) \<and>
    (res = Inr () \<longrightarrow> (\<exists>g ax. files w (path_clean tp) = Some g \<and> gunzip (fl_data g) = Inr ax \<and>
       (\<forall>n \<in> set binaries. \<exists>f. files w' (d @ slash # n) = Some f \<and> from_entry (ax_entries ax) n f)))"
proof -
  obtain rb w1 where rd: "fs_read fs (path_clean tp) w = (rb, w1)" by fastforce
  note frd = read_law [OF rd]
  show ?thesis
  proof (cases "\<exists>bs ax. rb = Inr bs \<and> gunzip bs = Inr ax")
    case False
    with assms(1) rd frd show ?thesis by (auto simp: extractBinaries_def Let_def split: sum.splits)
  next
    case True
    then obtain bs ax where b: "rb = Inr bs" "gunzip bs = Inr ax" by blast
    obtain r2 w2 where x: "extract_entries fs (path_clean tp) d [] (ax_entries ax) (ax_error ax) w1 = (r2, w2)" by fastforce
    note ex = extract_entries_result [OF x assms(2), of "ax_entries ax", simplified]
    show ?thesis
    proof (cases r2)
      case (Inl e)
      with assms(1) rd b x ex frd show ?thesis by (auto simp: extractBinaries_def Let_def)
    next
      case (Inr found)
      with assms(1) rd b x have res: "res = requireAllFound (path_clean tp) found" "w' = w2"
        by (auto simp: extractBinaries_def Let_def)
      have "set found = set binaries" if "res = Inr ()"
      proof -
        have "length found = length binaries" using that res(1) by (simp add: requireAllFound_def split: if_splits)
        moreover have "distinct found" "set found \<subseteq> set binaries" using ex Inr by auto
        moreover have "card (set binaries) \<le> length binaries" by (rule card_length)
        ultimately show ?thesis by (metis card_seteq distinct_card finite_set)
      qed
      with ex Inr res(2) frd b show ?thesis by auto
    qed
  qed
qed

lemma extractComponentDir_result:
  assumes "extractComponentDir fs gunzip tp final w = (res, w')" and "clean_dir parent"
    and "final = parent @ slash # name" and "plain name" and "hd name \<noteq> CHR ''.''"
  shows "(\<forall>q. \<not> under final q \<longrightarrow> \<not> temp_of parent ''.componentdir-'' q \<longrightarrow> files w' q = files w q) \<and>
    (case res of
       Inl e \<Rightarrow> \<forall>q. under final q \<longrightarrow> files w' q = files w q
     | Inr _ \<Rightarrow>
         (\<forall>q. under final q \<longrightarrow> files w' q \<noteq> None \<longrightarrow> q \<in> (\<lambda>n. final @ slash # n) ` set binaries) \<and>
         (\<exists>g ax. files w (path_clean tp) = Some g \<and> gunzip (fl_data g) = Inr ax \<and>
            (\<forall>n \<in> set binaries. \<exists>f. files w' (final @ slash # n) = Some f \<and> from_entry (ax_entries ax) n f)))"
proof -
  have dir: "path_dir final = parent" unfolding assms(3) by (rule path_dir_plain [OF assms(2,4)])
  obtain rp w1 where t: "fs_mkdir_temp fs parent ''.componentdir-'' w = (rp, w1)" by fastforce
  note ft = mkdir_temp_law [OF t]
  show ?thesis
  proof (cases rp)
    case (Inl e)
    with assms(1) t ft show ?thesis by (auto simp: extractComponentDir_def dir)
  next
    case (Inr tmp)
    with ft obtain s where s: "tmp = parent @ slash # ''.componentdir-'' @ s" "slash \<notin> set s"
      and free: "\<forall>q. under tmp q \<longrightarrow> files w q = None" by (auto simp: temp_path_def)
    have w1: "files w1 = files w" using ft by simp
    have "plain (''.componentdir-'' @ s)" using s(2) by (simp add: plain_def dotdot_def)
    with assms(2) s(1) have clean: "clean_dir tmp" using clean_dir_child [of parent "''.componentdir-'' @ s"] by simp
    have ne: "name \<noteq> ''.componentdir-'' @ s" using assms(5) by auto
    have apart: "\<not> under tmp final" "\<not> under final tmp"
      unfolding s(1) assms(3) by (rule siblings_apart; use s(2) assms(4) ne plain_no_slash in auto)+
    have tmp: "temp_of parent ''.componentdir-'' q" if "under tmp q" for q using that s by (auto simp: temp_of_def)
    have disjoint: "\<not> under tmp q" if "under final q" for q
      using under_comparable [of tmp q final] that apart by blast
    obtain rx w2 where x: "extractBinaries fs gunzip tp tmp w1 = (rx, w2)" by fastforce
    note ex = extractBinaries_result [OF x clean, unfolded w1]
    have w2: "files w2 q = files w q" if "\<not> under tmp q" for q
    proof -
      have "q \<notin> (\<lambda>n. tmp @ slash # n) ` set binaries" using that by auto
      with ex show ?thesis by simp
    qed
    obtain rr w3 where rn: "fs_rename fs tmp final w2 = (rr, w3)" by fastforce
    note frn = rename_law [OF rn apart]
    have rm: "files wb q = files wa q" if "fs_remove_all fs tmp wa = (r, wb)" "\<not> under tmp q" for wa wb r q
      using remove_all_law [OF that(1)] that(2) by (auto simp: same_outside_def)
    show ?thesis
    proof (cases "rx = Inr () \<and> rr = Inr ()")
      case False
      then have "(\<exists>e. res = Inl e) \<and> (\<forall>q. \<not> under tmp q \<longrightarrow> files w' q = files w q)"
        using assms(1) t Inr x rn w2 frn rm
        by (auto simp: extractComponentDir_def dir split: sum.splits prod.splits)
      with tmp disjoint show ?thesis by auto
    next
      case True
      then have res: "res = Inr ()" "w' = w3" using assms(1) t Inr x rn by (auto simp: extractComponentDir_def dir)
      have w': "files w' = moved tmp final (files w2)" using frn True res by simp
      have at: "files w' (final @ r) = files w2 (tmp @ r)" if "r = [] \<or> hd r = slash" for r
        using that by (auto simp: w' moved_def under_iff)
      have only: "q \<in> (\<lambda>n. final @ slash # n) ` set binaries" if q: "under final q" "files w' q \<noteq> None" for q
      proof -
        from q(1) obtain r where r: "q = final @ r" "r = [] \<or> hd r = slash" by (auto simp: under_iff)
        with at q(2) have "files w2 (tmp @ r) \<noteq> None" by simp
        moreover have "files w (tmp @ r) = None" using free r(2) by (auto simp: under_iff)
        ultimately have "tmp @ r \<in> (\<lambda>n. tmp @ slash # n) ` set binaries" using ex by metis
        with r(1) show ?thesis by auto
      qed
      have outside: "files w' q = files w q" if "\<not> under final q" "\<not> temp_of parent ''.componentdir-'' q" for q
      proof -
        have "\<not> under tmp q" using that(2) tmp by blast
        with that(1) w2 show ?thesis by (simp add: w' moved_def)
      qed
      from ex True obtain g ax where "files w (path_clean tp) = Some g" "gunzip (fl_data g) = Inr ax"
        "\<forall>n \<in> set binaries. \<exists>f. files w2 (tmp @ slash # n) = Some f \<and> from_entry (ax_entries ax) n f" by blast
      moreover from this(3) at have "\<forall>n \<in> set binaries. \<exists>f. files w' (final @ slash # n) = Some f \<and> from_entry (ax_entries ax) n f"
        by simp
      ultimately show ?thesis using only outside res(1) by auto
    qed
  qed
qed

lemma has_all_binaries_result:
  assumes "has_all_binaries_from fs d names w = (b, w')" and "clean_dir d" and "set names \<subseteq> set binaries"
  shows "files w' = files w \<and> (b \<longrightarrow> (\<forall>n \<in> set names. files w (d @ slash # n) \<noteq> None))"
  using assms
proof (induction names arbitrary: w)
  case (Cons n names)
  obtain r w1 where r: "fs_is_regular fs (path_join d n) w = (r, w1)" by fastforce
  have j: "path_join d n = d @ slash # n" using binary_target(1) [OF Cons.prems(2)] Cons.prems(3) by simp
  from is_regular_law [OF r] Cons.prems r Cons.IH [of w1] show ?case
    by (auto simp: j split: sum.splits if_splits)
qed simp

end

context download_world
begin

lemma materialize_result:
  assumes "materialize fs hash gunzip release arch hc cacheDir w = (Inr d, w')"
    and "map_of (r_server_tarball release) arch = Some asset" and "clean_dir cacheDir"
    and "plain (a_sha256 asset)" and "plain (a_sha256 asset @ ''.tar.gz'')" and "hd (a_sha256 asset) \<noteq> CHR ''.''"
  shows "d = cacheDir @ slash # a_sha256 asset \<and> (\<forall>n \<in> set binaries. files w' (d @ slash # n) \<noteq> None)"
proof -
  have join: "path_join cacheDir (a_sha256 asset) = cacheDir @ slash # a_sha256 asset"
    by (rule path_join_plain(1) [OF assms(3,4)])
  have clean: "clean_dir (cacheDir @ slash # a_sha256 asset)" by (rule clean_dir_child [OF assms(3,4)])
  obtain r1 w1 where dl: "DownloadServerTarball fs hash hc asset cacheDir w = (r1, w1)" by fastforce
  with assms(1,2) obtain tp where tp: "r1 = Inr tp" by (auto simp: materialize_def split: sum.splits)
  obtain b w2 where ha: "hasAllBinaries fs (cacheDir @ slash # a_sha256 asset) w1 = (b, w2)" by fastforce
  note all = has_all_binaries_result [OF ha [unfolded hasAllBinaries_def] clean subset_refl]
  show ?thesis
  proof (cases b)
    case True
    with assms(1,2) dl tp ha all show ?thesis by (auto simp: materialize_def join Let_def)
  next
    case False
    obtain r3 w3 where rm: "fs_remove_all fs (cacheDir @ slash # a_sha256 asset) w2 = (r3, w3)" by fastforce
    obtain r4 w4 where ex: "extractComponentDir fs gunzip tp (cacheDir @ slash # a_sha256 asset) w3 = (r4, w4)" by fastforce
    from assms(1,2) dl tp ha False rm ex have "r4 = Inr ()" "w' = w4" "d = cacheDir @ slash # a_sha256 asset"
      by (auto simp: materialize_def join Let_def split: sum.splits)
    with extractComponentDir_result [OF ex assms(3) refl assms(4,6)] show ?thesis by auto
  qed
qed

end

section \<open>Properties\<close>

text \<open>
  The guard accepts exactly the entry names that stay inside the destination: an accepted
  name leads to the destination's components followed by plain ones, without a dot-dot, and a
  rejected one leads elsewhere.
\<close>

theorem safe_join_stays_inside:
  assumes "is_rooted destDir" and "components destDir \<noteq> []"
  shows "case safeJoin destDir name of
      Inr target \<Rightarrow> target = path_join destDir name \<and>
        (\<exists>rs. components target = components destDir @ rs \<and> (\<forall>r \<in> set rs. plain r))
    | Inl _ \<Rightarrow> \<not> (\<exists>rs. components (path_join destDir name) = components destDir @ rs)"
proof (cases "safeJoin destDir name")
  case (Inl e)
  with safeJoin_inside [OF assms, of name] show ?thesis by simp
next
  case (Inr target)
  then have "target = path_join destDir name" by (auto simp: safeJoin_def Let_def split: if_splits)
  moreover obtain rs where "components (path_join destDir name) = components destDir @ rs"
    using Inr safeJoin_inside [OF assms, of name] by blast
  moreover from this have "\<forall>r \<in> set rs. plain r"
    using components_plain [OF components_join(2) [OF assms(1)], of _ name] by simp
  ultimately show ?thesis using Inr by simp
qed

theorem safe_join_stays_inside_witness:
  "(\<exists>t. safeJoin ''/tmp/x'' ''a/../b/./c'' = Inr t) \<and> (\<exists>e. safeJoin ''/tmp/x'' ''a/../../y'' = Inl e)"
proof -
  have d: "is_rooted ''/tmp/x''" "components ''/tmp/x'' \<noteq> []" by code_simp+
  have "components (path_join ''/tmp/x'' ''a/../b/./c'') = components ''/tmp/x'' @ [''b'', ''c'']"
    "\<not> prefix (components ''/tmp/x'') (components (path_join ''/tmp/x'' ''a/../../y''))" by code_simp+
  with safe_join_stays_inside [OF d, of "''a/../b/./c''"] safe_join_stays_inside [OF d, of "''a/../../y''"]
  show ?thesis by (auto split: sum.splits simp: prefix_def)
qed

text \<open>
  C23: extraction is all or nothing, whatever the archive holds and whichever file operation
  fails: either the final directory is untouched, or it holds exactly the six binaries, each
  with the content and mode of a regular entry of that name; nothing else is written but a
  temporary directory beside it.
\<close>

theorem extraction_all_or_nothing:
  assumes "file_system fs files"
    and "extractComponentDir fs gunzip tarballPath finalDir w = (res, w')"
    and "clean_dir parent" and "finalDir = parent @ ''/'' @ name" and "plain name" and "hd name \<noteq> CHR ''.''"
  shows "(case res of
       Inl e \<Rightarrow> \<forall>q. under finalDir q \<longrightarrow> files w' q = files w q
     | Inr _ \<Rightarrow>
         (\<forall>q. under finalDir q \<longrightarrow> files w' q \<noteq> None \<longrightarrow> (\<exists>n \<in> set binaries. q = finalDir @ ''/'' @ n)) \<and>
         (\<exists>tarball ax. files w (path_clean tarballPath) = Some tarball \<and> gunzip (fl_data tarball) = Inr ax \<and>
            (\<forall>n \<in> set binaries. \<exists>e \<in> set (ax_entries ax).
               th_name (te_header e) = serverBinDir @ n \<and> th_typeflag (te_header e) = TypeReg \<and>
               files w' (finalDir @ ''/'' @ n) = Some \<lparr>fl_mode = th_mode (te_header e),
                 fl_data = take (th_size (te_header e)) (sm_data (te_body e))\<rparr>))) \<and>
    (\<forall>q. \<not> under finalDir q \<longrightarrow> \<not> temp_of parent ''.componentdir-'' q \<longrightarrow> files w' q = files w q)"
proof -
  have final: "finalDir = parent @ slash # name" using assms(4) by simp
  have entry: "\<exists>e \<in> set es. th_name (te_header e) = serverBinDir @ n \<and> th_typeflag (te_header e) = TypeReg \<and>
      f = \<lparr>fl_mode = th_mode (te_header e), fl_data = take (th_size (te_header e)) (sm_data (te_body e))\<rparr>"
    if "from_entry es n f" for es n and f :: fs_file
    using that by (cases f) (auto simp: from_entry_def)
  note result = file_system.extractComponentDir_result [OF assms(1,2,3) final assms(5,6)]
  show ?thesis
  proof (cases res)
    case (Inl e)
    with result show ?thesis by simp
  next
    case (Inr u)
    with result obtain g ax where g: "files w (path_clean tarballPath) = Some g" "gunzip (fl_data g) = Inr ax"
      "\<forall>n \<in> set binaries. \<exists>f. files w' (finalDir @ slash # n) = Some f \<and> from_entry (ax_entries ax) n f" by auto
    have "\<exists>e \<in> set (ax_entries ax). th_name (te_header e) = serverBinDir @ n \<and> th_typeflag (te_header e) = TypeReg \<and>
        files w' (finalDir @ slash # n) = Some \<lparr>fl_mode = th_mode (te_header e),
          fl_data = take (th_size (te_header e)) (sm_data (te_body e))\<rparr>" if n: "n \<in> set binaries" for n
    proof -
      from g(3) n obtain f where "files w' (finalDir @ slash # n) = Some f" "from_entry (ax_entries ax) n f" by blast
      with entry [OF this(2)] show ?thesis by auto
    qed
    with g(1,2) result [unfolded Inr sum.case image_iff] show ?thesis
      unfolding Inr sum.case append_Cons append_Nil by blast
  qed
qed

text \<open>
  A directory that is handed out is named by the checksum of the release's tarball and holds
  every binary the cluster needs, also when an earlier run has left an incomplete one.
\<close>

theorem materialized_dir_complete:
  assumes "download_world fs files hc"
    and "materialize fs sha256_hex gunzip release arch hc cacheDir w = (Inr dir, w')"
    and "map_of (r_server_tarball release) arch = Some asset" and "clean_dir cacheDir"
    and "plain (a_sha256 asset)" and "plain (a_sha256 asset @ ''.tar.gz'')" and "hd (a_sha256 asset) \<noteq> CHR ''.''"
  shows "dir = cacheDir @ ''/'' @ a_sha256 asset \<and> (\<forall>n \<in> set binaries. files w' (dir @ ''/'' @ n) \<noteq> None)"
  using download_world.materialize_result [OF assms] unfolding append_Cons append_Nil .

definition demo_entries :: "tar_entry list" where
  "demo_entries =
     map (\<lambda>n. \<lparr>te_header = \<lparr>th_name = serverBinDir @ n, th_typeflag = TypeReg, th_mode = 493, th_size = 2\<rparr>,
               te_body = \<lparr>sm_data = [7, 8, 9], sm_error = None\<rparr>\<rparr>) (''README'' # binaries)"

definition demo_untar :: untar where
  "demo_untar bs = Inr \<lparr>ax_entries = demo_entries, ax_error = None\<rparr>"

definition demo_disk :: disk where
  "demo_disk = ([], [(''/cache/abc.tar.gz'', \<lparr>fl_mode = 420, fl_data = [1, 2, 3]\<rparr>)])"

theorem extraction_all_or_nothing_witness:
  "\<exists>w'. extractComponentDir ref_fs demo_untar ''/cache/abc.tar.gz'' ''/cache/abc'' demo_disk = (Inr (), w') \<and>
     map_of (snd w') ''/cache/abc/kubelet'' = Some \<lparr>fl_mode = 493, fl_data = [7, 8]\<rparr>"
proof -
  obtain res w' where x: "extractComponentDir ref_fs demo_untar ''/cache/abc.tar.gz'' ''/cache/abc'' demo_disk = (res, w')"
    by (metis surj_pair)
  have "fst (extractComponentDir ref_fs demo_untar ''/cache/abc.tar.gz'' ''/cache/abc'' demo_disk) = Inr ()" by code_simp
  with x have res: "res = Inr ()" by simp
  have name: "''/cache/abc'' = ''/cache'' @ ''/'' @ ''abc''" "plain ''abc''" "hd ''abc'' \<noteq> CHR ''.''"
    by (simp_all add: plain_def dotdot_def)
  have body: "th_mode (te_header e) = 493 \<and> take (th_size (te_header e)) (sm_data (te_body e)) = [7, 8]"
    if "e \<in> set demo_entries" for e using that by (auto simp: demo_entries_def)
  have "''kubelet'' \<in> set binaries" by (simp add: binaries_def)
  with extraction_all_or_nothing [OF disk.file_system_axioms, OF x demo_cache_dir name] res
  obtain e where "e \<in> set demo_entries" "map_of (snd w') (''/cache/abc'' @ ''/'' @ ''kubelet'') =
      Some \<lparr>fl_mode = th_mode (te_header e), fl_data = take (th_size (te_header e)) (sm_data (te_body e))\<rparr>"
    unfolding demo_untar_def by auto
  with body [of e] x res show ?thesis by simp
qed

definition demo_release :: Release where
  "demo_release =
     \<lparr>r_eks_version = ''1.33'', r_channel = ''1-33'', r_number = 20, r_kube_version = ''v1.33.5'',
      r_server_tarball = [(''arm64'', demo_asset)], r_coredns_image = ''dns'', r_kube_proxy_image = ''proxy''\<rparr>"

theorem materialized_dir_complete_witness:
  "\<exists>w'. materialize ref_fs demo_hash demo_untar demo_release ''arm64'' (ref_tarballs [1, 2, 3]) ''/cache'' ([], []) =
      (Inr ''/cache/abc'', w') \<and> map_of (snd w') ''/cache/abc/kubectl'' \<noteq> None"
proof -
  let ?run = "materialize ref_fs demo_hash demo_untar demo_release ''arm64'' (ref_tarballs [1, 2, 3]) ''/cache'' ([], [])"
  obtain res w' where x: "?run = (res, w')" by (metis surj_pair)
  have "fst ?run = Inr ''/cache/abc''" by code_simp
  with x have run: "?run = (Inr ''/cache/abc'', w')" by simp
  have asset: "map_of (r_server_tarball demo_release) ''arm64'' = Some demo_asset" by (simp add: demo_release_def)
  have names: "plain (a_sha256 demo_asset)" "plain (a_sha256 demo_asset @ ''.tar.gz'')" "hd (a_sha256 demo_asset) \<noteq> CHR ''.''"
    by (simp_all add: demo_asset_def plain_def dotdot_def)
  have "''kubectl'' \<in> set binaries" by (simp add: binaries_def)
  with materialized_dir_complete [OF ref_cache.download_world_axioms, OF run asset demo_cache_dir names] run
  show ?thesis by auto
qed

end
