(* ===== verification/Cluster_Api.thy ===== *)
theory Cluster_Api
  imports Kube_Api
begin

text \<open>
  The objects \<open>internal/cluster\<close> installs into a new cluster and the two ways it does so. The
  typed clients of client-go are one parameter, a \<open>cluster_client\<close>; an object is its metadata
  and the part of its kind that the code sets. \<open>create_if_absent\<close> is the shape of the functions
  that leave an existing object alone, \<open>create_or_update\<close> of those that overwrite its spec under
  \<open>RetryOnConflict\<close>; \<open>run_steps\<close> is a sequence of such installations that stops at the first
  error. The locale \<open>cluster_api\<close> says what the API server guarantees while nobody else writes,
  any call may fail; \<open>reliable_cluster\<close> adds that calls fail for documented reasons only.
\<close>

section \<open>Objects\<close>

type_synonym labels = "(string, string) go_map"

record policy_rule =
  pr_api_groups :: "string list"
  pr_resources :: "string list"
  pr_verbs :: "string list"
  pr_resource_names :: "string list"

record role_reference =
  rr_api_group :: string
  rr_kind :: string
  rr_name :: string

record rbac_subject =
  rs_kind :: string
  rs_name :: string
  rs_namespace :: string

record container_port =
  cp_name :: string
  cp_container_port :: int
  cp_host_port :: int
  cp_host_ip :: string
  cp_protocol :: string

record volume_mount =
  vm_name :: string
  vm_path :: string
  vm_read_only :: bool

text \<open>The only volumes of these pods are Secrets.\<close>

record secret_volume =
  sv_name :: string
  sv_secret :: string

record pod_container =
  pc_name :: string
  pc_image :: string
  pc_command :: "string list"
  pc_args :: "string list"
  pc_env :: "(string \<times> string) list"
  pc_ports :: "container_port list"
  pc_mounts :: "volume_mount list"
  pc_privileged :: "bool option"
  pc_capabilities :: "string list"

definition plain_container :: "string \<Rightarrow> string \<Rightarrow> pod_container" where
  "plain_container name img =
     \<lparr>pc_name = name, pc_image = img, pc_command = [], pc_args = [], pc_env = [], pc_ports = [],
      pc_mounts = [], pc_privileged = None, pc_capabilities = []\<rparr>"

definition tcp_port :: "string \<Rightarrow> int \<Rightarrow> container_port" where
  "tcp_port name p =
     \<lparr>cp_name = name, cp_container_port = p, cp_host_port = 0, cp_host_ip = [], cp_protocol = ''TCP''\<rparr>"

record pod_spec =
  ps_service_account :: string
  ps_host_network :: bool
  ps_dns_policy :: string
  ps_tolerations :: "string list"
  ps_init_containers :: "pod_container list"
  ps_containers :: "pod_container list"
  ps_volumes :: "secret_volume list"

definition plain_pod :: "pod_container list \<Rightarrow> pod_spec" where
  "plain_pod containers =
     \<lparr>ps_service_account = [], ps_host_network = False, ps_dns_policy = [], ps_tolerations = [],
      ps_init_containers = [], ps_containers = containers, ps_volumes = []\<rparr>"

text \<open>The spec of a Deployment or of a DaemonSet, which has no replicas.\<close>

record workload_spec =
  ws_replicas :: "int option"
  ws_selector :: labels
  ws_template_labels :: labels
  ws_pod :: pod_spec

record service_port_spec =
  sp_name :: string
  sp_port :: int
  sp_target_port :: int
  sp_node_port :: int

record service_spec =
  ss_type :: string
  ss_selector :: labels
  ss_ports :: "service_port_spec list"

record webhook =
  wh_name :: string
  wh_service_name :: string
  wh_service_namespace :: string
  wh_path :: string
  wh_port :: int
  wh_ca_bundle :: "byte list"
  wh_operations :: "string list"
  wh_resources :: "string list"
  wh_excluded_namespaces :: "string list"
  wh_failure_policy :: string
  wh_side_effects :: string
  wh_review_versions :: "string list"

datatype body =
  ServiceAccount
| ClusterRole "policy_rule list"
| ClusterRoleBinding role_reference "rbac_subject list"
| Deployment workload_spec
| DaemonSet workload_spec
| Service service_spec
| Secret string "(string, byte list) go_map"
| MutatingWebhookConfiguration "webhook list"
| StorageClass string "string option"

datatype kind =
  KServiceAccount | KClusterRole | KClusterRoleBinding | KDeployment | KDaemonSet | KService
| KSecret | KMutatingWebhookConfiguration | KStorageClass

fun kind_of :: "body \<Rightarrow> kind" where
  "kind_of ServiceAccount = KServiceAccount"
| "kind_of (ClusterRole _) = KClusterRole"
| "kind_of (ClusterRoleBinding _ _) = KClusterRoleBinding"
| "kind_of (Deployment _) = KDeployment"
| "kind_of (DaemonSet _) = KDaemonSet"
| "kind_of (Service _) = KService"
| "kind_of (Secret _ _) = KSecret"
| "kind_of (MutatingWebhookConfiguration _) = KMutatingWebhookConfiguration"
| "kind_of (StorageClass _ _) = KStorageClass"

text \<open>Cluster-scoped objects have the empty namespace; nil annotations are \<open>None\<close>.\<close>

record kube_object =
  ko_namespace :: string
  ko_name :: string
  ko_rv :: nat
  ko_annotations :: "(string, string) go_map option"
  ko_body :: body

type_synonym object_id = "kind \<times> string \<times> string"

definition object_id :: "kube_object \<Rightarrow> object_id" where
  "object_id ob = (kind_of (ko_body ob), ko_namespace ob, ko_name ob)"

definition new_object :: "string \<Rightarrow> string \<Rightarrow> body \<Rightarrow> kube_object" where
  "new_object ns name b =
     \<lparr>ko_namespace = ns, ko_name = name, ko_rv = 0, ko_annotations = None, ko_body = b\<rparr>"

lemma object_id_new [simp]: "object_id (new_object ns name b) = (kind_of b, ns, name)"
  by (simp add: object_id_def new_object_def)

lemma new_object_body [simp]: "ko_body (new_object ns name b) = b"
  by (simp add: new_object_def)

section \<open>Installing an object\<close>

record 'w cluster_client =
  cl_create :: "kube_object \<Rightarrow> 'w \<Rightarrow> (go_error + kube_object) \<times> 'w"
  cl_get :: "object_id \<Rightarrow> 'w \<Rightarrow> (go_error + kube_object) \<times> 'w"
  cl_update :: "kube_object \<Rightarrow> 'w \<Rightarrow> (go_error + kube_object) \<times> 'w"
  cl_list :: "kind \<Rightarrow> 'w \<Rightarrow> (go_error + kube_object list) \<times> 'w"
  cl_retry :: "('w \<Rightarrow> (go_error + unit) \<times> 'w) \<Rightarrow> 'w \<Rightarrow> (go_error + unit) \<times> 'w"

text \<open>\<open>noun\<close> is the word the error texts use for the kind.\<close>

definition create_if_absent ::
  "'w cluster_client \<Rightarrow> string \<Rightarrow> kube_object \<Rightarrow> 'w \<Rightarrow> (go_error + unit) \<times> 'w" where
  "create_if_absent c noun ob w =
     (case cl_create c ob w of
        (Inl e, w1) \<Rightarrow>
          if is_already_exists e then (Inr (), w1)
          else (Inl (Wrapf (''create %q '' @ noun @ '': %w'') [ko_name ob] e), w1)
      | (Inr _, w1) \<Rightarrow> (Inr (), w1))"

definition update_attempt ::
  "'w cluster_client \<Rightarrow> string \<Rightarrow> kube_object \<Rightarrow> 'w \<Rightarrow> (go_error + unit) \<times> 'w" where
  "update_attempt c noun desired w =
     (case cl_get c (object_id desired) w of
        (Inl e, w1) \<Rightarrow> (Inl (Wrapf (''get %q '' @ noun @ '': %w'') [ko_name desired] e), w1)
      | (Inr existing, w1) \<Rightarrow>
          (case cl_update c (existing\<lparr>ko_body := ko_body desired\<rparr>) w1 of
             (Inl e, w2) \<Rightarrow> (Inl (Wrapf (''update %q '' @ noun @ '': %w'') [ko_name desired] e), w2)
           | (Inr _, w2) \<Rightarrow> (Inr (), w2)))"

definition create_or_update ::
  "'w cluster_client \<Rightarrow> string \<Rightarrow> kube_object \<Rightarrow> 'w \<Rightarrow> (go_error + unit) \<times> 'w" where
  "create_or_update c noun desired w =
     (case cl_create c desired w of
        (Inr _, w1) \<Rightarrow> (Inr (), w1)
      | (Inl e, w1) \<Rightarrow>
          if \<not> is_already_exists e
          then (Inl (Wrapf (''create %q '' @ noun @ '': %w'') [ko_name desired] e), w1)
          else
            (case cl_retry c (update_attempt c noun desired) w1 of
               (Inl e1, w2) \<Rightarrow> (Inl (Wrapf (''ensure %q '' @ noun @ '': %w'') [ko_name desired] e1), w2)
             | (Inr _, w2) \<Rightarrow> (Inr (), w2)))"

text \<open>Calls in sequence, each after the success of the one before.\<close>

definition and_then ::
  "('w \<Rightarrow> (go_error + unit) \<times> 'w) \<Rightarrow> ('w \<Rightarrow> (go_error + unit) \<times> 'w) \<Rightarrow> 'w \<Rightarrow> (go_error + unit) \<times> 'w" where
  "and_then f g w =
     (case f w of
        (Inl e, w1) \<Rightarrow> (Inl e, w1)
      | (Inr _, w1) \<Rightarrow> g w1)"

definition wrapped ::
  "string \<Rightarrow> ('w \<Rightarrow> (go_error + unit) \<times> 'w) \<Rightarrow> 'w \<Rightarrow> (go_error + unit) \<times> 'w" where
  "wrapped msg f w =
     (case f w of
        (Inl e, w1) \<Rightarrow> (Inl (Wrapf msg [] e), w1)
      | (Inr _, w1) \<Rightarrow> (Inr (), w1))"

section \<open>What the API server guarantees\<close>

text \<open>
  The content of an object is all but its resourceVersion, which the server assigns. \<open>cur\<close> is
  the state of the cluster; every call may fail, and then changes nothing.
\<close>

definition content :: "kube_object \<Rightarrow> kube_object" where
  "content ob = ob\<lparr>ko_rv := 0\<rparr>"

definition contents :: "(object_id \<rightharpoonup> kube_object) \<Rightarrow> object_id \<rightharpoonup> kube_object" where
  "contents m k = map_option content (m k)"

locale cluster_api =
  fixes c :: "'w cluster_client"
    and cur :: "'w \<Rightarrow> object_id \<rightharpoonup> kube_object"
    and retries :: nat
  assumes create_fails:
      "cl_create c ob w = (Inl e, w') \<Longrightarrow>
       cur w' = cur w \<and> (is_already_exists e \<longrightarrow> cur w (object_id ob) \<noteq> None)"
    and create_works:
      "cl_create c ob w = (Inr ob', w') \<Longrightarrow>
       cur w (object_id ob) = None \<and> content ob' = content ob \<and> cur w' = (cur w)(object_id ob \<mapsto> ob')"
    and get_fails: "cl_get c k w = (Inl e, w') \<Longrightarrow> cur w' = cur w"
    and get_works: "cl_get c k w = (Inr ob, w') \<Longrightarrow> cur w' = cur w \<and> cur w k = Some ob"
    and update_fails: "cl_update c ob w = (Inl e, w') \<Longrightarrow> cur w' = cur w"
    and update_works:
      "cl_update c ob w = (Inr ob', w') \<Longrightarrow>
       (\<exists>old. cur w (object_id ob) = Some old \<and> ko_rv old = ko_rv ob) \<and>
       content ob' = content ob \<and> cur w' = (cur w)(object_id ob \<mapsto> ob')"
    and list_fails: "cl_list c kd w = (Inl e, w') \<Longrightarrow> cur w' = cur w"
    and list_works:
      "cl_list c kd w = (Inr obs, w') \<Longrightarrow>
       cur w' = cur w \<and> distinct (map object_id obs) \<and>
       (\<forall>ob. ob \<in> set obs \<longleftrightarrow> fst (object_id ob) = kd \<and> cur w (object_id ob) = Some ob)"
    and retry_law: "cl_retry c f w = retry_spec retries f w"
    and cur_id: "cur w k = Some ob \<Longrightarrow> object_id ob = k"

text \<open>
  What the API server refuses while it answers. A node port belongs to one Service: a Service that
  asks for one that is allocated is refused, before the server looks whether the object exists, so
  a Service that already holds the port is refused too. The type of a Secret, the selector of a
  workload, the role of a binding and the provisioner of a class never change. \<open>admits\<close> stands for
  the rest: the validation of the object, its namespace, the admission control of the cluster.
\<close>

fun node_ports :: "body \<Rightarrow> int list" where
  "node_ports (Service ss) = filter (\<lambda>n. n \<noteq> 0) (map sp_node_port (ss_ports ss))"
| "node_ports _ = []"

definition ports_free :: "(object_id \<rightharpoonup> kube_object) \<Rightarrow> body \<Rightarrow> bool" where
  "ports_free m b \<longleftrightarrow> (\<forall>k ob. m k = Some ob \<longrightarrow> set (node_ports (ko_body ob)) \<inter> set (node_ports b) = {})"

fun immutable_part :: "body \<Rightarrow> (string \<times> string) list" where
  "immutable_part (Secret t _) = [(''type'', t)]"
| "immutable_part (Deployment ws) = ws_selector ws"
| "immutable_part (DaemonSet ws) = ws_selector ws"
| "immutable_part (ClusterRoleBinding rr _) =
     [(''apiGroup'', rr_api_group rr), (''kind'', rr_kind rr), (''name'', rr_name rr)]"
| "immutable_part (StorageClass p m) =
     [(''provisioner'', p), (''volumeBindingMode'', case m of None \<Rightarrow> [] | Some x \<Rightarrow> x)]"
| "immutable_part _ = []"

locale reliable_cluster = cluster_api +
  fixes admits :: "object_id \<Rightarrow> body \<Rightarrow> bool"
  assumes create_reason:
      "cl_create c ob w = (Inl e, w') \<Longrightarrow> admits (object_id ob) (ko_body ob) \<Longrightarrow>
       ports_free (cur w) (ko_body ob) \<Longrightarrow> is_already_exists e"
    and get_reason: "cl_get c k w = (Inl e, w') \<Longrightarrow> cur w k = None"
    and update_reason:
      "cl_update c ob w = (Inl e, w') \<Longrightarrow> cur w (object_id ob) = Some old \<Longrightarrow>
       admits (object_id ob) (ko_body ob) \<Longrightarrow> ports_free (cur w) (ko_body ob) \<Longrightarrow>
       immutable_part (ko_body old) = immutable_part (ko_body ob) \<Longrightarrow> ko_rv old \<noteq> ko_rv ob"

section \<open>Sequences of installations\<close>

text \<open>
  The abstract view of an installation: what it makes of the contents of the cluster. An
  existing object keeps its annotations when it is updated.
\<close>

datatype step = CreateIfAbsent string kube_object | CreateOrUpdate string kube_object

fun step_object :: "step \<Rightarrow> kube_object" where
  "step_object (CreateIfAbsent _ ob) = ob"
| "step_object (CreateOrUpdate _ ob) = ob"

fun run_step :: "'w cluster_client \<Rightarrow> step \<Rightarrow> 'w \<Rightarrow> (go_error + unit) \<times> 'w" where
  "run_step c (CreateIfAbsent noun ob) = create_if_absent c noun ob"
| "run_step c (CreateOrUpdate noun ob) = create_or_update c noun ob"

fun run_steps :: "'w cluster_client \<Rightarrow> step list \<Rightarrow> 'w \<Rightarrow> (go_error + unit) \<times> 'w" where
  "run_steps c [] w = (Inr (), w)"
| "run_steps c (s # ss) w = and_then (run_step c s) (run_steps c ss) w"

fun apply_step :: "step \<Rightarrow> (object_id \<rightharpoonup> kube_object) \<Rightarrow> object_id \<rightharpoonup> kube_object" where
  "apply_step (CreateIfAbsent _ ob) m =
     (case m (object_id ob) of None \<Rightarrow> m(object_id ob \<mapsto> content ob) | Some _ \<Rightarrow> m)"
| "apply_step (CreateOrUpdate _ ob) m =
     m(object_id ob \<mapsto>
       (case m (object_id ob) of
          None \<Rightarrow> content ob
        | Some old \<Rightarrow> old\<lparr>ko_body := ko_body ob\<rparr>))"

abbreviation apply_steps :: "step list \<Rightarrow> (object_id \<rightharpoonup> kube_object) \<Rightarrow> object_id \<rightharpoonup> kube_object" where
  "apply_steps \<equiv> fold apply_step"

lemma content_body [simp]: "ko_body (content ob) = ko_body ob"
  by (simp add: content_def)

lemma content_id [simp]: "object_id (content ob) = object_id ob"
  by (simp add: content_def object_id_def)

lemma content_content [simp]: "content (content ob) = content ob"
  by (simp add: content_def)

lemma content_set_body [simp]: "content (ob\<lparr>ko_body := b\<rparr>) = (content ob)\<lparr>ko_body := b\<rparr>"
  by (simp add: content_def)

lemma contents_upd [simp]: "contents (m(k \<mapsto> ob)) = (contents m)(k \<mapsto> content ob)"
  by (auto simp: contents_def fun_eq_iff)

lemma contents_None_iff [simp]: "contents m k = None \<longleftrightarrow> m k = None"
  by (simp add: contents_def)

lemma contents_Some: "m k = Some ob \<Longrightarrow> contents m k = Some (content ob)"
  by (simp add: contents_def)

lemma set_body_id:
  "kind_of b = kind_of (ko_body ob) \<Longrightarrow> object_id (ob\<lparr>ko_body := b\<rparr>) = object_id ob"
  by (simp add: object_id_def)

lemma object_id_kind: "object_id a = object_id b \<Longrightarrow> kind_of (ko_body a) = kind_of (ko_body b)"
  by (simp add: object_id_def)

context cluster_api begin

text \<open>An update that succeeds overwrites the body of an object that exists.\<close>

lemma update_attempt_works:
  assumes "update_attempt c noun ob w = (Inr (), w')"
  shows "\<exists>old. cur w (object_id ob) = Some old \<and>
    contents (cur w') = (contents (cur w))(object_id ob \<mapsto> (content old)\<lparr>ko_body := ko_body ob\<rparr>)"
proof -
  from assms obtain old w1 new where got: "cl_get c (object_id ob) w = (Inr old, w1)"
    and upd: "cl_update c (old\<lparr>ko_body := ko_body ob\<rparr>) w1 = (Inr new, w')"
    by (auto simp: update_attempt_def split: prod.splits sum.splits)
  from get_works [OF got] have old: "cur w1 = cur w" "cur w (object_id ob) = Some old" by simp_all
  have id: "object_id (old\<lparr>ko_body := ko_body ob\<rparr>) = object_id ob"
    using cur_id [OF old(2)] set_body_id object_id_kind by metis
  show ?thesis using update_works [OF upd] old by (simp add: id)
qed

lemma update_attempt_fails:
  "update_attempt c noun ob w = (Inl e, w') \<Longrightarrow> cur w' = cur w"
  by (auto simp: update_attempt_def dest!: get_fails get_works update_fails split: prod.splits sum.splits)

lemma retry_update_works:
  "retry_spec n (update_attempt c noun ob) w = (Inr (), w') \<Longrightarrow>
   \<exists>old. cur w (object_id ob) = Some old \<and>
     contents (cur w') = (contents (cur w))(object_id ob \<mapsto> (content old)\<lparr>ko_body := ko_body ob\<rparr>)"
proof (induction n arbitrary: w)
  case 0
  then show ?case using update_attempt_works by (metis retry_spec.simps(1))
next
  case (Suc n)
  obtain r w1 where att: "update_attempt c noun ob w = (r, w1)" by fastforce
  show ?case
  proof (cases r)
    case (Inl e)
    with att update_attempt_fails have "cur w1 = cur w" by blast
    moreover from Suc.prems Inl att have "retry_spec n (update_attempt c noun ob) w1 = (Inr (), w')"
      by (simp split: if_splits)
    note Suc.IH [OF this]
    ultimately show ?thesis by simp
  next
    case (Inr u)
    with Suc.prems att have "update_attempt c noun ob w = (Inr (), w')" by simp
    then show ?thesis by (rule update_attempt_works)
  qed
qed

lemma retry_update_fails:
  "retry_spec n (update_attempt c noun ob) w = (Inl e, w') \<Longrightarrow> cur w' = cur w"
proof (induction n arbitrary: w)
  case (Suc n)
  obtain r w1 where att: "update_attempt c noun ob w = (r, w1)" by fastforce
  with Suc show ?case by (cases r) (auto dest: update_attempt_fails split: if_splits)
qed (simp add: update_attempt_fails)

text \<open>A step that succeeds is its abstract step; one that fails changes nothing.\<close>

lemma run_step_works:
  assumes "run_step c s w = (Inr (), w')"
  shows "contents (cur w') = apply_step s (contents (cur w))"
proof (cases s)
  case (CreateIfAbsent noun ob)
  obtain r w1 where cr: "cl_create c ob w = (r, w1)" by fastforce
  show ?thesis
  proof (cases r)
    case (Inl e)
    with assms cr CreateIfAbsent have "is_already_exists e" "w' = w1"
      by (auto simp: create_if_absent_def split: if_splits)
    with create_fails [OF cr [unfolded Inl]] CreateIfAbsent show ?thesis by (auto dest: contents_Some)
  next
    case (Inr ob')
    with assms cr CreateIfAbsent have "w' = w1" by (simp add: create_if_absent_def)
    with create_works [OF cr [unfolded Inr]] CreateIfAbsent show ?thesis by (simp add: contents_def)
  qed
next
  case (CreateOrUpdate noun ob)
  obtain r w1 where cr: "cl_create c ob w = (r, w1)" by fastforce
  show ?thesis
  proof (cases r)
    case (Inl e)
    with assms cr CreateOrUpdate have "retry_spec retries (update_attempt c noun ob) w1 = (Inr (), w')"
      by (auto simp: create_or_update_def retry_law split: if_splits prod.splits sum.splits)
    from retry_update_works [OF this] create_fails [OF cr [unfolded Inl]] CreateOrUpdate
    show ?thesis by (auto dest: contents_Some)
  next
    case (Inr ob')
    with assms cr CreateOrUpdate have "w' = w1" by (simp add: create_or_update_def)
    with create_works [OF cr [unfolded Inr]] CreateOrUpdate show ?thesis by (simp add: contents_def)
  qed
qed

lemma run_step_fails:
  assumes "run_step c s w = (Inl e, w')"
  shows "cur w' = cur w"
proof (cases s)
  case (CreateIfAbsent noun ob)
  with assms show ?thesis
    by (auto simp: create_if_absent_def dest: create_fails split: if_splits prod.splits sum.splits)
next
  case (CreateOrUpdate noun ob)
  obtain r w1 where cr: "cl_create c ob w = (r, w1)" by fastforce
  with assms CreateOrUpdate have "\<exists>e1. r = Inl e1" by (auto simp: create_or_update_def split: sum.splits)
  with cr create_fails have same: "cur w1 = cur w" by blast
  from assms CreateOrUpdate cr \<open>\<exists>e1. r = Inl e1\<close> have
    "w' = w1 \<or> (\<exists>e2. retry_spec retries (update_attempt c noun ob) w1 = (Inl e2, w'))"
    by (auto simp: create_or_update_def retry_law split: if_splits prod.splits sum.splits)
  with same show ?thesis using retry_update_fails by metis
qed

text \<open>A run installs a prefix of its steps, all of them exactly when it succeeds.\<close>

lemma run_steps_prefix:
  "run_steps c ss w = (r, w') \<Longrightarrow>
   \<exists>n \<le> length ss. contents (cur w') = apply_steps (take n ss) (contents (cur w)) \<and>
     (r = Inr () \<longleftrightarrow> n = length ss)"
proof (induction ss arbitrary: w)
  case Nil
  then show ?case by auto
next
  case (Cons s ss)
  obtain q w1 where step: "run_step c s w = (q, w1)" by fastforce
  show ?case
  proof (cases q)
    case (Inl e)
    with Cons.prems step have "r = Inl e" "w' = w1" by (simp_all add: and_then_def)
    with run_step_fails [OF step [unfolded Inl]] show ?thesis by (intro exI [of _ 0]) auto
  next
    case (Inr u)
    with Cons.prems step have "run_steps c ss w1 = (r, w')" by (simp add: and_then_def)
    from Cons.IH [OF this] obtain n where n: "n \<le> length ss"
        "contents (cur w') = apply_steps (take n ss) (contents (cur w1))"
        "r = Inr () \<longleftrightarrow> n = length ss" by blast
    with run_step_works [of s w w1] step Inr show ?thesis by (intro exI [of _ "Suc n"]) auto
  qed
qed

lemma run_steps_works:
  "run_steps c ss w = (Inr (), w') \<Longrightarrow> contents (cur w') = apply_steps ss (contents (cur w))"
  using run_steps_prefix [of ss w "Inr ()" w'] by auto

end

section \<open>What a run leaves behind\<close>

abbreviation step_id :: "step \<Rightarrow> object_id" where
  "step_id s \<equiv> object_id (step_object s)"

lemma apply_step_other [simp]: "k \<noteq> step_id s \<Longrightarrow> apply_step s m k = m k"
  by (cases s) (auto split: option.splits)

lemma apply_steps_other: "k \<notin> step_id ` set ss \<Longrightarrow> apply_steps ss m k = m k"
  by (induction ss arbitrary: m) simp_all

lemma apply_step_cong: "m k = n k \<Longrightarrow> apply_step s m k = apply_step s n k"
  by (cases s; cases "k = step_id s") (auto split: option.splits)

lemma apply_steps_lookup:
  assumes "distinct (map step_id ss)" and "s \<in> set ss"
  shows "apply_steps ss m (step_id s) = apply_step s m (step_id s)"
  using assms
proof (induction ss arbitrary: m)
  case (Cons t ss)
  show ?case
  proof (cases "s = t")
    case True
    with Cons.prems have "step_id s \<notin> step_id ` set ss" by auto
    with True show ?thesis by (simp add: apply_steps_other)
  next
    case False
    with Cons.prems have s: "s \<in> set ss" by simp
    then have "step_id s \<in> step_id ` set ss" by blast
    with Cons.prems have "step_id s \<noteq> step_id t" by auto
    with s Cons show ?thesis by (simp add: apply_step_cong [of "apply_step t m" _ m])
  qed
qed simp

lemma apply_step_twice: "apply_step s (apply_step s m) = apply_step s m"
  by (cases s) (auto simp: fun_eq_iff split: option.splits)

lemma apply_steps_twice:
  assumes "distinct (map step_id ss)"
  shows "apply_steps ss (apply_steps ss m) = apply_steps ss m"
proof
  fix k
  show "apply_steps ss (apply_steps ss m) k = apply_steps ss m k"
  proof (cases "k \<in> step_id ` set ss")
    case True
    then obtain s where s: "s \<in> set ss" "k = step_id s" by auto
    have "apply_steps ss (apply_steps ss m) k = apply_step s (apply_steps ss m) k"
      using apply_steps_lookup [OF assms s(1)] s(2) by simp
    also have "\<dots> = apply_step s (apply_step s m) k"
      using apply_steps_lookup [OF assms s(1)] s(2) by (intro apply_step_cong) simp
    also have "\<dots> = apply_steps ss m k"
      using apply_steps_lookup [OF assms s(1)] s(2) by (simp add: apply_step_twice)
    finally show ?thesis .
  qed (simp add: apply_steps_other)
qed

lemma apply_step_fresh:
  "m (step_id s) = None \<Longrightarrow> apply_step s m (step_id s) = Some (content (step_object s))"
  by (cases s) auto

lemma apply_steps_fresh:
  assumes "distinct (map step_id ss)" and "s \<in> set ss" and "m (step_id s) = None"
  shows "apply_steps ss m (step_id s) = Some (content (step_object s))"
  using apply_steps_lookup [OF assms(1,2)] apply_step_fresh [of m s] assms(3) by simp

lemma apply_steps_updated:
  assumes "distinct (map step_id ss)" and "CreateOrUpdate noun ob \<in> set ss"
  shows "map_option ko_body (apply_steps ss m (object_id ob)) = Some (ko_body ob)"
  using apply_steps_lookup [OF assms] by (auto split: option.splits)

section \<open>Runs that succeed\<close>

text \<open>
  A step that the API server does not refuse in a state of the cluster; it depends on the contents
  only. Steps that are apart do not make each other refused.
\<close>

definition can_apply ::
  "(object_id \<Rightarrow> body \<Rightarrow> bool) \<Rightarrow> (object_id \<rightharpoonup> kube_object) \<Rightarrow> step \<Rightarrow> bool" where
  "can_apply admits m s \<longleftrightarrow>
     admits (step_id s) (ko_body (step_object s)) \<and> ports_free m (ko_body (step_object s)) \<and>
     (case s of
        CreateIfAbsent _ _ \<Rightarrow> True
      | CreateOrUpdate _ ob \<Rightarrow>
          \<forall>old. m (object_id ob) = Some old \<longrightarrow> immutable_part (ko_body old) = immutable_part (ko_body ob))"

definition apart :: "step \<Rightarrow> step \<Rightarrow> bool" where
  "apart s t \<longleftrightarrow>
     step_id s \<noteq> step_id t \<and> set (node_ports (ko_body (step_object s))) \<inter> set (node_ports (ko_body (step_object t))) = {}"

abbreviation ready ::
  "(object_id \<Rightarrow> body \<Rightarrow> bool) \<Rightarrow> (object_id \<rightharpoonup> kube_object) \<Rightarrow> step list \<Rightarrow> bool" where
  "ready admits m ss \<equiv> list_all (can_apply admits m) ss"

lemma ports_free_contents [simp]: "ports_free (contents m) = ports_free m"
  by (fastforce simp: fun_eq_iff ports_free_def contents_def)

lemma can_apply_contents [simp]: "can_apply admits (contents m) = can_apply admits m"
  by (fastforce simp: fun_eq_iff can_apply_def contents_def split: step.splits)

lemma can_apply_portless:
  "node_ports (ko_body (step_object s)) = [] \<Longrightarrow> m (step_id s) = n (step_id s) \<Longrightarrow>
   can_apply admits m s \<Longrightarrow> can_apply admits n s"
  by (cases s) (simp_all add: can_apply_def ports_free_def)

lemma apply_step_body:
  "apply_step s m k = Some ob \<Longrightarrow> m k = Some ob \<or> ko_body ob = ko_body (step_object s)"
  by (cases s) (auto split: if_splits option.splits)

lemma can_apply_step:
  assumes "can_apply admits m t" and "apart s t"
  shows "can_apply admits (apply_step s m) t"
proof -
  have "set (node_ports (ko_body ob)) \<inter> set (node_ports (ko_body (step_object t))) = {}"
    if "apply_step s m k = Some ob" for k ob
    using apply_step_body [OF that]
  proof
    assume "m k = Some ob"
    with assms(1) show ?thesis unfolding can_apply_def ports_free_def by blast
  next
    assume "ko_body ob = ko_body (step_object s)"
    with assms(2) show ?thesis by (simp add: apart_def)
  qed
  then have "ports_free (apply_step s m) (ko_body (step_object t))" by (simp add: ports_free_def)
  moreover have "apply_step s m (step_id t) = m (step_id t)"
    using assms(2) by (intro apply_step_other) (auto simp: apart_def)
  ultimately show ?thesis using assms(1) by (cases t) (simp_all add: can_apply_def)
qed

lemma ready_step:
  "ready admits m ts \<Longrightarrow> list_all (apart s) ts \<Longrightarrow> ready admits (apply_step s m) ts"
  by (auto simp: list_all_iff intro: can_apply_step)

context reliable_cluster begin

lemma update_attempt_reliable:
  assumes "cur w (object_id ob) = Some old" and "can_apply admits (cur w) (CreateOrUpdate noun ob)"
  shows "\<exists>w'. update_attempt c noun ob w = (Inr (), w')"
proof -
  obtain r w1 where got: "cl_get c (object_id ob) w = (r, w1)" by fastforce
  with get_reason assms(1) obtain old' where r: "r = Inr old'" by (cases r) auto
  from get_works [OF got [unfolded r]] assms(1) have old: "old' = old" "cur w1 = cur w" by simp_all
  let ?new = "old\<lparr>ko_body := ko_body ob\<rparr>"
  have id: "object_id ?new = object_id ob"
    using cur_id [OF assms(1)] set_body_id object_id_kind by metis
  obtain q w2 where upd: "cl_update c ?new w1 = (q, w2)" by fastforce
  have "q \<noteq> Inl e" for e
    using update_reason [of ?new w1 e w2 old] upd assms id old(2) by (auto simp: can_apply_def)
  then obtain ob' where "q = Inr ob'" by (cases q) auto
  with got r old upd show ?thesis by (simp add: update_attempt_def)
qed

lemma run_step_reliable:
  assumes "can_apply admits (cur w) s"
  shows "\<exists>w'. run_step c s w = (Inr (), w')"
proof -
  obtain r w1 where cr: "cl_create c (step_object s) w = (r, w1)" by fastforce
  show ?thesis
  proof (cases r)
    case (Inl e)
    note cr = cr [unfolded this]
    from create_reason [OF cr] assms have ex: "is_already_exists e" by (simp add: can_apply_def)
    with create_fails [OF cr] obtain old where
      same: "cur w1 = cur w" and "cur w1 (step_id s) = Some old" by auto
    show ?thesis
    proof (cases s)
      case (CreateOrUpdate noun ob)
      with update_attempt_reliable [of w1 ob old noun] same \<open>cur w1 (step_id s) = Some old\<close> assms
      obtain w2 where "update_attempt c noun ob w1 = (Inr (), w2)" by auto
      then have "retry_spec retries (update_attempt c noun ob) w1 = (Inr (), w2)"
        by (rule retry_spec_no_conflict) simp
      with cr ex CreateOrUpdate show ?thesis by (simp add: create_or_update_def retry_law)
    qed (use cr ex in \<open>simp add: create_if_absent_def\<close>)
  qed (use cr in \<open>cases s; simp add: create_if_absent_def create_or_update_def\<close>)
qed

text \<open>A run of steps that are apart succeeds, and leaves the steps after it applicable.\<close>

lemma run_steps_reliable:
  "sorted_wrt apart (ss @ ts) \<Longrightarrow> ready admits (cur w) (ss @ ts) \<Longrightarrow>
   \<exists>w'. run_steps c ss w = (Inr (), w') \<and> ready admits (cur w') ts"
proof (induction ss arbitrary: w)
  case (Cons s ss)
  then obtain w1 where s: "run_step c s w = (Inr (), w1)" using run_step_reliable [of w s] by auto
  have "ready admits (apply_step s (contents (cur w))) (ss @ ts)"
    using Cons.prems by (intro ready_step) (auto simp: list_all_iff)
  then have "ready admits (cur w1) (ss @ ts)" using run_step_works [OF s] by (metis can_apply_contents)
  with Cons s show ?case by (auto simp: and_then_def)
qed simp

end

section \<open>A reference cluster\<close>

text \<open>
  The reference server of \<open>Kube_Api\<close> with a list of these objects beside the registries, a
  counter that is the resourceVersion it assigns next, and a schedule of the calls that fail for
  no reason of their own.
\<close>

record cluster_state = ref_world +
  cs_calls :: nat
  cs_objects :: "kube_object list"

definition cluster_objects :: "'a cluster_state_scheme \<Rightarrow> object_id \<rightharpoonup> kube_object" where
  "cluster_objects s k = find (\<lambda>ob. object_id ob = k) (cs_objects s)"

definition tick :: "'a cluster_state_scheme \<Rightarrow> 'a cluster_state_scheme" where
  "tick s = s\<lparr>cs_calls := Suc (cs_calls s)\<rparr>"

definition selects_template :: "workload_spec \<Rightarrow> bool" where
  "selects_template ws \<longleftrightarrow> ws_selector ws \<noteq> [] \<and> set (ws_selector ws) \<subseteq> set (ws_template_labels ws)"

text \<open>Of validation, that the selector of a workload is not empty and selects its own pods.\<close>

fun ref_admits :: "object_id \<Rightarrow> body \<Rightarrow> bool" where
  "ref_admits _ (Deployment ws) = selects_template ws"
| "ref_admits _ (DaemonSet ws) = selects_template ws"
| "ref_admits _ _ = True"

definition live_objects :: "'a cluster_state_scheme \<Rightarrow> kube_object list" where
  "live_objects s = filter (\<lambda>x. cluster_objects s (object_id x) = Some x) (cs_objects s)"

definition ref_refuses :: "kube_object list \<Rightarrow> kube_object \<Rightarrow> bool" where
  "ref_refuses holders ob \<longleftrightarrow>
     \<not> ref_admits (object_id ob) (ko_body ob) \<or>
     (\<exists>x \<in> set holders. set (node_ports (ko_body x)) \<inter> set (node_ports (ko_body ob)) \<noteq> {})"

definition ref_cluster :: "(nat \<Rightarrow> bool) \<Rightarrow> 'a cluster_state_scheme cluster_client" where
  "ref_cluster flaky =
     \<lparr>cl_create = (\<lambda>ob s.
        if flaky (cs_calls s) then (Inl (ApiError (OtherReason ''InternalError'')), tick s)
        else if ref_refuses (live_objects s) ob then (Inl (ApiError (OtherReason ''Invalid'')), tick s)
        else if cluster_objects s (object_id ob) \<noteq> None then (Inl (ApiError AlreadyExists), tick s)
        else (let ob' = ob\<lparr>ko_rv := Suc (cs_calls s)\<rparr>
              in (Inr ob', (tick s)\<lparr>cs_objects := cs_objects s @ [ob']\<rparr>))),
      cl_get = (\<lambda>k s.
        if flaky (cs_calls s) then (Inl (ApiError (OtherReason ''InternalError'')), tick s)
        else (case cluster_objects s k of
                None \<Rightarrow> (Inl (ApiError NotFound), tick s)
              | Some ob \<Rightarrow> (Inr ob, tick s))),
      cl_update = (\<lambda>ob s.
        if flaky (cs_calls s) then (Inl (ApiError (OtherReason ''InternalError'')), tick s)
        else (case cluster_objects s (object_id ob) of
                None \<Rightarrow> (Inl (ApiError NotFound), tick s)
              | Some old \<Rightarrow>
                  if ko_rv old \<noteq> ko_rv ob then (Inl (ApiError Conflict), tick s)
                  else if ref_refuses (filter (\<lambda>x. object_id x \<noteq> object_id ob) (live_objects s)) ob \<or>
                      immutable_part (ko_body old) \<noteq> immutable_part (ko_body ob)
                  then (Inl (ApiError (OtherReason ''Invalid'')), tick s)
                  else (let ob' = ob\<lparr>ko_rv := Suc (cs_calls s)\<rparr>
                        in (Inr ob', (tick s)\<lparr>cs_objects :=
                             map (\<lambda>x. if object_id x = object_id ob then ob' else x) (cs_objects s)\<rparr>)))),
      cl_list = (\<lambda>kd s.
        if flaky (cs_calls s) then (Inl (ApiError (OtherReason ''InternalError'')), tick s)
        else (Inr (filter (\<lambda>ob. fst (object_id ob) = kd \<and> cluster_objects s (object_id ob) = Some ob)
                     (remdups (cs_objects s))), tick s)),
      cl_retry = retry_spec 4\<rparr>"

lemma object_id_rv [simp]: "object_id (ob\<lparr>ko_rv := n\<rparr>) = object_id ob"
  by (simp add: object_id_def)

lemma content_rv [simp]: "content (ob\<lparr>ko_rv := n\<rparr>) = content ob"
  by (simp add: content_def)

lemma cluster_objects_tick [simp]: "cluster_objects (tick s) = cluster_objects s"
  by (simp add: fun_eq_iff cluster_objects_def tick_def)

lemma find_appended:
  "find P (xs @ ys) = (case find P xs of None \<Rightarrow> find P ys | Some x \<Rightarrow> Some x)"
  by (induction xs) auto

lemma find_SomeD: "find P xs = Some x \<Longrightarrow> P x \<and> x \<in> set xs"
  by (auto simp: find_Some_iff)

lemma cluster_objects_append:
  "cluster_objects s (object_id ob) = None \<Longrightarrow>
   cluster_objects (t\<lparr>cs_objects := cs_objects s @ [ob]\<rparr>) = (cluster_objects s)(object_id ob \<mapsto> ob)"
  by (auto simp: fun_eq_iff cluster_objects_def find_appended split: option.splits)

lemma find_replace:
  "find (\<lambda>x. object_id x = k) (map (\<lambda>x. if object_id x = object_id ob then ob else x) xs) =
   (case find (\<lambda>x. object_id x = k) xs of
      None \<Rightarrow> None
    | Some x \<Rightarrow> Some (if object_id x = object_id ob then ob else x))"
  by (induction xs) auto

lemma cluster_objects_replace:
  "cluster_objects s (object_id ob) \<noteq> None \<Longrightarrow>
   cluster_objects (t\<lparr>cs_objects := map (\<lambda>x. if object_id x = object_id ob then ob else x) (cs_objects s)\<rparr>) =
     (cluster_objects s)(object_id ob \<mapsto> ob)"
  by (fastforce simp: fun_eq_iff cluster_objects_def find_replace dest: find_SomeD split: option.splits)

interpretation ref_cluster: cluster_api "ref_cluster flaky" cluster_objects 4 for flaky
proof (unfold_locales, goal_cases)
  case (1 ob w e w')
  then show ?case by (auto simp: ref_cluster_def Let_def is_already_exists_def split: if_splits)
next
  case (2 ob w ob' w')
  then show ?case
    using cluster_objects_append [of w "ob\<lparr>ko_rv := Suc (cs_calls w)\<rparr>"]
    by (auto simp: ref_cluster_def Let_def split: if_splits)
next
  case (6 ob w ob' w')
  then show ?case
    using cluster_objects_replace [of w "ob\<lparr>ko_rv := Suc (cs_calls w)\<rparr>"]
    by (auto simp: ref_cluster_def Let_def split: if_splits option.splits)
next
  case (8 kd w obs w')
  then have obs: "obs = filter (\<lambda>ob. fst (object_id ob) = kd \<and> cluster_objects w (object_id ob) = Some ob)
      (remdups (cs_objects w))" and w': "w' = tick w"
    by (auto simp: ref_cluster_def split: if_splits)
  have "inj_on object_id (set obs)"
  proof (rule inj_onI)
    fix x y
    assume "x \<in> set obs" "y \<in> set obs" and id: "object_id x = object_id y"
    then have "cluster_objects w (object_id x) = Some x" "cluster_objects w (object_id y) = Some y"
      unfolding obs set_filter by blast+
    with id show "x = y" by (metis option.inject)
  qed
  moreover have "distinct obs" unfolding obs by (rule distinct_filter [OF distinct_remdups])
  ultimately have "distinct (map object_id obs)" by (simp only: distinct_map)
  moreover have "ob \<in> set (cs_objects w)" if "cluster_objects w (object_id ob) = Some ob" for ob
    using find_SomeD [OF that [unfolded cluster_objects_def]] by simp
  then have "\<forall>ob. ob \<in> set obs \<longleftrightarrow>
      fst (object_id ob) = kd \<and> cluster_objects (tick w) (object_id ob) = Some ob"
    unfolding obs by (simp only: set_filter set_remdups cluster_objects_tick) blast
  ultimately show ?case unfolding w' by simp
next
  case (10 w k ob)
  then show ?case by (auto simp: cluster_objects_def find_Some_iff)
qed (auto simp: ref_cluster_def Let_def split: if_splits option.splits)

lemma ref_refuses_reason:
  "ref_refuses holders ob \<Longrightarrow> set holders \<subseteq> set (live_objects s) \<Longrightarrow>
   ref_admits (object_id ob) (ko_body ob) \<Longrightarrow> ports_free (cluster_objects s) (ko_body ob) \<Longrightarrow> False"
  unfolding ref_refuses_def ports_free_def live_objects_def by fastforce

interpretation ref_reliable: reliable_cluster "ref_cluster (\<lambda>_. False)" cluster_objects 4 ref_admits
proof (unfold_locales, goal_cases)
  case (1 ob w e w')
  then show ?case
    using ref_refuses_reason [of "live_objects w" ob w]
    by (auto simp: ref_cluster_def Let_def is_reason_defs split: if_splits)
next
  case (3 ob w e w' old)
  then show ?case
    using ref_refuses_reason [of "filter (\<lambda>x. object_id x \<noteq> object_id ob) (live_objects w)" ob w]
    by (auto simp: ref_cluster_def Let_def split: if_splits)
qed (auto simp: ref_cluster_def split: option.splits)

end
