(* ===== verification/Agent_Install.thy ===== *)
theory Agent_Install
  imports Cluster_Api
begin

text \<open>
  The installation of the agent (\<open>internal/cluster/agent.go\<close>) and of the workloads beside it: the
  AWS emulator (\<open>kumo.go\<close>), the instance metadata service (\<open>imds.go\<close>), the pod identity agent
  (\<open>podidentity.go\<close>) and the authenticator (\<open>authenticator.go\<close>). Each object is a definition,
  and each \<open>ensure\<close> function installs it in one of the two ways of \<open>Cluster_Api\<close>.
\<close>

section \<open>The agent\<close>

definition agentName :: string where
  "agentName = ''fjord-agent''"

definition agentNodePortServiceName :: string where
  "agentNodePortServiceName = ''fjord-agent-nodeport''"

definition agentPort :: int where
  "agentPort = 8080"

definition AgentNodePort :: int where
  "AgentNodePort = 30080"

definition AgentLoopbackHost :: string where
  "AgentLoopbackHost = ''127.0.0.1''"

definition AgentTLSCertName :: string where
  "AgentTLSCertName = ''fjord-agent-tls''"

definition agentTLSMountPath :: string where
  "agentTLSMountPath = ''/etc/fjord/tls''"

definition agentInjectorPort :: int where
  "agentInjectorPort = 8443"

definition agentLabels :: labels where
  "agentLabels = [(''app'', agentName)]"

definition service_account :: "string \<Rightarrow> kube_object" where
  "service_account name = new_object SystemNamespace name ServiceAccount"

definition ensureServiceAccount :: "'w cluster_client \<Rightarrow> 'w \<Rightarrow> (go_error + unit) \<times> 'w" where
  "ensureServiceAccount c = create_if_absent c ''service account'' (service_account agentName)"

definition rule :: "string list \<Rightarrow> string list \<Rightarrow> string list \<Rightarrow> policy_rule" where
  "rule groups resources verbs =
     \<lparr>pr_api_groups = groups, pr_resources = resources, pr_verbs = verbs, pr_resource_names = []\<rparr>"

definition baseRules :: "policy_rule list" where
  "baseRules =
     [rule [''''] [''secrets'', ''configmaps''] [''get'', ''list'', ''create'', ''update'', ''patch''],
      rule [''authentication.k8s.io''] [''tokenreviews''] [''create''],
      rule [''''] [''serviceaccounts''] [''get''],
      rule [''rbac.authorization.k8s.io''] [''clusterrolebindings'', ''rolebindings'']
        [''get'', ''create'', ''delete''],
      (rule [''rbac.authorization.k8s.io''] [''clusterroles''] [''bind''])
        \<lparr>pr_resource_names := [''cluster-admin'', ''admin'', ''edit'', ''view'']\<rparr>]"

definition clusterNetworkPolicyControllerRules :: "policy_rule list" where
  "clusterNetworkPolicyControllerRules =
     [rule [''networking.k8s.aws''] [''clusternetworkpolicies''] [''get'', ''list'', ''watch''],
      rule [''''] [''namespaces''] [''get'', ''list'', ''watch''],
      rule [''networking.k8s.io''] [''networkpolicies'']
        [''get'', ''list'', ''watch'', ''create'', ''update'', ''patch'', ''delete'']]"

definition targetGroupBindingControllerRules :: "policy_rule list" where
  "targetGroupBindingControllerRules =
     [rule [''''] [''services''] [''get'', ''list'', ''watch'', ''create'', ''update'', ''delete''],
      rule [''elbv2.k8s.aws''] [''targetgroupbindings''] [''get'', ''list'', ''watch'']]"

definition agent_rules :: "policy_rule list" where
  "agent_rules =
     concat [baseRules, clusterNetworkPolicyControllerRules, targetGroupBindingControllerRules]"

definition agent_cluster_role :: kube_object where
  "agent_cluster_role = new_object [] agentName (ClusterRole agent_rules)"

definition ensureClusterRole :: "'w cluster_client \<Rightarrow> 'w \<Rightarrow> (go_error + unit) \<times> 'w" where
  "ensureClusterRole c = create_if_absent c ''cluster role'' agent_cluster_role"

text \<open>A binding of a ClusterRole to a ServiceAccount of the system namespace.\<close>

definition cluster_role_binding :: "string \<Rightarrow> string \<Rightarrow> string \<Rightarrow> kube_object" where
  "cluster_role_binding name role account =
     new_object [] name
       (ClusterRoleBinding
         \<lparr>rr_api_group = ''rbac.authorization.k8s.io'', rr_kind = ''ClusterRole'', rr_name = role\<rparr>
         [\<lparr>rs_kind = ''ServiceAccount'', rs_name = account, rs_namespace = SystemNamespace\<rparr>])"

definition ensureClusterRoleBinding :: "'w cluster_client \<Rightarrow> 'w \<Rightarrow> (go_error + unit) \<times> 'w" where
  "ensureClusterRoleBinding c =
     create_if_absent c ''cluster role binding'' (cluster_role_binding agentName agentName agentName)"

definition agentContainerArgs :: "bool \<Rightarrow> string \<Rightarrow> bool \<Rightarrow> string list" where
  "agentContainerArgs enableIRSA awsEndpointURL enableLoadBalancer =
     (let args0 = [''serve'', ''api'', ''--port'', string_of_int agentPort];
          args1 = (if \<not> enableIRSA then args0 @ [''--injector-port'', ''0'']
                   else args0 @ [''--injector-port'', string_of_int agentInjectorPort,
                                 ''--tls-cert-file'', agentTLSMountPath @ ''/tls.crt'',
                                 ''--tls-key-file'', agentTLSMountPath @ ''/tls.key'']);
          args2 = (if awsEndpointURL \<noteq> [] then args1 @ [''--aws-endpoint-url'', awsEndpointURL] else args1)
      in if enableLoadBalancer then args2 @ [''--enable-loadbalancer''] else args2)"

definition agentDeployment :: "string \<Rightarrow> bool \<Rightarrow> string \<Rightarrow> bool \<Rightarrow> kube_object" where
  "agentDeployment img enableIRSA awsEndpointURL enableLoadBalancer =
     (let container =
            (plain_container agentName img)
              \<lparr>pc_args := agentContainerArgs enableIRSA awsEndpointURL enableLoadBalancer,
               pc_ports := [tcp_port ''http'' agentPort]\<rparr>;
          container1 =
            (if enableIRSA
             then container
               \<lparr>pc_ports := pc_ports container @ [tcp_port ''injector'' agentInjectorPort],
                pc_mounts := [\<lparr>vm_name = ''tls'', vm_path = agentTLSMountPath, vm_read_only = True\<rparr>]\<rparr>
             else container);
          spec =
            (plain_pod [container1])
              \<lparr>ps_service_account := agentName,
               ps_volumes := (if enableIRSA then [\<lparr>sv_name = ''tls'', sv_secret = AgentTLSCertName\<rparr>]
                              else [])\<rparr>
      in new_object SystemNamespace agentName
           (Deployment \<lparr>ws_replicas = Some 1, ws_selector = agentLabels,
                        ws_template_labels = agentLabels, ws_pod = spec\<rparr>))"

definition ensureDeployment ::
  "'w cluster_client \<Rightarrow> string \<Rightarrow> bool \<Rightarrow> string \<Rightarrow> bool \<Rightarrow> 'w \<Rightarrow> (go_error + unit) \<times> 'w" where
  "ensureDeployment c img enableIRSA awsEndpointURL enableLoadBalancer =
     create_or_update c ''deployment'' (agentDeployment img enableIRSA awsEndpointURL enableLoadBalancer)"

definition service_port_at :: "string \<Rightarrow> int \<Rightarrow> service_port_spec" where
  "service_port_at name p = \<lparr>sp_name = name, sp_port = p, sp_target_port = p, sp_node_port = 0\<rparr>"

definition agent_service :: "bool \<Rightarrow> kube_object" where
  "agent_service enableIRSA =
     new_object SystemNamespace agentName
       (Service \<lparr>ss_type = [], ss_selector = agentLabels,
          ss_ports = service_port_at ''http'' agentPort #
            (if enableIRSA then [service_port_at ''injector'' agentInjectorPort] else [])\<rparr>)"

definition ensureService :: "'w cluster_client \<Rightarrow> bool \<Rightarrow> 'w \<Rightarrow> (go_error + unit) \<times> 'w" where
  "ensureService c enableIRSA = create_if_absent c ''service'' (agent_service enableIRSA)"

definition agent_node_port_service :: kube_object where
  "agent_node_port_service =
     new_object SystemNamespace agentNodePortServiceName
       (Service \<lparr>ss_type = ''NodePort'', ss_selector = agentLabels,
          ss_ports = [(service_port_at ''http'' agentPort)\<lparr>sp_node_port := AgentNodePort\<rparr>]\<rparr>)"

definition ensureNodePortService :: "'w cluster_client \<Rightarrow> 'w \<Rightarrow> (go_error + unit) \<times> 'w" where
  "ensureNodePortService c = create_if_absent c ''service'' agent_node_port_service"

definition EnsureAgent ::
  "'w cluster_client \<Rightarrow> string \<Rightarrow> bool \<Rightarrow> string \<Rightarrow> bool \<Rightarrow> 'w \<Rightarrow> (go_error + unit) \<times> 'w" where
  "EnsureAgent c img enableIRSA awsEndpointURL enableLoadBalancer =
     and_then (ensureServiceAccount c)
    (and_then (ensureClusterRole c)
    (and_then (ensureClusterRoleBinding c)
    (and_then (ensureDeployment c img enableIRSA awsEndpointURL enableLoadBalancer)
    (and_then (ensureService c enableIRSA)
              (ensureNodePortService c)))))"

section \<open>The AWS emulator\<close>

definition kumoName :: string where
  "kumoName = ''kumo''"

definition kumoPort :: int where
  "kumoPort = 4566"

definition KumoEndpoint :: string where
  "KumoEndpoint = ''http://kumo.kube-system.svc:4566''"

definition kumoLabels :: labels where
  "kumoLabels = [(''app'', kumoName)]"

definition kumoDeployment :: "string \<Rightarrow> kube_object" where
  "kumoDeployment img =
     new_object SystemNamespace kumoName
       (Deployment
         \<lparr>ws_replicas = Some 1, ws_selector = kumoLabels, ws_template_labels = kumoLabels,
          ws_pod = plain_pod
            [(plain_container kumoName img)
              \<lparr>pc_args := [''--host'', ''0.0.0.0'', ''--port'', string_of_int kumoPort],
               pc_ports := [tcp_port ''http'' kumoPort]\<rparr>]\<rparr>)"

definition ensureKumoDeployment :: "'w cluster_client \<Rightarrow> string \<Rightarrow> 'w \<Rightarrow> (go_error + unit) \<times> 'w" where
  "ensureKumoDeployment c img = create_or_update c ''deployment'' (kumoDeployment img)"

definition kumo_service :: kube_object where
  "kumo_service =
     new_object SystemNamespace kumoName
       (Service \<lparr>ss_type = [], ss_selector = kumoLabels, ss_ports = [service_port_at ''http'' kumoPort]\<rparr>)"

definition ensureKumoService :: "'w cluster_client \<Rightarrow> 'w \<Rightarrow> (go_error + unit) \<times> 'w" where
  "ensureKumoService c = create_if_absent c ''service'' kumo_service"

definition EnsureKumo :: "'w cluster_client \<Rightarrow> string \<Rightarrow> 'w \<Rightarrow> (go_error + unit) \<times> 'w" where
  "EnsureKumo c img = and_then (ensureKumoDeployment c img) (ensureKumoService c)"

section \<open>The instance metadata service\<close>

definition imdsName :: string where
  "imdsName = ''fjord-imds''"

definition imdsPort :: int where
  "imdsPort = 80"

definition imdsLinkLocalAddr :: string where
  "imdsLinkLocalAddr = ''169.254.169.254''"

definition imdsLabels :: labels where
  "imdsLabels = [(''app'', imdsName)]"

definition tolerate_all :: "string list" where
  "tolerate_all = [''Exists'']"

definition imdsDaemonSet :: "string \<Rightarrow> string \<Rightarrow> kube_object" where
  "imdsDaemonSet img nodeRoleName =
     new_object SystemNamespace imdsName
       (DaemonSet
         \<lparr>ws_replicas = None, ws_selector = imdsLabels, ws_template_labels = imdsLabels,
          ws_pod =
            (plain_pod
              [(plain_container imdsName img)
                \<lparr>pc_args := [''serve'', ''imds'', ''--port'', string_of_int imdsPort,
                            ''--node-role-name'', nodeRoleName],
                 pc_ports := [(tcp_port ''http'' imdsPort)
                   \<lparr>cp_host_port := imdsPort, cp_host_ip := imdsLinkLocalAddr\<rparr>],
                 pc_privileged := Some False,
                 pc_capabilities := [''NET_ADMIN'']\<rparr>])
              \<lparr>ps_service_account := agentName, ps_host_network := True,
               ps_tolerations := tolerate_all\<rparr>\<rparr>)"

definition ensureIMDSDaemonSet :: "'w cluster_client \<Rightarrow> kube_object \<Rightarrow> 'w \<Rightarrow> (go_error + unit) \<times> 'w" where
  "ensureIMDSDaemonSet c desired = create_or_update c ''daemonset'' desired"

definition EnsureIMDS :: "'w cluster_client \<Rightarrow> string \<Rightarrow> string \<Rightarrow> 'w \<Rightarrow> (go_error + unit) \<times> 'w" where
  "EnsureIMDS c img nodeRoleName = ensureIMDSDaemonSet c (imdsDaemonSet img nodeRoleName)"

section \<open>The pod identity agent\<close>

definition podIdentityAgentName :: string where
  "podIdentityAgentName = ''fjord-eks-pod-identity-agent''"

definition podIdentityAgentHostIP :: string where
  "podIdentityAgentHostIP = ''169.254.170.23''"

definition podIdentityAgentPort :: int where
  "podIdentityAgentPort = 80"

definition podIdentityAgentProbePort :: int where
  "podIdentityAgentProbePort = 2703"

definition podIdentityAgentRegion :: string where
  "podIdentityAgentRegion = ''us-east-1''"

definition podIdentityAgentSignID :: string where
  "podIdentityAgentSignID = ''fjord-pod-identity-agent''"

definition podIdentityAgentSignValue :: string where
  "podIdentityAgentSignValue = ''fjord-pod-identity-agent-dummy''"

definition podIdentityAgentLabels :: labels where
  "podIdentityAgentLabels = [(''app'', podIdentityAgentName)]"

definition serviceFQDN :: "string \<Rightarrow> string" where
  "serviceFQDN name = name @ ''.'' @ SystemNamespace @ ''.svc''"

definition podIdentityAgentInitContainers :: "string \<Rightarrow> bool \<Rightarrow> pod_container list" where
  "podIdentityAgentInitContainers agentImage privileged =
     [(plain_container (podIdentityAgentName @ ''-init'') agentImage)
        \<lparr>pc_command := [''/go-runner'', ''/eks-pod-identity-agent'', ''initialize''],
         pc_privileged := Some privileged\<rparr>]"

definition podIdentityAgentDaemonSet :: "string \<Rightarrow> string \<Rightarrow> kube_object" where
  "podIdentityAgentDaemonSet agentImage clusterName =
     new_object SystemNamespace podIdentityAgentName
       (DaemonSet
         \<lparr>ws_replicas = None, ws_selector = podIdentityAgentLabels,
          ws_template_labels = podIdentityAgentLabels,
          ws_pod =
            (plain_pod
              [(plain_container podIdentityAgentName agentImage)
                \<lparr>pc_command := [''/go-runner'', ''/eks-pod-identity-agent'', ''server''],
                 pc_args := [''--port'', string_of_int podIdentityAgentPort,
                             ''--cluster-name'', clusterName,
                             ''--probe-port'', string_of_int podIdentityAgentProbePort,
                             ''--endpoint'',
                             ''http://'' @ serviceFQDN agentName @ '':'' @ string_of_int agentPort,
                             ''--bind-hosts'', podIdentityAgentHostIP],
                 pc_env := [(''AWS_REGION'', podIdentityAgentRegion),
                            (''AWS_ACCESS_KEY_ID'', podIdentityAgentSignID),
                            (''AWS_SECRET_ACCESS_KEY'', podIdentityAgentSignValue)],
                 pc_ports := [(tcp_port ''proxy'' podIdentityAgentPort)
                   \<lparr>cp_host_port := podIdentityAgentPort, cp_host_ip := podIdentityAgentHostIP\<rparr>],
                 pc_capabilities := [''CAP_NET_BIND_SERVICE'']\<rparr>])
              \<lparr>ps_host_network := True, ps_dns_policy := ''ClusterFirstWithHostNet'',
               ps_tolerations := tolerate_all,
               ps_init_containers := podIdentityAgentInitContainers agentImage True\<rparr>\<rparr>)"

definition ensurePodIdentityDaemonSet ::
  "'w cluster_client \<Rightarrow> kube_object \<Rightarrow> 'w \<Rightarrow> (go_error + unit) \<times> 'w" where
  "ensurePodIdentityDaemonSet c desired = create_or_update c ''daemonset'' desired"

definition EnsurePodIdentity :: "'w cluster_client \<Rightarrow> string \<Rightarrow> string \<Rightarrow> 'w \<Rightarrow> (go_error + unit) \<times> 'w" where
  "EnsurePodIdentity c agentImage clusterName =
     ensurePodIdentityDaemonSet c (podIdentityAgentDaemonSet agentImage clusterName)"

section \<open>The authenticator\<close>

definition authenticatorPort :: int where
  "authenticatorPort = 9443"

definition AuthenticatorTLSCertName :: string where
  "AuthenticatorTLSCertName = ''fjord-authenticator-tls''"

definition authenticatorTLSMountPath :: string where
  "authenticatorTLSMountPath = ''/etc/fjord/authn''"

definition AuthenticatorServiceAccountName :: string where
  "AuthenticatorServiceAccountName = ''fjord-authenticator''"

definition authenticatorClusterRoleBindingName :: string where
  "authenticatorClusterRoleBindingName = ''fjord-authenticator''"

definition authenticatorLabels :: labels where
  "authenticatorLabels = [(''app'', AuthenticatorServiceAccountName)]"

definition authenticatorDaemonSet :: "string \<Rightarrow> kube_object" where
  "authenticatorDaemonSet img =
     new_object SystemNamespace AuthenticatorServiceAccountName
       (DaemonSet
         \<lparr>ws_replicas = None, ws_selector = authenticatorLabels,
          ws_template_labels = authenticatorLabels,
          ws_pod =
            (plain_pod
              [(plain_container AuthenticatorServiceAccountName img)
                \<lparr>pc_args := [''serve'', ''authenticator'', ''--port'', string_of_int authenticatorPort,
                             ''--tls-cert-file'', authenticatorTLSMountPath @ ''/tls.crt'',
                             ''--tls-key-file'', authenticatorTLSMountPath @ ''/tls.key''],
                 pc_mounts :=
                   [\<lparr>vm_name = ''tls'', vm_path = authenticatorTLSMountPath, vm_read_only = True\<rparr>]\<rparr>])
              \<lparr>ps_service_account := AuthenticatorServiceAccountName, ps_host_network := True,
               ps_dns_policy := ''ClusterFirstWithHostNet'', ps_tolerations := tolerate_all,
               ps_volumes := [\<lparr>sv_name = ''tls'', sv_secret = AuthenticatorTLSCertName\<rparr>]\<rparr>\<rparr>)"

definition ensureAuthenticatorDaemonSet ::
  "'w cluster_client \<Rightarrow> kube_object \<Rightarrow> 'w \<Rightarrow> (go_error + unit) \<times> 'w" where
  "ensureAuthenticatorDaemonSet c desired = create_or_update c ''daemonset'' desired"

definition ensureAuthenticatorServiceAccount :: "'w cluster_client \<Rightarrow> 'w \<Rightarrow> (go_error + unit) \<times> 'w" where
  "ensureAuthenticatorServiceAccount c =
     create_if_absent c ''service account'' (service_account AuthenticatorServiceAccountName)"

definition ensureAuthenticatorClusterRoleBinding ::
  "'w cluster_client \<Rightarrow> 'w \<Rightarrow> (go_error + unit) \<times> 'w" where
  "ensureAuthenticatorClusterRoleBinding c =
     create_if_absent c ''cluster role binding''
       (cluster_role_binding authenticatorClusterRoleBindingName agentName
          AuthenticatorServiceAccountName)"

definition EnsureAuthenticatorRBAC :: "'w cluster_client \<Rightarrow> 'w \<Rightarrow> (go_error + unit) \<times> 'w" where
  "EnsureAuthenticatorRBAC c =
     and_then (ensureAuthenticatorServiceAccount c) (ensureAuthenticatorClusterRoleBinding c)"

section \<open>The installations as sequences of steps\<close>

lemma run_steps_append:
  "run_steps c (ss @ ts) w = and_then (run_steps c ss) (run_steps c ts) w"
  by (induction ss arbitrary: w) (auto simp: and_then_def split: prod.splits sum.splits)

lemma run_steps_single: "run_steps c [s] = run_step c s"
  by (auto simp: fun_eq_iff and_then_def split: prod.splits sum.splits)

lemma run_steps_cons: "run_steps c (s # t # ss) = and_then (run_step c s) (run_steps c (t # ss))"
  by (simp add: fun_eq_iff)

definition agent_steps :: "string \<Rightarrow> bool \<Rightarrow> string \<Rightarrow> bool \<Rightarrow> step list" where
  "agent_steps img irsa endpoint lb =
     [CreateIfAbsent ''service account'' (service_account agentName),
      CreateIfAbsent ''cluster role'' agent_cluster_role,
      CreateIfAbsent ''cluster role binding'' (cluster_role_binding agentName agentName agentName),
      CreateOrUpdate ''deployment'' (agentDeployment img irsa endpoint lb),
      CreateIfAbsent ''service'' (agent_service irsa),
      CreateIfAbsent ''service'' agent_node_port_service]"

definition kumo_steps :: "string \<Rightarrow> step list" where
  "kumo_steps img = [CreateOrUpdate ''deployment'' (kumoDeployment img), CreateIfAbsent ''service'' kumo_service]"

definition authenticator_rbac_steps :: "step list" where
  "authenticator_rbac_steps =
     [CreateIfAbsent ''service account'' (service_account AuthenticatorServiceAccountName),
      CreateIfAbsent ''cluster role binding''
        (cluster_role_binding authenticatorClusterRoleBindingName agentName AuthenticatorServiceAccountName)]"

named_theorems ensure_steps \<open>the installations as runs of steps\<close>

lemma EnsureAgent_steps [ensure_steps]:
  "EnsureAgent c img irsa endpoint lb = run_steps c (agent_steps img irsa endpoint lb)"
  by (simp add: EnsureAgent_def agent_steps_def ensureServiceAccount_def ensureClusterRole_def
      ensureClusterRoleBinding_def ensureDeployment_def ensureService_def ensureNodePortService_def run_steps_single run_steps_cons)

lemma EnsureKumo_steps [ensure_steps]: "EnsureKumo c img = run_steps c (kumo_steps img)"
  by (simp add: EnsureKumo_def kumo_steps_def ensureKumoDeployment_def ensureKumoService_def run_steps_single run_steps_cons)

lemma EnsureIMDS_steps [ensure_steps]:
  "EnsureIMDS c img role = run_steps c [CreateOrUpdate ''daemonset'' (imdsDaemonSet img role)]"
  by (simp add: EnsureIMDS_def ensureIMDSDaemonSet_def run_steps_single)

lemma EnsurePodIdentity_steps [ensure_steps]:
  "EnsurePodIdentity c img cluster =
     run_steps c [CreateOrUpdate ''daemonset'' (podIdentityAgentDaemonSet img cluster)]"
  by (simp add: EnsurePodIdentity_def ensurePodIdentityDaemonSet_def run_steps_single)

lemma EnsureAuthenticatorRBAC_steps [ensure_steps]:
  "EnsureAuthenticatorRBAC c = run_steps c authenticator_rbac_steps"
  by (simp add: EnsureAuthenticatorRBAC_def authenticator_rbac_steps_def
      ensureAuthenticatorServiceAccount_def ensureAuthenticatorClusterRoleBinding_def run_steps_single run_steps_cons)

end
