(* ===== verification/Pki.thy ===== *)
theory Pki
  imports Prelude "HOL-Library.Countable"
begin

text \<open>
  The certificates of \<open>internal/pki\<close> (\<open>ca.go\<close>, \<open>servercert.go\<close>): a self-signed authority and
  the server certificates it signs. \<open>crypto/rsa\<close>, \<open>crypto/x509\<close>, \<open>encoding/pem\<close> and the clock
  are the parameter \<open>crypto\<close>; the locale \<open>x509\<close> says what a TLS client accepts.
\<close>

section \<open>Certificates\<close>

text \<open>The fields of \<open>x509.Certificate\<close> the code sets; instants and durations are nanoseconds.\<close>

datatype certificate =
  Certificate (ce_serial: int) (ce_common_name: string) (ce_dns_names: "string list")
    (ce_not_before: int) (ce_not_after: int) (ce_key_usage: "string list")
    (ce_ext_key_usage: "string list") (ce_basic_constraints: bool) (ce_is_ca: bool)

instance certificate :: countable
  by countable_datatype

record ('k, 'w) crypto =
  cy_generate_key :: "nat \<Rightarrow> 'w \<Rightarrow> (go_error + 'k) \<times> 'w"
  cy_random_int :: "int \<Rightarrow> 'w \<Rightarrow> (go_error + int) \<times> 'w"
  cy_now :: "'w \<Rightarrow> int \<times> 'w"
  cy_create :: "certificate \<Rightarrow> certificate \<Rightarrow> 'k \<Rightarrow> 'k \<Rightarrow> 'w \<Rightarrow> (go_error + byte list) \<times> 'w"
  cy_parse :: "byte list \<Rightarrow> go_error + certificate"
  cy_pem :: "string \<Rightarrow> byte list \<Rightarrow> byte list"
  cy_marshal_key :: "'k \<Rightarrow> byte list"

definition rsaKeyBits :: nat where
  "rsaKeyBits = 2048"

definition nanos_per_hour :: int where
  "nanos_per_hour = 3600 * 10 ^ 9"

definition caValidity :: int where
  "caValidity = 10 * 365 * 24 * nanos_per_hour"

definition clockSkew :: int where
  "clockSkew = 5 * 60 * 10 ^ 9"

definition serverCertValidity :: int where
  "serverCertValidity = 365 * 24 * nanos_per_hour"

definition serialNumberBits :: nat where
  "serialNumberBits = 128"

record 'k CA =
  ca_cert :: certificate
  ca_key :: 'k
  ca_cert_pem :: "byte list"
  ca_key_pem :: "byte list"

record ServerCert =
  sc_cert_pem :: "byte list"
  sc_key_pem :: "byte list"

definition encodeCertPEM :: "('k, 'w) crypto \<Rightarrow> byte list \<Rightarrow> byte list" where
  "encodeCertPEM cy der = cy_pem cy ''CERTIFICATE'' der"

definition encodeKeyPEM :: "('k, 'w) crypto \<Rightarrow> 'k \<Rightarrow> byte list" where
  "encodeKeyPEM cy key = cy_pem cy ''RSA PRIVATE KEY'' (cy_marshal_key cy key)"

definition newSerialNumber :: "('k, 'w) crypto \<Rightarrow> 'w \<Rightarrow> (go_error + int) \<times> 'w" where
  "newSerialNumber cy w =
     (case cy_random_int cy (2 ^ serialNumberBits) w of
        (Inl e, w1) \<Rightarrow> (Inl (Wrapf ''generating certificate serial number: %w'' [] e), w1)
      | (Inr n, w1) \<Rightarrow> (Inr n, w1))"

definition NewCA :: "('k, 'w) crypto \<Rightarrow> string \<Rightarrow> 'w \<Rightarrow> (go_error + 'k CA) \<times> 'w" where
  "NewCA cy commonName w =
     (case cy_generate_key cy rsaKeyBits w of
        (Inl e, w1) \<Rightarrow> (Inl (Wrapf ''generating CA private key: %w'' [] e), w1)
      | (Inr key, w1) \<Rightarrow>
          (case newSerialNumber cy w1 of
             (Inl e, w2) \<Rightarrow> (Inl e, w2)
           | (Inr serialNumber, w2) \<Rightarrow>
               (case cy_now cy w2 of
                  (now, w3) \<Rightarrow>
                    (let template =
                           Certificate serialNumber commonName [] (now - clockSkew) (now + caValidity)
                             [''CertSign'', ''CRLSign''] [] True True
                     in case cy_create cy template template key key w3 of
                          (Inl e, w4) \<Rightarrow>
                            (Inl (Wrapf ''creating self-signed CA certificate: %w'' [] e), w4)
                        | (Inr certDER, w4) \<Rightarrow>
                            (case cy_parse cy certDER of
                               Inl e \<Rightarrow>
                                 (Inl (Wrapf ''parsing generated CA certificate: %w'' [] e), w4)
                             | Inr cert \<Rightarrow>
                                 (Inr \<lparr>ca_cert = cert, ca_key = key,
                                       ca_cert_pem = encodeCertPEM cy certDER,
                                       ca_key_pem = encodeKeyPEM cy key\<rparr>, w4))))))"

definition IssueServerCert ::
  "('k, 'w) crypto \<Rightarrow> 'k CA \<Rightarrow> string \<Rightarrow> string list \<Rightarrow> 'w \<Rightarrow> (go_error + ServerCert) \<times> 'w" where
  "IssueServerCert cy ca commonName dnsNames w =
     (case cy_generate_key cy rsaKeyBits w of
        (Inl e, w1) \<Rightarrow> (Inl (Wrapf ''generating server private key: %w'' [] e), w1)
      | (Inr key, w1) \<Rightarrow>
          (case newSerialNumber cy w1 of
             (Inl e, w2) \<Rightarrow> (Inl e, w2)
           | (Inr serialNumber, w2) \<Rightarrow>
               (case cy_now cy w2 of
                  (now, w3) \<Rightarrow>
                    (let template =
                           Certificate serialNumber commonName dnsNames (now - clockSkew)
                             (now + serverCertValidity) [''DigitalSignature'', ''KeyEncipherment'']
                             [''ServerAuth''] False False
                     in case cy_create cy template (ca_cert ca) key (ca_key ca) w3 of
                          (Inl e, w4) \<Rightarrow> (Inl (Wrapf ''creating server certificate: %w'' [] e), w4)
                        | (Inr certDER, w4) \<Rightarrow>
                            (Inr \<lparr>sc_cert_pem = encodeCertPEM cy certDER,
                                  sc_key_pem = encodeKeyPEM cy key\<rparr>, w4)))))"

section \<open>What a TLS client accepts\<close>

text \<open>A certificate stores its validity in whole seconds.\<close>

definition whole_second :: "int \<Rightarrow> int" where
  "whole_second t = t div 10 ^ 9 * 10 ^ 9"

definition whole_seconds :: "certificate \<Rightarrow> certificate" where
  "whole_seconds ce =
     Certificate (ce_serial ce) (ce_common_name ce) (ce_dns_names ce)
       (whole_second (ce_not_before ce)) (whole_second (ce_not_after ce)) (ce_key_usage ce)
       (ce_ext_key_usage ce) (ce_basic_constraints ce) (ce_is_ca ce)"

definition valid_at :: "certificate \<Rightarrow> int \<Rightarrow> bool" where
  "valid_at ce now \<longleftrightarrow> ce_not_before ce \<le> now \<and> now \<le> ce_not_after ce"

text \<open>
  \<open>accepts bundle cert key host now\<close>: a TLS client that trusts \<open>bundle\<close> completes the handshake
  with a server that presents \<open>cert\<close> and holds \<open>key\<close>, when it dials \<open>host\<close> at \<open>now\<close>. A leaf
  signed by a self-signed authority is accepted for each of its DNS names while both are valid,
  provided the authority may sign certificates and the leaf may serve.
\<close>

locale x509 =
  fixes cy :: "('k, 'w) crypto"
    and accepts :: "byte list \<Rightarrow> byte list \<Rightarrow> byte list \<Rightarrow> string \<Rightarrow> int \<Rightarrow> bool"
    and clock :: "'w \<Rightarrow> int"
  assumes parse_law:
      "cy_create cy t p pub key w = (Inr der, w') \<Longrightarrow> cy_parse cy der = Inr (whole_seconds t)"
    and accepts_law:
      "cy_create cy root root rkey rkey w0 = (Inr rder, w1) \<Longrightarrow> cy_parse cy rder = Inr rcert \<Longrightarrow>
       cy_create cy leaf rcert lkey rkey w2 = (Inr lder, w3) \<Longrightarrow> host \<in> set (ce_dns_names leaf) \<Longrightarrow>
       accepts (cy_pem cy ''CERTIFICATE'' rder) (cy_pem cy ''CERTIFICATE'' lder)
         (cy_pem cy ''RSA PRIVATE KEY'' (cy_marshal_key cy lkey)) host now \<longleftrightarrow>
       ce_basic_constraints rcert \<and> ce_is_ca rcert \<and> ''CertSign'' \<in> set (ce_key_usage rcert) \<and>
       valid_at rcert now \<and> ''ServerAuth'' \<in> set (ce_ext_key_usage leaf) \<and>
       valid_at (whole_seconds leaf) now"
    and now_law: "cy_now cy w = (i, w') \<Longrightarrow> i = clock w"
    and clock_key: "clock (snd (cy_generate_key cy n w)) \<ge> clock w"
    and clock_random: "clock (snd (cy_random_int cy l w)) \<ge> clock w"
    and clock_now: "clock (snd (cy_now cy w)) \<ge> clock w"
    and clock_create: "clock (snd (cy_create cy t p a b w)) \<ge> clock w"
begin

text \<open>The window in which a certificate issued at \<open>issued\<close> is accepted.\<close>

lemma clock_serial: "newSerialNumber cy w = (r, w') \<Longrightarrow> clock w \<le> clock w'"
  using clock_random [where l = "2 ^ serialNumberBits" and w = w]
  by (auto simp: newSerialNumber_def split: prod.splits sum.splits)

text \<open>What a successful \<open>NewCA\<close> has done: a template signed by itself, at an instant during the call.\<close>

lemma NewCA_created:
  assumes "NewCA cy cn w = (Inr ca, w')"
  shows "\<exists>root rder wa wb now. cy_create cy root root (ca_key ca) (ca_key ca) wa = (Inr rder, wb) \<and>
    cy_parse cy rder = Inr (ca_cert ca) \<and> ca_cert_pem ca = cy_pem cy ''CERTIFICATE'' rder \<and>
    ca_cert ca = whole_seconds root \<and> ce_basic_constraints root \<and> ce_is_ca root \<and>
    ''CertSign'' \<in> set (ce_key_usage root) \<and> ce_not_before root = now - clockSkew \<and>
    ce_not_after root = now + caValidity \<and> clock w \<le> now \<and> now \<le> clock w'"
proof -
  from assms obtain key w1 serial w2 now w3 rder w4 cert where
    k: "cy_generate_key cy rsaKeyBits w = (Inr key, w1)"
    and s: "newSerialNumber cy w1 = (Inr serial, w2)" and n: "cy_now cy w2 = (now, w3)"
    and cr: "cy_create cy (Certificate serial cn [] (now - clockSkew) (now + caValidity)
        [''CertSign'', ''CRLSign''] [] True True) (Certificate serial cn [] (now - clockSkew)
        (now + caValidity) [''CertSign'', ''CRLSign''] [] True True) key key w3 = (Inr rder, w4)"
    and p: "cy_parse cy rder = Inr cert" and w': "w' = w4"
    and ca: "ca = \<lparr>ca_cert = cert, ca_key = key, ca_cert_pem = encodeCertPEM cy rder,
        ca_key_pem = encodeKeyPEM cy key\<rparr>"
    by (auto simp: NewCA_def Let_def split: prod.splits sum.splits)
  have "clock w \<le> clock w1" using clock_key [where n = rsaKeyBits and w = w] k by simp
  moreover have "clock w1 \<le> clock w2" using clock_serial [OF s] .
  moreover have "now = clock w2" "clock w2 \<le> clock w3" using now_law [OF n] clock_now [of w2] n by simp_all
  moreover have "clock w3 \<le> clock w4" using clock_create [where a = key and b = key and w = w3] cr by (metis snd_conv)
  ultimately have "clock w \<le> now" "now \<le> clock w'" using w' by simp_all
  moreover have "cert = whole_seconds (Certificate serial cn [] (now - clockSkew) (now + caValidity)
      [''CertSign'', ''CRLSign''] [] True True)" using parse_law [OF cr] p by simp
  ultimately show ?thesis using cr p ca
    by (intro exI conjI) (auto simp: encodeCertPEM_def)
qed

lemma IssueServerCert_created:
  assumes "IssueServerCert cy ca cn names w = (Inr sc, w')"
  shows "\<exists>leaf lder lkey wa wb now. cy_create cy leaf (ca_cert ca) lkey (ca_key ca) wa = (Inr lder, wb) \<and>
    sc_cert_pem sc = cy_pem cy ''CERTIFICATE'' lder \<and>
    sc_key_pem sc = cy_pem cy ''RSA PRIVATE KEY'' (cy_marshal_key cy lkey) \<and>
    ce_dns_names leaf = names \<and> ''ServerAuth'' \<in> set (ce_ext_key_usage leaf) \<and>
    ce_not_before leaf = now - clockSkew \<and> ce_not_after leaf = now + serverCertValidity \<and>
    clock w \<le> now \<and> now \<le> clock w'"
proof -
  from assms obtain key w1 serial w2 now w3 lder w4 where
    k: "cy_generate_key cy rsaKeyBits w = (Inr key, w1)"
    and s: "newSerialNumber cy w1 = (Inr serial, w2)" and n: "cy_now cy w2 = (now, w3)"
    and cr: "cy_create cy (Certificate serial cn names (now - clockSkew) (now + serverCertValidity)
        [''DigitalSignature'', ''KeyEncipherment''] [''ServerAuth''] False False) (ca_cert ca) key
        (ca_key ca) w3 = (Inr lder, w4)"
    and w': "w' = w4" and sc: "sc = \<lparr>sc_cert_pem = encodeCertPEM cy lder, sc_key_pem = encodeKeyPEM cy key\<rparr>"
    by (auto simp: IssueServerCert_def Let_def split: prod.splits sum.splits)
  have "clock w \<le> clock w1" using clock_key [where n = rsaKeyBits and w = w] k by simp
  moreover have "clock w1 \<le> clock w2" using clock_serial [OF s] .
  moreover have "now = clock w2" "clock w2 \<le> clock w3" using now_law [OF n] clock_now [of w2] n by simp_all
  moreover have "clock w3 \<le> clock w4" using clock_create [where a = key and b = "ca_key ca" and w = w3] cr by (metis snd_conv)
  ultimately have "clock w \<le> now" "now \<le> clock w'" using w' by simp_all
  then show ?thesis using cr sc
    by (intro exI conjI) (auto simp: encodeCertPEM_def encodeKeyPEM_def)
qed

text \<open>When a client that trusts the authority accepts a certificate it issued.\<close>

lemma issued_cert_window:
  assumes ca: "NewCA cy cn w0 = (Inr ca, w1)"
    and sc: "IssueServerCert cy ca cn' names w2 = (Inr sc, w3)" and host: "host \<in> set names"
  shows "\<exists>created issued. clock w0 \<le> created \<and> created \<le> clock w1 \<and> clock w2 \<le> issued \<and>
    issued \<le> clock w3 \<and>
    (\<forall>t. accepts (ca_cert_pem ca) (sc_cert_pem sc) (sc_key_pem sc) host t \<longleftrightarrow>
       whole_second (created - clockSkew) \<le> t \<and> t \<le> whole_second (created + caValidity) \<and>
       whole_second (issued - clockSkew) \<le> t \<and> t \<le> whole_second (issued + serverCertValidity))"
proof -
  from NewCA_created [OF ca] obtain root rder wa wb created where
    r: "cy_create cy root root (ca_key ca) (ca_key ca) wa = (Inr rder, wb)"
      "cy_parse cy rder = Inr (ca_cert ca)" and rp: "ca_cert_pem ca = cy_pem cy ''CERTIFICATE'' rder"
    and rc: "ca_cert ca = whole_seconds root" "ce_basic_constraints root" "ce_is_ca root"
      "''CertSign'' \<in> set (ce_key_usage root)" "ce_not_before root = created - clockSkew"
      "ce_not_after root = created + caValidity"
    and rt: "clock w0 \<le> created" "created \<le> clock w1" by blast
  from IssueServerCert_created [OF sc] obtain leaf lder lkey wc wd issued where
    l: "cy_create cy leaf (ca_cert ca) lkey (ca_key ca) wc = (Inr lder, wd)"
    and lp: "sc_cert_pem sc = cy_pem cy ''CERTIFICATE'' lder"
      "sc_key_pem sc = cy_pem cy ''RSA PRIVATE KEY'' (cy_marshal_key cy lkey)"
    and lc: "ce_dns_names leaf = names" "''ServerAuth'' \<in> set (ce_ext_key_usage leaf)"
      "ce_not_before leaf = issued - clockSkew" "ce_not_after leaf = issued + serverCertValidity"
    and lt: "clock w2 \<le> issued" "issued \<le> clock w3" by blast
  have "accepts (ca_cert_pem ca) (sc_cert_pem sc) (sc_key_pem sc) host t \<longleftrightarrow>
       whole_second (created - clockSkew) \<le> t \<and> t \<le> whole_second (created + caValidity) \<and>
       whole_second (issued - clockSkew) \<le> t \<and> t \<le> whole_second (issued + serverCertValidity)" for t
    unfolding rp lp using accepts_law [OF r l, of host t] host rc lc
    by (auto simp: valid_at_def whole_seconds_def)
  with rt lt show ?thesis by blast
qed

end

section \<open>A reference for the cryptography\<close>

text \<open>
  Keys are numbers, a certificate in DER is a numbering of its fields, of its issuer and of the
  two keys, and every call takes a second.
\<close>

definition ref_der :: "certificate \<times> certificate \<times> nat \<times> nat \<Rightarrow> byte list" where
  "ref_der x = replicate (to_nat x) 0"

definition ref_fields :: "byte list \<Rightarrow> certificate \<times> certificate \<times> nat \<times> nat" where
  "ref_fields der = from_nat (length der)"

lemma ref_fields_der [simp]: "ref_fields (ref_der x) = x"
  by (simp add: ref_fields_def ref_der_def)

definition ref_crypto :: "(nat, nat) crypto" where
  "ref_crypto =
     \<lparr>cy_generate_key = (\<lambda>bits w. (Inr w, w + 1)),
      cy_random_int = (\<lambda>limit w. (Inr (int w mod limit), w + 1)),
      cy_now = (\<lambda>w. (int w * 10 ^ 9, w + 1)),
      cy_create = (\<lambda>t p pub key w. (Inr (ref_der (whole_seconds t, p, pub, key)), w + 1)),
      cy_parse = (\<lambda>der. Inr (fst (ref_fields der))),
      cy_pem = (\<lambda>label der. der),
      cy_marshal_key = (\<lambda>k. replicate k 0)\<rparr>"

definition ref_accepts :: "byte list \<Rightarrow> byte list \<Rightarrow> byte list \<Rightarrow> string \<Rightarrow> int \<Rightarrow> bool" where
  "ref_accepts bundle cert key host now =
     (case (ref_fields bundle, ref_fields cert) of
        ((root, _, rpub, rsigner), (leaf, issuer, lpub, lsigner)) \<Rightarrow>
          rsigner = rpub \<and> lsigner = rpub \<and> issuer = root \<and> length key = lpub \<and>
          host \<in> set (ce_dns_names leaf) \<and>
          ce_basic_constraints root \<and> ce_is_ca root \<and> ''CertSign'' \<in> set (ce_key_usage root) \<and>
          valid_at root now \<and> ''ServerAuth'' \<in> set (ce_ext_key_usage leaf) \<and> valid_at leaf now)"

interpretation ref_x509: x509 ref_crypto ref_accepts "\<lambda>w. int w * 10 ^ 9"
  by unfold_locales
    (auto simp: ref_crypto_def ref_accepts_def whole_seconds_def split: prod.splits)

end
