(* ===== verification/Irsa_Install.thy ===== *)
theory Irsa_Install
  imports Agent_Install Pki
begin

text \<open>
  The installation of the admission webhooks (\<open>internal/cluster/irsa.go\<close>): their TLS Secrets,
  issued by the authority of \<open>Pki\<close>, the two \<open>MutatingWebhookConfiguration\<close>s and the deployment
  of the pod identity webhook; and \<open>EnsureAuthenticator\<close> of \<open>authenticator.go\<close>, which stores its
  certificate the same way. The API server and the cryptography act on one world.
\<close>

definition injectorWebhookName :: string where
  "injectorWebhookName = ''fjord-injector''"

definition injectorWebhookPath :: string where
  "injectorWebhookPath = ''/inject''"

definition podIdentityWebhookName :: string where
  "podIdentityWebhookName = ''pod-identity-webhook''"

definition podIdentityWebhookCertSecret :: string where
  "podIdentityWebhookCertSecret = ''pod-identity-webhook-cert''"

definition podIdentityWebhookPath :: string where
  "podIdentityWebhookPath = ''/mutate''"

definition podIdentityWebhookPort :: int where
  "podIdentityWebhookPort = 443"

definition podIdentityWebhookMountPath :: string where
  "podIdentityWebhookMountPath = ''/etc/webhook/certs''"

definition podIdentityWebhookLabels :: labels where
  "podIdentityWebhookLabels = [(''app'', podIdentityWebhookName)]"

definition serviceFQDNCluster :: "string \<Rightarrow> string" where
  "serviceFQDNCluster name = serviceFQDN name @ ''.cluster.local''"

section \<open>TLS Secrets\<close>

definition tls_secret :: "string \<Rightarrow> ServerCert \<Rightarrow> kube_object" where
  "tls_secret name cert =
     new_object SystemNamespace name
       (Secret ''kubernetes.io/tls'' [(''tls.crt'', sc_cert_pem cert), (''tls.key'', sc_key_pem cert)])"

definition ensureTLSSecret ::
  "'w cluster_client \<Rightarrow> string \<Rightarrow> ServerCert \<Rightarrow> 'w \<Rightarrow> (go_error + unit) \<times> 'w" where
  "ensureTLSSecret c name cert = create_or_update c ''secret'' (tls_secret name cert)"

definition ensureAgentTLSSecret ::
  "'w cluster_client \<Rightarrow> ('k, 'w) crypto \<Rightarrow> 'k CA \<Rightarrow> 'w \<Rightarrow> (go_error + unit) \<times> 'w" where
  "ensureAgentTLSSecret c cy ca w =
     (case IssueServerCert cy ca (serviceFQDN agentName)
             [serviceFQDN agentName, serviceFQDNCluster agentName] w of
        (Inl e, w1) \<Rightarrow> (Inl (Wrapf ''issue %q server certificate: %w'' [agentName] e), w1)
      | (Inr cert, w1) \<Rightarrow> ensureTLSSecret c AgentTLSCertName cert w1)"

definition ensurePodIdentityWebhookCertSecret ::
  "'w cluster_client \<Rightarrow> ('k, 'w) crypto \<Rightarrow> 'k CA \<Rightarrow> 'w \<Rightarrow> (go_error + unit) \<times> 'w" where
  "ensurePodIdentityWebhookCertSecret c cy ca w =
     (case IssueServerCert cy ca (serviceFQDN podIdentityWebhookName)
             [serviceFQDN podIdentityWebhookName, serviceFQDNCluster podIdentityWebhookName] w of
        (Inl e, w1) \<Rightarrow> (Inl (Wrapf ''issue %q server certificate: %w'' [podIdentityWebhookName] e), w1)
      | (Inr cert, w1) \<Rightarrow> ensureTLSSecret c podIdentityWebhookCertSecret cert w1)"

section \<open>Webhook configurations\<close>

definition excludeSystemNamespaceSelector :: "string list" where
  "excludeSystemNamespaceSelector = [SystemNamespace]"

text \<open>\<open>podCreateRule\<close> is the operation and the resource of the rule.\<close>

definition podCreateRule :: "string list \<times> string list" where
  "podCreateRule = ([''CREATE''], [''pods''])"

definition injector_webhook_configuration :: "'k CA \<Rightarrow> kube_object" where
  "injector_webhook_configuration ca =
     new_object [] injectorWebhookName
       (MutatingWebhookConfiguration
         [\<lparr>wh_name = injectorWebhookName @ ''.fjord.dev'', wh_service_name = agentName,
           wh_service_namespace = SystemNamespace, wh_path = injectorWebhookPath,
           wh_port = agentInjectorPort, wh_ca_bundle = ca_cert_pem ca,
           wh_operations = fst podCreateRule, wh_resources = snd podCreateRule,
           wh_excluded_namespaces = excludeSystemNamespaceSelector, wh_failure_policy = ''Ignore'',
           wh_side_effects = ''None'', wh_review_versions = [''v1'']\<rparr>])"

definition pod_identity_webhook_configuration :: "'k CA \<Rightarrow> kube_object" where
  "pod_identity_webhook_configuration ca =
     new_object [] podIdentityWebhookName
       (MutatingWebhookConfiguration
         [\<lparr>wh_name = podIdentityWebhookName @ ''.amazonaws.com'',
           wh_service_name = podIdentityWebhookName,
           wh_service_namespace = SystemNamespace, wh_path = podIdentityWebhookPath,
           wh_port = podIdentityWebhookPort, wh_ca_bundle = ca_cert_pem ca,
           wh_operations = fst podCreateRule, wh_resources = snd podCreateRule,
           wh_excluded_namespaces = excludeSystemNamespaceSelector, wh_failure_policy = ''Ignore'',
           wh_side_effects = ''None'', wh_review_versions = [''v1beta1'']\<rparr>])"

definition ensureMutatingWebhookConfiguration ::
  "'w cluster_client \<Rightarrow> kube_object \<Rightarrow> 'w \<Rightarrow> (go_error + unit) \<times> 'w" where
  "ensureMutatingWebhookConfiguration c desired =
     create_or_update c ''mutating webhook configuration'' desired"

definition ensureInjectorWebhookConfiguration ::
  "'w cluster_client \<Rightarrow> 'k CA \<Rightarrow> 'w \<Rightarrow> (go_error + unit) \<times> 'w" where
  "ensureInjectorWebhookConfiguration c ca =
     ensureMutatingWebhookConfiguration c (injector_webhook_configuration ca)"

definition ensurePodIdentityWebhookConfiguration ::
  "'w cluster_client \<Rightarrow> 'k CA \<Rightarrow> 'w \<Rightarrow> (go_error + unit) \<times> 'w" where
  "ensurePodIdentityWebhookConfiguration c ca =
     ensureMutatingWebhookConfiguration c (pod_identity_webhook_configuration ca)"

section \<open>The pod identity webhook\<close>

definition ensurePodIdentityWebhookServiceAccount :: "'w cluster_client \<Rightarrow> 'w \<Rightarrow> (go_error + unit) \<times> 'w" where
  "ensurePodIdentityWebhookServiceAccount c =
     create_if_absent c ''service account'' (service_account podIdentityWebhookName)"

definition pod_identity_webhook_role :: kube_object where
  "pod_identity_webhook_role =
     new_object [] podIdentityWebhookName
       (ClusterRole [rule [''''] [''serviceaccounts''] [''get'', ''watch'', ''list'']])"

definition ensurePodIdentityWebhookClusterRole :: "'w cluster_client \<Rightarrow> 'w \<Rightarrow> (go_error + unit) \<times> 'w" where
  "ensurePodIdentityWebhookClusterRole c = create_if_absent c ''cluster role'' pod_identity_webhook_role"

definition ensurePodIdentityWebhookClusterRoleBinding ::
  "'w cluster_client \<Rightarrow> 'w \<Rightarrow> (go_error + unit) \<times> 'w" where
  "ensurePodIdentityWebhookClusterRoleBinding c =
     create_if_absent c ''cluster role binding''
       (cluster_role_binding podIdentityWebhookName podIdentityWebhookName podIdentityWebhookName)"

definition ensurePodIdentityWebhookRBAC :: "'w cluster_client \<Rightarrow> 'w \<Rightarrow> (go_error + unit) \<times> 'w" where
  "ensurePodIdentityWebhookRBAC c =
     and_then (ensurePodIdentityWebhookServiceAccount c)
    (and_then (ensurePodIdentityWebhookClusterRole c)
              (ensurePodIdentityWebhookClusterRoleBinding c))"

definition podIdentityWebhookDeployment :: "string \<Rightarrow> kube_object" where
  "podIdentityWebhookDeployment img =
     new_object SystemNamespace podIdentityWebhookName
       (Deployment
         \<lparr>ws_replicas = Some 1, ws_selector = podIdentityWebhookLabels,
          ws_template_labels = podIdentityWebhookLabels,
          ws_pod =
            (plain_pod
              [(plain_container podIdentityWebhookName img)
                \<lparr>pc_command := [''/webhook''],
                 pc_args := [''--in-cluster=false'', ''--port=443'',
                             ''--tls-key='' @ podIdentityWebhookMountPath @ ''/tls.key'',
                             ''--tls-cert='' @ podIdentityWebhookMountPath @ ''/tls.crt''],
                 pc_ports := [tcp_port ''https'' podIdentityWebhookPort],
                 pc_mounts :=
                   [\<lparr>vm_name = ''cert'', vm_path = podIdentityWebhookMountPath, vm_read_only = True\<rparr>]\<rparr>])
              \<lparr>ps_service_account := podIdentityWebhookName,
               ps_volumes := [\<lparr>sv_name = ''cert'', sv_secret = podIdentityWebhookCertSecret\<rparr>]\<rparr>\<rparr>)"

definition ensurePodIdentityWebhookDeployment ::
  "'w cluster_client \<Rightarrow> string \<Rightarrow> 'w \<Rightarrow> (go_error + unit) \<times> 'w" where
  "ensurePodIdentityWebhookDeployment c img =
     create_or_update c ''deployment'' (podIdentityWebhookDeployment img)"

definition pod_identity_webhook_service :: kube_object where
  "pod_identity_webhook_service =
     new_object SystemNamespace podIdentityWebhookName
       (Service \<lparr>ss_type = [], ss_selector = podIdentityWebhookLabels,
          ss_ports = [service_port_at ''https'' podIdentityWebhookPort]\<rparr>)"

definition ensurePodIdentityWebhookService :: "'w cluster_client \<Rightarrow> 'w \<Rightarrow> (go_error + unit) \<times> 'w" where
  "ensurePodIdentityWebhookService c = create_if_absent c ''service'' pod_identity_webhook_service"

definition EnsureIRSA ::
  "'w cluster_client \<Rightarrow> ('k, 'w) crypto \<Rightarrow> 'k CA \<Rightarrow> string \<Rightarrow> 'w \<Rightarrow> (go_error + unit) \<times> 'w" where
  "EnsureIRSA c cy ca webhookImage =
     and_then (ensureAgentTLSSecret c cy ca)
    (and_then (ensureInjectorWebhookConfiguration c ca)
    (and_then (ensurePodIdentityWebhookCertSecret c cy ca)
    (and_then (ensurePodIdentityWebhookRBAC c)
    (and_then (ensurePodIdentityWebhookDeployment c webhookImage)
    (and_then (ensurePodIdentityWebhookService c)
              (ensurePodIdentityWebhookConfiguration c ca))))))"

section \<open>The authenticator\<close>

definition EnsureAuthenticator ::
  "'w cluster_client \<Rightarrow> string \<Rightarrow> ServerCert \<Rightarrow> 'w \<Rightarrow> (go_error + unit) \<times> 'w" where
  "EnsureAuthenticator c img cert =
     and_then (ensureTLSSecret c AuthenticatorTLSCertName cert)
              (ensureAuthenticatorDaemonSet c (authenticatorDaemonSet img))"

section \<open>As steps\<close>

definition authenticator_steps :: "string \<Rightarrow> ServerCert \<Rightarrow> step list" where
  "authenticator_steps img cert =
     [CreateOrUpdate ''secret'' (tls_secret AuthenticatorTLSCertName cert),
      CreateOrUpdate ''daemonset'' (authenticatorDaemonSet img)]"

lemma EnsureAuthenticator_steps [ensure_steps]:
  "EnsureAuthenticator c img cert = run_steps c (authenticator_steps img cert)"
  by (simp add: EnsureAuthenticator_def authenticator_steps_def ensureTLSSecret_def
      ensureAuthenticatorDaemonSet_def run_steps_single run_steps_cons)

text \<open>The steps of \<open>EnsureIRSA\<close>, given the two certificates it issues.\<close>

definition irsa_steps :: "'k CA \<Rightarrow> string \<Rightarrow> ServerCert \<Rightarrow> ServerCert \<Rightarrow> step list" where
  "irsa_steps ca img agent_cert webhook_cert =
     [CreateOrUpdate ''secret'' (tls_secret AgentTLSCertName agent_cert),
      CreateOrUpdate ''mutating webhook configuration'' (injector_webhook_configuration ca),
      CreateOrUpdate ''secret'' (tls_secret podIdentityWebhookCertSecret webhook_cert),
      CreateIfAbsent ''service account'' (service_account podIdentityWebhookName),
      CreateIfAbsent ''cluster role'' pod_identity_webhook_role,
      CreateIfAbsent ''cluster role binding''
        (cluster_role_binding podIdentityWebhookName podIdentityWebhookName podIdentityWebhookName),
      CreateOrUpdate ''deployment'' (podIdentityWebhookDeployment img),
      CreateIfAbsent ''service'' pod_identity_webhook_service,
      CreateOrUpdate ''mutating webhook configuration'' (pod_identity_webhook_configuration ca)]"

lemma and_then_assoc: "and_then (and_then f g) h = and_then f (and_then g h)"
  by (auto simp: fun_eq_iff and_then_def split: prod.splits sum.splits)

lemma and_then_works:
  "and_then f g w = (Inr (), w') \<longleftrightarrow> (\<exists>w1. f w = (Inr (), w1) \<and> g w1 = (Inr (), w'))"
  by (auto simp: and_then_def split: prod.splits sum.splits)

text \<open>What follows the two certificates is a run of steps.\<close>

lemma irsa_rest:
  "and_then (ensurePodIdentityWebhookRBAC c)
     (and_then (ensurePodIdentityWebhookDeployment c img)
     (and_then (ensurePodIdentityWebhookService c) (ensurePodIdentityWebhookConfiguration c ca))) =
   run_steps c (drop 3 (irsa_steps ca img ac wc))"
  by (simp add: irsa_steps_def ensurePodIdentityWebhookRBAC_def ensurePodIdentityWebhookServiceAccount_def
      ensurePodIdentityWebhookClusterRole_def ensurePodIdentityWebhookClusterRoleBinding_def
      ensurePodIdentityWebhookDeployment_def ensurePodIdentityWebhookService_def
      ensurePodIdentityWebhookConfiguration_def ensureMutatingWebhookConfiguration_def
      run_steps_single run_steps_cons and_then_assoc)

section \<open>What a successful installation leaves behind\<close>

text \<open>A certificate that was issued for a Service, between two states of the world.\<close>

definition issued_for ::
  "('k, 'w) crypto \<Rightarrow> ('w \<Rightarrow> int) \<Rightarrow> 'k CA \<Rightarrow> string \<Rightarrow> 'w \<Rightarrow> 'w \<Rightarrow> ServerCert \<Rightarrow> bool" where
  "issued_for cy clock ca name w w' cert \<longleftrightarrow>
     (\<exists>v v'. IssueServerCert cy ca (serviceFQDN name) [serviceFQDN name, serviceFQDNCluster name] v
         = (Inr cert, v') \<and> clock w \<le> clock v \<and> clock v' \<le> clock w')"

lemma issued_for_mono:
  "issued_for cy clock ca name w w' cert \<Longrightarrow> clock w0 \<le> clock w \<Longrightarrow> clock w' \<le> clock w1 \<Longrightarrow>
   issued_for cy clock ca name w0 w1 cert"
  unfolding issued_for_def by (meson order_trans)

text \<open>
  The cluster and the cryptography of the host that installs it: neither touches the state of
  the other, and no call turns the clock back.
\<close>

locale install_world =
  cluster_api c cur retries + x509 cy accepts clock
  for c :: "'w cluster_client" and cur :: "'w \<Rightarrow> object_id \<rightharpoonup> kube_object" and retries :: nat
    and cy :: "('k, 'w) crypto" and accepts and clock :: "'w \<Rightarrow> int" +
  assumes key_keeps: "cur (snd (cy_generate_key cy n w)) = cur w"
    and random_keeps: "cur (snd (cy_random_int cy l w)) = cur w"
    and now_keeps: "cur (snd (cy_now cy w)) = cur w"
    and cert_keeps: "cur (snd (cy_create cy t p a b w)) = cur w"
    and create_clock: "clock w \<le> clock (snd (cl_create c ob w))"
    and get_clock: "clock w \<le> clock (snd (cl_get c k w))"
    and update_clock: "clock w \<le> clock (snd (cl_update c ob w))"
begin

lemma issue_keeps:
  assumes "IssueServerCert cy ca cn names w = (r, w')"
  shows "cur w' = cur w"
proof -
  have serial: "cur (snd (newSerialNumber cy v)) = cur v" for v
    using random_keeps [of "2 ^ serialNumberBits" v]
    by (auto simp: newSerialNumber_def split: prod.splits sum.splits)
  note keeps = key_keeps [of rsaKeyBits] serial now_keeps cert_keeps
  obtain k w1 where k: "cy_generate_key cy rsaKeyBits w = (k, w1)" by (metis surj_pair)
  obtain n w2 where n: "newSerialNumber cy w1 = (n, w2)" by (metis surj_pair)
  obtain t w3 where t: "cy_now cy w2 = (t, w3)" by (metis surj_pair)
  have "cur w1 = cur w" "cur w2 = cur w1" "cur w3 = cur w2"
    using keeps(1) [of w] keeps(2) [of w1] keeps(3) [of w2] k n t by simp_all
  moreover have "w' \<in> {w1, w2} \<or> (\<exists>c p a b. w' = snd (cy_create cy c p a b w3))"
    using assms k n t by (auto simp: IssueServerCert_def Let_def split: prod.splits sum.splits)
      (metis snd_conv)+
  ultimately show ?thesis using keeps(4) by auto
qed

lemma retry_clock:
  assumes "\<And>v. clock v \<le> clock (snd (f v))"
  shows "clock w \<le> clock (snd (retry_spec n f w))"
proof (induction n arbitrary: w)
  case (Suc n)
  obtain r w1 where f: "f w = (r, w1)" by fastforce
  with assms [of w] have "clock w \<le> clock w1" by simp
  with Suc [of w1] f show ?case by (cases r) auto
qed (simp add: assms)

lemma attempt_clock: "clock w \<le> clock (snd (update_attempt c noun ob w))"
proof -
  obtain r w1 where g: "cl_get c (object_id ob) w = (r, w1)" by fastforce
  with get_clock [of w "object_id ob"] have 1: "clock w \<le> clock w1" by simp
  show ?thesis
  proof (cases r)
    case (Inr old)
    obtain q w2 where u: "cl_update c (old\<lparr>ko_body := ko_body ob\<rparr>) w1 = (q, w2)" by fastforce
    with update_clock [of w1 "old\<lparr>ko_body := ko_body ob\<rparr>"] have "clock w1 \<le> clock w2" by simp
    with 1 g u Inr show ?thesis by (cases q) (simp_all add: update_attempt_def)
  qed (simp add: update_attempt_def g 1)
qed

lemma step_clock: "clock w \<le> clock (snd (run_step c s w))"
proof -
  obtain r w1 where cr: "cl_create c (step_object s) w = (r, w1)" by fastforce
  with create_clock [of w "step_object s"] have 1: "clock w \<le> clock w1" by simp
  show ?thesis
  proof (cases s)
    case (CreateIfAbsent noun ob)
    with cr 1 show ?thesis by (cases r) (simp_all add: create_if_absent_def)
  next
    case (CreateOrUpdate noun ob)
    obtain q w2 where u: "retry_spec retries (update_attempt c noun ob) w1 = (q, w2)" by fastforce
    with retry_clock [where f = "update_attempt c noun ob" and n = retries and w = w1, OF attempt_clock] have "clock w1 \<le> clock w2" by simp
    with cr 1 u CreateOrUpdate show ?thesis
      by (cases r; cases q) (simp_all add: create_or_update_def retry_law)
  qed
qed

lemma steps_clock: "clock w \<le> clock (snd (run_steps c ss w))"
proof (induction ss arbitrary: w)
  case (Cons s ss)
  obtain r w1 where s: "run_step c s w = (r, w1)" by fastforce
  with step_clock [of w s] have "clock w \<le> clock w1" by simp
  with Cons [of w1] s show ?case by (cases r) (simp_all add: and_then_def)
qed simp

lemma serial_clock: "clock w \<le> clock (snd (newSerialNumber cy w))"
  by (rule clock_serial [of w "fst (newSerialNumber cy w)"]) simp

lemma issue_clock:
  assumes "IssueServerCert cy ca cn names w = (r, w')"
  shows "clock w \<le> clock w'"
proof -
  obtain k w1 where k: "cy_generate_key cy rsaKeyBits w = (k, w1)" by (metis surj_pair)
  obtain n w2 where n: "newSerialNumber cy w1 = (n, w2)" by (metis surj_pair)
  obtain t w3 where t: "cy_now cy w2 = (t, w3)" by (metis surj_pair)
  have "clock w \<le> clock w1" "clock w1 \<le> clock w2" "clock w2 \<le> clock w3"
    using clock_key [where n = rsaKeyBits and w = w] serial_clock [of w1] clock_now [of w2] k n t by simp_all
  moreover have "w' \<in> {w1, w2} \<or> (\<exists>c p a b. w' = snd (cy_create cy c p a b w3))"
    using assms k n t by (auto simp: IssueServerCert_def Let_def split: prod.splits sum.splits)
      (metis snd_conv)+
  then have "w' \<in> {w1, w2} \<or> clock w3 \<le> clock w'" using clock_create by blast
  ultimately show ?thesis by auto
qed

text \<open>\<open>EnsureIRSA\<close> is a run of its steps, with two certificates issued on the way.\<close>

lemma EnsureIRSA_works:
  assumes "EnsureIRSA c cy ca img w = (Inr (), w')"
  shows "\<exists>ac wc. issued_for cy clock ca agentName w w' ac \<and>
    issued_for cy clock ca podIdentityWebhookName w w' wc \<and>
    contents (cur w') = apply_steps (irsa_steps ca img ac wc) (contents (cur w)) \<and> clock w \<le> clock w'"
proof -
  let ?rest = "drop 3 (irsa_steps ca img undefined undefined)"
  from assms obtain w1 w2 w3 where
    a: "ensureAgentTLSSecret c cy ca w = (Inr (), w1)"
    and i: "ensureInjectorWebhookConfiguration c ca w1 = (Inr (), w2)"
    and p: "ensurePodIdentityWebhookCertSecret c cy ca w2 = (Inr (), w3)"
    and r: "run_steps c ?rest w3 = (Inr (), w')"
    unfolding EnsureIRSA_def irsa_rest [where ac = undefined and wc = undefined] and_then_works by blast
  from a obtain ac va where ac: "IssueServerCert cy ca (serviceFQDN agentName)
        [serviceFQDN agentName, serviceFQDNCluster agentName] w = (Inr ac, va)"
      "run_step c (CreateOrUpdate ''secret'' (tls_secret AgentTLSCertName ac)) va = (Inr (), w1)"
    by (auto simp: ensureAgentTLSSecret_def ensureTLSSecret_def split: prod.splits sum.splits)
  from p obtain wc vc where wc: "IssueServerCert cy ca (serviceFQDN podIdentityWebhookName)
        [serviceFQDN podIdentityWebhookName, serviceFQDNCluster podIdentityWebhookName] w2 = (Inr wc, vc)"
      "run_step c (CreateOrUpdate ''secret'' (tls_secret podIdentityWebhookCertSecret wc)) vc = (Inr (), w3)"
    by (auto simp: ensurePodIdentityWebhookCertSecret_def ensureTLSSecret_def split: prod.splits sum.splits)
  from i have i: "run_step c (CreateOrUpdate ''mutating webhook configuration''
      (injector_webhook_configuration ca)) w1 = (Inr (), w2)"
    by (simp add: ensureInjectorWebhookConfiguration_def ensureMutatingWebhookConfiguration_def)
  have "clock w \<le> clock va" "clock va \<le> clock w1" "clock w1 \<le> clock w2" "clock w2 \<le> clock vc"
      "clock vc \<le> clock w3" "clock w3 \<le> clock w'"
    using issue_clock [OF ac(1)] issue_clock [OF wc(1)] step_clock ac(2) wc(2) i r steps_clock
    by (metis snd_conv)+
  then have "issued_for cy clock ca agentName w w' ac"
      "issued_for cy clock ca podIdentityWebhookName w w' wc" "clock w \<le> clock w'"
    unfolding issued_for_def using ac(1) wc(1)
    by (force intro: order_trans)+
  moreover have "contents (cur w') = apply_steps (irsa_steps ca img ac wc) (contents (cur w))"
    using run_step_works [OF ac(2)] run_step_works [OF i] run_step_works [OF wc(2)]
      run_steps_works [OF r] issue_keeps [OF ac(1)] issue_keeps [OF wc(1)]
    by (simp add: irsa_steps_def)
  ultimately show ?thesis by blast
qed

end

end
