(* ===== verification/Frames.thy ===== *)
theory Frames
  imports Irsa_Install Cluster_Info
begin

text \<open>
  What a call leaves alone. A call \<open>obeys\<close> a relation on worlds when every run of it moves along
  the relation; the relations used are preorders (an object unchanged, a clock that does not go
  back), so that a sequence of calls obeys what its parts obey. The lemmas carry a preorder
  through the operations of \<open>Cluster_Api\<close> and of the registries.
\<close>

section \<open>Calls that obey a preorder\<close>

definition obeys :: "('w \<Rightarrow> 'w \<Rightarrow> bool) \<Rightarrow> ('w \<Rightarrow> 'a \<times> 'w) \<Rightarrow> bool" where
  "obeys R g \<longleftrightarrow> (\<forall>w. R w (snd (g w)))"

definition preorder_on_worlds :: "('w \<Rightarrow> 'w \<Rightarrow> bool) \<Rightarrow> bool" where
  "preorder_on_worlds R \<longleftrightarrow> (\<forall>w. R w w) \<and> (\<forall>u v w. R u v \<longrightarrow> R v w \<longrightarrow> R u w)"

lemma obeysD: "obeys R g \<Longrightarrow> g w = (r, w') \<Longrightarrow> R w w'"
  unfolding obeys_def by (metis snd_conv)

lemma obeysI: "(\<And>w r w'. g w = (r, w') \<Longrightarrow> R w w') \<Longrightarrow> obeys R g"
  unfolding obeys_def by (metis surjective_pairing)

lemma preorder_refl: "preorder_on_worlds R \<Longrightarrow> R w w"
  by (simp add: preorder_on_worlds_def)

lemma preorder_trans: "preorder_on_worlds R \<Longrightarrow> R u v \<Longrightarrow> R v w \<Longrightarrow> R u w"
  unfolding preorder_on_worlds_def by blast

lemma obeys_pure: "preorder_on_worlds R \<Longrightarrow> obeys R (\<lambda>w. (r, w))"
  by (simp add: obeys_def preorder_refl)

lemma obeys_and_then:
  assumes "preorder_on_worlds R" and "obeys R f" and "obeys R g"
  shows "obeys R (and_then f g)"
proof (rule obeysI)
  fix w r w'
  assume run: "and_then f g w = (r, w')"
  obtain q w1 where f: "f w = (q, w1)" by fastforce
  with run have "w' = w1 \<or> g w1 = (r, w')" by (cases q) (simp_all add: and_then_def)
  with obeysD [OF assms(2) f] obeysD [OF assms(3)] show "R w w'" using preorder_trans [OF assms(1)] by blast
qed

lemma obeys_wrapped: "obeys R f \<Longrightarrow> obeys R (wrapped msg f)"
  by (auto simp: obeys_def wrapped_def split: prod.splits sum.splits) (metis snd_conv)+

lemma obeys_retry:
  assumes "preorder_on_worlds R" and "obeys R f"
  shows "obeys R (retry_spec n f)"
proof (induction n)
  case (Suc n)
  show ?case
  proof (rule obeysI)
    fix w r w'
    assume run: "retry_spec (Suc n) f w = (r, w')"
    obtain q w1 where f: "f w = (q, w1)" by fastforce
    with run have "w' = w1 \<or> retry_spec n f w1 = (r, w')" by (cases q) (auto split: if_splits)
    with obeysD [OF assms(2) f] obeysD [OF Suc] show "R w w'" using preorder_trans [OF assms(1)] by blast
  qed
qed (simp add: assms(2))

lemma obeys_create_if_absent: "obeys R (cl_create c ob) \<Longrightarrow> obeys R (create_if_absent c noun ob)"
  by (auto simp: obeys_def create_if_absent_def split: prod.splits sum.splits) (metis snd_conv)+

section \<open>Installations\<close>

text \<open>The calls an installation of objects with this identity makes.\<close>

definition calls_obey :: "('w \<Rightarrow> 'w \<Rightarrow> bool) \<Rightarrow> 'w cluster_client \<Rightarrow> object_id \<Rightarrow> bool" where
  "calls_obey R c k \<longleftrightarrow>
     obeys R (cl_get c k) \<and>
     (\<forall>ob. object_id ob = k \<longrightarrow> obeys R (cl_create c ob) \<and> obeys R (cl_update c ob))"

context cluster_api begin

lemma obeys_update_attempt:
  assumes "preorder_on_worlds R" and "calls_obey R c (object_id ob)"
  shows "obeys R (update_attempt c noun ob)"
proof (rule obeysI)
  fix w r w'
  assume run: "update_attempt c noun ob w = (r, w')"
  obtain q w1 where g: "cl_get c (object_id ob) w = (q, w1)" by fastforce
  have 1: "R w w1" using assms(2) g by (auto simp: calls_obey_def dest: obeysD)
  show "R w w'"
  proof (cases q)
    case (Inl e)
    with run g 1 show ?thesis by (simp add: update_attempt_def)
  next
    case (Inr old)
    let ?new = "old\<lparr>ko_body := ko_body ob\<rparr>"
    have "object_id old = object_id ob" using get_works [OF g [unfolded Inr]] cur_id by blast
    then have "object_id ?new = object_id ob" by (metis object_id_kind set_body_id)
    then have upd: "obeys R (cl_update c ?new)" using assms(2) by (simp add: calls_obey_def)
    obtain p w2 where u: "cl_update c ?new w1 = (p, w2)" by fastforce
    with run g Inr have "w' = w2" by (cases p) (simp_all add: update_attempt_def)
    with obeysD [OF upd u] 1 show ?thesis using preorder_trans [OF assms(1)] by blast
  qed
qed

lemma obeys_create_or_update:
  assumes "preorder_on_worlds R" and "calls_obey R c (object_id ob)"
  shows "obeys R (create_or_update c noun ob)"
proof (rule obeysI)
  fix w r w'
  assume run: "create_or_update c noun ob w = (r, w')"
  obtain q w1 where cr: "cl_create c ob w = (q, w1)" by fastforce
  have 1: "R w w1" using assms(2) cr by (auto simp: calls_obey_def dest: obeysD)
  obtain p w2 where u: "retry_spec retries (update_attempt c noun ob) w1 = (p, w2)" by fastforce
  with cr run have "w' = w1 \<or> w' = w2"
    by (cases q; cases p) (auto simp: create_or_update_def retry_law split: if_splits)
  moreover have "R w1 w2"
    using obeysD [OF obeys_retry [OF assms(1) obeys_update_attempt [OF assms]] u] .
  ultimately show "R w w'" using 1 preorder_trans [OF assms(1)] by blast
qed

lemma obeys_step:
  "preorder_on_worlds R \<Longrightarrow> calls_obey R c (step_id s) \<Longrightarrow> obeys R (run_step c s)"
  by (cases s) (simp_all add: obeys_create_or_update obeys_create_if_absent calls_obey_def)

lemma obeys_steps:
  assumes R: "preorder_on_worlds R" and all: "\<forall>s \<in> set ss. calls_obey R c (step_id s)"
  shows "obeys R (run_steps c ss)"
  using all
proof (induction ss)
  case Nil
  show ?case by (rule obeysI) (simp add: preorder_refl [OF R])
next
  case (Cons s ss)
  then have "obeys R (and_then (run_step c s) (run_steps c ss))"
    by (intro obeys_and_then [OF R] obeys_step [OF R]) simp_all
  then show ?case by (simp add: obeys_def)
qed

end

section \<open>Registries\<close>

definition registry_obeys :: "('w \<Rightarrow> 'w \<Rightarrow> bool) \<Rightarrow> 'w data_client \<Rightarrow> string \<Rightarrow> bool" where
  "registry_obeys R c nm \<longleftrightarrow>
     obeys R (api_get c SystemNamespace nm) \<and>
     (\<forall>ob. object_key ob = (SystemNamespace, nm) \<longrightarrow> obeys R (api_create c ob) \<and> obeys R (api_update c ob))"

lemma registry_create_obeys:
  "registry_obeys R c nm \<Longrightarrow> do_namespace ob = SystemNamespace \<Longrightarrow> do_name ob = nm \<Longrightarrow>
   api_create c ob w = (r, w') \<Longrightarrow> R w w'"
  unfolding registry_obeys_def object_key_def by (blast dest: obeysD)

lemma obeys_get_registry:
  "registry_obeys R c nm \<Longrightarrow> obeys R (get_registry c nm kind nf)"
  by (auto simp: registry_obeys_def get_registry_def split: prod.splits sum.splits
      intro!: obeysI dest: obeysD split: if_splits)

lemma obeys_get_or_create:
  assumes R: "preorder_on_worlds R" and reg: "registry_obeys R c nm"
  shows "obeys R (get_or_create_registry c nm kind nf)"
proof -
  have create: "obeys R (create_registry c nm kind nf)"
  proof (rule obeysI)
    fix w r w'
    assume run: "create_registry c nm kind nf w = (r, w')"
    let ?ob = "\<lparr>do_namespace = SystemNamespace, do_name = nm, do_rv = 0, do_data = Some []\<rparr>"
    obtain q w1 where cr: "api_create c ?ob w = (q, w1)" by fastforce
    have "R w w1" using registry_create_obeys [OF reg _ _ cr] by simp
    moreover have "w' = w1 \<or> get_registry c nm kind nf w1 = (r, w')"
      using run cr by (cases q) (auto simp: create_registry_def Let_def split: if_splits)
    ultimately show "R w w'"
      using obeysD [OF obeys_get_registry [OF reg]] preorder_trans [OF R] by blast
  qed
  show ?thesis
  proof (rule obeysI)
    fix w r w'
    assume run: "get_or_create_registry c nm kind nf w = (r, w')"
    obtain q w1 where g: "get_registry c nm kind nf w = (q, w1)" by fastforce
    have "w' = w1 \<or> (\<exists>p. create_registry c nm kind nf w1 = (p, w'))"
      using run g by (auto simp: get_or_create_registry_def Let_def split: prod.splits sum.splits if_splits)
    with obeysD [OF obeys_get_registry [OF reg] g] obeysD [OF create]
    show "R w w'" using preorder_trans [OF R] by blast
  qed
qed

context data_api begin

lemma obeys_put_attempt:
  assumes R: "preorder_on_worlds R" and reg: "registry_obeys R c nm"
  shows "obeys R (put_attempt c nm kind nf edit)"
proof (rule obeysI)
  fix w r w'
  assume run: "put_attempt c nm kind nf edit w = (r, w')"
  obtain q w1 where g: "get_or_create_registry c nm kind nf w = (q, w1)" by fastforce
  note 1 = obeysD [OF obeys_get_or_create [OF R reg] g]
  show "R w w'"
  proof (cases q)
    case (Inl e)
    with run g 1 show ?thesis by (simp add: put_attempt_def)
  next
    case (Inr ob)
    let ?ob = "ob\<lparr>do_data := Some (edit (data_entries ob))\<rparr>"
    from get_or_create_current [OF g [unfolded Inr]]
    have key: "object_key ?ob = (SystemNamespace, nm)" by (auto simp: object_key_def)
    have upd: "obeys R (api_update c ?ob)" using reg key unfolding registry_obeys_def by blast
    obtain p w2 where u: "api_update c ?ob w1 = (p, w2)" by fastforce
    with run g Inr have "w' = w2" by (cases p) (auto simp: put_attempt_def update_registry_def)
    with obeysD [OF upd u] 1 show ?thesis using preorder_trans [OF R] by blast
  qed
qed

lemma obeys_secret_put:
  assumes "preorder_on_worlds R" and "registry_obeys R c PrincipalsSecretName"
  shows "obeys R (secret_put c p)"
  using obeys_retry [OF assms(1) obeys_put_attempt [OF assms]]
  by (auto simp: obeys_def secret_put_def retry_law split: prod.splits sum.splits) (metis snd_conv)+

lemma obeys_info_put:
  assumes R: "preorder_on_worlds R" and reg: "registry_obeys R c ClusterInfoConfigMapName"
  shows "obeys R (info_put c info)"
proof (rule obeysI)
  fix w r w'
  assume run: "info_put c info w = (r, w')"
  let ?data = "[(clusterInfoConfigMapKey, encode_info info)]"
  let ?new = "\<lparr>do_namespace = SystemNamespace, do_name = ClusterInfoConfigMapName, do_rv = 0,
    do_data = Some ?data\<rparr>"
  obtain q w1 where cr: "api_create c ?new w = (q, w1)" by fastforce
  have 1: "R w w1" using registry_create_obeys [OF reg _ _ cr] by simp
  obtain p w2 where g: "api_get c SystemNamespace ClusterInfoConfigMapName w1 = (p, w2)" by fastforce
  have 2: "R w1 w2" using reg g by (auto simp: registry_obeys_def dest: obeysD)
  have 3: "R w2 w3" if "p = Inr ob" and u: "api_update c (ob\<lparr>do_data := Some ?data\<rparr>) w2 = (s, w3)" for ob s w3
  proof -
    from g that(1) have "cur (env w1) (SystemNamespace, ClusterInfoConfigMapName) = Some ob"
      by (simp add: get_law split: option.splits)
    from cur_wf [OF this] have "object_key (ob\<lparr>do_data := Some ?data\<rparr>) = (SystemNamespace, ClusterInfoConfigMapName)"
      by (simp add: object_key_def)
    with reg u show ?thesis unfolding registry_obeys_def by (blast dest: obeysD)
  qed
  have "w' = w1 \<or> w' = w2 \<or>
      (\<exists>ob s. p = Inr ob \<and> api_update c (ob\<lparr>do_data := Some ?data\<rparr>) w2 = (s, w'))"
    using run cr g
    by (cases q; cases p) (auto simp: info_put_def Let_def split: if_splits prod.splits sum.splits)
  with 1 2 3 show "R w w'" using preorder_trans [OF R] by blast
qed

end

lemma obeys_secret_get_by_name:
  assumes "registry_obeys R c PrincipalsSecretName"
  shows "obeys R (secret_get_by_name c n)"
proof (rule obeysI)
  fix w r w'
  assume run: "secret_get_by_name c n w = (r, w')"
  obtain q w1 where g: "get_secret c w = (q, w1)" by fastforce
  have "w' = w1"
    using run g by (cases q)
      (auto simp: secret_get_by_name_def secret_list_unsorted_def split: if_splits sum.splits)
  with obeysD [OF obeys_get_registry [OF assms]] g show "R w w'" unfolding get_secret_def by blast
qed

lemma obeys_access_key:
  assumes R: "preorder_on_worlds R" and "\<forall>n. obeys R (rand_int rs n)"
  shows "obeys R (GenerateAccessKeyID rs)"
proof -
  have suffix: "obeys R (access_key_suffix rs i)" for i
  proof (induction i)
    case 0
    show ?case by (rule obeysI) (simp add: preorder_refl [OF R])
  next
    case (Suc i)
    show ?case
    proof (rule obeysI)
      fix w r w'
      assume run: "access_key_suffix rs (Suc i) w = (r, w')"
      obtain q w1 where g: "rand_int rs (length accessKeyIDSuffixChars) w = (q, w1)" by fastforce
      with run have "w' = w1 \<or> (\<exists>p. access_key_suffix rs i w1 = (p, w'))"
        by (auto split: sum.splits prod.splits)
      with obeysD [OF Suc] g assms(2) show "R w w'"
        using preorder_trans [OF R] by (blast dest: obeysD)
    qed
  qed
  show ?thesis
    by (rule obeysI) (auto simp: GenerateAccessKeyID_def dest: obeysD [OF suffix] split: prod.splits sum.splits)
qed

end
