(* ===== verification/Provider.thy ===== *)
theory Provider
  imports Go_Path
begin

text \<open>
  Clusters as the command line sees them (\<open>internal/provider\<close>) and their one implementation over
  the rask library (\<open>internal/rask/config.go\<close>, \<open>provider.go\<close>). rask itself is the parameter
  \<open>rask\<close>; the files of the host are a world \<open>'f\<close>, walking a directory gives the paths of its
  entries relative to it.
\<close>

section \<open>Configurations\<close>

record mount =
  mo_host_path :: string
  mo_container_path :: string

record auth_webhook =
  aw_config_file_path :: string
  aw_volume_mount_path :: string

record cluster_config =
  cg_name :: string
  cg_kube_version :: string
  cg_coredns_repository :: string
  cg_coredns_tag :: string
  cg_extra_mounts :: "mount list"
  cg_auth_webhook :: "auth_webhook option"

record create_options =
  cr_component_dir :: string
  cr_config :: "cluster_config option"
  cr_wait_for_ready :: int

section \<open>rask\<close>

record preboot_file =
  pf_src :: string
  pf_dest :: string

record rask_options =
  ro_wait :: string
  ro_component_dir :: string
  ro_coredns_image :: string
  ro_preboot_files :: "preboot_file list"
  ro_api_server_args :: "string list"

record 'w rask =
  rk_create :: "string \<Rightarrow> rask_options \<Rightarrow> 'w \<Rightarrow> (go_error + unit) \<times> 'w"
  rk_delete :: "string \<Rightarrow> 'w \<Rightarrow> (go_error + unit) \<times> 'w"
  rk_list :: "'w \<Rightarrow> go_error + string list"
  rk_load_images :: "string \<Rightarrow> string \<Rightarrow> 'w \<Rightarrow> (go_error + unit) \<times> 'w"
  rk_kubeconfig :: "string \<Rightarrow> 'w \<Rightarrow> go_error + string"
  rk_preboot_path :: "string \<Rightarrow> string \<Rightarrow> string"
  rk_port_forward :: "string \<Rightarrow> string \<Rightarrow> string \<Rightarrow> 'w \<Rightarrow> (go_error + string) \<times> 'w"

text \<open>An entry a walk meets: its path relative to the root, and whether it is a directory.\<close>

type_synonym walk_entry = "string \<times> bool"

type_synonym 'f walker = "string \<Rightarrow> 'f \<Rightarrow> go_error + walk_entry list"

definition authWebhookConfigFileArg :: string where
  "authWebhookConfigFileArg = ''authentication-token-webhook-config-file''"

text \<open>rask's \<open>WaitCoreDNS\<close> and \<open>WaitNode\<close>.\<close>

definition waitOption :: "int \<Rightarrow> string" where
  "waitOption waitForReady = (if waitForReady > 0 then ''coredns'' else ''node'')"

definition coreDNSImage :: "cluster_config \<Rightarrow> go_error + string" where
  "coreDNSImage g =
     (if cg_coredns_repository g = [] \<and> cg_coredns_tag g = [] then Inr []
      else if cg_coredns_repository g = [] \<or> cg_coredns_tag g = []
      then Inl (Errorf ''coredns image repository and tag must both be set or both be empty (got repository=%q tag=%q)''
             [cg_coredns_repository g, cg_coredns_tag g])
      else Inr (cg_coredns_repository g @ '':'' @ cg_coredns_tag g))"

definition mountDestPrefix :: "nat \<Rightarrow> string" where
  "mountDestPrefix i = ''mount'' @ string_of_nat i"

definition mount_files :: "nat \<Rightarrow> string \<Rightarrow> walk_entry list \<Rightarrow> preboot_file list" where
  "mount_files i host entries =
     map (\<lambda>(rel, _). \<lparr>pf_src = path_join host rel, pf_dest = path_join (mountDestPrefix i) rel\<rparr>)
       (filter (\<lambda>(_, is_dir). \<not> is_dir) entries)"

fun preboot_files_from :: "'f walker \<Rightarrow> nat \<Rightarrow> mount list \<Rightarrow> 'f \<Rightarrow> go_error + preboot_file list" where
  "preboot_files_from walk i [] f = Inr []"
| "preboot_files_from walk i (m # ms) f =
     (case walk (mo_host_path m) f of
        Inl e \<Rightarrow> Inl (Wrapf ''stage extra mount %q: %w'' [mo_host_path m] e)
      | Inr entries \<Rightarrow>
          (case preboot_files_from walk (Suc i) ms f of
             Inl e \<Rightarrow> Inl e
           | Inr rest \<Rightarrow> Inr (mount_files i (mo_host_path m) entries @ rest)))"

definition prebootFiles :: "'f walker \<Rightarrow> mount list \<Rightarrow> 'f \<Rightarrow> go_error + preboot_file list" where
  "prebootFiles walk mounts f = preboot_files_from walk 0 mounts f"

definition trim_prefix :: "string \<Rightarrow> string \<Rightarrow> string" where
  "trim_prefix p s = (case cut_prefix p s of None \<Rightarrow> s | Some r \<Rightarrow> r)"

fun auth_webhook_dest_from :: "auth_webhook \<Rightarrow> nat \<Rightarrow> mount list \<Rightarrow> go_error + string" where
  "auth_webhook_dest_from aw i [] =
     Inl (Errorf ''auth webhook config file %q: no extra mount with container path %q''
       [aw_config_file_path aw, aw_volume_mount_path aw])"
| "auth_webhook_dest_from aw i (m # ms) =
     (if mo_container_path m \<noteq> aw_volume_mount_path aw then auth_webhook_dest_from aw (Suc i) ms
      else
        (let rel = trim_prefix ''/'' (trim_prefix (aw_volume_mount_path aw) (aw_config_file_path aw))
         in Inr (path_join (mountDestPrefix i) rel)))"

definition authWebhookDest :: "auth_webhook \<Rightarrow> mount list \<Rightarrow> go_error + string" where
  "authWebhookDest aw mounts = auth_webhook_dest_from aw 0 mounts"

definition applyConfig ::
  "'w rask \<Rightarrow> 'f walker \<Rightarrow> string \<Rightarrow> cluster_config \<Rightarrow> rask_options \<Rightarrow> 'f \<Rightarrow> go_error + rask_options" where
  "applyConfig rk walk name g createOpts f =
     (case coreDNSImage g of
        Inl e \<Rightarrow> Inl e
      | Inr coreDNS \<Rightarrow>
          (let opts1 = createOpts\<lparr>ro_coredns_image := coreDNS\<rparr> in
           case (if cg_extra_mounts g \<noteq> []
                 then (case prebootFiles walk (cg_extra_mounts g) f of
                         Inl e \<Rightarrow> Inl e
                       | Inr files \<Rightarrow> Inr (opts1\<lparr>ro_preboot_files := files\<rparr>))
                 else Inr opts1) of
             Inl e \<Rightarrow> Inl e
           | Inr opts2 \<Rightarrow>
               (case cg_auth_webhook g of
                  None \<Rightarrow> Inr opts2
                | Some aw \<Rightarrow>
                    (case authWebhookDest aw (cg_extra_mounts g) of
                       Inl e \<Rightarrow> Inl e
                     | Inr dest \<Rightarrow>
                         (let arg = authWebhookConfigFileArg @ ''='' @ rk_preboot_path rk name dest
                          in Inr (opts2\<lparr>ro_api_server_args := ro_api_server_args opts2 @ [arg]\<rparr>))))))"

definition CreateCluster ::
  "'w rask \<Rightarrow> 'f walker \<Rightarrow> string \<Rightarrow> create_options \<Rightarrow> 'f \<Rightarrow> 'w \<Rightarrow> (go_error + unit) \<times> 'w" where
  "CreateCluster rk walk name opts f w =
     (let createOpts = \<lparr>ro_wait = waitOption (cr_wait_for_ready opts),
            ro_component_dir = cr_component_dir opts, ro_coredns_image = [], ro_preboot_files = [],
            ro_api_server_args = []\<rparr> in
      case (case cr_config opts of
              None \<Rightarrow> Inr createOpts
            | Some g \<Rightarrow> applyConfig rk walk name g createOpts f) of
        Inl e \<Rightarrow> (Inl e, w)
      | Inr createOpts1 \<Rightarrow>
          (case rk_create rk name createOpts1 w of
             (Inl e, w1) \<Rightarrow> (Inl (Wrapf ''create cluster %q: %w'' [name] e), w1)
           | (Inr _, w1) \<Rightarrow> (Inr (), w1)))"

definition DeleteCluster :: "'w rask \<Rightarrow> string \<Rightarrow> 'w \<Rightarrow> (go_error + unit) \<times> 'w" where
  "DeleteCluster rk name w =
     (case rk_delete rk name w of
        (Inl e, w1) \<Rightarrow> (Inl (Wrapf ''delete cluster %q: %w'' [name] e), w1)
      | (Inr _, w1) \<Rightarrow> (Inr (), w1))"

definition ListClusters :: "'w rask \<Rightarrow> 'w \<Rightarrow> go_error + string list" where
  "ListClusters rk w =
     (case rk_list rk w of
        Inl e \<Rightarrow> Inl (Wrapf ''list clusters: %w'' [] e)
      | Inr names \<Rightarrow> Inr names)"

definition KubeConfig :: "'w rask \<Rightarrow> 'w \<Rightarrow> string \<Rightarrow> go_error + string" where
  "KubeConfig rk w name =
     (case rk_kubeconfig rk name w of
        Inl e \<Rightarrow> Inl (Wrapf ''get kubeconfig for cluster %q: %w'' [name] e)
      | Inr data \<Rightarrow> Inr data)"

definition PortForward ::
  "'w rask \<Rightarrow> string \<Rightarrow> string \<Rightarrow> string \<Rightarrow> 'w \<Rightarrow> (go_error + string) \<times> 'w" where
  "PortForward rk name localAddr remoteAddr w =
     (case rk_port_forward rk name localAddr remoteAddr w of
        (Inl e, w1) \<Rightarrow>
          (Inl (Wrapf ''port forward %s -> %s for cluster %q: %w'' [localAddr, remoteAddr, name] e), w1)
      | (Inr bound, w1) \<Rightarrow> (Inr bound, w1))"

section \<open>docker\<close>

text \<open>
  The \<open>docker\<close> command: a run of it with its arguments, and \<open>docker save\<close> of an image whose
  output is piped into rask while it runs. \<open>dk_save_stderr\<close> is the trimmed standard error of the
  command that was waited for.
\<close>

record 'w docker =
  dk_run :: "string list \<Rightarrow> 'w \<Rightarrow> (go_error + unit) \<times> 'w"
  dk_save_pipe :: "string \<Rightarrow> 'w \<Rightarrow> (go_error + unit) \<times> 'w"
  dk_save_start :: "string \<Rightarrow> 'w \<Rightarrow> (go_error + unit) \<times> 'w"
  dk_save_wait :: "string \<Rightarrow> 'w \<Rightarrow> (go_error + unit) \<times> 'w"
  dk_save_stderr :: "string \<Rightarrow> 'w \<Rightarrow> string"

definition LoadDockerImage ::
  "'w docker \<Rightarrow> 'w rask \<Rightarrow> string \<Rightarrow> string \<Rightarrow> 'w \<Rightarrow> (go_error + unit) \<times> 'w" where
  "LoadDockerImage dk rk name imageRef w =
     (case dk_save_pipe dk imageRef w of
        (Inl e, w1) \<Rightarrow> (Inl (Wrapf ''piping docker save output: %w'' [] e), w1)
      | (Inr _, w1) \<Rightarrow>
          (case dk_save_start dk imageRef w1 of
             (Inl e, w2) \<Rightarrow>
               (Inl (Wrapf ''starting docker save (is Docker installed and the daemon running?): %w'' [] e), w2)
           | (Inr _, w2) \<Rightarrow>
               (case rk_load_images rk name imageRef w2 of
                  (loadErr, w3) \<Rightarrow>
                    (case dk_save_wait dk imageRef w3 of
                       (Inl e, w4) \<Rightarrow>
                         (Inl (Wrapf ''docker save %q: %w (%s)'' [imageRef, dk_save_stderr dk imageRef w4] e), w4)
                     | (Inr _, w4) \<Rightarrow>
                         (case loadErr of
                            Inl e \<Rightarrow> (Inl (Wrapf ''load image %q onto cluster %q: %w'' [imageRef, name] e), w4)
                          | Inr _ \<Rightarrow> (Inr (), w4))))))"

section \<open>Image references\<close>

text \<open>
  \<open>splitImageRef\<close> of \<open>cli/eks.go\<close>: the tag follows the last colon, unless a slash comes after it.
\<close>

definition splitImageRef :: "string \<Rightarrow> string \<times> string" where
  "splitImageRef ref =
     (let after = takeWhile (\<lambda>c. c \<noteq> CHR '':'') (rev ref);
          before = dropWhile (\<lambda>c. c \<noteq> CHR '':'') (rev ref)
      in if before = [] \<or> slash \<in> set after then (ref, [])
         else (rev (tl before), rev after))"

lemma splitImageRef_append:
  assumes "CHR '':'' \<notin> set tag" and "slash \<notin> set tag"
  shows "splitImageRef (repo @ '':'' @ tag) = (repo, tag)"
proof -
  have r: "rev (repo @ '':'' @ tag) = rev tag @ CHR '':'' # rev repo" by simp
  have t: "takeWhile (\<lambda>c. c \<noteq> CHR '':'') (rev tag @ CHR '':'' # rev repo) = rev tag"
    using takeWhile_append2 [of "rev tag" "\<lambda>c. c \<noteq> CHR '':''" "CHR '':'' # rev repo"] assms(1) by auto
  have d: "dropWhile (\<lambda>c. c \<noteq> CHR '':'') (rev tag @ CHR '':'' # rev repo) = CHR '':'' # rev repo"
    using dropWhile_append2 [of "rev tag" "\<lambda>c. c \<noteq> CHR '':''" "CHR '':'' # rev repo"] assms(1) by auto
  show ?thesis
    unfolding splitImageRef_def Let_def r t d using assms(2) by simp
qed

lemma splitImageRef_join:
  assumes "splitImageRef ref = (repo, tag)" and "tag \<noteq> []"
  shows "ref = repo @ '':'' @ tag \<and> CHR '':'' \<notin> set tag \<and> slash \<notin> set tag"
proof -
  let ?after = "takeWhile (\<lambda>c. c \<noteq> CHR '':'') (rev ref)"
  let ?before = "dropWhile (\<lambda>c. c \<noteq> CHR '':'') (rev ref)"
  from assms have b: "?before \<noteq> []" "slash \<notin> set ?after" and t: "tag = rev ?after" "repo = rev (tl ?before)"
    by (auto simp: splitImageRef_def Let_def split: if_splits)
  from b(1) have hd: "hd ?before = CHR '':''" using hd_dropWhile [OF b(1)] by blast
  have "rev ref = ?after @ ?before" by (rule takeWhile_dropWhile_id [symmetric])
  also have "?before = CHR '':'' # tl ?before" using list.collapse [OF b(1)] unfolding hd by (rule sym)
  finally have "rev (rev ref) = rev (?after @ CHR '':'' # tl ?before)" by (rule arg_cong)
  then have "ref = repo @ '':'' @ tag" using t by simp
  then show ?thesis using b(2) t by (auto dest: set_takeWhileD)
qed

end
