(* ===== verification/Kubeconfig.thy ===== *)
theory Kubeconfig
  imports Principal_Store Agent_Install
begin

text \<open>
  The user's kubeconfig (\<open>cli/kubeconfig.go\<close>) and the commands on IAM principals
  (\<open>cli/principal.go\<close>). The files of the host and the cluster are two worlds: \<open>'f\<close> and \<open>'w\<close>.
  Loading, parsing and writing kubeconfigs is \<open>clientcmd\<close>'s, a parameter with the locale
  \<open>kube_files\<close> of \<open>Principal_Login\<close>; connecting to a context gives a client of the cluster.
\<close>

section \<open>Kubeconfigs\<close>

text \<open>The fields the code does not look into are kept in one opaque component each.\<close>

record kube_cluster =
  kc_server :: string
  kc_ca_data :: "byte list"
  kc_rest :: string

record exec_config =
  ex_api_version :: string
  ex_command :: string
  ex_args :: "string list"
  ex_env :: "(string \<times> string) list"
  ex_interactive_mode :: string

record auth_info =
  ai_exec :: "exec_config option"
  ai_rest :: string

record kube_context =
  kx_cluster :: string
  kx_auth_info :: string

record kubeconfig =
  kf_clusters :: "(string, kube_cluster) go_map"
  kf_auth_infos :: "(string, auth_info) go_map"
  kf_contexts :: "(string, kube_context) go_map"
  kf_current :: string

definition NewConfig :: kubeconfig where
  "NewConfig = \<lparr>kf_clusters = [], kf_auth_infos = [], kf_contexts = [], kf_current = []\<rparr>"

text \<open>
  \<open>cc_load\<close> is \<open>rules.Load\<close> of the default loading rules, \<open>cc_default_filename\<close> their
  \<open>GetDefaultFilename\<close>, \<open>cc_parse\<close> is \<open>clientcmd.Load\<close>.
\<close>

record 'f clientcmd =
  cc_load :: "'f \<Rightarrow> go_error + kubeconfig"
  cc_default_filename :: "'f \<Rightarrow> string"
  cc_load_file :: "string \<Rightarrow> 'f \<Rightarrow> go_error + kubeconfig"
  cc_is_not_exist :: "go_error \<Rightarrow> bool"
  cc_write_file :: "kubeconfig \<Rightarrow> string \<Rightarrow> 'f \<Rightarrow> (go_error + unit) \<times> 'f"
  cc_parse :: "string \<Rightarrow> go_error + kubeconfig"

definition loadOrNewKubeconfig :: "'f clientcmd \<Rightarrow> string \<Rightarrow> 'f \<Rightarrow> go_error + kubeconfig" where
  "loadOrNewKubeconfig cc path f =
     (case cc_load_file cc path f of
        Inr config \<Rightarrow> Inr config
      | Inl e \<Rightarrow>
          if \<not> cc_is_not_exist cc e then Inl (Wrapf ''load kubeconfig %q: %w'' [path] e)
          else Inr NewConfig)"

definition loadClusterConfig :: "'f clientcmd \<Rightarrow> string \<Rightarrow> 'f \<Rightarrow> go_error + kube_cluster" where
  "loadClusterConfig cc kubeContext f =
     (case cc_load cc f of
        Inl e \<Rightarrow> Inl (Wrapf ''load kubeconfig: %w'' [] e)
      | Inr config \<Rightarrow>
          (case map_of (kf_contexts config) kubeContext of
             None \<Rightarrow> Inl (Errorf ''kubeconfig has no context %q'' [kubeContext])
           | Some entryContext \<Rightarrow>
               (case map_of (kf_clusters config) (kx_cluster entryContext) of
                  None \<Rightarrow> Inl (Errorf ''kubeconfig has no cluster %q'' [kx_cluster entryContext])
                | Some entryCluster \<Rightarrow> Inr entryCluster)))"

text \<open>The three entries under one name that becomes current.\<close>

definition add_entry :: "string \<Rightarrow> kube_cluster \<Rightarrow> auth_info \<Rightarrow> kubeconfig \<Rightarrow> kubeconfig" where
  "add_entry name cluster authInfo config =
     config\<lparr>kf_clusters := map_set name cluster (kf_clusters config),
            kf_auth_infos := map_set name authInfo (kf_auth_infos config),
            kf_contexts := map_set name \<lparr>kx_cluster = name, kx_auth_info = name\<rparr> (kf_contexts config),
            kf_current := name\<rparr>"

definition mergeClusterKubeconfig ::
  "'f clientcmd \<Rightarrow> (string \<Rightarrow> go_error + string) \<Rightarrow> string \<Rightarrow> 'f \<Rightarrow> (go_error + string) \<times> 'f" where
  "mergeClusterKubeconfig cc kubeConfig name f =
     (case kubeConfig name of
        Inl e \<Rightarrow> (Inl (Wrapf ''get kubeconfig: %w'' [] e), f)
      | Inr raw \<Rightarrow>
          (case cc_parse cc raw of
             Inl e \<Rightarrow> (Inl (Wrapf ''parse kubeconfig: %w'' [] e), f)
           | Inr source \<Rightarrow>
               (case map_of (kf_contexts source) name of
                  None \<Rightarrow> (Inl (Errorf ''cluster kubeconfig has no context %q'' [name]), f)
                | Some sourceContext \<Rightarrow>
                    (case map_of (kf_clusters source) (kx_cluster sourceContext) of
                       None \<Rightarrow>
                         (Inl (Errorf ''cluster kubeconfig has no cluster %q'' [kx_cluster sourceContext]), f)
                     | Some sourceCluster \<Rightarrow>
                         (case map_of (kf_auth_infos source) (kx_auth_info sourceContext) of
                            None \<Rightarrow>
                              (Inl (Errorf ''cluster kubeconfig has no authinfo %q''
                                 [kx_auth_info sourceContext]), f)
                          | Some sourceAuthInfo \<Rightarrow>
                              (let path = cc_default_filename cc f in
                               case loadOrNewKubeconfig cc path f of
                                 Inl e \<Rightarrow> (Inl e, f)
                               | Inr config \<Rightarrow>
                                   (case cc_write_file cc (add_entry name sourceCluster sourceAuthInfo config)
                                           path f of
                                      (Inl e, f1) \<Rightarrow> (Inl (Wrapf ''write kubeconfig: %w'' [] e), f1)
                                    | (Inr _, f1) \<Rightarrow> (Inr path, f1))))))))"

definition drop_entry :: "string \<Rightarrow> kubeconfig \<Rightarrow> kubeconfig" where
  "drop_entry name config =
     config\<lparr>kf_clusters := map_delete name (kf_clusters config),
            kf_auth_infos := map_delete name (kf_auth_infos config),
            kf_contexts := map_delete name (kf_contexts config),
            kf_current := (if kf_current config = name then [] else kf_current config)\<rparr>"

definition removeClusterKubeconfig :: "'f clientcmd \<Rightarrow> string \<Rightarrow> 'f \<Rightarrow> (go_error + unit) \<times> 'f" where
  "removeClusterKubeconfig cc name f =
     (let path = cc_default_filename cc f in
      case cc_load_file cc path f of
        Inl e \<Rightarrow>
          if cc_is_not_exist cc e then (Inr (), f)
          else (Inl (Wrapf ''load kubeconfig %q: %w'' [path] e), f)
      | Inr config \<Rightarrow>
          (let hasCluster = map_of (kf_clusters config) name \<noteq> None;
               hasAuthInfo = map_of (kf_auth_infos config) name \<noteq> None;
               hasContext = map_of (kf_contexts config) name \<noteq> None
           in if \<not> hasCluster \<and> \<not> hasAuthInfo \<and> \<not> hasContext then (Inr (), f)
              else
                (case cc_write_file cc (drop_entry name config) path f of
                   (Inl e, f1) \<Rightarrow> (Inl (Wrapf ''write kubeconfig: %w'' [] e), f1)
                 | (Inr _, f1) \<Rightarrow> (Inr (), f1))))"

section \<open>Principals\<close>

record principalRegistryOptions =
  po_cluster_name :: string
  po_kube_context :: string

definition context_of :: "principalRegistryOptions \<Rightarrow> string" where
  "context_of opts = (if po_kube_context opts \<noteq> [] then po_kube_context opts else po_cluster_name opts)"

definition defaultClusterName :: string where
  "defaultClusterName = ''fjord''"

text \<open>Connecting: from the files of the host, for a context, to a client of its cluster.\<close>

type_synonym ('f, 'w) connect = "string \<Rightarrow> 'f \<Rightarrow> go_error + 'w data_client"

text \<open>The access key and the ARN are what the command prints.\<close>

definition runCreatePrincipal ::
  "('f, 'w) connect \<Rightarrow> 'r rand_source \<Rightarrow> principalRegistryOptions \<Rightarrow> string \<Rightarrow> 'f \<Rightarrow> 'r \<Rightarrow> 'w
   \<Rightarrow> (go_error + (string \<times> string)) \<times> 'r \<times> 'w" where
  "runCreatePrincipal connect rs opts name f r w =
     (case connect (context_of opts) f of
        Inl e \<Rightarrow> (Inl e, r, w)
      | Inr client \<Rightarrow>
          (case GenerateAccessKeyID rs r of
             (Inl e, r1) \<Rightarrow> (Inl (Wrapf ''generate access key id: %w'' [] e), r1, w)
           | (Inr accessKeyID, r1) \<Rightarrow>
               (let p = \<lparr>p_access_key_id = accessKeyID, p_arn = PrincipalARN name, p_name = name\<rparr> in
                case secret_put client p w of
                  (Inl e, w1) \<Rightarrow> (Inl (Wrapf ''register principal: %w'' [] e), r1, w1)
                | (Inr _, w1) \<Rightarrow> (Inr (p_access_key_id p, p_arn p), r1, w1))))"

definition runListPrincipal ::
  "('f, 'w) connect \<Rightarrow> principalRegistryOptions \<Rightarrow> 'f \<Rightarrow> 'w \<Rightarrow> (go_error + (string \<times> string \<times> string) list) \<times> 'w" where
  "runListPrincipal connect opts f w =
     (case connect (context_of opts) f of
        Inl e \<Rightarrow> (Inl e, w)
      | Inr client \<Rightarrow>
          (case secret_list client w of
             (Inl e, w1) \<Rightarrow> (Inl (Wrapf ''list principals: %w'' [] e), w1)
           | (Inr ps, w1) \<Rightarrow> (Inr (map (\<lambda>p. (p_name p, p_access_key_id p, p_arn p)) ps), w1)))"

definition runDeletePrincipal ::
  "('f, 'w) connect \<Rightarrow> principalRegistryOptions \<Rightarrow> string \<Rightarrow> 'f \<Rightarrow> 'w \<Rightarrow> (go_error + unit) \<times> 'w" where
  "runDeletePrincipal connect opts name f w =
     (case connect (context_of opts) f of
        Inl e \<Rightarrow> (Inl e, w)
      | Inr client \<Rightarrow>
          (case secret_delete client name w of
             (Inl e, w1) \<Rightarrow> (Inl (Wrapf ''delete principal: %w'' [] e), w1)
           | (Inr _, w1) \<Rightarrow> (Inr (), w1)))"

section \<open>update-kubeconfig\<close>

definition execAWSRegion :: string where
  "execAWSRegion = ''us-east-1''"

definition execAWSSignValue :: string where
  "execAWSSignValue = ''fjord-dummy-signing-value''"

definition execAuthInfo :: "principalRegistryOptions \<Rightarrow> principal \<Rightarrow> auth_info" where
  "execAuthInfo opts p =
     \<lparr>ai_exec = Some
        \<lparr>ex_api_version = ''client.authentication.k8s.io/v1beta1'', ex_command = ''aws'',
         ex_args = [''--region'', execAWSRegion, ''eks'', ''get-token'', ''--cluster-name'', po_cluster_name opts],
         ex_env =
           [(''AWS_ENDPOINT_URL_STS'',
             ''http://'' @ AgentLoopbackHost @ '':'' @ string_of_int AgentNodePort),
            (''AWS_ACCESS_KEY_ID'', p_access_key_id p),
            (''AWS_SECRET_ACCESS_KEY'', execAWSSignValue)],
         ex_interactive_mode = ''Never''\<rparr>,
      ai_rest = []\<rparr>"

definition entry_name :: "string \<Rightarrow> string \<Rightarrow> string" where
  "entry_name principalName clusterName = ''fjord-'' @ principalName @ ''@'' @ clusterName"

definition writeKubeconfigEntry ::
  "'f clientcmd \<Rightarrow> principalRegistryOptions \<Rightarrow> string \<Rightarrow> principal \<Rightarrow> kube_cluster \<Rightarrow> 'f
   \<Rightarrow> (go_error + (string \<times> string)) \<times> 'f" where
  "writeKubeconfigEntry cc opts principalName p sourceCluster f =
     (let path = cc_default_filename cc f in
      case loadOrNewKubeconfig cc path f of
        Inl e \<Rightarrow> (Inl e, f)
      | Inr config \<Rightarrow>
          (let entryName = entry_name principalName (po_cluster_name opts) in
           case cc_write_file cc (add_entry entryName sourceCluster (execAuthInfo opts p) config) path f of
             (Inl e, f1) \<Rightarrow> (Inl (Wrapf ''write kubeconfig: %w'' [] e), f1)
           | (Inr _, f1) \<Rightarrow> (Inr (path, entryName), f1)))"

definition runUpdateKubeconfig ::
  "('f, 'w) connect \<Rightarrow> 'f clientcmd \<Rightarrow> principalRegistryOptions \<Rightarrow> string \<Rightarrow> 'w \<Rightarrow> 'f
   \<Rightarrow> (go_error + unit) \<times> 'w \<times> 'f" where
  "runUpdateKubeconfig connect cc opts principalName w f =
     (case connect (context_of opts) f of
        Inl e \<Rightarrow> (Inl e, w, f)
      | Inr client \<Rightarrow>
          (case secret_get_by_name client principalName w of
             (Inl e, w1) \<Rightarrow> (Inl (Wrapf ''resolve principal %q: %w'' [principalName] e), w1, f)
           | (Inr p, w1) \<Rightarrow>
               (case loadClusterConfig cc (context_of opts) f of
                  Inl e \<Rightarrow> (Inl e, w1, f)
                | Inr sourceCluster \<Rightarrow>
                    (case writeKubeconfigEntry cc opts principalName p sourceCluster f of
                       (Inl e, f1) \<Rightarrow> (Inl e, w1, f1)
                     | (Inr _, f1) \<Rightarrow> (Inr (), w1, f1)))))"

end
