(* ===== verification/Authn_Stage.thy ===== *)
theory Authn_Stage
  imports Provider Pki Kubeconfig File_System
begin

text \<open>
  What the API server needs before the cluster exists to authenticate with fjord
  (\<open>internal/authn/stage.go\<close>): a webhook kubeconfig in a directory of the host that is mounted
  into the node, and the authenticator's certificate. Files are the world \<open>'f\<close>, the cryptography
  acts on \<open>'w\<close>.
\<close>

definition authnDirName :: string where
  "authnDirName = ''authn''"

definition nodeAuthnDir :: string where
  "nodeAuthnDir = ''/etc/fjord/authn''"

definition webhookFileName :: string where
  "webhookFileName = ''webhook.yaml''"

definition stage_authenticatorPort :: int where
  "stage_authenticatorPort = 9443"

definition authenticatorServerName :: string where
  "authenticatorServerName = ''localhost''"

definition authnKubeconfigName :: string where
  "authnKubeconfigName = ''fjord-authenticator''"

record StagedAuthn =
  sa_dir :: string
  sa_mounts :: "mount list"
  sa_webhook :: auth_webhook
  sa_cert :: ServerCert

definition issueAuthenticatorCert ::
  "('k, 'w) crypto \<Rightarrow> 'k CA \<Rightarrow> 'w \<Rightarrow> (go_error + ServerCert) \<times> 'w" where
  "issueAuthenticatorCert cy ca w =
     (case IssueServerCert cy ca AuthenticatorServiceAccountName [authenticatorServerName] w of
        (Inl e, w1) \<Rightarrow> (Inl (Wrapf ''issue authenticator server certificate: %w'' [] e), w1)
      | (Inr cert, w1) \<Rightarrow> (Inr cert, w1))"

definition webhook_kubeconfig :: "'k CA \<Rightarrow> kubeconfig" where
  "webhook_kubeconfig ca =
     \<lparr>kf_clusters =
        [(authnKubeconfigName,
          \<lparr>kc_server = ''https://'' @ authenticatorServerName @ '':'' @ string_of_int stage_authenticatorPort @ ''/'',
           kc_ca_data = ca_cert_pem ca, kc_rest = []\<rparr>)],
      kf_auth_infos = [(authnKubeconfigName, \<lparr>ai_exec = None, ai_rest = []\<rparr>)],
      kf_contexts =
        [(authnKubeconfigName, \<lparr>kx_cluster = authnKubeconfigName, kx_auth_info = authnKubeconfigName\<rparr>)],
      kf_current = authnKubeconfigName\<rparr>"

definition stageWebhookKubeconfig ::
  "'f clientcmd \<Rightarrow> string \<Rightarrow> 'k CA \<Rightarrow> 'f \<Rightarrow> (go_error + unit) \<times> 'f" where
  "stageWebhookKubeconfig cc dir ca f =
     (case cc_write_file cc (webhook_kubeconfig ca) (path_join dir webhookFileName) f of
        (Inl e, f1) \<Rightarrow> (Inl (Wrapf ''write webhook kubeconfig: %w'' [] e), f1)
      | (Inr _, f1) \<Rightarrow> (Inr (), f1))"

definition Stage ::
  "'f fs_ops \<Rightarrow> 'f clientcmd \<Rightarrow> ('k, 'w) crypto \<Rightarrow> string \<Rightarrow> 'k CA \<Rightarrow> 'f \<Rightarrow> 'w
   \<Rightarrow> (go_error + StagedAuthn) \<times> 'f \<times> 'w" where
  "Stage fs cc cy baseDir ca f w =
     (let dir = path_join baseDir authnDirName in
      case fs_mkdir_all fs dir f of
        (Inl e, f1) \<Rightarrow> (Inl (Wrapf ''create authn staging directory %q: %w'' [dir] e), f1, w)
      | (Inr _, f1) \<Rightarrow>
          (case issueAuthenticatorCert cy ca w of
             (Inl e, w1) \<Rightarrow> (Inl e, f1, w1)
           | (Inr cert, w1) \<Rightarrow>
               (case stageWebhookKubeconfig cc dir ca f1 of
                  (Inl e, f2) \<Rightarrow> (Inl e, f2, w1)
                | (Inr _, f2) \<Rightarrow>
                    (Inr \<lparr>sa_dir = dir,
                          sa_mounts = [\<lparr>mo_host_path = dir, mo_container_path = nodeAuthnDir\<rparr>],
                          sa_webhook =
                            \<lparr>aw_config_file_path = nodeAuthnDir @ ''/'' @ webhookFileName,
                             aw_volume_mount_path = nodeAuthnDir\<rparr>,
                          sa_cert = cert\<rparr>, f2, w1))))"

definition Cleanup :: "'f fs_ops \<Rightarrow> StagedAuthn \<Rightarrow> 'f \<Rightarrow> (go_error + unit) \<times> 'f" where
  "Cleanup fs s f =
     (case fs_remove_all fs (path_dir (sa_dir s)) f of
        (Inl e, f1) \<Rightarrow> (Inl (Wrapf ''remove authn staging directory: %w'' [] e), f1)
      | (Inr _, f1) \<Rightarrow> (Inr (), f1))"

end
