(* ===== verification/Deploy_Agent.thy ===== *)
theory Deploy_Agent
  imports Frames Authn_Stage Go_Url
begin

text \<open>
  The deployment of the agent into a running cluster (\<open>deployAgent\<close> of \<open>cli/create.go\<close>, the
  image build of \<open>cli/build.go\<close>): image, emulator, agent, authenticator, cluster record, webhooks,
  node role, instance metadata service and pod identity agent, in this order. The cluster, the
  docker daemon, rask, the cryptography and the source of randomness act on one world \<open>'w\<close>.
\<close>

section \<open>Options and tools\<close>

record createClusterOptions =
  co_eks_version :: string
  co_name :: string
  co_build_local :: bool
  co_wait :: int
  co_enable_auth :: bool
  co_agent_image :: string
  co_node_role_name :: string
  co_with_kumo :: bool
  co_kumo_image :: string
  co_aws_endpoint_url :: string
  co_with_load_balancer :: bool

text \<open>The clients of one cluster: of its objects, its Secrets and its ConfigMaps.\<close>

record 'w kube_client =
  kl_objects :: "'w cluster_client"
  kl_secrets :: "'w data_client"
  kl_configmaps :: "'w data_client"

text \<open>What the command line uses of the host; \<open>tl_parse\<close> is \<open>clientcmd.Load\<close>.\<close>

record ('k, 'w) tools =
  tl_arch :: string
  tl_docker :: "'w docker"
  tl_rask :: "'w rask"
  tl_crypto :: "('k, 'w) crypto"
  tl_rand :: "'w rand_source"
  tl_parse :: "string \<Rightarrow> go_error + kubeconfig"

section \<open>The agent's image\<close>

definition fjord_Version :: string where
  "fjord_Version = ''0.1.0''"

definition agentImageRepository :: string where
  "agentImageRepository = ''ghcr.io/sivchari/fjord/agent''"

definition defaultAgentImage :: string where
  "defaultAgentImage = agentImageRepository @ '':'' @ fjord_Version"

definition agentImageBuildArgs :: "string \<Rightarrow> string \<Rightarrow> bool \<Rightarrow> string list" where
  "agentImageBuildArgs tag arch is_local =
     (let args = [''build'', ''-f'', ''docker/Dockerfile'', ''--platform'', ''linux/'' @ arch, ''-t'', tag];
          args1 = (if is_local then args @ [''--load''] else args @ [''--push''])
      in args1 @ [''.''])"

definition buildAgentImage ::
  "'w docker \<Rightarrow> string \<Rightarrow> string \<Rightarrow> bool \<Rightarrow> 'w \<Rightarrow> (go_error + unit) \<times> 'w" where
  "buildAgentImage dk tag arch is_local w =
     (case dk_run dk (agentImageBuildArgs tag arch is_local) w of
        (Inl e, w1) \<Rightarrow> (Inl (Wrapf ''docker build agent image %q: %w'' [tag] e), w1)
      | (Inr _, w1) \<Rightarrow> (Inr (), w1))"

text \<open>The image that is deployed.\<close>

definition deployed_image :: "createClusterOptions \<Rightarrow> string" where
  "deployed_image opts = (if co_agent_image opts = [] then defaultAgentImage else co_agent_image opts)"

section \<open>The cluster record and the node role\<close>

text \<open>\<open>base64.StdEncoding\<close>: the last two digits are plus and slash, the text is padded.\<close>

definition std_digit :: "nat \<Rightarrow> char" where
  "std_digit n = (if n = 62 then CHR ''+'' else if n = 63 then CHR ''/'' else base64_digit n)"

definition StdEncoding :: "byte list \<Rightarrow> string" where
  "StdEncoding bs =
     map std_digit (base64_sextets (map unat bs)) @ replicate ((3 - length bs mod 3) mod 3) (CHR ''='')"

definition cluster_info_of ::
  "('k, 'w) tools \<Rightarrow> string \<Rightarrow> string \<Rightarrow> 'w \<Rightarrow> go_error + cluster_info" where
  "cluster_info_of hs name eksVersion w =
     (case KubeConfig (tl_rask hs) w name of
        Inl e \<Rightarrow> Inl (Wrapf ''get kubeconfig: %w'' [] e)
      | Inr raw \<Rightarrow>
          (case tl_parse hs raw of
             Inl e \<Rightarrow> Inl (Wrapf ''parse kubeconfig: %w'' [] e)
           | Inr config \<Rightarrow>
               (case map_of (kf_contexts config) (kf_current config) of
                  None \<Rightarrow> Inl (Errorf ''kubeconfig has no context %q'' [kf_current config])
                | Some kubeContext \<Rightarrow>
                    (case map_of (kf_clusters config) (kx_cluster kubeContext) of
                       None \<Rightarrow> Inl (Errorf ''kubeconfig has no cluster %q'' [kx_cluster kubeContext])
                     | Some kubeCluster \<Rightarrow>
                         Inr \<lparr>ci_name = name, ci_endpoint = kc_server kubeCluster,
                              ci_ca_data = StdEncoding (kc_ca_data kubeCluster),
                              ci_version = eksVersion, ci_platform_version = []\<rparr>))))"

definition ensureClusterInfo ::
  "('k, 'w) tools \<Rightarrow> 'w kube_client \<Rightarrow> string \<Rightarrow> string \<Rightarrow> 'w \<Rightarrow> (go_error + unit) \<times> 'w" where
  "ensureClusterInfo hs kl name eksVersion w =
     (case cluster_info_of hs name eksVersion w of
        Inl e \<Rightarrow> (Inl e, w)
      | Inr info \<Rightarrow>
          (case info_put (kl_configmaps kl) info w of
             (Inl e, w1) \<Rightarrow> (Inl (Wrapf ''register cluster info: %w'' [] e), w1)
           | (Inr _, w1) \<Rightarrow> (Inr (), w1)))"

definition ensureNodeRolePrincipal ::
  "('k, 'w) tools \<Rightarrow> 'w kube_client \<Rightarrow> string \<Rightarrow> 'w \<Rightarrow> (go_error + unit) \<times> 'w" where
  "ensureNodeRolePrincipal hs kl nodeRoleName w =
     (case secret_get_by_name (kl_secrets kl) nodeRoleName w of
        (Inr _, w1) \<Rightarrow> (Inr (), w1)
      | (Inl e, w1) \<Rightarrow>
          if \<not> errors_is e ErrPrincipalNotFound
          then (Inl (Wrapf ''look up node role principal: %w'' [] e), w1)
          else
            (case GenerateAccessKeyID (tl_rand hs) w1 of
               (Inl e1, w2) \<Rightarrow> (Inl (Wrapf ''generate node role access key id: %w'' [] e1), w2)
             | (Inr accessKeyID, w2) \<Rightarrow>
                 (case secret_put (kl_secrets kl)
                         \<lparr>p_access_key_id = accessKeyID, p_arn = RoleARN nodeRoleName, p_name = nodeRoleName\<rparr> w2 of
                    (Inl e2, w3) \<Rightarrow> (Inl (Wrapf ''register node role principal: %w'' [] e2), w3)
                  | (Inr _, w3) \<Rightarrow> (Inr (), w3))))"

section \<open>The deployment\<close>

definition DefaultPodIdentityWebhookImage :: string where
  "DefaultPodIdentityWebhookImage =
     ''public.ecr.aws/eks/amazon-eks-pod-identity-webhook@sha256:3071570e8e8cba6d5aff01e86d52bc91025a0578782aa9cd2b681480845b0a50''"

definition DefaultPodIdentityAgentImage :: string where
  "DefaultPodIdentityAgentImage =
     ''public.ecr.aws/eks/eks-pod-identity-agent@sha256:bc9cf4ae7fcfa4f82a4f7f2d5d825efa952d8a4e23dfd7ba923c02dcf68dadc8''"

definition resolveAWSEndpointURL :: "createClusterOptions \<Rightarrow> string" where
  "resolveAWSEndpointURL opts =
     (if co_aws_endpoint_url opts \<noteq> [] then co_aws_endpoint_url opts
      else if co_with_kumo opts then KumoEndpoint
      else [])"

definition when_set :: "bool \<Rightarrow> ('w \<Rightarrow> (go_error + unit) \<times> 'w) \<Rightarrow> 'w \<Rightarrow> (go_error + unit) \<times> 'w" where
  "when_set b f w = (if b then f w else (Inr (), w))"

definition deployAuthenticator ::
  "('k, 'w) tools \<Rightarrow> 'w kube_client \<Rightarrow> string \<Rightarrow> string \<Rightarrow> string \<Rightarrow> ServerCert \<Rightarrow> 'w \<Rightarrow> (go_error + unit) \<times> 'w" where
  "deployAuthenticator hs kl img name eksVersion cert =
     and_then (wrapped ''ensure authenticator rbac: %w'' (EnsureAuthenticatorRBAC (kl_objects kl)))
    (and_then (wrapped ''ensure authenticator: %w'' (EnsureAuthenticator (kl_objects kl) img cert))
              (ensureClusterInfo hs kl name eksVersion))"

definition build_local_image ::
  "('k, 'w) tools \<Rightarrow> createClusterOptions \<Rightarrow> string \<Rightarrow> 'w \<Rightarrow> (go_error + unit) \<times> 'w" where
  "build_local_image hs opts img =
     when_set (co_build_local opts \<and> co_agent_image opts = [])
       (and_then (wrapped ''build agent image: %w'' (buildAgentImage (tl_docker hs) img (tl_arch hs) True))
                 (wrapped ''load agent image: %w''
                    (LoadDockerImage (tl_docker hs) (tl_rask hs) (co_name opts) img)))"

definition deployAgent ::
  "('k, 'w) tools \<Rightarrow> 'w kube_client \<Rightarrow> createClusterOptions \<Rightarrow> 'k CA \<Rightarrow> ServerCert \<Rightarrow> string \<Rightarrow> 'w
   \<Rightarrow> (go_error + unit) \<times> 'w" where
  "deployAgent hs kl opts ca authenticatorCert eksVersion =
     (let img = deployed_image opts in
      and_then (build_local_image hs opts img)
     (and_then (when_set (co_with_kumo opts)
                  (wrapped ''ensure kumo: %w'' (EnsureKumo (kl_objects kl) (co_kumo_image opts))))
     (and_then (wrapped ''ensure agent: %w''
                  (EnsureAgent (kl_objects kl) img True (resolveAWSEndpointURL opts) (co_with_load_balancer opts)))
     (and_then (deployAuthenticator hs kl img (co_name opts) eksVersion authenticatorCert)
     (and_then (wrapped ''ensure irsa: %w''
                  (EnsureIRSA (kl_objects kl) (tl_crypto hs) ca DefaultPodIdentityWebhookImage))
     (and_then (ensureNodeRolePrincipal hs kl (co_node_role_name opts))
     (and_then (wrapped ''ensure imds: %w'' (EnsureIMDS (kl_objects kl) img (co_node_role_name opts)))
               (wrapped ''ensure pod identity: %w''
                  (EnsurePodIdentity (kl_objects kl) DefaultPodIdentityAgentImage (co_name opts))))))))))"

end
