(* ===== verification/Deploy_World.thy ===== *)
theory Deploy_World
  imports Deploy_Agent
begin

text \<open>
  What a deployment of the agent leaves behind. The locale \<open>deploy_world\<close> is the world of
  \<open>Irsa_Install\<close> with the two registries and the tools of the host beside it, and says which part
  of the world a call leaves alone; in it a successful \<open>deployAgent\<close> is one run of its steps, with
  the cluster record and the node role registered.
\<close>

section \<open>What a call leaves alone\<close>

definition unchanged :: "('w \<Rightarrow> 's) \<Rightarrow> 'w \<Rightarrow> 'w \<Rightarrow> bool" where
  "unchanged v w w' \<longleftrightarrow> v w' = v w"

definition onwards :: "('w \<Rightarrow> int) \<Rightarrow> 'w \<Rightarrow> 'w \<Rightarrow> bool" where
  "onwards clk w w' \<longleftrightarrow> clk w \<le> clk w'"

lemma unchanged_preorder [simp]: "preorder_on_worlds (unchanged v)"
  by (simp add: preorder_on_worlds_def unchanged_def)

lemma onwards_preorder [simp]: "preorder_on_worlds (onwards clk)"
  by (auto simp: preorder_on_worlds_def onwards_def)

lemma unchanged_comp: "obeys (unchanged v) g \<Longrightarrow> obeys (unchanged (\<lambda>w. h (v w))) g"
  by (simp add: obeys_def unchanged_def)

lemma wrapped_works: "wrapped msg f w = (Inr (), w') \<longleftrightarrow> f w = (Inr (), w')"
  by (auto simp: wrapped_def split: prod.splits sum.splits)

lemma obeys_when: "preorder_on_worlds R \<Longrightarrow> obeys R f \<Longrightarrow> obeys R (when_set b f)"
  by (simp add: obeys_def when_set_def preorder_refl)

lemma when_works: "when_set b f w = (Inr (), w') \<longleftrightarrow> (if b then f w = (Inr (), w') else w' = w)"
  by (auto simp: when_set_def)

lemma apply_steps_cong: "m k = n k \<Longrightarrow> apply_steps ss m k = apply_steps ss n k"
proof (induction ss arbitrary: m n)
  case (Cons s ss)
  from apply_step_cong [where s = s and m = m and n = n and k = k, OF Cons.prems] Cons.IH show ?case unfolding fold_simps comp_apply by blast
qed simp

section \<open>The calls of the host\<close>

lemma obeys_issue:
  assumes R: "preorder_on_worlds R" and k: "\<forall>n. obeys R (cy_generate_key cy n)"
    and r: "\<forall>l. obeys R (cy_random_int cy l)" and n: "obeys R (cy_now cy)"
    and t: "\<forall>t p a b. obeys R (cy_create cy t p a b)"
  shows "obeys R (IssueServerCert cy ca cn names)"
proof (rule obeysI)
  fix w q w'
  assume run: "IssueServerCert cy ca cn names w = (q, w')"
  obtain a w1 where 1: "cy_generate_key cy rsaKeyBits w = (a, w1)" by (metis surj_pair)
  obtain s w2 where 2: "newSerialNumber cy w1 = (s, w2)" by (metis surj_pair)
  obtain i w3 where 3: "cy_now cy w2 = (i, w3)" by (metis surj_pair)
  have "R w1 w2" using 2 r
    by (auto simp: newSerialNumber_def split: prod.splits sum.splits dest: obeysD)
  then have "R w w1" "R w w2" "R w w3"
    using obeysD [OF k [rule_format] 1] obeysD [OF n 3] preorder_trans [OF R] by blast+
  moreover have "w' \<in> {w1, w2} \<or> (\<exists>c p a b. w' = snd (cy_create cy c p a b w3))"
    using run 1 2 3 by (auto simp: IssueServerCert_def Let_def split: prod.splits sum.splits)
      (metis snd_conv)+
  moreover have "R w3 (snd (cy_create cy c p a b w3))" for c p a b
    using t by (simp add: obeys_def)
  ultimately show "R w w'" using preorder_trans [OF R] by blast
qed

lemma obeys_buildAgentImage: "obeys R (dk_run dk (agentImageBuildArgs tag arch b)) \<Longrightarrow> obeys R (buildAgentImage dk tag arch b)"
  by (auto simp: obeys_def buildAgentImage_def split: prod.splits sum.splits) (metis snd_conv)+

lemma obeys_LoadDockerImage:
  assumes R: "preorder_on_worlds R" and p: "obeys R (dk_save_pipe dk img)"
    and s: "obeys R (dk_save_start dk img)" and l: "obeys R (rk_load_images rk name img)"
    and wt: "obeys R (dk_save_wait dk img)"
  shows "obeys R (LoadDockerImage dk rk name img)"
proof (rule obeysI)
  fix w q w'
  assume run: "LoadDockerImage dk rk name img w = (q, w')"
  obtain a w1 where 1: "dk_save_pipe dk img w = (a, w1)" by (metis surj_pair)
  obtain b w2 where 2: "dk_save_start dk img w1 = (b, w2)" by (metis surj_pair)
  obtain c w3 where 3: "rk_load_images rk name img w2 = (c, w3)" by (metis surj_pair)
  obtain d w4 where 4: "dk_save_wait dk img w3 = (d, w4)" by (metis surj_pair)
  have "w' \<in> {w1, w2, w4}"
    using run 1 2 3 4 by (auto simp: LoadDockerImage_def split: sum.splits)
  with obeysD [OF p 1] obeysD [OF s 2] obeysD [OF l 3] obeysD [OF wt 4]
  show "R w w'" using preorder_trans [OF R] by blast
qed

lemma obeys_ensureNodeRolePrincipal:
  assumes R: "preorder_on_worlds R" and get: "obeys R (secret_get_by_name (kl_secrets kl) role)"
    and key: "obeys R (GenerateAccessKeyID (tl_rand hs))"
    and put: "\<forall>p. obeys R (secret_put (kl_secrets kl) p)"
  shows "obeys R (ensureNodeRolePrincipal hs kl role)"
proof (rule obeysI)
  fix w q w'
  assume run: "ensureNodeRolePrincipal hs kl role w = (q, w')"
  obtain a w1 where 1: "secret_get_by_name (kl_secrets kl) role w = (a, w1)" by (metis surj_pair)
  obtain b w2 where 2: "GenerateAccessKeyID (tl_rand hs) w1 = (b, w2)" by (metis surj_pair)
  have "w' \<in> {w1, w2} \<or> (\<exists>p r. secret_put (kl_secrets kl) p w2 = (r, w'))"
    using run 1 2
    by (auto simp: ensureNodeRolePrincipal_def split: sum.splits if_splits prod.splits)
  with obeysD [OF get 1] obeysD [OF key 2] put show "R w w'"
    using preorder_trans [OF R] by (blast dest: obeysD)
qed

text \<open>The object that is both a Secret of the cluster and the principal registry.\<close>

definition principals_key :: "string \<times> string" where
  "principals_key = (SystemNamespace, PrincipalsSecretName)"

definition principals_id :: object_id where
  "principals_id = (KSecret, principals_key)"

lemmas install_name_defs = agentName_def agentNodePortServiceName_def kumoName_def imdsName_def
  podIdentityAgentName_def AuthenticatorServiceAccountName_def authenticatorClusterRoleBindingName_def
  AgentTLSCertName_def AuthenticatorTLSCertName_def injectorWebhookName_def podIdentityWebhookName_def
  podIdentityWebhookCertSecret_def

lemmas install_object_defs = service_account_def agent_cluster_role_def cluster_role_binding_def
  agentDeployment_def agent_service_def agent_node_port_service_def kumoDeployment_def kumo_service_def
  imdsDaemonSet_def podIdentityAgentDaemonSet_def authenticatorDaemonSet_def tls_secret_def
  injector_webhook_configuration_def pod_identity_webhook_configuration_def pod_identity_webhook_role_def
  podIdentityWebhookDeployment_def pod_identity_webhook_service_def

context cluster_api begin

lemma obeys_EnsureIRSA:
  assumes R: "preorder_on_worlds R" and issue: "\<And>cn names. obeys R (IssueServerCert cy ca cn names)"
    and calls: "\<And>k. k \<noteq> principals_id \<Longrightarrow> calls_obey R c k"
  shows "obeys R (EnsureIRSA c cy ca img)"
proof -
  have tls: "obeys R (ensureTLSSecret c name cert)" if "name \<noteq> PrincipalsSecretName" for name cert
    unfolding ensureTLSSecret_def
    by (intro obeys_create_or_update [OF R] calls) (simp add: tls_secret_def principals_id_def principals_key_def that)
  have agent: "obeys R (ensureAgentTLSSecret c cy ca)"
  proof (rule obeysI)
    fix w r w'
    assume "ensureAgentTLSSecret c cy ca w = (r, w')"
    then show "R w w'"
      using obeysD [OF issue] obeysD [OF tls, of AgentTLSCertName] preorder_trans [OF R]
      by (auto simp: ensureAgentTLSSecret_def AgentTLSCertName_def PrincipalsSecretName_def
          split: prod.splits sum.splits) blast
  qed
  have hook: "obeys R (ensurePodIdentityWebhookCertSecret c cy ca)"
  proof (rule obeysI)
    fix w r w'
    assume "ensurePodIdentityWebhookCertSecret c cy ca w = (r, w')"
    then show "R w w'"
      using obeysD [OF issue] obeysD [OF tls, of podIdentityWebhookCertSecret] preorder_trans [OF R]
      by (auto simp: ensurePodIdentityWebhookCertSecret_def podIdentityWebhookCertSecret_def PrincipalsSecretName_def
          split: prod.splits sum.splits) blast
  qed
  have id: "object_id ob \<noteq> principals_id" if "kind_of (ko_body ob) \<noteq> KSecret" for ob
    using that by (auto simp: principals_id_def object_id_def)
  show ?thesis
    unfolding EnsureIRSA_def ensurePodIdentityWebhookRBAC_def ensurePodIdentityWebhookServiceAccount_def
      ensurePodIdentityWebhookClusterRole_def ensurePodIdentityWebhookClusterRoleBinding_def
      ensurePodIdentityWebhookDeployment_def ensurePodIdentityWebhookService_def
      ensurePodIdentityWebhookConfiguration_def ensureMutatingWebhookConfiguration_def
      ensureInjectorWebhookConfiguration_def
    by (intro obeys_and_then [OF R] agent hook obeys_create_or_update [OF R] obeys_create_if_absent calls
        calls [unfolded calls_obey_def, THEN conjunct2, rule_format, THEN conjunct1] id refl)
      (simp_all add: install_object_defs principals_id_def)
qed

end

section \<open>The world of a deployment\<close>

definition kubeconfigs :: "('k, 'w) tools \<Rightarrow> 'w \<Rightarrow> string \<Rightarrow> go_error + string" where
  "kubeconfigs hs w n = rk_kubeconfig (tl_rask hs) n w"

lemma cluster_info_same:
  assumes "kubeconfigs hs w = kubeconfigs hs w'"
  shows "cluster_info_of hs name ver w = cluster_info_of hs name ver w'"
proof -
  have "rk_kubeconfig (tl_rask hs) name w = rk_kubeconfig (tl_rask hs) name w'"
    using fun_cong [OF assms, of name] by (simp add: kubeconfigs_def)
  then show ?thesis by (simp add: cluster_info_of_def KubeConfig_def)
qed

text \<open>All calls of docker, rask and the source of randomness, of the cryptography, of a registry.\<close>

definition host_leaves :: "('w \<Rightarrow> 'w \<Rightarrow> bool) \<Rightarrow> ('k, 'w) tools \<Rightarrow> bool" where
  "host_leaves R hs \<longleftrightarrow>
     (\<forall>args. obeys R (dk_run (tl_docker hs) args)) \<and> (\<forall>img. obeys R (dk_save_pipe (tl_docker hs) img)) \<and>
     (\<forall>img. obeys R (dk_save_start (tl_docker hs) img)) \<and> (\<forall>img. obeys R (dk_save_wait (tl_docker hs) img)) \<and>
     (\<forall>nm img. obeys R (rk_load_images (tl_rask hs) nm img)) \<and> (\<forall>n. obeys R (rand_int (tl_rand hs) n))"

definition crypto_leaves :: "('w \<Rightarrow> 'w \<Rightarrow> bool) \<Rightarrow> ('k, 'w) crypto \<Rightarrow> bool" where
  "crypto_leaves R cy \<longleftrightarrow>
     (\<forall>b. obeys R (cy_generate_key cy b)) \<and> (\<forall>l. obeys R (cy_random_int cy l)) \<and> obeys R (cy_now cy) \<and>
     (\<forall>t p a b. obeys R (cy_create cy t p a b))"

definition data_leaves :: "('w \<Rightarrow> 'w \<Rightarrow> bool) \<Rightarrow> 'w data_client \<Rightarrow> bool" where
  "data_leaves R c \<longleftrightarrow>
     (\<forall>ns nm. obeys R (api_get c ns nm)) \<and> (\<forall>d. obeys R (api_create c d)) \<and> (\<forall>d. obeys R (api_update c d))"

lemma obeys_build:
  "preorder_on_worlds R \<Longrightarrow> host_leaves R hs \<Longrightarrow> obeys R (build_local_image hs opts img)"
  unfolding build_local_image_def host_leaves_def
  by (intro obeys_when obeys_and_then obeys_wrapped obeys_buildAgentImage obeys_LoadDockerImage) blast+

text \<open>
  The registries are the Secret \<open>fjord-principals\<close> and the ConfigMap \<open>fjord-cluster-info\<close> of the
  same cluster: a Secret is an object of the cluster, a ConfigMap is none of the kinds installed
  here. Nobody else writes to the registries during the deployment. docker, rask and the sources
  of randomness touch nothing of the cluster, and nothing touches the kubeconfigs rask keeps.
\<close>

locale deploy_world =
  install_world "kl_objects kl" cur retries "tl_crypto hs" accepts clock +
  sec: quiet_data_api "kl_secrets kl" sec sec_env sec_commit sec_retries +
  cm: quiet_data_api "kl_configmaps kl" cm cm_env cm_commit cm_retries
  for hs :: "('k, 'w) tools" and kl :: "'w kube_client" and cur :: "'w \<Rightarrow> object_id \<rightharpoonup> kube_object"
    and retries :: nat and accepts and clock :: "'w \<Rightarrow> int" and sec and sec_env and sec_commit
    and sec_retries and cm and cm_env and cm_commit and cm_retries +
  assumes host_unchanged: "host_leaves (unchanged (\<lambda>w. (cur w, sec w, cm w, kubeconfigs hs w))) hs"
    and host_onwards: "host_leaves (onwards clock) hs"
    and crypto_unchanged: "crypto_leaves (unchanged (\<lambda>w. (sec w, cm w, kubeconfigs hs w))) (tl_crypto hs)"
    and object_get: "obeys (unchanged (\<lambda>w. (sec w, cm w, kubeconfigs hs w))) (cl_get (kl_objects kl) k)"
    and object_writes:
      "obeys (unchanged (\<lambda>w. (cm w, kubeconfigs hs w))) (cl_create (kl_objects kl) ob) \<and>
       obeys (unchanged (\<lambda>w. (cm w, kubeconfigs hs w))) (cl_update (kl_objects kl) ob)"
    and object_secrets:
      "object_id ob \<noteq> (KSecret, key) \<Longrightarrow>
       obeys (unchanged (\<lambda>w. sec w key)) (cl_create (kl_objects kl) ob) \<and>
       obeys (unchanged (\<lambda>w. sec w key)) (cl_update (kl_objects kl) ob)"
    and secret_unchanged: "data_leaves (unchanged (\<lambda>w. (cm w, kubeconfigs hs w))) (kl_secrets kl)"
    and secret_onwards: "data_leaves (onwards clock) (kl_secrets kl)"
    and secret_objects:
      "i \<noteq> (KSecret, object_key d) \<Longrightarrow>
       obeys (unchanged (\<lambda>w. cur w i)) (api_create (kl_secrets kl) d) \<and>
       obeys (unchanged (\<lambda>w. cur w i)) (api_update (kl_secrets kl) d)"
    and secret_get_objects: "obeys (unchanged cur) (api_get (kl_secrets kl) ns nm)"
    and configmap_unchanged: "data_leaves (unchanged (\<lambda>w. (cur w, sec w, kubeconfigs hs w))) (kl_configmaps kl)"
    and configmap_onwards: "data_leaves (onwards clock) (kl_configmaps kl)"
begin

lemma issue_unchanged:
  "obeys (unchanged (\<lambda>w. (sec w, cm w, kubeconfigs hs w))) (IssueServerCert (tl_crypto hs) ca cn names)"
  using crypto_unchanged by (intro obeys_issue) (simp_all add: crypto_leaves_def)

lemma calls_secret: "k \<noteq> principals_id \<Longrightarrow> calls_obey (unchanged (\<lambda>w. sec w principals_key)) (kl_objects kl) k"
  unfolding calls_obey_def principals_id_def
  using unchanged_comp [OF object_get, where h = "\<lambda>x. fst x principals_key"] object_secrets by simp

lemma calls_aside: "calls_obey (unchanged (\<lambda>w. (cm w, kubeconfigs hs w))) (kl_objects kl) k"
  unfolding calls_obey_def
  using unchanged_comp [OF object_get, where h = snd] object_writes by simp

lemma steps_keep_registry:
  "\<forall>s \<in> set ss. step_id s \<noteq> principals_id \<Longrightarrow>
   obeys (unchanged (\<lambda>w. sec w principals_key)) (run_steps (kl_objects kl) ss)"
  by (simp add: obeys_steps calls_secret)

lemma steps_keep_aside: "obeys (unchanged (\<lambda>w. (cm w, kubeconfigs hs w))) (run_steps (kl_objects kl) ss)"
  by (simp add: obeys_steps calls_aside)

lemma irsa_keeps_registry:
  "obeys (unchanged (\<lambda>w. sec w principals_key)) (EnsureIRSA (kl_objects kl) (tl_crypto hs) ca img)"
  by (intro obeys_EnsureIRSA calls_secret unchanged_comp [OF issue_unchanged, where h = "\<lambda>x. fst x principals_key", simplified])
    simp_all

lemma irsa_keeps_aside:
  "obeys (unchanged (\<lambda>w. (cm w, kubeconfigs hs w))) (EnsureIRSA (kl_objects kl) (tl_crypto hs) ca img)"
  by (intro obeys_EnsureIRSA calls_aside unchanged_comp [OF issue_unchanged, where h = snd, simplified])
    simp_all

end

section \<open>A successful deployment\<close>

text \<open>The steps of a deployment, given the certificates it issues.\<close>

definition deploy_steps ::
  "createClusterOptions \<Rightarrow> 'k CA \<Rightarrow> ServerCert \<Rightarrow> ServerCert \<Rightarrow> ServerCert \<Rightarrow> step list" where
  "deploy_steps opts ca cert agent_cert webhook_cert =
     (let img = deployed_image opts in
      (if co_with_kumo opts then kumo_steps (co_kumo_image opts) else []) @
      agent_steps img True (resolveAWSEndpointURL opts) (co_with_load_balancer opts) @
      authenticator_rbac_steps @ authenticator_steps img cert @
      irsa_steps ca DefaultPodIdentityWebhookImage agent_cert webhook_cert @
      [CreateOrUpdate ''daemonset'' (imdsDaemonSet img (co_node_role_name opts)),
       CreateOrUpdate ''daemonset'' (podIdentityAgentDaemonSet DefaultPodIdentityAgentImage (co_name opts))])"

lemmas deploy_steps_defs = deploy_steps_def kumo_steps_def agent_steps_def authenticator_rbac_steps_def
  authenticator_steps_def irsa_steps_def

lemma deploy_steps_distinct: "distinct (map step_id (deploy_steps opts ca cert ac wc))"
  by (cases "co_with_kumo opts")
    (simp_all add: deploy_steps_defs Let_def install_object_defs install_name_defs)

lemma deploy_steps_not_principals: "\<forall>s \<in> set (deploy_steps opts ca cert ac wc). step_id s \<noteq> principals_id"
  by (cases "co_with_kumo opts")
    (simp_all add: deploy_steps_defs Let_def install_object_defs install_name_defs principals_id_def
      principals_key_def PrincipalsSecretName_def)

context deploy_world begin

lemma sec_registry:
  "registry_obeys (unchanged (\<lambda>w. (cm w, kubeconfigs hs w))) (kl_secrets kl) PrincipalsSecretName"
  "registry_obeys (onwards clock) (kl_secrets kl) PrincipalsSecretName"
  "i \<noteq> principals_id \<Longrightarrow> registry_obeys (unchanged (\<lambda>w. cur w i)) (kl_secrets kl) PrincipalsSecretName"
  using secret_unchanged secret_onwards secret_objects
    unchanged_comp [OF secret_get_objects, where h = "\<lambda>m. m i"]
  by (simp_all add: registry_obeys_def data_leaves_def principals_id_def principals_key_def)

lemma cm_registry:
  "registry_obeys (unchanged (\<lambda>w. (cur w, sec w, kubeconfigs hs w))) (kl_configmaps kl) ClusterInfoConfigMapName"
  "registry_obeys (onwards clock) (kl_configmaps kl) ClusterInfoConfigMapName"
  using configmap_unchanged configmap_onwards by (simp_all add: registry_obeys_def data_leaves_def)

lemma key_obeys: "preorder_on_worlds R \<Longrightarrow> host_leaves R hs \<Longrightarrow> obeys R (GenerateAccessKeyID (tl_rand hs))"
  by (simp add: obeys_access_key host_leaves_def)

lemma role_obeys:
  assumes "preorder_on_worlds R" and "registry_obeys R (kl_secrets kl) PrincipalsSecretName"
    and "obeys R (GenerateAccessKeyID (tl_rand hs))"
  shows "obeys R (ensureNodeRolePrincipal hs kl role)"
  using assms
  by (simp add: obeys_ensureNodeRolePrincipal obeys_secret_get_by_name sec.obeys_secret_put)

lemma key_unchanged:
  "obeys (unchanged (\<lambda>w. (cur w, sec w, cm w, kubeconfigs hs w))) (GenerateAccessKeyID (tl_rand hs))"
  by (simp add: key_obeys host_unchanged)

lemma role_outside:
  "obeys (unchanged (\<lambda>w. (cm w, kubeconfigs hs w))) (ensureNodeRolePrincipal hs kl role)"
  "obeys (onwards clock) (ensureNodeRolePrincipal hs kl role)"
  "i \<noteq> principals_id \<Longrightarrow> obeys (unchanged (\<lambda>w. cur w i)) (ensureNodeRolePrincipal hs kl role)"
  using unchanged_comp [OF key_unchanged, where h = "\<lambda>x. snd (snd x)"]
    unchanged_comp [OF key_unchanged, where h = "\<lambda>x. fst x i"]
  by (simp_all add: role_obeys sec_registry key_obeys host_onwards)

lemma get_by_name_same:
  "sec w principals_key = sec w1 principals_key \<Longrightarrow>
   fst (secret_get_by_name (kl_secrets kl) n w) = fst (secret_get_by_name (kl_secrets kl) n w1)"
  unfolding secret_get_by_name_def secret_list_unsorted_def sec.quiet_get_secret principals_key_def
  by (simp split: option.splits sum.splits)

text \<open>The node role is registered, under the principal it had before if there was one.\<close>

lemma role_registered:
  assumes run: "ensureNodeRolePrincipal hs kl role w = (Inr (), w')" and ok: "secret_ok sec w"
  shows "\<exists>p. fst (secret_get_by_name (kl_secrets kl) role w') = Inr p \<and>
    (case fst (secret_get_by_name (kl_secrets kl) role w) of Inr q \<Rightarrow> p = q | Inl _ \<Rightarrow> p_arn p = RoleARN role)"
proof -
  from sec.quiet_secret_get_name [OF ok, of role] obtain r where
    get: "secret_get_by_name (kl_secrets kl) role w = (r, w)"
    and err: "case r of Inl e \<Rightarrow> errors_is e ErrPrincipalNotFound \<and>
        (\<forall>k p. secret_reg sec w k = Some p \<longrightarrow> p_name p \<noteq> role)
      | Inr p \<Rightarrow> p_name p = role \<and> secret_reg sec w (p_access_key_id p) = Some p" by blast
  show ?thesis
  proof (cases r)
    case (Inr p)
    with run get have "w' = w" by (simp add: ensureNodeRolePrincipal_def)
    with get Inr show ?thesis by simp
  next
    case (Inl e)
    with err have nf: "errors_is e ErrPrincipalNotFound" by simp
    with run get Inl obtain k w2 where key: "GenerateAccessKeyID (tl_rand hs) w = (Inr k, w2)"
      by (auto simp: ensureNodeRolePrincipal_def split: prod.splits sum.splits)
    let ?p = "\<lparr>p_access_key_id = k, p_arn = RoleARN role, p_name = role\<rparr>"
    from run get Inl nf key have put: "secret_put (kl_secrets kl) ?p w2 = (Inr (), w')"
      by (auto simp: ensureNodeRolePrincipal_def split: prod.splits sum.splits)
    from obeysD [OF key_unchanged key] have "sec w2 = sec w" by (simp add: unchanged_def)
    then have "secret_ok sec w2" using ok by (simp add: secret_ok_def registered_def)
    from sec.quiet_secret_put [OF this, of ?p] put have ok': "secret_ok sec w'"
      and reg: "secret_reg sec w' = reg_put ?p (secret_reg sec w2)" by auto
    from sec.quiet_secret_get_name [OF ok', of role] obtain q where
      get': "secret_get_by_name (kl_secrets kl) role w' = (q, w')"
      and res: "case q of Inl e \<Rightarrow> errors_is e ErrPrincipalNotFound \<and>
          (\<forall>k p. secret_reg sec w' k = Some p \<longrightarrow> p_name p \<noteq> role)
        | Inr p \<Rightarrow> p_name p = role \<and> secret_reg sec w' (p_access_key_id p) = Some p" by blast
    have at: "secret_reg sec w' k = Some ?p" by (simp add: reg reg_put_def)
    with res obtain p where q: "q = Inr p" by (cases q) fastforce+
    have wf: "reg_wf (secret_reg sec w')" using ok' by (simp add: secret_ok_def entries_ok_def secret_reg_def)
    have "k = p_access_key_id p" using reg_wf_nameD [OF wf at] res q by simp
    with at res q have "p = ?p" by simp
    with get get' Inl q show ?thesis by simp
  qed
qed

text \<open>What \<open>deployAgent\<close> installs and registers.\<close>

lemma deployAgent_works:
  assumes run: "deployAgent hs kl opts ca cert ver w = (Inr (), w')" and ok: "secret_ok sec w"
  shows "\<exists>ac wc info p.
    issued_for (tl_crypto hs) clock ca agentName w w' ac \<and>
    issued_for (tl_crypto hs) clock ca podIdentityWebhookName w w' wc \<and>
    (\<forall>i. i \<noteq> principals_id \<longrightarrow>
       contents (cur w') i = apply_steps (deploy_steps opts ca cert ac wc) (contents (cur w)) i) \<and>
    cluster_info_of hs (co_name opts) ver w = Inr info \<and> info_get (kl_configmaps kl) w' = (Inr info, w') \<and>
    fst (secret_get_by_name (kl_secrets kl) (co_node_role_name opts) w') = Inr p \<and>
    (case fst (secret_get_by_name (kl_secrets kl) (co_node_role_name opts) w) of
       Inr q \<Rightarrow> p = q | Inl _ \<Rightarrow> p_arn p = RoleARN (co_node_role_name opts))"
proof -
  let ?c = "kl_objects kl" and ?img = "deployed_image opts" and ?role = "co_node_role_name opts"
  let ?ks = "if co_with_kumo opts then kumo_steps (co_kumo_image opts) else []"
  let ?as = "agent_steps ?img True (resolveAWSEndpointURL opts) (co_with_load_balancer opts)"
  let ?is = "[CreateOrUpdate ''daemonset'' (imdsDaemonSet ?img ?role),
      CreateOrUpdate ''daemonset'' (podIdentityAgentDaemonSet DefaultPodIdentityAgentImage (co_name opts))]"
  from run obtain w1 w2 w3 w4 w5 w6 w7 w8 where
    b: "build_local_image hs opts ?img w = (Inr (), w1)"
    and k: "run_steps ?c ?ks w1 = (Inr (), w2)"
    and a: "run_steps ?c ?as w2 = (Inr (), w3)"
    and r: "run_steps ?c authenticator_rbac_steps w3 = (Inr (), w4)"
    and t: "run_steps ?c (authenticator_steps ?img cert) w4 = (Inr (), w5)"
    and i: "ensureClusterInfo hs kl (co_name opts) ver w5 = (Inr (), w6)"
    and s: "EnsureIRSA ?c (tl_crypto hs) ca DefaultPodIdentityWebhookImage w6 = (Inr (), w7)"
    and n: "ensureNodeRolePrincipal hs kl ?role w7 = (Inr (), w8)"
    and d: "run_steps ?c ?is w8 = (Inr (), w')"
    by (auto simp: deployAgent_def Let_def deployAuthenticator_def and_then_works wrapped_works when_works
        ensure_steps run_steps_single split: if_splits)
  let ?all = "?ks @ ?as @ authenticator_rbac_steps @ authenticator_steps ?img cert"
  have pre: "run_steps ?c ?all w1 = (Inr (), w5)"
    using k a r t by (simp add: run_steps_append and_then_def)
  have not_pid: "\<forall>s \<in> set ?all. step_id s \<noteq> principals_id" "\<forall>s \<in> set ?is. step_id s \<noteq> principals_id"
    using deploy_steps_not_principals [of opts ca cert undefined undefined]
    by (simp_all add: deploy_steps_def Let_def ball_Un)
  text \<open>The worlds in between, in order.\<close>
  have 1: "cur w1 = cur w" "sec w1 = sec w" "kubeconfigs hs w1 = kubeconfigs hs w" "clock w \<le> clock w1"
    using obeysD [OF obeys_build [OF _ host_unchanged] b] obeysD [OF obeys_build [OF _ host_onwards] b]
    by (simp_all add: unchanged_def onwards_def)
  have 5: "contents (cur w5) = apply_steps ?all (contents (cur w1))" "sec w5 principals_key = sec w1 principals_key"
      "kubeconfigs hs w5 = kubeconfigs hs w1" "clock w1 \<le> clock w5"
    using run_steps_works [OF pre] obeysD [OF steps_keep_registry [OF not_pid(1)] pre]
      obeysD [OF steps_keep_aside pre] steps_clock [of w1 ?all] pre
    by (simp_all add: unchanged_def)
  from i obtain info where info: "cluster_info_of hs (co_name opts) ver w5 = Inr info"
    and put: "info_put (kl_configmaps kl) info w5 = (Inr (), w6)"
    by (auto simp: ensureClusterInfo_def split: sum.splits prod.splits)
  have 6: "cur w6 = cur w5" "sec w6 = sec w5" "clock w5 \<le> clock w6"
    using obeysD [OF cm.obeys_info_put [OF _ cm_registry(1)] put] obeysD [OF cm.obeys_info_put [OF _ cm_registry(2)] put]
    by (simp_all add: unchanged_def onwards_def)
  from EnsureIRSA_works [OF s] obtain ac wc where
    certs: "issued_for (tl_crypto hs) clock ca agentName w6 w7 ac"
      "issued_for (tl_crypto hs) clock ca podIdentityWebhookName w6 w7 wc"
    and 7: "contents (cur w7) = apply_steps (irsa_steps ca DefaultPodIdentityWebhookImage ac wc) (contents (cur w6))"
      "clock w6 \<le> clock w7" by blast
  have irsa: "sec w7 principals_key = sec w6 principals_key" "cm w7 = cm w6"
    using obeysD [OF irsa_keeps_registry s] obeysD [OF irsa_keeps_aside s] by (simp_all add: unchanged_def)
  have 8: "cm w8 = cm w7" "clock w7 \<le> clock w8" "\<forall>i. i \<noteq> principals_id \<longrightarrow> cur w8 i = cur w7 i"
    using obeysD [OF role_outside(1) n] obeysD [OF role_outside(2) n] obeysD [OF role_outside(3) n]
    by (simp_all add: unchanged_def onwards_def)
  have 9: "contents (cur w') = apply_steps ?is (contents (cur w8))" "sec w' principals_key = sec w8 principals_key"
      "cm w' = cm w8" "clock w8 \<le> clock w'"
    using run_steps_works [OF d] obeysD [OF steps_keep_registry [OF not_pid(2)] d] obeysD [OF steps_keep_aside d]
      steps_clock [of w8 ?is] d
    by (simp_all add: unchanged_def)
  have objects: "contents (cur w') j = apply_steps (deploy_steps opts ca cert ac wc) (contents (cur w)) j"
    if "j \<noteq> principals_id" for j
  proof -
    have "contents (cur w8) j = contents (cur w7) j" using 8(3) that unfolding contents_def by metis
    from apply_steps_cong [where ss = ?is and k = j and m = "contents (cur w8)" and n = "contents (cur w7)", OF this]
    have "contents (cur w') j = apply_steps ?is (contents (cur w7)) j" unfolding 9(1) .
    then show ?thesis
      unfolding 7(1) 6(1) 5(1) 1(1) deploy_steps_def Let_def fold_append comp_apply .
  qed
  have same_info: "cluster_info_of hs (co_name opts) ver w = Inr info"
    using info cluster_info_same [of hs w w5] 5(3) 1(3) by simp
  have "registered cm ClusterInfoConfigMapName w' = [clusterInfoConfigMapKey \<mapsto> encode_info info]"
    using cm.info_put_success [OF put] irsa(2) 8(1) 9(3) by (simp add: registered_def)
  then have got: "info_get (kl_configmaps kl) w' = (Inr info, w')" by (simp add: cm.info_get_quiet)
  have ok7: "secret_ok sec w7" and same7: "sec w7 principals_key = sec w principals_key"
    using ok irsa(1) 6(2) 5(2) 1(2) by (simp_all add: secret_ok_def registered_def principals_key_def)
  from role_registered [OF n ok7] get_by_name_same [OF same7] get_by_name_same [OF 9(2)] obtain p where
    "fst (secret_get_by_name (kl_secrets kl) ?role w') = Inr p"
    "case fst (secret_get_by_name (kl_secrets kl) ?role w) of
       Inr q \<Rightarrow> p = q | Inl _ \<Rightarrow> p_arn p = RoleARN ?role" by auto
  moreover have "clock w \<le> clock w6" "clock w7 \<le> clock w'" using 1(4) 5(4) 6(3) 8(2) 9(4) by simp_all
  ultimately show ?thesis using certs [THEN issued_for_mono] objects same_info got by blast
qed

end

end
