(* ===== verification/Deploy_Site.thy ===== *)
theory Deploy_Site
  imports Deploy_World
begin

text \<open>
  Deployments that cannot fail, and a reference: \<open>reliable_deploy\<close> adds to \<open>deploy_world\<close> that the
  API server answers and that docker, rask, the cryptography and the source of randomness do their
  work; then \<open>deployAgent\<close> succeeds from every state in which the API server refuses none of its
  steps. \<open>site\<close> is one world with all of these parts,
  on which both locales are interpreted.
\<close>

section \<open>While nothing fails\<close>

definition host_total :: "('k, 'w) tools \<Rightarrow> bool" where
  "host_total hs \<longleftrightarrow>
     (\<forall>args w. \<exists>w'. dk_run (tl_docker hs) args w = (Inr (), w')) \<and>
     (\<forall>img w. \<exists>w'. dk_save_pipe (tl_docker hs) img w = (Inr (), w')) \<and>
     (\<forall>img w. \<exists>w'. dk_save_start (tl_docker hs) img w = (Inr (), w')) \<and>
     (\<forall>img w. \<exists>w'. dk_save_wait (tl_docker hs) img w = (Inr (), w')) \<and>
     (\<forall>nm img w. \<exists>w'. rk_load_images (tl_rask hs) nm img w = (Inr (), w')) \<and>
     (\<forall>n w. \<exists>i w'. rand_int (tl_rand hs) n w = (Inr i, w'))"

definition crypto_total :: "('k, 'w) crypto \<Rightarrow> bool" where
  "crypto_total cy \<longleftrightarrow>
     (\<forall>n w. \<exists>k w'. cy_generate_key cy n w = (Inr k, w')) \<and>
     (\<forall>l w. \<exists>i w'. cy_random_int cy l w = (Inr i, w')) \<and>
     (\<forall>t p a b w. \<exists>der w'. cy_create cy t p a b w = (Inr der, w'))"

lemma issue_total:
  assumes "crypto_total cy"
  shows "\<exists>sc w'. IssueServerCert cy ca cn names w = (Inr sc, w')"
proof -
  obtain k w1 where 1: "cy_generate_key cy rsaKeyBits w = (Inr k, w1)"
    using assms unfolding crypto_total_def by blast
  obtain i w2 where 2: "cy_random_int cy (2 ^ serialNumberBits) w1 = (Inr i, w2)"
    using assms unfolding crypto_total_def by blast
  obtain now w3 where 3: "cy_now cy w2 = (now, w3)" by (metis surj_pair)
  obtain der w4 where 4: "cy_create cy
      (Certificate i cn names (now - clockSkew) (now + serverCertValidity)
         [''DigitalSignature'', ''KeyEncipherment''] [''ServerAuth''] False False)
      (ca_cert ca) k (ca_key ca) w3 = (Inr der, w4)"
    using assms unfolding crypto_total_def by blast
  show ?thesis by (simp add: IssueServerCert_def newSerialNumber_def Let_def 1 2 3 4)
qed

lemma build_total:
  assumes "host_total hs"
  shows "\<exists>w'. build_local_image hs opts img w = (Inr (), w')"
proof -
  have build: "\<exists>v'. buildAgentImage (tl_docker hs) img (tl_arch hs) True v = (Inr (), v')" for v
  proof -
    obtain v1 where "dk_run (tl_docker hs) (agentImageBuildArgs img (tl_arch hs) True) v = (Inr (), v1)"
      using assms unfolding host_total_def by blast
    then show ?thesis by (simp add: buildAgentImage_def)
  qed
  have load: "\<exists>v'. LoadDockerImage (tl_docker hs) (tl_rask hs) (co_name opts) img v = (Inr (), v')" for v
  proof -
    obtain v1 where 1: "dk_save_pipe (tl_docker hs) img v = (Inr (), v1)"
      using assms unfolding host_total_def by blast
    obtain v2 where 2: "dk_save_start (tl_docker hs) img v1 = (Inr (), v2)"
      using assms unfolding host_total_def by blast
    obtain v3 where 3: "rk_load_images (tl_rask hs) (co_name opts) img v2 = (Inr (), v3)"
      using assms unfolding host_total_def by blast
    obtain v4 where 4: "dk_save_wait (tl_docker hs) img v3 = (Inr (), v4)"
      using assms unfolding host_total_def by blast
    show ?thesis by (simp add: LoadDockerImage_def 1 2 3 4)
  qed
  obtain w1 where 1: "buildAgentImage (tl_docker hs) img (tl_arch hs) True w = (Inr (), w1)"
    using build by blast
  obtain w2 where 2: "LoadDockerImage (tl_docker hs) (tl_rask hs) (co_name opts) img w1 = (Inr (), w2)"
    using load by blast
  show ?thesis
    by (simp add: build_local_image_def when_set_def and_then_def wrapped_def 1 2)
qed

lemma key_total:
  assumes "host_total hs"
  shows "\<exists>k w'. GenerateAccessKeyID (tl_rand hs) w = (Inr k, w')"
proof -
  have "\<exists>k w'. access_key_suffix (tl_rand hs) i w = (Inr k, w')" for i
  proof (induction i arbitrary: w)
    case (Suc i)
    obtain n w1 where 1: "rand_int (tl_rand hs) (length accessKeyIDSuffixChars) w = (Inr n, w1)"
      using assms unfolding host_total_def by blast
    obtain k w2 where 2: "access_key_suffix (tl_rand hs) i w1 = (Inr k, w2)" using Suc by blast
    show ?case by (simp add: 1 2)
  qed simp
  then obtain k w1 where "access_key_suffix (tl_rand hs) accessKeyIDSuffixLen w = (Inr k, w1)" by blast
  then show ?thesis by (simp add: GenerateAccessKeyID_def)
qed

text \<open>
  The steps of a deployment install different objects, and one of them has a node port, so that
  they are refused for reasons of the cluster only.
\<close>

lemma deploy_steps_ports:
  "ob \<in> step_object ` set (deploy_steps opts ca cert ac wc) \<Longrightarrow>
   node_ports (ko_body ob) = (if object_id ob = (KService, SystemNamespace, agentNodePortServiceName)
     then [AgentNodePort] else [])"
  by (cases "co_with_kumo opts")
    (auto simp: deploy_steps_defs Let_def install_object_defs install_name_defs service_port_at_def AgentNodePort_def)

lemma deploy_steps_apart: "sorted_wrt apart (deploy_steps opts ca cert ac wc)"
proof -
  let ?ss = "deploy_steps opts ca cert ac wc"
  have "apart s t" if "s \<in> set ?ss" "t \<in> set ?ss" "step_id s \<noteq> step_id t" for s t
    using deploy_steps_ports [of "step_object s" opts ca cert ac wc]
      deploy_steps_ports [of "step_object t" opts ca cert ac wc] that
    by (auto simp: apart_def)
  moreover have "sorted_wrt (\<lambda>s t. step_id s \<noteq> step_id t) ?ss"
    using deploy_steps_distinct [of opts ca cert ac wc] by (simp add: sorted_wrt_iff_nth_less distinct_conv_nth)
  ultimately show ?thesis using sorted_wrt_mono_rel [of ?ss "\<lambda>s t. step_id s \<noteq> step_id t" apart] by blast
qed

definition deployable ::
  "(object_id \<Rightarrow> body \<Rightarrow> bool) \<Rightarrow> createClusterOptions \<Rightarrow> 'k CA \<Rightarrow> ServerCert
   \<Rightarrow> (object_id \<rightharpoonup> kube_object) \<Rightarrow> bool" where
  "deployable admits opts ca cert m \<longleftrightarrow> (\<forall>ac wc. ready admits m (deploy_steps opts ca cert ac wc))"

definition deployed_objects ::
  "createClusterOptions \<Rightarrow> 'k CA \<Rightarrow> ServerCert \<Rightarrow> ServerCert \<Rightarrow> ServerCert \<Rightarrow> kube_object list" where
  "deployed_objects opts ca cert ac wc = map step_object (deploy_steps opts ca cert ac wc)"

text \<open>What this asks of the cluster: admission, the node port, and the immutable parts.\<close>

lemma deployableI:
  assumes admitted: "\<forall>ac wc. \<forall>ob \<in> set (deployed_objects opts ca cert ac wc). admits (object_id ob) (ko_body ob)"
    and port: "\<forall>k ob. m k = Some ob \<longrightarrow> AgentNodePort \<notin> set (node_ports (ko_body ob))"
    and same: "\<forall>ac wc noun ob old. CreateOrUpdate noun ob \<in> set (deploy_steps opts ca cert ac wc) \<longrightarrow>
      m (object_id ob) = Some old \<longrightarrow> immutable_part (ko_body old) = immutable_part (ko_body ob)"
  shows "deployable admits opts ca cert m"
proof -
  have "can_apply admits m s" if s: "s \<in> set (deploy_steps opts ca cert ac wc)" for s ac wc
  proof -
    have ob: "step_object s \<in> set (deployed_objects opts ca cert ac wc)"
      using s by (simp add: deployed_objects_def)
    with admitted have "admits (step_id s) (ko_body (step_object s))" by blast
    moreover from deploy_steps_ports [of "step_object s" opts ca cert ac wc] s
    have "set (node_ports (ko_body (step_object s))) \<subseteq> {AgentNodePort}" by auto
    then have "ports_free m (ko_body (step_object s))" using port unfolding ports_free_def by blast
    ultimately show ?thesis using same s by (cases s) (auto simp: can_apply_def)
  qed
  then show ?thesis by (simp add: deployable_def list_all_iff)
qed

lemma overwritten_deployed:
  "CreateOrUpdate noun ob \<in> set (deploy_steps opts ca cert ac wc) \<Longrightarrow> ob \<in> set (deployed_objects opts ca cert ac wc)"
  by (force simp: deployed_objects_def)

locale reliable_deploy =
  deploy_world hs kl cur retries accepts clock sec sec_env sec_commit sec_retries cm cm_env cm_commit cm_retries +
  rel: reliable_cluster "kl_objects kl" cur retries admits
  for hs :: "('k, 'w) tools" and kl :: "'w kube_client" and cur :: "'w \<Rightarrow> object_id \<rightharpoonup> kube_object"
    and retries :: nat and accepts and clock :: "'w \<Rightarrow> int" and sec and sec_env and sec_commit
    and sec_retries and cm and cm_env and cm_commit and cm_retries and admits +
  assumes host_works: "host_total hs" and crypto_works: "crypto_total (tl_crypto hs)"
begin

lemma EnsureIRSA_total:
  assumes apart: "\<And>ac wc. sorted_wrt apart (irsa_steps ca img ac wc @ ts)"
    and ready: "\<And>ac wc. ready admits (cur w) (irsa_steps ca img ac wc @ ts)"
  shows "\<exists>w'. EnsureIRSA (kl_objects kl) (tl_crypto hs) ca img w = (Inr (), w') \<and> ready admits (cur w') ts"
proof -
  let ?c = "kl_objects kl" and ?cy = "tl_crypto hs"
  let ?tls = "\<lambda>name cert. CreateOrUpdate ''secret'' (tls_secret name cert)"
  let ?inj = "CreateOrUpdate ''mutating webhook configuration'' (injector_webhook_configuration ca)"
  define rest where "rest = drop 3 (irsa_steps ca img undefined undefined)"
  have parts: "irsa_steps ca img ac wc = [?tls AgentTLSCertName ac, ?inj, ?tls podIdentityWebhookCertSecret wc] @ rest"
    for ac wc by (simp add: irsa_steps_def rest_def)
  obtain ac v1 where i1: "IssueServerCert ?cy ca (serviceFQDN agentName)
      [serviceFQDN agentName, serviceFQDNCluster agentName] w = (Inr ac, v1)"
    using issue_total [OF crypto_works] by blast
  have 1: "sorted_wrt apart ([?tls AgentTLSCertName ac, ?inj] @ (?tls podIdentityWebhookCertSecret wc # rest) @ ts)"
    "ready admits (cur v1) ([?tls AgentTLSCertName ac, ?inj] @ (?tls podIdentityWebhookCertSecret wc # rest) @ ts)" for wc
    using apart [of ac wc] ready [of ac wc] issue_keeps [OF i1] unfolding parts by simp_all
  from rel.run_steps_reliable [OF 1] obtain v2 where
    r1: "run_steps ?c [?tls AgentTLSCertName ac, ?inj] v1 = (Inr (), v2)" by blast
  have 2: "ready admits (cur v2) ((?tls podIdentityWebhookCertSecret wc # rest) @ ts)" for wc
    using rel.run_steps_reliable [OF 1] r1 by auto
  obtain wc v3 where i2: "IssueServerCert ?cy ca (serviceFQDN podIdentityWebhookName)
      [serviceFQDN podIdentityWebhookName, serviceFQDNCluster podIdentityWebhookName] v2 = (Inr wc, v3)"
    using issue_total [OF crypto_works] by blast
  have "sorted_wrt apart ((?tls podIdentityWebhookCertSecret wc # rest) @ ts)"
    using 1(1) [of wc] by simp
  from rel.run_steps_reliable [OF this 2 [of wc, folded issue_keeps [OF i2]]] obtain w' where
    r2: "run_steps ?c (?tls podIdentityWebhookCertSecret wc # rest) v3 = (Inr (), w')"
    and ts: "ready admits (cur w') ts" by blast
  from r1 obtain u where a: "ensureAgentTLSSecret ?c ?cy ca w = (Inr (), u)"
    and i: "ensureInjectorWebhookConfiguration ?c ca u = (Inr (), v2)"
    using i1 unfolding run_steps_cons and_then_works run_steps_single
    by (auto simp: ensureAgentTLSSecret_def ensureTLSSecret_def ensureInjectorWebhookConfiguration_def
        ensureMutatingWebhookConfiguration_def)
  from r2 obtain u' where p: "ensurePodIdentityWebhookCertSecret ?c ?cy ca v2 = (Inr (), u')"
    and r: "run_steps ?c rest u' = (Inr (), w')"
    using i2 by (auto simp: and_then_works ensurePodIdentityWebhookCertSecret_def ensureTLSSecret_def)
  have "EnsureIRSA ?c ?cy ca img w = (Inr (), w')"
    unfolding EnsureIRSA_def irsa_rest [where ac = undefined and wc = undefined] and_then_works rest_def [symmetric]
    using a i p r by blast
  with ts show ?thesis by blast
qed

lemma role_total:
  assumes ok: "secret_ok sec w"
  shows "\<exists>w'. ensureNodeRolePrincipal hs kl role w = (Inr (), w')"
proof -
  from sec.quiet_secret_get_name [OF ok, of role] obtain r where
    get: "secret_get_by_name (kl_secrets kl) role w = (r, w)"
    and err: "case r of Inl e \<Rightarrow> errors_is e ErrPrincipalNotFound \<and>
        (\<forall>k p. secret_reg sec w k = Some p \<longrightarrow> p_name p \<noteq> role)
      | Inr p \<Rightarrow> p_name p = role \<and> secret_reg sec w (p_access_key_id p) = Some p" by blast
  show ?thesis
  proof (cases r)
    case (Inl e)
    obtain k w2 where key: "GenerateAccessKeyID (tl_rand hs) w = (Inr k, w2)"
      using key_total [OF host_works] by blast
    from obeysD [OF key_unchanged key] have "sec w2 = sec w" by (simp add: unchanged_def)
    then have "secret_ok sec w2" using ok by (simp add: secret_ok_def registered_def)
    from sec.quiet_secret_put [OF this] obtain w3 where
      put: "secret_put (kl_secrets kl) \<lparr>p_access_key_id = k, p_arn = RoleARN role, p_name = role\<rparr> w2 = (Inr (), w3)"
      by blast
    have nf: "errors_is e ErrPrincipalNotFound" using err Inl by simp
    show ?thesis
      by (simp only: ensureNodeRolePrincipal_def get Inl key put nf prod.case sum.case not_True_eq_False if_False)
        simp
  qed (simp add: ensureNodeRolePrincipal_def get)
qed

lemma deployAgent_succeeds:
  assumes ok: "secret_ok sec w" and info: "cluster_info_of hs (co_name opts) ver w = Inr info"
    and free: "deployable admits opts ca cert (cur w)"
  shows "\<exists>w'. deployAgent hs kl opts ca cert ver w = (Inr (), w')"
proof -
  let ?c = "kl_objects kl" and ?img = "deployed_image opts" and ?role = "co_node_role_name opts"
  let ?ks = "if co_with_kumo opts then kumo_steps (co_kumo_image opts) else []"
  let ?as = "agent_steps ?img True (resolveAWSEndpointURL opts) (co_with_load_balancer opts)"
  let ?is = "[CreateOrUpdate ''daemonset'' (imdsDaemonSet ?img ?role),
      CreateOrUpdate ''daemonset'' (podIdentityAgentDaemonSet DefaultPodIdentityAgentImage (co_name opts))]"
  let ?all = "?ks @ ?as @ authenticator_rbac_steps @ authenticator_steps ?img cert"
  let ?irsa = "irsa_steps ca DefaultPodIdentityWebhookImage"
  have steps: "deploy_steps opts ca cert ac wc = ?all @ ?irsa ac wc @ ?is" for ac wc
    by (simp add: deploy_steps_def Let_def)
  obtain w1 where b: "build_local_image hs opts ?img w = (Inr (), w1)" using build_total [OF host_works] by blast
  have 1: "cur w1 = cur w" "sec w1 = sec w" "kubeconfigs hs w1 = kubeconfigs hs w"
    using obeysD [OF obeys_build [OF _ host_unchanged] b] by (simp_all add: unchanged_def)
  have apart: "sorted_wrt apart (?all @ ?irsa ac wc @ ?is)" for ac wc
    using deploy_steps_apart [of opts ca cert ac wc] by (simp only: steps)
  have ready1: "ready admits (cur w1) (?all @ ?irsa ac wc @ ?is)" for ac wc
    using free unfolding deployable_def steps 1(1) by blast
  from rel.run_steps_reliable [OF apart ready1] obtain w5 where pre: "run_steps ?c ?all w1 = (Inr (), w5)" by blast
  have ready5: "ready admits (cur w5) (?irsa ac wc @ ?is)" for ac wc
    using rel.run_steps_reliable [OF apart ready1, of ac wc] pre by auto
  from pre obtain w2 w3 w4 where k: "run_steps ?c ?ks w1 = (Inr (), w2)" and a: "run_steps ?c ?as w2 = (Inr (), w3)"
    and r: "run_steps ?c authenticator_rbac_steps w3 = (Inr (), w4)"
    and t: "run_steps ?c (authenticator_steps ?img cert) w4 = (Inr (), w5)"
    unfolding run_steps_append and_then_works by blast
  have not_pid: "\<forall>s \<in> set ?all. step_id s \<noteq> principals_id" "\<forall>s \<in> set ?is. step_id s \<noteq> principals_id"
    using deploy_steps_not_principals [of opts ca cert undefined undefined] unfolding steps set_append ball_Un
    by blast+
  have 5: "sec w5 principals_key = sec w1 principals_key" "kubeconfigs hs w5 = kubeconfigs hs w1"
    using obeysD [OF steps_keep_registry [OF not_pid(1)] pre] obeysD [OF steps_keep_aside pre]
    by (simp_all add: unchanged_def)
  have "cluster_info_of hs (co_name opts) ver w5 = Inr info"
    using info cluster_info_same [of hs w w5] 1(3) 5(2) by simp
  moreover obtain w6 where put: "info_put (kl_configmaps kl) info w5 = (Inr (), w6)"
    using cm.info_put_quiet by blast
  ultimately have i: "ensureClusterInfo hs kl (co_name opts) ver w5 = (Inr (), w6)"
    by (simp add: ensureClusterInfo_def)
  have 6: "cur w6 = cur w5" "sec w6 = sec w5"
    using obeysD [OF cm.obeys_info_put [OF _ cm_registry(1)] put] by (simp_all add: unchanged_def)
  have apart6: "sorted_wrt apart (?irsa ac wc @ ?is)" for ac wc
    using apart [of ac wc] unfolding sorted_wrt_append [of apart ?all] by blast
  have ready6: "ready admits (cur w6) (?irsa ac wc @ ?is)" for ac wc using ready5 unfolding 6(1) .
  from EnsureIRSA_total [OF apart6 ready6] obtain w7 where
    s: "EnsureIRSA ?c (tl_crypto hs) ca DefaultPodIdentityWebhookImage w6 = (Inr (), w7)"
    and ready7: "ready admits (cur w7) ?is" by blast
  have "sec w7 principals_key = sec w principals_key"
    using obeysD [OF irsa_keeps_registry s] 6(2) 5(1) 1(2) by (simp add: unchanged_def)
  then have "secret_ok sec w7" using ok by (simp add: secret_ok_def registered_def principals_key_def)
  from role_total [OF this] obtain w8 where n: "ensureNodeRolePrincipal hs kl ?role w7 = (Inr (), w8)" by blast
  have same: "cur w7 (step_id s) = cur w8 (step_id s)" if "s \<in> set ?is" for s
    using obeysD [OF role_outside(3) [OF bspec [OF not_pid(2) that]] n] by (simp only: unchanged_def)
  have portless: "node_ports (ko_body (step_object s)) = []" if "s \<in> set ?is" for s
    using that by (auto simp: imdsDaemonSet_def podIdentityAgentDaemonSet_def)
  have "can_apply admits (cur w8) s" if "s \<in> set ?is" for s
    by (rule can_apply_portless [where s = s and m = "cur w7" and n = "cur w8" and admits = admits,
          OF portless [OF that] same [OF that] bspec [OF ready7 [unfolded list_all_iff] that]])
  then have ready8: "ready admits (cur w8) (?is @ [])" unfolding list_all_iff append_Nil2 by blast
  have "sorted_wrt apart (?is @ [])" using apart6 unfolding sorted_wrt_append by simp
  from rel.run_steps_reliable [OF this ready8] obtain w9 where d: "run_steps ?c ?is w8 = (Inr (), w9)" by blast
  from k have kumo: "when_set (co_with_kumo opts) (wrapped ''ensure kumo: %w'' (EnsureKumo ?c (co_kumo_image opts))) w1 = (Inr (), w2)"
    by (simp add: when_works wrapped_works ensure_steps split: if_splits)
  from r t i have auth: "deployAuthenticator hs kl ?img (co_name opts) ver cert w3 = (Inr (), w6)"
    unfolding deployAuthenticator_def and_then_works wrapped_works ensure_steps by blast
  from d obtain v where "EnsureIMDS ?c ?img ?role w8 = (Inr (), v)"
      "EnsurePodIdentity ?c DefaultPodIdentityAgentImage (co_name opts) v = (Inr (), w9)"
    unfolding ensure_steps run_steps_single run_steps_cons and_then_works by blast
  with b kumo a auth s n show ?thesis
    unfolding deployAgent_def Let_def and_then_works wrapped_works ensure_steps by blast
qed

end

section \<open>A reference site\<close>

text \<open>
  The reference cluster with the ConfigMaps, the clock and the kubeconfig text that go with it. A
  call of a client of one part runs on that part.
\<close>

record site = cluster_state +
  st_configmaps :: ref_world
  st_clock :: nat

definition on_configmaps :: "(ref_world \<Rightarrow> 'a \<times> ref_world) \<Rightarrow> site \<Rightarrow> 'a \<times> site" where
  "on_configmaps f s = (case f (st_configmaps s) of (r, v) \<Rightarrow> (r, s\<lparr>st_configmaps := v\<rparr>))"

definition on_clock :: "(nat \<Rightarrow> 'a \<times> nat) \<Rightarrow> site \<Rightarrow> 'a \<times> site" where
  "on_clock f s = (case f (st_clock s) of (r, n) \<Rightarrow> (r, s\<lparr>st_clock := n\<rparr>))"

definition site_configmaps :: "site data_client" where
  "site_configmaps =
     \<lparr>api_get = (\<lambda>ns nm. on_configmaps (ref_get (\<lambda>w. w) ns nm)),
      api_create = (\<lambda>ob. on_configmaps (ref_create (\<lambda>w. w) ob)),
      api_update = (\<lambda>ob. on_configmaps (ref_update (\<lambda>w. w) ob)),
      retry_on_conflict = retry_spec 4\<rparr>"

definition site_crypto :: "(nat, site) crypto" where
  "site_crypto =
     \<lparr>cy_generate_key = (\<lambda>bits. on_clock (cy_generate_key ref_crypto bits)),
      cy_random_int = (\<lambda>limit. on_clock (cy_random_int ref_crypto limit)),
      cy_now = on_clock (cy_now ref_crypto),
      cy_create = (\<lambda>t p pub key. on_clock (cy_create ref_crypto t p pub key)),
      cy_parse = cy_parse ref_crypto,
      cy_pem = cy_pem ref_crypto,
      cy_marshal_key = cy_marshal_key ref_crypto\<rparr>"

definition site_docker :: "site docker" where
  "site_docker =
     \<lparr>dk_run = (\<lambda>_ s. (Inr (), s)), dk_save_pipe = (\<lambda>_ s. (Inr (), s)), dk_save_start = (\<lambda>_ s. (Inr (), s)),
      dk_save_wait = (\<lambda>_ s. (Inr (), s)), dk_save_stderr = (\<lambda>_ _. [])\<rparr>"

definition site_rask :: "site rask" where
  "site_rask =
     \<lparr>rk_create = (\<lambda>_ _ s. (Inr (), s)), rk_delete = (\<lambda>_ s. (Inr (), s)), rk_list = (\<lambda>_. Inr []),
      rk_load_images = (\<lambda>_ _ s. (Inr (), s)), rk_kubeconfig = (\<lambda>name _. Inr name),
      rk_preboot_path = (\<lambda>name dest. ''/var/lib/rask/'' @ name @ ''/preboot/'' @ dest),
      rk_port_forward = (\<lambda>_ _ _ s. (Inr ''127.0.0.1:40000'', s))\<rparr>"

text \<open>The kubeconfig of a cluster as rask writes it: one context, named as the cluster.\<close>

definition site_parse :: "string \<Rightarrow> go_error + kubeconfig" where
  "site_parse name =
     Inr \<lparr>kf_clusters = [(name, \<lparr>kc_server = ''https://127.0.0.1:6443'', kc_ca_data = [1, 2, 3], kc_rest = []\<rparr>)],
          kf_auth_infos = [(name, \<lparr>ai_exec = None, ai_rest = []\<rparr>)],
          kf_contexts = [(name, \<lparr>kx_cluster = name, kx_auth_info = name\<rparr>)], kf_current = name\<rparr>"

definition site_tools :: "(nat, site) tools" where
  "site_tools =
     \<lparr>tl_arch = ''amd64'', tl_docker = site_docker, tl_rask = site_rask, tl_crypto = site_crypto,
      tl_rand = \<lparr>rand_int = (\<lambda>m. on_clock (\<lambda>n. (Inr (n mod m), Suc n))),
                 rand_read = (\<lambda>k. on_clock (\<lambda>n. (Inr (replicate k 0), Suc n)))\<rparr>,
      tl_parse = site_parse\<rparr>"

definition site_kube :: "(nat \<Rightarrow> bool) \<Rightarrow> site kube_client" where
  "site_kube flaky =
     \<lparr>kl_objects = ref_cluster flaky, kl_secrets = ref_client (\<lambda>w. w), kl_configmaps = site_configmaps\<rparr>"

definition site_clock :: "site \<Rightarrow> int" where
  "site_clock s = int (st_clock s) * 10 ^ 9"

definition site_config_cur :: "site \<Rightarrow> string \<times> string \<Rightarrow> data_object option" where
  "site_config_cur s = ref_cur (st_configmaps s)"

definition site_config_commit :: "data_object \<Rightarrow> site \<Rightarrow> data_object \<times> site" where
  "site_config_commit ob = on_configmaps (ref_commit ob)"

lemmas site_defs = site_kube_def site_tools_def site_crypto_def site_docker_def site_rask_def
  site_configmaps_def on_clock_def on_configmaps_def site_clock_def

lemma site_parts [simp]:
  "kl_objects (site_kube f) = ref_cluster f" "kl_secrets (site_kube f) = ref_client (\<lambda>w. w)"
  "kl_configmaps (site_kube f) = site_configmaps" "tl_crypto site_tools = site_crypto"
  by (simp_all add: site_kube_def site_tools_def)

lemma site_create_ref:
  "cy_create site_crypto t p a b s = (r, s') \<Longrightarrow> \<exists>n. cy_create ref_crypto t p a b (st_clock s) = (r, n)"
  by (auto simp: site_crypto_def on_clock_def split: prod.splits)

interpretation site_x509: x509 site_crypto ref_accepts site_clock
proof (unfold_locales, goal_cases)
  case (2 root rkey w0 rder w1 rcert leaf lkey w2 lder w3 host now)
  then show ?case
    using site_create_ref [OF 2(1)] site_create_ref [OF 2(3)] ref_x509.accepts_law
    by (simp add: site_crypto_def) blast
qed (auto simp: site_crypto_def on_clock_def site_clock_def ref_crypto_def split: prod.splits)

interpretation site_install: install_world "ref_cluster flaky" cluster_objects 4 site_crypto ref_accepts site_clock for flaky
  by unfold_locales
    (auto simp: site_crypto_def on_clock_def site_clock_def ref_crypto_def ref_cluster_def tick_def Let_def
      cluster_objects_def split: prod.splits if_splits option.splits)

interpretation site_cm: quiet_data_api site_configmaps site_config_cur "\<lambda>w. w" site_config_commit 4
proof (unfold_locales, goal_cases)
  case (4 ob w ob' w')
  then show ?case
    using quiet_ref.commit_cur by (auto simp: site_config_commit_def site_config_cur_def on_configmaps_def split: prod.splits)
next
  case (5 ob w ob' w')
  then show ?case
    using quiet_ref.commit_data by (auto simp: site_config_commit_def site_config_cur_def on_configmaps_def split: prod.splits)
next
  case (6 w k ob)
  then show ?case unfolding site_config_cur_def by (rule quiet_ref.cur_wf)
qed (auto simp: site_configmaps_def site_config_cur_def site_config_commit_def on_configmaps_def ref_get_def
    ref_create_def ref_update_def Let_def split: option.splits prod.splits)

lemma site_frame [simp]:
  fixes s :: site
  shows "cluster_objects (s\<lparr>st_clock := n\<rparr>) = cluster_objects s" "ref_cur (s\<lparr>st_clock := n\<rparr>) = ref_cur s"
    "site_config_cur (s\<lparr>st_clock := n\<rparr>) = site_config_cur s"
    "cluster_objects (s\<lparr>st_configmaps := v\<rparr>) = cluster_objects s" "ref_cur (s\<lparr>st_configmaps := v\<rparr>) = ref_cur s"
    "cluster_objects (ref_write k d s) = cluster_objects s" "site_config_cur (ref_write k d s) = site_config_cur s"
    "st_clock (ref_write k d s) = st_clock s"
    "ref_cur (s\<lparr>cs_objects := obs\<rparr>) = ref_cur s" "ref_cur (tick s) = ref_cur s"
    "site_config_cur (s\<lparr>cs_objects := obs\<rparr>) = site_config_cur s" "site_config_cur (tick s) = site_config_cur s"
    "kubeconfigs site_tools s = Inr"
  by (cases s; simp add: fun_eq_iff cluster_objects_def ref_cur_def site_config_cur_def ref_write_def tick_def
      kubeconfigs_def site_tools_def site_rask_def)+

lemma on_clock_snd: "\<exists>n. snd (on_clock f s) = s\<lparr>st_clock := n\<rparr>"
  by (auto simp: on_clock_def split: prod.splits)

lemma on_configmaps_snd: "\<exists>v. snd (on_configmaps f s) = s\<lparr>st_configmaps := v\<rparr>"
  by (auto simp: on_configmaps_def split: prod.splits)

lemma ref_client_snd:
  fixes s :: site
  shows "snd (ref_get (\<lambda>w. w) ns nm s) = s"
    "snd (ref_create (\<lambda>w. w) d s) \<in> {s, ref_write (object_key d) (data_entries d) s}"
    "snd (ref_update (\<lambda>w. w) d s) \<in> {s, ref_write (object_key d) (data_entries d) s}"
  by (auto simp: ref_get_def ref_create_def ref_update_def ref_commit_def Let_def split: option.splits)

lemma ref_cluster_snd:
  fixes s :: site
  shows "snd (cl_get (ref_cluster f) k s) = tick s"
    "\<exists>obs. snd (cl_create (ref_cluster f) ob s) \<in> {tick s, (tick s)\<lparr>cs_objects := obs\<rparr>}"
    "\<exists>obs. snd (cl_update (ref_cluster f) ob s) \<in> {tick s, (tick s)\<lparr>cs_objects := obs\<rparr>}"
  by (auto simp: ref_cluster_def Let_def split: option.splits)

lemma obeys_on_clock: "(\<And>s n. R s (s\<lparr>st_clock := n\<rparr>)) \<Longrightarrow> obeys R (on_clock f)"
  unfolding obeys_def using on_clock_snd [of f] by metis

lemma obeys_on_configmaps: "(\<And>s v. R s (s\<lparr>st_configmaps := v\<rparr>)) \<Longrightarrow> obeys R (on_configmaps f)"
  unfolding obeys_def using on_configmaps_snd [of f] by metis

lemma obeys_ref_cluster:
  fixes R :: "site \<Rightarrow> site \<Rightarrow> bool"
  assumes "\<And>s. R s (tick s)" and "\<And>s obs. R s ((tick s)\<lparr>cs_objects := obs\<rparr>)"
  shows "obeys R (cl_create (ref_cluster f) ob)" "obeys R (cl_update (ref_cluster f) ob)"
    "obeys R (cl_get (ref_cluster f) k)"
  unfolding obeys_def using assms ref_cluster_snd by (metis insertE empty_iff)+

lemma obeys_ref_client:
  fixes R :: "site \<Rightarrow> site \<Rightarrow> bool"
  assumes "\<And>s. R s s"
  shows "obeys R (api_get (ref_client (\<lambda>w. w)) ns nm)"
    "(\<And>s k. k = object_key d \<Longrightarrow> R s (ref_write k (data_entries d) s)) \<Longrightarrow> obeys R (api_create (ref_client (\<lambda>w. w)) d)"
    "(\<And>s k. k = object_key d \<Longrightarrow> R s (ref_write k (data_entries d) s)) \<Longrightarrow> obeys R (api_update (ref_client (\<lambda>w. w)) d)"
  unfolding obeys_def ref_client_def data_client.select_convs
  using assms ref_client_snd by (simp, (metis insertE empty_iff)+)

lemma site_leaves:
  fixes R :: "site \<Rightarrow> site \<Rightarrow> bool"
  assumes refl: "\<And>s. R s s" and clk: "\<And>s. R s (s\<lparr>st_clock := Suc (st_clock s)\<rparr>)"
  shows "host_leaves R site_tools" "crypto_leaves R site_crypto"
  using assms
  by (simp_all add: host_leaves_def crypto_leaves_def obeys_def site_tools_def site_docker_def site_rask_def
      site_crypto_def on_clock_def ref_crypto_def)

lemma configmaps_leave:
  fixes R :: "site \<Rightarrow> site \<Rightarrow> bool"
  assumes "\<And>s v. R s (s\<lparr>st_configmaps := v\<rparr>)"
  shows "data_leaves R site_configmaps"
  using assms by (simp add: data_leaves_def site_configmaps_def obeys_on_configmaps)

lemma deploy_world_site:
  "deploy_world site_tools (site_kube flaky) cluster_objects 4 ref_accepts site_clock ref_cur (\<lambda>w. w) ref_commit 4
     site_config_cur (\<lambda>w. w) site_config_commit 4"
proof (rule deploy_world.intro)
  show "install_world (kl_objects (site_kube flaky)) cluster_objects 4 (tl_crypto site_tools) ref_accepts site_clock"
    by (simp add: site_install.install_world_axioms)
  show "quiet_data_api (kl_secrets (site_kube flaky)) ref_cur (\<lambda>w. w) ref_commit 4"
    by (simp add: quiet_ref.quiet_data_api_axioms)
  show "quiet_data_api (kl_configmaps (site_kube flaky)) site_config_cur (\<lambda>w. w) site_config_commit 4"
    by (simp add: site_cm.quiet_data_api_axioms)
  show "deploy_world_axioms site_tools (site_kube flaky) cluster_objects site_clock ref_cur site_config_cur"
    unfolding deploy_world_axioms_def site_parts
    by (intro conjI allI impI site_leaves configmaps_leave obeys_ref_cluster obeys_ref_client)
      (simp_all add: unchanged_def onwards_def site_clock_def data_leaves_def obeys_ref_client)
qed

interpretation site: deploy_world site_tools "site_kube flaky" cluster_objects 4 ref_accepts site_clock
    ref_cur "\<lambda>w. w" ref_commit 4 site_config_cur "\<lambda>w. w" site_config_commit 4 for flaky
  by (rule deploy_world_site)

interpretation reliable_site: reliable_deploy site_tools "site_kube (\<lambda>_. False)" cluster_objects 4 ref_accepts
    site_clock ref_cur "\<lambda>w. w" ref_commit 4 site_config_cur "\<lambda>w. w" site_config_commit 4 ref_admits
proof (rule reliable_deploy.intro [OF deploy_world_site])
  show "reliable_cluster (kl_objects (site_kube (\<lambda>_. False))) cluster_objects 4 ref_admits"
    by (simp add: ref_reliable.reliable_cluster_axioms)
  show "reliable_deploy_axioms site_tools"
    by unfold_locales (simp_all add: host_total_def crypto_total_def site_defs ref_crypto_def)
qed

text \<open>
  The reference cluster admits the objects of a deployment, which is applicable while it holds
  StorageClasses only.
\<close>

lemma ref_admits_deployed:
  "ob \<in> set (deployed_objects opts ca cert ac wc) \<Longrightarrow> ref_admits (object_id ob) (ko_body ob)"
  by (cases "co_with_kumo opts")
    (auto simp: deployed_objects_def deploy_steps_defs Let_def install_object_defs selects_template_def
      agentLabels_def kumoLabels_def imdsLabels_def podIdentityAgentLabels_def authenticatorLabels_def
      podIdentityWebhookLabels_def)

lemma site_deployable:
  assumes "list_all (\<lambda>ob. kind_of (ko_body ob) = KStorageClass) (cs_objects s)"
  shows "deployable ref_admits opts ca cert (cluster_objects s)"
proof (rule deployableI)
  have kinds: "kind_of (ko_body ob) = KStorageClass" "object_id ob = k" if "cluster_objects s k = Some ob" for k ob
    using that assms by (auto simp: cluster_objects_def list_all_iff dest: find_SomeD)
  show "\<forall>k ob. cluster_objects s k = Some ob \<longrightarrow> AgentNodePort \<notin> set (node_ports (ko_body ob))"
  proof (intro allI impI)
    fix k ob
    assume "cluster_objects s k = Some ob"
    with kinds(1) show "AgentNodePort \<notin> set (node_ports (ko_body ob))" by (cases "ko_body ob") fastforce+
  qed
  have "kind_of (ko_body ob) \<noteq> KStorageClass"
    if "CreateOrUpdate noun ob \<in> set (deploy_steps opts ca cert ac wc)" for noun ob ac wc
    using that by (cases "co_with_kumo opts") (auto simp: deploy_steps_defs Let_def install_object_defs)
  with kinds show "\<forall>ac wc noun ob old. CreateOrUpdate noun ob \<in> set (deploy_steps opts ca cert ac wc) \<longrightarrow>
      cluster_objects s (object_id ob) = Some old \<longrightarrow> immutable_part (ko_body old) = immutable_part (ko_body ob)"
    using object_id_kind by metis
qed (use ref_admits_deployed in blast)

end
