(* ===== verification/Deployment.thy ===== *)
theory Deployment
  imports Deploy_Site Eks_Auth Injector Facade
begin

text \<open>
  The properties of a deployment (\<open>cli/create.go\<close>, \<open>internal/cluster\<close>): it installs its objects and
  registers the cluster and the node role, it succeeds while nothing is refused, its objects fit
  together, and the API server trusts its webhooks for a year.
\<close>

section \<open>What is deployed\<close>

definition demo_options :: createClusterOptions where
  "demo_options =
     \<lparr>co_eks_version = [], co_name = ''demo'', co_build_local = True, co_wait = 120, co_enable_auth = True,
      co_agent_image = [], co_node_role_name = ''node-role'', co_with_kumo = True, co_kumo_image = ''kumo:1'',
      co_aws_endpoint_url = [], co_with_load_balancer = False\<rparr>"

definition demo_root :: certificate where
  "demo_root = Certificate 1 ''fjord'' [] 0 (10 ^ 18) [''CertSign''] [] True True"

definition demo_ca :: "nat CA" where
  "demo_ca = \<lparr>ca_cert = demo_root, ca_key = 0, ca_cert_pem = [], ca_key_pem = []\<rparr>"

definition demo_cert :: ServerCert where
  "demo_cert = \<lparr>sc_cert_pem = [1], sc_key_pem = [2]\<rparr>"

definition empty_site :: site where
  "empty_site = \<lparr>rw_objects = Map.empty, rw_foreign = [], cs_calls = 0, cs_objects = [],
     st_configmaps = \<lparr>rw_objects = Map.empty, rw_foreign = []\<rparr>, st_clock = 7\<rparr>"

lemma empty_site_ok: "secret_ok ref_cur empty_site"
  by (simp add: secret_ok_def registered_def ref_cur_def empty_site_def entries_ok_def data_reg_def)

text \<open>
  What a deployment of an older image has left that was interrupted before the agent's Services,
  beside a Service of somebody else with a node port of its own.
\<close>

definition interrupted_site :: site where
  "interrupted_site = empty_site\<lparr>cs_calls := 3, cs_objects :=
     [(service_account agentName)\<lparr>ko_rv := 1\<rparr>,
      (agentDeployment ''fjord:old'' True [] False)\<lparr>ko_rv := 2\<rparr>,
      new_object ''default'' ''web'' (Service \<lparr>ss_type = ''NodePort'', ss_selector = [(''app'', ''web'')],
        ss_ports = [\<lparr>sp_name = ''http'', sp_port = 80, sp_target_port = 80, sp_node_port = 31000\<rparr>]\<rparr>)]\<rparr>"

lemma interrupted_site_ok: "secret_ok ref_cur interrupted_site"
  by (simp add: secret_ok_def registered_def ref_cur_def interrupted_site_def empty_site_def entries_ok_def data_reg_def)

lemma interrupted_objects:
  assumes "cluster_objects interrupted_site k = Some ob"
  shows "object_id ob = k" and "AgentNodePort \<notin> set (node_ports (ko_body ob))"
    and "x \<in> set (deployed_objects opts ca cert ac wc) \<Longrightarrow> object_id x = k \<Longrightarrow>
      immutable_part (ko_body ob) = immutable_part (ko_body x)"
proof -
  from assms have ob: "ob \<in> set (cs_objects interrupted_site)" and id: "object_id ob = k"
    by (auto simp: cluster_objects_def dest: find_SomeD)
  show "object_id ob = k" by (rule id)
  show "AgentNodePort \<notin> set (node_ports (ko_body ob))"
    using ob by (auto simp: interrupted_site_def service_account_def agentDeployment_def AgentNodePort_def Let_def)
  assume x: "x \<in> set (deployed_objects opts ca cert ac wc)" "object_id x = k"
  with ob id show "immutable_part (ko_body ob) = immutable_part (ko_body x)"
    by (cases "co_with_kumo opts")
      (auto simp: interrupted_site_def deployed_objects_def deploy_steps_defs Let_def install_object_defs install_name_defs)
qed

lemma demo_info: "\<exists>info. cluster_info_of site_tools (co_name demo_options) ''1.33'' w = Inr info"
  by (simp add: cluster_info_of_def KubeConfig_def site_tools_def site_rask_def site_parse_def)

text \<open>
  C4: a deployment of the agent that succeeds has done exactly what it promises, whatever the
  cluster held before and whichever of its objects existed. Apart from the registry Secret, the
  contents of the cluster are those of running the deployment's steps in order (objects created
  once are left alone when they exist, the others have their spec overwritten and their metadata
  kept, every other object is untouched), where the two serving certificates of the webhooks were
  issued by the CA during the call for the DNS names of their Services. The EKS API facade's
  cluster record is the one read off the cluster's kubeconfig, with the CA bundle in base64, and
  the node role resolves in the principal registry: to the principal it had, or to a new one with
  the role's ARN.
\<close>

theorem deployment_installs:
  assumes "deploy_world hs kl cur retries accepts clock sec sec_env sec_commit sec_retries
      cm cm_env cm_commit cm_retries"
    and "deployAgent hs kl opts ca cert ver w = (Inr (), w')" and "secret_ok sec w"
  shows "\<exists>ac wc info p.
    issued_for (tl_crypto hs) clock ca agentName w w' ac \<and>
    issued_for (tl_crypto hs) clock ca podIdentityWebhookName w w' wc \<and>
    (\<forall>i. i \<noteq> principals_id \<longrightarrow>
       contents (cur w') i = apply_steps (deploy_steps opts ca cert ac wc) (contents (cur w)) i) \<and>
    cluster_info_of hs (co_name opts) ver w = Inr info \<and> info_get (kl_configmaps kl) w' = (Inr info, w') \<and>
    fst (secret_get_by_name (kl_secrets kl) (co_node_role_name opts) w') = Inr p \<and>
    (case fst (secret_get_by_name (kl_secrets kl) (co_node_role_name opts) w) of
       Inr q \<Rightarrow> p = q | Inl _ \<Rightarrow> p_arn p = RoleARN (co_node_role_name opts))"
  by (rule deploy_world.deployAgent_works [OF assms])

lemma deployment_installs_witness:
  "\<exists>w' ac wc info p.
    deployAgent site_tools (site_kube (\<lambda>_. False)) demo_options demo_ca demo_cert ''1.33'' empty_site = (Inr (), w') \<and>
    issued_for site_crypto site_clock demo_ca agentName empty_site w' ac \<and>
    (\<forall>i. i \<noteq> principals_id \<longrightarrow> contents (cluster_objects w') i =
       apply_steps (deploy_steps demo_options demo_ca demo_cert ac wc) (contents (cluster_objects empty_site)) i) \<and>
    info_get site_configmaps w' = (Inr info, w') \<and>
    fst (secret_get_by_name (ref_client (\<lambda>w. w)) ''node-role'' w') = Inr p"
proof -
  obtain info where i: "cluster_info_of site_tools (co_name demo_options) ''1.33'' empty_site = Inr info"
    using demo_info by blast
  have "deployable ref_admits demo_options demo_ca demo_cert (cluster_objects empty_site)"
    by (rule site_deployable) (simp add: empty_site_def)
  from reliable_site.deployAgent_succeeds [OF empty_site_ok i this] obtain w' where
    run: "deployAgent site_tools (site_kube (\<lambda>_. False)) demo_options demo_ca demo_cert ''1.33'' empty_site = (Inr (), w')"
    by blast
  from deployment_installs [OF site.deploy_world_axioms run empty_site_ok] run show ?thesis
    by (simp add: demo_options_def) blast
qed

text \<open>
  C6: a deployment succeeds when the API server has no documented reason to refuse it, from states
  that an interrupted one has left too. While the API server answers and docker, rask, the
  cryptography and the source of randomness do their work, \<open>deployAgent\<close> succeeds over whatever
  objects, certificates and principals the cluster holds, if (1) the objects of the deployment
  pass the server's validation and admission, (2) no Service of the cluster has the agent's node
  port 30080, and (3) an object of the cluster that has the name of one the deployment overwrites
  agrees with it in what never changes: the type of a Secret, the selector of a workload. It
  needs a kubeconfig of the cluster with a current context, and a principal registry that
  decodes. A deployment that has got as far as the agent's node port Service is not covered by
  (2): a server that reports the port as taken, and not the object as existing, fails the next one.
\<close>

theorem deployment_succeeds:
  assumes "reliable_deploy hs kl cur retries accepts clock sec sec_env sec_commit sec_retries
      cm cm_env cm_commit cm_retries admits"
    and "secret_ok sec w" and "cluster_info_of hs (co_name opts) ver w = Inr info"
    and "\<forall>ac wc. \<forall>ob \<in> set (deployed_objects opts ca cert ac wc). admits (object_id ob) (ko_body ob)"
    and "\<forall>k ob. cur w k = Some ob \<longrightarrow> AgentNodePort \<notin> set (node_ports (ko_body ob))"
    and "\<forall>ac wc noun ob old. CreateOrUpdate noun ob \<in> set (deploy_steps opts ca cert ac wc) \<longrightarrow>
      cur w (object_id ob) = Some old \<longrightarrow> immutable_part (ko_body old) = immutable_part (ko_body ob)"
  shows "\<exists>w'. deployAgent hs kl opts ca cert ver w = (Inr (), w')"
  by (rule reliable_deploy.deployAgent_succeeds [OF assms(1,2,3) deployableI [OF assms(4,5,6)]])

lemma deployment_succeeds_witness:
  "cluster_objects interrupted_site (KDeployment, SystemNamespace, agentName) \<noteq> None \<and>
   (\<exists>w'. deployAgent site_tools (site_kube (\<lambda>_. False)) demo_options demo_ca demo_cert ''1.33'' interrupted_site = (Inr (), w'))"
proof
  show "cluster_objects interrupted_site (KDeployment, SystemNamespace, agentName) \<noteq> None"
    by (simp add: cluster_objects_def interrupted_site_def service_account_def agentDeployment_def Let_def)
  obtain info where "cluster_info_of site_tools (co_name demo_options) ''1.33'' interrupted_site = Inr info"
    using demo_info by blast
  note run = deployment_succeeds [OF reliable_site.reliable_deploy_axioms interrupted_site_ok this]
  have admitted: "\<forall>ac wc. \<forall>ob \<in> set (deployed_objects demo_options demo_ca demo_cert ac wc).
      ref_admits (object_id ob) (ko_body ob)"
    using ref_admits_deployed by blast
  have port: "\<forall>k ob. cluster_objects interrupted_site k = Some ob \<longrightarrow> AgentNodePort \<notin> set (node_ports (ko_body ob))"
    using interrupted_objects(2) by blast
  have same: "\<forall>ac wc noun ob old. CreateOrUpdate noun ob \<in> set (deploy_steps demo_options demo_ca demo_cert ac wc) \<longrightarrow>
      cluster_objects interrupted_site (object_id ob) = Some old \<longrightarrow> immutable_part (ko_body old) = immutable_part (ko_body ob)"
    using interrupted_objects(3) overwritten_deployed by blast
  show "\<exists>w'. deployAgent site_tools (site_kube (\<lambda>_. False)) demo_options demo_ca demo_cert ''1.33'' interrupted_site = (Inr (), w')"
    by (rule run [OF admitted port same])
qed

section \<open>Objects that fit together\<close>

text \<open>What the kinds of these objects require of each other.\<close>

definition has_object :: "kube_object list \<Rightarrow> object_id \<Rightarrow> bool" where
  "has_object obs k \<longleftrightarrow> (\<exists>ob \<in> set obs. object_id ob = k)"

definition selects :: "labels \<Rightarrow> labels \<Rightarrow> bool" where
  "selects sel ls \<longleftrightarrow> sel \<noteq> [] \<and> (\<forall>(k, v) \<in> set sel. map_of ls k = Some v)"

fun workload :: "kube_object \<Rightarrow> workload_spec option" where
  "workload ob =
     (case ko_body ob of Deployment ws \<Rightarrow> Some ws | DaemonSet ws \<Rightarrow> Some ws | _ \<Rightarrow> None)"

definition pod_typed :: "kube_object list \<Rightarrow> string \<Rightarrow> pod_spec \<Rightarrow> bool" where
  "pod_typed obs ns ps \<longleftrightarrow>
     (ps_service_account ps = [] \<or> has_object obs (KServiceAccount, ns, ps_service_account ps)) \<and>
     (\<forall>v \<in> set (ps_volumes ps). has_object obs (KSecret, ns, sv_secret v)) \<and>
     (\<forall>c \<in> set (ps_init_containers ps @ ps_containers ps).
        (\<forall>m \<in> set (pc_mounts c). vm_name m \<in> sv_name ` set (ps_volumes ps)) \<and>
        (\<forall>p \<in> set (pc_ports c).
           cp_host_port p = 0 \<or> ps_host_network ps \<and> cp_host_port p = cp_container_port p))"

definition serves :: "kube_object \<Rightarrow> string \<Rightarrow> labels \<Rightarrow> int \<Rightarrow> bool" where
  "serves ob ns sel p \<longleftrightarrow>
     ko_namespace ob = ns \<and>
     (case workload ob of
        None \<Rightarrow> False
      | Some ws \<Rightarrow>
          selects sel (ws_template_labels ws) \<and>
          (\<exists>c \<in> set (ps_containers (ws_pod ws)). \<exists>q \<in> set (pc_ports c). cp_container_port q = p))"

definition service_with_port :: "kube_object list \<Rightarrow> string \<Rightarrow> string \<Rightarrow> int \<Rightarrow> bool" where
  "service_with_port obs ns name p \<longleftrightarrow>
     (\<exists>ob \<in> set obs. object_id ob = (KService, ns, name) \<and>
        (case ko_body ob of Service ss \<Rightarrow> (\<exists>sp \<in> set (ss_ports ss). sp_port sp = p) | _ \<Rightarrow> False))"

definition well_typed :: "kube_object list \<Rightarrow> kube_object \<Rightarrow> bool" where
  "well_typed obs ob \<longleftrightarrow>
     (case ko_body ob of
        ServiceAccount \<Rightarrow> True
      | ClusterRole rules \<Rightarrow> rules \<noteq> []
      | ClusterRoleBinding r subjects \<Rightarrow>
          rr_kind r = ''ClusterRole'' \<and> has_object obs (KClusterRole, [], rr_name r) \<and> subjects \<noteq> [] \<and>
          (\<forall>s \<in> set subjects. rs_kind s = ''ServiceAccount'' \<and>
             has_object obs (KServiceAccount, rs_namespace s, rs_name s))
      | Deployment ws \<Rightarrow> selects (ws_selector ws) (ws_template_labels ws) \<and> pod_typed obs (ko_namespace ob) (ws_pod ws)
      | DaemonSet ws \<Rightarrow> selects (ws_selector ws) (ws_template_labels ws) \<and> pod_typed obs (ko_namespace ob) (ws_pod ws)
      | Service ss \<Rightarrow>
          (\<forall>sp \<in> set (ss_ports ss). \<exists>wl \<in> set obs. serves wl (ko_namespace ob) (ss_selector ss) (sp_target_port sp))
      | Secret t d \<Rightarrow> t = ''kubernetes.io/tls'' \<longrightarrow> {''tls.crt'', ''tls.key''} \<subseteq> fst ` set d
      | MutatingWebhookConfiguration whs \<Rightarrow>
          (\<forall>wh \<in> set whs. service_with_port obs (wh_service_namespace wh) (wh_service_name wh) (wh_port wh) \<and>
             wh_service_namespace wh \<in> set (wh_excluded_namespaces wh))
      | StorageClass p m \<Rightarrow> p \<noteq> [])"

definition host_ports :: "kube_object \<Rightarrow> (string \<times> int) list" where
  "host_ports ob =
     (case workload ob of
        None \<Rightarrow> []
      | Some ws \<Rightarrow>
          map (\<lambda>p. (cp_host_ip p, cp_host_port p))
            (filter (\<lambda>p. cp_host_port p \<noteq> 0) (concat (map pc_ports (ps_containers (ws_pod ws))))))"

definition service_url :: "string \<Rightarrow> int \<Rightarrow> string" where
  "service_url name p = ''http://'' @ serviceFQDN name @ '':'' @ string_of_int p"

lemma new_object_namespace [simp]: "ko_namespace (new_object ns name b) = ns"
  by (simp add: new_object_def)

text \<open>The identities of the objects, and the workloads behind the Services.\<close>

lemma has_deployed:
  "has_object (deployed_objects opts ca cert ac wc) k \<longleftrightarrow>
     co_with_kumo opts \<and> k \<in> {(KDeployment, SystemNamespace, kumoName), (KService, SystemNamespace, kumoName)} \<or>
     k \<in> {(KServiceAccount, SystemNamespace, agentName), (KClusterRole, [], agentName),
       (KClusterRoleBinding, [], agentName), (KDeployment, SystemNamespace, agentName),
       (KService, SystemNamespace, agentName), (KService, SystemNamespace, agentNodePortServiceName),
       (KServiceAccount, SystemNamespace, AuthenticatorServiceAccountName),
       (KClusterRoleBinding, [], authenticatorClusterRoleBindingName),
       (KSecret, SystemNamespace, AuthenticatorTLSCertName),
       (KDaemonSet, SystemNamespace, AuthenticatorServiceAccountName),
       (KSecret, SystemNamespace, AgentTLSCertName), (KMutatingWebhookConfiguration, [], injectorWebhookName),
       (KSecret, SystemNamespace, podIdentityWebhookCertSecret),
       (KServiceAccount, SystemNamespace, podIdentityWebhookName), (KClusterRole, [], podIdentityWebhookName),
       (KClusterRoleBinding, [], podIdentityWebhookName), (KDeployment, SystemNamespace, podIdentityWebhookName),
       (KService, SystemNamespace, podIdentityWebhookName), (KMutatingWebhookConfiguration, [], podIdentityWebhookName),
       (KDaemonSet, SystemNamespace, imdsName), (KDaemonSet, SystemNamespace, podIdentityAgentName)}"
  by (cases "co_with_kumo opts")
    (auto simp: has_object_def deployed_objects_def deploy_steps_defs Let_def install_object_defs)

lemma deployed_serves:
  "p \<in> {agentPort, agentInjectorPort} \<Longrightarrow>
   \<exists>wl \<in> set (deployed_objects opts ca cert ac wc). serves wl SystemNamespace agentLabels p"
  "\<exists>wl \<in> set (deployed_objects opts ca cert ac wc). serves wl SystemNamespace podIdentityWebhookLabels podIdentityWebhookPort"
  "co_with_kumo opts \<Longrightarrow>
   \<exists>wl \<in> set (deployed_objects opts ca cert ac wc). serves wl SystemNamespace kumoLabels kumoPort"
proof -
  let ?img = "deployed_image opts"
  have "serves (agentDeployment ?img True (resolveAWSEndpointURL opts) (co_with_load_balancer opts)) SystemNamespace agentLabels p"
    if "p \<in> {agentPort, agentInjectorPort}"
    using that by (auto simp: serves_def agentDeployment_def Let_def selects_def agentLabels_def plain_pod_def tcp_port_def)
  then show "p \<in> {agentPort, agentInjectorPort} \<Longrightarrow>
      \<exists>wl \<in> set (deployed_objects opts ca cert ac wc). serves wl SystemNamespace agentLabels p"
    by (auto simp: deployed_objects_def deploy_steps_defs Let_def)
  have "serves (podIdentityWebhookDeployment DefaultPodIdentityWebhookImage) SystemNamespace podIdentityWebhookLabels podIdentityWebhookPort"
    by (simp add: serves_def podIdentityWebhookDeployment_def selects_def podIdentityWebhookLabels_def plain_pod_def tcp_port_def)
  then show "\<exists>wl \<in> set (deployed_objects opts ca cert ac wc).
      serves wl SystemNamespace podIdentityWebhookLabels podIdentityWebhookPort"
    by (auto simp: deployed_objects_def deploy_steps_defs Let_def)
  have "serves (kumoDeployment (co_kumo_image opts)) SystemNamespace kumoLabels kumoPort"
    by (simp add: serves_def kumoDeployment_def selects_def kumoLabels_def plain_pod_def tcp_port_def)
  then show "co_with_kumo opts \<Longrightarrow>
      \<exists>wl \<in> set (deployed_objects opts ca cert ac wc). serves wl SystemNamespace kumoLabels kumoPort"
    by (auto simp: deployed_objects_def deploy_steps_defs Let_def)
qed

lemma deployed_service_ports:
  "service_with_port (deployed_objects opts ca cert ac wc) SystemNamespace agentName agentPort"
  "service_with_port (deployed_objects opts ca cert ac wc) SystemNamespace agentName agentInjectorPort"
  "service_with_port (deployed_objects opts ca cert ac wc) SystemNamespace podIdentityWebhookName podIdentityWebhookPort"
  "co_with_kumo opts \<Longrightarrow> service_with_port (deployed_objects opts ca cert ac wc) SystemNamespace kumoName kumoPort"
  unfolding service_with_port_def deployed_objects_def deploy_steps_defs
  by (auto simp: Let_def agent_service_def pod_identity_webhook_service_def kumo_service_def service_port_at_def)

lemma selects_self:
  "selects agentLabels agentLabels" "selects kumoLabels kumoLabels" "selects imdsLabels imdsLabels"
  "selects podIdentityAgentLabels podIdentityAgentLabels" "selects authenticatorLabels authenticatorLabels"
  "selects podIdentityWebhookLabels podIdentityWebhookLabels"
  by (simp_all add: selects_def agentLabels_def kumoLabels_def imdsLabels_def podIdentityAgentLabels_def
      authenticatorLabels_def podIdentityWebhookLabels_def)

lemma deployed_well_typed:
  "\<forall>ob \<in> set (deployed_objects opts ca cert ac wc). well_typed (deployed_objects opts ca cert ac wc) ob"
proof -
  let ?obs = "deployed_objects opts ca cert ac wc"
  note typed = well_typed_def pod_typed_def selects_self has_deployed deployed_serves deployed_service_ports
    install_object_defs plain_pod_def plain_container_def tcp_port_def service_port_at_def
  have kumo: "\<forall>ob \<in> set (map step_object (kumo_steps (co_kumo_image opts))). well_typed ?obs ob" if "co_with_kumo opts"
    using that deployed_serves(3) [OF that] by (simp add: kumo_steps_def typed)
  have agent: "\<forall>ob \<in> set (map step_object (agent_steps (deployed_image opts) True (resolveAWSEndpointURL opts)
      (co_with_load_balancer opts))). well_typed ?obs ob"
    by (simp add: agent_steps_def typed Let_def agent_rules_def baseRules_def)
  have auth: "\<forall>ob \<in> set (map step_object (authenticator_rbac_steps @ authenticator_steps (deployed_image opts) cert)).
      well_typed ?obs ob"
    by (simp add: authenticator_rbac_steps_def authenticator_steps_def typed)
  have irsa: "\<forall>ob \<in> set (map step_object (irsa_steps ca DefaultPodIdentityWebhookImage ac wc)). well_typed ?obs ob"
    by (simp add: irsa_steps_def typed excludeSystemNamespaceSelector_def)
  have node: "well_typed ?obs (imdsDaemonSet (deployed_image opts) (co_node_role_name opts))"
      "well_typed ?obs (podIdentityAgentDaemonSet DefaultPodIdentityAgentImage (co_name opts))"
    by (simp_all add: typed podIdentityAgentInitContainers_def)
  show ?thesis
    using kumo agent auth irsa node
    by (cases "co_with_kumo opts") (simp_all add: deployed_objects_def deploy_steps_def Let_def ball_Un)
qed

text \<open>
  C5: the objects of a deployment form a well-typed cluster, whatever its options. Each has an
  identity of its own; every Service port leads to a container port of a workload its selector
  picks; every pod's ServiceAccount, Secret volumes and mounts exist; every role binding names a
  role and ServiceAccounts that are deployed; every webhook calls a port of a deployed Service and
  leaves that Service's namespace alone; no two pods claim the same address and port of a node.
  The URLs the agent hands out agree with it: the STS endpoint is the agent's Service, the AWS
  endpoint is the user's or the emulator's Service, and the credentials address of pods is a port
  the pod identity agent listens on.
\<close>

theorem deployment_well_typed:
  "let obs = deployed_objects opts ca cert ac wc in
   distinct (map object_id obs) \<and> list_all (well_typed obs) obs \<and>
   distinct (concat (map host_ports obs)) \<and>
   DefaultSTSEndpoint = service_url agentName agentPort \<and>
   service_with_port obs SystemNamespace agentName agentPort \<and>
   resolveAWSEndpointURL opts =
     (if co_aws_endpoint_url opts = [] \<and> co_with_kumo opts then service_url kumoName kumoPort
      else co_aws_endpoint_url opts) \<and>
   (co_with_kumo opts = service_with_port obs SystemNamespace kumoName kumoPort) \<and>
   DefaultPodIdentityFullURI = ''http://'' @ podIdentityAgentHostIP @ ''/v1/credentials'' \<and>
   {(podIdentityAgentHostIP, 80), (imdsLinkLocalAddr, 80)} \<subseteq> set (concat (map host_ports obs))"
proof -
  let ?obs = "deployed_objects opts ca cert ac wc"
  have ids: "distinct (map object_id ?obs)"
    using deploy_steps_distinct [of opts ca cert ac wc] by (simp add: deployed_objects_def comp_def)
  have ports: "concat (map host_ports ?obs) = [(imdsLinkLocalAddr, 80), (podIdentityAgentHostIP, 80)]"
    by (cases "co_with_kumo opts")
      (simp_all add: deployed_objects_def deploy_steps_defs Let_def install_object_defs host_ports_def
        plain_pod_def plain_container_def tcp_port_def imdsPort_def podIdentityAgentPort_def)
  have urls: "DefaultSTSEndpoint = service_url agentName agentPort" "KumoEndpoint = service_url kumoName kumoPort"
    by (simp_all add: DefaultSTSEndpoint_def service_url_def serviceFQDN_def agentName_def agentPort_def
        KumoEndpoint_def kumoName_def kumoPort_def SystemNamespace_def string_of_int_def
        string_of_nat.simps digit_char_def) code_simp+
  have kumo: "co_with_kumo opts = service_with_port ?obs SystemNamespace kumoName kumoPort"
    using deployed_service_ports(4) has_deployed [of opts ca cert ac wc "(KService, SystemNamespace, kumoName)"]
    by (auto simp: service_with_port_def has_object_def install_name_defs)
  show ?thesis
    unfolding Let_def
    using ids ports deployed_well_typed [of opts ca cert ac wc] urls kumo
      deployed_service_ports(1) [of opts ca cert ac wc]
    by (simp add: list_all_iff resolveAWSEndpointURL_def DefaultPodIdentityFullURI_def podIdentityAgentHostIP_def
        imdsLinkLocalAddr_def)
qed

section \<open>Webhooks the API server trusts\<close>

lemma contents_body: "map_option ko_body (contents m k) = map_option ko_body (m k)"
  by (simp add: contents_def option.map_comp comp_def)

lemma whole_second_le: "whole_second t \<le> t" and whole_second_gt: "t - 10 ^ 9 < whole_second t"
  unfolding whole_second_def by (simp_all add: algebra_simps)

context deploy_world begin

text \<open>A certificate issued during a call is accepted from the end of the call for a year.\<close>

lemma issued_for_window:
  assumes ca: "NewCA (tl_crypto hs) cn w0 = (Inr ca, w1)" and iss: "issued_for (tl_crypto hs) clock ca name w w' sc"
    and order: "clock w1 \<le> clock w" "clock w \<le> clock w0 + caValidity - serverCertValidity"
  shows "(\<forall>t. clock w' \<le> t \<longrightarrow> t \<le> clock w + serverCertValidity - 10 ^ 9 \<longrightarrow>
      accepts (ca_cert_pem ca) (sc_cert_pem sc) (sc_key_pem sc) (serviceFQDN name) t) \<and>
    (\<forall>t. clock w' + serverCertValidity < t \<longrightarrow>
      \<not> accepts (ca_cert_pem ca) (sc_cert_pem sc) (sc_key_pem sc) (serviceFQDN name) t)"
proof -
  from iss obtain v v' where sc: "IssueServerCert (tl_crypto hs) ca (serviceFQDN name)
      [serviceFQDN name, serviceFQDNCluster name] v = (Inr sc, v')"
    and v: "clock w \<le> clock v" "clock v' \<le> clock w'" unfolding issued_for_def by blast
  from issued_cert_window [OF ca sc, of "serviceFQDN name"] obtain created issued where
    c: "clock w0 \<le> created" "created \<le> clock w1" and i: "clock v \<le> issued" "issued \<le> clock v'"
    and acc: "\<And>t. accepts (ca_cert_pem ca) (sc_cert_pem sc) (sc_key_pem sc) (serviceFQDN name) t \<longleftrightarrow>
       whole_second (created - clockSkew) \<le> t \<and> t \<le> whole_second (created + caValidity) \<and>
       whole_second (issued - clockSkew) \<le> t \<and> t \<le> whole_second (issued + serverCertValidity)" by auto
  have skew: "0 \<le> clockSkew" by (simp add: clockSkew_def)
  note bounds = whole_second_le [of "created - clockSkew"] whole_second_gt [of "created + caValidity"]
    whole_second_le [of "issued - clockSkew"] whole_second_gt [of "issued + serverCertValidity"]
    whole_second_le [of "issued + serverCertValidity"]
  show ?thesis unfolding acc using bounds skew c i v order by auto
qed

lemma deployed_webhook:
  assumes run: "deployAgent hs kl opts ca cert ver w = (Inr (), w')" and ok: "secret_ok sec w"
    and which: "(config, svc, tls) \<in> {(injectorWebhookName, agentName, AgentTLSCertName),
      (podIdentityWebhookName, podIdentityWebhookName, podIdentityWebhookCertSecret)}"
  shows "\<exists>wh sc ws. issued_for (tl_crypto hs) clock ca svc w w' sc \<and>
    map_option ko_body (cur w' (KMutatingWebhookConfiguration, [], config)) = Some (MutatingWebhookConfiguration [wh]) \<and>
    (wh_service_namespace wh, wh_service_name wh) = (SystemNamespace, svc) \<and> wh_ca_bundle wh = ca_cert_pem ca \<and>
    map_option ko_body (cur w' (KSecret, SystemNamespace, tls)) =
      Some (Secret ''kubernetes.io/tls'' [(''tls.crt'', sc_cert_pem sc), (''tls.key'', sc_key_pem sc)]) \<and>
    map_option ko_body (cur w' (KDeployment, SystemNamespace, svc)) = Some (Deployment ws) \<and>
    tls \<in> sv_secret ` set (ps_volumes (ws_pod ws))"
proof -
  from deployAgent_works [OF run ok] obtain ac wc where
    iss: "issued_for (tl_crypto hs) clock ca agentName w w' ac"
      "issued_for (tl_crypto hs) clock ca podIdentityWebhookName w w' wc"
    and same: "\<And>i. i \<noteq> principals_id \<Longrightarrow>
      contents (cur w') i = apply_steps (deploy_steps opts ca cert ac wc) (contents (cur w)) i" by blast
  have body: "map_option ko_body (cur w' (object_id ob)) = Some (ko_body ob)"
    if "CreateOrUpdate noun ob \<in> set (deploy_steps opts ca cert ac wc)" for noun ob
  proof -
    have "object_id ob \<noteq> principals_id"
      using that deploy_steps_not_principals [of opts ca cert ac wc] by fastforce
    with apply_steps_updated [OF deploy_steps_distinct that] same [of "object_id ob"] show ?thesis
      by (metis contents_body)
  qed
  note body = body [of _ "injector_webhook_configuration ca"] body [of _ "pod_identity_webhook_configuration ca"]
    body [of _ "tls_secret AgentTLSCertName ac"] body [of _ "tls_secret podIdentityWebhookCertSecret wc"]
    body [of _ "agentDeployment (deployed_image opts) True (resolveAWSEndpointURL opts) (co_with_load_balancer opts)"]
    body [of _ "podIdentityWebhookDeployment DefaultPodIdentityWebhookImage"]
  have steps: "CreateOrUpdate ''mutating webhook configuration'' (injector_webhook_configuration ca) \<in> set (deploy_steps opts ca cert ac wc)"
    "CreateOrUpdate ''mutating webhook configuration'' (pod_identity_webhook_configuration ca) \<in> set (deploy_steps opts ca cert ac wc)"
    "CreateOrUpdate ''secret'' (tls_secret AgentTLSCertName ac) \<in> set (deploy_steps opts ca cert ac wc)"
    "CreateOrUpdate ''secret'' (tls_secret podIdentityWebhookCertSecret wc) \<in> set (deploy_steps opts ca cert ac wc)"
    "CreateOrUpdate ''deployment'' (agentDeployment (deployed_image opts) True (resolveAWSEndpointURL opts)
       (co_with_load_balancer opts)) \<in> set (deploy_steps opts ca cert ac wc)"
    "CreateOrUpdate ''deployment'' (podIdentityWebhookDeployment DefaultPodIdentityWebhookImage) \<in> set (deploy_steps opts ca cert ac wc)"
    by (simp_all add: deploy_steps_defs Let_def)
  note now = body(1) [OF steps(1)] body(2) [OF steps(2)] body(3) [OF steps(3)] body(4) [OF steps(4)]
    body(5) [OF steps(5)] body(6) [OF steps(6)]
  from which consider (inj) "config = injectorWebhookName" "svc = agentName" "tls = AgentTLSCertName"
    | (pod) "config = podIdentityWebhookName" "svc = podIdentityWebhookName" "tls = podIdentityWebhookCertSecret" by blast
  then show ?thesis
  proof cases
    case inj
    then show ?thesis using iss(1) now(1,3,5)
      by (auto simp: injector_webhook_configuration_def tls_secret_def agentDeployment_def Let_def)
  next
    case pod
    then show ?thesis using iss(2) now(2,4,6)
      by (auto simp: pod_identity_webhook_configuration_def tls_secret_def podIdentityWebhookDeployment_def)
  qed
qed

end

text \<open>
  C7: after a deployment the API server trusts the two admission webhooks, for a year. Whatever the
  cluster held before, each webhook configuration calls the Service of its workload, the workload
  mounts the TLS Secret, and a TLS client with the configuration's CA bundle that dials the
  Service's DNS name accepts the Secret's certificate and key: from the end of the deployment
  until a year after its start (less a second of rounding), provided the CA was created before
  and at most nine years ago. It is also refused from a year after the end of the deployment on:
  nothing renews the certificates, and as the failure policy is Ignore, pods are then admitted
  without the webhooks.
\<close>

theorem webhooks_trusted_for_a_year:
  assumes "deploy_world hs kl cur retries accepts clock sec sec_env sec_commit sec_retries
      cm cm_env cm_commit cm_retries"
    and "NewCA (tl_crypto hs) cn w0 = (Inr ca, w1)" and "clock w1 \<le> clock w"
    and "clock w \<le> clock w0 + caValidity - serverCertValidity"
    and "deployAgent hs kl opts ca cert ver w = (Inr (), w')" and "secret_ok sec w"
    and "(config, svc, tls) \<in> {(injectorWebhookName, agentName, AgentTLSCertName),
      (podIdentityWebhookName, podIdentityWebhookName, podIdentityWebhookCertSecret)}"
  shows "\<exists>wh crt key ws.
    map_option ko_body (cur w' (KMutatingWebhookConfiguration, [], config)) = Some (MutatingWebhookConfiguration [wh]) \<and>
    (wh_service_namespace wh, wh_service_name wh) = (SystemNamespace, svc) \<and>
    map_option ko_body (cur w' (KSecret, SystemNamespace, tls)) =
      Some (Secret ''kubernetes.io/tls'' [(''tls.crt'', crt), (''tls.key'', key)]) \<and>
    map_option ko_body (cur w' (KDeployment, SystemNamespace, svc)) = Some (Deployment ws) \<and>
    tls \<in> sv_secret ` set (ps_volumes (ws_pod ws)) \<and>
    (\<forall>t. clock w' \<le> t \<longrightarrow> t \<le> clock w + serverCertValidity - 10 ^ 9 \<longrightarrow>
       accepts (wh_ca_bundle wh) crt key (serviceFQDN svc) t) \<and>
    (\<forall>t. clock w' + serverCertValidity < t \<longrightarrow> \<not> accepts (wh_ca_bundle wh) crt key (serviceFQDN svc) t)"
proof -
  from deploy_world.deployed_webhook [OF assms(1,5,6,7)] obtain wh sc ws where
    iss: "issued_for (tl_crypto hs) clock ca svc w w' sc" and cab: "wh_ca_bundle wh = ca_cert_pem ca"
    and rest: "map_option ko_body (cur w' (KMutatingWebhookConfiguration, [], config)) = Some (MutatingWebhookConfiguration [wh])"
      "(wh_service_namespace wh, wh_service_name wh) = (SystemNamespace, svc)"
      "map_option ko_body (cur w' (KSecret, SystemNamespace, tls)) =
        Some (Secret ''kubernetes.io/tls'' [(''tls.crt'', sc_cert_pem sc), (''tls.key'', sc_key_pem sc)])"
      "map_option ko_body (cur w' (KDeployment, SystemNamespace, svc)) = Some (Deployment ws)"
      "tls \<in> sv_secret ` set (ps_volumes (ws_pod ws))" by blast
  from deploy_world.issued_for_window [OF assms(1,2) iss assms(3,4)] rest show ?thesis
    unfolding cab [symmetric] by blast
qed

lemma webhooks_trusted_for_a_year_witness:
  "\<exists>ca w1 w' wh crt key t.
     NewCA site_crypto ''fjord'' empty_site = (Inr ca, w1) \<and>
     deployAgent site_tools (site_kube (\<lambda>_. False)) demo_options ca demo_cert ''1.33'' w1 = (Inr (), w') \<and>
     map_option ko_body (cluster_objects w' (KMutatingWebhookConfiguration, [], injectorWebhookName)) =
       Some (MutatingWebhookConfiguration [wh]) \<and>
     map_option ko_body (cluster_objects w' (KSecret, SystemNamespace, AgentTLSCertName)) =
       Some (Secret ''kubernetes.io/tls'' [(''tls.crt'', crt), (''tls.key'', key)]) \<and>
     \<not> ref_accepts (wh_ca_bundle wh) crt key (serviceFQDN agentName) t"
proof -
  obtain ca where ca: "NewCA site_crypto ''fjord'' empty_site = (Inr ca, empty_site\<lparr>st_clock := 11\<rparr>)"
    by (simp add: NewCA_def newSerialNumber_def site_crypto_def on_clock_def ref_crypto_def empty_site_def Let_def)
  let ?w = "empty_site\<lparr>st_clock := 11\<rparr>"
  have ok: "secret_ok ref_cur ?w" using empty_site_ok by (simp add: secret_ok_def registered_def)
  obtain info where i: "cluster_info_of site_tools (co_name demo_options) ''1.33'' ?w = Inr info"
    using demo_info by blast
  have "deployable ref_admits demo_options ca demo_cert (cluster_objects ?w)"
    by (rule site_deployable) (simp add: empty_site_def)
  from reliable_site.deployAgent_succeeds [OF ok i this] obtain w' where
    run: "deployAgent site_tools (site_kube (\<lambda>_. False)) demo_options ca demo_cert ''1.33'' ?w = (Inr (), w')"
    by blast
  have order: "site_clock ?w \<le> site_clock ?w"
    "site_clock ?w \<le> site_clock empty_site + caValidity - serverCertValidity"
    by (simp_all add: site_clock_def empty_site_def caValidity_def serverCertValidity_def nanos_per_hour_def)
  from webhooks_trusted_for_a_year [OF site.deploy_world_axioms _ order run ok, where cn = "''fjord''" and config = injectorWebhookName and svc = agentName and tls = AgentTLSCertName]
    ca obtain wh crt key where
    "map_option ko_body (cluster_objects w' (KMutatingWebhookConfiguration, [], injectorWebhookName)) =
       Some (MutatingWebhookConfiguration [wh])"
    "map_option ko_body (cluster_objects w' (KSecret, SystemNamespace, AgentTLSCertName)) =
       Some (Secret ''kubernetes.io/tls'' [(''tls.crt'', crt), (''tls.key'', key)])"
    "\<forall>t. site_clock w' + serverCertValidity < t \<longrightarrow> \<not> ref_accepts (wh_ca_bundle wh) crt key (serviceFQDN agentName) t"
    by auto
  moreover from this(3) have "\<not> ref_accepts (wh_ca_bundle wh) crt key (serviceFQDN agentName)
      (site_clock w' + serverCertValidity + 1)" by simp
  ultimately show ?thesis using ca run by blast
qed

end
