(* ===== verification/Agent_Rbac.thy ===== *)
theory Agent_Rbac
  imports Deploy_Agent Facade Tgb_Controller
begin

text \<open>
  What the agent's ClusterRole (\<open>internal/cluster/agent.go\<close>) lets it do, against the requests the
  code of \<open>internal/agent\<close> makes: those of the registries, the webhooks, the access policies and
  the CNP controller as lists of requests, those of the two load balancing controllers by running
  their models with a client the role guards. Authorisation is RBAC's: a request is allowed if
  one rule matches it.
\<close>

section \<open>Requests and rules\<close>

record access =
  ac_group :: string
  ac_resource :: string
  ac_verb :: string
  ac_name :: string

definition any_name :: "string \<Rightarrow> string \<Rightarrow> string \<Rightarrow> access" where
  "any_name grp resource verb = \<lparr>ac_group = grp, ac_resource = resource, ac_verb = verb, ac_name = []\<rparr>"

definition covers :: "string list \<Rightarrow> string \<Rightarrow> bool" where
  "covers xs x \<longleftrightarrow> x \<in> set xs \<or> ''*'' \<in> set xs"

definition rule_allows :: "access \<Rightarrow> policy_rule \<Rightarrow> bool" where
  "rule_allows a r \<longleftrightarrow>
     covers (pr_api_groups r) (ac_group a) \<and> covers (pr_resources r) (ac_resource a) \<and>
     covers (pr_verbs r) (ac_verb a) \<and> (pr_resource_names r = [] \<or> ac_name a \<in> set (pr_resource_names r))"

definition rbac_allows :: "policy_rule list \<Rightarrow> access \<Rightarrow> bool" where
  "rbac_allows rules a \<longleftrightarrow> (\<exists>r \<in> set rules. rule_allows a r)"

section \<open>What the code asks for\<close>

text \<open>An informer lists its resource and then watches it.\<close>

definition informer :: "string \<Rightarrow> string \<Rightarrow> access list" where
  "informer grp resource = [any_name grp resource ''list'', any_name grp resource ''watch'']"

definition registry_accesses :: "access list" where
  "registry_accesses =
     concat (map (\<lambda>resource. map (any_name [] resource) [''get'', ''create'', ''update'']) [''secrets'', ''configmaps''])"

definition webhook_accesses :: "access list" where
  "webhook_accesses =
     [any_name ''authentication.k8s.io'' ''tokenreviews'' ''create'', any_name [] ''serviceaccounts'' ''get'']"

text \<open>Binding a role needs the right to create the binding and the right to bind the role.\<close>

definition binding_accesses :: "string \<Rightarrow> access list" where
  "binding_accesses role =
     (let g = ''rbac.authorization.k8s.io'' in
      [any_name g ''clusterrolebindings'' ''create'', any_name g ''clusterrolebindings'' ''delete'',
       any_name g ''rolebindings'' ''create'', any_name g ''rolebindings'' ''delete'',
       (any_name g ''clusterroles'' ''bind'')\<lparr>ac_name := role\<rparr>])"

definition network_policy_accesses :: "access list" where
  "network_policy_accesses =
     informer [] ''namespaces'' @ informer ''networking.k8s.aws'' ''clusternetworkpolicies'' @
     map (any_name ''networking.k8s.io'' ''networkpolicies'') [''list'', ''create'', ''update'', ''delete'']"

section \<open>The load balancing controllers under a role\<close>

text \<open>
  The informers the controllers create, and the start of their \<open>Run\<close> up to the first reconcile:
  \<open>WaitForCacheSync\<close> returns once every informer has synced, or false when the context is done,
  with an error of the context. Here \<open>syncs\<close> tells which informers ever do.
\<close>

definition tgb_informers :: "(string \<times> string) list" where
  "tgb_informers =
     [(TargetGroupBindingGroup, ''targetgroupbindings''), ([], ''services''),
      (''discovery.k8s.io'', ''endpointslices''), ([], ''nodes'')]"

definition tgb_start ::
  "'w service_client \<Rightarrow> (string \<times> string \<Rightarrow> bool) \<Rightarrow> go_error \<Rightarrow> 'w \<Rightarrow> (go_error + unit) \<times> 'w" where
  "tgb_start c syncs ctx_err w =
     (case garbageCollectLegacyMirrorServices c w of
        ((Inl e, _), w1) \<Rightarrow> (Inl (Wrapf ''garbage collect legacy mirror services: %w'' [] e), w1)
      | ((Inr _, _), w1) \<Rightarrow>
          if \<not> list_all syncs tgb_informers
          then (Inl (Wrapf ''wait for informer cache sync: %w'' [] ctx_err), w1)
          else (Inr (), w1))"

definition lb_informers :: "(string \<times> string) list" where
  "lb_informers = [([], ''services''), ([], ''nodes'')]"

definition lb_start :: "(string \<times> string \<Rightarrow> bool) \<Rightarrow> go_error \<Rightarrow> go_error + unit" where
  "lb_start syncs ctx_err =
     (if \<not> list_all syncs lb_informers
      then Inl (Wrapf ''wait for load balancer controller cache sync: %w'' [] ctx_err)
      else Inr ())"

text \<open>The requests of the two \<open>UpdateStatus\<close> calls.\<close>

definition service_status_update :: access where
  "service_status_update = any_name [] ''services/status'' ''update''"

definition binding_status_update :: access where
  "binding_status_update = any_name TargetGroupBindingGroup ''targetgroupbindings/status'' ''update''"

text \<open>
  The API server's authorisation: a call whose request the rules do not allow is refused and
  changes nothing, and an informer syncs if it may list and watch its resource.
\<close>

definition under_role ::
  "policy_rule list \<Rightarrow> access \<Rightarrow> go_error \<Rightarrow> ('a \<Rightarrow> 'w \<Rightarrow> (go_error + 'b) \<times> 'w)
   \<Rightarrow> 'a \<Rightarrow> 'w \<Rightarrow> (go_error + 'b) \<times> 'w" where
  "under_role rules a refusal call x w = (if rbac_allows rules a then call x w else (Inl refusal, w))"

definition may_inform :: "policy_rule list \<Rightarrow> string \<times> string \<Rightarrow> bool" where
  "may_inform rules i = list_all (rbac_allows rules) (informer (fst i) (snd i))"

section \<open>What the role allows\<close>

lemmas rbac_defs = rbac_allows_def rule_allows_def covers_def any_name_def informer_def agent_rules_def
  baseRules_def clusterNetworkPolicyControllerRules_def targetGroupBindingControllerRules_def rule_def

lemma standard_policies:
  "clusterRoleForPolicy ''AmazonEKSClusterAdminPolicy'' = Some ''cluster-admin''"
  "clusterRoleForPolicy ''AmazonEKSAdminPolicy'' = Some ''admin''"
  "clusterRoleForPolicy ''AmazonEKSEditPolicy'' = Some ''edit''"
  "clusterRoleForPolicy ''AmazonEKSViewPolicy'' = Some ''view''"
  by code_simp+

text \<open>
  C8: the agent's role is what its registries, webhooks and access policies need, and no more than
  that for binding roles. It may read, create and update the registries, review tokens, read
  ServiceAccounts, and do all the CNP controller does; it may create and delete bindings; and the
  roles it may bind are exactly those some access policy stands for, so that a policy can always
  be materialised and no other ClusterRole can be handed out.
\<close>

theorem agent_role_serves_policies:
  "list_all (rbac_allows agent_rules) (registry_accesses @ webhook_accesses @ network_policy_accesses) \<and>
   (list_all (rbac_allows agent_rules) (binding_accesses role) \<longleftrightarrow> (\<exists>arn. clusterRoleForPolicy arn = Some role))"
proof -
  have "list_all (rbac_allows agent_rules) (registry_accesses @ webhook_accesses @ network_policy_accesses)"
    by (simp add: rbac_defs registry_accesses_def webhook_accesses_def network_policy_accesses_def)
  moreover have "list_all (rbac_allows agent_rules) (binding_accesses role) \<longleftrightarrow>
      role \<in> {''cluster-admin'', ''admin'', ''edit'', ''view''}"
    by (auto simp: rbac_defs binding_accesses_def Let_def)
  moreover have "(\<exists>arn. clusterRoleForPolicy arn = Some role) \<longleftrightarrow> role \<in> {''cluster-admin'', ''admin'', ''edit'', ''view''}"
  proof
    assume "\<exists>arn. clusterRoleForPolicy arn = Some role"
    then show "role \<in> {''cluster-admin'', ''admin'', ''edit'', ''view''}"
      by (auto simp: clusterRoleForPolicy_def Let_def split: if_splits)
  next
    assume "role \<in> {''cluster-admin'', ''admin'', ''edit'', ''view''}"
    then show "\<exists>arn. clusterRoleForPolicy arn = Some role" using standard_policies by blast
  qed
  ultimately show ?thesis by blast
qed

lemma refused_requests:
  "\<not> rbac_allows agent_rules service_status_update" "\<not> rbac_allows agent_rules binding_status_update"
  "filter (\<lambda>i. \<not> may_inform agent_rules i) (tgb_informers @ lb_informers) =
     [(''discovery.k8s.io'', ''endpointslices''), ([], ''nodes''), ([], ''nodes'')]"
  by (simp_all add: rbac_defs service_status_update_def binding_status_update_def may_inform_def tgb_informers_def
      lb_informers_def TargetGroupBindingGroup_def)

lemma refused_reconcile_services:
  assumes "\<And>s v. us s v = (Inl refusal, v)"
  shows "reconcile_services us svcs desired w =
    (((case find claimable svcs of
         Some s \<Rightarrow> if desired = [] then Inr ()
           else Inl (Wrapf ''update load balancer status %s/%s: %w'' [svc_namespace s, svc_name s] refusal)
       | None \<Rightarrow> Inr ()), []), w)"
proof (induction svcs)
  case (Cons s svcs)
  show ?case
  proof (cases "claimable s \<and> desired \<noteq> []")
    case True
    then show ?thesis by (simp add: reconcileService_claims assms)
  next
    case False
    with Cons show ?thesis by (auto simp: reconcileService_untouched split: option.splits)
  qed
qed simp

lemma refused_tgb_reconcile:
  assumes "\<And>u v. update u v = (Inl refusal, v)"
  shows "snd (tgb_reconcile cv ls update key w) = w"
proof -
  have "snd (updateStatus cv update u g targets ty w) = w" for u g targets ty
    by (simp add: updateStatus_def Let_def assms split: sum.splits)
  then have "snd (reconcile_found cv ls update key ns u tgb w) = w" for ns u tgb
    by (simp add: reconcile_found_def Let_def split: sum.splits prod.splits) (metis snd_conv)
  then show ?thesis
    by (simp add: tgb_reconcile_def Let_def split: sum.splits prod.splits option.splits cache_item.splits) (metis snd_conv)
qed

text \<open>
  C9: neither load balancing controller works under the agent's role. Of the informers they wait
  for, the role refuses exactly those of the EndpointSlices and the Nodes, so \<open>Run\<close> of neither
  gets to its first reconcile: it ends with the context. And their only writes, the status
  updates, are refused too. A pass of the LoadBalancer controller over any caches claims no
  Service and changes nothing, and fails at the first claimable Service as soon as some node has
  an address; a reconcile of the TargetGroupBinding controller changes nothing either.
\<close>

theorem agent_role_stops_load_balancing:
  assumes "listNodes node_items = Inr nodes" and "listServices svc_items = Inr svcs"
  shows "filter (\<lambda>i. \<not> may_inform agent_rules i) (tgb_informers @ lb_informers) =
      [(''discovery.k8s.io'', ''endpointslices''), ([], ''nodes''), ([], ''nodes'')] \<and>
    fst (tgb_start c (may_inform agent_rules) ctx_err v) \<noteq> Inr () \<and>
    lb_start (may_inform agent_rules) ctx_err \<noteq> Inr () \<and>
    lb_reconcile (under_role agent_rules service_status_update refusal us) node_items svc_items w =
      (((case find (\<lambda>s. svc_type s = ServiceTypeLoadBalancer \<and> svc_class s = None \<and> svc_ingress s = []) svcs of
           Some s \<Rightarrow> if desiredIngress nodes = [] then Inr ()
             else Inl (Wrapf ''update load balancer status %s/%s: %w'' [svc_namespace s, svc_name s] refusal)
         | None \<Rightarrow> Inr ()), []), w) \<and>
    snd (tgb_reconcile cv ls (under_role agent_rules binding_status_update refusal update) key x) = x"
proof -
  note refused = refused_requests
  have us: "under_role agent_rules service_status_update refusal us s v = (Inl refusal, v)" for s v
    by (simp add: under_role_def refused(1))
  have up: "under_role agent_rules binding_status_update refusal update u v = (Inl refusal, v)" for u v
    by (simp add: under_role_def refused(2))
  have "\<not> list_all (may_inform agent_rules) tgb_informers" "\<not> list_all (may_inform agent_rules) lb_informers"
    by (simp_all add: rbac_defs may_inform_def tgb_informers_def lb_informers_def)
  then have "fst (tgb_start c (may_inform agent_rules) ctx_err v) \<noteq> Inr ()"
    "lb_start (may_inform agent_rules) ctx_err \<noteq> Inr ()"
    by (simp_all add: tgb_start_def lb_start_def split: prod.split sum.split)
  moreover have "lb_reconcile (under_role agent_rules service_status_update refusal us) node_items svc_items w =
      (((case find claimable svcs of
           Some s \<Rightarrow> if desiredIngress nodes = [] then Inr ()
             else Inl (Wrapf ''update load balancer status %s/%s: %w'' [svc_namespace s, svc_name s] refusal)
         | None \<Rightarrow> Inr ()), []), w)"
    using assms by (simp add: lb_reconcile_def Let_def refused_reconcile_services [OF us])
  ultimately show ?thesis
    using refused(3) refused_tgb_reconcile [where update = "under_role agent_rules binding_status_update refusal update"
        and cv = cv and ls = ls and key = key and w = x, OF up]
    unfolding claimable_def [abs_def] by blast
qed

text \<open>The pass that claims a Service with full rights fails on it under the role.\<close>

theorem agent_role_stops_load_balancing_witness:
  "lb_reconcile (under_role agent_rules service_status_update (ApiError (OtherReason ''Forbidden'')) ref_update_status)
     [Expected (lb_node ''n'' ''10.0.0.1'')] lb_caches lb_world =
   ((Inl (Wrapf ''update load balancer status %s/%s: %w'' [''app'', ''web''] (ApiError (OtherReason ''Forbidden''))), []), lb_world) \<and>
   fst (fst (lb_reconcile ref_update_status [Expected (lb_node ''n'' ''10.0.0.1'')] lb_caches lb_world)) = Inr ()"
proof -
  have nodes: "listNodes [Expected (lb_node ''n'' ''10.0.0.1'')] = Inr [lb_node ''n'' ''10.0.0.1'']"
    by (simp add: listNodes_def)
  have "desiredIngress [lb_node ''n'' ''10.0.0.1''] \<noteq> []" by code_simp
  moreover have "fst (fst (lb_reconcile ref_update_status [Expected (lb_node ''n'' ''10.0.0.1'')] lb_caches lb_world)) = Inr ()"
    by code_simp
  moreover have "find (\<lambda>s. svc_type s = ServiceTypeLoadBalancer \<and> svc_class s = None \<and> svc_ingress s = [])
      [lb_service ''web'' None, lb_service ''nlb'' (Some ''eks.amazonaws.com/nlb'')] = Some (lb_service ''web'' None)"
    and "svc_namespace (lb_service ''web'' None) = ''app''" "svc_name (lb_service ''web'' None) = ''web''"
    by (simp_all add: lb_service_def)
  note agent_role_stops_load_balancing [OF nodes lb_caches_list, where refusal = "ApiError (OtherReason ''Forbidden'')"
        and us = ref_update_status and w = lb_world, THEN conjunct2, THEN conjunct2, THEN conjunct2, THEN conjunct1,
        unfolded this option.case]
  ultimately show ?thesis by (simp only: if_False simp_thms)
qed

end
