(* ===== verification/Storage_Class.thy ===== *)
theory Storage_Class
  imports Cluster_Api
begin

text \<open>
  The StorageClasses of a new cluster (\<open>internal/cluster/storageclass.go\<close>): every class that is
  marked as the default is demoted, except \<open>gp2\<close>, then \<open>gp2\<close> and \<open>gp3\<close> are created if absent.
\<close>

definition defaultClassAnnotation :: string where
  "defaultClassAnnotation = ''storageclass.kubernetes.io/is-default-class''"

definition defaultClassValue :: string where
  "defaultClassValue = ''true''"

definition localPathProvisioner :: string where
  "localPathProvisioner = ''rancher.io/local-path''"

text \<open>Reading a nil map gives the empty string.\<close>

definition annotation :: "string \<Rightarrow> kube_object \<Rightarrow> string" where
  "annotation key ob =
     (case ko_annotations ob of
        None \<Rightarrow> []
      | Some m \<Rightarrow> (case map_of m key of None \<Rightarrow> [] | Some v \<Rightarrow> v))"

definition demoted :: "kube_object \<Rightarrow> kube_object" where
  "demoted ob =
     ob\<lparr>ko_annotations := map_option (map_set defaultClassAnnotation ''false'') (ko_annotations ob)\<rparr>"

fun demote_classes :: "'w cluster_client \<Rightarrow> kube_object list \<Rightarrow> 'w \<Rightarrow> (go_error + unit) \<times> 'w" where
  "demote_classes c [] w = (Inr (), w)"
| "demote_classes c (sc # scs) w =
     (if ko_name sc = ''gp2'' \<or> annotation defaultClassAnnotation sc \<noteq> defaultClassValue
      then demote_classes c scs w
      else
        (case cl_update c (demoted sc) w of
           (Inl e, w1) \<Rightarrow> (Inl (Wrapf ''demote %q storage class: %w'' [ko_name sc] e), w1)
         | (Inr _, w1) \<Rightarrow> demote_classes c scs w1))"

definition demoteDefaultClasses :: "'w cluster_client \<Rightarrow> 'w \<Rightarrow> (go_error + unit) \<times> 'w" where
  "demoteDefaultClasses c w =
     (case cl_list c KStorageClass w of
        (Inl e, w1) \<Rightarrow> (Inl (Wrapf ''list storage classes: %w'' [] e), w1)
      | (Inr classes, w1) \<Rightarrow> demote_classes c classes w1)"

definition storage_class :: "string \<Rightarrow> bool \<Rightarrow> kube_object" where
  "storage_class name isDefault =
     (new_object [] name (StorageClass localPathProvisioner (Some ''WaitForFirstConsumer'')))
       \<lparr>ko_annotations := (if isDefault then Some [(defaultClassAnnotation, defaultClassValue)] else None)\<rparr>"

definition createStorageClass ::
  "'w cluster_client \<Rightarrow> string \<Rightarrow> bool \<Rightarrow> 'w \<Rightarrow> (go_error + unit) \<times> 'w" where
  "createStorageClass c name isDefault = create_if_absent c ''storage class'' (storage_class name isDefault)"

definition EnsureDefaultStorageClass :: "'w cluster_client \<Rightarrow> 'w \<Rightarrow> (go_error + unit) \<times> 'w" where
  "EnsureDefaultStorageClass c =
     and_then (demoteDefaultClasses c)
    (and_then (createStorageClass c ''gp2'' True)
              (createStorageClass c ''gp3'' False))"

section \<open>What it makes of the cluster\<close>

definition is_default :: "kube_object \<Rightarrow> bool" where
  "is_default ob \<longleftrightarrow> annotation defaultClassAnnotation ob = defaultClassValue"

definition class_id :: "string \<Rightarrow> object_id" where
  "class_id name = (KStorageClass, [], name)"

text \<open>The demotion of one object, and of a cluster's classes.\<close>

definition demote_one :: "kube_object \<Rightarrow> kube_object" where
  "demote_one ob = (if ko_name ob \<noteq> ''gp2'' \<and> is_default ob then demoted ob else ob)"

definition demote_all :: "(object_id \<rightharpoonup> kube_object) \<Rightarrow> object_id \<rightharpoonup> kube_object" where
  "demote_all m k = (if fst k = KStorageClass then map_option demote_one (m k) else m k)"

lemma object_id_annotations [simp]: "object_id (ob\<lparr>ko_annotations := x\<rparr>) = object_id ob"
  by (simp add: object_id_def)

lemma demoted_simps [simp]: "object_id (demoted ob) = object_id ob" "ko_rv (demoted ob) = ko_rv ob"
  "content (demoted ob) = demoted (content ob)"
  by (simp_all add: demoted_def content_def)

lemma annotation_content [simp]: "annotation key (content ob) = annotation key ob"
  by (simp add: annotation_def content_def)

lemma content_name [simp]: "ko_name (content ob) = ko_name ob"
  by (simp add: content_def)

lemma demote_one_content: "content (demote_one ob) = demote_one (content ob)"
  by (simp add: demote_one_def is_default_def)

lemma demote_one_not_default: "ko_name ob \<noteq> ''gp2'' \<Longrightarrow> \<not> is_default (demote_one ob)"
  by (auto simp: demote_one_def is_default_def annotation_def demoted_def defaultClassValue_def
      split: option.splits)

lemma demote_one_gp2: "ko_name ob = ''gp2'' \<Longrightarrow> demote_one ob = ob"
  by (simp add: demote_one_def)

lemma demote_one_default: "is_default (demote_one ob) \<longleftrightarrow> ko_name ob = ''gp2'' \<and> is_default ob"
  by (cases "ko_name ob = ''gp2''") (simp_all add: demote_one_not_default demote_one_gp2)

context cluster_api begin

lemma demote_classes_works:
  "demote_classes c scs w = (Inr (), w') \<Longrightarrow> distinct (map object_id scs) \<Longrightarrow>
   (\<forall>sc \<in> set scs. cur w (object_id sc) = Some sc) \<Longrightarrow>
   contents (cur w') k =
     (if k \<in> object_id ` set scs then map_option demote_one (contents (cur w) k) else contents (cur w) k)"
proof (induction scs arbitrary: w)
  case (Cons sc scs)
  show ?case
  proof (cases "ko_name sc = ''gp2'' \<or> annotation defaultClassAnnotation sc \<noteq> defaultClassValue")
    case True
    with Cons.prems have "demote_classes c scs w = (Inr (), w')" by simp
    moreover have "demote_one (content sc) = content sc" using True by (auto simp: demote_one_def is_default_def)
    ultimately show ?thesis using Cons.IH [of w] Cons.prems(2,3) by (auto simp: contents_def)
  next
    case False
    with Cons.prems(1) obtain sc' w1 where upd: "cl_update c (demoted sc) w = (Inr sc', w1)"
      and rest: "demote_classes c scs w1 = (Inr (), w')"
      by (auto split: prod.splits sum.splits)
    from update_works [OF upd] have cur1: "cur w1 = (cur w)(object_id sc \<mapsto> sc')"
      and sc': "content sc' = demoted (content sc)" by simp_all
    have "\<forall>x \<in> set scs. cur w1 (object_id x) = Some x"
      using Cons.prems(2,3) cur1 by (auto simp: image_iff)
    from Cons.IH [OF rest _ this] Cons.prems(2) have
      "contents (cur w') k = (if k \<in> object_id ` set scs then map_option demote_one (contents (cur w1) k)
         else contents (cur w1) k)" by simp
    moreover have "demote_one (content sc) = demoted (content sc)"
      using False by (simp add: demote_one_def is_default_def)
    ultimately show ?thesis
      using Cons.prems(2,3) sc' unfolding cur1
      by (auto simp: contents_def)
  qed
qed simp

lemma demoteDefaultClasses_works:
  assumes "demoteDefaultClasses c w = (Inr (), w')"
  shows "contents (cur w') = demote_all (contents (cur w))"
proof
  fix k
  from assms obtain scs w1 where l: "cl_list c KStorageClass w = (Inr scs, w1)"
    and d: "demote_classes c scs w1 = (Inr (), w')"
    by (auto simp: demoteDefaultClasses_def split: prod.splits sum.splits)
  from list_works [OF l] have w1: "cur w1 = cur w" "distinct (map object_id scs)"
    and mem: "\<And>ob. ob \<in> set scs \<longleftrightarrow> fst (object_id ob) = KStorageClass \<and> cur w (object_id ob) = Some ob"
    by blast+
  have ids: "k \<in> object_id ` set scs \<longleftrightarrow> fst k = KStorageClass \<and> cur w k \<noteq> None"
  proof
    assume "k \<in> object_id ` set scs"
    then show "fst k = KStorageClass \<and> cur w k \<noteq> None" using mem by auto
  next
    assume "fst k = KStorageClass \<and> cur w k \<noteq> None"
    then obtain ob where "cur w k = Some ob" "object_id ob = k" "fst k = KStorageClass" using cur_id by blast
    with mem [of ob] show "k \<in> object_id ` set scs" by blast
  qed
  have "contents (cur w') k = (if k \<in> object_id ` set scs then map_option demote_one (contents (cur w1) k)
      else contents (cur w1) k)"
    using w1 mem by (intro demote_classes_works [OF d]) auto
  then show "contents (cur w') k = demote_all (contents (cur w)) k"
    unfolding w1(1) ids demote_all_def by (auto simp: contents_def)
qed

text \<open>The whole of it, on the contents of the cluster.\<close>

lemma EnsureDefaultStorageClass_works:
  assumes "EnsureDefaultStorageClass c w = (Inr (), w')"
  shows "contents (cur w') =
    apply_steps [CreateIfAbsent ''storage class'' (storage_class ''gp2'' True),
      CreateIfAbsent ''storage class'' (storage_class ''gp3'' False)] (demote_all (contents (cur w)))"
proof -
  from assms obtain w1 w2 where d: "demoteDefaultClasses c w = (Inr (), w1)"
    and g2: "run_step c (CreateIfAbsent ''storage class'' (storage_class ''gp2'' True)) w1 = (Inr (), w2)"
    and g3: "run_step c (CreateIfAbsent ''storage class'' (storage_class ''gp3'' False)) w2 = (Inr (), w')"
    by (auto simp: EnsureDefaultStorageClass_def createStorageClass_def and_then_def split: prod.splits sum.splits)
  show ?thesis
    using run_step_works [OF g2] run_step_works [OF g3] demoteDefaultClasses_works [OF d] by simp
qed

end

text \<open>The classes that are the default, of a cluster's contents.\<close>

definition default_classes :: "(object_id \<rightharpoonup> kube_object) \<Rightarrow> string set" where
  "default_classes m = {name. \<exists>ob. m (class_id name) = Some ob \<and> is_default ob}"

lemma storage_class_simps [simp]:
  "object_id (storage_class name d) = class_id name" "is_default (storage_class name d) \<longleftrightarrow> d"
  "is_default (content ob) \<longleftrightarrow> is_default ob"
  by (simp_all add: storage_class_def class_id_def is_default_def)
    (simp add: annotation_def defaultClassValue_def)

lemma demote_all_default:
  assumes "\<And>k ob. m k = Some ob \<Longrightarrow> object_id ob = k"
  shows "default_classes (demote_all m) = default_classes m \<inter> {''gp2''}"
proof -
  have name: "ko_name ob = name" if "m (class_id name) = Some ob" for ob name
    using assms [OF that] by (simp add: class_id_def object_id_def)
  have "(\<exists>ob. demote_all m (class_id name) = Some ob \<and> is_default ob) \<longleftrightarrow>
      name = ''gp2'' \<and> (\<exists>ob. m (class_id name) = Some ob \<and> is_default ob)" for name
    using name [of name] by (auto simp: demote_all_def class_id_def demote_one_default)
  then show ?thesis by (auto simp: default_classes_def)
qed

text \<open>
  C24: the default StorageClass of a new cluster is \<open>gp2\<close> and no other. After a successful
  \<open>EnsureDefaultStorageClass\<close>, from any cluster, \<open>gp2\<close> and \<open>gp3\<close> exist, every class keeps its
  provisioner and its other annotations, no other object changes, and the classes marked as
  default are just \<open>gp2\<close>, if there was no class of that name or it was already marked. A class
  \<open>gp2\<close> that exists without the mark stays as it is: then every other default is taken away and
  the cluster has none.
\<close>

theorem default_class_is_gp2:
  assumes "cluster_api c cur retries" and "EnsureDefaultStorageClass c w = (Inr (), w')"
  shows "default_classes (contents (cur w')) =
      (if contents (cur w) (class_id ''gp2'') = None \<or> ''gp2'' \<in> default_classes (contents (cur w))
       then {''gp2''} else {}) \<and>
    (\<forall>name \<in> {''gp2'', ''gp3''}. cur w' (class_id name) \<noteq> None) \<and>
    (\<forall>k ob. contents (cur w) k = Some ob \<longrightarrow>
       (\<exists>ob'. contents (cur w') k = Some ob' \<and> ko_body ob' = ko_body ob \<and>
          (\<forall>key. key \<noteq> defaultClassAnnotation \<longrightarrow> annotation key ob' = annotation key ob) \<and>
          (fst k \<noteq> KStorageClass \<longrightarrow> ob' = ob))) \<and>
    (\<forall>k. contents (cur w) k = None \<longrightarrow> k \<notin> {class_id ''gp2'', class_id ''gp3''} \<longrightarrow> contents (cur w') k = None)"
proof -
  let ?m = "contents (cur w)" and ?m' = "contents (cur w')"
  have ids: "object_id ob = k" if "?m k = Some ob" for k ob
  proof -
    from that obtain z where "cur w k = Some z" "ob = content z" by (auto simp: contents_def)
    with cluster_api.cur_id [OF assms(1) this(1)] show ?thesis by simp
  qed
  note works = cluster_api.EnsureDefaultStorageClass_works [OF assms]
  have at: "?m' k = (case demote_all ?m k of
      Some ob \<Rightarrow> Some ob
    | None \<Rightarrow> if k = class_id ''gp2'' then Some (content (storage_class ''gp2'' True))
        else if k = class_id ''gp3'' then Some (content (storage_class ''gp3'' False)) else None)" for k
    unfolding works by (auto simp: class_id_def split: option.splits)
  have none: "demote_all ?m k = None \<longleftrightarrow> ?m k = None" for k by (simp add: demote_all_def)
  have kept: "\<exists>ob'. ?m' k = Some ob' \<and> ko_body ob' = ko_body ob \<and>
      (\<forall>key. key \<noteq> defaultClassAnnotation \<longrightarrow> annotation key ob' = annotation key ob) \<and>
      (fst k \<noteq> KStorageClass \<longrightarrow> ob' = ob)" if "?m k = Some ob" for k ob
  proof -
    have "annotation key (demote_one ob) = annotation key ob" if "key \<noteq> defaultClassAnnotation" for key
      using that by (auto simp: demote_one_def annotation_def demoted_def split: option.splits)
    moreover have "ko_body (demote_one ob) = ko_body ob" by (simp add: demote_one_def demoted_def)
    ultimately show ?thesis using that by (auto simp: at demote_all_def)
  qed
  have mark: "default_classes ?m' = (if ?m (class_id ''gp2'') = None \<or> ''gp2'' \<in> default_classes ?m
      then {''gp2''} else {})"
  proof -
    have "name \<in> default_classes ?m' \<longleftrightarrow>
        name \<in> default_classes (demote_all ?m) \<or> name = ''gp2'' \<and> ?m (class_id ''gp2'') = None" for name
    proof (cases "demote_all ?m (class_id name)")
      case None
      with at [of "class_id name"] have
        "?m' (class_id name) = (if name = ''gp2'' then Some (content (storage_class ''gp2'' True))
           else if name = ''gp3'' then Some (content (storage_class ''gp3'' False)) else None)"
        by (simp add: class_id_def)
      with None none [of "class_id name"] show ?thesis by (auto simp: default_classes_def split: if_splits)
    next
      case (Some ob)
      with at [of "class_id name"] have "?m' (class_id name) = Some ob" by simp
      with Some none [of "class_id name"] show ?thesis by (auto simp: default_classes_def)
    qed
    then have "default_classes ?m' =
        default_classes (demote_all ?m) \<union> (if ?m (class_id ''gp2'') = None then {''gp2''} else {})"
      by (intro set_eqI, cases "?m (class_id ''gp2'') = None") auto
    moreover have "default_classes (demote_all ?m) = default_classes ?m \<inter> {''gp2''}"
      by (rule demote_all_default) (rule ids)
    ultimately show ?thesis by (simp only: split: if_split) blast
  qed
  have "contents (cur w') (class_id name) \<noteq> None" if "name \<in> {''gp2'', ''gp3''}" for name
    using that at [of "class_id name"] by (auto simp: class_id_def split: option.splits)
  then have "cur w' (class_id name) \<noteq> None" if "name \<in> {''gp2'', ''gp3''}" for name
    using that by simp
  moreover have "?m' k = None" if "?m k = None" "k \<notin> {class_id ''gp2'', class_id ''gp3''}" for k
    using that none [of k] by (simp add: at)
  ultimately show ?thesis using mark kept by (intro conjI ballI allI impI) simp_all
qed

text \<open>A cluster as rask leaves it: its own class is the default.\<close>

definition rask_cluster :: cluster_state where
  "rask_cluster =
     \<lparr>rw_objects = Map.empty, rw_foreign = [], cs_calls = 1,
      cs_objects = [(new_object [] ''local-path'' (StorageClass localPathProvisioner None))
        \<lparr>ko_rv := 1, ko_annotations := Some [(defaultClassAnnotation, defaultClassValue)]\<rparr>]\<rparr>"

lemma default_class_is_gp2_witness:
  "\<exists>w'. EnsureDefaultStorageClass (ref_cluster (\<lambda>_. False)) rask_cluster = (Inr (), w') \<and>
     default_classes (contents (cluster_objects w')) = {''gp2''}"
proof -
  have run: "\<exists>w'. EnsureDefaultStorageClass (ref_cluster (\<lambda>_. False)) rask_cluster = (Inr (), w')"
    by (simp add: EnsureDefaultStorageClass_def demoteDefaultClasses_def createStorageClass_def create_if_absent_def
        and_then_def ref_cluster_def ref_refuses_def live_objects_def rask_cluster_def cluster_objects_def tick_def object_id_def new_object_def
        annotation_def defaultClassValue_def demoted_def storage_class_def map_set_def Let_def)
  have "contents (cluster_objects rask_cluster) (class_id ''gp2'') = None"
    by (simp add: cluster_objects_def rask_cluster_def object_id_def new_object_def class_id_def)
  with run default_class_is_gp2 [OF ref_cluster.cluster_api_axioms] show ?thesis by metis
qed

end
