(* ===== verification/Manifest_Apply.thy ===== *)
theory Manifest_Apply
  imports Go_Json File_System
begin

text \<open>
  Manifests of third parties, applied through the dynamic client (\<open>internal/cluster/dynamicapply.go\<close>),
  and the two embedded ones (\<open>clusternetworkpolicy.go\<close>, \<open>networkpolicyenforcer.go\<close>). The API
  machinery reads the metadata of an unstructured object, resolves kinds to resources and applies
  a JSON merge patch, whose meaning (RFC 7386) is written out for the locale \<open>dynamic_cluster\<close>.
\<close>

section \<open>JSON merge patch\<close>

fun merge_value :: "json \<Rightarrow> json option \<Rightarrow> json"
  and merge_members :: "(string \<times> json) list \<Rightarrow> (string, json) go_map \<Rightarrow> (string, json) go_map" where
  "merge_value (JObj patch) target =
     JObj (merge_members patch (case target of Some (JObj kvs) \<Rightarrow> kvs | _ \<Rightarrow> []))"
| "merge_value v target = v"
| "merge_members [] kvs = kvs"
| "merge_members ((k, v) # patch) kvs =
     merge_members patch
       (if v = JNull then map_delete k kvs else map_set k (merge_value v (map_of kvs k)) kvs)"

text \<open>Objects have each member once.\<close>

fun json_wf :: "json \<Rightarrow> bool" where
  "json_wf (JObj kvs) \<longleftrightarrow> map_wf kvs \<and> (\<forall>kv \<in> set kvs. json_wf (snd kv))"
| "json_wf v \<longleftrightarrow> True"

text \<open>A value has what a patch declares: its members, and none of those the patch makes null.\<close>

fun declares :: "json \<Rightarrow> json \<Rightarrow> bool" where
  "declares (JObj patch) j \<longleftrightarrow>
     (case j of
        JObj kvs \<Rightarrow>
          (\<forall>kv \<in> set patch.
             if snd kv = JNull then map_of kvs (fst kv) = None
             else (case map_of kvs (fst kv) of None \<Rightarrow> False | Some x \<Rightarrow> declares (snd kv) x))
      | _ \<Rightarrow> False)"
| "declares v j \<longleftrightarrow> j = v"

text \<open>A path that ends inside what a patch declares, and what a value holds at a path.\<close>

fun touches :: "json \<Rightarrow> string list \<Rightarrow> bool" where
  "touches (JObj patch) [] = True"
| "touches (JObj patch) (k # ks) = (case map_of patch k of None \<Rightarrow> False | Some v \<Rightarrow> touches v ks)"
| "touches v ks = True"

fun at_path :: "string list \<Rightarrow> json \<Rightarrow> json option" where
  "at_path [] j = Some j"
| "at_path (k # ks) (JObj kvs) = (case map_of kvs k of None \<Rightarrow> None | Some v \<Rightarrow> at_path ks v)"
| "at_path (k # ks) v = None"

lemma json_wf_object: "json_wf (JObj kvs) \<longleftrightarrow> map_wf kvs \<and> (\<forall>k v. map_of kvs k = Some v \<longrightarrow> json_wf v)"
proof -
  have "(\<forall>kv \<in> set kvs. json_wf (snd kv)) \<longleftrightarrow> (\<forall>k v. (k, v) \<in> set kvs \<longrightarrow> json_wf v)" by force
  then show ?thesis by (auto simp: map_wf_mem_iff)
qed

declare json_wf.simps(1) [simp del]

lemma merge_members_other: "k \<notin> fst ` set patch \<Longrightarrow> map_of (merge_members patch kvs) k = map_of kvs k"
  by (induction patch arbitrary: kvs) (auto split: if_splits)

lemma merge_members_at:
  "map_wf patch \<Longrightarrow> (k, v) \<in> set patch \<Longrightarrow>
   map_of (merge_members patch kvs) k = (if v = JNull then None else Some (merge_value v (map_of kvs k)))"
proof (induction patch arbitrary: kvs)
  case (Cons kv patch)
  obtain k' v' where kv: "kv = (k', v')" by (cases kv)
  from Cons.prems(1) have wf: "map_wf patch" and new: "k' \<notin> fst ` set patch" by (auto simp: kv map_wf_def)
  show ?case
  proof (cases "(k, v) = (k', v')")
    case True
    with new show ?thesis by (simp add: kv merge_members_other)
  next
    case False
    with Cons.prems(2) kv have mem: "(k, v) \<in> set patch" by auto
    with new have "k \<noteq> k'" by force
    with Cons.IH [OF wf mem] show ?thesis by (simp add: kv)
  qed
qed simp

lemma declares_merge: "json_wf p \<Longrightarrow> declares p (merge_value p t)"
proof (induction p arbitrary: t)
  case (JObj patch)
  let ?kvs = "case t of Some (JObj kvs) \<Rightarrow> kvs | _ \<Rightarrow> []"
  from JObj.prems have wf: "map_wf patch" and sub: "(k, v) \<in> set patch \<Longrightarrow> json_wf v" for k v
    by (auto simp: json_wf_object map_wf_mem_iff)
  have "if v = JNull then map_of (merge_members patch ?kvs) k = None
      else (case map_of (merge_members patch ?kvs) k of None \<Rightarrow> False | Some x \<Rightarrow> declares v x)"
    if "(k, v) \<in> set patch" for k v
    using merge_members_at [OF wf that, of ?kvs] JObj.IH [OF that, of v] sub [OF that] by simp
  then show ?case by auto
qed simp_all

lemma map_set_same: "map_of m k = Some v \<Longrightarrow> map_set k v m = m"
  by (induction m) (auto simp: map_set_def split: if_splits)

lemma map_delete_absent: "map_of m k = None \<Longrightarrow> map_delete k m = m"
  by (induction m) (auto simp: map_delete_def split: if_splits)

text \<open>A patch changes nothing where everything it declares is the case.\<close>

lemma merge_declared: "json_wf t \<Longrightarrow> declares p t \<Longrightarrow> merge_value p (Some t) = t"
proof (induction p arbitrary: t)
  case (JObj patch)
  then obtain kvs where t: "t = JObj kvs" by (cases t) auto
  have "merge_members ps kvs = kvs" if "set ps \<subseteq> set patch" for ps
    using that
  proof (induction ps)
    case (Cons kv ps)
    obtain k v where kv: "kv = (k, v)" by (cases kv)
    from Cons.prems kv have mem: "(k, v) \<in> set patch" by simp
    with JObj.prems(2) t have dec: "if v = JNull then map_of kvs k = None
        else (\<exists>x. map_of kvs k = Some x \<and> declares v x)"
      by (fastforce split: option.splits)
    have "json_wf x" if "map_of kvs k = Some x" for x
      using JObj.prems(1) that by (simp add: t json_wf_object)
    with dec JObj.IH [OF mem, of v] have
      "(if v = JNull then map_delete k kvs else map_set k (merge_value v (map_of kvs k)) kvs) = kvs"
      by (auto simp: map_delete_absent map_set_same)
    with Cons kv show ?case by simp
  qed simp
  then show ?case by (simp add: t)
qed simp_all

text \<open>What a patch does not touch stays.\<close>

lemma merge_untouched:
  "json_wf p \<Longrightarrow> \<not> touches p path \<Longrightarrow>
   at_path path (merge_value p t) = (case t of None \<Rightarrow> None | Some j \<Rightarrow> at_path path j)"
proof (induction p path arbitrary: t rule: touches.induct)
  case (2 patch k ks)
  define kvs where "kvs = (case t of Some (JObj kvs) \<Rightarrow> kvs | _ \<Rightarrow> [])"
  have old: "(case t of None \<Rightarrow> None | Some j \<Rightarrow> at_path (k # ks) j) =
      (case map_of kvs k of None \<Rightarrow> None | Some v \<Rightarrow> at_path ks v)"
    by (cases "(k # ks, t)" rule: prod.exhaust) (auto simp: kvs_def split: option.splits json.splits)
  show ?case
  proof (cases "map_of patch k")
    case None
    then have "k \<notin> fst ` set patch" by (simp add: map_of_eq_None_iff)
    then show ?thesis unfolding old by (simp add: kvs_def [symmetric] merge_members_other)
  next
    case (Some v)
    then have mem: "(k, v) \<in> set patch" by (rule map_of_SomeD)
    from 2(3) Some have v: "\<not> touches v ks" by simp
    with 2(2) Some have wf: "json_wf v" "map_wf patch" by (simp_all add: json_wf_object)
    from v have "v \<noteq> JNull" by (cases ks) auto
    with merge_members_at [OF wf(2) mem, of kvs] 2(1) [OF Some wf(1) v, of "map_of kvs k"]
    show ?thesis unfolding old by (simp add: kvs_def [symmetric])
  qed
qed auto

lemma json_wf_merge: "json_wf p \<Longrightarrow> (\<And>j. t = Some j \<Longrightarrow> json_wf j) \<Longrightarrow> json_wf (merge_value p t)"
proof (induction p arbitrary: t)
  case (JObj patch)
  let ?kvs = "case t of Some (JObj kvs) \<Rightarrow> kvs | _ \<Rightarrow> []"
  have sub: "(k, v) \<in> set patch \<Longrightarrow> json_wf v" for k v
    using JObj.prems(1) by (auto simp: json_wf_object map_wf_mem_iff)
  have wf: "json_wf (JObj (merge_members ps kvs))" if "set ps \<subseteq> set patch" "json_wf (JObj kvs)" for ps kvs
    using that
  proof (induction ps arbitrary: kvs)
    case (Cons kv ps)
    obtain k v where kv: "kv = (k, v)" by (cases kv)
    from Cons.prems kv have mem: "(k, v) \<in> set patch" by simp
    have "json_wf (merge_value v (map_of kvs k))"
      using JObj.IH [OF mem, of v "map_of kvs k"] sub [OF mem] Cons.prems(2) by (simp add: json_wf_object)
    then have "json_wf (JObj (if v = JNull then map_delete k kvs else map_set k (merge_value v (map_of kvs k)) kvs))"
      using Cons.prems(2) unfolding json_wf_object by (auto split: if_splits)
    with Cons.IH Cons.prems(1) show ?case by (simp add: kv)
  qed simp
  have "json_wf (JObj ?kvs)" using JObj.prems(2) by (auto simp: json_wf_object split: option.splits json.splits)
  with wf [of patch ?kvs] show ?case by simp
qed simp_all

declare merge_value.simps [simp del] declares.simps [simp del]

section \<open>Applying\<close>

text \<open>An unstructured object: the metadata the code asks for, and its document.\<close>

type_synonym group_version_kind = "string \<times> string \<times> string"

record unstructured =
  un_gvk :: group_version_kind
  un_namespace :: string
  un_name :: string
  un_object :: "(string \<times> json) list"

record rest_mapping =
  rm_resource :: string
  rm_namespaced :: bool

type_synonym rest_mapper = "group_version_kind \<Rightarrow> go_error + rest_mapping"

text \<open>A collection of objects: a resource, in a namespace if it is scoped to one.\<close>

type_synonym collection = "string \<times> string option"

record 'w dynamic_client =
  dy_resources :: "'w \<Rightarrow> (go_error + rest_mapper) \<times> 'w"
  dy_get :: "collection \<Rightarrow> string \<Rightarrow> 'w \<Rightarrow> (go_error + json) \<times> 'w"
  dy_create :: "collection \<Rightarrow> unstructured \<Rightarrow> 'w \<Rightarrow> (go_error + unit) \<times> 'w"
  dy_patch :: "collection \<Rightarrow> string \<Rightarrow> json \<Rightarrow> 'w \<Rightarrow> (go_error + unit) \<times> 'w"
  dy_marshal :: "unstructured \<Rightarrow> go_error + json"

definition kind_of_object :: "unstructured \<Rightarrow> string" where
  "kind_of_object obj = snd (snd (un_gvk obj))"

definition newRESTMapper :: "'w dynamic_client \<Rightarrow> 'w \<Rightarrow> (go_error + rest_mapper) \<times> 'w" where
  "newRESTMapper dy w =
     (case dy_resources dy w of
        (Inl e, w1) \<Rightarrow> (Inl (Wrapf ''get api group resources: %w'' [] e), w1)
      | (Inr mapper, w1) \<Rightarrow> (Inr mapper, w1))"

definition patchObject ::
  "'w dynamic_client \<Rightarrow> collection \<Rightarrow> unstructured \<Rightarrow> 'w \<Rightarrow> (go_error + unit) \<times> 'w" where
  "patchObject dy resource obj w =
     (case dy_marshal dy obj of
        Inl e \<Rightarrow> (Inl (Wrapf ''marshal %s %q: %w'' [kind_of_object obj, un_name obj] e), w)
      | Inr data \<Rightarrow>
          (case dy_patch dy resource (un_name obj) data w of
             (Inl e, w1) \<Rightarrow> (Inl (Wrapf ''apply %s %q: %w'' [kind_of_object obj, un_name obj] e), w1)
           | (Inr _, w1) \<Rightarrow> (Inr (), w1)))"

definition collection_of :: "rest_mapping \<Rightarrow> unstructured \<Rightarrow> collection" where
  "collection_of m obj = (rm_resource m, if rm_namespaced m then Some (un_namespace obj) else None)"

definition applyObject ::
  "'w dynamic_client \<Rightarrow> rest_mapper \<Rightarrow> unstructured \<Rightarrow> 'w \<Rightarrow> (go_error + unit) \<times> 'w" where
  "applyObject dy mapper obj w =
     (case mapper (un_gvk obj) of
        Inl e \<Rightarrow> (Inl (Wrapf ''resolve REST mapping for %s %q: %w'' [kind_of_object obj, un_name obj] e), w)
      | Inr mapping \<Rightarrow>
          (let resource = collection_of mapping obj in
           case dy_get dy resource (un_name obj) w of
             (Inr _, w1) \<Rightarrow> patchObject dy resource obj w1
           | (Inl e, w1) \<Rightarrow>
               if \<not> is_not_found e
               then (Inl (Wrapf ''get %s %q: %w'' [kind_of_object obj, un_name obj] e), w1)
               else
                 (case dy_create dy resource obj w1 of
                    (Inl e, w2) \<Rightarrow> (Inl (Wrapf ''create %s %q: %w'' [kind_of_object obj, un_name obj] e), w2)
                  | (Inr _, w2) \<Rightarrow> (Inr (), w2))))"

text \<open>A manifest is what its decoder gives until the end of the text.\<close>

type_synonym manifest_text = "(go_error + unstructured) list"

fun applyManifest ::
  "'w dynamic_client \<Rightarrow> rest_mapper \<Rightarrow> manifest_text \<Rightarrow> 'w \<Rightarrow> (go_error + unit) \<times> 'w" where
  "applyManifest dy mapper [] w = (Inr (), w)"
| "applyManifest dy mapper (Inl e # rest) w =
     (if errors_is e io_EOF then (Inr (), w)
      else (Inl (Wrapf ''decode manifest document: %w'' [] e), w))"
| "applyManifest dy mapper (Inr obj # rest) w =
     (if un_object obj = [] then applyManifest dy mapper rest w
      else
        (case applyObject dy mapper obj w of
           (Inl e, w1) \<Rightarrow> (Inl e, w1)
         | (Inr _, w1) \<Rightarrow> applyManifest dy mapper rest w1))"

text \<open>The embedded manifests are arguments: decoding YAML is the library's.\<close>

definition EnsureClusterNetworkPolicyCRD ::
  "'w dynamic_client \<Rightarrow> manifest_text \<Rightarrow> 'w \<Rightarrow> (go_error + unit) \<times> 'w" where
  "EnsureClusterNetworkPolicyCRD dy crd w =
     (case newRESTMapper dy w of
        (Inl e, w1) \<Rightarrow> (Inl (Wrapf ''build rest mapper: %w'' [] e), w1)
      | (Inr mapper, w1) \<Rightarrow>
          (case applyManifest dy mapper crd w1 of
             (Inl e, w2) \<Rightarrow> (Inl (Wrapf ''apply cluster network policy crd: %w'' [] e), w2)
           | (Inr _, w2) \<Rightarrow> (Inr (), w2)))"

definition EnsureNetworkPolicyEnforcer ::
  "'w dynamic_client \<Rightarrow> manifest_text \<Rightarrow> 'w \<Rightarrow> (go_error + unit) \<times> 'w" where
  "EnsureNetworkPolicyEnforcer dy enforcer w =
     (case newRESTMapper dy w of
        (Inl e, w1) \<Rightarrow> (Inl (Wrapf ''build rest mapper: %w'' [] e), w1)
      | (Inr mapper, w1) \<Rightarrow>
          (case applyManifest dy mapper enforcer w1 of
             (Inl e, w2) \<Rightarrow> (Inl (Wrapf ''apply kube-network-policies: %w'' [] e), w2)
           | (Inr _, w2) \<Rightarrow> (Inr (), w2)))"

section \<open>What it makes of the cluster\<close>

text \<open>
  The objects of a cluster, apart from the metadata the server maintains, are well-formed
  documents. A created object is the submitted document, merged over what the server fills in; a
  patched one is the merge of the patch. Calls that fail may have done anything.
\<close>

type_synonym object_ref = "collection \<times> string"

locale dynamic_cluster =
  fixes dy :: "'w dynamic_client" and objects :: "'w \<Rightarrow> object_ref \<rightharpoonup> json"
  assumes objects_wf: "objects w ref = Some j \<Longrightarrow> json_wf j"
    and get_found: "dy_get dy res name w = (Inr j, w') \<Longrightarrow> objects w' = objects w \<and> objects w (res, name) = Some j"
    and get_missing:
      "dy_get dy res name w = (Inl e, w') \<Longrightarrow> is_not_found e \<Longrightarrow>
       objects w' = objects w \<and> objects w (res, name) = None"
    and create_law:
      "dy_create dy res obj w = (Inr (), w') \<Longrightarrow> json_wf (JObj (un_object obj)) \<Longrightarrow>
       (\<exists>filled. objects w' = (objects w)((res, un_name obj) \<mapsto> merge_value (JObj (un_object obj)) filled))"
    and patch_law:
      "dy_patch dy res name p w = (Inr (), w') \<Longrightarrow> json_wf p \<Longrightarrow>
       (\<exists>old. objects w (res, name) = Some old \<and>
          objects w' = (objects w)((res, name) \<mapsto> merge_value p (Some old)))"
    and marshal_law: "dy_marshal dy obj = Inr p \<Longrightarrow> p = JObj (un_object obj)"
begin

text \<open>One object: what it declares holds, the rest of it and every other object stay.\<close>

lemma applyObject_works:
  assumes "applyObject dy mapper obj w = (Inr (), w')" and wf: "json_wf (JObj (un_object obj))"
  shows "\<exists>m j. mapper (un_gvk obj) = Inr m \<and>
    objects w' = (objects w)((collection_of m obj, un_name obj) \<mapsto> j) \<and> declares (JObj (un_object obj)) j \<and>
    (\<forall>old. objects w (collection_of m obj, un_name obj) = Some old \<longrightarrow> j = merge_value (JObj (un_object obj)) (Some old))"
proof -
  from assms(1) obtain m r w1 where m: "mapper (un_gvk obj) = Inr m"
    and got: "dy_get dy (collection_of m obj) (un_name obj) w = (r, w1)"
    by (auto simp: applyObject_def Let_def split: sum.splits prod.splits)
  show ?thesis
  proof (cases r)
    case (Inl e)
    with assms(1) m got have nf: "is_not_found e"
      and cr: "dy_create dy (collection_of m obj) obj w1 = (Inr (), w')"
      by (auto simp: applyObject_def Let_def split: sum.splits prod.splits if_splits)
    from get_missing [OF got [unfolded Inl] nf] create_law [OF cr wf] m show ?thesis
      by (auto intro: declares_merge [OF wf])
  next
    case (Inr old)
    with assms(1) m got have "patchObject dy (collection_of m obj) obj w1 = (Inr (), w')"
      by (simp add: applyObject_def Let_def)
    then obtain p where p: "dy_marshal dy obj = Inr p"
      and pa: "dy_patch dy (collection_of m obj) (un_name obj) p w1 = (Inr (), w')"
      by (auto simp: patchObject_def split: sum.splits prod.splits)
    note p = marshal_law [OF p]
    from get_found [OF got [unfolded Inr]] patch_law [OF pa] wf m show ?thesis
      unfolding p by (auto intro: declares_merge)
  qed
qed

text \<open>Applying what is already declared changes nothing.\<close>

lemma applyObject_again:
  assumes "applyObject dy mapper obj w = (Inr (), w')" and "json_wf (JObj (un_object obj))"
    and "mapper (un_gvk obj) = Inr m" and "objects w (collection_of m obj, un_name obj) = Some j"
    and "declares (JObj (un_object obj)) j"
  shows "objects w' = objects w"
proof -
  from applyObject_works [OF assms(1,2)] assms(3,4) have
    "objects w' = (objects w)((collection_of m obj, un_name obj) \<mapsto> merge_value (JObj (un_object obj)) (Some j))"
    by auto
  with merge_declared [OF objects_wf [OF assms(4)] assms(5)] assms(4) show ?thesis
    by (simp add: fun_upd_idem)
qed

end

text \<open>Where the objects of a manifest live.\<close>

definition ref_in :: "rest_mapper \<Rightarrow> unstructured \<Rightarrow> object_ref" where
  "ref_in mapper obj =
     (case mapper (un_gvk obj) of
        Inl _ \<Rightarrow> (([], None), un_name obj)
      | Inr m \<Rightarrow> (collection_of m obj, un_name obj))"

context dynamic_cluster begin

lemma applyManifest_works:
  assumes "applyManifest dy mapper (map Inr docs) w = (Inr (), w')"
    and "\<And>obj. obj \<in> set docs \<Longrightarrow> un_object obj \<noteq> [] \<and> json_wf (JObj (un_object obj))"
    and "distinct (map (ref_in mapper) docs)"
  shows "(\<forall>obj \<in> set docs. \<exists>j. objects w' (ref_in mapper obj) = Some j \<and> declares (JObj (un_object obj)) j \<and>
      (\<forall>old. objects w (ref_in mapper obj) = Some old \<longrightarrow> j = merge_value (JObj (un_object obj)) (Some old))) \<and>
    (\<forall>ref. ref \<notin> ref_in mapper ` set docs \<longrightarrow> objects w' ref = objects w ref)"
  using assms
proof (induction docs arbitrary: w)
  case (Cons obj docs)
  from Cons.prems(1,2) obtain w1 where one: "applyObject dy mapper obj w = (Inr (), w1)"
    and rest: "applyManifest dy mapper (map Inr docs) w1 = (Inr (), w')"
    by (auto split: prod.splits sum.splits)
  from applyObject_works [OF one] Cons.prems(2) obtain m j where m: "mapper (un_gvk obj) = Inr m"
    and w1: "objects w1 = (objects w)(ref_in mapper obj \<mapsto> j)" and j: "declares (JObj (un_object obj)) j"
      "\<forall>old. objects w (ref_in mapper obj) = Some old \<longrightarrow> j = merge_value (JObj (un_object obj)) (Some old)"
    by (fastforce simp: ref_in_def)
  from Cons.prems(3) have new: "ref_in mapper obj \<notin> ref_in mapper ` set docs" by simp
  have dist: "distinct (map (ref_in mapper) docs)" using Cons.prems(3) by simp
  note ih = Cons.IH [OF rest Cons.prems(2) dist, OF list.set_intros(2)]
  from ih have
    docs: "\<And>o'. o' \<in> set docs \<Longrightarrow> \<exists>j. objects w' (ref_in mapper o') = Some j \<and> declares (JObj (un_object o')) j \<and>
      (\<forall>old. objects w1 (ref_in mapper o') = Some old \<longrightarrow> j = merge_value (JObj (un_object o')) (Some old))"
    and others: "\<And>ref. ref \<notin> ref_in mapper ` set docs \<Longrightarrow> objects w' ref = objects w1 ref" by blast+
  have same: "objects w1 (ref_in mapper o') = objects w (ref_in mapper o')" if "o' \<in> set docs" for o'
    using that new w1 by (metis fun_upd_other imageI)
  have here: "objects w' (ref_in mapper obj) = Some j" using others [OF new] w1 by simp
  have rest: "objects w' ref = objects w ref" if "ref \<notin> ref_in mapper ` set (obj # docs)" for ref
    using others [of ref] that w1 by auto
  show ?case using here j docs same rest by (simp only: set_simps ball_simps) metis
qed simp

lemma applyManifest_again:
  assumes "applyManifest dy mapper (map Inr docs) w = (Inr (), w')"
    and "\<And>obj. obj \<in> set docs \<Longrightarrow> json_wf (JObj (un_object obj)) \<and>
      (\<exists>j. objects w (ref_in mapper obj) = Some j \<and> declares (JObj (un_object obj)) j)"
  shows "objects w' = objects w"
  using assms
proof (induction docs arbitrary: w)
  case (Cons obj docs)
  show ?case
  proof (cases "un_object obj = []")
    case True
    with Cons show ?thesis by simp
  next
    case False
    with Cons.prems(1) obtain w1 where one: "applyObject dy mapper obj w = (Inr (), w1)"
      and rest: "applyManifest dy mapper (map Inr docs) w1 = (Inr (), w')"
      by (auto split: prod.splits sum.splits)
    from applyObject_works [OF one] Cons.prems(2) obtain m where m: "mapper (un_gvk obj) = Inr m" by fastforce
    with Cons.prems(2) [of obj] have "objects w1 = objects w"
      by (auto simp: ref_in_def intro: applyObject_again [OF one])
    with Cons.IH [OF rest] Cons.prems(2) show ?thesis by simp
  qed
qed simp

end

lemma applyManifest_skips_empty:
  "applyManifest dy mapper (map Inr docs) w =
   applyManifest dy mapper (map Inr (filter (\<lambda>obj. un_object obj \<noteq> []) docs)) w"
  by (induction docs arbitrary: w) (auto split: prod.split sum.split)

section \<open>A cluster in memory\<close>

definition ref_documents :: "(object_ref, json) go_map \<Rightarrow> object_ref \<rightharpoonup> json" where
  "ref_documents m ref = (case map_of m ref of None \<Rightarrow> None | Some j \<Rightarrow> if json_wf j then Some j else None)"

definition ref_dynamic :: "(object_ref, json) go_map dynamic_client" where
  "ref_dynamic =
     \<lparr>dy_resources = (\<lambda>m. (Inr (\<lambda>gvk. Inr \<lparr>rm_resource = snd (snd gvk), rm_namespaced = True\<rparr>), m)),
      dy_get = (\<lambda>res name m. (case ref_documents m (res, name) of
                  None \<Rightarrow> Inl (ApiError NotFound) | Some j \<Rightarrow> Inr j, m)),
      dy_create = (\<lambda>res obj m. (Inr (), map_set (res, un_name obj) (merge_value (JObj (un_object obj)) None) m)),
      dy_patch = (\<lambda>res name p m.
        (case ref_documents m (res, name) of
           None \<Rightarrow> (Inl (ApiError NotFound), m)
         | Some old \<Rightarrow> (Inr (), map_set (res, name) (merge_value p (Some old)) m))),
      dy_marshal = (\<lambda>obj. Inr (JObj (un_object obj)))\<rparr>"

lemma ref_documents_set:
  "json_wf j \<Longrightarrow> ref_documents (map_set ref j m) = (ref_documents m)(ref \<mapsto> j)"
  by (auto simp: ref_documents_def fun_eq_iff)

interpretation ref_dynamic: dynamic_cluster ref_dynamic ref_documents
proof
  show "ref_documents w ref = Some j \<Longrightarrow> json_wf j" for w ref j
    by (auto simp: ref_documents_def split: option.splits if_splits)
  then have merged: "ref_documents w ref = Some old \<Longrightarrow> json_wf p \<Longrightarrow> json_wf (merge_value p (Some old))" for w ref old p
    by (intro json_wf_merge) auto
  show "dy_patch ref_dynamic res name p w = (Inr (), w') \<Longrightarrow> json_wf p \<Longrightarrow>
      \<exists>old. ref_documents w (res, name) = Some old \<and>
        ref_documents w' = (ref_documents w)((res, name) \<mapsto> merge_value p (Some old))" for res name p w w'
    by (auto simp: ref_dynamic_def split: option.splits intro!: ref_documents_set merged)
  show "dy_create ref_dynamic res obj w = (Inr (), w') \<Longrightarrow> json_wf (JObj (un_object obj)) \<Longrightarrow>
      \<exists>filled. ref_documents w' =
        (ref_documents w)((res, un_name obj) \<mapsto> merge_value (JObj (un_object obj)) filled)" for res obj w w'
    using json_wf_merge [of "JObj (un_object obj)" None]
    by (intro exI [of _ None]) (auto simp: ref_dynamic_def ref_documents_set)
qed (auto simp: ref_dynamic_def is_not_found_def split: option.splits)

section \<open>Properties\<close>

text \<open>
  C26: applying a manifest makes the cluster declare it, and no more. Empty documents are
  skipped. After a successful run every other document's object has all the fields it sets; of an object that was there before,
  every field the document does not mention is as it was, at any depth (what other actors wrote
  survives); every other object is untouched; and applying the same manifest again, should it
  succeed, changes nothing.
\<close>

theorem applied_manifest_is_declared:
  assumes "dynamic_cluster dy objects" and "applyManifest dy mapper (map Inr docs) w = (Inr (), w')"
    and "live = filter (\<lambda>obj. un_object obj \<noteq> []) docs"
    and "\<And>obj. obj \<in> set live \<Longrightarrow> json_wf (JObj (un_object obj))"
    and "distinct (map (ref_in mapper) live)"
  shows "(\<forall>obj \<in> set live. \<exists>j. objects w' (ref_in mapper obj) = Some j \<and> declares (JObj (un_object obj)) j \<and>
      (\<forall>old path. objects w (ref_in mapper obj) = Some old \<longrightarrow> \<not> touches (JObj (un_object obj)) path \<longrightarrow>
         at_path path j = at_path path old)) \<and>
    (\<forall>ref. ref \<notin> ref_in mapper ` set live \<longrightarrow> objects w' ref = objects w ref) \<and>
    (\<forall>w''. applyManifest dy mapper (map Inr docs) w' = (Inr (), w'') \<longrightarrow> objects w'' = objects w')"
proof -
  have run: "applyManifest dy mapper (map Inr live) w = (Inr (), w')"
    using assms(2) applyManifest_skips_empty [of dy mapper docs w] assms(3) by simp
  have wf: "un_object obj \<noteq> [] \<and> json_wf (JObj (un_object obj))" if "obj \<in> set live" for obj
    using that assms(3) assms(4) [OF that] by simp
  note works = dynamic_cluster.applyManifest_works [OF assms(1) run wf assms(5)]
  then have "\<exists>j. objects w' (ref_in mapper obj) = Some j \<and> declares (JObj (un_object obj)) j \<and>
      (\<forall>old path. objects w (ref_in mapper obj) = Some old \<longrightarrow> \<not> touches (JObj (un_object obj)) path \<longrightarrow>
         at_path path j = at_path path old)" if "obj \<in> set live" for obj
    using that wf [OF that] merge_untouched [of "JObj (un_object obj)" _ "Some _"] by fastforce
  moreover have "objects w'' = objects w'" if "applyManifest dy mapper (map Inr docs) w' = (Inr (), w'')" for w''
  proof (rule dynamic_cluster.applyManifest_again [OF assms(1)])
    show "applyManifest dy mapper (map Inr live) w' = (Inr (), w'')"
      using that applyManifest_skips_empty [of dy mapper docs w'] assms(3) by simp
  qed (use wf works in blast)
  ultimately show ?thesis using works by blast
qed

text \<open>
  A manifest that begins with an empty document; its object has a field that was set by others and
  that the manifest does not mention.
\<close>

definition empty_document :: unstructured where
  "empty_document = \<lparr>un_gvk = ([], [], []), un_namespace = [], un_name = [], un_object = []\<rparr>"

definition enforcer_object :: unstructured where
  "enforcer_object =
     \<lparr>un_gvk = (''apps'', ''v1'', ''DaemonSet''), un_namespace = ''kube-system'', un_name = ''np'',
      un_object = [(''spec'', JObj [(''image'', JStr ''v2'')])]\<rparr>"

lemma applied_manifest_is_declared_witness:
  "let mapper = projr (fst (newRESTMapper ref_dynamic []));
       old = JObj [(''spec'', JObj [(''image'', JStr ''v1''), (''replicas'', JNum 3)])]
   in \<exists>w' j. applyManifest ref_dynamic mapper (map Inr [empty_document, enforcer_object]) [(ref_in mapper enforcer_object, old)] = (Inr (), w') \<and>
     ref_documents w' (ref_in mapper enforcer_object) = Some j \<and>
     declares (JObj [(''spec'', JObj [(''image'', JStr ''v2'')])]) j \<and>
     at_path [''spec'', ''replicas''] j = Some (JNum 3)"
proof -
  define mapper where "mapper = projr (fst (newRESTMapper ref_dynamic []))"
  let ?old = "JObj [(''spec'', JObj [(''image'', JStr ''v1''), (''replicas'', JNum 3)])]"
  have wf: "json_wf ?old" "json_wf (JObj (un_object enforcer_object))"
    by (simp_all add: json_wf_object map_wf_def enforcer_object_def)
  have m: "mapper = (\<lambda>gvk. Inr \<lparr>rm_resource = snd (snd gvk), rm_namespaced = True\<rparr>)"
    by (simp add: mapper_def newRESTMapper_def ref_dynamic_def)
  have old: "ref_documents [(ref_in mapper enforcer_object, ?old)] (ref_in mapper enforcer_object) = Some ?old"
    using wf(1) by (simp add: ref_documents_def)
  then obtain w' where run:
    "applyManifest ref_dynamic mapper (map Inr [empty_document, enforcer_object]) [(ref_in mapper enforcer_object, ?old)] = (Inr (), w')"
    by (simp add: applyObject_def patchObject_def m ref_in_def ref_dynamic_def empty_document_def enforcer_object_def Let_def)
  have live: "[enforcer_object] = filter (\<lambda>obj. un_object obj \<noteq> []) [empty_document, enforcer_object]"
    by (simp add: empty_document_def enforcer_object_def)
  have docs: "json_wf (JObj (un_object obj))" if "obj \<in> set [enforcer_object]" for obj
    using that wf(2) by simp
  have "\<not> touches (JObj (un_object enforcer_object)) [''spec'', ''replicas'']" by (simp add: enforcer_object_def)
  with applied_manifest_is_declared [OF ref_dynamic.dynamic_cluster_axioms run live docs] old obtain j where
    "ref_documents w' (ref_in mapper enforcer_object) = Some j" "declares (JObj (un_object enforcer_object)) j"
    "at_path [''spec'', ''replicas''] j = at_path [''spec'', ''replicas''] ?old" by fastforce
  with run show ?thesis unfolding Let_def mapper_def [symmetric] by (auto simp: enforcer_object_def)
qed

end
