(* ===== verification/Tgb_Crd.thy ===== *)
theory Tgb_Crd
  imports Manifest_Apply Target_Group_Binding
begin

text \<open>
  The definition of the TargetGroupBinding resource (\<open>internal/cluster/targetgroupbinding.go\<close>) and
  what its schema promises the controller of \<open>internal/agent\<close>: a binding the API server admits is
  one whose status the API server admits too.
\<close>

section \<open>The definition\<close>

definition TargetGroupBindingResource :: string where
  "TargetGroupBindingResource = ''targetgroupbindings''"

definition targetGroupBindingCRDName :: string where
  "targetGroupBindingCRDName = TargetGroupBindingResource @ ''.'' @ TargetGroupBindingGroup"

definition targetGroupBindingCRDAPIVersion :: string where
  "targetGroupBindingCRDAPIVersion = ''apiextensions.k8s.io/v1''"

definition targetGroupBindingCRDKind :: string where
  "targetGroupBindingCRDKind = ''CustomResourceDefinition''"

text \<open>
  A schema: its type (empty for none), format, required members, enumeration, whether unknown
  members are preserved, whether it is an integer or a string, its members and its items.
\<close>

datatype json_schema = Schema
  (js_type: string) (js_format: string) (js_required: "string list") (js_enum: "json list")
  (js_preserve: bool) (js_int_or_string: bool) (js_properties: "(string \<times> json_schema) list")
  (js_items: "json_schema option")

definition typed :: "string \<Rightarrow> json_schema" where
  "typed t = Schema t [] [] [] False False [] None"

definition one_of :: "string list \<Rightarrow> json_schema" where
  "one_of xs = Schema ''string'' [] [] (map JStr xs) False False [] None"

definition targetGroupBindingSpecSchema :: "bool \<Rightarrow> json_schema" where
  "targetGroupBindingSpecSchema preserveUnknownFields =
     Schema ''object'' [] [''targetGroupARN'', ''serviceRef''] [] preserveUnknownFields False
       [(''targetGroupARN'', typed ''string''),
        (''targetType'', one_of [''instance'', ''ip'']),
        (''ipAddressType'', one_of [''ipv4'', ''dualstack'']),
        (''vpcID'', typed ''string''),
        (''serviceRef'',
         Schema ''object'' [] [''name'', ''port''] [] False False
           [(''name'', typed ''string''), (''port'', Schema [] [] [] [] False True [] None)] None),
        (''networking'', Schema ''object'' [] [] [] preserveUnknownFields False [] None)]
       None"

definition targetGroupBindingStatusSchema :: "bool \<Rightarrow> json_schema" where
  "targetGroupBindingStatusSchema preserveUnknownFields =
     Schema ''object'' [] [] [] preserveUnknownFields False
       [(''observedGeneration'', Schema ''integer'' ''int64'' [] [] False False [] None),
        (''targetType'', one_of [''instance'', ''ip'']),
        (''targets'',
         Schema ''array'' [] [] [] False False []
           (Some
             (Schema ''object'' [] [''address'', ''port''] [] False False
               [(''address'', typed ''string''),
                (''port'', Schema ''integer'' ''int32'' [] [] False False [] None)]
               None)))]
       None"

record crd_version =
  crv_name :: string
  crv_served :: bool
  crv_storage :: bool
  crv_status_subresource :: bool
  crv_schema :: json_schema

definition targetGroupBindingCRDVersion :: "bool \<Rightarrow> crd_version" where
  "targetGroupBindingCRDVersion preserveUnknownFields =
     \<lparr>crv_name = TargetGroupBindingVersion, crv_served = True, crv_storage = True,
      crv_status_subresource = True,
      crv_schema =
        Schema ''object'' [] [] [] False False
          [(''spec'', targetGroupBindingSpecSchema preserveUnknownFields),
           (''status'', targetGroupBindingStatusSchema preserveUnknownFields)]
          None\<rparr>"

record resource_definition =
  crd_name :: string
  crd_group :: string
  crd_plural :: string
  crd_singular :: string
  crd_kind :: string
  crd_list_kind :: string
  crd_scope :: string
  crd_versions :: "crd_version list"

definition targetGroupBindingCRD :: resource_definition where
  "targetGroupBindingCRD =
     \<lparr>crd_name = targetGroupBindingCRDName, crd_group = TargetGroupBindingGroup,
      crd_plural = TargetGroupBindingResource, crd_singular = ''targetgroupbinding'',
      crd_kind = TargetGroupBindingKind, crd_list_kind = TargetGroupBindingKind @ ''List'',
      crd_scope = ''Namespaced'', crd_versions = [targetGroupBindingCRDVersion True]\<rparr>"

text \<open>
  \<open>ToUnstructured\<close> is the converter of the API machinery; the accessors of an unstructured object
  read its kind and its name.
\<close>

definition targetGroupBindingCRDObject ::
  "(resource_definition \<Rightarrow> go_error + (string, json) go_map) \<Rightarrow> go_error + unstructured" where
  "targetGroupBindingCRDObject to_unstructured =
     (case to_unstructured targetGroupBindingCRD of
        Inl e \<Rightarrow> Inl (Wrapf ''convert crd to unstructured: %w'' [] e)
      | Inr converted \<Rightarrow>
          Inr \<lparr>un_gvk = (''apiextensions.k8s.io'', ''v1'', targetGroupBindingCRDKind), un_namespace = [],
               un_name = crd_name targetGroupBindingCRD,
               un_object = map_set ''kind'' (JStr targetGroupBindingCRDKind)
                 (map_set ''apiVersion'' (JStr targetGroupBindingCRDAPIVersion) converted)\<rparr>)"

definition EnsureTargetGroupBindingCRD ::
  "'w dynamic_client \<Rightarrow> (resource_definition \<Rightarrow> go_error + (string, json) go_map) \<Rightarrow> 'w \<Rightarrow> (go_error + unit) \<times> 'w" where
  "EnsureTargetGroupBindingCRD dy to_unstructured w =
     (case newRESTMapper dy w of
        (Inl e, w1) \<Rightarrow> (Inl (Wrapf ''build rest mapper: %w'' [] e), w1)
      | (Inr mapper, w1) \<Rightarrow>
          (case targetGroupBindingCRDObject to_unstructured of
             Inl e \<Rightarrow> (Inl (Wrapf ''build target group binding crd: %w'' [] e), w1)
           | Inr obj \<Rightarrow>
               (case applyObject dy mapper obj w1 of
                  (Inl e, w2) \<Rightarrow> (Inl (Wrapf ''apply target group binding crd: %w'' [] e), w2)
                | (Inr _, w2) \<Rightarrow> (Inr (), w2))))"

section \<open>What a schema admits\<close>

text \<open>The validation of a structural schema, for the keywords that are used.\<close>

definition fits_format :: "string \<Rightarrow> int \<Rightarrow> bool" where
  "fits_format fmt i \<longleftrightarrow>
     (fmt = ''int32'' \<longrightarrow> - (2 ^ 31) \<le> i \<and> i < 2 ^ 31) \<and> (fmt = ''int64'' \<longrightarrow> - (2 ^ 63) \<le> i \<and> i < 2 ^ 63)"

fun has_type :: "string \<Rightarrow> string \<Rightarrow> json \<Rightarrow> bool" where
  "has_type t fmt (JObj kvs) \<longleftrightarrow> t = ''object''"
| "has_type t fmt (JArr xs) \<longleftrightarrow> t = ''array''"
| "has_type t fmt (JStr s) \<longleftrightarrow> t = ''string''"
| "has_type t fmt (JNum i) \<longleftrightarrow> t = ''integer'' \<and> fits_format fmt i"
| "has_type t fmt (JBool b) \<longleftrightarrow> t = ''boolean''"
| "has_type t fmt JNull \<longleftrightarrow> False"

fun admits :: "json_schema \<Rightarrow> json \<Rightarrow> bool" where
  "admits (Schema t fmt required enum preserve int_or_string properties items) j \<longleftrightarrow>
     (t \<noteq> [] \<longrightarrow> has_type t fmt j) \<and>
     (int_or_string \<longrightarrow> has_type ''integer'' [] j \<or> has_type ''string'' [] j) \<and>
     (enum \<noteq> [] \<longrightarrow> j \<in> set enum) \<and>
     (case j of
        JObj kvs \<Rightarrow>
          set required \<subseteq> fst ` set kvs \<and>
          (\<forall>p \<in> set properties. case map_of kvs (fst p) of None \<Rightarrow> True | Some v \<Rightarrow> admits (snd p) v)
      | JArr xs \<Rightarrow> (case items of None \<Rightarrow> True | Some s \<Rightarrow> \<forall>x \<in> set xs. admits s x)
      | _ \<Rightarrow> True)"

text \<open>The documents, by the tags of the structs.\<close>

definition port_json :: "int_or_string \<Rightarrow> json" where
  "port_json p = (case p of IntVal i \<Rightarrow> JNum i | StrVal s \<Rightarrow> JStr s)"

definition spec_json :: "targetGroupBindingSpec \<Rightarrow> json" where
  "spec_json s =
     JObj ([(''targetGroupARN'', JStr (ts_target_group_arn s)),
            (''serviceRef'', JObj [(''name'', JStr (sr_name (ts_service_ref s))),
               (''port'', port_json (sr_port (ts_service_ref s)))])] @
           str_member_omitempty ''targetType'' (ts_target_type s))"

definition target_json :: "target \<Rightarrow> json" where
  "target_json t = JObj [(''address'', JStr (t_address t)), (''port'', JNum (t_port t))]"

definition status_json :: "targetGroupBindingStatus \<Rightarrow> json" where
  "status_json st =
     JObj [(''observedGeneration'', JNum (st_observed_generation st)),
           (''targets'', case st_targets st of None \<Rightarrow> JNull | Some ts \<Rightarrow> JArr (map target_json ts)),
           (''targetType'', JStr (st_target_type st))]"

lemma admitted_spec:
  "admits (targetGroupBindingSpecSchema pres) (spec_json s) \<longleftrightarrow> ts_target_type s \<in> {[], ''instance'', ''ip''}"
  by (cases "sr_port (ts_service_ref s)")
    (auto simp: targetGroupBindingSpecSchema_def spec_json_def typed_def one_of_def port_json_def fits_format_def
      str_member_omitempty_def)

lemma admitted_status:
  "admits (targetGroupBindingStatusSchema pres) (status_json st) \<longleftrightarrow>
     fits_format ''int64'' (st_observed_generation st) \<and> st_target_type st \<in> {''instance'', ''ip''} \<and>
     (\<exists>ts. st_targets st = Some ts \<and> (\<forall>t \<in> set ts. fits_format ''int32'' (t_port t)))"
  by (auto simp: targetGroupBindingStatusSchema_def status_json_def typed_def one_of_def target_json_def
      split: option.splits)

section \<open>Properties\<close>

text \<open>The ports of the objects are Go's \<open>int32\<close>, the generation its \<open>int64\<close>.\<close>

definition slice_in_range :: "endpoint_slice \<Rightarrow> bool" where
  "slice_in_range sl \<longleftrightarrow> (\<forall>p \<in> set (es_ports sl). case slp_port p of None \<Rightarrow> True | Some i \<Rightarrow> fits_format ''int32'' i)"

lemma slice_port_in_range: "slice_in_range sl \<Longrightarrow> endpointSlicePort sl name = Some i \<Longrightarrow> fits_format ''int32'' i"
proof -
  have "slice_port_from ps name = Some i \<Longrightarrow> \<exists>p \<in> set ps. slp_port p = Some i" for ps
    by (induction ps name rule: slice_port_from.induct) (auto split: if_splits)
  then show "slice_in_range sl \<Longrightarrow> endpointSlicePort sl name = Some i \<Longrightarrow> fits_format ''int32'' i"
    by (fastforce simp: slice_in_range_def endpointSlicePort_def)
qed

lemma endpoint_targets_port: "t \<in> set (endpoint_targets port eps) \<Longrightarrow> t_port t = port"
  by (induction eps) (auto split: if_splits)

lemma slice_targets_in_range:
  "\<forall>sl \<in> set slices. slice_in_range sl \<Longrightarrow> t \<in> set (slice_targets name slices) \<Longrightarrow> fits_format ''int32'' (t_port t)"
  by (induction slices) (auto dest: endpoint_targets_port slice_port_in_range split: option.splits)

lemma found_port: "find_service_port ps ref = Some p \<Longrightarrow> p \<in> set ps"
  by (induction ps ref rule: find_service_port.induct) (auto split: if_splits)

lemma resolved_in_range:
  assumes "resolveTargets tgb svc slices nodes = (Inr targets, ty)" and "\<forall>sl \<in> set slices. slice_in_range sl"
    and "\<forall>p \<in> set (svc_ports svc). fits_format ''int32'' (sp_node_port p)" and "t \<in> set targets"
  shows "fits_format ''int32'' (t_port t)"
  using assms slice_targets_in_range [OF assms(2)]
  by (auto simp: resolveTargets_def Let_def resolveInstanceTargets_def resolveIPTargets_def sortTargets_def
      resolveServicePort_def dest!: found_port split: if_splits sum.splits option.splits)

text \<open>
  C25: the controller is well typed with respect to the resource definition it is deployed with. The
  API server admits a binding's spec exactly if its target type is absent, \<open>instance\<close> or \<open>ip\<close>;
  and for an admitted binding, whatever targets are resolved, the status the controller writes is
  admitted by the schema of the status: its type is one of the two, its ports fit the declared
  format, and the list of targets is there even when it is empty.
\<close>

theorem binding_status_conforms_to_crd:
  assumes "admits (targetGroupBindingSpecSchema True) (spec_json (tgb_spec tgb))"
    and "resolveTargets tgb svc slices nodes = (Inr targets, ty)"
    and "\<forall>sl \<in> set slices. slice_in_range sl" and "\<forall>p \<in> set (svc_ports svc). fits_format ''int32'' (sp_node_port p)"
    and "fits_format ''int64'' (tgb_generation tgb)"
  shows "admits (targetGroupBindingStatusSchema True)
    (status_json \<lparr>st_observed_generation = tgb_generation tgb, st_targets = Some targets, st_target_type = ty\<rparr>)"
proof -
  from assms(2) have "ty = effectiveTargetType tgb" by (auto simp: resolveTargets_def Let_def split: sum.splits)
  with assms(1) have "ty \<in> {''instance'', ''ip''}"
    unfolding admitted_spec by (auto simp: effectiveTargetType_def targetTypeIP_def)
  with assms(5) resolved_in_range [OF assms(2-4)] show ?thesis unfolding admitted_status by simp
qed

definition web_binding :: targetGroupBinding where
  "web_binding =
     \<lparr>tgb_namespace = ''app'', tgb_name = ''web'', tgb_generation = 3,
      tgb_spec = \<lparr>ts_service_ref = \<lparr>sr_name = ''web'', sr_port = IntVal 80\<rparr>, ts_target_type = [],
                  ts_target_group_arn = ''arn:aws:elasticloadbalancing''\<rparr>\<rparr>"

definition web_service :: service where
  "web_service =
     \<lparr>svc_namespace = ''app'', svc_name = ''web'', svc_rv = 1, svc_labels = [], svc_owners = [],
      svc_type = ''ClusterIP'', svc_class = None, svc_selector = [(''app'', ''web'')],
      svc_ports = [\<lparr>sp_name = ''http'', sp_port = 80, sp_node_port = 0\<rparr>], svc_ingress = []\<rparr>"

definition web_slice :: endpoint_slice where
  "web_slice =
     \<lparr>es_namespace = ''app'', es_name = ''web-1'', es_labels = [],
      es_ports = [\<lparr>slp_name = Some ''http'', slp_port = Some 8080\<rparr>],
      es_endpoints = [\<lparr>ep_addresses = [''10.0.0.1''], ep_ready = None\<rparr>]\<rparr>"

lemma binding_status_conforms_to_crd_witness:
  "resolveTargets web_binding web_service [web_slice] [] = (Inr [Target ''10.0.0.1'' 8080], ''ip'') \<and>
   admits (targetGroupBindingStatusSchema True)
    (status_json \<lparr>st_observed_generation = 3, st_targets = Some [Target ''10.0.0.1'' 8080], st_target_type = ''ip''\<rparr>)"
proof -
  have run: "resolveTargets web_binding web_service [web_slice] [] = (Inr [Target ''10.0.0.1'' 8080], ''ip'')"
    by (simp add: resolveTargets_def resolveIPTargets_def resolveServicePort_def web_binding_def web_service_def
        web_slice_def effectiveTargetType_def targetTypeIP_def targetTypeInstance_def endpointSlicePort_def
        endpointReady_def sortTargets_def)
  have "admits (targetGroupBindingSpecSchema True) (spec_json (tgb_spec web_binding))"
    unfolding admitted_spec by (simp add: web_binding_def)
  from binding_status_conforms_to_crd [OF this run] run show ?thesis
    by (simp add: web_slice_def slice_in_range_def web_service_def fits_format_def web_binding_def)
qed

end
