(* ===== verification/Release_Table.thy ===== *)
theory Release_Table
  imports Eksd_Release Provider
begin

text \<open>
  The releases fjord knows (\<open>internal/eksd/generated_table.go\<close>), their lookup
  (\<open>internal/eksd/resolve.go\<close>) and the choice of the latest version (\<open>latestVersion\<close> of
  \<open>cli/eks.go\<close>).
\<close>

section \<open>The table and its lookup\<close>

definition table :: "(string, Release) go_map" where
  "table =
     [(''1.29'',
       \<lparr>r_eks_version = ''1.29'', r_channel = ''1-29'', r_number = 60, r_kube_version = ''v1.29.15'',
        r_server_tarball =
          [(''amd64'', \<lparr>a_uri = ''https://distro.eks.amazonaws.com/kubernetes-1-29/releases/60/artifacts/kubernetes/v1.29.15/kubernetes-server-linux-amd64.tar.gz'',
             a_sha256 = ''4507625bd618a277644c63de534e67db58840a668091b478220c4940285f35c8''\<rparr>),
           (''arm64'', \<lparr>a_uri = ''https://distro.eks.amazonaws.com/kubernetes-1-29/releases/60/artifacts/kubernetes/v1.29.15/kubernetes-server-linux-arm64.tar.gz'',
             a_sha256 = ''65a2cf9a43674a4faa8e464383dcd04dad2b1e66bc53069a2617edb0fec3616c''\<rparr>)],
        r_coredns_image = ''public.ecr.aws/eks-distro/coredns/coredns:v1.12.4-eks-1-29-60'',
        r_kube_proxy_image = ''public.ecr.aws/eks-distro/kubernetes/kube-proxy:v1.29.15-eks-1-29-60''\<rparr>),
      (''1.30'',
       \<lparr>r_eks_version = ''1.30'', r_channel = ''1-30'', r_number = 58, r_kube_version = ''v1.30.14'',
        r_server_tarball =
          [(''amd64'', \<lparr>a_uri = ''https://distro.eks.amazonaws.com/kubernetes-1-30/releases/58/artifacts/kubernetes/v1.30.14/kubernetes-server-linux-amd64.tar.gz'',
             a_sha256 = ''54e3c46acbf270b2b35174c418845cba393b2243a99fb115d4254e5dfa90aa98''\<rparr>),
           (''arm64'', \<lparr>a_uri = ''https://distro.eks.amazonaws.com/kubernetes-1-30/releases/58/artifacts/kubernetes/v1.30.14/kubernetes-server-linux-arm64.tar.gz'',
             a_sha256 = ''27222483015b9adab36c09cef9b62d1cdf28f21a4b54fd55698c00037312ad96''\<rparr>)],
        r_coredns_image = ''public.ecr.aws/eks-distro/coredns/coredns:v1.12.4-eks-1-30-58'',
        r_kube_proxy_image = ''public.ecr.aws/eks-distro/kubernetes/kube-proxy:v1.30.14-eks-1-30-58''\<rparr>),
      (''1.31'',
       \<lparr>r_eks_version = ''1.31'', r_channel = ''1-31'', r_number = 47, r_kube_version = ''v1.31.14'',
        r_server_tarball =
          [(''amd64'', \<lparr>a_uri = ''https://distro.eks.amazonaws.com/kubernetes-1-31/releases/47/artifacts/kubernetes/v1.31.14/kubernetes-server-linux-amd64.tar.gz'',
             a_sha256 = ''2460e2e52b91b98eed3b00c005f7ec21c76824a56bab807b4bbc86d066fa6a9c''\<rparr>),
           (''arm64'', \<lparr>a_uri = ''https://distro.eks.amazonaws.com/kubernetes-1-31/releases/47/artifacts/kubernetes/v1.31.14/kubernetes-server-linux-arm64.tar.gz'',
             a_sha256 = ''884e8edd11cc7ec8a18e5442ee64a095188133b863099ec9475d00b0c2e0d5d6''\<rparr>)],
        r_coredns_image = ''public.ecr.aws/eks-distro/coredns/coredns:v1.12.4-eks-1-31-47'',
        r_kube_proxy_image = ''public.ecr.aws/eks-distro/kubernetes/kube-proxy:v1.31.14-eks-1-31-47''\<rparr>),
      (''1.32'',
       \<lparr>r_eks_version = ''1.32'', r_channel = ''1-32'', r_number = 40, r_kube_version = ''v1.32.13'',
        r_server_tarball =
          [(''amd64'', \<lparr>a_uri = ''https://distro.eks.amazonaws.com/kubernetes-1-32/releases/40/artifacts/kubernetes/v1.32.13/kubernetes-server-linux-amd64.tar.gz'',
             a_sha256 = ''85f578ac5b167aced564d341eb2de2d0ec958d173ae74f547b4bbb3cde32206d''\<rparr>),
           (''arm64'', \<lparr>a_uri = ''https://distro.eks.amazonaws.com/kubernetes-1-32/releases/40/artifacts/kubernetes/v1.32.13/kubernetes-server-linux-arm64.tar.gz'',
             a_sha256 = ''8858668315a2155e84cfbe2db24b446d274e7977a82a3dd41f876d9bda668076''\<rparr>)],
        r_coredns_image = ''public.ecr.aws/eks-distro/coredns/coredns:v1.12.4-eks-1-32-40'',
        r_kube_proxy_image = ''public.ecr.aws/eks-distro/kubernetes/kube-proxy:v1.32.13-eks-1-32-40''\<rparr>),
      (''1.33'',
       \<lparr>r_eks_version = ''1.33'', r_channel = ''1-33'', r_number = 30, r_kube_version = ''v1.33.13'',
        r_server_tarball =
          [(''amd64'', \<lparr>a_uri = ''https://distro.eks.amazonaws.com/kubernetes-1-33/releases/30/artifacts/kubernetes/v1.33.13/kubernetes-server-linux-amd64.tar.gz'',
             a_sha256 = ''8571084ee767b0f2b3d09b88d6b5aefb5149a92b07cd6f2ddf07d7e1d47e88b9''\<rparr>),
           (''arm64'', \<lparr>a_uri = ''https://distro.eks.amazonaws.com/kubernetes-1-33/releases/30/artifacts/kubernetes/v1.33.13/kubernetes-server-linux-arm64.tar.gz'',
             a_sha256 = ''e9a8d847563960ae313d1e4c2b046c1d2ffcf72558222780572b7eecf01e7daf''\<rparr>)],
        r_coredns_image = ''public.ecr.aws/eks-distro/coredns/coredns:v1.14.3-eks-1-33-30'',
        r_kube_proxy_image = ''public.ecr.aws/eks-distro/kubernetes/kube-proxy:v1.33.13-eks-1-33-30''\<rparr>),
      (''1.34'',
       \<lparr>r_eks_version = ''1.34'', r_channel = ''1-34'', r_number = 21, r_kube_version = ''v1.34.9'',
        r_server_tarball =
          [(''amd64'', \<lparr>a_uri = ''https://distro.eks.amazonaws.com/kubernetes-1-34/releases/21/artifacts/kubernetes/v1.34.9/kubernetes-server-linux-amd64.tar.gz'',
             a_sha256 = ''d69b1668e8079597f5389b8c5c5b97c83a1e42cfbbe7dc06dec08fda6aa8fc4d''\<rparr>),
           (''arm64'', \<lparr>a_uri = ''https://distro.eks.amazonaws.com/kubernetes-1-34/releases/21/artifacts/kubernetes/v1.34.9/kubernetes-server-linux-arm64.tar.gz'',
             a_sha256 = ''b9988326bf7ba43b340300b05a3b91b96b149859c475a43ffe6d557f3efa6527''\<rparr>)],
        r_coredns_image = ''public.ecr.aws/eks-distro/coredns/coredns:v1.14.3-eks-1-34-21'',
        r_kube_proxy_image = ''public.ecr.aws/eks-distro/kubernetes/kube-proxy:v1.34.9-eks-1-34-21''\<rparr>),
      (''1.35'',
       \<lparr>r_eks_version = ''1.35'', r_channel = ''1-35'', r_number = 12, r_kube_version = ''v1.35.6'',
        r_server_tarball =
          [(''amd64'', \<lparr>a_uri = ''https://distro.eks.amazonaws.com/kubernetes-1-35/releases/12/artifacts/kubernetes/v1.35.6/kubernetes-server-linux-amd64.tar.gz'',
             a_sha256 = ''f29c0969f9cb7df9064ab33145a0eeaec03acc727468f51241fba2246fbe73c1''\<rparr>),
           (''arm64'', \<lparr>a_uri = ''https://distro.eks.amazonaws.com/kubernetes-1-35/releases/12/artifacts/kubernetes/v1.35.6/kubernetes-server-linux-arm64.tar.gz'',
             a_sha256 = ''cae80dd6c31e4d9001a218aca453ed927957cf1b8e63df777e913a80f6cc6d41''\<rparr>)],
        r_coredns_image = ''public.ecr.aws/eks-distro/coredns/coredns:v1.14.3-eks-1-35-12'',
        r_kube_proxy_image = ''public.ecr.aws/eks-distro/kubernetes/kube-proxy:v1.35.6-eks-1-35-12''\<rparr>),
      (''1.36'',
       \<lparr>r_eks_version = ''1.36'', r_channel = ''1-36'', r_number = 6, r_kube_version = ''v1.36.2'',
        r_server_tarball =
          [(''amd64'', \<lparr>a_uri = ''https://distro.eks.amazonaws.com/kubernetes-1-36/releases/6/artifacts/kubernetes/v1.36.2/kubernetes-server-linux-amd64.tar.gz'',
             a_sha256 = ''19bca528bfb2d98ac196a198e29b3226b34529133bb8de8c6e54fbd5ebe36bb4''\<rparr>),
           (''arm64'', \<lparr>a_uri = ''https://distro.eks.amazonaws.com/kubernetes-1-36/releases/6/artifacts/kubernetes/v1.36.2/kubernetes-server-linux-arm64.tar.gz'',
             a_sha256 = ''15a1c077110067b672176c049783f7834fab6c0c39e9c54dde3a2c73cfabff22''\<rparr>)],
        r_coredns_image = ''public.ecr.aws/eks-distro/coredns/coredns:v1.14.3-eks-1-36-6'',
        r_kube_proxy_image = ''public.ecr.aws/eks-distro/kubernetes/kube-proxy:v1.36.2-eks-1-36-6''\<rparr>)]"

text \<open>
  \<open>SupportedVersions\<close> ranges over the table, in whatever order Go's map iteration gives its keys,
  and sorts what it has collected.
\<close>

fun append_versions :: "string list \<Rightarrow> string list \<Rightarrow> string list" where
  "append_versions versions [] = versions"
| "append_versions versions (v # vs) = append_versions (versions @ [v]) vs"

definition supported_in_order :: "string list \<Rightarrow> string list" where
  "supported_in_order order = sort (append_versions [] order)"

definition SupportedVersions :: "string list" where
  "SupportedVersions = supported_in_order (map fst table)"

text \<open>The text of \<open>UnsupportedVersionError\<close> joins the versions with a comma and a space.\<close>

fun comma_separated :: "string list \<Rightarrow> string" where
  "comma_separated [] = []"
| "comma_separated [v] = v"
| "comma_separated (v # vs) = v @ '', '' @ comma_separated vs"

definition UnsupportedVersionError :: "string \<Rightarrow> string list \<Rightarrow> go_error" where
  "UnsupportedVersionError v supported =
     Errorf ''unsupported eks version %q, supported versions: %s'' [v, comma_separated supported]"

definition resolve_in :: "(string, Release) go_map \<Rightarrow> string list \<Rightarrow> string \<Rightarrow> go_error + Release" where
  "resolve_in releases order eksVersion =
     (case map_of releases eksVersion of
        None \<Rightarrow> Inl (UnsupportedVersionError eksVersion (supported_in_order order))
      | Some release \<Rightarrow> Inr release)"

definition Resolve :: "string \<Rightarrow> go_error + Release" where
  "Resolve eksVersion = resolve_in table (map fst table) eksVersion"

lemma Resolve_unfold:
  "Resolve eksVersion =
     (case map_of table eksVersion of
        None \<Rightarrow> Inl (UnsupportedVersionError eksVersion SupportedVersions)
      | Some release \<Rightarrow> Inr release)"
  unfolding Resolve_def resolve_in_def SupportedVersions_def ..

text \<open>\<open>minor_of\<close>: what follows the first dot, as a number; both of the loop's \<open>continue\<close>s are \<open>None\<close>.\<close>

definition minor_of :: "string \<Rightarrow> int option" where
  "minor_of v = (case cut_at (CHR ''.'') v of None \<Rightarrow> None | Some (_, minorStr) \<Rightarrow> atoi minorStr)"

fun latest_from :: "string \<Rightarrow> int \<Rightarrow> string list \<Rightarrow> string" where
  "latest_from latest latestMinor [] = latest"
| "latest_from latest latestMinor (v # vs) =
     (case minor_of v of
        None \<Rightarrow> latest_from latest latestMinor vs
      | Some minor \<Rightarrow>
          if minor > latestMinor then latest_from v minor vs else latest_from latest latestMinor vs)"

definition latestVersion :: "string list \<Rightarrow> string" where
  "latestVersion versions = latest_from [] (- 1) versions"

section \<open>The latest version\<close>

lemma latest_from_max:
  "(\<forall>v \<in> set vs. \<forall>i. minor_of v = Some i \<longrightarrow> i \<le> m) \<and> latest_from l m vs = l \<or>
   (\<exists>i. minor_of (latest_from l m vs) = Some i \<and> m < i \<and> latest_from l m vs \<in> set vs \<and>
     (\<forall>v \<in> set vs. \<forall>j. minor_of v = Some j \<longrightarrow> j \<le> i))"
proof (induction vs arbitrary: l m)
  case (Cons v vs)
  show ?case
  proof (cases "minor_of v")
    case None
    with Cons [where l = l and m = m] show ?thesis by fastforce
  next
    case (Some i)
    with Cons [where l = v and m = i] Cons [where l = l and m = m] show ?thesis by (cases "m < i") (force+)
  qed
qed simp

lemma latestVersion_max:
  assumes "v \<in> set vs" and "minor_of v = Some i" and "0 \<le> i"
  shows "\<exists>j. minor_of (latestVersion vs) = Some j \<and> latestVersion vs \<in> set vs \<and>
    (\<forall>u \<in> set vs. \<forall>k. minor_of u = Some k \<longrightarrow> k \<le> j)"
  using latest_from_max [where vs = vs and m = "- 1" and l = "[]"] assms unfolding latestVersion_def by force

text \<open>Of the versions of a sorted list with that number, the first one is taken.\<close>

lemma latest_from_first:
  "sorted vs \<Longrightarrow> \<forall>v \<in> set vs. minor_of v = Some k \<and> minor_of (latest_from l m vs) = Some k \<longrightarrow>
     m < k \<longrightarrow> latest_from l m vs \<le> v"
proof (induction vs arbitrary: l m)
  case (Cons v vs)
  show ?case
  proof (cases "minor_of v")
    case None
    with Cons show ?thesis by simp
  next
    case (Some i)
    show ?thesis
    proof (cases "m < i")
      case False
      with Some Cons show ?thesis by auto
    next
      case True
      from latest_from_max [where vs = vs and l = v and m = i]
      consider "latest_from v i vs = v" | j where "minor_of (latest_from v i vs) = Some j" "i < j" by blast
      then show ?thesis
      proof cases
        case 1
        with Some True have eq: "latest_from l m (v # vs) = v" by simp
        show ?thesis unfolding eq using Cons.prems by auto
      next
        case 2
        with Some True Cons.IH [of v i] Cons.prems show ?thesis by auto
      qed
    qed
  qed
qed simp

lemma latestVersion_first_max:
  assumes "sorted vs" and "v \<in> set vs" and "minor_of v = Some i" and "0 \<le> i"
  shows "\<exists>j. minor_of (latestVersion vs) = Some j \<and> latestVersion vs \<in> set vs \<and>
    (\<forall>u \<in> set vs. \<forall>k. minor_of u = Some k \<longrightarrow> k < j \<or> k = j \<and> latestVersion vs \<le> u)"
proof -
  from latestVersion_max [OF assms(2-4)] obtain j where j: "minor_of (latestVersion vs) = Some j"
    "latestVersion vs \<in> set vs" "\<forall>u \<in> set vs. \<forall>k. minor_of u = Some k \<longrightarrow> k \<le> j" by blast
  with assms(2-4) have "- 1 < j" by force
  with latest_from_first [OF assms(1), of j "[]" "- 1"] j show ?thesis
    unfolding latestVersion_def by (metis order_le_less)
qed

lemma append_versions: "append_versions vs xs = vs @ xs"
  by (induction xs arbitrary: vs) simp_all

lemma supported_in_order_facts [simp]:
  "sorted (supported_in_order order)" "mset (supported_in_order order) = mset order"
  "set (supported_in_order order) = set order"
  by (simp_all add: supported_in_order_def append_versions)

section \<open>Properties\<close>

text \<open>What the parts of a release have in common: they name its version, channel and number.\<close>

definition dashed :: "string \<Rightarrow> string" where
  "dashed = map (\<lambda>c. if c = CHR ''.'' then CHR ''-'' else c)"

definition release_id :: "Release \<Rightarrow> string" where
  "release_id r = ''eks-'' @ r_channel r @ ''-'' @ string_of_int (r_number r)"

definition tarball_uri :: "Release \<Rightarrow> string \<Rightarrow> string" where
  "tarball_uri r arch =
     ''https://distro.eks.amazonaws.com/kubernetes-'' @ r_channel r @ ''/releases/'' @ string_of_int (r_number r) @
     ''/artifacts/kubernetes/'' @ r_kube_version r @ ''/kubernetes-server-linux-'' @ arch @ ''.tar.gz''"

definition hex_digest :: "string \<Rightarrow> bool" where
  "hex_digest s \<longleftrightarrow> length s = 64 \<and> list_all (\<lambda>c. c \<in> set ''0123456789abcdef'') s"

definition coherent :: "string \<Rightarrow> Release \<Rightarrow> bool" where
  "coherent v r \<longleftrightarrow>
     r_eks_version r = v \<and> r_channel r = dashed v \<and> prefix (''v'' @ v @ ''.'') (r_kube_version r) \<and>
     map fst (r_server_tarball r) = [''amd64'', ''arm64''] \<and>
     list_all (\<lambda>(arch, a). a_uri a = tarball_uri r arch \<and> hex_digest (a_sha256 a)) (r_server_tarball r) \<and>
     suffix (release_id r) (snd (splitImageRef (r_coredns_image r))) \<and>
     snd (splitImageRef (r_kube_proxy_image r)) = r_kube_version r @ ''-'' @ release_id r \<and>
     validate r = Inr ()"

lemma table_coherent: "list_all (\<lambda>(v, r). coherent v r) table"
  by code_simp

text \<open>
  C27: which release a version resolves to, and which version is the default, for any table of
  releases and in whatever order the iteration over it meets its keys. A version of the table
  resolves to its release; any other is refused with the sorted list of the table's versions. If
  some version of the table has a number after its first dot, the default is the version with the
  greatest such number, the first in the order of characters if several have it; it is chosen by
  number, so that 1.10 wins over 1.9. For the table in the source, every release found is about
  its version: it names the version and its channel, its Kubernetes version extends it, both
  architectures have a tarball of that release with a SHA-256 digest, and the images carry the
  release in their tags.
\<close>

theorem releases_resolve:
  assumes "distinct (map fst releases)" and "mset order = mset (map fst releases)"
    and "u \<in> set order" and "minor_of u = Some i" and "0 \<le> i"
  shows "(case resolve_in releases order v of
      Inr r \<Rightarrow> (v, r) \<in> set releases
    | Inl e \<Rightarrow> v \<notin> fst ` set releases \<and>
        (\<exists>vs. e = UnsupportedVersionError v vs \<and> sorted vs \<and> mset vs = mset (map fst releases))) \<and>
   (\<exists>latest j r. latestVersion (supported_in_order order) = latest \<and> minor_of latest = Some j \<and>
      resolve_in releases order latest = Inr r \<and> (latest, r) \<in> set releases \<and>
      (\<forall>(v', r') \<in> set releases. \<forall>k. minor_of v' = Some k \<longrightarrow> k < j \<or> k = j \<and> latest \<le> v')) \<and>
   (\<forall>v' r. Resolve v' = Inr r \<longrightarrow> coherent v' r)"
proof -
  let ?vs = "supported_in_order order"
  have keys: "set order = fst ` set releases" using arg_cong [OF assms(2), of set_mset] by simp
  have "case resolve_in releases order v of
      Inr r \<Rightarrow> (v, r) \<in> set releases
    | Inl e \<Rightarrow> v \<notin> fst ` set releases \<and>
        (\<exists>vs. e = UnsupportedVersionError v vs \<and> sorted vs \<and> mset vs = mset (map fst releases))"
    using assms(2) by (auto simp: resolve_in_def supported_in_order_facts map_of_eq_None_iff
        split: option.splits dest: map_of_SomeD)
  moreover from assms(3) have "u \<in> set ?vs" by (simp add: supported_in_order_facts)
  from latestVersion_first_max [OF _ this assms(4,5)] obtain j where
    j: "minor_of (latestVersion ?vs) = Some j" "latestVersion ?vs \<in> set order"
    and max: "\<forall>v \<in> set order. \<forall>k. minor_of v = Some k \<longrightarrow> k < j \<or> k = j \<and> latestVersion ?vs \<le> v"
    by (auto simp: supported_in_order_facts)
  from j(2) keys obtain r where r: "(latestVersion ?vs, r) \<in> set releases" by auto
  with assms(1) have "resolve_in releases order (latestVersion ?vs) = Inr r" by (simp add: resolve_in_def)
  moreover have "\<forall>(v', r') \<in> set releases. \<forall>k. minor_of v' = Some k \<longrightarrow> k < j \<or> k = j \<and> latestVersion ?vs \<le> v'"
    using max keys by force
  moreover have "\<forall>v' r. Resolve v' = Inr r \<longrightarrow> coherent v' r"
    using table_coherent by (auto simp: Resolve_unfold list_all_iff split: option.splits dest!: map_of_SomeD)
  ultimately show ?thesis using j(1) r by blast
qed

text \<open>A table with one-digit and two-digit minor versions, met in an order that is not sorted.\<close>

definition short_table :: "(string, Release) go_map" where
  "short_table = map (\<lambda>v. (v, snd (hd table))) [''1.9'', ''1.10'', ''latest'']"

theorem releases_resolve_witness:
  "\<exists>r. resolve_in short_table [''latest'', ''1.10'', ''1.9'']
      (latestVersion (supported_in_order [''latest'', ''1.10'', ''1.9''])) = Inr r \<and>
    latestVersion (supported_in_order [''latest'', ''1.10'', ''1.9'']) = ''1.10''"
proof -
  let ?order = "[''latest'', ''1.10'', ''1.9'']"
  have minors: "minor_of ''1.9'' = Some 9" "minor_of ''1.10'' = Some 10" "minor_of ''latest'' = None" by code_simp+
  have keys: "fst ` set short_table = {''1.9'', ''1.10'', ''latest''}" by (simp add: short_table_def)
  have d: "distinct (map fst short_table)" and m: "mset ?order = mset (map fst short_table)"
    and u: "''1.10'' \<in> set ?order" and i: "(0 :: int) \<le> 10"
    by (simp_all add: short_table_def comp_def)
  from conjunct1 [OF conjunct2 [OF releases_resolve [OF d m u minors(2) i, of "[]"]]] obtain latest j r where
    l: "latestVersion (supported_in_order ?order) = latest" "minor_of latest = Some j"
      "resolve_in short_table ?order latest = Inr r" "(latest, r) \<in> set short_table"
    and max: "\<forall>(v', r') \<in> set short_table. \<forall>k. minor_of v' = Some k \<longrightarrow> k < j \<or> k = j \<and> latest \<le> v'"
    by (elim exE conjE)
  from l(4) keys have "latest \<in> {''1.9'', ''1.10'', ''latest''}" by force
  moreover have "(''1.10'', snd (hd table)) \<in> set short_table" by (simp add: short_table_def)
  with max minors(2) have "10 \<le> j" by fastforce
  ultimately have "latest = ''1.10''" using l(2) minors by auto
  with l show ?thesis by blast
qed

end
