(* ===== verification/Create_Cluster.thy ===== *)
theory Create_Cluster
  imports Deployment Release_Table Tgb_Crd Storage_Class Component_Dir Principal_Login
begin

text \<open>
  \<open>fjord create cluster\<close> and \<open>fjord delete cluster\<close> (\<open>cli/create.go\<close>, \<open>cli/delete.go\<close>,
  \<open>cli/provider.go\<close>): the configuration of the cluster with the staging of its authenticator, the
  components it runs, the cluster itself, the user's kubeconfig, the default state of an EKS
  cluster and the deployment of the agent. The host's files and the network are the world \<open>'f\<close>;
  the clusters, rask, docker, the cryptography and the clock are the world \<open>'w\<close>.
\<close>

section \<open>The host\<close>

text \<open>
  \<open>ch_new_rask\<close> is rask's constructor, \<open>ch_rest_config\<close> is \<open>RESTConfigFromKubeConfig\<close>, the clients
  are client-go's \<open>NewForConfig\<close>; the manifests are the embedded ones, decoded.
\<close>

record ('f, 'k, 'r, 'w) create_host =
  ch_fs :: "'f fs_ops"
  ch_clientcmd :: "'f clientcmd"
  ch_walk :: "'f walker"
  ch_user_cache_dir :: "go_error + string"
  ch_sha256_hex :: "byte list \<Rightarrow> string"
  ch_gunzip :: untar
  ch_http :: "(stream, 'f) http_client"
  ch_tools :: "('k, 'w) tools"
  ch_new_rask :: "go_error + 'w rask"
  ch_rest_config :: "string \<Rightarrow> go_error + 'r"
  ch_client :: "'r \<Rightarrow> go_error + 'w kube_client"
  ch_dynamic :: "'r \<Rightarrow> go_error + 'w dynamic_client"
  ch_policy_crd :: manifest_text
  ch_enforcer :: manifest_text
  ch_to_unstructured :: "resource_definition \<Rightarrow> go_error + (string, json) go_map"

definition NewProvider :: "('f, 'k, 'r, 'w) create_host \<Rightarrow> go_error + 'w rask" where
  "NewProvider ch =
     (case ch_new_rask ch of
        Inl e \<Rightarrow> Inl (Wrapf ''new rask provider: %w'' [] e)
      | Inr rk \<Rightarrow> Inr rk)"

definition newClusterProvider :: "('f, 'k, 'r, 'w) create_host \<Rightarrow> go_error + 'w rask" where
  "newClusterProvider ch =
     (case NewProvider ch of
        Inl e \<Rightarrow> Inl (Wrapf ''new rask provider: %w'' [] e)
      | Inr rk \<Rightarrow> Inr rk)"

definition NewClient :: "('f, 'k, 'r, 'w) create_host \<Rightarrow> string \<Rightarrow> go_error + 'w kube_client" where
  "NewClient ch kubeconfig =
     (case ch_rest_config ch kubeconfig of
        Inl e \<Rightarrow> Inl (Wrapf ''parse kubeconfig: %w'' [] e)
      | Inr restConfig \<Rightarrow>
          (case ch_client ch restConfig of
             Inl e \<Rightarrow> Inl (Wrapf ''create kubernetes client: %w'' [] e)
           | Inr client \<Rightarrow> Inr client))"

definition clusterClient ::
  "('f, 'k, 'r, 'w) create_host \<Rightarrow> 'w rask \<Rightarrow> string \<Rightarrow> 'w \<Rightarrow> go_error + 'w kube_client" where
  "clusterClient ch rk name w =
     (case KubeConfig rk w name of
        Inl e \<Rightarrow> Inl (Wrapf ''get kubeconfig: %w'' [] e)
      | Inr kubeconfig \<Rightarrow>
          (case NewClient ch kubeconfig of
             Inl e \<Rightarrow> Inl (Wrapf ''create kubernetes client: %w'' [] e)
           | Inr client \<Rightarrow> Inr client))"

definition clusterDynamicClient ::
  "('f, 'k, 'r, 'w) create_host \<Rightarrow> 'w rask \<Rightarrow> string \<Rightarrow> 'w \<Rightarrow> go_error + 'w dynamic_client" where
  "clusterDynamicClient ch rk name w =
     (case KubeConfig rk w name of
        Inl e \<Rightarrow> Inl (Wrapf ''get kubeconfig: %w'' [] e)
      | Inr kubeconfig \<Rightarrow>
          (case ch_rest_config ch kubeconfig of
             Inl e \<Rightarrow> Inl (Wrapf ''parse kubeconfig: %w'' [] e)
           | Inr restConfig \<Rightarrow>
               (case ch_dynamic ch restConfig of
                  Inl e \<Rightarrow> Inl (Wrapf ''create dynamic client: %w'' [] e)
                | Inr dy \<Rightarrow> Inr dy)))"

section \<open>What is asked for\<close>

definition validateCreateClusterOptions :: "createClusterOptions \<Rightarrow> go_error + unit" where
  "validateCreateClusterOptions opts =
     (if co_with_load_balancer opts \<and> \<not> co_enable_auth opts
      then Inl (Errorf (''--with-loadbalancer requires --enable-auth: fjord's LoadBalancer controller runs inside fjord-agent, '' @
          ''which is only deployed when authentication is enabled (decoupling agent deployment from --enable-auth is follow-up work)'') [])
      else Inr ())"

definition resolveEKSRelease :: "createClusterOptions \<Rightarrow> go_error + Release" where
  "resolveEKSRelease opts =
     (let eksVersion = (if co_eks_version opts = [] then latestVersion SupportedVersions else co_eks_version opts)
      in case Resolve eksVersion of
           Inl e \<Rightarrow> Inl (Wrapf ''resolve eks version: %w'' [] e)
         | Inr release \<Rightarrow> Inr release)"

text \<open>The parts of the message, each a format with its arguments.\<close>

definition clusterReadyMessage :: "createClusterOptions \<Rightarrow> (string \<times> string list) list" where
  "clusterReadyMessage opts =
     (''Cluster %q is ready. kubectl context is set to %q.'', [createClusterOptions.co_name opts, createClusterOptions.co_name opts]) #
     (if co_enable_auth opts
      then [('' fjord-agent's fake STS API is reachable at %s:%d.'', [AgentLoopbackHost, string_of_int AgentNodePort])]
      else [])"

section \<open>The configuration\<close>

definition authnStagingDir :: "('f, 'k, 'r, 'w) create_host \<Rightarrow> string \<Rightarrow> go_error + string" where
  "authnStagingDir ch name =
     (case ch_user_cache_dir ch of
        Inl e \<Rightarrow> Inl (Wrapf ''resolve user cache dir: %w'' [] e)
      | Inr cacheDir \<Rightarrow> Inr (path_join (path_join (path_join cacheDir ''fjord'') ''authn'') name))"

definition stageAuthenticator ::
  "('f, 'k, 'r, 'w) create_host \<Rightarrow> createClusterOptions \<Rightarrow> 'k CA \<Rightarrow> 'f \<Rightarrow> 'w
   \<Rightarrow> (go_error + StagedAuthn) \<times> 'f \<times> 'w" where
  "stageAuthenticator ch opts ca f w =
     (case authnStagingDir ch (createClusterOptions.co_name opts) of
        Inl e \<Rightarrow> (Inl e, f, w)
      | Inr dir \<Rightarrow>
          (case fs_remove_all (ch_fs ch) dir f of
             (Inl e, f1) \<Rightarrow> (Inl (Wrapf ''clear stale authenticator staging directory %q: %w'' [dir] e), f1, w)
           | (Inr _, f1) \<Rightarrow>
               (case Stage (ch_fs ch) (ch_clientcmd ch) (tl_crypto (ch_tools ch)) dir ca f1 w of
                  (Inl e, f2, w1) \<Rightarrow> (Inl (Wrapf ''stage authenticator: %w'' [] e), f2, w1)
                | (Inr staged, f2, w1) \<Rightarrow> (Inr staged, f2, w1))))"

definition buildClusterConfig ::
  "('f, 'k, 'r, 'w) create_host \<Rightarrow> createClusterOptions \<Rightarrow> Release \<Rightarrow> 'f \<Rightarrow> 'w
   \<Rightarrow> (go_error + cluster_config \<times> ('k CA \<times> ServerCert) option) \<times> 'f \<times> 'w" where
  "buildClusterConfig ch opts release f w =
     (case splitImageRef (r_coredns_image release) of
        (repository, tag) \<Rightarrow>
          (let config = \<lparr>cg_name = createClusterOptions.co_name opts, cg_kube_version = r_kube_version release,
                 cg_coredns_repository = repository, cg_coredns_tag = tag, cg_extra_mounts = [],
                 cg_auth_webhook = None\<rparr> in
           if \<not> co_enable_auth opts then (Inr (config, None), f, w)
           else
             (case NewCA (tl_crypto (ch_tools ch)) ''fjord'' w of
                (Inl e, w1) \<Rightarrow> (Inl (Wrapf ''generate fjord CA: %w'' [] e), f, w1)
              | (Inr ca, w1) \<Rightarrow>
                  (case stageAuthenticator ch opts ca f w1 of
                     (Inl e, f1, w2) \<Rightarrow> (Inl e, f1, w2)
                   | (Inr staged, f1, w2) \<Rightarrow>
                       (Inr (config\<lparr>cg_extra_mounts := sa_mounts staged,
                                    cg_auth_webhook := Some (sa_webhook staged)\<rparr>,
                             Some (ca, sa_cert staged)), f1, w2)))))"

definition buildCreateOptions ::
  "('f, 'k, 'r, 'w) create_host \<Rightarrow> createClusterOptions \<Rightarrow> cluster_config \<Rightarrow> Release \<Rightarrow> 'f
   \<Rightarrow> (go_error + create_options) \<times> 'f" where
  "buildCreateOptions ch opts config release f =
     (case Materialize (ch_fs ch) (ch_sha256_hex ch) (ch_gunzip ch) (ch_user_cache_dir ch) release
             (tl_arch (ch_tools ch)) (ch_http ch) f of
        (Inl e, f1) \<Rightarrow> (Inl (Wrapf ''materialize eks-d components: %w'' [] e), f1)
      | (Inr componentDir, f1) \<Rightarrow>
          (Inr \<lparr>cr_component_dir = componentDir, cr_config = Some config, cr_wait_for_ready = co_wait opts\<rparr>, f1))"

section \<open>Creating and deleting a cluster\<close>

text \<open>The path is the one that is logged.\<close>

definition mergeReadyKubeconfig ::
  "('f, 'k, 'r, 'w) create_host \<Rightarrow> 'w rask \<Rightarrow> string \<Rightarrow> 'f \<Rightarrow> 'w \<Rightarrow> (go_error + string) \<times> 'f" where
  "mergeReadyKubeconfig ch rk name f w =
     (case mergeClusterKubeconfig (ch_clientcmd ch) (KubeConfig rk w) name f of
        (Inl e, f1) \<Rightarrow> (Inl (Wrapf ''merge kubeconfig: %w'' [] e), f1)
      | (Inr path, f1) \<Rightarrow> (Inr path, f1))"

definition applyEKSDefaultState ::
  "('f, 'k, 'r, 'w) create_host \<Rightarrow> 'w rask \<Rightarrow> 'w kube_client \<Rightarrow> string \<Rightarrow> 'w \<Rightarrow> (go_error + unit) \<times> 'w" where
  "applyEKSDefaultState ch rk kl name =
     and_then (wrapped ''ensure default storage class: %w'' (EnsureDefaultStorageClass (kl_objects kl)))
       (\<lambda>w. case clusterDynamicClient ch rk name w of
              Inl e \<Rightarrow> (Inl e, w)
            | Inr dy \<Rightarrow>
                and_then (wrapped ''ensure cluster network policy crd: %w''
                            (EnsureClusterNetworkPolicyCRD dy (ch_policy_crd ch)))
               (and_then (wrapped ''ensure target group binding crd: %w''
                            (EnsureTargetGroupBindingCRD dy (ch_to_unstructured ch)))
                         (wrapped ''ensure network policy enforcer: %w''
                            (EnsureNetworkPolicyEnforcer dy (ch_enforcer ch)))) w)"

text \<open>What is returned on success is the message that is logged last.\<close>

definition runCreateCluster ::
  "('f, 'k, 'r, 'w) create_host \<Rightarrow> createClusterOptions \<Rightarrow> 'f \<Rightarrow> 'w
   \<Rightarrow> (go_error + (string \<times> string list) list) \<times> 'f \<times> 'w" where
  "runCreateCluster ch opts f w =
     (case validateCreateClusterOptions opts of
        Inl e \<Rightarrow> (Inl e, f, w)
      | Inr _ \<Rightarrow>
     (case resolveEKSRelease opts of
        Inl e \<Rightarrow> (Inl e, f, w)
      | Inr release \<Rightarrow>
     (case buildClusterConfig ch opts release f w of
        (Inl e, f1, w1) \<Rightarrow> (Inl e, f1, w1)
      | (Inr (config, authn), f1, w1) \<Rightarrow>
     (case newClusterProvider ch of
        Inl e \<Rightarrow> (Inl e, f1, w1)
      | Inr rk \<Rightarrow>
     (case buildCreateOptions ch opts config release f1 of
        (Inl e, f2) \<Rightarrow> (Inl e, f2, w1)
      | (Inr createOpts, f2) \<Rightarrow>
     (case CreateCluster rk (ch_walk ch) (createClusterOptions.co_name opts) createOpts f2 w1 of
        (Inl e, w2) \<Rightarrow> (Inl (Wrapf ''create cluster: %w'' [] e), f2, w2)
      | (Inr _, w2) \<Rightarrow>
     (case mergeReadyKubeconfig ch rk (createClusterOptions.co_name opts) f2 w2 of
        (Inl e, f3) \<Rightarrow> (Inl e, f3, w2)
      | (Inr path, f3) \<Rightarrow>
     (case clusterClient ch rk (createClusterOptions.co_name opts) w2 of
        Inl e \<Rightarrow> (Inl e, f3, w2)
      | Inr kl \<Rightarrow>
     (case applyEKSDefaultState ch rk kl (createClusterOptions.co_name opts) w2 of
        (Inl e, w3) \<Rightarrow> (Inl e, f3, w3)
      | (Inr _, w3) \<Rightarrow>
     (case (case (if co_enable_auth opts then authn else None) of
              None \<Rightarrow> (Inr (), w3)
            | Some (ca, cert) \<Rightarrow>
                deployAgent ((ch_tools ch)\<lparr>tl_rask := rk\<rparr>) kl opts ca cert (r_eks_version release) w3) of
        (Inl e, w4) \<Rightarrow> (Inl e, f3, w4)
      | (Inr _, w4) \<Rightarrow> (Inr (clusterReadyMessage opts), f3, w4)))))))))))"

definition runDeleteCluster ::
  "('f, 'k, 'r, 'w) create_host \<Rightarrow> string \<Rightarrow> 'f \<Rightarrow> 'w \<Rightarrow> (go_error + unit) \<times> 'f \<times> 'w" where
  "runDeleteCluster ch name f w =
     (case newClusterProvider ch of
        Inl e \<Rightarrow> (Inl e, f, w)
      | Inr rk \<Rightarrow>
          (case DeleteCluster rk name w of
             (Inl e, w1) \<Rightarrow> (Inl (Wrapf ''delete cluster: %w'' [] e), f, w1)
           | (Inr _, w1) \<Rightarrow>
               (case removeClusterKubeconfig (ch_clientcmd ch) name f of
                  (Inl e, f1) \<Rightarrow> (Inl (Wrapf ''remove kubeconfig entry: %w'' [] e), f1, w1)
                | (Inr _, f1) \<Rightarrow> (Inr (), f1, w1))))"


section \<open>The files it works on\<close>

text \<open>
  Files, network and clientcmd together: what a file loads to depends on the file only, writing a
  configuration touches one file, and walking a directory meets every file in it.
\<close>

locale create_files = download_world fs files hc + kube_files cc
  for fs :: "'f fs_ops" and files :: "'f \<Rightarrow> file_map" and hc :: "(stream, 'f) http_client"
    and cc :: "'f clientcmd" +
  fixes walk :: "'f walker"
  assumes load_law:
      "files f path = Some x \<Longrightarrow> files f' path = Some x \<Longrightarrow> cc_load_file cc path f' = cc_load_file cc path f"
    and load_exists: "cc_load_file cc path f = Inr config \<Longrightarrow> files f path \<noteq> None"
    and write_frame: "cc_write_file cc config path f = (r, f') \<Longrightarrow> q \<noteq> path \<Longrightarrow> files f' q = files f q"
    and walk_law:
      "walk dir f = Inr entries \<Longrightarrow> clean_dir dir \<Longrightarrow> plain n \<Longrightarrow> files f (dir @ slash # n) \<noteq> None \<Longrightarrow>
       (n, False) \<in> set entries"

context download_world
begin

text \<open>Materializing a release stays inside the cache directory.\<close>

lemma materialize_frame:
  assumes "materialize fs hash gunzip release arch hc cacheDir w = (res, w')" and "clean_dir cacheDir"
    and "\<And>asset. map_of (r_server_tarball release) arch = Some asset \<Longrightarrow>
      plain (a_sha256 asset) \<and> plain (a_sha256 asset @ ''.tar.gz'') \<and> hd (a_sha256 asset) \<noteq> CHR ''.''"
    and "\<not> under cacheDir q"
  shows "files w' q = files w q"
proof (cases "map_of (r_server_tarball release) arch")
  case None
  with assms(1) show ?thesis by (simp add: materialize_def)
next
  case (Some asset)
  have name: "plain (a_sha256 asset)" "plain (a_sha256 asset @ ''.tar.gz'')" "hd (a_sha256 asset) \<noteq> CHR ''.''"
    "hd (a_sha256 asset @ ''.tar.gz'') \<noteq> CHR ''.''"
    using assms(3) [OF Some] by (auto simp: plain_def)
  have below: "\<not> under (cacheDir @ slash # x) q" for x using assms(4) under_trans [OF under_child] by blast
  then have temp: "\<not> temp_of cacheDir pat q" for pat by (auto simp: temp_of_def)
  let ?dir = "cacheDir @ slash # a_sha256 asset"
  have join: "path_join cacheDir (a_sha256 asset) = ?dir" by (rule path_join_plain(1) [OF assms(2) name(1)])
  obtain r1 w1 where dl: "DownloadServerTarball fs hash hc asset cacheDir w = (r1, w1)" by fastforce
  have w1: "files w1 q = files w q" using tarball_result [OF dl assms(2) name(2,4)] below temp by blast
  obtain b w2 where ha: "hasAllBinaries fs ?dir w1 = (b, w2)" by fastforce
  have w2: "files w2 = files w1"
    using has_all_binaries_result [OF ha [unfolded hasAllBinaries_def] clean_dir_child [OF assms(2) name(1)] subset_refl] by blast
  obtain r3 w3 where rm: "fs_remove_all fs ?dir w2 = (r3, w3)" by fastforce
  have w3: "files w3 q = files w2 q" using remove_all_law [OF rm] below by (simp add: same_outside_def)
  obtain tp where tp: "tp = (case r1 of Inr p \<Rightarrow> p | Inl _ \<Rightarrow> [])" by blast
  obtain r4 w4 where ex: "extractComponentDir fs gunzip tp ?dir w3 = (r4, w4)" by fastforce
  have w4: "files w4 q = files w3 q"
    using extractComponentDir_result [OF ex assms(2) refl name(1,3)] below temp by blast
  from assms(1) Some dl ha rm ex tp have "w' \<in> {w1, w2, w3, w4}"
    by (auto simp: materialize_def join Let_def split: sum.splits if_splits)
  with w1 w2 w3 w4 show ?thesis by auto
qed

text \<open>
  The directory that is handed out belongs to the release: the tarball its asset names is in the
  cache and has the asset's checksum, and binaries that were not all there come from it.
\<close>

lemma materialize_from_tarball:
  assumes "materialize fs hash gunzip release arch hc cacheDir w = (Inr d, w')"
    and "map_of (r_server_tarball release) arch = Some asset" and "clean_dir cacheDir"
    and "plain (a_sha256 asset)" and "plain (a_sha256 asset @ ''.tar.gz'')" and "hd (a_sha256 asset) \<noteq> CHR ''.''"
  defines "dir \<equiv> cacheDir @ slash # a_sha256 asset" and "tar \<equiv> cacheDir @ slash # a_sha256 asset @ ''.tar.gz''"
  shows "\<exists>tarball. files w' tar = Some tarball \<and> hash (fl_data tarball) = a_sha256 asset \<and>
    ((\<exists>n \<in> set binaries. files w (dir @ slash # n) = None) \<longrightarrow>
       (\<exists>ax. gunzip (fl_data tarball) = Inr ax \<and>
          (\<forall>n \<in> set binaries. \<exists>g. files w' (dir @ slash # n) = Some g \<and> from_entry (ax_entries ax) n g)))"
proof -
  have ne: "a_sha256 asset \<noteq> []" using assms(4) by (simp add: plain_def)
  have tarhd: "hd (a_sha256 asset @ ''.tar.gz'') \<noteq> CHR ''.''" using assms(6) ne by simp
  have join: "path_join cacheDir (a_sha256 asset) = dir" unfolding dir_def by (rule path_join_plain(1) [OF assms(3,4)])
  have clean: "clean_dir dir" unfolding dir_def by (rule clean_dir_child [OF assms(3,4)])
  have tarclean: "path_clean tar = tar" using clean_dir_child [OF assms(3,5)] by (simp add: tar_def clean_dir_def)
  have notar: "\<not> under dir tar" "\<not> under tar (dir @ slash # n)" for n
    unfolding dir_def tar_def append_assoc append_Cons under_prefix_cases
    using plain_no_slash [OF assms(5)] by (auto simp: prefix_def)
  have visible: "\<not> temp_of cacheDir (CHR ''.'' # pat) (cacheDir @ slash # a_sha256 asset @ rest)" for pat rest
    using assms(6) ne by (cases "a_sha256 asset") (auto simp: temp_of_def under_iff)
  obtain r1 w1 where dl: "DownloadServerTarball fs hash hc asset cacheDir w = (r1, w1)" by fastforce
  with assms(1,2) obtain tp where tp: "r1 = Inr tp" by (auto simp: materialize_def split: sum.splits)
  note tr = tarball_result [OF dl assms(3,5) tarhd, folded tar_def]
  from tr tp obtain tarball where t: "tp = tar" "files w1 tar = Some tarball" "hash (fl_data tarball) = a_sha256 asset" by blast
  have bins: "files w1 (dir @ slash # n) = files w (dir @ slash # n)" for n
    using conjunct1 [OF tr] notar(2) visible [of "''download-''" "slash # n"] by (simp add: dir_def)
  obtain b w2 where ha: "hasAllBinaries fs dir w1 = (b, w2)" by fastforce
  note all = has_all_binaries_result [OF ha [unfolded hasAllBinaries_def] clean subset_refl]
  show ?thesis
  proof (cases b)
    case True
    with assms(1,2) dl tp ha all have "files w' = files w1" by (simp add: materialize_def join Let_def)
    with t all True bins show ?thesis by auto
  next
    case False
    obtain r3 w3 where rm: "fs_remove_all fs dir w2 = (r3, w3)" by fastforce
    obtain r4 w4 where ex: "extractComponentDir fs gunzip tp dir w3 = (r4, w4)" by fastforce
    from assms(1,2) dl tp ha False rm ex have run: "r4 = Inr ()" "w' = w4"
      by (auto simp: materialize_def join Let_def split: sum.splits)
    have kept: "files w3 tar = Some tarball"
      using remove_all_law [OF rm] notar(1) all t(2) by (simp add: same_outside_def)
    note xr = extractComponentDir_result [OF ex assms(3) dir_def [THEN meta_eq_to_obj_eq] assms(4,6)]
    have "files w' tar = Some tarball"
      using conjunct1 [OF xr] notar(1) visible [of "''componentdir-''" "''.tar.gz''"] kept run(2) by (simp add: tar_def)
    moreover from conjunct2 [OF xr] run kept obtain ax where "gunzip (fl_data tarball) = Inr ax"
      "\<forall>n \<in> set binaries. \<exists>g. files w' (dir @ slash # n) = Some g \<and> from_entry (ax_entries ax) n g"
      by (auto simp: t(1) tarclean)
    ultimately show ?thesis using t(3) by blast
  qed
qed

end

context create_files
begin

lemma Stage_works:
  assumes "Stage fs cc cy baseDir ca f w = (Inr staged, f', w')" and "clean_dir baseDir"
  defines "dir \<equiv> baseDir @ slash # authnDirName"
  shows "sa_mounts staged = [\<lparr>mo_host_path = dir, mo_container_path = nodeAuthnDir\<rparr>] \<and>
    sa_webhook staged =
      \<lparr>aw_config_file_path = nodeAuthnDir @ ''/'' @ webhookFileName, aw_volume_mount_path = nodeAuthnDir\<rparr> \<and>
    IssueServerCert cy ca AuthenticatorServiceAccountName [authenticatorServerName] w = (Inr (sa_cert staged), w') \<and>
    (\<exists>config. cc_load_file cc (dir @ slash # webhookFileName) f' = Inr config \<and>
       view config = view (webhook_kubeconfig ca))"
proof -
  have names: "plain authnDirName" "plain webhookFileName"
    by (simp_all add: plain_def dotdot_def authnDirName_def webhookFileName_def)
  have joins: "path_join baseDir authnDirName = dir" "path_join dir webhookFileName = dir @ slash # webhookFileName"
    unfolding dir_def using path_join_plain(1) clean_dir_child names assms(2) by blast+
  from assms(1) obtain f1 where i: "issueAuthenticatorCert cy ca w = (Inr (sa_cert staged), w')"
    and wr: "stageWebhookKubeconfig cc dir ca f1 = (Inr (), f')"
    and s: "sa_mounts staged = [\<lparr>mo_host_path = dir, mo_container_path = nodeAuthnDir\<rparr>]"
      "sa_webhook staged =
        \<lparr>aw_config_file_path = nodeAuthnDir @ ''/'' @ webhookFileName, aw_volume_mount_path = nodeAuthnDir\<rparr>"
    by (auto simp: Stage_def joins Let_def split: sum.splits prod.splits)
  from wr have "cc_write_file cc (webhook_kubeconfig ca) (dir @ slash # webhookFileName) f1 = (Inr (), f')"
    by (auto simp: stageWebhookKubeconfig_def joins split: sum.splits prod.splits)
  from write_load [OF this] i s show ?thesis
    by (auto simp: issueAuthenticatorCert_def split: sum.splits prod.splits)
qed

end

section \<open>What rask is asked for\<close>

text \<open>The options of a cluster with one mount that holds the webhook's configuration \<open>n\<close>.\<close>

definition webhook_options ::
  "'w rask \<Rightarrow> string \<Rightarrow> string \<Rightarrow> cluster_config \<Rightarrow> int \<Rightarrow> string \<Rightarrow> string \<Rightarrow> walk_entry list \<Rightarrow> rask_options" where
  "webhook_options rk name cd g t host n entries =
     \<lparr>ro_wait = waitOption t, ro_component_dir = cd,
      ro_coredns_image = cg_coredns_repository g @ '':'' @ cg_coredns_tag g,
      ro_preboot_files = mount_files 0 host entries,
      ro_api_server_args =
        [authWebhookConfigFileArg @ ''='' @ rk_preboot_path rk name (path_join (mountDestPrefix 0) n)]\<rparr>"

lemma create_with_webhook:
  assumes "cg_extra_mounts g = [\<lparr>mo_host_path = host, mo_container_path = mp\<rparr>]"
    and "cg_auth_webhook g = Some \<lparr>aw_config_file_path = mp @ ''/'' @ n, aw_volume_mount_path = mp\<rparr>"
    and "cg_coredns_repository g \<noteq> []" and "cg_coredns_tag g \<noteq> []"
  shows "CreateCluster rk walk name \<lparr>cr_component_dir = cd, cr_config = Some g, cr_wait_for_ready = t\<rparr> f w = (Inr (), w') \<longleftrightarrow>
    (\<exists>entries. walk host f = Inr entries \<and> rk_create rk name (webhook_options rk name cd g t host n entries) w = (Inr (), w'))"
proof -
  have trim: "trim_prefix p (p @ s) = s" for p s by (simp add: trim_prefix_def cut_prefix_append)
  have "authWebhookDest \<lparr>aw_config_file_path = mp @ ''/'' @ n, aw_volume_mount_path = mp\<rparr>
      [\<lparr>mo_host_path = host, mo_container_path = mp\<rparr>] = Inr (path_join (mountDestPrefix 0) n)"
    using trim [of mp "''/'' @ n"] trim [of "''/''" n] by (simp add: authWebhookDest_def Let_def)
  then have dest: "authWebhookDest (the (cg_auth_webhook g)) (cg_extra_mounts g) = Inr (path_join (mountDestPrefix 0) n)"
    using assms(1,2) by simp
  show ?thesis
  proof (cases "walk host f")
    case (Inl e)
    then have "prebootFiles walk (cg_extra_mounts g) f = Inl (Wrapf ''stage extra mount %q: %w'' [host] e)"
      by (simp add: prebootFiles_def assms(1))
    with assms Inl show ?thesis by (simp add: CreateCluster_def applyConfig_def coreDNSImage_def Let_def)
  next
    case (Inr entries)
    then have "prebootFiles walk (cg_extra_mounts g) f = Inr (mount_files 0 host entries)"
      by (simp add: prebootFiles_def assms(1))
    with dest assms Inr show ?thesis
      by (simp add: CreateCluster_def applyConfig_def coreDNSImage_def webhook_options_def Let_def split: sum.splits prod.splits)
  qed
qed

lemma in_mount_files:
  "(n, False) \<in> set entries \<Longrightarrow>
   \<lparr>pf_src = path_join host n, pf_dest = path_join (mountDestPrefix i) n\<rparr> \<in> set (mount_files i host entries)"
  by (force simp: mount_files_def)

text \<open>What the table promises of a release that was resolved.\<close>

lemma table_images: "list_all (\<lambda>(v, r). fst (splitImageRef (r_coredns_image r)) \<noteq> [] \<and> snd (splitImageRef (r_coredns_image r)) \<noteq> []) table"
  by code_simp

lemma hex_digest_plain:
  assumes "hex_digest s"
  shows "plain s \<and> plain (s @ ''.tar.gz'') \<and> hd s \<noteq> CHR ''.''"
proof -
  from assms have len: "length s = 64" and hex: "\<forall>c \<in> set s. c \<in> set ''0123456789abcdef''"
    unfolding hex_digest_def list_all_iff by blast+
  have short: "x \<noteq> y" if "length x < 64" "64 \<le> length y" for x y :: string using that by auto
  have no: "c \<notin> set s" if "c \<notin> set ''0123456789abcdef''" for c using hex that by blast
  have "s \<noteq> []" using len by auto
  moreover have "''.'' \<noteq> s" "dotdot \<noteq> s" "''.'' \<noteq> s @ ''.tar.gz''" "dotdot \<noteq> s @ ''.tar.gz''"
    by (rule short; simp add: dotdot_def len)+
  moreover have "slash \<notin> set s" "CHR ''.'' \<notin> set s" by (rule no, simp)+
  moreover from calculation(1,7) have "hd s \<noteq> CHR ''.''" using hd_in_set [of s] by metis
  ultimately show ?thesis by (auto simp: plain_def)
qed

lemma resolved_release:
  assumes "resolveEKSRelease opts = Inr release"
  shows "\<And>asset. map_of (r_server_tarball release) arch = Some asset \<Longrightarrow>
      plain (a_sha256 asset) \<and> plain (a_sha256 asset @ ''.tar.gz'') \<and> hd (a_sha256 asset) \<noteq> CHR ''.''"
    and "\<exists>repository tag. splitImageRef (r_coredns_image release) = (repository, tag) \<and> repository \<noteq> [] \<and>
      tag \<noteq> [] \<and> r_coredns_image release = repository @ '':'' @ tag"
proof -
  from assms obtain v where "map_of table v = Some release"
    by (auto simp: resolveEKSRelease_def Resolve_unfold Let_def split: sum.splits option.splits)
  then have mem: "(v, release) \<in> set table" by (rule map_of_SomeD)
  from mem table_coherent have "coherent v release" by (auto simp: list_all_iff)
  then have digests: "\<forall>(a, asset) \<in> set (r_server_tarball release). hex_digest (a_sha256 asset)"
    by (auto simp: coherent_def list_all_iff)
  show "plain (a_sha256 asset) \<and> plain (a_sha256 asset @ ''.tar.gz'') \<and> hd (a_sha256 asset) \<noteq> CHR ''.''"
    if "map_of (r_server_tarball release) arch = Some asset" for asset
    using digests map_of_SomeD [OF that] by (intro hex_digest_plain) auto
  from mem table_images splitImageRef_join [of "r_coredns_image release"]
  show "\<exists>repository tag. splitImageRef (r_coredns_image release) = (repository, tag) \<and> repository \<noteq> [] \<and>
      tag \<noteq> [] \<and> r_coredns_image release = repository @ '':'' @ tag"
    by (cases "splitImageRef (r_coredns_image release)") (auto simp: list_all_iff)
qed


lemma resolved_version:
  assumes "resolveEKSRelease opts = Inr release"
    and "v = (if co_eks_version opts = [] then latestVersion SupportedVersions else co_eks_version opts)"
  shows "Resolve v = Inr release" and "r_eks_version release = v"
proof -
  from assms(1) show r: "Resolve v = Inr release"
    unfolding resolveEKSRelease_def Let_def assms(2) [symmetric] by (auto split: sum.splits)
  then have "(v, release) \<in> set table" by (auto simp: Resolve_unfold split: option.splits dest: map_of_SomeD)
  with table_coherent show "r_eks_version release = v" by (auto simp: list_all_iff coherent_def)
qed

section \<open>A run that succeeds\<close>

lemma runCreateCluster_parts:
  assumes "runCreateCluster ch opts f w = (Inr msg, f', w')"
  shows "\<exists>release config authn f1 w1 rk co f2 w2 path kl w3.
    resolveEKSRelease opts = Inr release \<and> buildClusterConfig ch opts release f w = (Inr (config, authn), f1, w1) \<and>
    newClusterProvider ch = Inr rk \<and> buildCreateOptions ch opts config release f1 = (Inr co, f2) \<and>
    CreateCluster rk (ch_walk ch) (createClusterOptions.co_name opts) co f2 w1 = (Inr (), w2) \<and>
    mergeReadyKubeconfig ch rk (createClusterOptions.co_name opts) f2 w2 = (Inr path, f') \<and>
    clusterClient ch rk (createClusterOptions.co_name opts) w2 = Inr kl \<and>
    applyEKSDefaultState ch rk kl (createClusterOptions.co_name opts) w2 = (Inr (), w3) \<and>
    (case (if co_enable_auth opts then authn else None) of
       None \<Rightarrow> w' = w3
     | Some (ca, cert) \<Rightarrow>
         deployAgent ((ch_tools ch)\<lparr>tl_rask := rk\<rparr>) kl opts ca cert (r_eks_version release) w3 = (Inr (), w'))"
  using assms unfolding runCreateCluster_def
  by (simp split: sum.splits prod.splits) (force split: option.splits)

text \<open>The configuration of a cluster with authentication.\<close>

lemma buildClusterConfig_works:
  assumes "buildClusterConfig ch opts release f w = (Inr (config, authn), f1, w1)" and "co_enable_auth opts"
    and "splitImageRef (r_coredns_image release) = (repository, tag)"
  shows "\<exists>ca wa dir staged fa. NewCA (tl_crypto (ch_tools ch)) ''fjord'' w = (Inr ca, wa) \<and>
    authnStagingDir ch (createClusterOptions.co_name opts) = Inr dir \<and>
    fs_remove_all (ch_fs ch) dir f = (Inr (), fa) \<and>
    Stage (ch_fs ch) (ch_clientcmd ch) (tl_crypto (ch_tools ch)) dir ca fa wa = (Inr staged, f1, w1) \<and>
    authn = Some (ca, sa_cert staged) \<and> cg_coredns_repository config = repository \<and> cg_coredns_tag config = tag \<and>
    cg_extra_mounts config = sa_mounts staged \<and> cg_auth_webhook config = Some (sa_webhook staged)"
proof -
  from assms obtain ca wa where ca: "NewCA (tl_crypto (ch_tools ch)) ''fjord'' w = (Inr ca, wa)"
    by (auto simp: buildClusterConfig_def Let_def split: sum.splits prod.splits)
  with assms obtain staged where st: "stageAuthenticator ch opts ca f wa = (Inr staged, f1, w1)"
    and cfg: "authn = Some (ca, sa_cert staged)" "cg_coredns_repository config = repository"
      "cg_coredns_tag config = tag" "cg_extra_mounts config = sa_mounts staged"
      "cg_auth_webhook config = Some (sa_webhook staged)"
    by (auto simp: buildClusterConfig_def Let_def split: sum.splits prod.splits)
  from st obtain dir fa where "authnStagingDir ch (createClusterOptions.co_name opts) = Inr dir"
    "fs_remove_all (ch_fs ch) dir f = (Inr (), fa)"
    "Stage (ch_fs ch) (ch_clientcmd ch) (tl_crypto (ch_tools ch)) dir ca fa wa = (Inr staged, f1, w1)"
    by (auto simp: stageAuthenticator_def split: sum.splits prod.splits)
  with ca cfg show ?thesis by blast
qed


text \<open>Where the authenticator is staged and where the components are kept.\<close>

lemma host_dirs:
  assumes "ch_user_cache_dir ch = Inr base" and "clean_dir base" and "plain name"
  shows "authnStagingDir ch name = Inr (base @ ''/fjord/authn/'' @ name)"
    and "clean_dir (base @ ''/fjord/authn/'' @ name)"
    and "DefaultCacheDir (ch_user_cache_dir ch) = Inr (base @ ''/fjord/eksd'')"
    and "clean_dir (base @ ''/fjord/eksd'')"
    and "\<not> under (base @ ''/fjord/eksd'') (base @ ''/fjord/authn/'' @ x)"
proof -
  have names: "plain ''fjord''" "plain ''authn''" "plain ''eksd''" by (simp_all add: plain_def dotdot_def)
  note d1 = clean_dir_child [OF assms(2) names(1)]
  note d2 = clean_dir_child [OF d1 names(2)] clean_dir_child [OF d1 names(3)]
  note d3 = clean_dir_child [OF d2(1) assms(3)]
  show "authnStagingDir ch name = Inr (base @ ''/fjord/authn/'' @ name)"
    using path_join_plain(1) [OF assms(2) names(1)] path_join_plain(1) [OF d1 names(2)] path_join_plain(1) [OF d2(1) assms(3)]
    by (simp add: authnStagingDir_def assms(1))
  show "DefaultCacheDir (ch_user_cache_dir ch) = Inr (base @ ''/fjord/eksd'')"
    using path_join_plain(1) [OF assms(2) names(1)] path_join_plain(1) [OF d1 names(3)]
    by (simp add: DefaultCacheDir_def assms(1))
  show "clean_dir (base @ ''/fjord/authn/'' @ name)" "clean_dir (base @ ''/fjord/eksd'')"
    using d3 d2(2) by simp_all
  show "\<not> under (base @ ''/fjord/eksd'') (base @ ''/fjord/authn/'' @ x)"
    by (simp add: under_def prefix_def)
qed

lemma cluster_files:
  assumes "create_files (ch_fs ch) files (ch_http ch) (ch_clientcmd ch) (ch_walk ch)"
    and "ch_user_cache_dir ch = Inr base" and "clean_dir base" and "plain (createClusterOptions.co_name opts)"
    and "co_enable_auth opts" and "resolveEKSRelease opts = Inr release"
    and "buildClusterConfig ch opts release f w = (Inr (config, authn), f1, w1)"
    and "buildCreateOptions ch opts config release f1 = (Inr co, f2)"
  defines "dir \<equiv> base @ ''/fjord/authn/'' @ createClusterOptions.co_name opts @ ''/authn''"
  shows "\<exists>ca wa cert cd kc. NewCA (tl_crypto (ch_tools ch)) ''fjord'' w = (Inr ca, wa) \<and>
    IssueServerCert (tl_crypto (ch_tools ch)) ca AuthenticatorServiceAccountName [authenticatorServerName] wa = (Inr cert, w1) \<and>
    authn = Some (ca, cert) \<and> clean_dir dir \<and>
    cg_extra_mounts config = [\<lparr>mo_host_path = dir, mo_container_path = nodeAuthnDir\<rparr>] \<and>
    cg_auth_webhook config =
      Some \<lparr>aw_config_file_path = nodeAuthnDir @ ''/'' @ webhookFileName, aw_volume_mount_path = nodeAuthnDir\<rparr> \<and>
    cg_coredns_repository config \<noteq> [] \<and> cg_coredns_tag config \<noteq> [] \<and>
    r_coredns_image release = cg_coredns_repository config @ '':'' @ cg_coredns_tag config \<and>
    co = \<lparr>cr_component_dir = cd, cr_config = Some config, cr_wait_for_ready = co_wait opts\<rparr> \<and>
    (\<forall>n \<in> set binaries. files f2 (cd @ slash # n) \<noteq> None) \<and>
    cc_load_file (ch_clientcmd ch) (dir @ slash # webhookFileName) f2 = Inr kc \<and>
    files f2 (dir @ slash # webhookFileName) \<noteq> None \<and> view kc = view (webhook_kubeconfig ca)"
proof -
  note dirs = host_dirs [OF assms(2-4)]
  have dw: "download_world (ch_fs ch) files (ch_http ch)" using assms(1) by (simp add: create_files_def)
  from resolved_release(2) [OF assms(6)] obtain repository tag where
    image: "splitImageRef (r_coredns_image release) = (repository, tag)" "repository \<noteq> []" "tag \<noteq> []"
      "r_coredns_image release = repository @ '':'' @ tag" by blast
  from buildClusterConfig_works [OF assms(7,5) image(1)] dirs(1) obtain ca wa staged fa where
    ca: "NewCA (tl_crypto (ch_tools ch)) ''fjord'' w = (Inr ca, wa)"
    and st: "Stage (ch_fs ch) (ch_clientcmd ch) (tl_crypto (ch_tools ch))
        (base @ ''/fjord/authn/'' @ createClusterOptions.co_name opts) ca fa wa = (Inr staged, f1, w1)"
    and cfg: "authn = Some (ca, sa_cert staged)" "cg_coredns_repository config = repository" "cg_coredns_tag config = tag"
      "cg_extra_mounts config = sa_mounts staged" "cg_auth_webhook config = Some (sa_webhook staged)" by auto
  have dir: "(base @ ''/fjord/authn/'' @ createClusterOptions.co_name opts) @ slash # authnDirName = dir"
    by (simp add: dir_def authnDirName_def)
  from create_files.Stage_works [OF assms(1) st dirs(2), unfolded dir] obtain kc where
    staged: "sa_mounts staged = [\<lparr>mo_host_path = dir, mo_container_path = nodeAuthnDir\<rparr>]"
      "sa_webhook staged =
        \<lparr>aw_config_file_path = nodeAuthnDir @ ''/'' @ webhookFileName, aw_volume_mount_path = nodeAuthnDir\<rparr>"
      "IssueServerCert (tl_crypto (ch_tools ch)) ca AuthenticatorServiceAccountName [authenticatorServerName] wa =
        (Inr (sa_cert staged), w1)"
    and kc: "cc_load_file (ch_clientcmd ch) (dir @ slash # webhookFileName) f1 = Inr kc" "view kc = view (webhook_kubeconfig ca)"
    by blast
  from assms(8) dirs(3) obtain cd where
    mat: "materialize (ch_fs ch) (ch_sha256_hex ch) (ch_gunzip ch) release (tl_arch (ch_tools ch)) (ch_http ch)
        (base @ ''/fjord/eksd'') f1 = (Inr cd, f2)"
    and co: "co = \<lparr>cr_component_dir = cd, cr_config = Some config, cr_wait_for_ready = co_wait opts\<rparr>"
    by (auto simp: buildCreateOptions_def Materialize_def split: sum.splits prod.splits)
  then obtain asset where asset: "map_of (r_server_tarball release) (tl_arch (ch_tools ch)) = Some asset"
    by (auto simp: materialize_def split: option.splits)
  note names = resolved_release(1) [where arch = "tl_arch (ch_tools ch)", OF assms(6)]
  have bins: "\<forall>n \<in> set binaries. files f2 (cd @ slash # n) \<noteq> None"
    using download_world.materialize_result [OF dw mat asset dirs(4)] names [OF asset] by blast
  have "\<not> under (base @ ''/fjord/eksd'') (dir @ slash # webhookFileName)"
    unfolding dir_def append_assoc by (rule dirs(5))
  then have same: "files f2 (dir @ slash # webhookFileName) = files f1 (dir @ slash # webhookFileName)"
    using download_world.materialize_frame [OF dw mat dirs(4) names] by blast
  obtain x where x: "files f1 (dir @ slash # webhookFileName) = Some x"
    using create_files.load_exists [OF assms(1) kc(1)] by blast
  have "cc_load_file (ch_clientcmd ch) (dir @ slash # webhookFileName) f2 = Inr kc"
    using create_files.load_law [OF assms(1) x, of f2] same x kc(1) by simp
  moreover have "clean_dir dir" unfolding dir [symmetric]
    by (rule clean_dir_child [OF dirs(2)]) (simp add: plain_def dotdot_def authnDirName_def)
  ultimately show ?thesis using ca staged cfg image kc(2) co bins same x by auto
qed


text \<open>The webhook's kubeconfig leads to the port the authenticator is deployed on.\<close>

lemma webhook_cluster:
  assumes "view kc = view (webhook_kubeconfig ca)"
  shows "current_cluster kc = Some \<lparr>kc_server = ''https://localhost:'' @ string_of_int authenticatorPort @ ''/'',
    kc_ca_data = ca_cert_pem ca, kc_rest = []\<rparr>"
  using current_of_view [OF assms]
  by (simp add: current_cluster_def webhook_kubeconfig_def authenticatorServerName_def stage_authenticatorPort_def
      authenticatorPort_def)

text \<open>The API server, which dials \<open>localhost\<close>, accepts the authenticator's certificate.\<close>

lemma authenticator_accepted:
  assumes "x509 cy accepts clock" and "NewCA cy cn w = (Inr ca, wa)"
    and "IssueServerCert cy ca cn' [authenticatorServerName] wa = (Inr cert, w1)"
    and "clock w1 \<le> t" and "t \<le> clock w + serverCertValidity - 10 ^ 9"
  shows "accepts (ca_cert_pem ca) (sc_cert_pem cert) (sc_key_pem cert) ''localhost'' t"
proof -
  have "''localhost'' \<in> set [authenticatorServerName]" by (simp add: authenticatorServerName_def)
  from x509.issued_cert_window [OF assms(1-3) this] obtain created issued where
    at: "clock w \<le> created" "created \<le> clock wa" "clock wa \<le> issued" "issued \<le> clock w1"
    and window: "\<And>t. accepts (ca_cert_pem ca) (sc_cert_pem cert) (sc_key_pem cert) ''localhost'' t \<longleftrightarrow>
       whole_second (created - clockSkew) \<le> t \<and> t \<le> whole_second (created + caValidity) \<and>
       whole_second (issued - clockSkew) \<le> t \<and> t \<le> whole_second (issued + serverCertValidity)"
    by blast
  have "0 \<le> clockSkew" "serverCertValidity \<le> caValidity"
    by (simp_all add: clockSkew_def serverCertValidity_def caValidity_def nanos_per_hour_def)
  with at assms(4,5) whole_second_le [of "created - clockSkew"] whole_second_le [of "issued - clockSkew"]
    whole_second_gt [of "created + caValidity"] whole_second_gt [of "issued + serverCertValidity"]
  show ?thesis unfolding window by linarith
qed

context create_files
begin

lemma Stage_frame:
  assumes "Stage fs cc cy baseDir ca f w = (r, f', w')" and "clean_dir baseDir" and "\<not> under baseDir q"
  shows "files f' q = files f q"
proof -
  have names: "plain authnDirName" "plain webhookFileName"
    by (simp_all add: plain_def dotdot_def authnDirName_def webhookFileName_def)
  let ?dir = "baseDir @ slash # authnDirName"
  have dir: "path_join baseDir authnDirName = ?dir" and hook: "path_join ?dir webhookFileName = ?dir @ slash # webhookFileName"
    using path_join_plain(1) clean_dir_child names assms(2) by blast+
  obtain r1 f1 where mk: "fs_mkdir_all fs ?dir f = (r1, f1)" by fastforce
  obtain r2 f2 where wr: "cc_write_file cc (webhook_kubeconfig ca) (?dir @ slash # webhookFileName) f1 = (r2, f2)" by fastforce
  have "q \<noteq> ?dir @ slash # webhookFileName" using assms(3) by auto
  with write_frame [OF wr] mkdir_all_law [OF mk] have "files f1 q = files f q" "files f2 q = files f q" by simp_all
  moreover have "f' \<in> {f1, f2}"
    using assms(1) mk wr by (auto simp: Stage_def stageWebhookKubeconfig_def dir hook Let_def split: sum.splits prod.splits)
  ultimately show ?thesis by auto
qed

end

text \<open>Before rask is asked, only fjord's own directory below the user's cache is written.\<close>

lemma staging_dir_frame:
  assumes "create_files (ch_fs ch) files (ch_http ch) (ch_clientcmd ch) (ch_walk ch)"
    and "ch_user_cache_dir ch = Inr base" and "clean_dir base" and "plain (createClusterOptions.co_name opts)"
    and "buildClusterConfig ch opts release f w = (r, f', w')"
    and "\<not> under (base @ ''/fjord/authn/'' @ createClusterOptions.co_name opts) q"
  shows "files f' q = files f q"
proof -
  let ?dir = "base @ ''/fjord/authn/'' @ createClusterOptions.co_name opts"
  note dirs = host_dirs [OF assms(2-4)]
  note out = assms(6)
  have fs: "file_system (ch_fs ch) files" using assms(1) by (simp add: create_files_def download_world_def)
  obtain r1 f1 where rm: "fs_remove_all (ch_fs ch) ?dir f = (r1, f1)" by fastforce
  have f1: "files f1 q = files f q" using file_system.remove_all_law [OF fs rm] out by (simp add: same_outside_def)
  have "files f2 q = files f q" if "stageAuthenticator ch opts ca f v = (x, f2, v')" for ca v x f2 v'
  proof (cases r1)
    case (Inl e)
    with that dirs(1) rm f1 show ?thesis by (simp add: stageAuthenticator_def)
  next
    case (Inr u)
    obtain y f3 v3 where st: "Stage (ch_fs ch) (ch_clientcmd ch) (tl_crypto (ch_tools ch)) ?dir ca f1 v = (y, f3, v3)"
      by (metis surj_pair)
    with that dirs(1) rm Inr have "f2 = f3" by (auto simp: stageAuthenticator_def split: sum.splits)
    with create_files.Stage_frame [OF assms(1) st dirs(2) out] f1 show ?thesis by simp
  qed
  then show ?thesis using assms(5)
    by (auto simp: buildClusterConfig_def Let_def split: prod.splits sum.splits if_splits)
qed

lemma staging_frame:
  assumes "create_files (ch_fs ch) files (ch_http ch) (ch_clientcmd ch) (ch_walk ch)"
    and "ch_user_cache_dir ch = Inr base" and "clean_dir base" and "plain (createClusterOptions.co_name opts)"
    and "buildClusterConfig ch opts release f w = (r, f', w')" and "\<not> under (base @ ''/fjord'') q"
  shows "files f' q = files f q"
proof -
  let ?dir = "base @ ''/fjord/authn/'' @ createClusterOptions.co_name opts"
  have "\<not> under ?dir q"
    using assms(6) under_trans [of "base @ ''/fjord''" ?dir q] under_child [of "base @ ''/fjord''"] by auto
  then show ?thesis by (rule staging_dir_frame [OF assms(1-5)])
qed

text \<open>The components the cluster is made of are those of the release.\<close>

lemma cluster_components:
  assumes "create_files (ch_fs ch) files (ch_http ch) (ch_clientcmd ch) (ch_walk ch)"
    and "ch_user_cache_dir ch = Inr base" and "clean_dir base" and "plain (createClusterOptions.co_name opts)"
    and "resolveEKSRelease opts = Inr release"
    and "buildClusterConfig ch opts release f w = (r, f1, w1)"
    and "buildCreateOptions ch opts config release f1 = (Inr co, f2)"
  shows "\<exists>asset tarball. map_of (r_server_tarball release) (tl_arch (ch_tools ch)) = Some asset \<and>
    cr_component_dir co = base @ ''/fjord/eksd/'' @ a_sha256 asset \<and>
    files f2 (base @ ''/fjord/eksd/'' @ a_sha256 asset @ ''.tar.gz'') = Some tarball \<and>
    ch_sha256_hex ch (fl_data tarball) = a_sha256 asset \<and>
    ((\<exists>n \<in> set binaries. files f (cr_component_dir co @ ''/'' @ n) = None) \<longrightarrow>
       (\<exists>ax. ch_gunzip ch (fl_data tarball) = Inr ax \<and>
          (\<forall>n \<in> set binaries. \<exists>g. files f2 (cr_component_dir co @ ''/'' @ n) = Some g \<and> from_entry (ax_entries ax) n g)))"
proof -
  note dirs = host_dirs [OF assms(2-4)]
  have dw: "download_world (ch_fs ch) files (ch_http ch)" using assms(1) by (simp add: create_files_def)
  from assms(7) dirs(3) have mat: "materialize (ch_fs ch) (ch_sha256_hex ch) (ch_gunzip ch) release (tl_arch (ch_tools ch))
      (ch_http ch) (base @ ''/fjord/eksd'') f1 = (Inr (cr_component_dir co), f2)"
    by (auto simp: buildCreateOptions_def Materialize_def split: sum.splits prod.splits)
  then obtain asset where asset: "map_of (r_server_tarball release) (tl_arch (ch_tools ch)) = Some asset"
    by (auto simp: materialize_def split: option.splits)
  note names = resolved_release(1) [where arch = "tl_arch (ch_tools ch)", OF assms(5) asset]
  from download_world.materialize_result [OF dw mat asset dirs(4)] names
  have cd: "cr_component_dir co = base @ ''/fjord/eksd/'' @ a_sha256 asset" by simp
  have "files f1 (cr_component_dir co @ ''/'' @ n) = files f (cr_component_dir co @ ''/'' @ n)" for n
    by (rule staging_dir_frame [OF assms(1-4,6)]) (simp add: cd under_def prefix_def)
  with download_world.materialize_from_tarball [OF dw mat asset dirs(4)] names asset cd show ?thesis by simp
qed

lemma components_frame:
  assumes "create_files (ch_fs ch) files (ch_http ch) (ch_clientcmd ch) (ch_walk ch)"
    and "ch_user_cache_dir ch = Inr base" and "clean_dir base" and "plain (createClusterOptions.co_name opts)"
    and "resolveEKSRelease opts = Inr release"
    and "buildCreateOptions ch opts config release f = (r, f')" and "\<not> under (base @ ''/fjord'') q"
  shows "files f' q = files f q"
proof -
  note dirs = host_dirs [OF assms(2-4)]
  have dw: "download_world (ch_fs ch) files (ch_http ch)" using assms(1) by (simp add: create_files_def)
  obtain y where mat: "materialize (ch_fs ch) (ch_sha256_hex ch) (ch_gunzip ch) release (tl_arch (ch_tools ch)) (ch_http ch)
      (base @ ''/fjord/eksd'') f = (y, f')"
    using assms(6) dirs(3) by (auto simp: buildCreateOptions_def Materialize_def split: prod.splits sum.splits)
  have "\<not> under (base @ ''/fjord/eksd'') q"
    using assms(7) under_trans [of "base @ ''/fjord''" "base @ ''/fjord/eksd''" q] under_child [of "base @ ''/fjord''" "''eksd''"] by auto
  with download_world.materialize_frame [OF dw mat dirs(4) resolved_release(1) [where arch = "tl_arch (ch_tools ch)", OF assms(5)]] show ?thesis by blast
qed

lemma merge_frame:
  assumes "create_files (ch_fs ch) files (ch_http ch) (ch_clientcmd ch) (ch_walk ch)"
    and "mergeReadyKubeconfig ch rk name f w = (r, f')" and "q \<noteq> cc_default_filename (ch_clientcmd ch) f"
  shows "files f' q = files f q"
  using assms(2,3) create_files.write_frame [OF assms(1)]
  by (auto simp: mergeReadyKubeconfig_def mergeClusterKubeconfig_def Let_def split: sum.splits prod.splits option.splits)

lemma CreateCluster_made:
  "CreateCluster rk walk name co f w = (Inr (), w') \<Longrightarrow> \<exists>ro. rk_create rk name ro w = (Inr (), w')"
  by (auto simp: CreateCluster_def Let_def split: sum.splits prod.splits)

end
