(* ===== verification/Cluster_Creation.thy ===== *)
theory Cluster_Creation
  imports Create_Cluster
begin

text \<open>
  The properties of \<open>fjord create cluster\<close>: the cluster it brings up asks fjord's authenticator, and
  it leaves the user's files alone. The reference is a host with a disk, kubeconfigs on it, and
  the site of \<open>Deploy_Site\<close> for its cluster.
\<close>

section \<open>A host\<close>

text \<open>
  Kubeconfigs as files of a disk: a configuration is written as a numbering of its fields. A walk
  meets the files below a directory.
\<close>

type_synonym config_fields =
  "(string \<times> string \<times> nat list \<times> string) list \<times>
   (string \<times> (string \<times> string \<times> string list \<times> (string \<times> string) list \<times> string) option \<times> string) list \<times>
   (string \<times> string \<times> string) list \<times> string"

definition fields_of :: "kubeconfig \<Rightarrow> config_fields" where
  "fields_of c =
     (map (\<lambda>(k, x). (k, kc_server x, map unat (kc_ca_data x), kc_rest x)) (kf_clusters c),
      map (\<lambda>(k, x). (k, map_option (\<lambda>e. (ex_api_version e, ex_command e, ex_args e, ex_env e, ex_interactive_mode e))
        (ai_exec x), ai_rest x)) (kf_auth_infos c),
      map (\<lambda>(k, x). (k, kx_cluster x, kx_auth_info x)) (kf_contexts c), kf_current c)"

definition of_fields :: "config_fields \<Rightarrow> kubeconfig" where
  "of_fields f =
     (case f of (cs, as, xs, current) \<Rightarrow>
        \<lparr>kf_clusters = map (\<lambda>(k, sv, ca, rest). (k, \<lparr>kc_server = sv, kc_ca_data = map of_nat ca, kc_rest = rest\<rparr>)) cs,
         kf_auth_infos = map (\<lambda>(k, ex, rest). (k, \<lparr>ai_exec = map_option (\<lambda>(v, c, a, e, i).
           \<lparr>ex_api_version = v, ex_command = c, ex_args = a, ex_env = e, ex_interactive_mode = i\<rparr>) ex,
           ai_rest = rest\<rparr>)) as,
         kf_contexts = map (\<lambda>(k, cl, ai). (k, \<lparr>kx_cluster = cl, kx_auth_info = ai\<rparr>)) xs,
         kf_current = current\<rparr>)"

lemma of_fields_of [simp]: "of_fields (fields_of c) = c"
proof -
  have records:
    "\<lparr>ex_api_version = ex_api_version x, ex_command = ex_command x, ex_args = ex_args x, ex_env = ex_env x,
      ex_interactive_mode = ex_interactive_mode x\<rparr> = x"
    "\<lparr>ai_exec = ai_exec y, ai_rest = ai_rest y\<rparr> = y" "\<lparr>kc_server = kc_server z, kc_ca_data = kc_ca_data z, kc_rest = kc_rest z\<rparr> = z"
    "\<lparr>kx_cluster = kx_cluster u, kx_auth_info = kx_auth_info u\<rparr> = u"
    for x :: exec_config and y :: auth_info and z :: kube_cluster and u :: kube_context by simp_all
  show ?thesis
    by (cases c) (simp add: fields_of_def of_fields_def comp_def case_prod_unfold option.map_comp option.map_ident records)
qed

definition config_bytes :: "kubeconfig \<Rightarrow> byte list" where
  "config_bytes c = replicate (to_nat (fields_of c)) 0"

definition config_of :: "byte list \<Rightarrow> kubeconfig" where
  "config_of bs = of_fields (from_nat (length bs))"

lemma config_of_bytes [simp]: "config_of (config_bytes c) = c"
  by (simp add: config_of_def config_bytes_def)

definition disk_clientcmd :: "disk clientcmd" where
  "disk_clientcmd =
     (let load = (\<lambda>path (w :: disk). case map_of (snd w) path of None \<Rightarrow> Inl not_exist | Some f \<Rightarrow> Inr (config_of (fl_data f)))
      in \<lparr>cc_load = load ''/home/u/.kube/config'', cc_default_filename = (\<lambda>_. ''/home/u/.kube/config''),
          cc_load_file = load, cc_is_not_exist = (\<lambda>e. e = not_exist),
          cc_write_file = (\<lambda>c path. faulty (\<lambda>m. (Inr (), map_set path \<lparr>fl_mode = 384, fl_data = config_bytes c\<rparr> m))),
          cc_parse = site_parse\<rparr>)"

definition disk_walk :: "disk walker" where
  "disk_walk dir w = Inr (map (\<lambda>(p, f). (drop (Suc (length dir)) p, False)) (filter (\<lambda>(p, f). prefix (dir @ [slash]) p) (snd w)))"

interpretation disk_create: create_files ref_fs "\<lambda>w. map_of (snd w)" "ref_tarballs bs" disk_clientcmd disk_walk for bs
proof (unfold_locales, goal_cases)
  case (7 dir w entries n)
  then obtain f where "(dir @ slash # n, f) \<in> set (snd w)" by (auto dest: map_of_SomeD)
  with 7(1) show ?case by (force simp: disk_walk_def prefix_def)
qed (auto simp: disk_clientcmd_def faulty_def Let_def split: if_splits option.splits)

text \<open>A cluster whose objects can be applied, and a host that makes it.\<close>

definition site_dynamic :: "site dynamic_client" where
  "site_dynamic =
     \<lparr>dy_resources = (\<lambda>w. (Inr (\<lambda>gvk. Inr \<lparr>rm_resource = snd (snd gvk), rm_namespaced = True\<rparr>), w)),
      dy_get = (\<lambda>_ _ w. (Inl (ApiError NotFound), w)), dy_create = (\<lambda>_ _ w. (Inr (), w)),
      dy_patch = (\<lambda>_ _ _ w. (Inr (), w)), dy_marshal = (\<lambda>obj. Inr (JObj (un_object obj)))\<rparr>"

definition demo_digest :: string where
  "demo_digest = (case Resolve ''1.36'' of
     Inr r \<Rightarrow> a_sha256 (the (map_of (r_server_tarball r) ''amd64'')) | Inl _ \<Rightarrow> [])"

definition demo_host :: "(disk, nat, string, site) create_host" where
  "demo_host =
     \<lparr>ch_fs = ref_fs, ch_clientcmd = disk_clientcmd, ch_walk = disk_walk, ch_user_cache_dir = Inr ''/home/u/.cache'',
      ch_sha256_hex = (\<lambda>_. demo_digest), ch_gunzip = demo_untar, ch_http = ref_tarballs [1, 2, 3],
      ch_tools = site_tools, ch_new_rask = Inr site_rask, ch_rest_config = Inr,
      ch_client = (\<lambda>_. Inr (site_kube (\<lambda>_. False))), ch_dynamic = (\<lambda>_. Inr site_dynamic),
      ch_policy_crd = [], ch_enforcer = [], ch_to_unstructured = (\<lambda>_. Inr [])\<rparr>"

lemma demo_host_simps [simp]:
  "ch_fs demo_host = ref_fs" "ch_clientcmd demo_host = disk_clientcmd" "ch_walk demo_host = disk_walk"
  "ch_user_cache_dir demo_host = Inr ''/home/u/.cache''" "ch_tools demo_host = site_tools"
  "ch_http demo_host = ref_tarballs [1, 2, 3]" "newClusterProvider demo_host = Inr site_rask"
  by (simp_all add: demo_host_def newClusterProvider_def NewProvider_def)

lemma demo_base:
  "ch_user_cache_dir demo_host = Inr ''/home/u/.cache''" "clean_dir ''/home/u/.cache''"
  "plain (createClusterOptions.co_name demo_options)" "co_enable_auth demo_options"
  by (simp, code_simp, simp_all add: demo_options_def plain_def dotdot_def)

lemma demo_create_files:
  "create_files (ch_fs demo_host) (\<lambda>w. map_of (snd w)) (ch_http demo_host) (ch_clientcmd demo_host) (ch_walk demo_host)"
  using disk_create.create_files_axioms by simp

lemma demo_release_found: "resolveEKSRelease demo_options = Resolve ''1.36''" "\<exists>r. Resolve ''1.36'' = Inr r"
proof -
  show "resolveEKSRelease demo_options = Resolve ''1.36''" by code_simp
  have "isl (Resolve ''1.36'') = False" by code_simp
  then show "\<exists>r. Resolve ''1.36'' = Inr r" by (cases "Resolve ''1.36''") simp_all
qed

lemma demo_release_asset:
  assumes "Resolve ''1.36'' = Inr r"
  shows "\<exists>asset. map_of (r_server_tarball r) ''amd64'' = Some asset \<and> a_sha256 asset = demo_digest \<and> hex_digest demo_digest"
proof -
  from assms have "(''1.36'', r) \<in> set table" by (auto simp: Resolve_unfold split: option.splits dest: map_of_SomeD)
  with table_coherent have c: "map fst (r_server_tarball r) = [''amd64'', ''arm64'']"
    "\<forall>(arch, a) \<in> set (r_server_tarball r). hex_digest (a_sha256 a)" by (auto simp: list_all_iff coherent_def)
  have "''amd64'' \<in> fst ` set (r_server_tarball r)" unfolding set_map [symmetric] c(1) by simp
  then obtain asset where asset: "map_of (r_server_tarball r) ''amd64'' = Some asset"
    using map_of_eq_None_iff [of "r_server_tarball r"] by blast
  with c(2) assms show ?thesis by (auto simp: demo_digest_def dest: map_of_SomeD)
qed

text \<open>The components are there already: the tarball, and the directory with the binaries.\<close>

definition demo_dir :: string where
  "demo_dir = ''/home/u/.cache/fjord/eksd/'' @ demo_digest"

definition demo_files :: "(string \<times> fs_file) list" where
  "demo_files = map (\<lambda>p. (demo_dir @ p, \<lparr>fl_mode = 493, fl_data = []\<rparr>)) (''.tar.gz'' # map ((@) ''/'') binaries)"

lemma has_all_on_disk:
  "\<forall>n \<in> set names. map_of m (path_join d n) \<noteq> None \<Longrightarrow> has_all_binaries_from ref_fs d names ([], m) = (True, ([], m))"
  by (induction names) (auto simp: ref_fs_def faulty_def)

lemma demo_materialize:
  assumes "Resolve ''1.36'' = Inr r" and "\<forall>(p, x) \<in> set demo_files. map_of m p = Some x"
  shows "Materialize ref_fs (\<lambda>_. demo_digest) gunzip (Inr ''/home/u/.cache'') r ''amd64'' hc ([], m) = (Inr demo_dir, ([], m))"
proof -
  from demo_release_asset [OF assms(1)] obtain asset where asset: "map_of (r_server_tarball r) ''amd64'' = Some asset"
    "a_sha256 asset = demo_digest" and hex: "hex_digest demo_digest" by blast
  note names = hex_digest_plain [OF hex]
  have cache: "clean_dir ''/home/u/.cache''" by code_simp
  note dirs = host_dirs(3,4) [of demo_host "''/home/u/.cache''" "''demo''", OF _ cache]
  have demo: "plain ''demo''" by (simp add: plain_def dotdot_def)
  have base: "DefaultCacheDir (Inr ''/home/u/.cache'') = Inr ''/home/u/.cache/fjord/eksd''"
    and eksd: "clean_dir ''/home/u/.cache/fjord/eksd''" using dirs demo by simp_all
  have tar: "path_join ''/home/u/.cache/fjord/eksd'' (demo_digest @ ''.tar.gz'') = demo_dir @ ''.tar.gz''"
    and dir: "path_join ''/home/u/.cache/fjord/eksd'' demo_digest = demo_dir"
    using path_join_plain(1) [OF eksd] names by (simp_all add: demo_dir_def)
  have clean: "clean_dir demo_dir" "path_clean (demo_dir @ ''.tar.gz'') = demo_dir @ ''.tar.gz''"
    using clean_dir_child [OF eksd] names by (simp_all add: demo_dir_def clean_dir_def)
  have "map_of m (demo_dir @ ''.tar.gz'') \<noteq> None" using assms(2) by (simp add: demo_files_def)
  then have download: "DownloadServerTarball ref_fs (\<lambda>_. demo_digest) hc asset ''/home/u/.cache/fjord/eksd'' ([], m) =
      (Inr (demo_dir @ ''.tar.gz''), ([], m))"
    by (auto simp: DownloadServerTarball_def fileMatchesSHA256_def asset(2) tar clean(2) Let_def ref_fs_def faulty_def
        split: option.splits)
  have "\<forall>n \<in> set binaries. map_of m (path_join demo_dir n) \<noteq> None"
    using assms(2) binary_target(1) [OF clean(1)] by (simp add: demo_files_def)
  then have "hasAllBinaries ref_fs demo_dir ([], m) = (True, ([], m))" unfolding hasAllBinaries_def by (rule has_all_on_disk)
  with download asset base dir show ?thesis by (simp add: Materialize_def materialize_def Let_def)
qed

lemma site_issues:
  "\<exists>ca. NewCA site_crypto cn s = (Inr ca, s\<lparr>st_clock := st_clock s + 4\<rparr>)"
  "\<exists>cert. IssueServerCert site_crypto ca cn names s = (Inr cert, s\<lparr>st_clock := st_clock s + 4\<rparr>)"
  by (simp_all add: NewCA_def IssueServerCert_def newSerialNumber_def site_crypto_def on_clock_def ref_crypto_def Let_def)

lemma site_default_state:
  "\<exists>s'. applyEKSDefaultState demo_host site_rask (site_kube (\<lambda>_. False)) name (empty_site\<lparr>st_clock := n\<rparr>) = (Inr (), s') \<and>
     ref_cur s' = ref_cur empty_site \<and> list_all (\<lambda>ob. kind_of (ko_body ob) = KStorageClass) (cs_objects s')"
proof -
  have "\<exists>calls obs. EnsureDefaultStorageClass (ref_cluster (\<lambda>_. False)) (empty_site\<lparr>st_clock := n\<rparr>) =
      (Inr (), empty_site\<lparr>st_clock := n, cs_calls := calls, cs_objects := obs\<rparr>) \<and>
      list_all (\<lambda>ob. kind_of (ko_body ob) = KStorageClass) obs"
    by (simp add: ref_refuses_def live_objects_def EnsureDefaultStorageClass_def demoteDefaultClasses_def createStorageClass_def create_if_absent_def
        and_then_def ref_cluster_def empty_site_def cluster_objects_def tick_def object_id_def new_object_def
        storage_class_def Let_def)
  then obtain calls obs where
    run: "EnsureDefaultStorageClass (ref_cluster (\<lambda>_. False)) (empty_site\<lparr>st_clock := n\<rparr>) =
      (Inr (), empty_site\<lparr>st_clock := n, cs_calls := calls, cs_objects := obs\<rparr>)"
    and obs: "list_all (\<lambda>ob. kind_of (ko_body ob) = KStorageClass) obs" by blast
  have "ref_cur (empty_site\<lparr>st_clock := n, cs_calls := calls, cs_objects := obs\<rparr>) = ref_cur empty_site"
    by (simp add: ref_cur_def empty_site_def fun_eq_iff)
  with obs obtain s' where "EnsureDefaultStorageClass (ref_cluster (\<lambda>_. False)) (empty_site\<lparr>st_clock := n\<rparr>) = (Inr (), s')"
    "ref_cur s' = ref_cur empty_site" "list_all (\<lambda>ob. kind_of (ko_body ob) = KStorageClass) (cs_objects s')"
    using that [OF run] by simp
  then show ?thesis
    by (simp add: applyEKSDefaultState_def and_then_def wrapped_def clusterDynamicClient_def KubeConfig_def demo_host_def
        site_rask_def site_dynamic_def EnsureClusterNetworkPolicyCRD_def EnsureNetworkPolicyEnforcer_def newRESTMapper_def
        EnsureTargetGroupBindingCRD_def targetGroupBindingCRDObject_def applyObject_def is_not_found_def Let_def)
qed

definition demo_staged :: "nat CA \<Rightarrow> (string \<times> fs_file) list" where
  "demo_staged ca = map_set ''/home/u/.cache/fjord/authn/demo/authn/webhook.yaml''
     \<lparr>fl_mode = 384, fl_data = config_bytes (webhook_kubeconfig ca)\<rparr> demo_files"

lemma demo_files_kept:
  "filter (\<lambda>(x, f). \<not> under ''/home/u/.cache/fjord/authn/demo'' x) demo_files = demo_files"
  "\<forall>(p, x) \<in> set demo_files. map_of (demo_staged ca) p = Some x"
  "map_of (demo_staged ca) ''/home/u/.kube/config'' = None"
  by (simp_all add: demo_files_def demo_staged_def demo_dir_def binaries_def under_def prefix_def map_of_map_set)

lemma demo_build:
  "\<exists>ca config cert. buildClusterConfig demo_host demo_options r ([], demo_files) empty_site =
     (Inr (config, Some (ca, cert)), ([], demo_staged ca), empty_site\<lparr>st_clock := 15\<rparr>)"
proof -
  have clk: "st_clock empty_site = 7" by (simp add: empty_site_def)
  obtain ca where ca: "NewCA site_crypto ''fjord'' empty_site = (Inr ca, empty_site\<lparr>st_clock := 11\<rparr>)"
    using site_issues(1) [of "''fjord''" empty_site] clk by auto
  obtain cert where cert: "IssueServerCert site_crypto ca AuthenticatorServiceAccountName [authenticatorServerName]
      (empty_site\<lparr>st_clock := 11\<rparr>) = (Inr cert, empty_site\<lparr>st_clock := 15\<rparr>)"
    using site_issues(2) [of ca AuthenticatorServiceAccountName "[authenticatorServerName]" "empty_site\<lparr>st_clock := 11\<rparr>"] by auto
  have dir: "path_join (path_join (path_join ''/home/u/.cache'' ''fjord'') ''authn'') ''demo'' = ''/home/u/.cache/fjord/authn/demo''"
    "path_join ''/home/u/.cache/fjord/authn/demo'' ''authn'' = ''/home/u/.cache/fjord/authn/demo/authn''"
    "path_join ''/home/u/.cache/fjord/authn/demo/authn'' ''webhook.yaml'' = ''/home/u/.cache/fjord/authn/demo/authn/webhook.yaml''"
    by code_simp+
  have "\<exists>staged. stageAuthenticator demo_host demo_options ca ([], demo_files) (empty_site\<lparr>st_clock := 11\<rparr>) =
      (Inr staged, ([], demo_staged ca), empty_site\<lparr>st_clock := 15\<rparr>)"
    by (simp add: stageAuthenticator_def authnStagingDir_def Stage_def issueAuthenticatorCert_def stageWebhookKubeconfig_def
        demo_options_def authnDirName_def webhookFileName_def dir cert Let_def ref_fs_def disk_clientcmd_def faulty_def
        demo_files_kept(1) demo_staged_def)
  then show ?thesis using ca by (auto simp: buildClusterConfig_def demo_options_def Let_def split: prod.split)
qed

lemma demo_run:
  "\<exists>f' w'. runCreateCluster demo_host demo_options ([], demo_files) empty_site = (Inr (clusterReadyMessage demo_options), f', w')"
proof -
  obtain r where r: "Resolve ''1.36'' = Inr r" "resolveEKSRelease demo_options = Inr r" using demo_release_found by auto
  let ?w = "empty_site\<lparr>st_clock := 15\<rparr>"
  obtain ca config cert where build: "buildClusterConfig demo_host demo_options r ([], demo_files) empty_site =
      (Inr (config, Some (ca, cert)), ([], demo_staged ca), ?w)" using demo_build by blast
  let ?f = "([], demo_staged ca) :: disk"
  have opt: "buildCreateOptions demo_host demo_options config r ?f =
      (Inr \<lparr>cr_component_dir = demo_dir, cr_config = Some config, cr_wait_for_ready = co_wait demo_options\<rparr>, ?f)"
    using demo_materialize [OF r(1) demo_files_kept(2)]
    by (simp add: buildCreateOptions_def demo_host_def site_tools_def)
  note cfg = cluster_files [OF demo_create_files demo_base r(2) build opt]
  then have create: "CreateCluster site_rask disk_walk (createClusterOptions.co_name demo_options)
      \<lparr>cr_component_dir = demo_dir, cr_config = Some config, cr_wait_for_ready = co_wait demo_options\<rparr> ?f ?w = (Inr (), ?w)"
    by (elim exE conjE) (subst create_with_webhook, assumption+, simp add: disk_walk_def site_rask_def)
  have name: "createClusterOptions.co_name demo_options = ''demo''" by (simp add: demo_options_def)
  have merge: "\<exists>path f'. mergeReadyKubeconfig demo_host site_rask ''demo'' ?f ?w = (Inr path, f')"
    by (simp add: mergeReadyKubeconfig_def mergeClusterKubeconfig_def KubeConfig_def site_rask_def disk_clientcmd_def
        site_parse_def loadOrNewKubeconfig_def demo_files_kept(3) faulty_def Let_def)
  have client: "clusterClient demo_host site_rask ''demo'' ?w = Inr (site_kube (\<lambda>_. False))"
    by (simp add: clusterClient_def KubeConfig_def site_rask_def NewClient_def demo_host_def)
  obtain s' where state: "applyEKSDefaultState demo_host site_rask (site_kube (\<lambda>_. False)) ''demo'' ?w = (Inr (), s')"
    "ref_cur s' = ref_cur empty_site" "list_all (\<lambda>ob. kind_of (ko_body ob) = KStorageClass) (cs_objects s')"
    using site_default_state by blast
  have ok: "secret_ok ref_cur s'" using empty_site_ok state(2) by (simp add: secret_ok_def registered_def)
  have tools: "site_tools\<lparr>tl_rask := site_rask\<rparr> = site_tools" by (simp add: site_tools_def)
  obtain info where "cluster_info_of site_tools (createClusterOptions.co_name demo_options) (r_eks_version r) s' = Inr info"
    by (simp add: cluster_info_of_def KubeConfig_def site_tools_def site_rask_def site_parse_def)
  from reliable_site.deployAgent_succeeds [OF ok this site_deployable [OF state(3)]] obtain w' where
    "deployAgent site_tools (site_kube (\<lambda>_. False)) demo_options ca cert (r_eks_version r) s' = (Inr (), w')" by blast
  moreover have "validateCreateClusterOptions demo_options = Inr ()" by (simp add: validateCreateClusterOptions_def demo_options_def)
  ultimately show ?thesis
    using r(2) build opt create merge client state(1) demo_base(4) tools
    by (auto simp: runCreateCluster_def name)
qed

section \<open>Properties\<close>

text \<open>
  C12: a cluster that \<open>create cluster\<close> brings up authenticates its users with fjord, without a
  moment's gap, and runs the release asked for. When the run succeeds, rask was asked to create
  the cluster from the directory of the release the wanted version (the latest, if none is given)
  resolves to: it is named by the checksum of the release's tarball for the architecture, that
  tarball lies beside it and has this checksum, all binaries are in the directory, and if they
  were not all there before the run, each is an entry of this tarball (binaries that were there
  are not looked into). It was given the release's CoreDNS image, and told to start its API server with
  the webhook configuration at the place where rask puts one of the files it copies into the node; that
  file is a kubeconfig whose current cluster is the authenticator's port on the node itself and
  whose CA is a fresh one. The deployment that follows gets the certificate this CA has issued,
  which a client that trusts the CA accepts for \<open>localhost\<close> from before the cluster is created for
  a year.
\<close>

theorem created_cluster_asks_authenticator:
  assumes "create_files (ch_fs ch) files (ch_http ch) (ch_clientcmd ch) (ch_walk ch)"
    and "x509 (tl_crypto (ch_tools ch)) accepts clock"
    and "ch_user_cache_dir ch = Inr base" and "clean_dir base" and "plain (createClusterOptions.co_name opts)"
    and "co_enable_auth opts" and "runCreateCluster ch opts f w = (Inr msg, f', w')"
  shows "\<exists>version release asset tarball rk ca cert w1 w2 f2 ro dest src kc kl w3.
    version = (if co_eks_version opts = [] then latestVersion SupportedVersions else co_eks_version opts) \<and>
    Resolve version = Inr release \<and> r_eks_version release = version \<and> newClusterProvider ch = Inr rk \<and>
    rk_create rk (createClusterOptions.co_name opts) ro w1 = (Inr (), w2) \<and>
    map_of (r_server_tarball release) (tl_arch (ch_tools ch)) = Some asset \<and>
    ro_component_dir ro = base @ ''/fjord/eksd/'' @ a_sha256 asset \<and>
    files f2 (base @ ''/fjord/eksd/'' @ a_sha256 asset @ ''.tar.gz'') = Some tarball \<and>
    ch_sha256_hex ch (fl_data tarball) = a_sha256 asset \<and>
    ((\<exists>n \<in> set binaries. files f (ro_component_dir ro @ ''/'' @ n) = None) \<longrightarrow>
       (\<exists>ax. ch_gunzip ch (fl_data tarball) = Inr ax \<and>
          (\<forall>n \<in> set binaries. \<exists>g. files f2 (ro_component_dir ro @ ''/'' @ n) = Some g \<and> from_entry (ax_entries ax) n g))) \<and>
    (\<forall>n \<in> set binaries. files f2 (ro_component_dir ro @ ''/'' @ n) \<noteq> None) \<and>
    ro_coredns_image ro = r_coredns_image release \<and>
    ro_api_server_args ro =
      [''authentication-token-webhook-config-file='' @ rk_preboot_path rk (createClusterOptions.co_name opts) dest] \<and>
    \<lparr>pf_src = src, pf_dest = dest\<rparr> \<in> set (ro_preboot_files ro) \<and>
    cc_load_file (ch_clientcmd ch) src f2 = Inr kc \<and>
    current_cluster kc = Some \<lparr>kc_server = ''https://localhost:'' @ string_of_int authenticatorPort @ ''/'',
      kc_ca_data = ca_cert_pem ca, kc_rest = []\<rparr> \<and>
    (\<forall>t. clock w1 \<le> t \<longrightarrow> t \<le> clock w + serverCertValidity - 10 ^ 9 \<longrightarrow>
       accepts (ca_cert_pem ca) (sc_cert_pem cert) (sc_key_pem cert) ''localhost'' t) \<and>
    deployAgent ((ch_tools ch)\<lparr>tl_rask := rk\<rparr>) kl opts ca cert (r_eks_version release) w3 = (Inr (), w')"
proof -
  from runCreateCluster_parts [OF assms(7)] obtain release config authn f1 w1 rk co f2 w2 kl w3 where
    rel: "resolveEKSRelease opts = Inr release"
    and build: "buildClusterConfig ch opts release f w = (Inr (config, authn), f1, w1)"
    and rk: "newClusterProvider ch = Inr rk" and opt: "buildCreateOptions ch opts config release f1 = (Inr co, f2)"
    and create: "CreateCluster rk (ch_walk ch) (createClusterOptions.co_name opts) co f2 w1 = (Inr (), w2)"
    and deploy: "case (if co_enable_auth opts then authn else None) of None \<Rightarrow> w' = w3 | Some (ca, cert) \<Rightarrow>
        deployAgent ((ch_tools ch)\<lparr>tl_rask := rk\<rparr>) kl opts ca cert (r_eks_version release) w3 = (Inr (), w')"
    by blast
  let ?cy = "tl_crypto (ch_tools ch)" and ?name = "createClusterOptions.co_name opts"
  obtain dir where dir_def: "dir = base @ ''/fjord/authn/'' @ ?name @ ''/authn''" by blast
  from cluster_files [OF assms(1,3-6) rel build opt, folded dir_def] obtain ca wa cert cd kc where
    ca: "NewCA ?cy ''fjord'' w = (Inr ca, wa)"
    and cert: "IssueServerCert ?cy ca AuthenticatorServiceAccountName [authenticatorServerName] wa = (Inr cert, w1)"
    and auth: "authn = Some (ca, cert)" and dir: "clean_dir dir"
    and cfg: "cg_extra_mounts config = [\<lparr>mo_host_path = dir, mo_container_path = nodeAuthnDir\<rparr>]"
      "cg_auth_webhook config =
        Some \<lparr>aw_config_file_path = nodeAuthnDir @ ''/'' @ webhookFileName, aw_volume_mount_path = nodeAuthnDir\<rparr>"
      "cg_coredns_repository config \<noteq> []" "cg_coredns_tag config \<noteq> []"
    and image: "r_coredns_image release = cg_coredns_repository config @ '':'' @ cg_coredns_tag config"
    and co: "co = \<lparr>cr_component_dir = cd, cr_config = Some config, cr_wait_for_ready = co_wait opts\<rparr>"
    and bins: "\<forall>n \<in> set binaries. files f2 (cd @ slash # n) \<noteq> None"
    and kc: "cc_load_file (ch_clientcmd ch) (dir @ slash # webhookFileName) f2 = Inr kc"
      "files f2 (dir @ slash # webhookFileName) \<noteq> None" "view kc = view (webhook_kubeconfig ca)" by blast
  note version = resolved_version [OF rel refl]
  from cluster_components [OF assms(1,3-5) rel build opt] obtain asset tarball where
    components: "map_of (r_server_tarball release) (tl_arch (ch_tools ch)) = Some asset"
      "cd = base @ ''/fjord/eksd/'' @ a_sha256 asset"
      "files f2 (base @ ''/fjord/eksd/'' @ a_sha256 asset @ ''.tar.gz'') = Some tarball"
      "ch_sha256_hex ch (fl_data tarball) = a_sha256 asset"
      "(\<exists>n \<in> set binaries. files f (cd @ ''/'' @ n) = None) \<longrightarrow>
       (\<exists>ax. ch_gunzip ch (fl_data tarball) = Inr ax \<and>
          (\<forall>n \<in> set binaries. \<exists>g. files f2 (cd @ ''/'' @ n) = Some g \<and> from_entry (ax_entries ax) n g))"
    unfolding co create_options.simps by blast
  let ?dest = "path_join (mountDestPrefix 0) webhookFileName"
  have file_name: "plain webhookFileName" by (simp add: plain_def dotdot_def webhookFileName_def)
  from create [unfolded co create_with_webhook [OF cfg]] obtain entries where walk: "ch_walk ch dir f2 = Inr entries"
    and made: "rk_create rk ?name (webhook_options rk ?name cd config (co_wait opts) dir webhookFileName entries) w1 = (Inr (), w2)"
    by blast
  then obtain ro where ro: "rk_create rk ?name ro w1 = (Inr (), w2)" "ro_component_dir ro = cd"
      "ro_coredns_image ro = cg_coredns_repository config @ '':'' @ cg_coredns_tag config"
      "ro_api_server_args ro = [''authentication-token-webhook-config-file='' @ rk_preboot_path rk ?name ?dest]"
      "ro_preboot_files ro = mount_files 0 dir entries"
    by (simp add: webhook_options_def authWebhookConfigFileArg_def)
  have "(webhookFileName, False) \<in> set entries"
    by (rule create_files.walk_law [OF assms(1) walk dir file_name kc(2)])
  then have pf: "\<lparr>pf_src = dir @ slash # webhookFileName, pf_dest = ?dest\<rparr> \<in> set (ro_preboot_files ro)"
    using in_mount_files [of webhookFileName entries dir 0] path_join_plain(1) [OF dir file_name] ro(5) by simp
  have run: "deployAgent ((ch_tools ch)\<lparr>tl_rask := rk\<rparr>) kl opts ca cert (r_eks_version release) w3 = (Inr (), w')"
    using deploy auth assms(6) by simp
  have bins': "\<forall>n \<in> set binaries. files f2 (ro_component_dir ro @ ''/'' @ n) \<noteq> None" using bins ro(2) by simp
  have image': "ro_coredns_image ro = r_coredns_image release" using ro(3) image by simp
  note webhook = webhook_cluster [OF kc(3)] and accepted = authenticator_accepted [OF assms(2) ca cert]
  show ?thesis
    by (rule exI [where x = "if co_eks_version opts = [] then latestVersion SupportedVersions else co_eks_version opts"],
        rule exI [of _ release], rule exI [of _ asset], rule exI [of _ tarball], rule exI [of _ rk], rule exI [of _ ca],
        rule exI [of _ cert], rule exI [of _ w1], rule exI [of _ w2], rule exI [of _ f2], rule exI [of _ ro],
        rule exI [of _ ?dest], rule exI [of _ "dir @ slash # webhookFileName"], rule exI [of _ kc],
        rule exI [of _ kl], rule exI [of _ w3],
        intro conjI refl version rk ro(1) components(1,3,4) components(2) [folded ro(2)] components(5) [folded ro(2)]
          bins' image' ro(4) pf kc(1) webhook accepted run allI impI)
qed


theorem created_cluster_asks_authenticator_witness:
  "\<exists>f' w' f2 ro src dest kc ca.
     runCreateCluster demo_host demo_options ([], demo_files) empty_site = (Inr (clusterReadyMessage demo_options), f', w') \<and>
     ro_component_dir ro = demo_dir \<and>
     ro_api_server_args (ro :: rask_options) = [''authentication-token-webhook-config-file=/var/lib/rask/demo/preboot/'' @ dest] \<and>
     \<lparr>pf_src = src, pf_dest = dest\<rparr> \<in> set (ro_preboot_files ro) \<and> cc_load_file disk_clientcmd src f2 = Inr kc \<and>
     current_cluster kc = Some \<lparr>kc_server = ''https://localhost:9443/'', kc_ca_data = ca_cert_pem (ca :: nat CA), kc_rest = []\<rparr>"
proof -
  obtain f' w' where run: "runCreateCluster demo_host demo_options ([], demo_files) empty_site =
      (Inr (clusterReadyMessage demo_options), f', w')" using demo_run by blast
  have x509: "x509 (tl_crypto (ch_tools demo_host)) ref_accepts site_clock" using site_x509.x509_axioms by simp
  have port: "string_of_int authenticatorPort = ''9443''"
    by (simp add: authenticatorPort_def string_of_int_def string_of_nat.simps digit_char_def) code_simp
  have name: "createClusterOptions.co_name demo_options = ''demo''" by (simp add: demo_options_def)
  from created_cluster_asks_authenticator [OF demo_create_files x509 demo_base run] obtain version release asset rk ca f2 ro dest src kc where
    version: "version = (if co_eks_version demo_options = [] then latestVersion SupportedVersions
        else co_eks_version demo_options)" "Resolve version = Inr release"
    and dir: "map_of (r_server_tarball release) (tl_arch (ch_tools demo_host)) = Some asset"
      "ro_component_dir (ro :: rask_options) = ''/home/u/.cache'' @ ''/fjord/eksd/'' @ a_sha256 asset"
    and rk: "newClusterProvider demo_host = Inr rk"
    and args: "ro_api_server_args (ro :: rask_options) =
      [''authentication-token-webhook-config-file='' @ rk_preboot_path rk (createClusterOptions.co_name demo_options) dest]"
    and files: "\<lparr>pf_src = src, pf_dest = dest\<rparr> \<in> set (ro_preboot_files ro)"
      "cc_load_file (ch_clientcmd demo_host) src f2 = Inr kc"
    and cl: "current_cluster kc = Some \<lparr>kc_server = ''https://localhost:'' @ string_of_int authenticatorPort @ ''/'',
      kc_ca_data = ca_cert_pem (ca :: nat CA), kc_rest = []\<rparr>" by blast
  have rk': "rk = site_rask" using rk by simp
  from version have "resolveEKSRelease demo_options = Inr release" by (simp add: resolveEKSRelease_def Let_def)
  then have "Resolve ''1.36'' = Inr release" by (simp only: demo_release_found(1))
  from demo_release_asset [OF this] dir have "ro_component_dir ro = demo_dir"
    by (auto simp: demo_dir_def site_tools_def)
  moreover have "ro_api_server_args ro = [''authentication-token-webhook-config-file=/var/lib/rask/demo/preboot/'' @ dest]"
    using args by (simp add: rk' name site_rask_def)
  moreover have "current_cluster kc = Some \<lparr>kc_server = ''https://localhost:9443/'', kc_ca_data = ca_cert_pem ca, kc_rest = []\<rparr>"
    using cl by (simp add: port)
  ultimately show ?thesis using run files by (simp only: demo_host_simps) blast
qed

text \<open>
  C28: \<open>create cluster\<close> touches nothing of the user's but the kubeconfig, and that only once the
  cluster exists. Whatever is asked for and whichever call fails, every file outside
  \<open>fjord\<close> in the user's cache directory is as it was until rask has created the cluster; from then
  on only the default kubeconfig can change.
\<close>

theorem create_cluster_keeps_files:
  assumes "create_files (ch_fs ch) files (ch_http ch) (ch_clientcmd ch) (ch_walk ch)"
    and "ch_user_cache_dir ch = Inr base" and "clean_dir base" and "plain (createClusterOptions.co_name opts)"
    and "runCreateCluster ch opts f w = (res, f', w')"
  shows "\<exists>f2. (\<forall>q. \<not> under (base @ ''/fjord'') q \<longrightarrow> files f2 q = files f q) \<and>
    (f' = f2 \<or>
     (\<exists>rk ro w1 w2. newClusterProvider ch = Inr rk \<and> rk_create rk (createClusterOptions.co_name opts) ro w1 = (Inr (), w2) \<and>
        (\<forall>q. q \<noteq> cc_default_filename (ch_clientcmd ch) f2 \<longrightarrow> files f' q = files f2 q)))"
proof (cases "validateCreateClusterOptions opts = Inr () \<and> (\<exists>release. resolveEKSRelease opts = Inr release)")
  case False
  with assms(5) have "f' = f" by (auto simp: runCreateCluster_def split: sum.splits)
  then show ?thesis by auto
next
  case True
  then obtain release where rel: "validateCreateClusterOptions opts = Inr ()" "resolveEKSRelease opts = Inr release" by blast
  let ?name = "createClusterOptions.co_name opts"
  obtain b f1 w1 where build: "buildClusterConfig ch opts release f w = (b, f1, w1)" by (metis surj_pair)
  obtain o2 f2 where opt: "buildCreateOptions ch opts (fst (projr b)) release f1 = (o2, f2)" by (metis surj_pair)
  have out1: "files f1 q = files f q" if "\<not> under (base @ ''/fjord'') q" for q
    by (rule staging_frame [OF assms(1-4) build that])
  have out2: "files f2 q = files f q" if "\<not> under (base @ ''/fjord'') q" for q
    using components_frame [OF assms(1-4) rel(2) opt that] out1 [OF that] by simp
  consider "f' = f1" | "f' = f2"
    | rk co w2 r where "newClusterProvider ch = Inr rk" "CreateCluster rk (ch_walk ch) ?name co f2 w1 = (Inr (), w2)"
      "mergeReadyKubeconfig ch rk ?name f2 w2 = (r, f')"
    using assms(5) rel build opt by (auto simp: runCreateCluster_def split: sum.splits prod.splits)
  then show ?thesis
  proof cases
    case 1
    then show ?thesis using out1 by auto
  next
    case 2
    then show ?thesis using out2 by auto
  next
    case 3
    with merge_frame [OF assms(1)] CreateCluster_made out2 show ?thesis by metis
  qed
qed

theorem create_cluster_keeps_files_witness:
  "\<exists>res f' w' f2. runCreateCluster demo_host demo_options ([], (''/etc/hosts'', \<lparr>fl_mode = 420, fl_data = [1]\<rparr>) # demo_files) empty_site =
       (res, f', w') \<and> map_of (snd f') ''/etc/hosts'' = Some \<lparr>fl_mode = 420, fl_data = [1]\<rparr>"
proof -
  let ?f = "([], (''/etc/hosts'', \<lparr>fl_mode = 420, fl_data = [1]\<rparr>) # demo_files) :: disk"
  obtain res f' w' where run: "runCreateCluster demo_host demo_options ?f empty_site = (res, f', w')" by (metis surj_pair)
  have away: "\<not> under (''/home/u/.cache'' @ ''/fjord'') ''/etc/hosts''"
    "''/etc/hosts'' \<noteq> cc_default_filename (ch_clientcmd demo_host) f2" for f2
    by (simp_all add: under_def prefix_def disk_clientcmd_def Let_def)
  from create_cluster_keeps_files [OF demo_create_files demo_base(1-3) run] away
  have "map_of (snd f') ''/etc/hosts'' = map_of (snd ?f) ''/etc/hosts''" by metis
  with run show ?thesis by auto
qed

end
