(* ===== verification/Agent_Server.thy ===== *)
theory Agent_Server
  imports Sts Eks_Auth Facade Go_Url Go_Path
begin

text \<open>
  The agent's HTTP server (\<open>internal/agent/server.go\<close>): its options, the routes of its Handler
  and what a request gets. The routes are those of Go's \<open>http.ServeMux\<close>: a literal segment
  before a wildcard before a subtree, with backtracking, GET also for HEAD, a redirect to the
  clean path. Hosts and CONNECT do not occur, the HTML of a redirect is left out.
\<close>

section \<open>Patterns of http.ServeMux\<close>

datatype pattern_segment = Lit string | Wild string

record 'e route =
  rt_method :: string
  rt_segments :: "pattern_segment list"
  rt_subtree :: bool
  rt_handler :: 'e

definition pattern_segment :: "string \<Rightarrow> pattern_segment" where
  "pattern_segment s = (if prefix ''{'' s then Wild (butlast (tl s)) else Lit s)"

text \<open>\<open>HandleFunc\<close>: a pattern is an optional method and a path, with a final slash for a subtree.\<close>

definition HandleFunc :: "string \<Rightarrow> 'e \<Rightarrow> 'e route" where
  "HandleFunc pattern e =
     (let (m, path) = (case cut_at (CHR '' '') pattern of None \<Rightarrow> ([], pattern) | Some p \<Rightarrow> p);
          segs = split_all slash (tl path);
          subtree = (last segs = [])
      in \<lparr>rt_method = m, rt_segments = map pattern_segment (if subtree then butlast segs else segs),
          rt_subtree = subtree, rt_handler = e\<rparr>)"

text \<open>\<open>url.PathUnescape\<close>, with the text itself when it is not a valid encoding.\<close>

definition path_unescape :: "string \<Rightarrow> string" where
  "path_unescape s = (case unescape UPath s of None \<Rightarrow> s | Some t \<Rightarrow> t)"

text \<open>The segments the mux matches; a trailing slash is a segment of its own.\<close>

definition path_segments :: "string \<Rightarrow> string list" where
  "path_segments path =
     (let cs = split_all slash (tl path) in
      if last cs = [] then map path_unescape (butlast cs) @ [''/''] else map path_unescape cs)"

definition clean_url_path :: "string \<Rightarrow> string" where
  "clean_url_path p =
     (if p = [] then ''/''
      else
        (let p1 = (if hd p = slash then p else slash # p);
             np = path_clean p1
         in if last p1 = slash \<and> np \<noteq> ''/'' then np @ ''/'' else np))"

text \<open>A route with the segments of its pattern that are still to be matched.\<close>

type_synonym 'e candidate = "pattern_segment list \<times> 'e route"

definition children :: "(pattern_segment \<Rightarrow> bool) \<Rightarrow> 'e candidate list \<Rightarrow> 'e candidate list" where
  "children P cs = map (\<lambda>(ps, rt). (tl ps, rt)) (filter (\<lambda>(ps, rt). ps \<noteq> [] \<and> P (hd ps)) cs)"

definition leaf :: "bool \<Rightarrow> 'e candidate list \<Rightarrow> 'e route option" where
  "leaf subtree cs = map_option snd (find (\<lambda>(ps, rt). ps = [] \<and> rt_subtree rt = subtree) cs)"

definition is_wild :: "pattern_segment \<Rightarrow> bool" where
  "is_wild p \<longleftrightarrow> (case p of Wild _ \<Rightarrow> True | Lit _ \<Rightarrow> False)"

fun match_path :: "'e candidate list \<Rightarrow> string list \<Rightarrow> string list \<Rightarrow> ('e route \<times> string list) option" where
  "match_path cs [] ms = map_option (\<lambda>rt. (rt, ms)) (leaf False cs)"
| "match_path cs (seg # rest) ms =
     (case match_path (children (\<lambda>p. p = Lit seg) cs) rest ms of
        Some r \<Rightarrow> Some r
      | None \<Rightarrow>
          (case (if seg = ''/'' then None else match_path (children is_wild cs) rest (ms @ [seg])) of
             Some r \<Rightarrow> Some r
           | None \<Rightarrow> map_option (\<lambda>rt. (rt, ms)) (leaf True cs)))"

definition match_method ::
  "'e route list \<Rightarrow> string \<Rightarrow> string \<Rightarrow> ('e route \<times> string list) option" where
  "match_method rts m path =
     match_path (map (\<lambda>rt. (rt_segments rt, rt)) (filter (\<lambda>rt. rt_method rt = m) rts)) (path_segments path) []"

definition mux_match ::
  "'e route list \<Rightarrow> string \<Rightarrow> string \<Rightarrow> ('e route \<times> string list) option" where
  "mux_match rts m path =
     (case match_method rts m path of
        Some r \<Rightarrow> Some r
      | None \<Rightarrow>
          (case (if m = ''HEAD'' then match_method rts ''GET'' path else None) of
             Some r \<Rightarrow> Some r
           | None \<Rightarrow> match_method rts [] path))"

text \<open>The methods of a 405, for the path or the path with a slash.\<close>

definition allowed_methods :: "'e route list \<Rightarrow> string \<Rightarrow> string list" where
  "allowed_methods rts path =
     (let matching = (\<lambda>p. filter (\<lambda>m. m \<noteq> [] \<and> match_method rts m p \<noteq> None) (remdups (map rt_method rts)));
          ms = matching path @ (if last path = slash then [] else matching (path @ ''/''))
      in sort (remdups (ms @ (if ''GET'' \<in> set ms then [''HEAD''] else []))))"

definition wild_names :: "pattern_segment list \<Rightarrow> string list" where
  "wild_names ps = List.map_filter (\<lambda>p. case p of Wild n \<Rightarrow> Some n | Lit _ \<Rightarrow> None) ps"

datatype 'e dispatch =
    MuxRedirect string
  | MuxNotFound
  | MuxNotAllowed "string list"
  | MuxFound 'e "(string \<times> string) list"

text \<open>\<open>path\<close> is the escaped path of the URL.\<close>

definition mux_find :: "'e route list \<Rightarrow> string \<Rightarrow> string \<Rightarrow> 'e dispatch" where
  "mux_find rts m path =
     (if clean_url_path path \<noteq> path then MuxRedirect (clean_url_path path)
      else
        (case mux_match rts m path of
           Some (rt, ms) \<Rightarrow> MuxFound (rt_handler rt) (zip (wild_names (rt_segments rt)) ms)
         | None \<Rightarrow>
             (if allowed_methods rts path \<noteq> [] then MuxNotAllowed (allowed_methods rts path)
              else MuxNotFound)))"

section \<open>The server\<close>

text \<open>What the endpoints call of each store, and of the in-cluster client.\<close>

record 'w principal_methods =
  ps_get_by_access_key_id :: "string \<Rightarrow> 'w \<Rightarrow> (go_error + principal) \<times> 'w"
  ps_put :: "principal \<Rightarrow> 'w \<Rightarrow> (go_error + unit) \<times> 'w"

record 'w pod_identity_methods =
  pi_get :: "string \<times> string \<Rightarrow> 'w \<Rightarrow> (go_error + association) \<times> 'w"
  pi_put :: "association \<Rightarrow> 'w \<Rightarrow> (go_error + unit) \<times> 'w"

record 'w access_entry_methods =
  em_get :: "string \<Rightarrow> 'w \<Rightarrow> (go_error + access_entry) \<times> 'w"
  em_put :: "access_entry \<Rightarrow> 'w \<Rightarrow> (go_error + unit) \<times> 'w"
  em_delete :: "string \<Rightarrow> 'w \<Rightarrow> (go_error + unit) \<times> 'w"
  em_list :: "'w \<Rightarrow> (go_error + access_entry list) \<times> 'w"

type_synonym 'w cluster_info_get = "'w \<Rightarrow> (go_error + cluster_info) \<times> 'w"

record 'w server_client =
  sc_review :: "string \<Rightarrow> string list \<Rightarrow> 'w \<Rightarrow> (go_error + review_result) \<times> 'w"
  sc_rbac :: "'w rbac_client"

text \<open>The sessions of the server are part of the state its requests run in (\<open>st_sessions\<close>).\<close>

record 'w server =
  sv_store :: "'w principal_methods"
  sv_client :: "'w server_client option"
  sv_pod_identity_store :: "'w pod_identity_methods option"
  sv_access_entry_store :: "'w access_entry_methods option"
  sv_cluster_info_store :: "'w cluster_info_get option"

type_synonym 'w server_option = "'w server \<Rightarrow> 'w server"

definition WithPodIdentity :: "'w server_client \<Rightarrow> 'w pod_identity_methods \<Rightarrow> 'w server_option" where
  "WithPodIdentity client store s =
     s\<lparr>sv_client := Some client, sv_pod_identity_store := Some store\<rparr>"

definition WithEKSAPI ::
  "'w server_client \<Rightarrow> 'w access_entry_methods \<Rightarrow> 'w cluster_info_get \<Rightarrow> 'w server_option" where
  "WithEKSAPI client accessEntryStore clusterInfoStore s =
     s\<lparr>sv_client := Some client, sv_access_entry_store := Some accessEntryStore,
       sv_cluster_info_store := Some clusterInfoStore\<rparr>"

definition NewServer :: "'w principal_methods \<Rightarrow> 'w server_option list \<Rightarrow> 'w server" where
  "NewServer store opts =
     fold (\<lambda>opt s. opt s) opts
       \<lparr>sv_store = store, sv_client = None, sv_pod_identity_store = None,
        sv_access_entry_store = None, sv_cluster_info_store = None\<rparr>"

datatype endpoint =
    DispatchSTS
  | AssumeRoleForPodIdentity
  | CreatePodIdentityAssociation
  | ListClustersEndpoint
  | DescribeCluster
  | ListAddons
  | DescribeAddon
  | CreateAccessEntry
  | ListAccessEntries
  | DeleteAccessEntry
  | AssociateAccessPolicy
  | ListAssociatedAccessPolicies
  | DisassociateAccessPolicy

definition Handler :: "'w server \<Rightarrow> endpoint route list" where
  "Handler s =
     [HandleFunc ''POST /'' DispatchSTS] @
     (if sv_pod_identity_store s \<noteq> None then
        [HandleFunc ''POST /clusters/{name}/assume-role-for-pod-identity'' AssumeRoleForPodIdentity,
         HandleFunc ''POST /clusters/{name}/pod-identity-associations'' CreatePodIdentityAssociation]
      else []) @
     (if sv_access_entry_store s \<noteq> None then
        [HandleFunc ''GET /clusters'' ListClustersEndpoint,
         HandleFunc ''GET /clusters/{name}'' DescribeCluster,
         HandleFunc ''GET /clusters/{name}/addons'' ListAddons,
         HandleFunc ''GET /clusters/{name}/addons/{addonName}'' DescribeAddon,
         HandleFunc ''POST /clusters/{name}/access-entries'' CreateAccessEntry,
         HandleFunc ''GET /clusters/{name}/access-entries'' ListAccessEntries,
         HandleFunc ''DELETE /clusters/{name}/access-entries'' DeleteAccessEntry,
         HandleFunc ''POST /clusters/{name}/access-entries/access-policies'' AssociateAccessPolicy,
         HandleFunc ''GET /clusters/{name}/access-entries/access-policies'' ListAssociatedAccessPolicies,
         HandleFunc ''DELETE /clusters/{name}/access-entries/access-policies'' DisassociateAccessPolicy]
      else [])"

text \<open>
  The server \<open>serveAPI\<close> of \<open>cmd/fjord-agent/main.go\<close> makes, from the clients of Secrets and
  ConfigMaps that one clientset is.
\<close>

definition api_server ::
  "'w server_client \<Rightarrow> sha256 \<Rightarrow> 'w data_client \<Rightarrow> 'w data_client \<Rightarrow> 'w server" where
  "api_server clientset sha secrets configMaps =
     NewServer
       \<lparr>ps_get_by_access_key_id = secret_get_by_access_key_id secrets, ps_put = secret_put secrets\<rparr>
       [WithPodIdentity clientset \<lparr>pi_get = pia_get_by_sa configMaps, pi_put = pia_put configMaps\<rparr>,
        WithEKSAPI clientset
          \<lparr>em_get = entry_get configMaps sha, em_put = entry_put configMaps sha,
           em_delete = entry_delete configMaps sha, em_list = entry_list configMaps\<rparr>
          (info_get configMaps)]"

section \<open>Serving a request\<close>

text \<open>The state of the server's requests: the cluster, the sessions and the randomness.\<close>

definition on_store ::
  "('w \<Rightarrow> http_response \<times> 'w) \<Rightarrow> ('w, 'r) sts_state \<Rightarrow> http_response \<times> ('w, 'r) sts_state" where
  "on_store f s = (case f (st_store s) of (resp, w) \<Rightarrow> (resp, s\<lparr>st_store := w\<rparr>))"

definition on_store_rng ::
  "('w \<times> 'r \<Rightarrow> http_response \<times> 'w \<times> 'r) \<Rightarrow> ('w, 'r) sts_state \<Rightarrow> http_response \<times> ('w, 'r) sts_state" where
  "on_store_rng f s =
     (case f (st_store s, st_rng s) of (resp, w, r) \<Rightarrow> (resp, s\<lparr>st_store := w, st_rng := r\<rparr>))"

text \<open>\<open>None\<close>: the endpoint runs into a part of the server that was not configured.\<close>

definition run_endpoint ::
  "'w server \<Rightarrow> 'r rand_source \<Rightarrow> sha256 \<Rightarrow> instant \<Rightarrow> endpoint \<Rightarrow> http_request \<Rightarrow> ('w, 'r) sts_state
   \<Rightarrow> (http_response \<times> ('w, 'r) sts_state) option" where
  "run_endpoint sv rs sha now e r s =
     (case e of
        DispatchSTS \<Rightarrow> Some (dispatchSTS (ps_get_by_access_key_id (sv_store sv)) rs now r s)
      | AssumeRoleForPodIdentity \<Rightarrow>
          (case (sv_client sv, sv_pod_identity_store sv) of
             (Some c, Some p) \<Rightarrow>
               Some (on_store_rng
                 (handleAssumeRoleForPodIdentity (sc_review c) (pi_get p) (ps_put (sv_store sv)) rs now r) s)
           | _ \<Rightarrow> None)
      | CreatePodIdentityAssociation \<Rightarrow>
          map_option (\<lambda>p. on_store_rng (handleCreatePodIdentityAssociation (pi_put p) rs r) s)
            (sv_pod_identity_store sv)
      | ListClustersEndpoint \<Rightarrow>
          map_option (\<lambda>get. on_store (handleListClusters get r) s) (sv_cluster_info_store sv)
      | DescribeCluster \<Rightarrow>
          map_option (\<lambda>get. on_store (handleDescribeCluster get r) s) (sv_cluster_info_store sv)
      | ListAddons \<Rightarrow> Some (handleListAddons r, s)
      | DescribeAddon \<Rightarrow> Some (handleDescribeAddon r, s)
      | CreateAccessEntry \<Rightarrow>
          map_option (\<lambda>m. on_store (handleCreateAccessEntry (em_put m) r) s) (sv_access_entry_store sv)
      | ListAccessEntries \<Rightarrow>
          map_option (\<lambda>m. on_store (handleListAccessEntries (em_list m) r) s) (sv_access_entry_store sv)
      | DeleteAccessEntry \<Rightarrow>
          map_option (\<lambda>m. on_store (handleDeleteAccessEntry (em_delete m) r) s) (sv_access_entry_store sv)
      | AssociateAccessPolicy \<Rightarrow>
          (case (sv_client sv, sv_access_entry_store sv) of
             (Some c, Some m) \<Rightarrow>
               Some (on_store (handleAssociateAccessPolicy (sc_rbac c) sha (em_get m) (em_put m) r) s)
           | _ \<Rightarrow> None)
      | ListAssociatedAccessPolicies \<Rightarrow>
          map_option (\<lambda>m. on_store (handleListAssociatedAccessPolicies (em_get m) r) s)
            (sv_access_entry_store sv)
      | DisassociateAccessPolicy \<Rightarrow>
          (case (sv_client sv, sv_access_entry_store sv) of
             (Some c, Some m) \<Rightarrow>
               Some (on_store (handleDisassociateAccessPolicy (sc_rbac c) sha (em_get m) (em_put m) r) s)
           | _ \<Rightarrow> None))"

definition redirect_response :: "string \<Rightarrow> http_response" where
  "redirect_response u = \<lparr>resp_status = 301, resp_headers = [(''Location'', u)], resp_body = NoBody\<rparr>"

definition not_allowed_response :: "string list \<Rightarrow> http_response" where
  "not_allowed_response ms =
     (let e = http_plain_error (Msg ''Method Not Allowed'') 405 in
      e\<lparr>resp_headers := (''Allow'', concat (map (\<lambda>m. m @ '', '') (butlast ms)) @ last ms) # resp_headers e\<rparr>)"

text \<open>The query \<open>q\<close> is kept by a redirect.\<close>

definition serve ::
  "'w server \<Rightarrow> 'r rand_source \<Rightarrow> sha256 \<Rightarrow> instant \<Rightarrow> string \<Rightarrow> string \<Rightarrow> string \<Rightarrow> http_request
   \<Rightarrow> ('w, 'r) sts_state \<Rightarrow> (http_response \<times> ('w, 'r) sts_state) option" where
  "serve sv rs sha now m path q r s =
     (case mux_find (Handler sv) m path of
        MuxRedirect u \<Rightarrow> Some (redirect_response (if q = [] then u else u @ ''?'' @ q), s)
      | MuxNotFound \<Rightarrow> Some (http_plain_error (Msg ''404 page not found'') 404, s)
      | MuxNotAllowed ms \<Rightarrow> Some (not_allowed_response ms, s)
      | MuxFound e vs \<Rightarrow> run_endpoint sv rs sha now e (r\<lparr>req_path_values := vs\<rparr>) s)"

section \<open>The routes of the agent\<close>

text \<open>The endpoint of a request by the segments of its path, read off the documentation of the APIs.\<close>

definition reads :: "string \<Rightarrow> bool" where
  "reads m \<longleftrightarrow> m = ''GET'' \<or> m = ''HEAD''"

definition entry_endpoint :: "string \<Rightarrow> endpoint option" where
  "entry_endpoint m =
     (if m = ''POST'' then Some CreateAccessEntry else if m = ''DELETE'' then Some DeleteAccessEntry
      else if reads m then Some ListAccessEntries else None)"

definition policy_endpoint :: "string \<Rightarrow> endpoint option" where
  "policy_endpoint m =
     (if m = ''POST'' then Some AssociateAccessPolicy else if m = ''DELETE'' then Some DisassociateAccessPolicy
      else if reads m then Some ListAssociatedAccessPolicies else None)"

definition cluster_endpoint :: "string \<Rightarrow> string list \<Rightarrow> (endpoint \<times> string list) option" where
  "cluster_endpoint m segs =
     (case segs of
        [] \<Rightarrow> if reads m then Some (ListClustersEndpoint, []) else None
      | n # api \<Rightarrow>
          if n = ''/'' then None
          else
            (case api of
               [] \<Rightarrow> if reads m then Some (DescribeCluster, [n]) else None
             | [a] \<Rightarrow>
                 map_option (\<lambda>e. (e, [n]))
                   (if a = ''addons'' then (if reads m then Some ListAddons else None)
                    else if a = ''access-entries'' then entry_endpoint m
                    else if m = ''POST'' \<and> a = ''assume-role-for-pod-identity'' then Some AssumeRoleForPodIdentity
                    else if m = ''POST'' \<and> a = ''pod-identity-associations'' then Some CreatePodIdentityAssociation
                    else None)
             | [a, b] \<Rightarrow>
                 (if a = ''addons'' \<and> reads m \<and> b \<noteq> ''/'' then Some (DescribeAddon, [n, b])
                  else if a = ''access-entries'' \<and> b = ''access-policies''
                  then map_option (\<lambda>e. (e, [n])) (policy_endpoint m)
                  else None)
             | _ \<Rightarrow> None))"

definition agent_endpoint :: "string \<Rightarrow> string list \<Rightarrow> (endpoint \<times> string list) option" where
  "agent_endpoint m segs =
     (case (case segs of [] \<Rightarrow> None | c # rest \<Rightarrow> if c = ''clusters'' then cluster_endpoint m rest else None) of
        Some r \<Rightarrow> Some r
      | None \<Rightarrow> if m = ''POST'' then Some (DispatchSTS, []) else None)"

definition value_names :: "endpoint \<Rightarrow> string list" where
  "value_names e =
     (case e of DispatchSTS \<Rightarrow> [] | ListClustersEndpoint \<Rightarrow> []
      | DescribeAddon \<Rightarrow> [''name'', ''addonName''] | _ \<Rightarrow> [''name''])"

definition configured :: "'w server \<Rightarrow> bool" where
  "configured sv \<longleftrightarrow>
     sv_client sv \<noteq> None \<and> sv_pod_identity_store sv \<noteq> None \<and> sv_access_entry_store sv \<noteq> None \<and>
     sv_cluster_info_store sv \<noteq> None"

abbreviation route_of :: "string \<Rightarrow> pattern_segment list \<Rightarrow> bool \<Rightarrow> 'e \<Rightarrow> 'e route" where
  "route_of m ps subtree e \<equiv> \<lparr>rt_method = m, rt_segments = ps, rt_subtree = subtree, rt_handler = e\<rparr>"

abbreviation named :: "string list \<Rightarrow> pattern_segment list" where
  "named api \<equiv> [Lit ''clusters'', Wild ''name''] @ map Lit api"

lemma HandleFunc_values:
  "HandleFunc ''POST /'' e = route_of ''POST'' [] True e"
  "HandleFunc ''POST /clusters/{name}/assume-role-for-pod-identity'' e =
     route_of ''POST'' (named [''assume-role-for-pod-identity'']) False e"
  "HandleFunc ''POST /clusters/{name}/pod-identity-associations'' e =
     route_of ''POST'' (named [''pod-identity-associations'']) False e"
  "HandleFunc ''GET /clusters'' e = route_of ''GET'' [Lit ''clusters''] False e"
  "HandleFunc ''GET /clusters/{name}'' e = route_of ''GET'' (named []) False e"
  "HandleFunc ''GET /clusters/{name}/addons'' e = route_of ''GET'' (named [''addons'']) False e"
  "HandleFunc ''GET /clusters/{name}/addons/{addonName}'' e =
     route_of ''GET'' (named [''addons''] @ [Wild ''addonName'']) False e"
  "HandleFunc ''POST /clusters/{name}/access-entries'' e = route_of ''POST'' (named [''access-entries'']) False e"
  "HandleFunc ''GET /clusters/{name}/access-entries'' e = route_of ''GET'' (named [''access-entries'']) False e"
  "HandleFunc ''DELETE /clusters/{name}/access-entries'' e =
     route_of ''DELETE'' (named [''access-entries'']) False e"
  "HandleFunc ''POST /clusters/{name}/access-entries/access-policies'' e =
     route_of ''POST'' (named [''access-entries'', ''access-policies'']) False e"
  "HandleFunc ''GET /clusters/{name}/access-entries/access-policies'' e =
     route_of ''GET'' (named [''access-entries'', ''access-policies'']) False e"
  "HandleFunc ''DELETE /clusters/{name}/access-entries/access-policies'' e =
     route_of ''DELETE'' (named [''access-entries'', ''access-policies'']) False e"
  by (simp_all add: HandleFunc_def cut_at_def pattern_segment_def)

lemma path_segments_ne [simp]: "path_segments p \<noteq> []"
  by (simp add: path_segments_def Let_def)

lemma children_steps [simp]:
  "children P [] = []"
  "children P (([], rt) # cs) = children P cs"
  "children P ((p # ps, rt) # cs) = (if P p then (ps, rt) # children P cs else children P cs)"
  by (simp_all add: children_def)

lemma leaf_steps [simp]:
  "leaf b [] = None"
  "leaf b ((p # ps, rt) # cs) = leaf b cs"
  "leaf b (([], rt) # cs) = (if rt_subtree rt = b then Some rt else leaf b cs)"
  by (simp_all add: leaf_def)

lemma is_wild_steps [simp]: "is_wild (Wild x)" "\<not> is_wild (Lit x)"
  by (simp_all add: is_wild_def)

lemma match_nothing [simp]: "match_path [] segs ms = None"
  by (induction segs arbitrary: ms) simp_all

lemma wild_names_steps [simp]:
  "wild_names [] = []" "wild_names (Wild x # ps) = x # wild_names ps" "wild_names (Lit x # ps) = wild_names ps"
  by (simp_all add: wild_names_def map_filter_simps)

definition candidates :: "'w server \<Rightarrow> string \<Rightarrow> endpoint candidate list" where
  "candidates sv m = map (\<lambda>rt. (rt_segments rt, rt)) (filter (\<lambda>rt. rt_method rt = m) (Handler sv))"

abbreviation cand :: "string \<Rightarrow> pattern_segment list \<Rightarrow> endpoint \<Rightarrow> endpoint candidate" where
  "cand m ps e \<equiv> (ps, route_of m ps False e)"

lemma candidates_values:
  assumes "configured sv"
  shows "candidates sv ''GET'' =
     [cand ''GET'' [Lit ''clusters''] ListClustersEndpoint,
      cand ''GET'' (named []) DescribeCluster,
      cand ''GET'' (named [''addons'']) ListAddons,
      cand ''GET'' (named [''addons''] @ [Wild ''addonName'']) DescribeAddon,
      cand ''GET'' (named [''access-entries'']) ListAccessEntries,
      cand ''GET'' (named [''access-entries'', ''access-policies'']) ListAssociatedAccessPolicies]"
    and "candidates sv ''DELETE'' =
     [cand ''DELETE'' (named [''access-entries'']) DeleteAccessEntry,
      cand ''DELETE'' (named [''access-entries'', ''access-policies'']) DisassociateAccessPolicy]"
    and "candidates sv ''POST'' =
     [([], route_of ''POST'' [] True DispatchSTS),
      cand ''POST'' (named [''assume-role-for-pod-identity'']) AssumeRoleForPodIdentity,
      cand ''POST'' (named [''pod-identity-associations'']) CreatePodIdentityAssociation,
      cand ''POST'' (named [''access-entries'']) CreateAccessEntry,
      cand ''POST'' (named [''access-entries'', ''access-policies'']) AssociateAccessPolicy]"
    and "m \<notin> {''GET'', ''DELETE'', ''POST''} \<Longrightarrow> candidates sv m = []"
  using assms by (auto simp: candidates_def Handler_def HandleFunc_values configured_def)

definition found :: "endpoint route \<times> string list \<Rightarrow> endpoint \<times> (string \<times> string) list" where
  "found r = (rt_handler (fst r), zip (wild_names (rt_segments (fst r))) (snd r))"

definition with_names :: "endpoint \<times> string list \<Rightarrow> endpoint \<times> (string \<times> string) list" where
  "with_names r = (fst r, zip (value_names (fst r)) (snd r))"

text \<open>The kinds of paths the routes tell apart.\<close>

lemma segs_cases:
  obtains (none) "segs = []"
  | (other) c s where "segs = c # s" "c \<noteq> ''clusters''"
  | (clusters) "segs = [''clusters'']"
  | (slashed) s where "segs = ''clusters'' # ''/'' # s"
  | (one) n where "segs = [''clusters'', n]" "n \<noteq> ''/''"
  | (unknown) n a s where "segs = ''clusters'' # n # a # s" "n \<noteq> ''/''" "a \<noteq> ''addons''" "a \<noteq> ''access-entries''"
      "a \<noteq> ''assume-role-for-pod-identity''" "a \<noteq> ''pod-identity-associations''"
  | (assuming) n s where "segs = ''clusters'' # n # ''assume-role-for-pod-identity'' # s" "n \<noteq> ''/''"
  | (associations) n s where "segs = ''clusters'' # n # ''pod-identity-associations'' # s" "n \<noteq> ''/''"
  | (addons) n s where "segs = ''clusters'' # n # ''addons'' # s" "n \<noteq> ''/''"
  | (entries) n s where "segs = ''clusters'' # n # ''access-entries'' # s" "n \<noteq> ''/''"
proof (cases segs)
  case Nil then show ?thesis by (rule none)
next
  case (Cons c s1)
  show ?thesis
  proof (cases "c = ''clusters''")
    case False with Cons show ?thesis by (rule other)
  next
    case c: True
    show ?thesis
    proof (cases s1)
      case Nil with Cons c show ?thesis using clusters by simp
    next
      case s1: (Cons n s2)
      show ?thesis
      proof (cases "n = ''/''")
        case True with Cons c s1 show ?thesis using slashed by simp
      next
        case n: False
        show ?thesis
        proof (cases s2)
          case Nil with Cons c s1 n show ?thesis using one by simp
        next
          case (Cons a s)
          with \<open>segs = c # s1\<close> c s1 have "segs = ''clusters'' # n # a # s" by simp
          with n that(6-10) show ?thesis by metis
        qed
      qed
    qed
  qed
qed

text \<open>One level further down, below the APIs with paths of their own.\<close>

lemma below_cases:
  fixes s :: "string list"
  obtains (stop) "s = []" | (policies) "s = [''access-policies'']" | (slash) "s = [''/'']"
  | (other) b where "s = [b]" "b \<noteq> ''/''" "b \<noteq> ''access-policies''"
  | (deep_policies) d r where "s = ''access-policies'' # d # r"
  | (deep_slash) d r where "s = ''/'' # d # r"
  | (deep) b d r where "s = b # d # r" "b \<noteq> ''/''" "b \<noteq> ''access-policies''"
  by (metis neq_Nil_conv)

lemmas routing_defs = agent_endpoint_def cluster_endpoint_def reads_def entry_endpoint_def
  policy_endpoint_def found_def with_names_def value_names_def

lemma match_get:
  assumes "configured sv"
  shows "map_option found (match_path (candidates sv ''GET'') segs []) =
    map_option with_names (agent_endpoint ''GET'' segs)"
proof (cases segs rule: segs_cases)
  case (addons n s)
  then show ?thesis
    by (cases s rule: below_cases) (simp_all add: candidates_values [OF assms] routing_defs)
next
  case (entries n s)
  then show ?thesis
    by (cases s rule: below_cases) (simp_all add: candidates_values [OF assms] routing_defs)
qed (simp_all add: candidates_values [OF assms] routing_defs split: list.splits)

lemma match_delete:
  assumes "configured sv"
  shows "map_option found (match_path (candidates sv ''DELETE'') segs []) =
    map_option with_names (agent_endpoint ''DELETE'' segs)"
  by (cases segs rule: segs_cases)
    (simp_all add: candidates_values [OF assms] routing_defs split: list.splits)

lemma match_post:
  assumes "configured sv" and "segs \<noteq> []"
  shows "map_option found (match_path (candidates sv ''POST'') segs []) =
    map_option with_names (agent_endpoint ''POST'' segs)"
  using assms(2) by (cases segs rule: segs_cases)
    (simp_all add: candidates_values [OF assms(1)] routing_defs split: list.splits)

lemma endpoint_other: "m \<notin> {''GET'', ''HEAD'', ''DELETE'', ''POST''} \<Longrightarrow> agent_endpoint m segs = None"
  by (auto simp: routing_defs split: list.splits)

lemma endpoint_head: "agent_endpoint ''HEAD'' segs = agent_endpoint ''GET'' segs"
  by (cases segs rule: segs_cases) (simp_all add: routing_defs split: list.splits)

lemma match_method_candidates: "match_method (Handler sv) m path = match_path (candidates sv m) (path_segments path) []"
  by (simp add: match_method_def candidates_def)

lemma mux_match_agent:
  assumes "configured sv"
  shows "map_option found (mux_match (Handler sv) m path) =
    map_option with_names (agent_endpoint m (path_segments path))"
proof -
  note vals = mux_match_def match_method_candidates candidates_values(4) [OF assms]
  consider "m = ''GET''" | "m = ''HEAD''" | "m = ''DELETE''" | "m = ''POST''"
    | "m \<notin> {''GET'', ''HEAD'', ''DELETE'', ''POST''}" by blast
  then show ?thesis
  proof cases
    case 1
    then show ?thesis
      using match_get [OF assms, of "path_segments path"]
      by (cases "match_path (candidates sv ''GET'') (path_segments path) []") (simp_all add: vals)
  next
    case 2
    then show ?thesis
      using match_get [OF assms, of "path_segments path"] 
      by (cases "match_path (candidates sv ''GET'') (path_segments path) []") (simp_all add: vals endpoint_head)
  next
    case 3
    then show ?thesis
      using match_delete [OF assms, of "path_segments path"]
      by (cases "match_path (candidates sv ''DELETE'') (path_segments path) []") (simp_all add: vals)
  next
    case 4
    then show ?thesis
      using match_post [OF assms, of "path_segments path"]
      by (cases "match_path (candidates sv ''POST'') (path_segments path) []") (simp_all add: vals)
  next
    case 5
    then show ?thesis by (simp add: vals endpoint_other)
  qed
qed

lemma post_allowed:
  assumes "configured sv"
  shows "''POST'' \<in> set (allowed_methods (Handler sv) path)"
proof -
  have "map_option found (match_path (candidates sv ''POST'') (path_segments path) []) \<noteq> None"
    unfolding match_post [OF assms path_segments_ne]
    by (auto simp: agent_endpoint_def split: option.split)
  then have "match_method (Handler sv) ''POST'' path \<noteq> None" by (simp add: match_method_candidates)
  moreover have "''POST'' \<in> set (map rt_method (Handler sv))" by (simp add: Handler_def HandleFunc_values)
  ultimately show ?thesis by (auto simp: allowed_methods_def Let_def)
qed

lemma mux_match_none:
  assumes "configured sv" and "agent_endpoint m (path_segments path) = None"
  shows "mux_match (Handler sv) m path = None"
  using mux_match_agent [OF assms(1), of m path] assms(2) by simp

lemma agent_routed:
  assumes "configured sv" and "clean_url_path path = path"
    and "agent_endpoint m (path_segments path) = Some (e, vs)"
  shows "mux_find (Handler sv) m path = MuxFound e (zip (value_names e) vs)"
proof -
  from mux_match_agent [OF assms(1), of m path] assms(3) obtain r where
    r: "mux_match (Handler sv) m path = Some r" "found r = with_names (e, vs)"
    by (cases "mux_match (Handler sv) m path") simp_all
  then show ?thesis
    using assms(2) by (cases r) (simp add: mux_find_def found_def with_names_def)
qed

text \<open>What a matched route is: one of the candidates.\<close>

lemma leaf_mem: "leaf b cs = Some rt \<Longrightarrow> rt \<in> snd ` set cs"
  unfolding leaf_def by (force simp: find_Some_iff in_set_conv_nth image_iff)

lemma match_path_route:
  "match_path cs segs ms = Some (rt, vs) \<Longrightarrow> rt \<in> snd ` set cs"
proof (induction cs segs ms rule: match_path.induct)
  case (1 cs ms)
  then show ?case by (auto dest: leaf_mem)
next
  case (2 cs seg rest ms)
  have sub: "snd ` set (children P cs) \<subseteq> snd ` set cs" for P
    by (force simp: children_def)
  have "rt \<in> snd ` set cs" if "map_option (\<lambda>rt. (rt, ms)) (leaf True cs) = Some (rt, vs)"
    using that by (auto dest: leaf_mem)
  with 2 sub show ?case by (auto split: option.splits if_splits)
qed

lemma mux_find_handler:
  assumes "mux_find rts m path = MuxFound e vs" shows "e \<in> rt_handler ` set rts"
proof -
  from assms obtain rt ms where m: "mux_match rts m path = Some (rt, ms)" "e = rt_handler rt"
    by (auto simp: mux_find_def split: if_splits option.splits prod.splits)
  have "rt \<in> set rts" if "match_method rts x path = Some (rt, ms)" for x
    using match_path_route [OF that [unfolded match_method_def]] by auto
  with m show ?thesis by (auto simp: mux_match_def split: option.splits if_splits)
qed

text \<open>A server over the code's stores next to the RBAC bindings of a reference API server.\<close>

definition demo_client :: "(ref_world \<times> (binding_key \<Rightarrow> binding option)) server_client" where
  "demo_client = \<lparr>sc_review = (\<lambda>_ _ s. (Inl (Errorf ''no reviews'' []), s)), sc_rbac = ref_rbac\<rparr>"

definition demo_entries :: "(ref_world \<times> (binding_key \<Rightarrow> binding option)) access_entry_methods" where
  "demo_entries =
     \<lparr>em_get = (\<lambda>a. on_objects (entry_get (ref_client (\<lambda>w. w)) pad_sha a)),
      em_put = (\<lambda>e. on_objects (entry_put (ref_client (\<lambda>w. w)) pad_sha e)),
      em_delete = (\<lambda>a. on_objects (entry_delete (ref_client (\<lambda>w. w)) pad_sha a)),
      em_list = on_objects (entry_list (ref_client (\<lambda>w. w)))\<rparr>"

definition demo_options :: "(ref_world \<times> (binding_key \<Rightarrow> binding option)) server_option list" where
  "demo_options =
     [WithPodIdentity demo_client
        \<lparr>pi_get = (\<lambda>i. on_objects (pia_get_by_sa (ref_client (\<lambda>w. w)) i)),
         pi_put = (\<lambda>a. on_objects (pia_put (ref_client (\<lambda>w. w)) a))\<rparr>,
      WithEKSAPI demo_client demo_entries (on_objects (info_get (ref_client (\<lambda>w. w))))]"

definition demo_server :: "(ref_world \<times> (binding_key \<Rightarrow> binding option)) server" where
  "demo_server =
     NewServer
       \<lparr>ps_get_by_access_key_id = (\<lambda>k. on_objects (secret_get_by_access_key_id (ref_client (\<lambda>w. w)) k)),
        ps_put = (\<lambda>p. on_objects (secret_put (ref_client (\<lambda>w. w)) p))\<rparr>
       demo_options"

lemma demo_configured: "configured demo_server"
  by (simp add: configured_def demo_server_def demo_options_def NewServer_def WithPodIdentity_def WithEKSAPI_def)

section \<open>Properties\<close>

text \<open>
  C33: on a configured server the mux with its precedence rules and its backtracking routes a
  request exactly as the documented APIs say: a path of a cluster's API goes to its endpoint with
  the names in it, HEAD like GET; any other POST is taken for an STS call; every other request is
  refused as a method that is not allowed, never as unknown, since POST is allowed everywhere.
\<close>

theorem requests_reach_their_endpoint:
  assumes "configured sv" and "clean_url_path path = path"
  shows "mux_find (Handler sv) m path =
      (case agent_endpoint m (path_segments path) of
         Some (e, vs) \<Rightarrow> MuxFound e (zip (value_names e) vs)
       | None \<Rightarrow> MuxNotAllowed (allowed_methods (Handler sv) path)) \<and>
    ''POST'' \<in> set (allowed_methods (Handler sv) path)"
proof -
  have ne: "allowed_methods (Handler sv) path \<noteq> []" using post_allowed [OF assms(1), of path] by auto
  show ?thesis
  proof (cases "agent_endpoint m (path_segments path)")
    case None
    with ne assms(2) post_allowed [OF assms(1)] show ?thesis
      by (simp add: mux_find_def mux_match_none [OF assms(1)])
  next
    case (Some r)
    with post_allowed [OF assms(1)] show ?thesis by (cases r) (simp add: agent_routed [OF assms])
  qed
qed

lemma demo_routes:
  "clean_url_path ''/clusters/fjord/access-entries/access-policies'' =
     ''/clusters/fjord/access-entries/access-policies''"
  "agent_endpoint ''DELETE'' (path_segments ''/clusters/fjord/access-entries/access-policies'') =
     Some (DisassociateAccessPolicy, [''fjord''])"
  "clean_url_path ''/clusters/a%2Fb/addons'' = ''/clusters/a%2Fb/addons''"
  "agent_endpoint ''POST'' (path_segments ''/clusters/a%2Fb/addons'') = Some (DispatchSTS, [])"
  by code_simp+

theorem requests_reach_their_endpoint_witness:
  "mux_find (Handler demo_server) ''DELETE'' ''/clusters/fjord/access-entries/access-policies'' =
     MuxFound DisassociateAccessPolicy [(''name'', ''fjord'')] \<and>
   mux_find (Handler demo_server) ''POST'' ''/clusters/a%2Fb/addons'' = MuxFound DispatchSTS []"
  using requests_reach_their_endpoint [OF demo_configured demo_routes(1), of "''DELETE''"]
    requests_reach_their_endpoint [OF demo_configured demo_routes(3), of "''POST''"]
  by (simp add: demo_routes value_names_def)

text \<open>The options \<open>NewServer\<close> is called with.\<close>

definition known_option :: "'w server_option \<Rightarrow> bool" where
  "known_option opt \<longleftrightarrow>
     (\<exists>c p. opt = WithPodIdentity c p) \<or> (\<exists>c a i. opt = WithEKSAPI c a i)"

lemma known_options [simp]: "known_option (WithPodIdentity c p)" "known_option (WithEKSAPI c a i)"
  unfolding known_option_def by blast+

definition server_ok :: "'w server \<Rightarrow> bool" where
  "server_ok sv \<longleftrightarrow>
     (sv_pod_identity_store sv \<noteq> None \<longrightarrow> sv_client sv \<noteq> None) \<and>
     (sv_access_entry_store sv \<noteq> None \<longrightarrow> sv_client sv \<noteq> None \<and> sv_cluster_info_store sv \<noteq> None)"

lemma fold_options_ok:
  "list_all known_option opts \<Longrightarrow> server_ok sv \<Longrightarrow> server_ok (fold (\<lambda>opt s. opt s) opts sv)"
proof (induction opts arbitrary: sv)
  case (Cons opt opts)
  then have "server_ok (opt sv)"
    by (auto simp: known_option_def server_ok_def WithPodIdentity_def WithEKSAPI_def)
  with Cons show ?case by simp
qed simp

lemma NewServer_ok: "list_all known_option opts \<Longrightarrow> server_ok (NewServer store opts)"
  unfolding NewServer_def by (rule fold_options_ok) (simp_all add: server_ok_def)

text \<open>
  C31: whatever options a server is built with, in any order, it mounts an endpoint only when it
  has the stores and the client the endpoint uses: no request runs into a nil store.
\<close>

theorem no_request_meets_nil_store:
  assumes "list_all known_option opts"
  shows "serve (NewServer store opts) rs sha now m path q r s \<noteq> None"
proof (cases "mux_find (Handler (NewServer store opts)) m path")
  case (MuxFound e vs)
  from mux_find_handler [OF this] NewServer_ok [OF assms, of store]
  have "run_endpoint (NewServer store opts) rs sha now e (r\<lparr>req_path_values := vs\<rparr>) s \<noteq> None"
    by (auto simp: Handler_def HandleFunc_values server_ok_def run_endpoint_def split: if_splits)
  with MuxFound show ?thesis by (simp add: serve_def)
qed (simp_all add: serve_def)

theorem no_request_meets_nil_store_witness:
  "serve (NewServer (sv_store demo_server) (rev demo_options)) counter_rand pad_sha 0 ''POST''
     ''/clusters/fjord/assume-role-for-pod-identity'' [] assume_request
     \<lparr>st_store = demo_world, st_sessions = [], st_rng = 0\<rparr> \<noteq> None"
  by (rule no_request_meets_nil_store) (simp add: demo_options_def)

end
