(* ===== verification/Grant_Access.thy ===== *)
theory Grant_Access
  imports Agent_Server Go_Escape Kubeconfig Provider
begin

text \<open>
  \<open>fjord grant access-entry\<close> (\<open>cli/accessentry.go\<close>, \<open>cli/agentendpoint.go\<close>): the command calls the
  EKS API facade of the agent through a port forward to register a principal's access entry and
  to associate an access policy with it. A state of the cluster and its agent goes with the world
  \<open>'h\<close> of the host, where rask and its port forwards are; the HTTP client is a parameter, and the
  locale \<open>agent_access\<close> says that it reaches the server of \<open>Agent_Server\<close>.
\<close>

section \<open>Policies\<close>

definition StandardAccessPolicyClusterAdmin :: string where
  "StandardAccessPolicyClusterAdmin = ''arn:aws:eks::aws:cluster-access-policy/AmazonEKSClusterAdminPolicy''"

definition StandardAccessPolicyAdmin :: string where
  "StandardAccessPolicyAdmin = ''arn:aws:eks::aws:cluster-access-policy/AmazonEKSAdminPolicy''"

definition StandardAccessPolicyEdit :: string where
  "StandardAccessPolicyEdit = ''arn:aws:eks::aws:cluster-access-policy/AmazonEKSEditPolicy''"

definition StandardAccessPolicyView :: string where
  "StandardAccessPolicyView = ''arn:aws:eks::aws:cluster-access-policy/AmazonEKSViewPolicy''"

definition accessPolicyARNs :: "(string, string) go_map" where
  "accessPolicyARNs =
     [(''ClusterAdmin'', StandardAccessPolicyClusterAdmin), (''Admin'', StandardAccessPolicyAdmin),
      (''Edit'', StandardAccessPolicyEdit), (''View'', StandardAccessPolicyView)]"

section \<open>Requests to the facade\<close>

type_synonym ('w, 'r, 'h) agent_world = "('w, 'r) sts_state \<times> 'h"

text \<open>\<open>http.DefaultClient.Do\<close> on a POST: the endpoint, the headers and the body.\<close>

type_synonym ('w, 'r, 'h) http_post =
  "string \<Rightarrow> url_values \<Rightarrow> blob \<Rightarrow> ('w, 'r, 'h) agent_world
   \<Rightarrow> (go_error + http_response) \<times> ('w, 'r, 'h) agent_world"

text \<open>The texts a response has on the wire: its status line and the text of a message.\<close>

record http_texts =
  ht_status :: "nat \<Rightarrow> string"
  ht_message :: "message \<Rightarrow> string"

definition createAccessEntryRequest_json :: "string \<Rightarrow> string \<Rightarrow> string list \<Rightarrow> json" where
  "createAccessEntryRequest_json principalARN username groups =
     JObj (str_member ''principalArn'' principalARN @ str_member_omitempty ''username'' username @
           list_member_omitempty ''kubernetesGroups'' JStr groups)"

definition accessScopeRequest_json :: "string \<Rightarrow> string list \<Rightarrow> json" where
  "accessScopeRequest_json ty namespaces =
     JObj (str_member ''type'' ty @ list_member_omitempty ''namespaces'' JStr namespaces)"

definition associateAccessPolicyRequest_json :: "string \<Rightarrow> json \<Rightarrow> json" where
  "associateAccessPolicyRequest_json policyARN scope =
     JObj [(''policyArn'', JStr policyARN), (''accessScope'', scope)]"

text \<open>The message of an error body; what cannot be decoded leaves the empty string.\<close>

definition decode_message :: "http_texts \<Rightarrow> http_body \<Rightarrow> string" where
  "decode_message txt body =
     (case body of
        ErrorMessage m \<Rightarrow> ht_message txt m
      | JsonBody j \<Rightarrow>
          (case struct_members j of
             None \<Rightarrow> []
           | Some kvs \<Rightarrow>
               fold (\<lambda>(k, v) cur. if key_matches k ''message'' then (case v of JStr s \<Rightarrow> s | _ \<Rightarrow> cur) else cur)
                 kvs [])
      | _ \<Rightarrow> [])"

definition facadeError :: "http_texts \<Rightarrow> http_response \<Rightarrow> go_error" where
  "facadeError txt resp =
     (let m = decode_message txt (resp_body resp) in
      if m \<noteq> [] then Errorf ''facade request failed (%s): %s'' [ht_status txt (resp_status resp), m]
      else Errorf ''facade request failed: %s'' [ht_status txt (resp_status resp)])"

text \<open>Marshalling these structs does not fail; a request is built when its URL parses.\<close>

definition postFacadeJSON ::
  "http_texts \<Rightarrow> ('w, 'r, 'h) http_post \<Rightarrow> string \<Rightarrow> json \<Rightarrow> ('w, 'r, 'h) agent_world
   \<Rightarrow> (go_error + unit) \<times> ('w, 'r, 'h) agent_world" where
  "postFacadeJSON txt post endpoint body s =
     (case url_parse endpoint of
        None \<Rightarrow> (Inl (Wrapf ''build request: %w'' [] (Errorf ''parse %q'' [endpoint])), s)
      | Some _ \<Rightarrow>
          (case post endpoint [(''Content-Type'', [''application/json''])] (Doc body) s of
             (Inl e, s1) \<Rightarrow> (Inl (Wrapf ''call %s: %w'' [endpoint] e), s1)
           | (Inr resp, s1) \<Rightarrow>
               if resp_status resp \<noteq> 200 then (Inl (facadeError txt resp), s1) else (Inr (), s1)))"

definition createAccessEntry ::
  "http_texts \<Rightarrow> ('w, 'r, 'h) http_post \<Rightarrow> string \<Rightarrow> string \<Rightarrow> string \<Rightarrow> string list
   \<Rightarrow> ('w, 'r, 'h) agent_world \<Rightarrow> (go_error + unit) \<times> ('w, 'r, 'h) agent_world" where
  "createAccessEntry txt post baseURL principalARN username groups s =
     (case postFacadeJSON txt post (baseURL @ ''/access-entries'')
             (createAccessEntryRequest_json principalARN username groups) s of
        (Inl e, s1) \<Rightarrow> (Inl (Wrapf ''create access entry: %w'' [] e), s1)
      | (Inr _, s1) \<Rightarrow> (Inr (), s1))"

definition associateAccessPolicy ::
  "http_texts \<Rightarrow> ('w, 'r, 'h) http_post \<Rightarrow> string \<Rightarrow> string \<Rightarrow> string \<Rightarrow> string
   \<Rightarrow> ('w, 'r, 'h) agent_world \<Rightarrow> (go_error + unit) \<times> ('w, 'r, 'h) agent_world" where
  "associateAccessPolicy txt post baseURL principalARN policyARN namespace s =
     (let scope = (if namespace \<noteq> [] then accessScopeRequest_json ''namespace'' [namespace]
                   else accessScopeRequest_json ''cluster'' []);
          endpoint = baseURL @ ''/access-entries/access-policies?principalArn='' @ query_escape principalARN
      in case postFacadeJSON txt post endpoint (associateAccessPolicyRequest_json policyARN scope) s of
           (Inl e, s1) \<Rightarrow> (Inl (Wrapf ''associate access policy: %w'' [] e), s1)
         | (Inr _, s1) \<Rightarrow> (Inr (), s1))"

section \<open>The command\<close>

text \<open>\<open>cancel\<close> is the cancellation of the context the port forward runs in.\<close>

definition agentEndpoint ::
  "'h rask \<Rightarrow> ('h \<Rightarrow> 'h) \<Rightarrow> string \<Rightarrow> 'h \<Rightarrow> (go_error + string) \<times> 'h" where
  "agentEndpoint provider cancel name h =
     (let remote = ''127.0.0.1:'' @ string_of_int AgentNodePort in
      case PortForward provider name (AgentLoopbackHost @ '':0'') remote h of
        (Inl e, h1) \<Rightarrow> (Inl (Wrapf ''reach fjord-agent in cluster %q: %w'' [name] e), cancel h1)
      | (Inr bound, h1) \<Rightarrow> (Inr (''http://'' @ bound), h1))"

record accessEntryOptions =
  ao_registry :: principalRegistryOptions
  ao_principal :: string
  ao_policy :: string
  ao_namespace :: string
  ao_username :: string
  ao_groups :: "string list"

text \<open>The two calls, between the port forward and its end.\<close>

definition grant_calls ::
  "http_texts \<Rightarrow> ('w, 'r, 'h) http_post \<Rightarrow> string \<Rightarrow> string \<Rightarrow> string \<Rightarrow> accessEntryOptions
   \<Rightarrow> ('w, 'r, 'h) agent_world \<Rightarrow> (go_error + unit) \<times> ('w, 'r, 'h) agent_world" where
  "grant_calls txt post baseURL principalARN policyARN opts s =
     (case createAccessEntry txt post baseURL principalARN (ao_username opts) (ao_groups opts) s of
        (Inl e, s1) \<Rightarrow> (Inl e, s1)
      | (Inr _, s1) \<Rightarrow> associateAccessPolicy txt post baseURL principalARN policyARN (ao_namespace opts) s1)"

text \<open>\<open>newProvider\<close> is what \<open>newClusterProvider\<close> returns.\<close>

definition runGrantAccessEntry ::
  "('f, 'w) connect \<Rightarrow> (go_error + 'h rask) \<Rightarrow> ('h \<Rightarrow> 'h) \<Rightarrow> http_texts \<Rightarrow> ('w, 'r, 'h) http_post
   \<Rightarrow> accessEntryOptions \<Rightarrow> 'f \<Rightarrow> ('w, 'r, 'h) agent_world
   \<Rightarrow> (go_error + unit) \<times> ('w, 'r, 'h) agent_world" where
  "runGrantAccessEntry connect newProvider cancel txt post opts f s =
     (case map_of accessPolicyARNs (ao_policy opts) of
        None \<Rightarrow>
          (Inl (Errorf ''unknown policy %q, want one of ClusterAdmin, Admin, Edit, View'' [ao_policy opts]), s)
      | Some policyARN \<Rightarrow>
     (case connect (context_of (ao_registry opts)) f of
        Inl e \<Rightarrow> (Inl e, s)
      | Inr client \<Rightarrow>
     (case secret_get_by_name client (ao_principal opts) (st_store (fst s)) of
        (Inl e, w1) \<Rightarrow>
          (Inl (Wrapf ''resolve principal %q: %w'' [ao_principal opts] e), (fst s)\<lparr>st_store := w1\<rparr>, snd s)
      | (Inr p, w1) \<Rightarrow>
          (let s1 = (fst s)\<lparr>st_store := w1\<rparr> in
     (case newProvider of
        Inl e \<Rightarrow> (Inl e, s1, snd s)
      | Inr provider \<Rightarrow>
     (case agentEndpoint provider cancel (po_cluster_name (ao_registry opts)) (snd s) of
        (Inl e, h1) \<Rightarrow> (Inl e, s1, h1)
      | (Inr agentURL, h1) \<Rightarrow>
     (case grant_calls txt post (agentURL @ ''/clusters/'' @ po_cluster_name (ao_registry opts)) (p_arn p)
             policyARN opts (s1, h1) of
        (r, s2, h2) \<Rightarrow> (r, s2, cancel h2))))))))"

section \<open>Requests as they arrive\<close>

text \<open>Paths made of names that need no escaping.\<close>

lemma plain_names:
  assumes "cs \<noteq> []" and "list_all plain_name cs"
  shows "clean_url_path (slash # join_with slash cs) = slash # join_with slash cs"
    and "path_segments (slash # join_with slash cs) = cs"
proof -
  have plain: "\<forall>c \<in> set cs. plain c" using assms(2) by (auto simp: list_all_iff plain_name_plain)
  then have ns: "\<forall>c \<in> set cs. slash \<notin> set c" by (simp add: plain_def)
  have split: "split_all slash (join_with slash cs) = cs" by (rule split_all_join_with [OF assms(1) ns])
  have lastc: "plain_name (last cs)" using assms by (simp add: list_all_iff)
  have ne: "join_with slash cs \<noteq> []" and last: "last (join_with slash cs) = last (last cs)"
    using assms
    by (induction cs rule: induct_list012) (auto simp: plain_name_def list_all_iff last_append)
  have "last (last cs) \<noteq> slash"
  proof
    assume "last (last cs) = slash"
    then have "slash \<in> set (last cs)" using lastc last_in_set [of "last cs"] by (simp add: plain_name_def)
    then show False using lastc by (auto simp: plain_name_def)
  qed
  then show "clean_url_path (slash # join_with slash cs) = slash # join_with slash cs"
    using ne last path_clean_plain [OF assms(1) plain] by (simp add: clean_url_path_def)
  have "path_unescape c = c" if "c \<in> set cs" for c
  proof -
    have "plain_name c" using assms(2) that by (simp add: list_all_iff)
    then have "unescape UPath c = Some c"
      by (intro unescape_unreserved) (auto simp: plain_name_def)
    then show ?thesis by (simp add: path_unescape_def)
  qed
  then have "map path_unescape cs = cs" by (simp add: map_idI)
  moreover have "last cs \<noteq> []" using lastc by (simp add: plain_name_def)
  ultimately show "path_segments (slash # join_with slash cs) = cs"
    by (simp add: path_segments_def split)
qed

definition entries_path :: "string \<Rightarrow> string" where
  "entries_path n = ''/clusters/'' @ n @ ''/access-entries''"

definition policies_path :: "string \<Rightarrow> string" where
  "policies_path n = ''/clusters/'' @ n @ ''/access-entries/access-policies''"

lemma entries_path_names: "entries_path n = slash # join_with slash [''clusters'', n, ''access-entries'']"
  by (simp add: entries_path_def)

lemma policies_path_names:
  "policies_path n = slash # join_with slash [''clusters'', n, ''access-entries'', ''access-policies'']"
  by (simp add: policies_path_def)

lemma api_names:
  "plain_name ''clusters''" "plain_name ''access-entries''" "plain_name ''access-policies''"
  by code_simp+

lemma plain_path_chars:
  assumes "list_all plain_name cs" and "c \<in> set (slash # join_with slash cs)"
  shows "unreserved c \<or> c = slash"
  using assms by (induction cs rule: induct_list012) (auto simp: plain_name_def)

lemma entries_path:
  assumes "plain_name n"
  shows "clean_url_path (entries_path n) = entries_path n"
    and "agent_endpoint ''POST'' (path_segments (entries_path n)) = Some (CreateAccessEntry, [n])"
    and "\<forall>c \<in> set (entries_path n). unreserved c \<or> c = slash"
proof -
  have names: "list_all plain_name [''clusters'', n, ''access-entries'']" using assms api_names by simp
  from plain_names [OF _ names] show "clean_url_path (entries_path n) = entries_path n"
    unfolding entries_path_names by simp
  have "path_segments (entries_path n) = [''clusters'', n, ''access-entries'']"
    using plain_names(2) [OF _ names] unfolding entries_path_names by simp
  moreover have "n \<noteq> ''/''" using assms by (auto simp: plain_name_def)
  ultimately show "agent_endpoint ''POST'' (path_segments (entries_path n)) = Some (CreateAccessEntry, [n])"
    by (simp add: routing_defs)
  show "\<forall>c \<in> set (entries_path n). unreserved c \<or> c = slash"
    using plain_path_chars [OF names] unfolding entries_path_names by blast
qed

lemma policies_path:
  assumes "plain_name n"
  shows "clean_url_path (policies_path n) = policies_path n"
    and "agent_endpoint ''POST'' (path_segments (policies_path n)) = Some (AssociateAccessPolicy, [n])"
    and "\<forall>c \<in> set (policies_path n). unreserved c \<or> c = slash"
proof -
  have names: "list_all plain_name [''clusters'', n, ''access-entries'', ''access-policies'']"
    using assms api_names by simp
  from plain_names [OF _ names] show "clean_url_path (policies_path n) = policies_path n"
    unfolding policies_path_names by simp
  have "path_segments (policies_path n) = [''clusters'', n, ''access-entries'', ''access-policies'']"
    using plain_names(2) [OF _ names] unfolding policies_path_names by simp
  moreover have "n \<noteq> ''/''" using assms by (auto simp: plain_name_def)
  ultimately show "agent_endpoint ''POST'' (path_segments (policies_path n)) = Some (AssociateAccessPolicy, [n])"
    by (simp add: routing_defs)
  show "\<forall>c \<in> set (policies_path n). unreserved c \<or> c = slash"
    using plain_path_chars [OF names] unfolding policies_path_names by blast
qed

text \<open>The agent decodes what the command encodes.\<close>

lemma decode_created:
  "decode_create_entry (Doc (createAccessEntryRequest_json arn user groups)) =
     Some \<lparr>cer_principal_arn = arn, cer_username = user, cer_groups = groups\<rparr>"
  by (simp add: decode_create_entry_def createAccessEntryRequest_json_def json_codec)

lemma decode_associated:
  "decode_associate (Doc (associateAccessPolicyRequest_json parn (accessScopeRequest_json ty nss))) =
     Some \<lparr>apr_policy_arn = parn, apr_scope_type = ty, apr_namespaces = nss\<rparr>"
  by (simp add: decode_associate_def associateAccessPolicyRequest_json_def accessScopeRequest_json_def json_codec)

text \<open>The ClusterRole of a policy of the command.\<close>

lemma policy_roles:
  "map_of accessPolicyARNs policy = Some parn \<Longrightarrow> \<exists>role. clusterRoleForPolicy parn = Some role"
proof -
  have "\<forall>(p, arn) \<in> set accessPolicyARNs. clusterRoleForPolicy arn \<noteq> None" by code_simp
  then show "map_of accessPolicyARNs policy = Some parn \<Longrightarrow> \<exists>role. clusterRoleForPolicy parn = Some role"
    by (auto dest!: map_of_SomeD)
qed

text \<open>The scope a namespace stands for, and what is recorded of it.\<close>

definition grant_scope :: "string \<Rightarrow> string option" where
  "grant_scope ns = (if ns = [] then None else Some ns)"

definition granted_policy :: "string \<Rightarrow> string \<Rightarrow> associated_policy" where
  "granted_policy parn ns =
     \<lparr>ap_policy_arn = parn, ap_access_scope_type = (if ns \<noteq> [] then ''namespace'' else ''cluster''),
      ap_namespaces = (if ns \<noteq> [] then [ns] else [])\<rparr>"

definition granted_entry :: "string \<Rightarrow> accessEntryOptions \<Rightarrow> string \<Rightarrow> access_entry" where
  "granted_entry arn opts parn =
     \<lparr>ae_principal_arn = arn, ae_username = ao_username opts, ae_groups = ao_groups opts,
      ae_type = AccessEntryTypeStandard, ae_policies = [granted_policy parn (ao_namespace opts)]\<rparr>"

section \<open>What the command relies on\<close>

text \<open>A path and a query that are sent as they are.\<close>

definition plain_target :: "string \<Rightarrow> string \<Rightarrow> bool" where
  "plain_target path q \<longleftrightarrow>
     is_rooted path \<and> clean_url_path path = path \<and> (\<forall>c \<in> set path. unreserved c \<or> c = slash) \<and>
     (\<forall>c \<in> set q. target_char c)"

text \<open>
  A port forward to the agent's node port leads to an address of the host (\<open>tunnel\<close>); a POST there
  is served by the agent, which acts on the stores and bindings of \<open>policy_world\<close>.
\<close>

locale agent_access = policy_world rc sha get put reg ok bindings
  for rc :: "'w rbac_client" and sha :: sha256
    and get :: "string \<Rightarrow> 'w \<Rightarrow> (go_error + access_entry) \<times> 'w"
    and put :: "access_entry \<Rightarrow> 'w \<Rightarrow> (go_error + unit) \<times> 'w"
    and reg :: "'w \<Rightarrow> string \<Rightarrow> access_entry option"
    and ok :: "'w \<Rightarrow> bool"
    and bindings :: "'w \<Rightarrow> binding_key \<Rightarrow> binding option" +
  fixes sv :: "'w server" and rs :: "'r rand_source" and rk :: "'h rask"
    and post :: "('w, 'r, 'h) http_post" and tunnel :: "'h \<Rightarrow> string option"
  assumes configured: "configured sv"
    and client_rbac: "sv_client sv = Some cl \<Longrightarrow> sc_rbac cl = rc"
    and entry_store: "sv_access_entry_store sv = Some m \<Longrightarrow> em_get m = get \<and> em_put m = put"
    and forward:
      "rk_port_forward rk name (AgentLoopbackHost @ '':0'') (''127.0.0.1:'' @ string_of_int AgentNodePort) h =
         (Inr bound, h') \<Longrightarrow> tunnel h' = Some bound \<and> plain_address bound"
    and transport:
      "tunnel h = Some bound \<Longrightarrow> plain_target path q \<Longrightarrow>
       \<exists>now form.
         (case serve sv rs sha now ''POST'' path q
                 \<lparr>req_path_values = [], req_query = parse_query q, req_form = form, req_header = hdr,
                  req_body = body\<rparr> s of
            None \<Rightarrow> True
          | Some (resp, s') \<Rightarrow> post (url_text bound path q) hdr body (s, h) = (Inr resp, s', h))"
begin

lemma served:
  assumes "agent_endpoint ''POST'' (path_segments path) = Some (e, vs)" and "clean_url_path path = path"
    and "e \<in> {CreateAccessEntry, AssociateAccessPolicy}"
  shows "serve sv rs sha now ''POST'' path q r s =
    Some (on_store
      ((if e = CreateAccessEntry then handleCreateAccessEntry put else handleAssociateAccessPolicy rc sha get put)
         (r\<lparr>req_path_values := zip (value_names e) vs\<rparr>)) s)"
proof -
  from configured obtain cl m where "sv_client sv = Some cl" "sv_access_entry_store sv = Some m"
    by (auto simp: configured_def)
  with client_rbac entry_store have "sv_client sv = Some cl" "sc_rbac cl = rc"
    "sv_access_entry_store sv = Some m" "em_get m = get" "em_put m = put" by blast+
  with assms(3) agent_routed [OF configured assms(2,1)] show ?thesis by (auto simp: serve_def run_endpoint_def)
qed

lemma createAccessEntry_law:
  assumes "tunnel h = Some bound" and "plain_address bound" and "plain_name n" and "ok (st_store s)"
    and "arn \<noteq> []"
  shows "\<exists>w'. createAccessEntry txt post (''http://'' @ bound @ ''/clusters/'' @ n) arn user groups (s, h) =
      (Inr (), s\<lparr>st_store := w'\<rparr>, h) \<and> ok w' \<and> bindings w' = bindings (st_store s) \<and>
    reg w' = (reg (st_store s))(principalHash sha arn \<mapsto>
      \<lparr>ae_principal_arn = arn, ae_username = user, ae_groups = groups, ae_type = AccessEntryTypeStandard,
       ae_policies = []\<rparr>)"
proof -
  let ?e = "\<lparr>ae_principal_arn = arn, ae_username = user, ae_groups = groups,
    ae_type = AccessEntryTypeStandard, ae_policies = []\<rparr>"
  note path = entries_path [OF assms(3)]
  have target: "plain_target (entries_path n) []"
    using path by (simp add: plain_target_def entries_path_def is_rooted_def)
  have url: "''http://'' @ bound @ ''/clusters/'' @ n @ ''/access-entries'' = url_text bound (entries_path n) []"
    by (simp add: url_text_def entries_path_def)
  from put_law [OF assms(4), of ?e] obtain w' where w': "put ?e (st_store s) = (Inr (), w')" "ok w'"
    "bindings w' = bindings (st_store s)" "reg w' = (reg (st_store s))(principalHash sha arn \<mapsto> ?e)" by auto
  let ?hdr = "[(''Content-Type'', [''application/json''])]"
  let ?body = "Doc (createAccessEntryRequest_json arn user groups)"
  from transport [OF assms(1) target, of ?hdr ?body s] obtain now form where
    tr: "case serve sv rs sha now ''POST'' (entries_path n) []
        \<lparr>req_path_values = [], req_query = parse_query [], req_form = form, req_header = ?hdr, req_body = ?body\<rparr> s of
      None \<Rightarrow> True
    | Some (resp, s') \<Rightarrow> post (url_text bound (entries_path n) []) ?hdr ?body (s, h) = (Inr resp, s', h)"
    by blast
  then obtain resp where "post (url_text bound (entries_path n) []) ?hdr ?body (s, h) = (Inr resp, s\<lparr>st_store := w'\<rparr>, h)"
    "resp_status resp = 200"
    using w'(1) assms(5)
    by (auto simp: served [OF path(2,1)] on_store_def handleCreateAccessEntry_def decode_created
        write_json_response_def Let_def)
  moreover have "url_parse (url_text bound (entries_path n) []) = Some []"
    using target by (intro url_parse_text assms(2)) (simp_all add: plain_target_def)
  ultimately have "createAccessEntry txt post (''http://'' @ bound @ ''/clusters/'' @ n) arn user groups (s, h) =
      (Inr (), s\<lparr>st_store := w'\<rparr>, h)"
    using url by (simp add: createAccessEntry_def postFacadeJSON_def)
  with w' show ?thesis by blast
qed

lemma associateAccessPolicy_law:
  assumes "tunnel h = Some bound" and "plain_address bound" and "plain_name n" and "ok (st_store s)"
    and "arn \<noteq> []" and "rbac_inv sha (bindings (st_store s))"
    and "reg (st_store s) (principalHash sha arn) = Some e" and "ae_principal_arn e = arn"
    and "clusterRoleForPolicy parn = Some role"
  shows "\<exists>w'. associateAccessPolicy txt post (''http://'' @ bound @ ''/clusters/'' @ n) arn parn ns (s, h) =
      (Inr (), s\<lparr>st_store := w'\<rparr>, h) \<and> ok w' \<and> rbac_inv sha (bindings w') \<and>
    (\<forall>scope b. bindings w' (scope, b) =
       (if scope = grant_scope ns \<and> b = accessEntryBindingName sha arn role
        then Some (policy_binding sha arn role scope) else bindings (st_store s) (scope, b))) \<and>
    reg w' = (reg (st_store s))(principalHash sha arn \<mapsto>
      e\<lparr>ae_policies := upsertAssociatedPolicy (ae_policies e) (granted_policy parn ns)\<rparr>)"
proof -
  let ?ty = "if ns \<noteq> [] then ''namespace'' else ''cluster''" and ?nss = "if ns \<noteq> [] then [ns] else []"
  define q where "q = ''principalArn='' @ query_escape arn"
  let ?hdr = "[(''Content-Type'', [''application/json''])]"
  let ?body = "Doc (associateAccessPolicyRequest_json parn (accessScopeRequest_json ?ty ?nss))"
  note path = policies_path [OF assms(3)]
  have "\<forall>c \<in> set ''principalArn=''. target_char c" by code_simp
  moreover have "\<forall>c \<in> set (query_escape arn). target_char c"
    using query_escape_chars [of _ arn] by (auto simp: target_char_def)
  ultimately have target: "plain_target (policies_path n) q"
    using path unfolding plain_target_def q_def set_append by (auto simp: policies_path_def is_rooted_def)
  have url: "(''http://'' @ bound @ ''/clusters/'' @ n) @ ''/access-entries/access-policies?principalArn='' @
      query_escape arn = url_text bound (policies_path n) q"
    by (simp add: url_text_def policies_path_def q_def)
  have "\<forall>c \<in> set ''principalArn''. unreserved c" by code_simp
  from parse_one [OF _ this, of arn] have query: "parse_query q = [(''principalArn'', [arn])]"
    by (simp add: q_def)
  have scope: "(if ns \<noteq> [] then accessScopeRequest_json ''namespace'' [ns]
      else accessScopeRequest_json ''cluster'' []) = accessScopeRequest_json ?ty ?nss" by simp
  have valid: "validateAssociateAccessPolicyRequest
      \<lparr>apr_policy_arn = parn, apr_scope_type = ?ty, apr_namespaces = ?nss\<rparr> = Inr (role, ?ty)"
    using assms(9) by (simp add: validateAssociateAccessPolicyRequest_def accessScopeTypeCluster_def
        accessScopeTypeNamespace_def)
  from transport [OF assms(1) target, of ?hdr ?body s] obtain now form where
    tr: "case serve sv rs sha now ''POST'' (policies_path n) q
        \<lparr>req_path_values = [], req_query = parse_query q, req_form = form, req_header = ?hdr, req_body = ?body\<rparr> s of
      None \<Rightarrow> True
    | Some (resp, s') \<Rightarrow> post (url_text bound (policies_path n) q) ?hdr ?body (s, h) = (Inr resp, s', h)"
    by blast
  let ?r = "\<lparr>req_path_values = zip (value_names AssociateAccessPolicy) [n], req_query = parse_query q,
    req_form = form, req_header = ?hdr, req_body = ?body\<rparr>"
  have arn: "values_get (req_query ?r) ''principalArn'' = arn"
    by (simp add: query values_get_def)
  have dec: "decode_associate (req_body ?r) = Some \<lparr>apr_policy_arn = parn, apr_scope_type = ?ty, apr_namespaces = ?nss\<rparr>"
    using decode_associated [of parn ?ty ?nss] by simp
  from associate_law [OF assms(4,6,7) arn assms(5) dec valid] obtain w1 w2 where
    run: "handleAssociateAccessPolicy rc sha get put ?r (st_store s) = (status_only 200, w2)"
    and ens: "ensured arn role (policy_scopes ?ty ?nss) (st_store s) w1"
    and w2: "ok w2" "rbac_inv sha (bindings w2)" "bindings w2 = bindings w1"
    and reg2: "reg w2 = (reg (st_store s))(principalHash sha arn \<mapsto>
      e\<lparr>ae_policies := upsertAssociatedPolicy (ae_policies e) (granted_policy parn ns)\<rparr>)"
    unfolding assms(8) by (auto simp: granted_policy_def)
  have scopes: "policy_scopes ?ty ?nss = {grant_scope ns}"
    by (simp add: policy_scopes_def grant_scope_def accessScopeTypeCluster_def)
  from tr run have "post (url_text bound (policies_path n) q) ?hdr ?body (s, h) =
      (Inr (status_only 200), s\<lparr>st_store := w2\<rparr>, h)"
    by (simp add: served [OF path(2,1)] on_store_def)
  moreover have "url_parse (url_text bound (policies_path n) q) = Some q"
    using target by (intro url_parse_text assms(2)) (simp_all add: plain_target_def)
  ultimately have "associateAccessPolicy txt post (''http://'' @ bound @ ''/clusters/'' @ n) arn parn ns (s, h) =
      (Inr (), s\<lparr>st_store := w2\<rparr>, h)"
    unfolding associateAccessPolicy_def postFacadeJSON_def Let_def url scope by (simp add: status_only_def)
  with ens w2 reg2 show ?thesis unfolding ensured_def scopes by auto
qed

text \<open>What is recorded of a principal after a grant: its identity and the one policy.\<close>

lemma runGrantAccessEntry_law:
  assumes "map_of accessPolicyARNs (ao_policy opts) = Some parn"
    and "clusterRoleForPolicy parn = Some role"
    and "plain_name (po_cluster_name (ao_registry opts))"
    and "connect (context_of (ao_registry opts)) f = Inr client"
    and "secret_get_by_name client (ao_principal opts) (st_store (fst s)) = (Inr p, w1)"
    and "p_arn p \<noteq> []" and "ok w1" and "rbac_inv sha (bindings w1)"
    and "rk_port_forward rk (po_cluster_name (ao_registry opts)) (AgentLoopbackHost @ '':0'')
      (''127.0.0.1:'' @ string_of_int AgentNodePort) (snd s) = (Inr bound, h1)"
  shows "\<exists>w'. runGrantAccessEntry connect (Inr rk) cancel txt post opts f s =
      (Inr (), (fst s)\<lparr>st_store := w'\<rparr>, cancel h1) \<and> ok w' \<and> rbac_inv sha (bindings w') \<and>
    (\<forall>scope b. bindings w' (scope, b) =
       (if scope = grant_scope (ao_namespace opts) \<and> b = accessEntryBindingName sha (p_arn p) role
        then Some (policy_binding sha (p_arn p) role scope) else bindings w1 (scope, b))) \<and>
    get (p_arn p) w' = (Inr (granted_entry (p_arn p) opts parn), w')"
proof -
  let ?n = "po_cluster_name (ao_registry opts)" and ?arn = "p_arn p"
  let ?s1 = "(fst s)\<lparr>st_store := w1\<rparr>"
  let ?base = "''http://'' @ bound @ ''/clusters/'' @ ?n"
  from forward [OF assms(9)] have tunnel: "tunnel h1 = Some bound" "plain_address bound" by simp_all
  have ok1: "ok (st_store ?s1)" using assms(7) by simp
  let ?e = "\<lparr>ae_principal_arn = ?arn, ae_username = ao_username opts, ae_groups = ao_groups opts,
    ae_type = AccessEntryTypeStandard, ae_policies = []\<rparr>"
  from createAccessEntry_law [OF tunnel assms(3) ok1 assms(6), of "txt" "ao_username opts" "ao_groups opts"]
  obtain w2 where created: "createAccessEntry txt post ?base ?arn (ao_username opts) (ao_groups opts) (?s1, h1) =
      (Inr (), (fst s)\<lparr>st_store := w2\<rparr>, h1)" and w2: "ok w2" "bindings w2 = bindings w1"
    "reg w2 (principalHash sha ?arn) = Some ?e" by auto
  let ?s2 = "(fst s)\<lparr>st_store := w2\<rparr>"
  have ok2: "ok (st_store ?s2)" "rbac_inv sha (bindings (st_store ?s2))"
    "reg (st_store ?s2) (principalHash sha ?arn) = Some ?e" "ae_principal_arn ?e = ?arn"
    using w2 assms(8) by simp_all
  from associateAccessPolicy_law [OF tunnel assms(3) ok2(1) assms(6) ok2(2-4) assms(2), of "txt" "ao_namespace opts"]
  obtain w3 where associated: "associateAccessPolicy txt post ?base ?arn parn (ao_namespace opts) (?s2, h1) =
      (Inr (), (fst s)\<lparr>st_store := w3\<rparr>, h1)" and w3: "ok w3" "rbac_inv sha (bindings w3)"
    "\<forall>scope b. bindings w3 (scope, b) =
       (if scope = grant_scope (ao_namespace opts) \<and> b = accessEntryBindingName sha ?arn role
        then Some (policy_binding sha ?arn role scope) else bindings w1 (scope, b))"
    "reg w3 (principalHash sha ?arn) = Some (granted_entry ?arn opts parn)"
    using w2(2) by (auto simp: granted_entry_def)
  have "agentEndpoint rk cancel ?n (snd s) = (Inr (''http://'' @ bound), h1)"
    using assms(9) by (simp add: agentEndpoint_def PortForward_def)
  with created associated assms(1,4,5) have "runGrantAccessEntry connect (Inr rk) cancel txt post opts f s =
      (Inr (), (fst s)\<lparr>st_store := w3\<rparr>, cancel h1)"
    by (simp add: runGrantAccessEntry_def grant_calls_def)
  moreover have "get ?arn w3 = (Inr (granted_entry ?arn opts parn), w3)"
    using get_law [OF w3(1), of ?arn] w3(4) by simp
  ultimately show ?thesis using w3(1-3) by blast
qed

end

section \<open>A host and a cluster to compute with\<close>

text \<open>The host is the address of its port forward; what is sent there goes to \<open>demo_server\<close>.\<close>

definition demo_rask :: "string option rask" where
  "demo_rask =
     \<lparr>rk_create = (\<lambda>_ _ h. (Inr (), h)), rk_delete = (\<lambda>_ h. (Inr (), h)), rk_list = (\<lambda>_. Inr [''fjord'']),
      rk_load_images = (\<lambda>_ _ h. (Inr (), h)), rk_kubeconfig = (\<lambda>_ _. Inr []),
      rk_preboot_path = (\<lambda>_ p. p),
      rk_port_forward = (\<lambda>_ _ _ _. (Inr ''127.0.0.1:40001'', Some ''127.0.0.1:40001''))\<rparr>"

definition demo_post :: "(ref_world \<times> (binding_key \<Rightarrow> binding option), nat, string option) http_post" where
  "demo_post endpoint hdr body s =
     (case snd s of
        None \<Rightarrow> (Inl (Errorf ''connection refused'' []), s)
      | Some bound \<Rightarrow>
          (case cut_prefix (''http://'' @ bound) endpoint of
             None \<Rightarrow> (Inl (Errorf ''connection refused'' []), s)
           | Some target \<Rightarrow>
               (let (path, q) = (case cut_at (CHR ''?'') target of None \<Rightarrow> (target, []) | Some p \<Rightarrow> p) in
                case serve demo_server counter_rand pad_sha 0 ''POST'' path q
                       \<lparr>req_path_values = [], req_query = parse_query q, req_form = None, req_header = hdr,
                        req_body = body\<rparr> (fst s) of
                  None \<Rightarrow> (Inl (Errorf ''EOF'' []), s)
                | Some (resp, s') \<Rightarrow> (Inr resp, s', snd s))))"

lemma demo_post_text:
  assumes "plain_target path q"
  shows "demo_post (url_text bound path q) hdr body (s, Some bound) =
    (case serve demo_server counter_rand pad_sha 0 ''POST'' path q
            \<lparr>req_path_values = [], req_query = parse_query q, req_form = None, req_header = hdr,
             req_body = body\<rparr> s of
       None \<Rightarrow> (Inl (Errorf ''EOF'' []), s, Some bound)
     | Some (resp, s') \<Rightarrow> (Inr resp, s', Some bound))"
proof -
  have noq: "CHR ''?'' \<notin> set path" using assms by (auto simp: plain_target_def)
  have "cut_prefix (''http://'' @ bound) (url_text bound path q) =
      Some (path @ (if q = [] then [] else CHR ''?'' # q))"
    by (simp add: url_text_def cut_prefix_Some_iff)
  moreover have "(case cut_at (CHR ''?'') (path @ (if q = [] then [] else CHR ''?'' # q)) of
      None \<Rightarrow> (path @ (if q = [] then [] else CHR ''?'' # q), []) | Some p \<Rightarrow> p) = (path, q)"
    using noq by (cases "q = []") simp_all
  ultimately show ?thesis by (simp add: demo_post_def split: option.split)
qed

lemma demo_address: "plain_address ''127.0.0.1:40001''"
  by code_simp

interpretation demo_access: agent_access ref_rbac pad_sha
  "\<lambda>a. on_objects (entry_get (ref_client (\<lambda>w. w)) pad_sha a)"
  "\<lambda>e. on_objects (entry_put (ref_client (\<lambda>w. w)) pad_sha e)"
  "\<lambda>s. entry_reg ref_cur (fst s)" "\<lambda>s. entry_ok ref_cur pad_sha (fst s)" snd
  demo_server counter_rand demo_rask demo_post "\<lambda>h. h"
proof (intro agent_access.intro agent_access_axioms.intro)
  show "policy_world ref_rbac pad_sha (\<lambda>a. on_objects (entry_get (ref_client (\<lambda>w. w)) pad_sha a))
      (\<lambda>e. on_objects (entry_put (ref_client (\<lambda>w. w)) pad_sha e))
      (\<lambda>s. entry_reg ref_cur (fst s)) (\<lambda>s. entry_ok ref_cur pad_sha (fst s)) snd"
    by (rule ref_policy.policy_world_axioms)
  show "configured demo_server" by (rule demo_configured)
next
  fix h :: "string option" and bound path q hdr body
    and s :: "(ref_world \<times> (binding_key \<Rightarrow> binding option), nat) sts_state"
  assume "h = Some bound" and "plain_target path q"
  then show "\<exists>now form.
      case serve demo_server counter_rand pad_sha now ''POST'' path q
             \<lparr>req_path_values = [], req_query = parse_query q, req_form = form, req_header = hdr,
              req_body = body\<rparr> s of
        None \<Rightarrow> True
      | Some (resp, s') \<Rightarrow> demo_post (url_text bound path q) hdr body (s, h) = (Inr resp, s', h)"
    by (intro exI [of _ 0] exI [of _ None]) (simp add: demo_post_text split: option.split)
qed (auto simp: demo_server_def demo_options_def NewServer_def WithPodIdentity_def WithEKSAPI_def
    demo_client_def demo_entries_def demo_rask_def demo_address)

text \<open>A client of the objects next to the bindings.\<close>

definition demo_api :: "(ref_world \<times> (binding_key \<Rightarrow> binding option)) data_client" where
  "demo_api =
     \<lparr>api_get = (\<lambda>ns nm. on_objects (api_get (ref_client (\<lambda>w. w)) ns nm)),
      api_create = (\<lambda>ob. on_objects (api_create (ref_client (\<lambda>w. w)) ob)),
      api_update = (\<lambda>ob. on_objects (api_update (ref_client (\<lambda>w. w)) ob)),
      retry_on_conflict = retry_spec 4\<rparr>"

definition demo_connect :: "(unit, ref_world \<times> (binding_key \<Rightarrow> binding option)) connect" where
  "demo_connect _ _ = Inr demo_api"

text \<open>The principal of the entry of \<open>granted_world\<close>, which may view one namespace.\<close>

definition dev_principal :: principal where
  "dev_principal = \<lparr>p_access_key_id = ''AKIA1'', p_arn = demo_arn, p_name = ''dev''\<rparr>"

definition demo_cluster :: "ref_world \<times> (binding_key \<Rightarrow> binding option)" where
  "demo_cluster =
     (\<lparr>rw_objects =
         [(SystemNamespace, AccessEntriesConfigMapName) \<mapsto>
            (1, [(principalHash pad_sha demo_arn, encode_entry (bare_entry\<lparr>ae_policies := [view_policy]\<rparr>))]),
          (SystemNamespace, PrincipalsSecretName) \<mapsto>
            (2, [(p_access_key_id dev_principal, encode_principal dev_principal)])], rw_foreign = []\<rparr>,
      snd granted_world)"

definition demo_grant :: accessEntryOptions where
  "demo_grant =
     \<lparr>ao_registry = \<lparr>po_cluster_name = ''fjord'', po_kube_context = []\<rparr>, ao_principal = ''dev'',
      ao_policy = ''Edit'', ao_namespace = ''prod'', ao_username = ''developer'', ao_groups = [''team'']\<rparr>"

definition demo_agent_state :: "(ref_world \<times> (binding_key \<Rightarrow> binding option), nat) sts_state" where
  "demo_agent_state = \<lparr>st_store = demo_cluster, st_sessions = [], st_rng = 0\<rparr>"

lemma demo_names: "AccessEntriesConfigMapName \<noteq> PrincipalsSecretName"
  by (simp add: AccessEntriesConfigMapName_def PrincipalsSecretName_def)

lemma demo_cluster_facts:
  "entry_ok ref_cur pad_sha (fst demo_cluster)"
  "rbac_inv pad_sha (snd demo_cluster)"
  "entry_reg ref_cur (fst demo_cluster) (principalHash pad_sha demo_arn) =
     Some (bare_entry\<lparr>ae_policies := [view_policy]\<rparr>)"
proof -
  show "entry_ok ref_cur pad_sha (fst demo_cluster)"
    using demo_names
    by (simp add: demo_cluster_def entry_ok_def kv_ok_def registered_def ref_cur_def bare_entry_def
        demo_entry_def demo_arn_def)
  show "entry_reg ref_cur (fst demo_cluster) (principalHash pad_sha demo_arn) =
     Some (bare_entry\<lparr>ae_policies := [view_policy]\<rparr>)"
    using demo_names by (simp add: demo_cluster_def entry_reg_def kv_reg_def registered_def ref_cur_def)
  show "rbac_inv pad_sha (snd demo_cluster)"
    using granted_world_facts(2) by (simp add: demo_cluster_def)
qed

lemma demo_principal: "secret_get_by_name demo_api ''dev'' demo_cluster = (Inr dev_principal, demo_cluster)"
  using demo_names [symmetric]
  by (simp add: demo_api_def secret_get_by_name_def secret_list_unsorted_def get_secret_def
      get_registry_def on_objects_def ref_client_def ref_get_def ref_cur_def demo_cluster_def
      dev_principal_def first_named_def Let_def)

lemma demo_grant_facts:
  "map_of accessPolicyARNs (ao_policy demo_grant) = Some StandardAccessPolicyEdit"
  "clusterRoleForPolicy StandardAccessPolicyEdit = Some ''edit''"
  "plain_name (po_cluster_name (ao_registry demo_grant))"
  "demo_connect (context_of (ao_registry demo_grant)) () = Inr demo_api"
  "secret_get_by_name demo_api (ao_principal demo_grant) (st_store (fst (demo_agent_state, None :: string option))) =
     (Inr dev_principal, demo_cluster)"
  "p_arn dev_principal \<noteq> []"
  "rk_port_forward demo_rask (po_cluster_name (ao_registry demo_grant)) (AgentLoopbackHost @ '':0'')
     (''127.0.0.1:'' @ string_of_int AgentNodePort) (snd (demo_agent_state, None :: string option)) =
     (Inr ''127.0.0.1:40001'', Some ''127.0.0.1:40001'')"
proof -
  show "map_of accessPolicyARNs (ao_policy demo_grant) = Some StandardAccessPolicyEdit"
    "clusterRoleForPolicy StandardAccessPolicyEdit = Some ''edit''"
    "plain_name (po_cluster_name (ao_registry demo_grant))"
    by code_simp+
qed (simp_all add: demo_connect_def demo_agent_state_def demo_grant_def demo_principal demo_world_facts(5)
    demo_rask_def dev_principal_def)

section \<open>Properties\<close>

text \<open>
  C32: \<open>fjord grant access-entry\<close> takes effect. With a registered principal and a reachable agent
  the command succeeds; the agent's routes, the escaping of the ARN and the JSON on the way
  lead to an access entry with the username, the groups and the policy that were asked for,
  its policy's ClusterRole is bound to the group of the principal's users in exactly the scope
  asked for, no other binding changes, and the port forward is given back.
\<close>

theorem granted_access_takes_effect:
  assumes "agent_access rc sha get put reg ok bindings sv rs rk post tunnel"
    and "map_of accessPolicyARNs (ao_policy opts) = Some parn"
    and "plain_name (po_cluster_name (ao_registry opts))"
    and "connect (context_of (ao_registry opts)) f = Inr client"
    and "secret_get_by_name client (ao_principal opts) (st_store (fst s)) = (Inr p, w1)"
    and "p_arn p \<noteq> []" and "ok w1" and "rbac_inv sha (bindings w1)"
    and "rk_port_forward rk (po_cluster_name (ao_registry opts)) (AgentLoopbackHost @ '':0'')
      (''127.0.0.1:'' @ string_of_int AgentNodePort) (snd s) = (Inr bound, h1)"
  shows "\<exists>w' role. runGrantAccessEntry connect (Inr rk) cancel texts post opts f s =
      (Inr (), (fst s)\<lparr>st_store := w'\<rparr>, cancel h1) \<and>
    clusterRoleForPolicy parn = Some role \<and> ok w' \<and> rbac_inv sha (bindings w') \<and>
    (\<forall>scope b. bindings w' (scope, b) =
       (if scope = grant_scope (ao_namespace opts) \<and> b = accessEntryBindingName sha (p_arn p) role
        then Some (policy_binding sha (p_arn p) role scope) else bindings w1 (scope, b))) \<and>
    (\<exists>e. get (p_arn p) w' = (Inr e, w') \<and> ae_principal_arn e = p_arn p \<and>
       ae_username e = ao_username opts \<and>
       EffectiveGroups sha e = ao_groups opts @ [principalGroup sha (p_arn p)] \<and>
       ae_policies e = [granted_policy parn (ao_namespace opts)])"
proof -
  from policy_roles [OF assms(2)] obtain role where role: "clusterRoleForPolicy parn = Some role" by blast
  from agent_access.runGrantAccessEntry_law
    [where connect = connect and opts = opts and f = f and s = s and cancel = cancel, OF assms(1,2) role assms(3-9),
     of texts] role
  show ?thesis by (fastforce simp: granted_entry_def EffectiveGroups_def)
qed

theorem granted_access_takes_effect_witness:
  "\<exists>w'. runGrantAccessEntry demo_connect (Inr demo_rask) (\<lambda>_. None) \<lparr>ht_status = string_of_nat, ht_message = (\<lambda>_. [])\<rparr>
       demo_post demo_grant () (demo_agent_state, None) = (Inr (), demo_agent_state\<lparr>st_store := w'\<rparr>, None) \<and>
     snd w' (Some ''prod'', accessEntryBindingName pad_sha demo_arn ''edit'') =
       Some (policy_binding pad_sha demo_arn ''edit'' (Some ''prod''))"
proof -
  note g = demo_grant_facts
  have arn: "p_arn dev_principal = demo_arn" and ns: "grant_scope (ao_namespace demo_grant) = Some ''prod''"
    by (simp_all add: dev_principal_def demo_grant_def grant_scope_def)
  from granted_access_takes_effect [where connect = demo_connect and opts = demo_grant and f = "()"
      and s = "(demo_agent_state, None)" and cancel = "\<lambda>_. None", OF demo_access.agent_access_axioms g(1,3-6)
      demo_cluster_facts(1,2) g(7), of "\<lparr>ht_status = string_of_nat, ht_message = (\<lambda>_. [])\<rparr>"]
  obtain w' where "runGrantAccessEntry demo_connect (Inr demo_rask) (\<lambda>_. None)
      \<lparr>ht_status = string_of_nat, ht_message = (\<lambda>_. [])\<rparr> demo_post demo_grant () (demo_agent_state, None) =
      (Inr (), demo_agent_state\<lparr>st_store := w'\<rparr>, None)"
    and "\<forall>scope b. snd w' (scope, b) =
      (if scope = Some ''prod'' \<and> b = accessEntryBindingName pad_sha demo_arn ''edit''
       then Some (policy_binding pad_sha demo_arn ''edit'' scope) else snd demo_cluster (scope, b))"
    unfolding arn ns g(2) by auto
  then show ?thesis by (intro exI [of _ w']) simp
qed

text \<open>
  C38: a grant forgets the policies granted before. The command registers the access entry anew,
  without its policies, and then records the one it was called with: another policy of the
  principal is no longer listed and can no longer be disassociated, although its bindings stay.
\<close>

theorem second_grant_orphans_first:
  assumes "agent_access rc sha get put reg ok bindings sv rs rk post tunnel"
    and "map_of accessPolicyARNs (ao_policy opts) = Some parn"
    and "plain_name (po_cluster_name (ao_registry opts))"
    and "connect (context_of (ao_registry opts)) f = Inr client"
    and "secret_get_by_name client (ao_principal opts) (st_store (fst s)) = (Inr p, w1)"
    and "p_arn p \<noteq> []" and "ok w1" and "rbac_inv sha (bindings w1)"
    and "rk_port_forward rk (po_cluster_name (ao_registry opts)) (AgentLoopbackHost @ '':0'')
      (''127.0.0.1:'' @ string_of_int AgentNodePort) (snd s) = (Inr bound, h1)"
    and "clusterRoleForPolicy earlier = Some role" and "earlier \<noteq> parn" and "earlier \<noteq> []"
    and "bindings w1 (scope, accessEntryBindingName sha (p_arn p) role) =
      Some (policy_binding sha (p_arn p) role scope)"
    and "runGrantAccessEntry connect (Inr rk) cancel texts post opts f s = (res, s', h')"
    and "values_get (req_query r) ''principalArn'' = p_arn p"
    and "values_get (req_query r) ''policyArn'' = earlier"
    and "handleDisassociateAccessPolicy rc sha get put r (st_store s') = (resp, w')"
  shows "res = Inr () \<and> resp_status resp = 404 \<and> w' = st_store s' \<and>
    bindings w' (scope, accessEntryBindingName sha (p_arn p) role) =
      Some (policy_binding sha (p_arn p) role scope)"
proof -
  from policy_roles [OF assms(2)] obtain new where new: "clusterRoleForPolicy parn = Some new" by blast
  from agent_access.runGrantAccessEntry_law
    [where connect = connect and opts = opts and f = f and s = s and cancel = cancel, OF assms(1,2) new assms(3-9),
     of texts] assms(14)
  obtain w2 where out: "res = Inr ()" "st_store s' = w2"
    and b: "\<forall>scope b. bindings w2 (scope, b) =
      (if scope = grant_scope (ao_namespace opts) \<and> b = accessEntryBindingName sha (p_arn p) new
       then Some (policy_binding sha (p_arn p) new scope) else bindings w1 (scope, b))"
    and got: "get (p_arn p) w2 = (Inr (granted_entry (p_arn p) opts parn), w2)" by auto
  have pw: "policy_world rc sha get put reg ok bindings" by (rule agent_access.axioms(1) [OF assms(1)])
  have "bindings w2 (scope, accessEntryBindingName sha (p_arn p) role) =
      Some (policy_binding sha (p_arn p) role scope)"
    using b assms(13) policy_world.policy_binding_cong [OF pw, of "p_arn p" new "p_arn p" role] by auto
  moreover have "findAssociatedPolicy (ae_policies (granted_entry (p_arn p) opts parn)) earlier = None"
    using assms(11) by (simp add: granted_entry_def granted_policy_def findAssociatedPolicy_def)
  ultimately show ?thesis
    using assms(6,10,12,15-17) out got
    by (auto simp: handleDisassociateAccessPolicy_def write_eks_auth_error_def)
qed

theorem second_grant_orphans_first_witness:
  "\<exists>s' h' resp w'. runGrantAccessEntry demo_connect (Inr demo_rask) (\<lambda>_. None)
       \<lparr>ht_status = string_of_nat, ht_message = (\<lambda>_. [])\<rparr> demo_post demo_grant () (demo_agent_state, None) =
       (Inr (), s', h') \<and>
     handleDisassociateAccessPolicy ref_rbac pad_sha
       (\<lambda>a. on_objects (entry_get (ref_client (\<lambda>w. w)) pad_sha a))
       (\<lambda>e. on_objects (entry_put (ref_client (\<lambda>w. w)) pad_sha e)) (scope_request []) (st_store s') = (resp, w') \<and>
     resp_status resp = 404 \<and>
     snd w' (Some ''dev'', accessEntryBindingName pad_sha demo_arn ''view'') =
       Some (policy_binding pad_sha demo_arn ''view'' (Some ''dev''))"
proof -
  note g = demo_grant_facts
  let ?texts = "\<lparr>ht_status = string_of_nat, ht_message = (\<lambda>_. [])\<rparr>"
  obtain res s' h' where run: "runGrantAccessEntry demo_connect (Inr demo_rask) (\<lambda>_. None) ?texts demo_post
      demo_grant () (demo_agent_state, None) = (res, s', h')" by (metis surj_pair)
  obtain resp w' where dis: "handleDisassociateAccessPolicy ref_rbac pad_sha
      (\<lambda>a. on_objects (entry_get (ref_client (\<lambda>w. w)) pad_sha a))
      (\<lambda>e. on_objects (entry_put (ref_client (\<lambda>w. w)) pad_sha e)) (scope_request []) (st_store s') = (resp, w')"
    by (metis surj_pair)
  have arn: "p_arn dev_principal = demo_arn" by (simp add: dev_principal_def)
  have earlier: "ap_policy_arn view_policy \<noteq> StandardAccessPolicyEdit" "ap_policy_arn view_policy \<noteq> []"
    by (simp_all add: view_policy_def StandardAccessPolicyEdit_def)
  have old: "snd demo_cluster (Some ''dev'', accessEntryBindingName pad_sha (p_arn dev_principal) ''view'') =
      Some (policy_binding pad_sha (p_arn dev_principal) ''view'' (Some ''dev''))"
    by (simp add: demo_cluster_def granted_world_def granting_world_def dev_principal_def)
  from second_grant_orphans_first [where connect = demo_connect and opts = demo_grant and f = "()"
      and s = "(demo_agent_state, None)" and cancel = "\<lambda>_. None", OF demo_access.agent_access_axioms g(1,3-6) demo_cluster_facts(1,2) g(7)
      view_role earlier old run _ _ dis]
  have "res = Inr () \<and> resp_status resp = 404 \<and>
      snd w' (Some ''dev'', accessEntryBindingName pad_sha demo_arn ''view'') =
        Some (policy_binding pad_sha demo_arn ''view'' (Some ''dev''))"
    by (auto simp: scope_request_facts arn)
  with run dis show ?thesis by blast
qed

end
