(* ===== verification/Spec2Isabelle.thy ===== *)
theory Spec2Isabelle
  imports Facade Authenticator Cluster_Info Imds Injector Cnp_Controller Tgb_Controller
    Component_Dir Deployment Agent_Rbac Storage_Class Principal_Login Tgb_Crd Release_Table
    Cluster_Creation Grant_Access
begin

text \<open>
  A model of fjord, which runs an EKS cluster on a developer's machine: the agent that emulates
  the AWS APIs (\<open>internal/agent\<close>), its deployment into the cluster (\<open>cli\<close>, \<open>internal/cluster\<close>,
  \<open>internal/pki\<close>, \<open>internal/authn\<close>), the provider that creates clusters (\<open>internal/provider\<close>,
  \<open>internal/rask\<close>), and the download of the EKS Distro releases they run (\<open>internal/eksd\<close>,
  \<open>internal/eksdcache\<close>, \<open>internal/componentdir\<close>), with the properties that make their parts
  correct.

  \<^bold>\<open>The program.\<close> Administrators register IAM principals, access entries and Pod Identity
  associations; they are kept as JSON records in one Kubernetes Secret or ConfigMap each. The
  fake STS hands out temporary credentials and tells who an access key belongs to; the
  authenticator webhook turns a presigned STS URL in a bearer token into a Kubernetes user; the
  EKS Auth endpoint and the instance metadata service hand credentials to pods and nodes,
  registered where the STS finds them; the EKS facade manages access entries and the RBAC
  bindings of their policies; the admission webhook injects the endpoints into pods; the
  controllers translate AWS custom resources into standard objects. The command line creates a
  cluster whose API server asks the authenticator, and deploys agent, authenticator, webhooks,
  metadata service and pod identity agent into it, with certificates of a CA it makes; it
  registers principals and writes kubeconfig entries that authenticate as them.

  \<^bold>\<open>Theories and files.\<close>
  \<^item> \<open>Prelude\<close>: Go strings, errors, maps and sorting; \<open>Go_Json\<close>, \<open>Go_Url\<close>, \<open>Rfc3339\<close>,
    \<open>Http\<close>: what the sources use of Go's standard library; \<open>Random_Source\<close>:
    \<open>randomHexString\<close> over a source of randomness.
  \<^item> \<open>Kube_Api\<close>: the client of one stored object, with the read-modify-write cycles and their
    retry on conflict; \<open>Keyed_Store\<close>: a record per key in such an object.
  \<^item> \<open>Principal_Store\<close>, \<open>Pod_Identity_Store\<close> (\<open>store.go\<close>), \<open>Access_Entry\<close>
    (\<open>accessentry.go\<close>), \<open>Cluster_Info\<close> (\<open>clusterinfo.go\<close>): the stores, each in its
    API-backed and its in-memory form.
  \<^item> \<open>Sts\<close> (\<open>sts.go\<close>, \<open>session.go\<close>), \<open>Authenticator\<close> (\<open>authenticator.go\<close>),
    \<open>Eks_Auth\<close> (\<open>eksauth.go\<close>), \<open>Imds\<close> (\<open>imds.go\<close>), \<open>Facade\<close>
    (\<open>facade.go\<close>, \<open>facade_addons.go\<close>): the HTTP services; \<open>Agent_Server\<close>
    (\<open>server.go\<close>): the routes that lead to them; \<open>Go_Escape\<close>: URLs put together and read
    back; \<open>Grant_Access\<close> (\<open>cli/accessentry.go\<close>, \<open>cli/agentendpoint.go\<close>): the command that
    grants access through them.
  \<^item> \<open>Json_Patch\<close> and \<open>Injector\<close> (\<open>injector.go\<close>): the admission webhook.
  \<^item> \<open>Cnp\<close> (\<open>clusternetworkpolicy.go\<close>), \<open>Reconcile_Queue\<close> and \<open>Cnp_Controller\<close>
    (\<open>cnpcontroller.go\<close>): cluster network policies.
  \<^item> \<open>Load_Balancer\<close> (\<open>loadbalancercontroller.go\<close>): the addresses of LoadBalancer Services;
    \<open>Target_Group_Binding\<close> (\<open>targetgroupbinding.go\<close>) and \<open>Tgb_Controller\<close>
    (\<open>targetgroupbindingcontroller.go\<close>): the targets of TargetGroupBindings.
  \<^item> \<open>Eksd_Release\<close> (\<open>internal/eksd/fetch.go\<close>, \<open>types.go\<close>): the manifest of a release and the
    search for the latest one; \<open>Release_Table\<close> (\<open>resolve.go\<close>, \<open>generated_table.go\<close>,
    \<open>cli/eks.go\<close>): the releases the program knows; \<open>Go_Path\<close> (Go's \<open>filepath\<close>) and \<open>File_System\<close> (Go's \<open>os\<close>,
    with a disk on which any operation may fail); \<open>Eksd_Cache\<close>
    (\<open>internal/eksdcache/cache.go\<close>): the verified download; \<open>Component_Dir\<close>
    (\<open>internal/componentdir\<close>): the extraction of the binaries, which rests on it.
  \<^item> \<open>Cluster_Api\<close>: the objects of a cluster and the two ways they are installed, created if
    absent or created or updated; \<open>Agent_Install\<close> (\<open>internal/cluster/agent.go\<close>, \<open>kumo.go\<close>,
    \<open>imds.go\<close>, \<open>podidentity.go\<close>, \<open>authenticator.go\<close>), \<open>Irsa_Install\<close> (\<open>irsa.go\<close>) and
    \<open>Storage_Class\<close> (\<open>storageclass.go\<close>): what is installed; \<open>Agent_Rbac\<close>: what the agent's
    role allows, against what its handlers and controllers ask for.
  \<^item> \<open>Manifest_Apply\<close> (\<open>dynamicapply.go\<close>, \<open>clusternetworkpolicy.go\<close> and
    \<open>networkpolicyenforcer.go\<close> of \<open>internal/cluster\<close>): manifests applied by merge patch;
    \<open>Tgb_Crd\<close> (\<open>targetgroupbinding.go\<close> there): the resource definition of TargetGroupBindings
    against what their controller writes.
  \<^item> \<open>Pki\<close> (\<open>internal/pki\<close>): the certificate authority; \<open>Provider\<close> (\<open>internal/provider\<close>,
    \<open>internal/rask\<close>): clusters; \<open>Kubeconfig\<close> (\<open>cli/kubeconfig.go\<close>, \<open>cli/principal.go\<close>):
    principals and kubeconfig entries; \<open>Principal_Login\<close>: what kubectl does with an entry, up to
    the authenticator; \<open>Authn_Stage\<close> (\<open>internal/authn/stage.go\<close>): what the API
    server needs before the cluster exists.
  \<^item> \<open>Deploy_Agent\<close> (\<open>deployAgent\<close> of \<open>cli/create.go\<close>, \<open>cli/build.go\<close>): the deployment;
    \<open>Frames\<close>: calls that leave a part of the world alone; \<open>Deploy_World\<close>, \<open>Deploy_Site\<close>: the
    world a deployment runs in, and one that can be computed with; \<open>Deployment\<close>: its properties.
  \<^item> \<open>Create_Cluster\<close> (\<open>cli/create.go\<close>, \<open>cli/delete.go\<close>, \<open>cli/provider.go\<close>): the commands that create and
    delete a cluster, from its options to the deployment of the agent; \<open>Cluster_Creation\<close>: a
    host they can be computed on, and their properties.

  \<^bold>\<open>How code is modelled.\<close> Structs are records, enumerations datatypes or the strings the code
  compares. A function that may fail returns a sum, \<open>Inl\<close> the error value with its wrapping
  (the rendered text is not built). An effect is a function on a world of a type variable: the
  API server, its retry loop, the randomness, SHA-256, TokenReviews, RBAC, the application of
  a JSON patch, the matching of label selectors, RSA and X.509, docker, rask and clientcmd are
  parameters, and what the code relies on
  is a locale each (\<open>data_api\<close>, \<open>quiet_data_api\<close>, \<open>principal_store\<close>, \<open>policy_world\<close>,
  \<open>json_patch\<close>, \<open>label_selectors\<close>, \<open>np_api\<close>, \<open>service_api\<close>, \<open>binding_api\<close>,
  \<open>leftovers_api\<close>, \<open>manifest_server\<close>, \<open>file_system\<close>, \<open>download_world\<close>, \<open>cluster_api\<close>,
  \<open>reliable_cluster\<close>, \<open>kube_files\<close>, \<open>dynamic_cluster\<close>, \<open>x509\<close>, \<open>install_world\<close>,
  \<open>deploy_world\<close>, \<open>reliable_deploy\<close>, \<open>create_files\<close>, \<open>agent_access\<close>), interpreted on a
  reference implementation and, where fjord provides it, on the model of fjord's own code. A Go map is
  an association list whose order stands for one iteration order. JSON texts are parsed
  documents or malformed. Clock readings are arguments or read off the world, instants are
  nanoseconds since the epoch. Ports are Go's int32 with the wrap-around written out.

  \<^bold>\<open>What is shown.\<close> The stores refine an abstract registry and lose no update under concurrent
  writers; credentials issued by any service resolve to the identity they were issued for, and
  where they stop doing so; tokens live exactly as long as announced; every request reaches the
  endpoint documented for it; policies bind exactly what they say, from the command line to the
  binding, and which bindings are lost sight of; a translated network policy admits what the
  cluster network policy means, but in three cases that are spelt out; the webhook adds exactly what is missing and settles; the
  controllers converge and miss no event; the search for a release returns; what is downloaded
  is handed out only when verified and extracted all or nothing; a deployment succeeds over
  every state the API server has no documented reason to refuse, installs objects that fit
  together, exactly those, and webhooks the API server trusts, for a year; the agent's role lets
  it bind exactly the roles of the access policies, and stops its load balancing controllers; a
  version resolves to its release and the default is the latest, in any order of the table; a manifest is applied without touching what it does not mention; a resource
  definition admits what its controller writes; a principal's kubeconfig entry authenticates as
  the principal once it has an access entry; a created cluster runs the release asked for, and its
  API server trusts and asks the authenticator that is then deployed.

  \<^bold>\<open>Bounds.\<close> The search for the latest number needs a power of two up to 2^62 whose number is
  not published (Go's int has 64 bits); the retry policies make four
  (\<open>retry.DefaultBackoff\<close>) or five (\<open>retry.DefaultRetry\<close>) attempts and are a parameter of
  which only that the result comes from an attempt is used; timestamps are for instants before
  the year 10000 (\<open>max_seconds\<close>), the range of the RFC 3339 format.

  \<^bold>\<open>Idealisations.\<close> A stored object is the object sent, with no defaults of the API server
  (\<open>cluster_api\<close>, \<open>dynamic_cluster\<close>); \<open>reliable_cluster\<close> refuses taken node ports, changes of what
  is immutable and what a parameter \<open>admits\<close> rejects. A RoleBinding can be created in any
  namespace (\<open>policy_world\<close>). The mode of a file is the one it is opened with, without umask, and
  a failing \<open>Close\<close> loses nothing (\<open>file_system\<close>). rask and docker act on the world and not on the
  files of the host (\<open>deploy_world\<close>, \<open>create_files\<close>). The service of an EndpointSlice never changes
  (\<open>caches_change\<close>). Of the AWS CLI only that \<open>eks get-token\<close> prints a presigned GetCallerIdentity
  URL of the endpoint and access key in its environment is used (\<open>eks_get_token\<close>).

  \<^bold>\<open>Not modelled.\<close> The informers and work queues of client-go (their events are steps of the
  environment), TLS and HTTP transport, the text of error messages; the flags and progress
  messages of the command line, the contents of the embedded YAML manifests, the rewriting of
  image archives, the generator of the table of releases, the start of the agent's servers and
  the logger, which mostly call libraries.
\<close>

end
